(* ===== verification/Prelude.thy ===== *)
theory Prelude
  imports Main "HOL-Library.Word"
begin

text \<open>
  Shared vocabulary of the development: bytes and byte vectors, little-endian fields,
  the ways a C++ operation of wificond can fail to return normally (\<open>fault\<close>),
  and the result type \<open>'a res\<close> with its sequencing operator.

  The program reads packet buffers through \<open>reinterpret_cast\<close>. It is built for
  little-endian targets, so a field of \<open>n\<close> bytes is \<open>le_nat\<close> of the \<open>n\<close> bytes at its offset.
\<close>

unbundle bit_operations_syntax

type_synonym u8 = "8 word"
type_synonym u16 = "16 word"
type_synonym u32 = "32 word"
type_synonym u64 = "64 word"

text \<open>\<open>std::vector<uint8_t>\<close> and \<open>std::string\<close> are byte lists.\<close>

type_synonym bytes = "u8 list"

named_theorems wire_simps \<open>layout equations of attributes and packets\<close>
named_theorems wf_intros \<open>preservation of well-formedness by constructors and operations\<close>

section \<open>Faults and results\<close>

text \<open>
  \<^item> \<open>Out_Of_Bounds\<close>: a read outside the vector or the static receive buffer;
  \<^item> \<open>Length_Error\<close>: a \<open>std::vector\<close> or \<open>std::string\<close> range constructor with an
    end before its start (the library throws \<open>std::length_error\<close>, nothing catches it);
  \<^item> \<open>Check_Failed\<close>: a failing \<open>CHECK\<close> macro, which aborts the daemon;
  \<^item> \<open>Uninitialized\<close>: a local variable is read before it was written;
  \<^item> \<open>Null_Pointer\<close>: a null object pointer is dereferenced;
  \<^item> \<open>Use_After_Free\<close>: a call on an object that was destroyed;
  \<^item> \<open>Signed_Overflow\<close>: the result of an operation on signed integers does not fit its type;
  \<^item> \<open>Call_Depth\<close>: handlers nested deeper than the bound given to the dispatcher;
  \<^item> \<open>No_Return\<close>: the loop never ends.
\<close>

datatype fault =
    Out_Of_Bounds
  | Length_Error
  | Check_Failed
  | Uninitialized
  | Null_Pointer
  | Use_After_Free
  | Signed_Overflow
  | Call_Depth
  | No_Return

type_synonym 'a res = "fault + 'a"

definition and_then :: "'a res \<Rightarrow> ('a \<Rightarrow> 'b res) \<Rightarrow> 'b res" where
  "and_then m f = (case m of Inl e \<Rightarrow> Inl e | Inr x \<Rightarrow> f x)"

lemma and_then_simps [simp]:
  "and_then (Inl e) f = Inl e"
  "and_then (Inr x) f = f x"
  by (simp_all add: and_then_def)

lemma and_then_eq_Inr:
  "and_then m f = Inr y \<longleftrightarrow> (\<exists>x. m = Inr x \<and> f x = Inr y)"
  by (cases m) simp_all

lemma and_then_InrE:
  assumes "and_then m f = Inr y"
  obtains x where "m = Inr x" "f x = Inr y"
  using assms by (auto simp: and_then_eq_Inr)

lemma and_then_Inr_right [simp]: "and_then m Inr = m"
  by (cases m) simp_all

lemma and_then_assoc: "and_then (and_then m f) g = and_then m (\<lambda>x. and_then (f x) g)"
  by (cases m) simp_all

lemma and_then_cong [fundef_cong]:
  "m = m' \<Longrightarrow> (\<And>x. m' = Inr x \<Longrightarrow> f x = f' x) \<Longrightarrow> and_then m f = and_then m' f'"
  by (cases m') simp_all

text \<open>
  The common shape of a read that can fail: \<open>if (!Get(..., &x)) none else some x\<close>.
\<close>

definition if_value :: "'a option res \<Rightarrow> 'b res \<Rightarrow> ('a \<Rightarrow> 'b res) \<Rightarrow> 'b res" where
  "if_value m none some = and_then m (\<lambda>r. case r of None \<Rightarrow> none | Some x \<Rightarrow> some x)"

lemma if_value_simps [simp]:
  "if_value (Inl e) none some = Inl e"
  "if_value (Inr None) none some = none"
  "if_value (Inr (Some x)) none some = some x"
  by (simp_all add: if_value_def)

lemma if_value_InrE:
  assumes "if_value m none some = Inr y"
  obtains (none) "m = Inr None" "none = Inr y"
  | (some) x where "m = Inr (Some x)" "some x = Inr y"
proof (cases m)
  case (Inl e)
  with assms show ?thesis by simp
next
  case (Inr r)
  with assms none some show ?thesis by (cases r) auto
qed

lemma if_value_cong [fundef_cong]:
  "m = m' \<Longrightarrow> (m' = Inr None \<Longrightarrow> n = n') \<Longrightarrow> (\<And>x. m' = Inr (Some x) \<Longrightarrow> f x = f' x) \<Longrightarrow>
     if_value m n f = if_value m' n' f'"
  by (auto simp: if_value_def intro!: and_then_cong split: option.split)

text \<open>A result that is not a fault.\<close>

definition returns :: "'a res \<Rightarrow> bool" where
  "returns m \<longleftrightarrow> (\<exists>x. m = Inr x)"

lemma returns_simps [simp]: "returns (Inr x)" "\<not> returns (Inl e)"
  by (simp_all add: returns_def)

lemma returnsE: "returns m \<Longrightarrow> (\<And>x. m = Inr x \<Longrightarrow> P) \<Longrightarrow> P"
  by (auto simp: returns_def)

lemma returns_and_then:
  "returns m \<Longrightarrow> (\<And>x. m = Inr x \<Longrightarrow> returns (f x)) \<Longrightarrow> returns (and_then m f)"
  by (auto elim: returnsE)

text \<open>
  A value that may have stopped short of returning (a \<open>partial_function\<close>) as a result.
\<close>

definition of_loop :: "'a res option \<Rightarrow> 'a res" where
  "of_loop m = (case m of None \<Rightarrow> Inl No_Return | Some r \<Rightarrow> r)"

lemma of_loop_simps [simp]: "of_loop None = Inl No_Return" "of_loop (Some r) = r"
  by (simp_all add: of_loop_def)

lemma of_loop_eq_Inr [simp]: "of_loop m = Inr x \<longleftrightarrow> m = Some (Inr x)"
  by (cases m) simp_all

section \<open>Lists\<close>

lemma length_concat_le: "(\<And>x. x \<in> set xs \<Longrightarrow> length x \<le> k) \<Longrightarrow> length (concat xs) \<le> k * length xs"
  by (induction xs) (auto intro: add_mono)

section \<open>Little-endian fields\<close>

primrec le_bytes :: "nat \<Rightarrow> nat \<Rightarrow> bytes" where
  "le_bytes 0 x = []"
| "le_bytes (Suc n) x = of_nat x # le_bytes n (x div 256)"

primrec le_nat :: "bytes \<Rightarrow> nat" where
  "le_nat [] = 0"
| "le_nat (b # bs) = unat b + 256 * le_nat bs"

lemma length_le_bytes [simp]: "length (le_bytes n x) = n"
  by (induction n arbitrary: x) simp_all

lemma le_bytes_2: "le_bytes 2 x = [of_nat x, of_nat (x div 256)]"
  by (simp add: numeral_2_eq_2)

lemma le_bytes_4: "le_bytes 4 x =
    [of_nat x, of_nat (x div 256), of_nat (x div 256 div 256), of_nat (x div 256 div 256 div 256)]"
proof -
  have four: "4 = Suc (Suc (Suc (Suc 0)))" by simp
  show ?thesis unfolding four by simp
qed

lemma replicate_4: "replicate (4 + n) x = x # x # x # x # replicate n x"
  by (simp add: eval_nat_numeral)

lemma unat_u8_bound: "unat (b :: u8) < 256"
proof -
  have "unat b < 2 ^ LENGTH(8)" by (rule unsigned_less)
  then show ?thesis by simp
qed

lemma u8_256: "(256 :: u8) = 0"
  by (rule word_unat_eq_iff [THEN iffD2]) simp

lemma unat_of_nat_u8: "unat (of_nat x :: u8) = x mod 256"
  by (simp add: unat_of_nat)

lemma le_nat_le_bytes: "le_nat (le_bytes n x) = x mod 256 ^ n"
proof (induction n arbitrary: x)
  case 0
  show ?case by simp
next
  case (Suc n)
  have "x mod 256 + 256 * (x div 256 mod 256 ^ n) = x mod (256 * 256 ^ n)"
    by (simp add: mod_mult2_eq)
  with Suc show ?case by (simp add: unat_of_nat_u8)
qed

lemma le_nat_bound: "le_nat bs < 256 ^ length bs"
proof (induction bs)
  case Nil
  show ?case by simp
next
  case (Cons b bs)
  have "unat b < 256" by (rule unat_u8_bound)
  with Cons show ?case by simp
qed

lemma le_bytes_le_nat [simp]: "le_bytes (length bs) (le_nat bs) = bs"
proof (induction bs)
  case Nil
  show ?case by simp
next
  case (Cons b bs)
  have b: "unat b < 256" by (rule unat_u8_bound)
  have "(of_nat (unat b + 256 * le_nat bs) :: u8) = b"
    by (simp add: u8_256)
  moreover have "(unat b + 256 * le_nat bs) div 256 = le_nat bs" using b by simp
  ultimately show ?case using Cons by simp
qed

lemma le_bytes_mod: "le_bytes n (x mod 256 ^ n) = le_bytes n x"
  by (metis le_bytes_le_nat le_nat_le_bytes length_le_bytes)

text \<open>
  \<open>field n off d\<close> is the unsigned value of the \<open>n\<close> bytes of \<open>d\<close> at \<open>off\<close>; the caller has
  checked that they exist. \<open>read_field\<close> is the same read where the code checks nothing, and
  \<open>read_bytes\<close> the copy of the first \<open>n\<close> bytes.
\<close>

definition field :: "nat \<Rightarrow> nat \<Rightarrow> bytes \<Rightarrow> nat" where
  "field n off d = le_nat (take n (drop off d))"

definition read_field :: "nat \<Rightarrow> nat \<Rightarrow> bytes \<Rightarrow> nat res" where
  "read_field n off d =
     (if off + n \<le> length d then Inr (field n off d) else Inl Out_Of_Bounds)"

definition read_bytes :: "nat \<Rightarrow> bytes \<Rightarrow> bytes res" where
  "read_bytes n d = (if n \<le> length d then Inr (take n d) else Inl Out_Of_Bounds)"

text \<open>A store through a pointer to a field, and \<open>std::vector::resize(n, 0)\<close>.\<close>

definition put :: "nat \<Rightarrow> bytes \<Rightarrow> bytes \<Rightarrow> bytes" where
  "put off bs d = take off d @ bs @ drop (off + length bs) d"

definition resize :: "nat \<Rightarrow> bytes \<Rightarrow> bytes" where
  "resize n d = take n d @ replicate (n - length d) 0"

lemma length_put: "off + length bs \<le> length d \<Longrightarrow> length (put off bs d) = length d"
  by (simp add: put_def)

lemma length_resize [simp]: "length (resize n d) = n"
  by (simp add: resize_def)

lemma field_bound: "field n off d < 256 ^ n"
proof -
  have "le_nat (take n (drop off d)) < 256 ^ length (take n (drop off d))"
    by (rule le_nat_bound)
  also have "\<dots> \<le> 256 ^ n" by (rule power_increasing) simp_all
  finally show ?thesis by (simp add: field_def)
qed

lemma field_put_same:
  "off + n \<le> length d \<Longrightarrow> field n off (put off (le_bytes n x) d) = x mod 256 ^ n"
  by (simp add: field_def put_def le_nat_le_bytes)

lemma take_drop_put_before:
  "a + n \<le> off \<Longrightarrow> off + length bs \<le> length d \<Longrightarrow>
     take n (drop a (put off bs d)) = take n (drop a d)"
  by (auto simp: put_def drop_take min_def)

lemma take_drop_put_after:
  "off + length bs \<le> a \<Longrightarrow> off + length bs \<le> length d \<Longrightarrow>
     take n (drop a (put off bs d)) = take n (drop a d)"
  by (simp add: put_def)

lemma field_put_other:
  "a + n \<le> off \<or> off + length bs \<le> a \<Longrightarrow> off + length bs \<le> length d \<Longrightarrow>
     field n a (put off bs d) = field n a d"
  by (auto simp: field_def take_drop_put_before take_drop_put_after)

lemma drop_put_after:
  "off + length bs \<le> a \<Longrightarrow> off + length bs \<le> length d \<Longrightarrow> drop a (put off bs d) = drop a d"
  by (simp add: put_def)

lemma field_append1:
  "off + n \<le> length d \<Longrightarrow> field n off (d @ e) = field n off d"
  by (simp add: field_def)

lemma read_field_eq [simp]: "off + n \<le> length d \<Longrightarrow> read_field n off d = Inr (field n off d)"
  by (simp add: read_field_def)

lemma read_bytes_eq [simp]: "n \<le> length d \<Longrightarrow> read_bytes n d = Inr (take n d)"
  by (simp add: read_bytes_def)

text \<open>Text of the source (\<open>"nl80211"\<close> and the like) as bytes.\<close>

definition ascii :: "string \<Rightarrow> bytes" where
  "ascii s = map (\<lambda>c. of_char c) s"

end
