(* ===== verification/Nl80211_Constants.thy ===== *)
theory Nl80211_Constants
  imports Prelude
begin

text \<open>
  The numbers the code takes from headers: the enumerators of
  \<open>net/kernel-header-latest/nl80211.h\<close> that wificond uses, by their names there, the
  constants of the AIDL interfaces, and the constants of the platform ABI
  (\<open>linux/netlink.h\<close>, \<open>linux/genetlink.h\<close>, \<open>errno.h\<close>), which are not part of the
  repository and are fixed by the kernel's user-space interface. Identifiers and enumerated
  values are natural numbers; flag masks are 32-bit words. All of them are simplification
  rules, so that a comparison of two of them evaluates.
\<close>

section \<open>\<open>enum nl80211_commands\<close>\<close>

definition NL80211_CMD_GET_WIPHY :: nat where
  [simp]: "NL80211_CMD_GET_WIPHY = 1"

definition NL80211_CMD_NEW_WIPHY :: nat where
  [simp]: "NL80211_CMD_NEW_WIPHY = 3"

definition NL80211_CMD_GET_INTERFACE :: nat where
  [simp]: "NL80211_CMD_GET_INTERFACE = 5"

definition NL80211_CMD_SET_INTERFACE :: nat where
  [simp]: "NL80211_CMD_SET_INTERFACE = 6"

definition NL80211_CMD_NEW_INTERFACE :: nat where
  [simp]: "NL80211_CMD_NEW_INTERFACE = 7"

definition NL80211_CMD_GET_STATION :: nat where
  [simp]: "NL80211_CMD_GET_STATION = 17"

definition NL80211_CMD_NEW_STATION :: nat where
  [simp]: "NL80211_CMD_NEW_STATION = 19"

definition NL80211_CMD_DEL_STATION :: nat where
  [simp]: "NL80211_CMD_DEL_STATION = 20"

definition NL80211_CMD_GET_REG :: nat where
  [simp]: "NL80211_CMD_GET_REG = 31"

definition NL80211_CMD_GET_SCAN :: nat where
  [simp]: "NL80211_CMD_GET_SCAN = 32"

definition NL80211_CMD_TRIGGER_SCAN :: nat where
  [simp]: "NL80211_CMD_TRIGGER_SCAN = 33"

definition NL80211_CMD_NEW_SCAN_RESULTS :: nat where
  [simp]: "NL80211_CMD_NEW_SCAN_RESULTS = 34"

definition NL80211_CMD_SCAN_ABORTED :: nat where
  [simp]: "NL80211_CMD_SCAN_ABORTED = 35"

definition NL80211_CMD_REG_CHANGE :: nat where
  [simp]: "NL80211_CMD_REG_CHANGE = 36"

definition NL80211_CMD_ASSOCIATE :: nat where
  [simp]: "NL80211_CMD_ASSOCIATE = 38"

definition NL80211_CMD_DISASSOCIATE :: nat where
  [simp]: "NL80211_CMD_DISASSOCIATE = 40"

definition NL80211_CMD_CONNECT :: nat where
  [simp]: "NL80211_CMD_CONNECT = 46"

definition NL80211_CMD_ROAM :: nat where
  [simp]: "NL80211_CMD_ROAM = 47"

definition NL80211_CMD_DISCONNECT :: nat where
  [simp]: "NL80211_CMD_DISCONNECT = 48"

definition NL80211_CMD_FRAME :: nat where
  [simp]: "NL80211_CMD_FRAME = 59"

definition NL80211_CMD_FRAME_TX_STATUS :: nat where
  [simp]: "NL80211_CMD_FRAME_TX_STATUS = 60"

definition NL80211_CMD_START_SCHED_SCAN :: nat where
  [simp]: "NL80211_CMD_START_SCHED_SCAN = 75"

definition NL80211_CMD_STOP_SCHED_SCAN :: nat where
  [simp]: "NL80211_CMD_STOP_SCHED_SCAN = 76"

definition NL80211_CMD_SCHED_SCAN_RESULTS :: nat where
  [simp]: "NL80211_CMD_SCHED_SCAN_RESULTS = 77"

definition NL80211_CMD_SCHED_SCAN_STOPPED :: nat where
  [simp]: "NL80211_CMD_SCHED_SCAN_STOPPED = 78"

definition NL80211_CMD_CH_SWITCH_NOTIFY :: nat where
  [simp]: "NL80211_CMD_CH_SWITCH_NOTIFY = 88"

definition NL80211_CMD_GET_PROTOCOL_FEATURES :: nat where
  [simp]: "NL80211_CMD_GET_PROTOCOL_FEATURES = 95"

definition NL80211_CMD_WIPHY_REG_CHANGE :: nat where
  [simp]: "NL80211_CMD_WIPHY_REG_CHANGE = 113"

definition NL80211_CMD_ABORT_SCAN :: nat where
  [simp]: "NL80211_CMD_ABORT_SCAN = 114"

section \<open>\<open>enum nl80211_attrs\<close>\<close>

definition NL80211_ATTR_WIPHY :: nat where
  [simp]: "NL80211_ATTR_WIPHY = 1"

definition NL80211_ATTR_IFINDEX :: nat where
  [simp]: "NL80211_ATTR_IFINDEX = 3"

definition NL80211_ATTR_IFNAME :: nat where
  [simp]: "NL80211_ATTR_IFNAME = 4"

definition NL80211_ATTR_IFTYPE :: nat where
  [simp]: "NL80211_ATTR_IFTYPE = 5"

definition NL80211_ATTR_MAC :: nat where
  [simp]: "NL80211_ATTR_MAC = 6"

definition NL80211_ATTR_STA_INFO :: nat where
  [simp]: "NL80211_ATTR_STA_INFO = 21"

definition NL80211_ATTR_WIPHY_BANDS :: nat where
  [simp]: "NL80211_ATTR_WIPHY_BANDS = 22"

definition NL80211_ATTR_REG_ALPHA2 :: nat where
  [simp]: "NL80211_ATTR_REG_ALPHA2 = 33"

definition NL80211_ATTR_WIPHY_FREQ :: nat where
  [simp]: "NL80211_ATTR_WIPHY_FREQ = 38"

definition NL80211_ATTR_IE :: nat where
  [simp]: "NL80211_ATTR_IE = 42"

definition NL80211_ATTR_MAX_NUM_SCAN_SSIDS :: nat where
  [simp]: "NL80211_ATTR_MAX_NUM_SCAN_SSIDS = 43"

definition NL80211_ATTR_SCAN_FREQUENCIES :: nat where
  [simp]: "NL80211_ATTR_SCAN_FREQUENCIES = 44"

definition NL80211_ATTR_SCAN_SSIDS :: nat where
  [simp]: "NL80211_ATTR_SCAN_SSIDS = 45"

definition NL80211_ATTR_BSS :: nat where
  [simp]: "NL80211_ATTR_BSS = 47"

definition NL80211_ATTR_REG_TYPE :: nat where
  [simp]: "NL80211_ATTR_REG_TYPE = 49"

definition NL80211_ATTR_FRAME :: nat where
  [simp]: "NL80211_ATTR_FRAME = 51"

definition NL80211_ATTR_TIMED_OUT :: nat where
  [simp]: "NL80211_ATTR_TIMED_OUT = 65"

definition NL80211_ATTR_STATUS_CODE :: nat where
  [simp]: "NL80211_ATTR_STATUS_CODE = 72"

definition NL80211_ATTR_COOKIE :: nat where
  [simp]: "NL80211_ATTR_COOKIE = 88"

definition NL80211_ATTR_ACK :: nat where
  [simp]: "NL80211_ATTR_ACK = 92"

definition NL80211_ATTR_SCHED_SCAN_INTERVAL :: nat where
  [simp]: "NL80211_ATTR_SCHED_SCAN_INTERVAL = 119"

definition NL80211_ATTR_MAX_NUM_SCHED_SCAN_SSIDS :: nat where
  [simp]: "NL80211_ATTR_MAX_NUM_SCHED_SCAN_SSIDS = 123"

definition NL80211_ATTR_SCHED_SCAN_MATCH :: nat where
  [simp]: "NL80211_ATTR_SCHED_SCAN_MATCH = 132"

definition NL80211_ATTR_MAX_MATCH_SETS :: nat where
  [simp]: "NL80211_ATTR_MAX_MATCH_SETS = 133"

definition NL80211_ATTR_FEATURE_FLAGS :: nat where
  [simp]: "NL80211_ATTR_FEATURE_FLAGS = 143"

definition NL80211_ATTR_WDEV :: nat where
  [simp]: "NL80211_ATTR_WDEV = 153"

definition NL80211_ATTR_SCAN_FLAGS :: nat where
  [simp]: "NL80211_ATTR_SCAN_FLAGS = 158"

definition NL80211_ATTR_CHANNEL_WIDTH :: nat where
  [simp]: "NL80211_ATTR_CHANNEL_WIDTH = 159"

definition NL80211_ATTR_PROTOCOL_FEATURES :: nat where
  [simp]: "NL80211_ATTR_PROTOCOL_FEATURES = 173"

definition NL80211_ATTR_SPLIT_WIPHY_DUMP :: nat where
  [simp]: "NL80211_ATTR_SPLIT_WIPHY_DUMP = 174"

definition NL80211_ATTR_EXT_FEATURES :: nat where
  [simp]: "NL80211_ATTR_EXT_FEATURES = 217"

definition NL80211_ATTR_MAX_NUM_SCHED_SCAN_PLANS :: nat where
  [simp]: "NL80211_ATTR_MAX_NUM_SCHED_SCAN_PLANS = 222"

definition NL80211_ATTR_MAX_SCAN_PLAN_INTERVAL :: nat where
  [simp]: "NL80211_ATTR_MAX_SCAN_PLAN_INTERVAL = 223"

definition NL80211_ATTR_MAX_SCAN_PLAN_ITERATIONS :: nat where
  [simp]: "NL80211_ATTR_MAX_SCAN_PLAN_ITERATIONS = 224"

definition NL80211_ATTR_SCHED_SCAN_PLANS :: nat where
  [simp]: "NL80211_ATTR_SCHED_SCAN_PLANS = 225"

definition NL80211_ATTR_SCHED_SCAN_RSSI_ADJUST :: nat where
  [simp]: "NL80211_ATTR_SCHED_SCAN_RSSI_ADJUST = 247"

section \<open>\<open>enum nl80211_iftype\<close>\<close>

definition NL80211_IFTYPE_UNSPECIFIED :: nat where
  [simp]: "NL80211_IFTYPE_UNSPECIFIED = 0"

definition NL80211_IFTYPE_STATION :: nat where
  [simp]: "NL80211_IFTYPE_STATION = 2"

section \<open>\<open>enum nl80211_rate_info\<close>\<close>

definition NL80211_RATE_INFO_BITRATE32 :: nat where
  [simp]: "NL80211_RATE_INFO_BITRATE32 = 5"

section \<open>\<open>enum nl80211_sta_info\<close>\<close>

definition NL80211_STA_INFO_SIGNAL :: nat where
  [simp]: "NL80211_STA_INFO_SIGNAL = 7"

definition NL80211_STA_INFO_TX_BITRATE :: nat where
  [simp]: "NL80211_STA_INFO_TX_BITRATE = 8"

definition NL80211_STA_INFO_TX_PACKETS :: nat where
  [simp]: "NL80211_STA_INFO_TX_PACKETS = 10"

definition NL80211_STA_INFO_TX_FAILED :: nat where
  [simp]: "NL80211_STA_INFO_TX_FAILED = 12"

definition NL80211_STA_INFO_RX_BITRATE :: nat where
  [simp]: "NL80211_STA_INFO_RX_BITRATE = 14"

section \<open>\<open>enum nl80211_band_iftype_attr\<close>\<close>

definition NL80211_BAND_IFTYPE_ATTR_HE_CAP_PHY :: nat where
  [simp]: "NL80211_BAND_IFTYPE_ATTR_HE_CAP_PHY = 3"

definition NL80211_BAND_IFTYPE_ATTR_HE_CAP_MCS_SET :: nat where
  [simp]: "NL80211_BAND_IFTYPE_ATTR_HE_CAP_MCS_SET = 4"

definition NL80211_BAND_IFTYPE_ATTR_EHT_CAP_PHY :: nat where
  [simp]: "NL80211_BAND_IFTYPE_ATTR_EHT_CAP_PHY = 9"

section \<open>\<open>enum nl80211_band_attr\<close>\<close>

definition NL80211_BAND_ATTR_FREQS :: nat where
  [simp]: "NL80211_BAND_ATTR_FREQS = 1"

definition NL80211_BAND_ATTR_HT_MCS_SET :: nat where
  [simp]: "NL80211_BAND_ATTR_HT_MCS_SET = 3"

definition NL80211_BAND_ATTR_HT_CAPA :: nat where
  [simp]: "NL80211_BAND_ATTR_HT_CAPA = 4"

definition NL80211_BAND_ATTR_VHT_MCS_SET :: nat where
  [simp]: "NL80211_BAND_ATTR_VHT_MCS_SET = 7"

definition NL80211_BAND_ATTR_VHT_CAPA :: nat where
  [simp]: "NL80211_BAND_ATTR_VHT_CAPA = 8"

definition NL80211_BAND_ATTR_IFTYPE_DATA :: nat where
  [simp]: "NL80211_BAND_ATTR_IFTYPE_DATA = 9"

section \<open>\<open>enum nl80211_frequency_attr\<close>\<close>

definition NL80211_FREQUENCY_ATTR_FREQ :: nat where
  [simp]: "NL80211_FREQUENCY_ATTR_FREQ = 1"

definition NL80211_FREQUENCY_ATTR_DISABLED :: nat where
  [simp]: "NL80211_FREQUENCY_ATTR_DISABLED = 2"

definition NL80211_FREQUENCY_ATTR_NO_IR :: nat where
  [simp]: "NL80211_FREQUENCY_ATTR_NO_IR = 3"

definition NL80211_FREQUENCY_ATTR_DFS_STATE :: nat where
  [simp]: "NL80211_FREQUENCY_ATTR_DFS_STATE = 7"

section \<open>\<open>enum nl80211_reg_type\<close>\<close>

definition NL80211_REGDOM_TYPE_COUNTRY :: nat where
  [simp]: "NL80211_REGDOM_TYPE_COUNTRY = 0"

definition NL80211_REGDOM_TYPE_WORLD :: nat where
  [simp]: "NL80211_REGDOM_TYPE_WORLD = 1"

definition NL80211_REGDOM_TYPE_CUSTOM_WORLD :: nat where
  [simp]: "NL80211_REGDOM_TYPE_CUSTOM_WORLD = 2"

definition NL80211_REGDOM_TYPE_INTERSECTION :: nat where
  [simp]: "NL80211_REGDOM_TYPE_INTERSECTION = 3"

section \<open>\<open>enum nl80211_sched_scan_match_attr\<close>\<close>

definition NL80211_SCHED_SCAN_MATCH_ATTR_SSID :: nat where
  [simp]: "NL80211_SCHED_SCAN_MATCH_ATTR_SSID = 1"

definition NL80211_SCHED_SCAN_MATCH_ATTR_RSSI :: nat where
  [simp]: "NL80211_SCHED_SCAN_MATCH_ATTR_RSSI = 2"

section \<open>\<open>enum nl80211_chan_width\<close>\<close>

definition NL80211_CHAN_WIDTH_20_NOHT :: nat where
  [simp]: "NL80211_CHAN_WIDTH_20_NOHT = 0"

definition NL80211_CHAN_WIDTH_20 :: nat where
  [simp]: "NL80211_CHAN_WIDTH_20 = 1"

definition NL80211_CHAN_WIDTH_40 :: nat where
  [simp]: "NL80211_CHAN_WIDTH_40 = 2"

definition NL80211_CHAN_WIDTH_80 :: nat where
  [simp]: "NL80211_CHAN_WIDTH_80 = 3"

definition NL80211_CHAN_WIDTH_80P80 :: nat where
  [simp]: "NL80211_CHAN_WIDTH_80P80 = 4"

definition NL80211_CHAN_WIDTH_160 :: nat where
  [simp]: "NL80211_CHAN_WIDTH_160 = 5"

definition NL80211_CHAN_WIDTH_320 :: nat where
  [simp]: "NL80211_CHAN_WIDTH_320 = 13"

section \<open>\<open>enum nl80211_bss\<close>\<close>

definition NL80211_BSS_BSSID :: nat where
  [simp]: "NL80211_BSS_BSSID = 1"

definition NL80211_BSS_FREQUENCY :: nat where
  [simp]: "NL80211_BSS_FREQUENCY = 2"

definition NL80211_BSS_TSF :: nat where
  [simp]: "NL80211_BSS_TSF = 3"

definition NL80211_BSS_CAPABILITY :: nat where
  [simp]: "NL80211_BSS_CAPABILITY = 5"

definition NL80211_BSS_INFORMATION_ELEMENTS :: nat where
  [simp]: "NL80211_BSS_INFORMATION_ELEMENTS = 6"

definition NL80211_BSS_SIGNAL_MBM :: nat where
  [simp]: "NL80211_BSS_SIGNAL_MBM = 7"

definition NL80211_BSS_STATUS :: nat where
  [simp]: "NL80211_BSS_STATUS = 9"

definition NL80211_BSS_BEACON_TSF :: nat where
  [simp]: "NL80211_BSS_BEACON_TSF = 13"

definition NL80211_BSS_LAST_SEEN_BOOTTIME :: nat where
  [simp]: "NL80211_BSS_LAST_SEEN_BOOTTIME = 15"

definition NL80211_BSS_CHAIN_SIGNAL :: nat where
  [simp]: "NL80211_BSS_CHAIN_SIGNAL = 19"

section \<open>\<open>enum nl80211_bss_status\<close>\<close>

definition NL80211_BSS_STATUS_AUTHENTICATED :: nat where
  [simp]: "NL80211_BSS_STATUS_AUTHENTICATED = 0"

definition NL80211_BSS_STATUS_ASSOCIATED :: nat where
  [simp]: "NL80211_BSS_STATUS_ASSOCIATED = 1"

section \<open>\<open>enum nl80211_band\<close>\<close>

definition NL80211_BAND_2GHZ :: nat where
  [simp]: "NL80211_BAND_2GHZ = 0"

definition NL80211_BAND_5GHZ :: nat where
  [simp]: "NL80211_BAND_5GHZ = 1"

definition NL80211_BAND_60GHZ :: nat where
  [simp]: "NL80211_BAND_60GHZ = 2"

definition NL80211_BAND_6GHZ :: nat where
  [simp]: "NL80211_BAND_6GHZ = 3"

section \<open>\<open>enum nl80211_feature_flags\<close>\<close>

definition NL80211_FEATURE_SCAN_RANDOM_MAC_ADDR :: u32 where
  [simp]: "NL80211_FEATURE_SCAN_RANDOM_MAC_ADDR = 536870912"

definition NL80211_FEATURE_SCHED_SCAN_RANDOM_MAC_ADDR :: u32 where
  [simp]: "NL80211_FEATURE_SCHED_SCAN_RANDOM_MAC_ADDR = 1073741824"

section \<open>\<open>enum nl80211_ext_feature_index\<close>\<close>

definition NL80211_EXT_FEATURE_SCHED_SCAN_RELATIVE_RSSI :: nat where
  [simp]: "NL80211_EXT_FEATURE_SCHED_SCAN_RELATIVE_RSSI = 12"

definition NL80211_EXT_FEATURE_LOW_SPAN_SCAN :: nat where
  [simp]: "NL80211_EXT_FEATURE_LOW_SPAN_SCAN = 22"

definition NL80211_EXT_FEATURE_LOW_POWER_SCAN :: nat where
  [simp]: "NL80211_EXT_FEATURE_LOW_POWER_SCAN = 23"

definition NL80211_EXT_FEATURE_HIGH_ACCURACY_SCAN :: nat where
  [simp]: "NL80211_EXT_FEATURE_HIGH_ACCURACY_SCAN = 24"

section \<open>\<open>enum nl80211_scan_flags\<close>\<close>

definition NL80211_SCAN_FLAG_RANDOM_ADDR :: u32 where
  [simp]: "NL80211_SCAN_FLAG_RANDOM_ADDR = 8"

definition NL80211_SCAN_FLAG_LOW_SPAN :: u32 where
  [simp]: "NL80211_SCAN_FLAG_LOW_SPAN = 256"

definition NL80211_SCAN_FLAG_LOW_POWER :: u32 where
  [simp]: "NL80211_SCAN_FLAG_LOW_POWER = 512"

definition NL80211_SCAN_FLAG_HIGH_ACCURACY :: u32 where
  [simp]: "NL80211_SCAN_FLAG_HIGH_ACCURACY = 1024"

definition NL80211_SCAN_FLAG_COLOCATED_6GHZ :: u32 where
  [simp]: "NL80211_SCAN_FLAG_COLOCATED_6GHZ = 16384"

section \<open>\<open>enum nl80211_dfs_state\<close>\<close>

definition NL80211_DFS_USABLE :: nat where
  [simp]: "NL80211_DFS_USABLE = 0"

definition NL80211_DFS_AVAILABLE :: nat where
  [simp]: "NL80211_DFS_AVAILABLE = 2"

section \<open>\<open>enum nl80211_protocol_features\<close>\<close>

definition NL80211_PROTOCOL_FEATURE_SPLIT_WIPHY_DUMP :: u32 where
  [simp]: "NL80211_PROTOCOL_FEATURE_SPLIT_WIPHY_DUMP = 1"

section \<open>\<open>enum nl80211_sched_scan_plan\<close>\<close>

definition NL80211_SCHED_SCAN_PLAN_INTERVAL :: nat where
  [simp]: "NL80211_SCHED_SCAN_PLAN_INTERVAL = 1"

definition NL80211_SCHED_SCAN_PLAN_ITERATIONS :: nat where
  [simp]: "NL80211_SCHED_SCAN_PLAN_ITERATIONS = 2"

section \<open>String macros of \<open>nl80211.h\<close>\<close>

definition NL80211_GENL_NAME :: bytes where
  "NL80211_GENL_NAME = ascii ''nl80211''"

definition NL80211_MULTICAST_GROUP_SCAN :: bytes where
  "NL80211_MULTICAST_GROUP_SCAN = ascii ''scan''"

definition NL80211_MULTICAST_GROUP_REG :: bytes where
  "NL80211_MULTICAST_GROUP_REG = ascii ''regulatory''"

definition NL80211_MULTICAST_GROUP_MLME :: bytes where
  "NL80211_MULTICAST_GROUP_MLME = ascii ''mlme''"

section \<open>AIDL constants\<close>

definition SCAN_TYPE_LOW_SPAN :: int where
  [simp]: "SCAN_TYPE_LOW_SPAN = 0"

definition SCAN_TYPE_LOW_POWER :: int where
  [simp]: "SCAN_TYPE_LOW_POWER = 1"

definition SCAN_TYPE_HIGH_ACCURACY :: int where
  [simp]: "SCAN_TYPE_HIGH_ACCURACY = 2"

definition SCAN_STATUS_SUCCESS :: int where
  [simp]: "SCAN_STATUS_SUCCESS = 0"

definition SCAN_STATUS_FAILED_GENERIC :: int where
  [simp]: "SCAN_STATUS_FAILED_GENERIC = 1"

definition SCAN_STATUS_FAILED_BUSY :: int where
  [simp]: "SCAN_STATUS_FAILED_BUSY = 2"

definition SCAN_STATUS_FAILED_ABORT :: int where
  [simp]: "SCAN_STATUS_FAILED_ABORT = 3"

definition SCAN_STATUS_FAILED_NODEV :: int where
  [simp]: "SCAN_STATUS_FAILED_NODEV = 4"

definition SCAN_STATUS_FAILED_INVALID_ARGS :: int where
  [simp]: "SCAN_STATUS_FAILED_INVALID_ARGS = 5"

definition SCAN_TYPE_DEFAULT :: int where
  [simp]: "SCAN_TYPE_DEFAULT = - 1"

definition BANDWIDTH_INVALID :: int where
  [simp]: "BANDWIDTH_INVALID = 0"

definition BANDWIDTH_20_NOHT :: int where
  [simp]: "BANDWIDTH_20_NOHT = 1"

definition BANDWIDTH_20 :: int where
  [simp]: "BANDWIDTH_20 = 2"

definition BANDWIDTH_40 :: int where
  [simp]: "BANDWIDTH_40 = 3"

definition BANDWIDTH_80 :: int where
  [simp]: "BANDWIDTH_80 = 4"

definition BANDWIDTH_80P80 :: int where
  [simp]: "BANDWIDTH_80P80 = 5"

definition BANDWIDTH_160 :: int where
  [simp]: "BANDWIDTH_160 = 6"

definition BANDWIDTH_320 :: int where
  [simp]: "BANDWIDTH_320 = 7"

definition SEND_MGMT_FRAME_ERROR_UNKNOWN :: int where
  [simp]: "SEND_MGMT_FRAME_ERROR_UNKNOWN = 1"

definition SEND_MGMT_FRAME_ERROR_MCS_UNSUPPORTED :: int where
  [simp]: "SEND_MGMT_FRAME_ERROR_MCS_UNSUPPORTED = 2"

definition SEND_MGMT_FRAME_ERROR_NO_ACK :: int where
  [simp]: "SEND_MGMT_FRAME_ERROR_NO_ACK = 3"

section \<open>The netlink ABI\<close>

definition NLMSG_NOOP :: nat where
  [simp]: "NLMSG_NOOP = 1"

definition NLMSG_ERROR :: nat where
  [simp]: "NLMSG_ERROR = 2"

definition NLMSG_DONE :: nat where
  [simp]: "NLMSG_DONE = 3"

definition NLMSG_OVERRUN :: nat where
  [simp]: "NLMSG_OVERRUN = 4"

definition NLMSG_MIN_TYPE :: nat where
  [simp]: "NLMSG_MIN_TYPE = 16"

definition NLMSG_HDRLEN :: nat where
  [simp]: "NLMSG_HDRLEN = 16"

definition GENL_HDRLEN :: nat where
  [simp]: "GENL_HDRLEN = 4"

definition NLA_HDRLEN :: nat where
  [simp]: "NLA_HDRLEN = 4"

definition NLM_F_REQUEST :: u16 where
  [simp]: "NLM_F_REQUEST = 1"

definition NLM_F_MULTI :: u16 where
  [simp]: "NLM_F_MULTI = 2"

definition NLM_F_ACK :: u16 where
  [simp]: "NLM_F_ACK = 4"

definition NLM_F_DUMP :: u16 where
  [simp]: "NLM_F_DUMP = 768"

definition GENL_ID_CTRL :: nat where
  [simp]: "GENL_ID_CTRL = 16"

definition CTRL_CMD_NEWFAMILY :: nat where
  [simp]: "CTRL_CMD_NEWFAMILY = 1"

definition CTRL_CMD_GETFAMILY :: nat where
  [simp]: "CTRL_CMD_GETFAMILY = 3"

definition CTRL_ATTR_FAMILY_ID :: nat where
  [simp]: "CTRL_ATTR_FAMILY_ID = 1"

definition CTRL_ATTR_FAMILY_NAME :: nat where
  [simp]: "CTRL_ATTR_FAMILY_NAME = 2"

definition CTRL_ATTR_MCAST_GROUPS :: nat where
  [simp]: "CTRL_ATTR_MCAST_GROUPS = 7"

definition CTRL_ATTR_MCAST_GRP_NAME :: nat where
  [simp]: "CTRL_ATTR_MCAST_GRP_NAME = 1"

definition CTRL_ATTR_MCAST_GRP_ID :: nat where
  [simp]: "CTRL_ATTR_MCAST_GRP_ID = 2"

definition ETH_ALEN :: nat where
  [simp]: "ETH_ALEN = 6"

definition ENOENT :: int where
  [simp]: "ENOENT = 2"

definition EBUSY :: int where
  [simp]: "EBUSY = 16"

definition ENODEV :: int where
  [simp]: "ENODEV = 19"

definition EINVAL :: int where
  [simp]: "EINVAL = 22"

end
