(* ===== verification/Nl80211_Attribute.thy ===== *)
theory Nl80211_Attribute
  imports Nl80211_Constants
begin

text \<open>
  \<open>net/nl80211_attribute.{h,cpp}\<close>: netlink attributes. Every attribute class has one field,
  the vector \<open>data_\<close> (header, payload, padding), so an attribute is its byte vector. The
  template \<open>NL80211Attr<T>\<close> becomes functions over the byte vector plus a record
  \<open>attr_class\<close> with the members that differ per \<open>T\<close> (constructor, \<open>IsValid\<close>,
  \<open>GetValue\<close>); the templates that use \<open>T\<close> take such a record.

  The abstract view of a run of attributes is a list of well-formed attributes: the buffer
  is their concatenation, looking up an identifier is \<open>find\<close>, adding is appending.
\<close>

type_synonym attr = bytes

definition NLA_ALIGN :: "nat \<Rightarrow> nat" where
  "NLA_ALIGN n = (n + 3) div 4 * 4"

text \<open>The two fields of \<open>struct nlattr\<close>.\<close>

definition nla_len :: "bytes \<Rightarrow> nat" where
  "nla_len d = field 2 0 d"

definition nla_type :: "bytes \<Rightarrow> nat" where
  "nla_type d = field 2 2 d"

section \<open>BaseNL80211Attr\<close>

definition InitHeaderAndResize :: "attr \<Rightarrow> nat \<Rightarrow> nat \<Rightarrow> attr" where
  "InitHeaderAndResize data attribute_id payload_length =
     (let data1 = resize (NLA_HDRLEN + NLA_ALIGN payload_length) data;
          data2 = put 2 (le_bytes 2 attribute_id) data1
      in put 0 (le_bytes 2 (NLA_HDRLEN + payload_length)) data2)"

definition BaseNL80211Attr :: "nat \<Rightarrow> bytes \<Rightarrow> attr" where
  "BaseNL80211Attr attr_id raw_buffer =
     put NLA_HDRLEN raw_buffer (InitHeaderAndResize [] attr_id (length raw_buffer))"

definition GetAttributeId :: "attr \<Rightarrow> nat res" where
  "GetAttributeId d = (if NLA_HDRLEN \<le> length d then Inr (nla_type d) else Inl Out_Of_Bounds)"

definition IsValid :: "attr \<Rightarrow> bool" where
  "IsValid d \<longleftrightarrow> NLA_HDRLEN \<le> length d \<and> NLA_ALIGN (nla_len d) = length d"

text \<open>The two fields of the header at a pointer, read without a check.\<close>

definition read_header :: "bytes \<Rightarrow> (nat \<times> nat) res" where
  "read_header buf = and_then (read_field 2 2 buf) (\<lambda>t. and_then (read_field 2 0 buf) (\<lambda>l. Inr (t, l)))"

text \<open>
  \<open>GetAttributeImpl(buf, len, attr_id, &start, &end)\<close>: the argument is the buffer from
  the current pointer on; a hit returns the copy the callers make of what the two out-pointers
  delimit. The header and the copy are read as they are in the code, which alone has the
  checks: a read past the end of the buffer is the fault \<open>Out_Of_Bounds\<close>. The loop
  advances by the aligned length of the current header without a check that this is not
  zero, so it is a \<open>partial_function\<close>: \<open>None\<close> is a loop that never ends, \<open>Some (Inr None)\<close> is
  \<open>false\<close>.
\<close>

partial_function (option) GetAttributeLoop :: "bytes \<Rightarrow> nat \<Rightarrow> attr option res option" where
  "GetAttributeLoop buf attr_id =
     (if length buf < NLA_HDRLEN then Some (Inr None)
      else case read_header buf of
        Inl e \<Rightarrow> Some (Inl e)
      | Inr (header_type, header_len) \<Rightarrow>
          if header_type = attr_id then
            (if length buf < NLA_ALIGN header_len then Some (Inr None)
             else Some (and_then (read_bytes (NLA_ALIGN header_len) buf) (\<lambda>a. Inr (Some a))))
          else GetAttributeLoop (drop (NLA_ALIGN header_len) buf) attr_id)"

definition GetAttributeImpl :: "bytes \<Rightarrow> nat \<Rightarrow> attr option res" where
  "GetAttributeImpl buf attr_id = of_loop (GetAttributeLoop buf attr_id)"

text \<open>
  \<open>Merge\<close>: the returned pair is the C++ return value and the new contents of \<open>*this\<close>.
  The sum of the lengths is an \<open>int\<close>, the header field it is stored in has 16 bits.
\<close>

definition Merge :: "attr \<Rightarrow> attr \<Rightarrow> (bool \<times> attr) res" where
  "Merge data other_attr =
     (if \<not> IsValid other_attr then Inr (False, data)
      else and_then (GetAttributeId data) (\<lambda>our_id.
           and_then (GetAttributeId other_attr) (\<lambda>other_id.
             if our_id \<noteq> other_id then Inr (False, data)
             else
               let our_len_without_padding = nla_len data;
                   other_len_without_padding = nla_len other_attr
               in if other_len_without_padding < NLA_HDRLEN then Inl Length_Error
                  else
                    let total_len_without_padding =
                          our_len_without_padding + other_len_without_padding - NLA_HDRLEN;
                        data1 = put 0 (le_bytes 2 total_len_without_padding) data;
                        data2 = resize our_len_without_padding data1;
                        data3 = data2 @ take (other_len_without_padding - NLA_HDRLEN)
                                          (drop NLA_HDRLEN other_attr)
                    in Inr (True, resize (NLA_ALIGN total_len_without_padding) data3))))"

section \<open>The template NL80211Attr\<close>

record 'a attr_class =
  make_attr :: "nat \<Rightarrow> 'a \<Rightarrow> attr"
  extra_valid :: "attr \<Rightarrow> bool"
  get_value :: "attr \<Rightarrow> 'a res"

text \<open>\<open>IsValid\<close> of an instance: the base class's check, then what an override adds.\<close>

definition valid_attr :: "'a attr_class \<Rightarrow> attr \<Rightarrow> bool" where
  "valid_attr T d \<longleftrightarrow> IsValid d \<and> extra_valid T d"

text \<open>Integral types; \<open>nbytes\<close> is \<open>sizeof(T)\<close>. Signed types are read through \<open>sint\<close>.\<close>

definition make_int_attr :: "nat \<Rightarrow> nat \<Rightarrow> nat \<Rightarrow> attr" where
  "make_int_attr nbytes attr_id value =
     put NLA_HDRLEN (le_bytes nbytes value) (InitHeaderAndResize [] attr_id nbytes)"

definition int_size_ok :: "nat \<Rightarrow> attr \<Rightarrow> bool" where
  "int_size_ok nbytes d \<longleftrightarrow>
     NLA_ALIGN nbytes + NLA_HDRLEN = length d \<and> nbytes + NLA_HDRLEN = nla_len d"

definition GetValue_int :: "nat \<Rightarrow> attr \<Rightarrow> nat res" where
  "GetValue_int nbytes d = read_field nbytes NLA_HDRLEN d"

definition word_class :: "'w::len word attr_class" where
  "word_class =
     \<lparr> make_attr = (\<lambda>attr_id w. make_int_attr (LENGTH('w) div 8) attr_id (unat w)),
       extra_valid = int_size_ok (LENGTH('w) div 8),
       get_value = (\<lambda>d. and_then (GetValue_int (LENGTH('w) div 8) d) (\<lambda>v. Inr (of_nat v))) \<rparr>"

text \<open>Raw data: \<open>std::vector<uint8_t>\<close>; the range ends at \<open>nla_len\<close>, not at the padding.\<close>

definition GetValue_vector :: "attr \<Rightarrow> bytes res" where
  "GetValue_vector d =
     (if length d < NLA_HDRLEN then Inl Out_Of_Bounds
      else if nla_len d < NLA_HDRLEN then Inl Length_Error
      else if length d < nla_len d then Inl Out_Of_Bounds
      else Inr (take (nla_len d - NLA_HDRLEN) (drop NLA_HDRLEN d)))"

definition vector_class :: "bytes attr_class" where
  "vector_class = \<lparr> make_attr = BaseNL80211Attr, extra_valid = (\<lambda>_. True), get_value = GetValue_vector \<rparr>"

text \<open>
  \<open>std::array<uint8_t, N>\<close>: \<open>IsValid\<close> is inherited from the base class, so it does not
  look at \<open>N\<close>; \<open>GetValue\<close> copies \<open>N\<close> bytes unconditionally.
\<close>

definition GetValue_array :: "nat \<Rightarrow> attr \<Rightarrow> bytes res" where
  "GetValue_array N d =
     (if NLA_HDRLEN + N \<le> length d then Inr (take N (drop NLA_HDRLEN d)) else Inl Out_Of_Bounds)"

definition array_class :: "nat \<Rightarrow> bytes attr_class" where
  "array_class N =
     \<lparr> make_attr = BaseNL80211Attr, extra_valid = (\<lambda>_. True), get_value = GetValue_array N \<rparr>"

definition mac_class :: "bytes attr_class" where
  "mac_class = array_class ETH_ALEN"

text \<open>
  \<open>std::string\<close>: stored with a terminating zero, read without any trailing zeros. With
  \<open>nla_len < NLA_HDRLEN\<close> the \<open>size_t\<close> length wraps round and the string constructor throws.
\<close>

definition make_string_attr :: "nat \<Rightarrow> bytes \<Rightarrow> attr" where
  "make_string_attr attr_id str =
     put NLA_HDRLEN str (InitHeaderAndResize [] attr_id (length str + 1))"

definition strip_zeros :: "bytes \<Rightarrow> bytes" where
  "strip_zeros bs = rev (dropWhile (\<lambda>b. b = 0) (rev bs))"

definition GetValue_string :: "attr \<Rightarrow> bytes res" where
  "GetValue_string d = and_then (GetValue_vector d) (\<lambda>v. Inr (strip_zeros v))"

definition string_class :: "bytes attr_class" where
  "string_class = \<lparr> make_attr = make_string_attr, extra_valid = (\<lambda>_. True), get_value = GetValue_string \<rparr>"

section \<open>NL80211NestedAttr\<close>

definition NL80211NestedAttr :: "nat \<Rightarrow> attr" where
  "NL80211NestedAttr attr_id = InitHeaderAndResize [] attr_id 0"

definition AddAttribute :: "attr \<Rightarrow> attr \<Rightarrow> attr" where
  "AddAttribute data attribute =
     (let data1 = data @ attribute
      in put 0 (le_bytes 2 (nla_len data1 + length attribute)) data1)"

definition AddFlagAttribute :: "nat \<Rightarrow> attr \<Rightarrow> attr" where
  "AddFlagAttribute attribute_id data =
     (let data1 = resize (length data + NLA_HDRLEN) data;
          flag = length data1 - NLA_HDRLEN;
          data2 = put (flag + 2) (le_bytes 2 attribute_id) data1;
          data3 = put flag (le_bytes 2 NLA_HDRLEN) data2
      in put 0 (le_bytes 2 (nla_len data3 + NLA_HDRLEN)) data3)"

definition HasAttribute :: "attr \<Rightarrow> nat \<Rightarrow> bool res" where
  "HasAttribute data attr_id =
     and_then (GetAttributeImpl (drop NLA_HDRLEN data) attr_id) (\<lambda>r. Inr (r \<noteq> None))"

definition GetNestedAttribute :: "attr \<Rightarrow> nat \<Rightarrow> attr option res" where
  "GetNestedAttribute data attr_id =
     and_then (GetAttributeImpl (drop NLA_HDRLEN data) attr_id) (\<lambda>r.
       case r of None \<Rightarrow> Inr None
       | Some a \<Rightarrow> Inr (if IsValid a then Some a else None))"

definition GetTypedAttribute :: "'a attr_class \<Rightarrow> attr \<Rightarrow> nat \<Rightarrow> attr option res" where
  "GetTypedAttribute T data attr_id =
     and_then (GetAttributeImpl (drop NLA_HDRLEN data) attr_id) (\<lambda>r.
       case r of None \<Rightarrow> Inr None
       | Some a \<Rightarrow> Inr (if valid_attr T a then Some a else None))"

definition GetAttributeValue :: "'a attr_class \<Rightarrow> attr \<Rightarrow> nat \<Rightarrow> 'a option res" where
  "GetAttributeValue T data attr_id =
     and_then (GetTypedAttribute T data attr_id) (\<lambda>r.
       case r of None \<Rightarrow> Inr None
       | Some a \<Rightarrow> and_then (get_value T a) (\<lambda>v. Inr (Some v)))"

text \<open>
  The three list traversals. Unlike \<open>GetAttributeImpl\<close> they check every sub-attribute, and
  an empty one (\<open>nla_len = 0\<close>) is not valid, so the remaining buffer always shrinks.
\<close>

lemma IsValid_take_pos:
  "IsValid (take (NLA_ALIGN (nla_len buf)) buf) \<Longrightarrow> 0 < NLA_ALIGN (nla_len buf) \<and> 0 < length buf"
  by (auto simp: IsValid_def)

function nested_list_loop :: "bytes \<Rightarrow> attr list \<Rightarrow> attr list option" where
  "nested_list_loop buf acc =
     (if length buf < NLA_HDRLEN then Some acc
      else if length buf < NLA_ALIGN (nla_len buf) then None
      else let a = take (NLA_ALIGN (nla_len buf)) buf
           in if \<not> IsValid a then None
              else nested_list_loop (drop (NLA_ALIGN (nla_len buf)) buf) (acc @ [a]))"
  by pat_completeness auto
termination
  by (relation "measure (\<lambda>(buf, acc). length buf)") (auto dest: IsValid_take_pos)

definition GetListOfNestedAttributes :: "attr \<Rightarrow> attr list option" where
  "GetListOfNestedAttributes data = nested_list_loop (drop NLA_HDRLEN data) []"

function values_list_loop :: "'a attr_class \<Rightarrow> bytes \<Rightarrow> 'a list \<Rightarrow> 'a list option res" where
  "values_list_loop T buf acc =
     (if length buf < NLA_HDRLEN then Inr (Some acc)
      else if length buf < NLA_ALIGN (nla_len buf) then Inr None
      else let a = take (NLA_ALIGN (nla_len buf)) buf
           in if \<not> valid_attr T a then Inr None
              else and_then (get_value T a) (\<lambda>v.
                     values_list_loop T (drop (NLA_ALIGN (nla_len buf)) buf) (acc @ [v])))"
  by pat_completeness auto
termination
  by (relation "measure (\<lambda>(T, buf, acc). length buf)")
    (auto simp: valid_attr_def dest: IsValid_take_pos)

definition GetListOfAttributeValues :: "'a attr_class \<Rightarrow> attr \<Rightarrow> 'a list option res" where
  "GetListOfAttributeValues T data = values_list_loop T (drop NLA_HDRLEN data) []"

function attrs_list_loop :: "'a attr_class \<Rightarrow> bytes \<Rightarrow> attr list \<Rightarrow> attr list option" where
  "attrs_list_loop T buf acc =
     (if length buf < NLA_HDRLEN then Some acc
      else if length buf < NLA_ALIGN (nla_len buf) then None
      else let a = take (NLA_ALIGN (nla_len buf)) buf
           in if \<not> valid_attr T a then None
              else attrs_list_loop T (drop (NLA_ALIGN (nla_len buf)) buf) (acc @ [a]))"
  by pat_completeness auto
termination
  by (relation "measure (\<lambda>(T, buf, acc). length buf)")
    (auto simp: valid_attr_def dest: IsValid_take_pos)

definition GetListOfAttributes :: "'a attr_class \<Rightarrow> attr \<Rightarrow> attr list option" where
  "GetListOfAttributes T data = attrs_list_loop T (drop NLA_HDRLEN data) []"

text \<open>\<open>DebugLog\<close>: the (type, length) pairs it logs. It stops at a zero length.\<close>

function debug_loop :: "bytes \<Rightarrow> (nat \<times> nat) list" where
  "debug_loop buf =
     (if length buf < NLA_HDRLEN then []
      else if length buf < NLA_ALIGN (nla_len buf) then []
      else (nla_type buf, nla_len buf) #
             (if nla_len buf = 0 then []
              else debug_loop (drop (NLA_ALIGN (nla_len buf)) buf)))"
  by pat_completeness auto
termination
  by (relation "measure length") (auto simp: NLA_ALIGN_def)

definition DebugLog :: "attr \<Rightarrow> (nat \<times> nat) list" where
  "DebugLog data = debug_loop (drop NLA_HDRLEN data)"

declare nested_list_loop.simps [simp del] values_list_loop.simps [simp del]
  attrs_list_loop.simps [simp del] debug_loop.simps [simp del]

section \<open>Alignment\<close>

lemma NLA_ALIGN_ge: "n \<le> NLA_ALIGN n"
  unfolding NLA_ALIGN_def by presburger

lemma NLA_ALIGN_less: "NLA_ALIGN n < n + 4"
  unfolding NLA_ALIGN_def by presburger

lemma NLA_ALIGN_add_hdr [simp]: "NLA_ALIGN (4 + n) = 4 + NLA_ALIGN n"
  unfolding NLA_ALIGN_def by presburger

lemma NLA_ALIGN_idem [simp]: "NLA_ALIGN (NLA_ALIGN n) = NLA_ALIGN n"
  unfolding NLA_ALIGN_def by presburger

lemma NLA_ALIGN_0_iff [simp]: "NLA_ALIGN n = 0 \<longleftrightarrow> n = 0"
  unfolding NLA_ALIGN_def by presburger

lemma NLA_ALIGN_pos [simp]: "0 < NLA_ALIGN n \<longleftrightarrow> 0 < n"
  unfolding NLA_ALIGN_def by presburger

lemma NLA_ALIGN_add: "NLA_ALIGN m = m \<Longrightarrow> NLA_ALIGN (m + n) = m + NLA_ALIGN n"
  unfolding NLA_ALIGN_def by presburger

section \<open>The abstract attribute: type and payload\<close>

text \<open>
  \<open>tlv t p\<close> is the wire form of an attribute of type \<open>t\<close> with payload \<open>p\<close>; a payload fits
  when its length with the header is a 16-bit number.
\<close>

definition tlv :: "nat \<Rightarrow> bytes \<Rightarrow> attr" where
  "tlv t p = le_bytes 2 (4 + length p) @ le_bytes 2 t @ p @ replicate (NLA_ALIGN (length p) - length p) 0"

definition fits :: "bytes \<Rightarrow> bool" where
  "fits p \<longleftrightarrow> 4 + length p < 65536"

definition wf_attr :: "attr \<Rightarrow> bool" where
  "wf_attr a \<longleftrightarrow> 4 \<le> nla_len a \<and> IsValid a"

definition payload :: "attr \<Rightarrow> bytes" where
  "payload a = take (nla_len a - 4) (drop 4 a)"

lemma length_tlv: "length (tlv t p) = 4 + NLA_ALIGN (length p)"
  using NLA_ALIGN_ge [of "length p"] by (simp add: tlv_def)

lemma nla_len_tlv: "nla_len (tlv t p) = (4 + length p) mod 65536"
  by (simp add: nla_len_def field_def tlv_def le_nat_le_bytes)

lemma nla_type_tlv: "nla_type (tlv t p) = t mod 65536"
  by (simp add: nla_type_def field_def tlv_def le_nat_le_bytes)

lemma payload_tlv: "fits p \<Longrightarrow> payload (tlv t p) = p"
  by (simp add: payload_def nla_len_tlv fits_def) (simp add: tlv_def)

lemma wf_attr_tlv [wf_intros]: "fits p \<Longrightarrow> wf_attr (tlv t p)"
  by (simp add: wf_attr_def IsValid_def nla_len_tlv length_tlv fits_def)

lemma IsValid_tlv: "fits p \<Longrightarrow> IsValid (tlv t p)"
  using wf_attr_tlv by (simp add: wf_attr_def)

lemmas tlv_facts [wire_simps] = length_tlv nla_len_tlv nla_type_tlv payload_tlv IsValid_tlv

text \<open>Every constructor of the attribute classes builds a \<open>tlv\<close>.\<close>

lemma InitHeaderAndResize_layout:
  "InitHeaderAndResize [] t n = le_bytes 2 (4 + n) @ le_bytes 2 t @ replicate (NLA_ALIGN n) 0"
  by (simp add: InitHeaderAndResize_def Let_def resize_def put_def le_bytes_2 replicate_4)

lemma put_at_header:
  "length h = n \<Longrightarrow> length bs \<le> m \<Longrightarrow> put n bs (h @ replicate m 0) = h @ bs @ replicate (m - length bs) 0"
  by (simp add: put_def)

lemma put_in_new_attr:
  assumes "length bs \<le> NLA_ALIGN n"
  shows "put 4 bs (InitHeaderAndResize [] t n) =
    le_bytes 2 (4 + n) @ le_bytes 2 t @ bs @ replicate (NLA_ALIGN n - length bs) 0"
proof -
  have "InitHeaderAndResize [] t n = (le_bytes 2 (4 + n) @ le_bytes 2 t) @ replicate (NLA_ALIGN n) 0"
    by (simp add: InitHeaderAndResize_layout)
  also have "put 4 bs \<dots> = (le_bytes 2 (4 + n) @ le_bytes 2 t) @ bs @ replicate (NLA_ALIGN n - length bs) 0"
    using assms by (intro put_at_header) simp_all
  finally show ?thesis by simp
qed

lemma BaseNL80211Attr_tlv [wire_simps]: "BaseNL80211Attr t raw = tlv t raw"
  by (simp add: BaseNL80211Attr_def tlv_def put_in_new_attr NLA_ALIGN_ge)

lemma make_int_attr_tlv [wire_simps]: "make_int_attr n t v = tlv t (le_bytes n v)"
  by (simp add: make_int_attr_def tlv_def put_in_new_attr NLA_ALIGN_ge)

lemma NL80211NestedAttr_tlv [wire_simps]: "NL80211NestedAttr t = tlv t []"
  by (simp add: NL80211NestedAttr_def InitHeaderAndResize_layout tlv_def NLA_ALIGN_def)

lemma make_string_attr_tlv [wire_simps]: "make_string_attr t str = tlv t (str @ [0])"
proof -
  have len: "Suc (length str) \<le> NLA_ALIGN (Suc (length str))" by (rule NLA_ALIGN_ge)
  then have pad: "replicate (NLA_ALIGN (Suc (length str)) - length str) (0::u8) =
      0 # replicate (NLA_ALIGN (Suc (length str)) - Suc (length str)) 0"
    by (metis Suc_diff_le diff_Suc_Suc replicate_Suc)
  show ?thesis
    using len by (simp add: make_string_attr_def tlv_def put_in_new_attr pad)
qed

section \<open>Searching a run of attributes\<close>

lemma wf_attrD:
  assumes "wf_attr a"
  shows "4 \<le> length a" "NLA_ALIGN (nla_len a) = length a" "4 \<le> nla_len a" "IsValid a"
  using assms by (simp_all add: wf_attr_def IsValid_def)

lemma nla_len_append: "4 \<le> length a \<Longrightarrow> nla_len (a @ rest) = nla_len a"
  by (simp add: nla_len_def field_append1)

lemma nla_type_append: "4 \<le> length a \<Longrightarrow> nla_type (a @ rest) = nla_type a"
  by (simp add: nla_type_def field_append1)

lemma nla_type_bound: "nla_type a < 65536"
  using field_bound [of 2 2 a] by (simp add: nla_type_def)

lemma nla_len_bound: "nla_len a < 65536"
  using field_bound [of 2 0 a] by (simp add: nla_len_def)

text \<open>Every well-formed attribute is a \<open>tlv\<close> up to the value of its padding bytes.\<close>

lemma wf_attr_payload_fits: "wf_attr a \<Longrightarrow> fits (payload a)"
  using nla_len_bound [of a] by (auto simp: fits_def payload_def wf_attr_def IsValid_def)

text \<open>With the checks of the code no read is out of bounds.\<close>

lemma read_header_eq [simp]: "4 \<le> length buf \<Longrightarrow> read_header buf = Inr (nla_type buf, nla_len buf)"
  by (simp add: read_header_def nla_type_def nla_len_def)

lemma GetAttributeLoop_step:
  "GetAttributeLoop buf i =
     (if length buf < 4 then Some (Inr None)
      else if nla_type buf = i then
        (if length buf < NLA_ALIGN (nla_len buf) then Some (Inr None)
         else Some (Inr (Some (take (NLA_ALIGN (nla_len buf)) buf))))
      else GetAttributeLoop (drop (NLA_ALIGN (nla_len buf)) buf) i)"
  by (subst GetAttributeLoop.simps) simp

lemma GetAttributeLoop_returns_induct:
  assumes ret: "GetAttributeLoop buf i = Some r"
    and short: "\<And>buf. length buf < 4 \<Longrightarrow> P buf (Inr None)"
    and broken: "\<And>buf. 4 \<le> length buf \<Longrightarrow> nla_type buf = i \<Longrightarrow> length buf < NLA_ALIGN (nla_len buf) \<Longrightarrow> P buf (Inr None)"
    and hit: "\<And>buf. 4 \<le> length buf \<Longrightarrow> nla_type buf = i \<Longrightarrow> NLA_ALIGN (nla_len buf) \<le> length buf \<Longrightarrow>
      P buf (Inr (Some (take (NLA_ALIGN (nla_len buf)) buf)))"
    and later: "\<And>buf r. 4 \<le> length buf \<Longrightarrow> nla_type buf \<noteq> i \<Longrightarrow> P (drop (NLA_ALIGN (nla_len buf)) buf) r \<Longrightarrow> P buf r"
  shows "P buf r"
proof -
  have "j = i \<longrightarrow> P buf r" if "GetAttributeLoop buf j = Some r" for buf j r
  proof (rule GetAttributeLoop.raw_induct [where P = "\<lambda>buf j r. j = i \<longrightarrow> P buf r", OF _ that])
    fix loop buf j r
    assume IH: "\<And>buf j r. loop buf j = Some r \<Longrightarrow> j = i \<longrightarrow> P buf r"
      and eq: "(if length buf < NLA_HDRLEN then Some (Inr None)
        else case read_header buf of
          Inl e \<Rightarrow> Some (Inl e)
        | Inr (header_type, header_len) \<Rightarrow>
            if header_type = j then
              (if length buf < NLA_ALIGN header_len then Some (Inr None)
               else Some (and_then (read_bytes (NLA_ALIGN header_len) buf) (\<lambda>a. Inr (Some a))))
            else loop (drop (NLA_ALIGN header_len) buf) j) = Some r"
    show "j = i \<longrightarrow> P buf r"
      using eq IH [of "drop (NLA_ALIGN (nla_len buf)) buf" j r]
      by (cases "length buf < 4"; cases "nla_type buf = j"; cases "length buf < NLA_ALIGN (nla_len buf)")
        (auto intro: short broken hit later)
  qed
  with ret show ?thesis by blast
qed

lemma GetAttributeLoop_wf:
  assumes "wf_attr a"
  shows "GetAttributeLoop (a @ rest) i =
    (if nla_type a = i then Some (Inr (Some a)) else GetAttributeLoop rest i)"
proof -
  note a = wf_attrD [OF assms]
  show ?thesis
    using a(1,2) by (subst GetAttributeLoop_step) (simp add: nla_len_append nla_type_append)
qed

lemma GetAttributeLoop_short: "length buf < 4 \<Longrightarrow> GetAttributeLoop buf i = Some (Inr None)"
  by (subst GetAttributeLoop_step) simp

lemma GetAttributeLoop_concat:
  "\<forall>a \<in> set as. wf_attr a \<Longrightarrow> length rest < 4 \<Longrightarrow>
     GetAttributeLoop (concat as @ rest) i = Some (Inr (find (\<lambda>a. nla_type a = i) as))"
  by (induction as) (simp_all add: GetAttributeLoop_wf GetAttributeLoop_short)

lemma GetAttributeImpl_concat [wire_simps]:
  "\<forall>a \<in> set as. wf_attr a \<Longrightarrow>
     GetAttributeImpl (concat as) i = Inr (find (\<lambda>a. nla_type a = i) as)"
  using GetAttributeLoop_concat [of as "[]" i] by (simp add: GetAttributeImpl_def)

lemma GetAttributeImpl_Nil [simp]: "GetAttributeImpl [] i = Inr None"
  by (simp add: GetAttributeImpl_def GetAttributeLoop_short)

text \<open>
  When the loop does not end: it reaches a header of another type whose \<open>nla_len\<close> is zero,
  through headers that advance the pointer.
\<close>

inductive spins :: "bytes \<Rightarrow> nat \<Rightarrow> bool" where
  stuck: "4 \<le> length buf \<Longrightarrow> nla_type buf \<noteq> i \<Longrightarrow> nla_len buf = 0 \<Longrightarrow> spins buf i"
| advance: "4 \<le> length buf \<Longrightarrow> nla_type buf \<noteq> i \<Longrightarrow> 0 < nla_len buf \<Longrightarrow>
    spins (drop (NLA_ALIGN (nla_len buf)) buf) i \<Longrightarrow> spins buf i"

inductive_simps spins_iff: "spins buf i"

lemma GetAttributeLoop_returns_imp:
  assumes "GetAttributeLoop buf i = Some r"
  shows "\<not> spins buf i"
proof (rule GetAttributeLoop_returns_induct [where P = "\<lambda>buf r. \<not> spins buf i", OF assms])
  fix buf r
  assume tail: "\<not> spins (drop (NLA_ALIGN (nla_len buf)) buf) i"
  show "\<not> spins buf i"
  proof
    assume spin: "spins buf i"
    then show False using tail spin by cases (simp_all add: NLA_ALIGN_def)
  qed
qed (auto elim: spins.cases)

lemma GetAttributeLoop_no_fault: "GetAttributeLoop buf i = Some (Inl e) \<Longrightarrow> False"
  using GetAttributeLoop_returns_induct [of buf i "Inl e" "\<lambda>buf r. \<exists>x. r = Inr x"] by auto

lemma GetAttributeLoop_None_imp: "GetAttributeLoop buf i = None \<Longrightarrow> spins buf i"
proof (induction "length buf" arbitrary: buf rule: less_induct)
  case less
  from less.prems have here: "4 \<le> length buf" "nla_type buf \<noteq> i"
    and rest: "GetAttributeLoop (drop (NLA_ALIGN (nla_len buf)) buf) i = None"
    by (auto simp: GetAttributeLoop_step [of buf i] not_less split: if_splits)
  show ?case
  proof (cases "nla_len buf = 0")
    case True
    with here show ?thesis by (rule spins.stuck)
  next
    case False
    with here have "length (drop (NLA_ALIGN (nla_len buf)) buf) < length buf"
      by (auto intro!: diff_less)
    from this rest have "spins (drop (NLA_ALIGN (nla_len buf)) buf) i" by (rule less.hyps)
    then show ?thesis using here False by (auto intro: spins.advance [of buf])
  qed
qed

lemma GetAttributeLoop_None_iff: "GetAttributeLoop buf i = None \<longleftrightarrow> spins buf i"
  using GetAttributeLoop_None_imp GetAttributeLoop_returns_imp by (cases "GetAttributeLoop buf i") auto

lemma GetAttributeImpl_fault_iff: "GetAttributeImpl buf i = Inl e \<longleftrightarrow> e = No_Return \<and> spins buf i"
  by (cases "GetAttributeLoop buf i")
    (auto simp: GetAttributeImpl_def GetAttributeLoop_None_iff [symmetric] dest: GetAttributeLoop_no_fault)

text \<open>What a hit is: a slice of the buffer with the wanted type and an aligned length.\<close>

definition slice_at :: "bytes \<Rightarrow> nat \<Rightarrow> nat \<Rightarrow> attr \<Rightarrow> bool" where
  "slice_at buf n i a \<longleftrightarrow>
     4 \<le> length (drop n buf) \<and> nla_type (drop n buf) = i \<and>
     NLA_ALIGN (nla_len (drop n buf)) \<le> length (drop n buf) \<and>
     a = take (NLA_ALIGN (nla_len (drop n buf))) (drop n buf)"

lemma GetAttributeLoop_hit:
  assumes "GetAttributeLoop buf i = Some (Inr (Some a))"
  shows "\<exists>n. slice_at buf n i a"
proof -
  have "\<forall>a. r = Inr (Some a) \<longrightarrow> (\<exists>n. slice_at buf n i a)" if "GetAttributeLoop buf i = Some r" for r
  proof (rule GetAttributeLoop_returns_induct [where P = "\<lambda>buf r. \<forall>a. r = Inr (Some a) \<longrightarrow> (\<exists>n. slice_at buf n i a)", OF that])
    fix buf :: bytes
    assume "4 \<le> length buf" "nla_type buf = i" "NLA_ALIGN (nla_len buf) \<le> length buf"
    then have "slice_at buf 0 i (take (NLA_ALIGN (nla_len buf)) buf)" by (simp add: slice_at_def)
    then show "\<forall>a. Inr (Some (take (NLA_ALIGN (nla_len buf)) buf)) = (Inr (Some a) :: attr option res) \<longrightarrow> (\<exists>n. slice_at buf n i a)"
      by blast
  next
    fix buf :: bytes and r :: "attr option res"
    assume IH: "\<forall>a. r = Inr (Some a) \<longrightarrow> (\<exists>n. slice_at (drop (NLA_ALIGN (nla_len buf)) buf) n i a)"
    have "slice_at (drop k buf) n i a \<Longrightarrow> slice_at buf (n + k) i a" for k n a by (simp add: slice_at_def)
    with IH show "\<forall>a. r = Inr (Some a) \<longrightarrow> (\<exists>n. slice_at buf n i a)" by blast
  qed simp_all
  with assms show ?thesis by blast
qed

lemma slice_at_valid:
  assumes "slice_at buf n i a" and "IsValid a"
  shows "nla_type a = i" "4 \<le> length a" "length a \<le> length buf" "a = take (length a) (drop n buf)"
proof -
  let ?b = "drop n buf"
  from assms have len: "4 \<le> length a" by (simp add: IsValid_def)
  have b: "?b = a @ drop (length a) ?b"
    using assms(1) unfolding slice_at_def
    by (metis append_take_drop_id length_take min_absorb2)
  from assms(1) have "nla_type ?b = i" by (simp add: slice_at_def)
  with b len show "nla_type a = i" by (metis nla_type_append)
  show "4 \<le> length a" by (rule len)
  show "a = take (length a) ?b" using b by (metis append_eq_conv_conj)
  then show "length a \<le> length buf" by (metis length_drop length_take min.bounded_iff diff_le_self le_refl order_trans)
qed

lemma GetNestedAttribute_sound:
  assumes "GetNestedAttribute data i = Inr (Some a)"
  shows "IsValid a \<and> nla_type a = i \<and> (\<exists>n. a = take (length a) (drop n data))"
proof -
  from assms have hit: "GetAttributeLoop (drop 4 data) i = Some (Inr (Some a))" and v: "IsValid a"
    by (auto simp: GetNestedAttribute_def GetAttributeImpl_def and_then_eq_Inr split: option.splits if_splits)
  from GetAttributeLoop_hit [OF hit] obtain n where "slice_at (drop 4 data) n i a" ..
  from slice_at_valid [OF this v] have "nla_type a = i" "a = take (length a) (drop (n + 4) data)"
    by simp_all
  with v show ?thesis by blast
qed

section \<open>Nested attributes refine lists of attributes\<close>

text \<open>\<open>nested_attr t as\<close> is the nested attribute of type \<open>t\<close> that holds \<open>as\<close> in this order.\<close>

definition nested_attr :: "nat \<Rightarrow> attr list \<Rightarrow> attr" where
  "nested_attr t as = tlv t (concat as)"

definition wf_attrs :: "attr list \<Rightarrow> bool" where
  "wf_attrs as \<longleftrightarrow> (\<forall>a \<in> set as. wf_attr a)"

lemma wf_attrs_simps [simp]:
  "wf_attrs []" "wf_attrs (a # as) \<longleftrightarrow> wf_attr a \<and> wf_attrs as"
  "wf_attrs (as @ bs) \<longleftrightarrow> wf_attrs as \<and> wf_attrs bs"
  by (auto simp: wf_attrs_def)

lemma wf_attr_length_aligned: "wf_attr a \<Longrightarrow> NLA_ALIGN (length a) = length a"
  by (metis NLA_ALIGN_idem wf_attrD(2))

lemma wf_attrs_aligned: "wf_attrs as \<Longrightarrow> NLA_ALIGN (length (concat as)) = length (concat as)"
  by (induction as) (simp_all add: NLA_ALIGN_add wf_attr_length_aligned)

lemma tlv_aligned:
  "NLA_ALIGN (length p) = length p \<Longrightarrow> tlv t p = le_bytes 2 (4 + length p) @ le_bytes 2 t @ p"
  by (simp add: tlv_def)

lemma nested_attr_layout:
  "wf_attrs as \<Longrightarrow> nested_attr t as =
     le_bytes 2 (4 + length (concat as)) @ le_bytes 2 t @ concat as"
  by (simp only: nested_attr_def tlv_aligned wf_attrs_aligned)

lemma drop_nested_attr: "wf_attrs as \<Longrightarrow> drop 4 (nested_attr t as) = concat as"
  by (simp add: nested_attr_layout)

lemma NL80211NestedAttr_nested: "NL80211NestedAttr t = nested_attr t []"
  by (simp add: nested_attr_def NL80211NestedAttr_tlv)

lemma nested_attr_wf [wf_intros]: "fits (concat as) \<Longrightarrow> wf_attr (nested_attr t as)"
  by (simp add: nested_attr_def wf_attr_tlv)

lemma put_0_append: "length old = length new \<Longrightarrow> put 0 new (old @ rest) = new @ rest"
  by (simp add: put_def)

lemma AddAttribute_nested:
  assumes "wf_attrs as" "wf_attr a" "fits (concat as @ a)"
  shows "AddAttribute (nested_attr t as) a = nested_attr t (as @ [a])"
proof -
  have "nla_len (nested_attr t as @ a) = 4 + length (concat as)"
    using assms by (simp add: nested_attr_layout nla_len_def field_def le_nat_le_bytes fits_def)
  then have "AddAttribute (nested_attr t as) a =
      put 0 (le_bytes 2 (4 + length (concat as) + length a)) (nested_attr t as @ a)"
    by (simp add: AddAttribute_def)
  also have "\<dots> = le_bytes 2 (4 + length (concat as) + length a) @ le_bytes 2 t @ concat as @ a"
    using assms by (simp add: nested_attr_layout put_0_append)
  also have "\<dots> = nested_attr t (as @ [a])"
    using assms by (subst nested_attr_layout) (simp_all add: add.assoc)
  finally show ?thesis .
qed

lemma tlv_Nil: "tlv t [] = le_bytes 2 4 @ le_bytes 2 t"
  by (simp add: tlv_def NLA_ALIGN_def)

lemma AddFlagAttribute_as_AddAttribute:
  assumes "4 \<le> length d"
  shows "AddFlagAttribute t d = AddAttribute d (tlv t [])"
proof -
  have "resize (length d + 4) d = d @ [0, 0, 0, 0]"
    using replicate_4 [of 0 "0::u8"] by (simp add: resize_def)
  moreover have "put (length d + 2) (le_bytes 2 t) (d @ [0, 0, 0, 0]) = d @ [0, 0] @ le_bytes 2 t"
    by (simp add: put_def)
  moreover have "put (length d) (le_bytes 2 4) (d @ [0, 0] @ le_bytes 2 t) = d @ tlv t []"
    by (simp add: put_def tlv_Nil le_bytes_2)
  ultimately show ?thesis
    using assms by (simp add: AddFlagAttribute_def AddAttribute_def Let_def tlv_Nil)
qed

lemma AddFlagAttribute_nested:
  assumes "wf_attrs as" "fits (concat as @ tlv f [])"
  shows "AddFlagAttribute f (nested_attr t as) = nested_attr t (as @ [tlv f []])"
proof -
  have "4 \<le> length (nested_attr t as)" by (simp add: nested_attr_def length_tlv)
  moreover have "wf_attr (tlv f [])" by (simp add: wf_attr_tlv fits_def)
  ultimately show ?thesis
    using assms by (simp add: AddFlagAttribute_as_AddAttribute AddAttribute_nested)
qed

lemma GetAttributeImpl_nested:
  "wf_attrs as \<Longrightarrow> GetAttributeImpl (drop 4 (nested_attr t as)) i =
     Inr (find (\<lambda>a. nla_type a = i) as)"
  by (simp add: drop_nested_attr GetAttributeImpl_concat wf_attrs_def)

lemma find_SomeD: "find P xs = Some x \<Longrightarrow> x \<in> set xs \<and> P x"
  by (auto simp: find_Some_iff)

lemma find_None_ball: "(find P xs = None) = (\<forall>x \<in> set xs. \<not> P x)"
  by (auto simp: find_None_iff)

lemma HasAttribute_nested:
  "wf_attrs as \<Longrightarrow> HasAttribute (nested_attr t as) i = Inr (\<exists>a \<in> set as. nla_type a = i)"
  by (cases "find (\<lambda>a. nla_type a = i) as")
    (auto simp: HasAttribute_def GetAttributeImpl_nested find_None_ball dest: find_SomeD)

lemma GetNestedAttribute_nested:
  assumes "wf_attrs as"
  shows "GetNestedAttribute (nested_attr t as) i = Inr (find (\<lambda>a. nla_type a = i) as)"
  using assms
  by (auto simp: GetNestedAttribute_def GetAttributeImpl_nested wf_attrs_def wf_attr_def
      split: option.split dest!: find_SomeD)

lemma GetTypedAttribute_nested:
  assumes "wf_attrs as"
  shows "GetTypedAttribute T (nested_attr t as) i =
    Inr (case find (\<lambda>a. nla_type a = i) as of None \<Rightarrow> None
         | Some a \<Rightarrow> if valid_attr T a then Some a else None)"
  using assms by (auto simp: GetTypedAttribute_def GetAttributeImpl_nested split: option.split)

lemma nested_list_loop_wf:
  assumes "wf_attr a"
  shows "nested_list_loop (a @ rest) acc = nested_list_loop rest (acc @ [a])"
  using wf_attrD [OF assms]
  by (subst nested_list_loop.simps) (simp add: nla_len_append Let_def)

lemma nested_list_loop_concat:
  "wf_attrs as \<Longrightarrow> nested_list_loop (concat as) acc = Some (acc @ as)"
proof (induction as arbitrary: acc)
  case Nil
  show ?case by (subst nested_list_loop.simps) simp
next
  case (Cons a as)
  then show ?case by (simp add: nested_list_loop_wf)
qed

lemma GetListOfNestedAttributes_nested:
  "wf_attrs as \<Longrightarrow> GetListOfNestedAttributes (nested_attr t as) = Some as"
  by (simp add: GetListOfNestedAttributes_def drop_nested_attr nested_list_loop_concat)

lemma nested_list_loop_sound:
  "nested_list_loop buf acc = Some out \<Longrightarrow>
     \<exists>as rest. out = acc @ as \<and> buf = concat as @ rest \<and> length rest < 4 \<and> (\<forall>a \<in> set as. IsValid a)"
proof (induction buf acc rule: nested_list_loop.induct)
  case (1 buf acc)
  let ?n = "NLA_ALIGN (nla_len buf)"
  show ?case
  proof (cases "length buf < 4")
    case True
    with "1.prems" show ?thesis
      by (intro exI [of _ "[]"] exI [of _ buf]) (simp add: nested_list_loop.simps [of buf])
  next
    case False
    with "1.prems" have n: "?n \<le> length buf" and v: "IsValid (take ?n buf)"
      and tail: "nested_list_loop (drop ?n buf) (acc @ [take ?n buf]) = Some out"
      by (auto simp: nested_list_loop.simps [of buf] Let_def split: if_splits)
    with False "1.IH" obtain as rest where "out = (acc @ [take ?n buf]) @ as"
      and "drop ?n buf = concat as @ rest" "length rest < 4" "\<forall>a \<in> set as. IsValid a"
      by auto
    with v show ?thesis
      by (intro exI [of _ "take ?n buf # as"] exI [of _ rest])
        (auto, metis append_take_drop_id)
  qed
qed

section \<open>The contract of a payload type\<close>

text \<open>
  What the templates over \<open>NL80211Attr<T>\<close> rely on: an attribute made from a value is
  well formed, carries the requested type, passes \<open>IsValid\<close> and gives the value back.
  \<open>ok\<close> are the values \<open>T\<close> can carry.
\<close>

locale attr_codec =
  fixes T :: "'a attr_class"
    and ok :: "'a \<Rightarrow> bool"
  assumes wf_make: "ok v \<Longrightarrow> wf_attr (make_attr T i v)"
    and type_make: "ok v \<Longrightarrow> nla_type (make_attr T i v) = i mod 65536"
    and extra_make: "ok v \<Longrightarrow> extra_valid T (make_attr T i v)"
    and get_make: "ok v \<Longrightarrow> get_value T (make_attr T i v) = Inr v"
begin

lemma valid_make: "ok v \<Longrightarrow> valid_attr T (make_attr T i v)"
  using wf_make extra_make by (simp add: valid_attr_def wf_attr_def)

lemma length_make: "ok v \<Longrightarrow> 4 \<le> length (make_attr T i v)"
  using wf_make wf_attrD(1) by blast

text \<open>Reading back a value stored in a nested attribute that holds no other of its type.\<close>

lemma GetAttributeValue_stored:
  assumes "ok v" "wf_attrs as" "wf_attrs bs" "i < 65536" "\<forall>a \<in> set as. nla_type a \<noteq> i"
  shows "GetAttributeValue T (nested_attr t (as @ make_attr T i v # bs)) i = Inr (Some v)"
proof -
  have "find (\<lambda>a. nla_type a = i) as = None"
    using assms(5) by (simp add: find_None_ball)
  then have "find (\<lambda>a. nla_type a = i) (as @ make_attr T i v # bs) = Some (make_attr T i v)"
    using assms by (induction as) (simp_all add: type_make split: if_splits)
  then show ?thesis
    using assms
    by (simp add: GetAttributeValue_def GetTypedAttribute_nested wf_make valid_make get_make)
qed

text \<open>A hit in the middle of an arbitrary table is found as the first of its type.\<close>

lemma GetAttributeValue_found:
  assumes "wf_attrs as" "find (\<lambda>a. nla_type a = i) as = Some (make_attr T j v)" "ok v"
  shows "GetAttributeValue T (nested_attr t as) i = Inr (Some v)"
  using assms by (simp add: GetAttributeValue_def GetTypedAttribute_nested valid_make get_make)

lemma GetAttributeValue_absent:
  assumes "wf_attrs as" "\<forall>a \<in> set as. nla_type a \<noteq> i"
  shows "GetAttributeValue T (nested_attr t as) i = Inr None"
  using assms by (simp add: GetAttributeValue_def GetTypedAttribute_nested find_None_ball [THEN iffD2])

lemma values_list_loop_make:
  "\<forall>p \<in> set ivs. ok (snd p) \<Longrightarrow>
     values_list_loop T (concat (map (\<lambda>(i, v). make_attr T i v) ivs)) acc = Inr (Some (acc @ map snd ivs))"
proof (induction ivs arbitrary: acc)
  case Nil
  show ?case by (subst values_list_loop.simps) simp
next
  case (Cons p ivs)
  obtain i v where p: "p = (i, v)" by (cases p)
  with Cons.prems have ok: "ok v" by simp
  note a = wf_attrD [OF wf_make [OF ok, of i]]
  show ?case
    using Cons a(1,2) p
    by (subst values_list_loop.simps)
      (simp add: nla_len_append Let_def valid_make ok get_make)
qed

lemma GetListOfAttributeValues_make:
  assumes "\<forall>p \<in> set ivs. ok (snd p)"
  shows "GetListOfAttributeValues T (nested_attr t (map (\<lambda>(i, v). make_attr T i v) ivs)) =
    Inr (Some (map snd ivs))"
proof -
  have "wf_attrs (map (\<lambda>(i, v). make_attr T i v) ivs)"
    using assms by (auto simp: wf_attrs_def wf_make)
  then show ?thesis
    using values_list_loop_make [OF assms, of "[]"]
    by (simp add: GetListOfAttributeValues_def drop_nested_attr)
qed

end

section \<open>The payload types keep the contract\<close>

lemma drop_4_tlv: "drop 4 (tlv t p) = p @ replicate (NLA_ALIGN (length p) - length p) 0"
  by (simp add: tlv_def)

lemma GetValue_vector_tlv: "fits p \<Longrightarrow> GetValue_vector (tlv t p) = Inr p"
  using NLA_ALIGN_ge [of "length p"]
  by (simp add: GetValue_vector_def length_tlv nla_len_tlv fits_def drop_4_tlv)

lemma word_bytes_bound: "LENGTH('w::len) = 8 * n \<Longrightarrow> unat (w :: 'w word) < 256 ^ n"
  using unsigned_less [of w] by (simp add: power_mult)

lemma word_class_codec:
  assumes n: "LENGTH('w::len) = 8 * n" and small: "n < 60000"
  shows "attr_codec (word_class :: 'w word attr_class) (\<lambda>_. True)"
proof
  fix v :: "'w word" and i
  have fit: "fits (le_bytes n (unat v))" using small by (simp add: fits_def)
  have make: "make_attr word_class i v = tlv i (le_bytes n (unat v))"
    by (simp add: word_class_def make_int_attr_tlv n)
  have len: "length (tlv i (le_bytes n (unat v))) = 4 + NLA_ALIGN n"
    by (simp add: length_tlv)
  show "wf_attr (make_attr word_class i v)" by (simp add: make wf_attr_tlv fit)
  show "nla_type (make_attr word_class i v) = i mod 65536" by (simp add: make nla_type_tlv)
  show "extra_valid (word_class :: 'w word attr_class) (make_attr word_class i v)"
    unfolding make using small
    by (simp add: word_class_def int_size_ok_def n len nla_len_tlv)
  have "field n 4 (tlv i (le_bytes n (unat v))) = unat v"
    using word_bytes_bound [OF n, of v] by (simp add: field_def drop_4_tlv le_nat_le_bytes)
  moreover have "4 + n \<le> length (tlv i (le_bytes n (unat v)))"
    using NLA_ALIGN_ge [of n] by (simp add: len)
  ultimately show "get_value word_class (make_attr word_class i v) = Inr v"
    unfolding make by (simp add: word_class_def GetValue_int_def n)
qed

interpretation u8_attr: attr_codec "word_class :: u8 attr_class" "\<lambda>_. True"
  by (rule word_class_codec [of 1]) simp_all

interpretation u16_attr: attr_codec "word_class :: u16 attr_class" "\<lambda>_. True"
  by (rule word_class_codec [of 2]) simp_all

interpretation u32_attr: attr_codec "word_class :: u32 attr_class" "\<lambda>_. True"
  by (rule word_class_codec [of 4]) simp_all

interpretation u64_attr: attr_codec "word_class :: u64 attr_class" "\<lambda>_. True"
  by (rule word_class_codec [of 8]) simp_all

interpretation vector_attr: attr_codec vector_class fits
  by unfold_locales
    (simp_all add: vector_class_def BaseNL80211Attr_tlv wf_attr_tlv nla_type_tlv GetValue_vector_tlv)

interpretation mac_attr: attr_codec mac_class "\<lambda>m. length m = 6"
  by unfold_locales
    (simp_all add: mac_class_def array_class_def BaseNL80211Attr_tlv wf_attr_tlv nla_type_tlv fits_def
      GetValue_array_def length_tlv drop_4_tlv NLA_ALIGN_def)

text \<open>A string survives when it fits with its terminator and does not itself end in a zero.\<close>

definition plain_string :: "bytes \<Rightarrow> bool" where
  "plain_string s \<longleftrightarrow> fits (s @ [0]) \<and> (s = [] \<or> last s \<noteq> 0)"

lemma strip_zeros_terminated: "s = [] \<or> last s \<noteq> 0 \<Longrightarrow> strip_zeros (s @ [0]) = s"
  by (cases s rule: rev_cases) (auto simp: strip_zeros_def)

interpretation string_attr: attr_codec string_class plain_string
  by unfold_locales
    (auto simp: string_class_def make_string_attr_tlv wf_attr_tlv nla_type_tlv GetValue_string_def
      GetValue_vector_tlv plain_string_def strip_zeros_terminated)

section \<open>Merging the pieces of a split dump\<close>

lemma GetAttributeId_tlv: "GetAttributeId (tlv t p) = Inr (t mod 65536)"
  by (simp add: GetAttributeId_def length_tlv nla_type_tlv)

lemma tlv_header: "tlv t p = le_bytes 2 (4 + length p) @ drop 2 (tlv t p)"
  by (simp add: tlv_def)

lemma put_len_tlv:
  "put 0 (le_bytes 2 n) (tlv t p) =
     le_bytes 2 n @ le_bytes 2 t @ p @ replicate (NLA_ALIGN (length p) - length p) 0"
  by (simp add: put_def tlv_def)

lemma Merge_tlv:
  assumes "fits p" "fits q"
  shows "Merge (tlv t p) (tlv t q) = Inr (True, tlv t (p @ q))"
proof -
  let ?n = "4 + length p"
  have pq: "?n < 65536" "4 + length q < 65536" using assms by (simp_all add: fits_def)
  have cut: "resize ?n (put 0 (le_bytes 2 m) (tlv t p)) = le_bytes 2 m @ le_bytes 2 t @ p" for m
    using NLA_ALIGN_ge [of "length p"] by (simp add: put_len_tlv resize_def)
  have body: "take (length q) (drop 4 (tlv t q)) = q" by (simp add: drop_4_tlv)
  have grow: "resize (NLA_ALIGN (4 + length p + length q))
      (le_bytes 2 (4 + length p + length q) @ le_bytes 2 t @ p @ q) = tlv t (p @ q)"
    using NLA_ALIGN_ge [of "length p + length q"] by (simp add: resize_def tlv_def add.assoc)
  show ?thesis
    using pq assms
    by (simp add: Merge_def IsValid_tlv GetAttributeId_tlv nla_len_tlv Let_def cut body grow)
qed

lemma tlv_fits_iff_valid: "length p < 131064 \<Longrightarrow> IsValid (tlv t p) \<longleftrightarrow> fits p"
proof
  assume small: "length p < 131064" and v: "IsValid (tlv t p)"
  show "fits p"
  proof (rule ccontr)
    assume "\<not> fits p"
    then have "65536 \<le> 4 + length p" by (simp add: fits_def)
    then have "(4 + length p) mod 65536 = length p - 65532" using small by (simp add: le_mod_geq)
    with v have "NLA_ALIGN (length p - 65532) = 4 + NLA_ALIGN (length p)"
      by (simp add: IsValid_def nla_len_tlv length_tlv)
    then show False
      using NLA_ALIGN_less [of "length p - 65532"] NLA_ALIGN_ge [of "length p"] \<open>\<not> fits p\<close>
      by (simp add: fits_def)
  qed
qed (rule IsValid_tlv)

lemma Merge_invalid: "\<not> IsValid b \<Longrightarrow> Merge a b = Inr (False, a)"
  by (simp add: Merge_def)

lemma Merge_other_type:
  "t mod 65536 \<noteq> u mod 65536 \<Longrightarrow> fits q \<Longrightarrow> Merge (tlv t p) (tlv u q) = Inr (False, tlv t p)"
  by (simp add: Merge_def IsValid_tlv GetAttributeId_tlv)

section \<open>Which reads are memory safe\<close>

text \<open>
  A buffer is arbitrary here. Reads of integral values cannot fault whatever the kernel
  sent: their \<open>IsValid\<close> pins the size. Vectors and strings fault exactly when the stored
  length is shorter than the header; a fixed-size array is read past the end of the
  attribute when the attribute is too short.
\<close>

lemma GetTypedAttribute_valid:
  "GetTypedAttribute T data i = Inr (Some a) \<Longrightarrow> valid_attr T a"
  by (auto simp: GetTypedAttribute_def and_then_eq_Inr split: option.splits if_splits)

lemma GetTypedAttribute_fault:
  "GetTypedAttribute T data i = Inl e \<Longrightarrow> e = No_Return \<and> spins (drop 4 data) i"
  by (auto simp: GetTypedAttribute_def and_then_def GetAttributeImpl_fault_iff
      split: sum.splits option.splits)

lemma word_class_value_safe:
  "valid_attr (word_class :: 'w::len word attr_class) a \<Longrightarrow> returns (get_value (word_class :: 'w word attr_class) a)"
  using NLA_ALIGN_ge [of "LENGTH('w) div 8"]
  by (simp add: valid_attr_def word_class_def int_size_ok_def GetValue_int_def)

lemma GetAttributeValue_fault:
  assumes "GetAttributeValue T data i = Inl e"
  shows "e = No_Return \<and> spins (drop 4 data) i \<or> (\<exists>a. valid_attr T a \<and> get_value T a = Inl e)"
proof (cases "GetTypedAttribute T data i")
  case (Inl e')
  with assms show ?thesis
    using GetTypedAttribute_fault [OF Inl] by (simp add: GetAttributeValue_def)
next
  case (Inr r)
  with assms obtain a where "r = Some a" and "get_value T a = Inl e"
    by (auto simp: GetAttributeValue_def and_then_def split: option.splits sum.splits)
  with Inr show ?thesis using GetTypedAttribute_valid by blast
qed

lemma word_value_fault_iff:
  "GetAttributeValue (word_class :: 'w::len word attr_class) data i = Inl e \<longleftrightarrow>
     e = No_Return \<and> spins (drop 4 data) i"
proof
  assume "GetAttributeValue (word_class :: 'w word attr_class) data i = Inl e"
  from GetAttributeValue_fault [OF this] show "e = No_Return \<and> spins (drop 4 data) i"
    by (auto dest: word_class_value_safe)
next
  assume "e = No_Return \<and> spins (drop 4 data) i"
  then show "GetAttributeValue (word_class :: 'w word attr_class) data i = Inl e"
    by (simp add: GetAttributeValue_def GetTypedAttribute_def
        GetAttributeImpl_fault_iff [THEN iffD2])
qed

lemma GetValue_vector_safe_iff: "IsValid a \<Longrightarrow> returns (GetValue_vector a) \<longleftrightarrow> 4 \<le> nla_len a"
  using NLA_ALIGN_ge [of "nla_len a"]
  by (auto simp: GetValue_vector_def IsValid_def)

lemma GetValue_array_safe_iff: "returns (GetValue_array N a) \<longleftrightarrow> 4 + N \<le> length a"
  by (simp add: GetValue_array_def)

end
