(* ===== verification/Nl80211_Packet.thy ===== *)
theory Nl80211_Packet
  imports Nl80211_Attribute
begin

text \<open>
  \<open>net/nl80211_packet.{h,cpp}\<close>: netlink messages. \<open>NL80211Packet\<close> has the single field
  \<open>data_\<close>, so a packet is its byte vector: \<open>struct nlmsghdr\<close> (length, type, flags,
  sequence, port), \<open>struct genlmsghdr\<close> (command, version, reserved), attributes. Getters read
  without a bounds check; where the vector can be too short for the field the result is a
  fault. Member functions that the attribute classes also have carry the prefix
  \<open>Packet_\<close>.
\<close>

type_synonym packet = bytes

definition nlmsg_len :: "bytes \<Rightarrow> nat" where
  "nlmsg_len d = field 4 0 d"

section \<open>Construction and header fields\<close>

definition NL80211Packet :: "u16 \<Rightarrow> nat \<Rightarrow> u32 \<Rightarrow> u32 \<Rightarrow> packet" where
  "NL80211Packet msg_type command sequence pid =
     (let d0 = resize (NLMSG_HDRLEN + GENL_HDRLEN) [];
          d1 = put 0 (le_bytes 4 (length d0)) d0;
          d2 = put 6 (le_bytes 2 (unat (of_nat (field 2 6 d1) OR NLM_F_REQUEST :: u16))) d1;
          d3 = put 4 (le_bytes 2 (unat msg_type)) d2;
          d4 = put 8 (le_bytes 4 (unat sequence)) d3;
          d5 = put 12 (le_bytes 4 (unat pid)) d4;
          d6 = put (NLMSG_HDRLEN + 1) [1] d5
      in put NLMSG_HDRLEN (le_bytes 1 command) d6)"

definition GetMessageType :: "packet \<Rightarrow> nat res" where
  "GetMessageType d = read_field 2 4 d"

definition GetFlags :: "packet \<Rightarrow> u16 res" where
  "GetFlags d = and_then (read_field 2 6 d) (\<lambda>v. Inr (of_nat v))"

definition GetMessageSequence :: "packet \<Rightarrow> u32 res" where
  "GetMessageSequence d = and_then (read_field 4 8 d) (\<lambda>v. Inr (of_nat v))"

definition GetPortId :: "packet \<Rightarrow> u32 res" where
  "GetPortId d = and_then (read_field 4 12 d) (\<lambda>v. Inr (of_nat v))"

definition GetCommand :: "packet \<Rightarrow> nat res" where
  "GetCommand d = read_field 1 NLMSG_HDRLEN d"

text \<open>\<open>-*(int*)\<close>: the negated two's complement reading.\<close>

definition GetErrorCode :: "packet \<Rightarrow> int res" where
  "GetErrorCode d = and_then (read_field 4 NLMSG_HDRLEN d) (\<lambda>v. Inr (sint (- (of_nat v :: u32))))"

definition Packet_IsValid :: "packet \<Rightarrow> bool res" where
  "Packet_IsValid d =
     (if length d < NLMSG_HDRLEN then Inr False
      else and_then (GetMessageType d) (\<lambda>msg_type.
        if NLMSG_MIN_TYPE \<le> msg_type \<and>
           (length d < NLMSG_HDRLEN + GENL_HDRLEN \<or> nlmsg_len d < NLMSG_HDRLEN + GENL_HDRLEN)
        then Inr False
        else if msg_type = NLMSG_ERROR \<and>
           (length d < NLMSG_HDRLEN + 4 \<or> nlmsg_len d < NLMSG_HDRLEN + 4)
        then Inr False
        else if length d < nlmsg_len d \<or> nlmsg_len d < 16 then Inr False
        else Inr True))"

definition IsDump :: "packet \<Rightarrow> bool res" where
  "IsDump d = and_then (GetFlags d) (\<lambda>f. Inr (f AND NLM_F_DUMP \<noteq> 0))"

definition IsMulti :: "packet \<Rightarrow> bool res" where
  "IsMulti d = and_then (GetFlags d) (\<lambda>f. Inr (f AND NLM_F_MULTI \<noteq> 0))"

text \<open>Setters; callers only use them on packets that hold both headers.\<close>

definition SetCommand :: "nat \<Rightarrow> packet \<Rightarrow> packet" where
  "SetCommand command d = put NLMSG_HDRLEN (le_bytes 1 command) d"

definition AddFlag :: "u16 \<Rightarrow> packet \<Rightarrow> packet" where
  "AddFlag flag d = put 6 (le_bytes 2 (unat (of_nat (field 2 6 d) OR flag :: u16))) d"

definition SetFlags :: "u16 \<Rightarrow> packet \<Rightarrow> packet" where
  "SetFlags flags d = put 6 (le_bytes 2 (unat flags)) d"

definition SetMessageType :: "u16 \<Rightarrow> packet \<Rightarrow> packet" where
  "SetMessageType message_type d = put 4 (le_bytes 2 (unat message_type)) d"

definition SetMessageSequence :: "u32 \<Rightarrow> packet \<Rightarrow> packet" where
  "SetMessageSequence message_sequence d = put 8 (le_bytes 4 (unat message_sequence)) d"

definition SetPortId :: "u32 \<Rightarrow> packet \<Rightarrow> packet" where
  "SetPortId pid d = put 12 (le_bytes 4 (unat pid)) d"

section \<open>Attributes of a packet\<close>

definition Packet_AddAttribute :: "attr \<Rightarrow> packet \<Rightarrow> packet" where
  "Packet_AddAttribute attribute d =
     (let d1 = d @ attribute
      in put 0 (le_bytes 4 (nlmsg_len d1 + length attribute)) d1)"

definition Packet_AddFlagAttribute :: "nat \<Rightarrow> packet \<Rightarrow> packet" where
  "Packet_AddFlagAttribute attribute_id d =
     (let d1 = resize (length d + NLA_HDRLEN) d;
          flag = length d1 - NLA_HDRLEN;
          d2 = put (flag + 2) (le_bytes 2 attribute_id) d1;
          d3 = put flag (le_bytes 2 NLA_HDRLEN) d2
      in put 0 (le_bytes 4 (nlmsg_len d3 + NLA_HDRLEN)) d3)"

text \<open>
  The attribute area starts after both headers. When the packet is shorter (a control
  message), \<open>data_.size() - NLMSG_HDRLEN - GENL_HDRLEN\<close> wraps round and the end pointer wraps
  back to the end of the vector: the area is empty.
\<close>

definition attr_area :: "packet \<Rightarrow> bytes" where
  "attr_area d = drop (NLMSG_HDRLEN + GENL_HDRLEN) d"

definition Packet_HasAttribute :: "packet \<Rightarrow> nat \<Rightarrow> bool res" where
  "Packet_HasAttribute d i = and_then (GetAttributeImpl (attr_area d) i) (\<lambda>r. Inr (r \<noteq> None))"

definition Packet_GetAttribute :: "packet \<Rightarrow> nat \<Rightarrow> attr option res" where
  "Packet_GetAttribute d i =
     and_then (GetAttributeImpl (attr_area d) i) (\<lambda>r.
       case r of None \<Rightarrow> Inr None
       | Some a \<Rightarrow> Inr (if IsValid a then Some a else None))"

definition Packet_GetTypedAttribute :: "'a attr_class \<Rightarrow> packet \<Rightarrow> nat \<Rightarrow> attr option res" where
  "Packet_GetTypedAttribute T d i =
     and_then (GetAttributeImpl (attr_area d) i) (\<lambda>r.
       case r of None \<Rightarrow> Inr None
       | Some a \<Rightarrow> Inr (if valid_attr T a then Some a else None))"

definition Packet_GetAttributeValue :: "'a attr_class \<Rightarrow> packet \<Rightarrow> nat \<Rightarrow> 'a option res" where
  "Packet_GetAttributeValue T d i =
     and_then (Packet_GetTypedAttribute T d i) (\<lambda>r.
       case r of None \<Rightarrow> Inr None
       | Some a \<Rightarrow> and_then (get_value T a) (\<lambda>v. Inr (Some v)))"

text \<open>
  \<open>GetAllAttributes\<close> rebuilds every attribute from its type and payload and appends it to
  the output vector; on failure the attributes before the broken one stay there. A length
  between 1 and 3 makes the payload range end before its start.
\<close>

function all_attributes_loop :: "bytes \<Rightarrow> attr list \<Rightarrow> (bool \<times> attr list) res" where
  "all_attributes_loop buf attributes =
     (if length buf < NLA_HDRLEN then Inr (True, attributes)
      else if length buf < NLA_ALIGN (nla_len buf) \<or> nla_len buf = 0 then Inr (False, attributes)
      else if nla_len buf < NLA_HDRLEN then Inl Length_Error
      else all_attributes_loop (drop (NLA_ALIGN (nla_len buf)) buf)
             (attributes @ [BaseNL80211Attr (nla_type buf)
                (take (nla_len buf - NLA_HDRLEN) (drop NLA_HDRLEN buf))]))"
  by pat_completeness auto
termination
  by (relation "measure (\<lambda>(buf, attributes). length buf)") (auto intro: diff_less)

declare all_attributes_loop.simps [simp del]

definition GetAllAttributes :: "packet \<Rightarrow> (bool \<times> attr list) res" where
  "GetAllAttributes d = all_attributes_loop (attr_area d) []"

definition Packet_DebugLog :: "packet \<Rightarrow> (nat \<times> nat) list" where
  "Packet_DebugLog d = debug_loop (attr_area d)"

section \<open>The abstract message\<close>

text \<open>
  A message is a header and a list of attributes; \<open>message h as\<close> is its wire form. Every
  operation above is the obvious operation on this pair.
\<close>

record nl_header =
  msg_type :: u16
  msg_flags :: u16
  msg_seq :: u32
  msg_pid :: u32
  msg_cmd :: nat

definition message :: "nl_header \<Rightarrow> attr list \<Rightarrow> packet" where
  "message h as =
     le_bytes 4 (20 + length (concat as)) @ le_bytes 2 (unat (msg_type h)) @
     le_bytes 2 (unat (msg_flags h)) @ le_bytes 4 (unat (msg_seq h)) @
     le_bytes 4 (unat (msg_pid h)) @ le_bytes 1 (msg_cmd h) @ [1, 0, 0] @ concat as"

definition fits_message :: "attr list \<Rightarrow> bool" where
  "fits_message as \<longleftrightarrow> 20 + length (concat as) < 4294967296"

lemma length_message [simp]: "length (message h as) = 20 + length (concat as)"
  by (simp add: message_def)

lemma attr_area_message: "attr_area (message h as) = concat as"
  by (simp add: attr_area_def message_def)

lemma nlmsg_len_message: "nlmsg_len (message h as) = (20 + length (concat as)) mod 4294967296"
  by (simp add: nlmsg_len_def field_def message_def le_nat_le_bytes)

lemma unat_u16_bound: "unat (w :: u16) < 65536"
  using word_bytes_bound [of 2 w] by simp

lemma unat_u32_bound: "unat (w :: u32) < 4294967296"
  using word_bytes_bound [of 4 w] by simp

lemma unat_u64_bound: "unat (w :: u64) < 18446744073709551616"
  using word_bytes_bound [of 8 w] by simp

lemma field_message:
  "field 2 4 (message h as) = unat (msg_type h)"
  "field 2 6 (message h as) = unat (msg_flags h)"
  "field 4 8 (message h as) = unat (msg_seq h)"
  "field 4 12 (message h as) = unat (msg_pid h)"
  "field (Suc 0) 16 (message h as) = msg_cmd h mod 256"
  using unat_u16_bound [of "msg_type h"] unat_u16_bound [of "msg_flags h"]
    unat_u32_bound [of "msg_seq h"] unat_u32_bound [of "msg_pid h"]
  by (simp_all add: field_def message_def le_nat_le_bytes unat_of_nat_u8)

lemma header_getters [wire_simps, simp]:
  "GetMessageType (message h as) = Inr (unat (msg_type h))"
  "GetFlags (message h as) = Inr (msg_flags h)"
  "GetMessageSequence (message h as) = Inr (msg_seq h)"
  "GetPortId (message h as) = Inr (msg_pid h)"
  "GetCommand (message h as) = Inr (msg_cmd h mod 256)"
  by (simp_all add: GetMessageType_def GetFlags_def GetMessageSequence_def GetPortId_def
      GetCommand_def field_message)

lemma message_split:
  "message h as = le_bytes 4 (20 + length (concat as)) @ drop 4 (message h as)"
  "message h as = take 4 (message h as) @ le_bytes 2 (unat (msg_type h)) @ drop 6 (message h as)"
  "message h as = take 6 (message h as) @ le_bytes 2 (unat (msg_flags h)) @ drop 8 (message h as)"
  "message h as = take 8 (message h as) @ le_bytes 4 (unat (msg_seq h)) @ drop 12 (message h as)"
  "message h as = take 12 (message h as) @ le_bytes 4 (unat (msg_pid h)) @ drop 16 (message h as)"
  "message h as = take 16 (message h as) @ le_bytes 1 (msg_cmd h) @ drop 17 (message h as)"
  by (simp_all add: message_def)

lemma setters_message [wire_simps]:
  "SetMessageType t (message h as) = message (h\<lparr>msg_type := t\<rparr>) as"
  "SetFlags f (message h as) = message (h\<lparr>msg_flags := f\<rparr>) as"
  "SetMessageSequence n (message h as) = message (h\<lparr>msg_seq := n\<rparr>) as"
  "SetPortId p (message h as) = message (h\<lparr>msg_pid := p\<rparr>) as"
  "SetCommand c (message h as) = message (h\<lparr>msg_cmd := c\<rparr>) as"
  by (simp_all add: SetMessageType_def SetFlags_def SetMessageSequence_def SetPortId_def
      SetCommand_def put_def message_def)

lemma AddFlag_message [wire_simps]:
  "AddFlag f (message h as) = message (h\<lparr>msg_flags := msg_flags h OR f\<rparr>) as"
proof -
  have "AddFlag f (message h as) = SetFlags (msg_flags h OR f) (message h as)"
    by (simp add: AddFlag_def SetFlags_def field_message)
  then show ?thesis by (simp add: setters_message)
qed

lemma Packet_IsValid_message:
  assumes "fits_message as" and "msg_type h \<noteq> 2"
  shows "Packet_IsValid (message h as) = Inr True"
proof -
  have "unat (msg_type h) \<noteq> 2"
    using assms(2) by (simp add: word_unat_eq_iff)
  with assms(1) show ?thesis
    by (simp add: Packet_IsValid_def nlmsg_len_message fits_message_def)
qed

lemma Packet_AddAttribute_message [wire_simps]:
  assumes "fits_message (as @ [a])"
  shows "Packet_AddAttribute a (message h as) = message h (as @ [a])"
proof -
  have len: "nlmsg_len (message h as @ a) = 20 + length (concat as)"
    using assms
    by (simp add: nlmsg_len_def field_append1) (simp flip: nlmsg_len_def add: nlmsg_len_message fits_message_def)
  have "put 0 (le_bytes 4 n) (message h as @ a) = le_bytes 4 n @ drop 4 (message h as) @ a" for n
    by (simp add: put_def)
  moreover have "le_bytes 4 (20 + length (concat as) + length a) @ drop 4 (message h as) @ a =
      message h (as @ [a])"
    by (simp add: message_def add.assoc)
  ultimately show ?thesis
    by (simp add: Packet_AddAttribute_def len Let_def)
qed

lemma Packet_AddFlagAttribute_as_AddAttribute:
  assumes "4 \<le> length d"
  shows "Packet_AddFlagAttribute t d = Packet_AddAttribute (tlv t []) d"
proof -
  have "resize (length d + 4) d = d @ [0, 0, 0, 0]"
    using replicate_4 [of 0 "0::u8"] by (simp add: resize_def)
  moreover have "put (length d + 2) (le_bytes 2 t) (d @ [0, 0, 0, 0]) = d @ [0, 0] @ le_bytes 2 t"
    by (simp add: put_def)
  moreover have "put (length d) (le_bytes 2 4) (d @ [0, 0] @ le_bytes 2 t) = d @ tlv t []"
    by (simp add: put_def tlv_Nil le_bytes_2)
  ultimately show ?thesis
    using assms by (simp add: Packet_AddFlagAttribute_def Packet_AddAttribute_def Let_def tlv_Nil)
qed

text \<open>Stores into a header laid out as length, type, flags, sequence, port, command, version, reserved.\<close>

definition header_bytes ::
    "bytes \<Rightarrow> bytes \<Rightarrow> bytes \<Rightarrow> bytes \<Rightarrow> bytes \<Rightarrow> bytes \<Rightarrow> bytes \<Rightarrow> bytes \<Rightarrow> bytes" where
  "header_bytes l t f s p c v r = l @ t @ f @ s @ p @ c @ v @ r"

lemma put_header_bytes:
  assumes "length l = 4" "length t = 2" "length f = 2" "length s = 4" "length p = 4"
    "length c = 1" "length v = 1"
  shows "length x = 4 \<Longrightarrow> put 0 x (header_bytes l t f s p c v r) = header_bytes x t f s p c v r"
    "length x = 2 \<Longrightarrow> put 4 x (header_bytes l t f s p c v r) = header_bytes l x f s p c v r"
    "length x = 2 \<Longrightarrow> put 6 x (header_bytes l t f s p c v r) = header_bytes l t x s p c v r"
    "length x = 4 \<Longrightarrow> put 8 x (header_bytes l t f s p c v r) = header_bytes l t f x p c v r"
    "length x = 4 \<Longrightarrow> put 12 x (header_bytes l t f s p c v r) = header_bytes l t f s x c v r"
    "length x = 1 \<Longrightarrow> put 16 x (header_bytes l t f s p c v r) = header_bytes l t f s p x v r"
    "length x = 1 \<Longrightarrow> put 17 x (header_bytes l t f s p c v r) = header_bytes l t f s p c x r"
    "field 2 6 (header_bytes l t f s p c v r) = le_nat f"
  using assms by (simp_all add: header_bytes_def put_def field_def)

lemma empty_packet:
  "resize 20 [] = header_bytes [0, 0, 0, 0] [0, 0] [0, 0] [0, 0, 0, 0] [0, 0, 0, 0] [0] [0] [0, 0]"
  by (simp add: resize_def header_bytes_def eval_nat_numeral)

lemma length_empty_packet:
  "length (header_bytes [0, 0, 0, 0] [0, 0] [0, 0] [0, 0, 0, 0] [0, 0, 0, 0] [0] [0] [0, 0]) = 20"
  by (simp add: header_bytes_def)

lemma NL80211Packet_message [wire_simps]:
  "NL80211Packet t c s p =
     message \<lparr>msg_type = t, msg_flags = NLM_F_REQUEST, msg_seq = s, msg_pid = p, msg_cmd = c\<rparr> []"
proof -
  have "NL80211Packet t c s p =
      header_bytes (le_bytes 4 20) (le_bytes 2 (unat t)) (le_bytes 2 (unat (0 OR 1 :: u16)))
        (le_bytes 4 (unat s)) (le_bytes 4 (unat p)) (le_bytes 1 c) [1] [0, 0]"
    unfolding NL80211Packet_def Let_def
    by (simp add: empty_packet length_empty_packet put_header_bytes del: One_nat_def le_bytes.simps)
  then show ?thesis by (simp add: message_def header_bytes_def)
qed

section \<open>Lookups on an abstract message\<close>

lemma GetAttributeImpl_message:
  "wf_attrs as \<Longrightarrow> GetAttributeImpl (attr_area (message h as)) i =
     Inr (find (\<lambda>a. nla_type a = i) as)"
  by (simp add: attr_area_message GetAttributeImpl_concat wf_attrs_def)

lemma Packet_HasAttribute_message [wire_simps]:
  "wf_attrs as \<Longrightarrow> Packet_HasAttribute (message h as) i = Inr (\<exists>a \<in> set as. nla_type a = i)"
  by (cases "find (\<lambda>a. nla_type a = i) as")
    (auto simp: Packet_HasAttribute_def GetAttributeImpl_message find_None_ball dest: find_SomeD)

lemma Packet_GetAttribute_message [wire_simps]:
  "wf_attrs as \<Longrightarrow> Packet_GetAttribute (message h as) i = Inr (find (\<lambda>a. nla_type a = i) as)"
  by (auto simp: Packet_GetAttribute_def GetAttributeImpl_message wf_attrs_def wf_attr_def
      split: option.split dest!: find_SomeD)

lemma Packet_GetTypedAttribute_message:
  "wf_attrs as \<Longrightarrow> Packet_GetTypedAttribute T (message h as) i =
    Inr (case find (\<lambda>a. nla_type a = i) as of None \<Rightarrow> None
         | Some a \<Rightarrow> if valid_attr T a then Some a else None)"
  by (auto simp: Packet_GetTypedAttribute_def GetAttributeImpl_message split: option.split)

text \<open>
  A value read from a packet is the value read from the nested attribute with the same
  attributes: the two copies of the lookup code agree.
\<close>

lemma Packet_GetAttributeValue_nested:
  "wf_attrs as \<Longrightarrow> Packet_GetAttributeValue T (message h as) i =
     GetAttributeValue T (nested_attr t as) i"
  by (simp add: Packet_GetAttributeValue_def GetAttributeValue_def
      Packet_GetTypedAttribute_message GetTypedAttribute_nested)

context attr_codec
begin

lemma Packet_value_found:
  assumes "wf_attrs as" "find (\<lambda>a. nla_type a = i) as = Some (make_attr T j v)" "ok v"
  shows "Packet_GetAttributeValue T (message h as) i = Inr (Some v)"
  using GetAttributeValue_found [OF assms]
  by (simp add: Packet_GetAttributeValue_nested [OF assms(1), where t = 0])

lemma Packet_value_absent:
  assumes "wf_attrs as" "\<forall>a \<in> set as. nla_type a \<noteq> i"
  shows "Packet_GetAttributeValue T (message h as) i = Inr None"
  using GetAttributeValue_absent [OF assms]
  by (simp add: Packet_GetAttributeValue_nested [OF assms(1), where t = 0])

end

lemma Packet_GetAttributeValue_fault:
  assumes "Packet_GetAttributeValue T d i = Inl e"
  shows "e = No_Return \<and> spins (attr_area d) i \<or> (\<exists>a. valid_attr T a \<and> get_value T a = Inl e)"
  using assms
  by (auto simp: Packet_GetAttributeValue_def Packet_GetTypedAttribute_def and_then_def
      GetAttributeImpl_fault_iff split: sum.splits option.splits if_splits)

lemma Packet_word_value_fault_iff:
  "Packet_GetAttributeValue (word_class :: 'w::len word attr_class) d i = Inl e \<longleftrightarrow>
     e = No_Return \<and> spins (attr_area d) i"
proof
  assume "Packet_GetAttributeValue (word_class :: 'w word attr_class) d i = Inl e"
  from Packet_GetAttributeValue_fault [OF this] show "e = No_Return \<and> spins (attr_area d) i"
    by (auto dest: word_class_value_safe)
next
  assume "e = No_Return \<and> spins (attr_area d) i"
  then show "Packet_GetAttributeValue (word_class :: 'w word attr_class) d i = Inl e"
    by (simp add: Packet_GetAttributeValue_def Packet_GetTypedAttribute_def
        GetAttributeImpl_fault_iff [THEN iffD2])
qed

section \<open>All attributes of a message\<close>

text \<open>The rebuilt attribute: same type and payload, zero padding.\<close>

definition normal_attr :: "attr \<Rightarrow> attr" where
  "normal_attr a = tlv (nla_type a) (payload a)"

lemma payload_append: "wf_attr a \<Longrightarrow> payload (a @ rest) = payload a"
  using NLA_ALIGN_ge [of "nla_len a"] wf_attrD [of a]
  by (simp add: payload_def nla_len_append)

lemma all_attributes_loop_wf:
  assumes "wf_attr a"
  shows "all_attributes_loop (a @ rest) acc = all_attributes_loop rest (acc @ [normal_attr a])"
  using wf_attrD [OF assms] NLA_ALIGN_ge [of "nla_len a"]
  by (subst all_attributes_loop.simps)
    (simp add: nla_len_append nla_type_append BaseNL80211Attr_tlv normal_attr_def payload_def)

lemma all_attributes_loop_concat:
  "wf_attrs as \<Longrightarrow> all_attributes_loop (concat as) acc = Inr (True, acc @ map normal_attr as)"
proof (induction as arbitrary: acc)
  case Nil
  show ?case by (subst all_attributes_loop.simps) simp
next
  case (Cons a as)
  then show ?case by (simp add: all_attributes_loop_wf)
qed

lemma GetAllAttributes_message [wire_simps]:
  "wf_attrs as \<Longrightarrow> GetAllAttributes (message h as) = Inr (True, map normal_attr as)"
  by (simp add: GetAllAttributes_def attr_area_message all_attributes_loop_concat)

lemma normal_attr_tlv: "fits p \<Longrightarrow> t < 65536 \<Longrightarrow> normal_attr (tlv t p) = tlv t p"
  by (simp add: normal_attr_def nla_type_tlv payload_tlv)

lemma wf_normal_attr [wf_intros]: "wf_attr a \<Longrightarrow> wf_attr (normal_attr a)"
  by (simp add: normal_attr_def wf_attr_tlv wf_attr_payload_fits)

text \<open>Whatever the bytes are, the traversal rebuilds only well-formed attributes.\<close>

lemma all_attributes_loop_wf_out:
  "all_attributes_loop buf acc = Inr (b, out) \<Longrightarrow> wf_attrs acc \<Longrightarrow> wf_attrs out"
proof (induction buf acc rule: all_attributes_loop.induct)
  case (1 buf acc)
  let ?p = "take (nla_len buf - 4) (drop 4 buf)"
  have "fits ?p" using nla_len_bound [of buf] by (auto simp: fits_def min_def)
  then have new: "wf_attr (BaseNL80211Attr (nla_type buf) ?p)"
    by (simp add: BaseNL80211Attr_tlv wf_attr_tlv)
  from "1.prems"(1) have
    "out = acc \<or> (\<not> length buf < 4 \<and> \<not> (length buf < NLA_ALIGN (nla_len buf) \<or> nla_len buf = 0) \<and>
        \<not> nla_len buf < 4 \<and>
        all_attributes_loop (drop (NLA_ALIGN (nla_len buf)) buf)
          (acc @ [BaseNL80211Attr (nla_type buf) ?p]) = Inr (b, out))"
    by (subst (asm) all_attributes_loop.simps) (auto split: if_splits)
  then show ?case
    using "1.IH" "1.prems"(2) new by auto
qed

section \<open>What IsValid guarantees\<close>

lemma Packet_IsValid_returns: "returns (Packet_IsValid d)"
  by (auto simp: Packet_IsValid_def GetMessageType_def)

lemma Packet_IsValid_True:
  assumes "Packet_IsValid d = Inr True"
  shows "16 \<le> length d" "16 \<le> nlmsg_len d" "nlmsg_len d \<le> length d"
    "16 \<le> field 2 4 d \<Longrightarrow> 20 \<le> length d" "field 2 4 d = 2 \<Longrightarrow> 20 \<le> length d"
  using assms by (auto simp: Packet_IsValid_def GetMessageType_def split: if_splits)

lemma valid_getters_return:
  assumes "Packet_IsValid d = Inr True"
  shows "returns (GetMessageType d)" "returns (GetMessageSequence d)" "returns (GetFlags d)"
    "returns (IsMulti d)" "returns (GetPortId d)"
    "GetMessageType d = Inr NLMSG_ERROR \<Longrightarrow> returns (GetErrorCode d)"
    "GetMessageType d = Inr t \<Longrightarrow> 16 \<le> t \<Longrightarrow> returns (GetCommand d)"
  using Packet_IsValid_True [OF assms]
  by (auto simp: GetMessageType_def GetMessageSequence_def GetFlags_def GetPortId_def
      GetErrorCode_def GetCommand_def IsMulti_def)

end
