(* ===== verification/Ordered_Map.thy ===== *)
theory Ordered_Map
  imports Prelude "HOL-Library.List_Lexorder"
begin

text \<open>
  \<open>std::map<K, V>\<close> as the list of its pairs in ascending key order. The program uses it
  for the subscription tables of the netlink manager, the message-type table, the
  interface tables of the server and the attribute table of the split wiphy dump; several
  loops iterate over it, so the order is part of the model. A \<open>std::string\<close> key is a byte
  list, ordered lexicographically on unsigned bytes as \<open>std::string::compare\<close> does.
\<close>

type_synonym ('k, 'v) omap = "('k \<times> 'v) list"

text \<open>\<open>find\<close> with the comparison against \<open>end()\<close>.\<close>

abbreviation map_find :: "('k, 'v) omap \<Rightarrow> 'k \<Rightarrow> 'v option" where
  "map_find m k \<equiv> map_of m k"

text \<open>\<open>m[k] = v\<close>, and \<open>erase\<close> by key (nothing happens when the key is absent).\<close>

primrec map_set :: "'k::linorder \<Rightarrow> 'v \<Rightarrow> ('k, 'v) omap \<Rightarrow> ('k, 'v) omap" where
  "map_set k v [] = [(k, v)]"
| "map_set k v (p # m) =
     (if k < fst p then (k, v) # p # m
      else if k = fst p then (k, v) # m
      else p # map_set k v m)"

definition map_erase :: "'k \<Rightarrow> ('k, 'v) omap \<Rightarrow> ('k, 'v) omap" where
  "map_erase k m = filter (\<lambda>p. fst p \<noteq> k) m"

definition ordered :: "('k::linorder, 'v) omap \<Rightarrow> bool" where
  "ordered m \<longleftrightarrow> sorted_wrt (<) (map fst m)"

section \<open>The interface of a keyed table\<close>

text \<open>
  What the clients of a table rely on: an update changes exactly its key, an erase removes
  exactly its key, and both keep the representation's invariant.
\<close>

locale keyed_table =
  fixes empty :: "'t"
    and set_at :: "'k \<Rightarrow> 'v \<Rightarrow> 't \<Rightarrow> 't"
    and erase_at :: "'k \<Rightarrow> 't \<Rightarrow> 't"
    and find_at :: "'t \<Rightarrow> 'k \<Rightarrow> 'v option"
    and invar :: "'t \<Rightarrow> bool"
  assumes find_empty: "find_at empty k = None"
    and find_set: "find_at (set_at k v t) = (find_at t)(k \<mapsto> v)"
    and find_erase: "find_at (erase_at k t) = (find_at t)(k := None)"
    and invar_empty: "invar empty"
    and invar_set: "invar t \<Longrightarrow> invar (set_at k v t)"
    and invar_erase: "invar t \<Longrightarrow> invar (erase_at k t)"
begin

lemma find_set_same: "find_at (set_at k v t) k = Some v"
  by (simp add: find_set)

lemma find_set_other: "j \<noteq> k \<Longrightarrow> find_at (set_at k v t) j = find_at t j"
  by (simp add: find_set)

lemma find_erase_same: "find_at (erase_at k t) k = None"
  by (simp add: find_erase)

lemma find_erase_other: "j \<noteq> k \<Longrightarrow> find_at (erase_at k t) j = find_at t j"
  by (simp add: find_erase)

lemma last_set_wins: "find_at (set_at k w (set_at k v t)) = find_at (set_at k w t)"
  by (simp add: find_set)

lemma erase_undoes_set: "find_at t k = None \<Longrightarrow> find_at (erase_at k (set_at k v t)) = find_at t"
  by (auto simp: find_set find_erase fun_eq_iff)

lemma dom_set: "dom (find_at (set_at k v t)) = insert k (dom (find_at t))"
  by (simp add: find_set)

lemma dom_erase: "dom (find_at (erase_at k t)) = dom (find_at t) - {k}"
  by (simp add: find_erase)

text \<open>A sequence of updates under distinct keys keeps every earlier binding.\<close>

lemma fold_set_notin:
  "k \<notin> fst ` set kvs \<Longrightarrow> find_at (fold (\<lambda>(a, b). set_at a b) kvs t) k = find_at t k"
  by (induction kvs arbitrary: t) (auto simp: find_set_other)

lemma invar_fold_set: "invar t \<Longrightarrow> invar (fold (\<lambda>(a, b). set_at a b) kvs t)"
  by (induction kvs arbitrary: t) (auto simp: invar_set)

end

section \<open>Ordered association lists provide it\<close>

lemma map_of_map_set: "map_of (map_set k v m) = (map_of m)(k \<mapsto> v)"
  by (induction m) (auto simp: fun_eq_iff)

lemma map_of_map_erase: "map_of (map_erase k m) = (map_of m)(k := None)"
  by (induction m) (auto simp: map_erase_def fun_eq_iff)

lemma set_map_set: "fst ` set (map_set k v m) = insert k (fst ` set m)"
  by (induction m) auto

lemma ordered_Nil: "ordered []"
  by (simp add: ordered_def)

lemma ordered_map_set: "ordered m \<Longrightarrow> ordered (map_set k v m)"
proof (induction m)
  case Nil
  show ?case by (simp add: ordered_def)
next
  case (Cons p m)
  have keys: "\<forall>x. x \<in> set (map fst (map_set k v m)) \<longleftrightarrow> x = k \<or> x \<in> set (map fst m)"
    by (simp add: set_map_set)
  from Cons show ?case
    by (auto simp: ordered_def keys simp del: set_map)
qed

lemma ordered_map_erase: "ordered m \<Longrightarrow> ordered (map_erase k m)"
  by (induction m) (auto simp: ordered_def map_erase_def)

interpretation tbl: keyed_table "[]" map_set map_erase map_of ordered
  by unfold_locales
    (simp_all add: map_of_map_set map_of_map_erase ordered_map_set ordered_map_erase ordered_Nil
      fun_eq_iff)

lemmas omap_simps [simp] = tbl.find_set tbl.find_erase
lemmas ordered_intros [intro] = tbl.invar_empty tbl.invar_set tbl.invar_erase tbl.invar_fold_set

lemma ordered_distinct: "ordered m \<Longrightarrow> distinct (map fst m)"
  by (induction m) (auto simp: ordered_def)

text \<open>In an ordered table the pairs are exactly the bindings, once each.\<close>

lemma ordered_in_set: "ordered m \<Longrightarrow> (k, v) \<in> set m \<longleftrightarrow> map_of m k = Some v"
  by (meson map_of_SomeD map_of_is_SomeI ordered_distinct)

lemma ordered_Cons: "ordered (p # m) \<longleftrightarrow> (\<forall>q \<in> set m. fst p < fst q) \<and> ordered m"
  by (simp add: ordered_def)

lemma ordered_eqI: "ordered m \<Longrightarrow> ordered n \<Longrightarrow> map_of m = map_of n \<Longrightarrow> m = n"
proof -
  assume m: "ordered m" and n: "ordered n" and eq: "map_of m = map_of n"
  have sets: "set m = set n"
    using m n eq by (auto simp: ordered_in_set)
  have "sorted_wrt (\<lambda>p q. fst p < fst q) m" "sorted_wrt (\<lambda>p q. fst p < fst q) n"
    using m n by (simp_all add: ordered_def sorted_wrt_map)
  then show "m = n"
    using sets
  proof (induction m arbitrary: n)
    case Nil
    then show ?case by simp
  next
    case (Cons p m)
    then obtain q n' where n: "n = q # n'" by (cases n) auto
    have "p = q"
      using Cons.prems n by (metis insert_iff list.set(2) order.asym sorted_wrt.simps(2))
    moreover from Cons.prems n \<open>p = q\<close> have "set m = set n'" by auto
    ultimately show ?case using Cons n by simp
  qed
qed

end
