(* ===== verification/Wiphy_Info.thy ===== *)
theory Wiphy_Info
  imports Nl80211_Packet Ordered_Map
begin

text \<open>
  The parsing half of \<open>net/netlink_utils.{h,cpp}\<close>: what is read from the replies to
  \<open>NL80211_CMD_GET_WIPHY\<close> (bands, streams, scan capabilities, features), and the reassembly of
  a split wiphy dump. A parsing function that fills an object through a pointer returns the
  object; the counts of spatial streams are natural numbers (they are at most eight).
\<close>

section \<open>Features\<close>

definition IsExtFeatureFlagSet :: "bytes \<Rightarrow> nat \<Rightarrow> bool" where
  "IsExtFeatureFlagSet ext_feature_flags_bytes ext_feature_flag =
     (let byte_pos = ext_feature_flag div 8;
          bit_pos = ext_feature_flag mod 8
      in if length ext_feature_flags_bytes \<le> byte_pos then False
         else (ext_feature_flags_bytes ! byte_pos) AND push_bit bit_pos 1 \<noteq> 0)"

record wiphy_features =
  supports_random_mac_oneshot_scan :: bool
  supports_random_mac_sched_scan :: bool
  supports_low_span_oneshot_scan :: bool
  supports_low_power_oneshot_scan :: bool
  supports_high_accuracy_oneshot_scan :: bool
  supports_tx_mgmt_frame_mcs :: bool
  supports_ext_sched_scan_relative_rssi :: bool

definition WiphyFeatures :: "u32 \<Rightarrow> bytes \<Rightarrow> wiphy_features" where
  "WiphyFeatures feature_flags ext_feature_flags_bytes =
     \<lparr>supports_random_mac_oneshot_scan = (feature_flags AND NL80211_FEATURE_SCAN_RANDOM_MAC_ADDR \<noteq> 0),
      supports_random_mac_sched_scan = (feature_flags AND NL80211_FEATURE_SCHED_SCAN_RANDOM_MAC_ADDR \<noteq> 0),
      supports_low_span_oneshot_scan =
        IsExtFeatureFlagSet ext_feature_flags_bytes NL80211_EXT_FEATURE_LOW_SPAN_SCAN,
      supports_low_power_oneshot_scan =
        IsExtFeatureFlagSet ext_feature_flags_bytes NL80211_EXT_FEATURE_LOW_POWER_SCAN,
      supports_high_accuracy_oneshot_scan =
        IsExtFeatureFlagSet ext_feature_flags_bytes NL80211_EXT_FEATURE_HIGH_ACCURACY_SCAN,
      supports_tx_mgmt_frame_mcs = False,
      supports_ext_sched_scan_relative_rssi =
        IsExtFeatureFlagSet ext_feature_flags_bytes NL80211_EXT_FEATURE_SCHED_SCAN_RELATIVE_RSSI\<rparr>"

section \<open>Bands and channels\<close>

record band_info =
  band_2g :: "u32 list"
  band_5g :: "u32 list"
  band_dfs :: "u32 list"
  band_6g :: "u32 list"
  band_60g :: "u32 list"
  is_80211n_supported :: bool
  is_80211ac_supported :: bool
  is_80211ax_supported :: bool
  is_80211be_supported :: bool
  is_160_mhz_supported :: bool
  is_80p80_mhz_supported :: bool
  is_320_mhz_supported :: bool
  max_tx_streams :: nat
  max_rx_streams :: nat

definition BandInfo :: band_info where
  "BandInfo =
     \<lparr>band_2g = [], band_5g = [], band_dfs = [], band_6g = [], band_60g = [],
      is_80211n_supported = False, is_80211ac_supported = False, is_80211ax_supported = False,
      is_80211be_supported = False, is_160_mhz_supported = False, is_80p80_mhz_supported = False,
      is_320_mhz_supported = False, max_tx_streams = 1, max_rx_streams = 1\<rparr>"

definition k2GHzFrequencyLowerBound :: u32 where [simp]: "k2GHzFrequencyLowerBound = 2400"
definition k2GHzFrequencyUpperBound :: u32 where [simp]: "k2GHzFrequencyUpperBound = 2500"
definition k5GHzFrequencyLowerBound :: u32 where [simp]: "k5GHzFrequencyLowerBound = 5000"
definition k5GHzFrequencyUpperBound :: u32 where [simp]: "k5GHzFrequencyUpperBound = 5885"
definition k6GHzFrequencyLowerBound :: u32 where [simp]: "k6GHzFrequencyLowerBound = 5925"
definition k6GHzFrequencyUpperBound :: u32 where [simp]: "k6GHzFrequencyUpperBound = 7125"
definition k60GHzFrequencyLowerBound :: u32 where [simp]: "k60GHzFrequencyLowerBound = 58320"
definition k60GHzFrequencyUpperBound :: u32 where [simp]: "k60GHzFrequencyUpperBound = 70200"
definition kHtMcsSetNumByte :: nat where [simp]: "kHtMcsSetNumByte = 16"
definition kVhtMcsSetNumByte :: nat where [simp]: "kVhtMcsSetNumByte = 8"
definition kHeMcsSetNumByteMin :: nat where [simp]: "kHeMcsSetNumByteMin = 4"
definition kMaxStreams :: nat where [simp]: "kMaxStreams = 8"
definition kVht160MhzBitMask :: u32 where [simp]: "kVht160MhzBitMask = 4"
definition kVht80p80MhzBitMask :: u32 where [simp]: "kVht80p80MhzBitMask = 8"
definition kHeCapPhyNumByte :: nat where [simp]: "kHeCapPhyNumByte = 9"
definition kHe160MhzBitMask :: u8 where [simp]: "kHe160MhzBitMask = 8"
definition kHe80p80MhzBitMask :: u8 where [simp]: "kHe80p80MhzBitMask = 16"
definition kEhtCapPhyNumByte :: nat where [simp]: "kEhtCapPhyNumByte = 8"
definition kEht320MhzBitMask :: u8 where [simp]: "kEht320MhzBitMask = 2"

text \<open>One frequency attribute of a band; the loop of \<open>handleBandFreqAttributes\<close>.\<close>

definition handle_freq :: "attr \<Rightarrow> band_info \<Rightarrow> band_info res" where
  "handle_freq freq out =
     if_value (GetAttributeValue word_class freq NL80211_FREQUENCY_ATTR_FREQ) (Inr out) (\<lambda>frequency_value.
     and_then (HasAttribute freq NL80211_FREQUENCY_ATTR_DISABLED) (\<lambda>disabled.
       if disabled then Inr out
       else if k2GHzFrequencyLowerBound < frequency_value \<and> frequency_value < k2GHzFrequencyUpperBound then
         Inr (out\<lparr>band_2g := band_2g out @ [frequency_value]\<rparr>)
       else if k5GHzFrequencyLowerBound < frequency_value \<and> frequency_value \<le> k5GHzFrequencyUpperBound then
         and_then (GetAttributeValue (word_class :: u32 attr_class) freq NL80211_FREQUENCY_ATTR_DFS_STATE) (\<lambda>dfs_state.
           if (case dfs_state of None \<Rightarrow> False
               | Some d \<Rightarrow> unat d = NL80211_DFS_AVAILABLE \<or> unat d = NL80211_DFS_USABLE)
           then Inr (out\<lparr>band_dfs := band_dfs out @ [frequency_value]\<rparr>)
           else and_then (HasAttribute freq NL80211_FREQUENCY_ATTR_NO_IR) (\<lambda>no_ir.
             if no_ir then Inr (out\<lparr>band_dfs := band_dfs out @ [frequency_value]\<rparr>)
             else Inr (out\<lparr>band_5g := band_5g out @ [frequency_value]\<rparr>)))
       else if k6GHzFrequencyLowerBound < frequency_value \<and> frequency_value < k6GHzFrequencyUpperBound then
         Inr (out\<lparr>band_6g := band_6g out @ [frequency_value]\<rparr>)
       else if k60GHzFrequencyLowerBound \<le> frequency_value \<and> frequency_value < k60GHzFrequencyUpperBound then
         Inr (out\<lparr>band_60g := band_60g out @ [frequency_value]\<rparr>)
       else Inr out))"

primrec handle_freqs :: "attr list \<Rightarrow> band_info \<Rightarrow> band_info res" where
  "handle_freqs [] out = Inr out"
| "handle_freqs (freq # freqs) out = and_then (handle_freq freq out) (handle_freqs freqs)"

definition handleBandFreqAttributes :: "attr \<Rightarrow> band_info \<Rightarrow> band_info res" where
  "handleBandFreqAttributes freqs_attr out =
     (case GetListOfNestedAttributes freqs_attr of
        None \<Rightarrow> Inr out
      | Some freqs \<Rightarrow> handle_freqs freqs out)"

section \<open>Spatial streams\<close>

text \<open>The loops search downwards for the highest supported stream.\<close>

primrec ht_stream_loop :: "nat \<Rightarrow> bytes \<Rightarrow> nat" where
  "ht_stream_loop 0 ht_mcs_set = 1"
| "ht_stream_loop (Suc i) ht_mcs_set =
     (if 0 < ht_mcs_set ! i then Suc i else ht_stream_loop i ht_mcs_set)"

definition ParseHtMcsSet :: "bytes \<Rightarrow> nat \<times> nat" where
  "ParseHtMcsSet ht_mcs_set =
     (let max_rx = ht_stream_loop 4 ht_mcs_set;
          supported_tx_mcs_set = ht_mcs_set ! 12;
          tx_mcs_set_defined = supported_tx_mcs_set AND 1;
          tx_rx_mcs_set_not_equal = drop_bit 1 supported_tx_mcs_set AND 1;
          max_tx = (if tx_mcs_set_defined \<noteq> 0 \<and> tx_rx_mcs_set_not_equal \<noteq> 0
                    then unat (drop_bit 2 supported_tx_mcs_set AND 3) + 1 else max_rx)
      in (max_tx, max_rx))"

primrec mcs_map_loop :: "nat \<Rightarrow> u16 \<Rightarrow> nat" where
  "mcs_map_loop 0 mcs_map = 1"
| "mcs_map_loop (Suc i) mcs_map =
     (if drop_bit (i * 2) mcs_map AND 3 \<noteq> 3 then Suc i else mcs_map_loop i mcs_map)"

definition ParseMcsMap :: "u16 \<Rightarrow> nat" where
  "ParseMcsMap mcs_map = mcs_map_loop kMaxStreams mcs_map"

definition two_bytes :: "u8 \<Rightarrow> u8 \<Rightarrow> u16" where
  "two_bytes hi lo = push_bit 8 (ucast hi) OR ucast lo"

definition raise_streams :: "nat \<Rightarrow> nat \<Rightarrow> band_info \<Rightarrow> band_info" where
  "raise_streams tx rx out =
     out\<lparr>max_tx_streams := max (max_tx_streams out) tx, max_rx_streams := max (max_rx_streams out) rx\<rparr>"

definition ParseHtMcsSetAttribute :: "attr \<Rightarrow> band_info \<Rightarrow> band_info res" where
  "ParseHtMcsSetAttribute band out =
     if_value (GetAttributeValue vector_class band NL80211_BAND_ATTR_HT_MCS_SET) (Inr out) (\<lambda>ht_mcs_set.
       if length ht_mcs_set < kHtMcsSetNumByte then Inr out
       else let max_streams_ht = ParseHtMcsSet ht_mcs_set
            in Inr (raise_streams (fst max_streams_ht) (snd max_streams_ht) out))"

definition ParseVhtMcsSetAttribute :: "attr \<Rightarrow> band_info \<Rightarrow> band_info res" where
  "ParseVhtMcsSetAttribute band out =
     if_value (GetAttributeValue vector_class band NL80211_BAND_ATTR_VHT_MCS_SET) (Inr out) (\<lambda>vht_mcs_set.
       if length vht_mcs_set < kVhtMcsSetNumByte then Inr out
       else let max_rx_streams_vht = ParseMcsMap (two_bytes (vht_mcs_set ! 1) (vht_mcs_set ! 0));
                max_tx_streams_vht = ParseMcsMap (two_bytes (vht_mcs_set ! 5) (vht_mcs_set ! 4))
            in Inr (raise_streams max_tx_streams_vht max_rx_streams_vht out))"

definition ParseHeMcsSetAttribute :: "attr \<Rightarrow> band_info \<Rightarrow> band_info res" where
  "ParseHeMcsSetAttribute attribute out =
     if_value (GetAttributeValue vector_class attribute NL80211_BAND_IFTYPE_ATTR_HE_CAP_MCS_SET) (Inr out) (\<lambda>he_mcs_set.
       if length he_mcs_set < kHeMcsSetNumByteMin then Inr out
       else let max_rx_streams_he = ParseMcsMap (two_bytes (he_mcs_set ! 1) (he_mcs_set ! 0));
                max_tx_streams_he = ParseMcsMap (two_bytes (he_mcs_set ! 3) (he_mcs_set ! 2))
            in Inr (raise_streams max_tx_streams_he max_rx_streams_he out))"

definition ParseVhtCapAttribute :: "attr \<Rightarrow> band_info \<Rightarrow> band_info res" where
  "ParseVhtCapAttribute band out =
     if_value (GetAttributeValue word_class band NL80211_BAND_ATTR_VHT_CAPA) (Inr out) (\<lambda>vht_cap.
       let out1 = (if vht_cap AND kVht160MhzBitMask \<noteq> 0 then out\<lparr>is_160_mhz_supported := True\<rparr> else out);
           out2 = (if vht_cap AND kVht80p80MhzBitMask \<noteq> 0 then out1\<lparr>is_80p80_mhz_supported := True\<rparr> else out1)
       in Inr out2)"

definition ParseHeCapPhyAttribute :: "attr \<Rightarrow> band_info \<Rightarrow> band_info res" where
  "ParseHeCapPhyAttribute attribute out =
     if_value (GetAttributeValue vector_class attribute NL80211_BAND_IFTYPE_ATTR_HE_CAP_PHY) (Inr out) (\<lambda>he_cap_phy.
       if length he_cap_phy < kHeCapPhyNumByte then Inr out
       else
         let out1 = (if he_cap_phy ! 0 AND kHe160MhzBitMask \<noteq> 0 then out\<lparr>is_160_mhz_supported := True\<rparr> else out);
             out2 = (if he_cap_phy ! 0 AND kHe80p80MhzBitMask \<noteq> 0 then out1\<lparr>is_80p80_mhz_supported := True\<rparr> else out1)
         in Inr out2)"

definition ParseEhtCapPhyAttribute :: "attr \<Rightarrow> band_info \<Rightarrow> band_info res" where
  "ParseEhtCapPhyAttribute attribute out =
     if_value (GetAttributeValue vector_class attribute NL80211_BAND_IFTYPE_ATTR_EHT_CAP_PHY) (Inr out) (\<lambda>eht_cap_phy.
       if length eht_cap_phy < kEhtCapPhyNumByte then Inr out
       else if eht_cap_phy ! 0 AND kEht320MhzBitMask \<noteq> 0 then Inr (out\<lparr>is_320_mhz_supported := True\<rparr>)
       else Inr out)"

definition ParseHtVhtPhyCapabilities :: "attr \<Rightarrow> band_info \<Rightarrow> band_info res" where
  "ParseHtVhtPhyCapabilities band out =
     and_then (ParseHtMcsSetAttribute band out) (\<lambda>out1.
     and_then (ParseVhtMcsSetAttribute band out1) (\<lambda>out2.
       ParseVhtCapAttribute band out2))"

definition ParseIfTypeDataAttributes :: "attr \<Rightarrow> band_info \<Rightarrow> band_info res" where
  "ParseIfTypeDataAttributes iftype_data_attr out =
     (case GetListOfNestedAttributes iftype_data_attr of
        None \<Rightarrow> Inr out
      | Some [] \<Rightarrow> Inr out
      | Some (attr # _) \<Rightarrow>
          and_then (HasAttribute attr NL80211_BAND_IFTYPE_ATTR_HE_CAP_PHY) (\<lambda>he_phy.
          and_then (if he_phy then ParseHeCapPhyAttribute attr (out\<lparr>is_80211ax_supported := True\<rparr>) else Inr out) (\<lambda>out1.
          and_then (HasAttribute attr NL80211_BAND_IFTYPE_ATTR_HE_CAP_MCS_SET) (\<lambda>he_mcs.
          and_then (if he_mcs then ParseHeMcsSetAttribute attr out1 else Inr out1) (\<lambda>out2.
          and_then (HasAttribute attr NL80211_BAND_IFTYPE_ATTR_EHT_CAP_PHY) (\<lambda>eht_phy.
            if eht_phy then ParseEhtCapPhyAttribute attr (out2\<lparr>is_80211be_supported := True\<rparr>)
            else Inr out2))))))"

text \<open>One band, and the loop over the bands.\<close>

definition parse_band :: "attr \<Rightarrow> band_info \<Rightarrow> band_info res" where
  "parse_band band out =
     and_then (if_value (GetNestedAttribute band NL80211_BAND_ATTR_FREQS) (Inr out)
                 (\<lambda>freqs_attr. handleBandFreqAttributes freqs_attr out)) (\<lambda>out1.
     and_then (HasAttribute band NL80211_BAND_ATTR_HT_CAPA) (\<lambda>ht.
       let out2 = (if ht then out1\<lparr>is_80211n_supported := True\<rparr> else out1) in
     and_then (HasAttribute band NL80211_BAND_ATTR_VHT_CAPA) (\<lambda>vht.
       let out3 = (if vht then out2\<lparr>is_80211ac_supported := True\<rparr> else out2) in
     and_then (if_value (GetNestedAttribute band NL80211_BAND_ATTR_IFTYPE_DATA) (Inr out3)
                 (\<lambda>iftype_data_attr. ParseIfTypeDataAttributes iftype_data_attr out3)) (\<lambda>out4.
       ParseHtVhtPhyCapabilities band out4))))"

primrec parse_bands :: "attr list \<Rightarrow> band_info \<Rightarrow> band_info res" where
  "parse_bands [] out = Inr out"
| "parse_bands (band # bands) out = and_then (parse_band band out) (parse_bands bands)"

text \<open>\<open>None\<close> is the return value false, with the caller's object untouched.\<close>

definition ParseBandInfo :: "packet \<Rightarrow> band_info option res" where
  "ParseBandInfo packet =
     if_value (Packet_GetAttribute packet NL80211_ATTR_WIPHY_BANDS) (Inr None) (\<lambda>bands_attr.
       case GetListOfNestedAttributes bands_attr of
         None \<Rightarrow> Inr None
       | Some bands \<Rightarrow> and_then (parse_bands bands BandInfo) (\<lambda>out. Inr (Some out)))"

section \<open>Scan capabilities and the whole reply\<close>

record scan_capabilities =
  max_num_scan_ssids :: u8
  max_num_sched_scan_ssids :: u8
  max_match_sets :: u8
  max_num_scan_plans :: u32
  max_scan_plan_interval :: u32
  max_scan_plan_iterations :: u32

definition value_or :: "'a \<Rightarrow> 'a option \<Rightarrow> 'a" where
  "value_or d r = (case r of None \<Rightarrow> d | Some x \<Rightarrow> x)"

definition ParseScanCapabilities :: "packet \<Rightarrow> scan_capabilities option res" where
  "ParseScanCapabilities packet =
     if_value (Packet_GetAttributeValue word_class packet NL80211_ATTR_MAX_NUM_SCAN_SSIDS) (Inr None) (\<lambda>scan_ssids.
     if_value (Packet_GetAttributeValue word_class packet NL80211_ATTR_MAX_NUM_SCHED_SCAN_SSIDS) (Inr None) (\<lambda>sched_scan_ssids.
     and_then (Packet_GetAttributeValue word_class packet NL80211_ATTR_MAX_NUM_SCHED_SCAN_PLANS) (\<lambda>plans.
     and_then (Packet_GetAttributeValue word_class packet NL80211_ATTR_MAX_SCAN_PLAN_INTERVAL) (\<lambda>interval.
     and_then (Packet_GetAttributeValue word_class packet NL80211_ATTR_MAX_SCAN_PLAN_ITERATIONS) (\<lambda>iterations.
     if_value (Packet_GetAttributeValue word_class packet NL80211_ATTR_MAX_MATCH_SETS) (Inr None) (\<lambda>match_sets.
       Inr (Some \<lparr>max_num_scan_ssids = scan_ssids, max_num_sched_scan_ssids = sched_scan_ssids,
                  max_match_sets = match_sets, max_num_scan_plans = value_or 0 plans,
                  max_scan_plan_interval = value_or 0 interval,
                  max_scan_plan_iterations = value_or 0 iterations\<rparr>)))))))"

text \<open>
  \<open>ParseWiphyInfoFromPacket\<close> writes its three results one after the other and can fail in
  between: \<open>out\<close> is what the caller's three objects hold before, and the second component of
  the result what they hold afterwards.
\<close>

type_synonym wiphy_info = "band_info \<times> scan_capabilities \<times> wiphy_features"

definition ParseWiphyInfoFromPacket :: "packet \<Rightarrow> wiphy_info \<Rightarrow> (bool \<times> wiphy_info) res" where
  "ParseWiphyInfoFromPacket packet out =
     (let (bands, capabilities, features) = out in
      and_then (GetCommand packet) (\<lambda>command.
        if command \<noteq> NL80211_CMD_NEW_WIPHY then Inr (False, out)
        else
          if_value (ParseBandInfo packet) (Inr (False, out)) (\<lambda>bands1.
          if_value (ParseScanCapabilities packet) (Inr (False, bands1, capabilities, features)) (\<lambda>capabilities1.
          if_value (Packet_GetAttributeValue word_class packet NL80211_ATTR_FEATURE_FLAGS)
            (Inr (False, bands1, capabilities1, features)) (\<lambda>feature_flags.
          and_then (Packet_GetAttributeValue vector_class packet NL80211_ATTR_EXT_FEATURES) (\<lambda>ext_features.
            Inr (True, bands1, capabilities1, WiphyFeatures feature_flags (value_or [] ext_features))))))))"

section \<open>Reassembling a split dump\<close>

type_synonym attr_table = "(u32, (nat, attr) omap) omap"

text \<open>
  The loop over the attributes of one packet. \<open>attr_by_wiphy_and_id[wiphy_index]\<close> makes the
  entry of the wiphy; a failing \<open>Merge\<close> leaves the stored attribute as it is.
\<close>

primrec merge_attributes :: "u32 \<Rightarrow> attr list \<Rightarrow> attr_table \<Rightarrow> attr_table res" where
  "merge_attributes wiphy [] table = Inr table"
| "merge_attributes wiphy (attr # attributes) table =
     and_then (GetAttributeId attr) (\<lambda>attr_id.
       if attr_id \<noteq> NL80211_ATTR_WIPHY \<and> attr_id \<noteq> NL80211_ATTR_IFINDEX \<and> attr_id \<noteq> NL80211_ATTR_WDEV then
         let inner = (case map_find table wiphy of None \<Rightarrow> [] | Some m \<Rightarrow> m)
         in case map_find inner attr_id of
              None \<Rightarrow> merge_attributes wiphy attributes
                        (map_set wiphy (map_set attr_id attr inner) table)
            | Some old \<Rightarrow>
                and_then (Merge old attr) (\<lambda>(_, merged).
                  merge_attributes wiphy attributes
                    (map_set wiphy (map_set attr_id merged inner) table))
       else merge_attributes wiphy attributes table)"

primrec merge_packets :: "packet list \<Rightarrow> attr_table \<Rightarrow> attr_table option res" where
  "merge_packets [] table = Inr (Some table)"
| "merge_packets (packet # packets) table =
     if_value (Packet_GetAttributeValue word_class packet NL80211_ATTR_WIPHY) (Inr None) (\<lambda>wiphy_index.
     and_then (GetAllAttributes packet) (\<lambda>(ok, attributes).
       if \<not> ok then Inr None
       else and_then (merge_attributes wiphy_index attributes table) (merge_packets packets)))"

definition merged_packet :: "u32 \<times> (nat, attr) omap \<Rightarrow> packet" where
  "merged_packet wiphy_and_attributes =
     foldl (\<lambda>p a. Packet_AddAttribute (snd a) p)
       (Packet_AddAttribute (make_attr word_class NL80211_ATTR_WIPHY (fst wiphy_and_attributes))
         (NL80211Packet 0 NL80211_CMD_NEW_WIPHY 0 0))
       (snd wiphy_and_attributes)"

text \<open>The returned list is \<open>*packet_per_wiphy\<close>, empty when the function returns false.\<close>

definition MergePacketsForSplitWiphyDump :: "packet list \<Rightarrow> (bool \<times> packet list) res" where
  "MergePacketsForSplitWiphyDump split_dump_info =
     and_then (merge_packets split_dump_info []) (\<lambda>r.
       case r of
         None \<Rightarrow> Inr (False, [])
       | Some attr_by_wiphy_and_id \<Rightarrow> Inr (True, map merged_packet attr_by_wiphy_and_id))"

end
