(* ===== verification/Mlme_Event.thy ===== *)
theory Mlme_Event
  imports Nl80211_Packet
begin

text \<open>
  \<open>net/mlme_event.{h,cpp}\<close>: the five MLME events built from kernel notifications.
  Connect and associate events carry a status and a timeout flag; roam, disconnect and
  disassociate events only the interface index and the BSSID. The event objects are
  created with \<open>new T()\<close> and a defaulted constructor, so members that are not assigned
  are zero.
\<close>

record mlme_event =
  mlme_interface_index :: u32
  mlme_bssid :: bytes

record mlme_status_event = mlme_event +
  mlme_status_code :: u16
  mlme_is_timeout :: bool

text \<open>
  \<open>GetCommonFields\<close>: \<open>None\<close> is the return value false; a missing \<open>NL80211_ATTR_MAC\<close>
  leaves the zero BSSID.
\<close>

definition GetCommonFields :: "packet \<Rightarrow> (u32 \<times> bytes) option res" where
  "GetCommonFields p =
     and_then (Packet_GetAttributeValue word_class p NL80211_ATTR_IFINDEX) (\<lambda>if_index.
       case if_index of None \<Rightarrow> Inr None
       | Some i \<Rightarrow>
           and_then (Packet_GetAttributeValue mac_class p NL80211_ATTR_MAC) (\<lambda>mac.
             Inr (Some (i, case mac of None \<Rightarrow> replicate ETH_ALEN 0 | Some m \<Rightarrow> m))))"

definition MlmeAssociateEvent_InitFromPacket :: "packet \<Rightarrow> mlme_status_event option res" where
  "MlmeAssociateEvent_InitFromPacket p =
     and_then (GetCommand p) (\<lambda>command.
       if command \<noteq> NL80211_CMD_ASSOCIATE then Inr None
       else and_then (GetCommonFields p) (\<lambda>common.
         case common of None \<Rightarrow> Inr None
         | Some (i, b) \<Rightarrow>
             and_then (Packet_HasAttribute p NL80211_ATTR_TIMED_OUT) (\<lambda>timeout.
               Inr (Some \<lparr>mlme_interface_index = i, mlme_bssid = b, mlme_status_code = 0,
                          mlme_is_timeout = timeout\<rparr>))))"

definition MlmeConnectEvent_InitFromPacket :: "packet \<Rightarrow> mlme_status_event option res" where
  "MlmeConnectEvent_InitFromPacket p =
     and_then (GetCommand p) (\<lambda>command.
       if command \<noteq> NL80211_CMD_CONNECT then Inr None
       else and_then (GetCommonFields p) (\<lambda>common.
         case common of None \<Rightarrow> Inr None
         | Some (i, b) \<Rightarrow>
             and_then (Packet_GetAttributeValue word_class p NL80211_ATTR_STATUS_CODE) (\<lambda>status.
             and_then (Packet_HasAttribute p NL80211_ATTR_TIMED_OUT) (\<lambda>timeout.
               Inr (Some \<lparr>mlme_interface_index = i, mlme_bssid = b,
                          mlme_status_code = (case status of None \<Rightarrow> 0 | Some c \<Rightarrow> c),
                          mlme_is_timeout = timeout\<rparr>)))))"

definition MlmeRoamEvent_InitFromPacket :: "packet \<Rightarrow> mlme_event option res" where
  "MlmeRoamEvent_InitFromPacket p =
     and_then (GetCommand p) (\<lambda>command.
       if command \<noteq> NL80211_CMD_ROAM then Inr None
       else and_then (GetCommonFields p) (\<lambda>common.
         Inr (case common of None \<Rightarrow> None
              | Some (i, b) \<Rightarrow> Some \<lparr>mlme_interface_index = i, mlme_bssid = b\<rparr>)))"

definition MlmeDisconnectEvent_InitFromPacket :: "packet \<Rightarrow> mlme_event option res" where
  "MlmeDisconnectEvent_InitFromPacket p =
     and_then (GetCommand p) (\<lambda>command.
       if command \<noteq> NL80211_CMD_DISCONNECT then Inr None
       else and_then (GetCommonFields p) (\<lambda>common.
         Inr (case common of None \<Rightarrow> None
              | Some (i, b) \<Rightarrow> Some \<lparr>mlme_interface_index = i, mlme_bssid = b\<rparr>)))"

definition MlmeDisassociateEvent_InitFromPacket :: "packet \<Rightarrow> mlme_event option res" where
  "MlmeDisassociateEvent_InitFromPacket p =
     and_then (GetCommand p) (\<lambda>command.
       if command \<noteq> NL80211_CMD_DISASSOCIATE then Inr None
       else and_then (GetCommonFields p) (\<lambda>common.
         Inr (case common of None \<Rightarrow> None
              | Some (i, b) \<Rightarrow> Some \<lparr>mlme_interface_index = i, mlme_bssid = b\<rparr>)))"

section \<open>Common fields of a well-formed notification\<close>

text \<open>The attribute lists of the notifications the kernel sends for an interface.\<close>

definition ifindex_attr :: "u32 \<Rightarrow> attr" where
  "ifindex_attr i = make_attr word_class NL80211_ATTR_IFINDEX i"

definition mac_attribute :: "bytes \<Rightarrow> attr" where
  "mac_attribute m = make_attr mac_class NL80211_ATTR_MAC m"

lemma ifindex_attr_facts [simp]: "wf_attr (ifindex_attr i)" "nla_type (ifindex_attr i) = 3"
  by (simp_all add: ifindex_attr_def u32_attr.wf_make u32_attr.type_make)

lemma mac_attribute_facts: "length m = 6 \<Longrightarrow> wf_attr (mac_attribute m)" "length m = 6 \<Longrightarrow> nla_type (mac_attribute m) = 6"
  by (simp_all add: mac_attribute_def mac_attr.wf_make mac_attr.type_make)

lemma GetCommonFields_message:
  assumes "wf_attrs as" "find (\<lambda>a. nla_type a = 3) as = Some (ifindex_attr i)"
  shows "length m = 6 \<Longrightarrow> find (\<lambda>a. nla_type a = 6) as = Some (mac_attribute m) \<Longrightarrow>
      GetCommonFields (message h as) = Inr (Some (i, m))"
    and "\<forall>a \<in> set as. nla_type a \<noteq> 6 \<Longrightarrow>
      GetCommonFields (message h as) = Inr (Some (i, replicate 6 0))"
proof -
  have i: "Packet_GetAttributeValue word_class (message h as) 3 = Inr (Some i)"
    using assms by (intro u32_attr.Packet_value_found) (simp_all add: ifindex_attr_def)
  show "GetCommonFields (message h as) = Inr (Some (i, m))"
    if "length m = 6" "find (\<lambda>a. nla_type a = 6) as = Some (mac_attribute m)"
    using i that mac_attr.Packet_value_found [OF assms(1), of 6 6 m h]
    by (simp add: GetCommonFields_def mac_attribute_def)
  show "GetCommonFields (message h as) = Inr (Some (i, replicate 6 0))"
    if "\<forall>a \<in> set as. nla_type a \<noteq> 6"
    using i mac_attr.Packet_value_absent [OF assms(1) that, of h]
    by (simp add: GetCommonFields_def)
qed

text \<open>Each event is built from its own command only.\<close>

lemma MlmeEvents_command:
  "MlmeAssociateEvent_InitFromPacket p = Inr (Some e) \<Longrightarrow> GetCommand p = Inr NL80211_CMD_ASSOCIATE"
  "MlmeConnectEvent_InitFromPacket p = Inr (Some e) \<Longrightarrow> GetCommand p = Inr NL80211_CMD_CONNECT"
  "MlmeRoamEvent_InitFromPacket p = Inr (Some f) \<Longrightarrow> GetCommand p = Inr NL80211_CMD_ROAM"
  "MlmeDisconnectEvent_InitFromPacket p = Inr (Some f) \<Longrightarrow> GetCommand p = Inr NL80211_CMD_DISCONNECT"
  "MlmeDisassociateEvent_InitFromPacket p = Inr (Some f) \<Longrightarrow> GetCommand p = Inr NL80211_CMD_DISASSOCIATE"
  by (auto simp: MlmeAssociateEvent_InitFromPacket_def MlmeConnectEvent_InitFromPacket_def
      MlmeRoamEvent_InitFromPacket_def MlmeDisconnectEvent_InitFromPacket_def
      MlmeDisassociateEvent_InitFromPacket_def and_then_eq_Inr split: if_splits)

end
