(* ===== verification/Netlink_Manager.thy ===== *)
theory Netlink_Manager
  imports Mlme_Event Ordered_Map
begin

text \<open>
  \<open>net/netlink_manager.{h,cpp}\<close>: the two netlink sockets, the table of message handlers
  keyed by sequence number, the subscription tables, family discovery and the dispatch of
  multicast notifications.

  State is the record \<open>nlm\<close>: the fields of class \<open>NetlinkManager\<close>, the static
  \<open>ReceiveBuffer\<close>, the vectors that \<open>std::bind(AppendPacket, response, _1)\<close> points to, and
  the environment: what the kernel will answer to the requests still to be sent
  (\<open>net_script\<close>), the trace of sent packets, and what \<open>nlinterceptor\<close> is. The record is
  extensible, so that the components above add their own state to it. Fields have the names
  of the C++ members without the trailing underscore.

  A \<open>std::function\<close> (or \<open>MlmeEventHandler*\<close>) is an identity \<open>hid\<close>. Running one is an
  \<open>hcall\<close>; every operation that can run handlers takes the interpretation
  \<open>run :: hcall \<Rightarrow> 's \<Rightarrow> 's res\<close> of these calls, which may itself send requests.
\<close>

section \<open>Data\<close>

datatype ChannelBandwidth =
  BW_INVALID | BW_20_NOHT | BW_20 | BW_40 | BW_80 | BW_80P80 | BW_160 | BW_320

datatype StationEvent = NEW_STATION | DEL_STATION

definition getBandwidthType :: "u32 \<Rightarrow> ChannelBandwidth" where
  "getBandwidthType bandwidth =
     (let b = unat bandwidth in
      if b = NL80211_CHAN_WIDTH_20_NOHT then BW_20_NOHT
      else if b = NL80211_CHAN_WIDTH_20 then BW_20
      else if b = NL80211_CHAN_WIDTH_40 then BW_40
      else if b = NL80211_CHAN_WIDTH_80 then BW_80
      else if b = NL80211_CHAN_WIDTH_80P80 then BW_80P80
      else if b = NL80211_CHAN_WIDTH_160 then BW_160
      else if b = NL80211_CHAN_WIDTH_320 then BW_320
      else BW_INVALID)"

text \<open>
  The default constructor \<open>MessageType() {}\<close>, which \<open>message_types[key]\<close> runs for a new
  key, leaves \<open>family_id\<close> without a value: \<open>None\<close>.
\<close>

record message_type =
  family_id :: "u16 option"
  groups :: "(bytes, u32) omap"

definition default_message_type :: message_type where
  "default_message_type = \<lparr>family_id = None, groups = []\<rparr>"

type_synonym hid = nat

text \<open>A message handler appends to a response vector or is a function given by the caller.\<close>

datatype msg_handler = AppendPacket nat | Registered hid

datatype hcall =
    CallScanResults hid u32 bool "bytes list" "u32 list"
  | CallSchedScanResults hid u32 bool
  | CallRegDomainChanged hid u32 bytes
  | CallStationEvent hid StationEvent bytes
  | CallChannelSwitch hid u32 ChannelBandwidth
  | CallFrameTxStatus hid u64 bool
  | CallOnConnect hid mlme_status_event
  | CallOnAssociate hid mlme_status_event
  | CallOnRoam hid mlme_event
  | CallOnDisconnect hid mlme_event
  | CallOnDisassociate hid mlme_event
  | CallMessageHandler hid packet

text \<open>
  The environment of one request: whether \<open>sendto\<close> succeeds, and the outcome of each
  \<open>poll\<close> with the \<open>read\<close> that follows and the milliseconds that passed. When the list of
  outcomes ends, the next \<open>poll\<close> times out; when the script ends, \<open>sendto\<close> fails.
\<close>

datatype read_result = ReadError | ReadBytes bytes

datatype poll_result = PollTimeout | PollError | PollReady read_result nat

record exchange =
  send_ok :: bool
  polls :: "poll_result list"

definition kReceiveBufferSize :: nat where
  [simp]: "kReceiveBufferSize = 8192"

definition kBroadcastSequenceNumber :: u32 where
  [simp]: "kBroadcastSequenceNumber = 0"

definition kMaximumNetlinkMessageWaitMilliSeconds :: int where
  [simp]: "kMaximumNetlinkMessageWaitMilliSeconds = 4000"

record nlm =
  is_started :: bool
  sync_netlink_fd :: int
  async_netlink_fd :: int
  sync_netlink_destination :: u32
  async_netlink_destination :: u32
  message_handlers :: "(u32, msg_handler) omap"
  on_scan_result_ready_handler :: "(u32, hid) omap"
  on_sched_scan_result_ready_handler :: "(u32, hid) omap"
  on_mlme_event_handler :: "(u32, hid) omap"
  on_reg_domain_changed_handler :: "(u32, hid) omap"
  on_station_event_handler :: "(u32, hid) omap"
  on_channel_switch_event_handler :: "(u32, hid) omap"
  on_frame_tx_status_event_handler :: "(u32, hid) omap"
  message_types :: "(bytes, message_type) omap"
  sequence_number :: u32
  ReceiveBuffer :: bytes
  response_vecs :: "packet list list"
  net_script :: "exchange list"
  interceptor_enabled :: bool
  own_pid :: u32
  watched_fds :: "int list"
  sent_packets :: "(int \<times> u32 \<times> packet) list"

text \<open>The constructor, in an environment.\<close>

definition NetlinkManager :: "exchange list \<Rightarrow> bool \<Rightarrow> u32 \<Rightarrow> nlm" where
  "NetlinkManager script interceptor pid =
     \<lparr>is_started = False, sync_netlink_fd = -1, async_netlink_fd = -1,
      sync_netlink_destination = 0, async_netlink_destination = 0,
      message_handlers = [], on_scan_result_ready_handler = [],
      on_sched_scan_result_ready_handler = [], on_mlme_event_handler = [],
      on_reg_domain_changed_handler = [], on_station_event_handler = [],
      on_channel_switch_event_handler = [], on_frame_tx_status_event_handler = [],
      message_types = [], sequence_number = 0,
      ReceiveBuffer = replicate kReceiveBufferSize 0, response_vecs = [],
      net_script = script, interceptor_enabled = interceptor, own_pid = pid, watched_fds = [],
      sent_packets = []\<rparr>"

definition IsStarted :: "'a nlm_scheme \<Rightarrow> bool" where
  "IsStarted s = is_started s"

definition GetSequenceNumber :: "'a nlm_scheme \<Rightarrow> u32 \<times> 'a nlm_scheme" where
  "GetSequenceNumber s =
     (let n = sequence_number s + 1;
          n = (if n = kBroadcastSequenceNumber then n + 1 else n)
      in (n, s\<lparr>sequence_number := n\<rparr>))"

text \<open>\<open>message_types[name]\<close>: a reference to the entry, made with defaults when absent.\<close>

definition message_type_entry :: "bytes \<Rightarrow> 'a nlm_scheme \<Rightarrow> message_type \<times> 'a nlm_scheme" where
  "message_type_entry name s =
     (case map_find (message_types s) name of
        Some t \<Rightarrow> (t, s)
      | None \<Rightarrow> (default_message_type,
                s\<lparr>message_types := map_set name default_message_type (message_types s)\<rparr>))"

definition GetFamilyId :: "'a nlm_scheme \<Rightarrow> (u16 \<times> 'a nlm_scheme) res" where
  "GetFamilyId s =
     (let (t, s') = message_type_entry NL80211_GENL_NAME s
      in case family_id t of None \<Rightarrow> Inl Uninitialized | Some n \<Rightarrow> Inr (n, s'))"

section \<open>Subscriptions\<close>

definition SubscribeScanResultNotification :: "u32 \<Rightarrow> hid \<Rightarrow> 'a nlm_scheme \<Rightarrow> 'a nlm_scheme" where
  "SubscribeScanResultNotification interface_index handler s =
     s\<lparr>on_scan_result_ready_handler :=
         map_set interface_index handler (on_scan_result_ready_handler s)\<rparr>"

definition UnsubscribeScanResultNotification :: "u32 \<Rightarrow> 'a nlm_scheme \<Rightarrow> 'a nlm_scheme" where
  "UnsubscribeScanResultNotification interface_index s =
     s\<lparr>on_scan_result_ready_handler := map_erase interface_index (on_scan_result_ready_handler s)\<rparr>"

definition SubscribeMlmeEvent :: "u32 \<Rightarrow> hid \<Rightarrow> 'a nlm_scheme \<Rightarrow> 'a nlm_scheme" where
  "SubscribeMlmeEvent interface_index handler s =
     s\<lparr>on_mlme_event_handler := map_set interface_index handler (on_mlme_event_handler s)\<rparr>"

definition UnsubscribeMlmeEvent :: "u32 \<Rightarrow> 'a nlm_scheme \<Rightarrow> 'a nlm_scheme" where
  "UnsubscribeMlmeEvent interface_index s =
     s\<lparr>on_mlme_event_handler := map_erase interface_index (on_mlme_event_handler s)\<rparr>"

definition SubscribeSchedScanResultNotification :: "u32 \<Rightarrow> hid \<Rightarrow> 'a nlm_scheme \<Rightarrow> 'a nlm_scheme" where
  "SubscribeSchedScanResultNotification interface_index handler s =
     s\<lparr>on_sched_scan_result_ready_handler :=
         map_set interface_index handler (on_sched_scan_result_ready_handler s)\<rparr>"

definition UnsubscribeSchedScanResultNotification :: "u32 \<Rightarrow> 'a nlm_scheme \<Rightarrow> 'a nlm_scheme" where
  "UnsubscribeSchedScanResultNotification interface_index s =
     s\<lparr>on_sched_scan_result_ready_handler :=
         map_erase interface_index (on_sched_scan_result_ready_handler s)\<rparr>"

definition SubscribeRegDomainChange :: "u32 \<Rightarrow> hid \<Rightarrow> 'a nlm_scheme \<Rightarrow> 'a nlm_scheme" where
  "SubscribeRegDomainChange wiphy_index handler s =
     s\<lparr>on_reg_domain_changed_handler :=
         map_set wiphy_index handler (on_reg_domain_changed_handler s)\<rparr>"

definition UnsubscribeRegDomainChange :: "u32 \<Rightarrow> 'a nlm_scheme \<Rightarrow> 'a nlm_scheme" where
  "UnsubscribeRegDomainChange wiphy_index s =
     s\<lparr>on_reg_domain_changed_handler := map_erase wiphy_index (on_reg_domain_changed_handler s)\<rparr>"

definition SubscribeStationEvent :: "u32 \<Rightarrow> hid \<Rightarrow> 'a nlm_scheme \<Rightarrow> 'a nlm_scheme" where
  "SubscribeStationEvent interface_index handler s =
     s\<lparr>on_station_event_handler := map_set interface_index handler (on_station_event_handler s)\<rparr>"

definition UnsubscribeStationEvent :: "u32 \<Rightarrow> 'a nlm_scheme \<Rightarrow> 'a nlm_scheme" where
  "UnsubscribeStationEvent interface_index s =
     s\<lparr>on_station_event_handler := map_erase interface_index (on_station_event_handler s)\<rparr>"

definition SubscribeChannelSwitchEvent :: "u32 \<Rightarrow> hid \<Rightarrow> 'a nlm_scheme \<Rightarrow> 'a nlm_scheme" where
  "SubscribeChannelSwitchEvent interface_index handler s =
     s\<lparr>on_channel_switch_event_handler :=
         map_set interface_index handler (on_channel_switch_event_handler s)\<rparr>"

definition UnsubscribeChannelSwitchEvent :: "u32 \<Rightarrow> 'a nlm_scheme \<Rightarrow> 'a nlm_scheme" where
  "UnsubscribeChannelSwitchEvent interface_index s =
     s\<lparr>on_channel_switch_event_handler :=
         map_erase interface_index (on_channel_switch_event_handler s)\<rparr>"

definition SubscribeFrameTxStatusEvent :: "u32 \<Rightarrow> hid \<Rightarrow> 'a nlm_scheme \<Rightarrow> 'a nlm_scheme" where
  "SubscribeFrameTxStatusEvent interface_index handler s =
     s\<lparr>on_frame_tx_status_event_handler :=
         map_set interface_index handler (on_frame_tx_status_event_handler s)\<rparr>"

definition UnsubscribeFrameTxStatusEvent :: "u32 \<Rightarrow> 'a nlm_scheme \<Rightarrow> 'a nlm_scheme" where
  "UnsubscribeFrameTxStatusEvent interface_index s =
     s\<lparr>on_frame_tx_status_event_handler :=
         map_erase interface_index (on_frame_tx_status_event_handler s)\<rparr>"

section \<open>Dispatch of multicast notifications\<close>

text \<open>
  \<open>OnRegChangeEvent\<close>: when the type attribute is missing the error is logged and the code
  goes on to compare the uninitialised \<open>reg_type\<close>. The handlers run in key order; they get
  a reference to the country code, which no handler of the program writes.
\<close>

primrec run_reg_handlers ::
    "(hcall \<Rightarrow> 's \<Rightarrow> 's res) \<Rightarrow> bytes \<Rightarrow> (u32, hid) omap \<Rightarrow> 's \<Rightarrow> 's res" where
  "run_reg_handlers run country_code [] s = Inr s"
| "run_reg_handlers run country_code (handler # rest) s =
     and_then (run (CallRegDomainChanged (snd handler) (fst handler) country_code) s)
       (run_reg_handlers run country_code rest)"

definition OnRegChangeEvent ::
    "(hcall \<Rightarrow> 'a nlm_scheme \<Rightarrow> 'a nlm_scheme res) \<Rightarrow> packet \<Rightarrow> 'a nlm_scheme \<Rightarrow> 'a nlm_scheme res" where
  "OnRegChangeEvent run packet s =
     and_then (Packet_GetAttributeValue (word_class :: u8 attr_class) packet NL80211_ATTR_REG_TYPE) (\<lambda>reg_type.
       case reg_type of
         None \<Rightarrow> Inl Uninitialized
       | Some t \<Rightarrow>
           if unat t = NL80211_REGDOM_TYPE_COUNTRY then
             and_then (Packet_GetAttributeValue string_class packet NL80211_ATTR_REG_ALPHA2) (\<lambda>alpha2.
               case alpha2 of
                 None \<Rightarrow> Inr s
               | Some country_code \<Rightarrow>
                   run_reg_handlers run country_code (on_reg_domain_changed_handler s) s)
           else if unat t = NL80211_REGDOM_TYPE_WORLD \<or>
                   unat t = NL80211_REGDOM_TYPE_CUSTOM_WORLD \<or>
                   unat t = NL80211_REGDOM_TYPE_INTERSECTION then
             run_reg_handlers run [] (on_reg_domain_changed_handler s) s
           else Inr s)"

definition OnMlmeEvent ::
    "(hcall \<Rightarrow> 'a nlm_scheme \<Rightarrow> 'a nlm_scheme res) \<Rightarrow> packet \<Rightarrow> 'a nlm_scheme \<Rightarrow> 'a nlm_scheme res" where
  "OnMlmeEvent run packet s =
     and_then (Packet_GetAttributeValue word_class packet NL80211_ATTR_IFINDEX) (\<lambda>if_index.
       case if_index of
         None \<Rightarrow> Inr s
       | Some i \<Rightarrow>
           (case map_find (on_mlme_event_handler s) i of
              None \<Rightarrow> Inr s
            | Some handler \<Rightarrow>
                and_then (GetCommand packet) (\<lambda>command.
                  if command = NL80211_CMD_CONNECT then
                    and_then (MlmeConnectEvent_InitFromPacket packet) (\<lambda>event.
                      case event of None \<Rightarrow> Inr s | Some e \<Rightarrow> run (CallOnConnect handler e) s)
                  else if command = NL80211_CMD_ASSOCIATE then
                    and_then (MlmeAssociateEvent_InitFromPacket packet) (\<lambda>event.
                      case event of None \<Rightarrow> Inr s | Some e \<Rightarrow> run (CallOnAssociate handler e) s)
                  else if command = NL80211_CMD_ROAM then
                    and_then (MlmeRoamEvent_InitFromPacket packet) (\<lambda>event.
                      case event of None \<Rightarrow> Inr s | Some e \<Rightarrow> run (CallOnRoam handler e) s)
                  else if command = NL80211_CMD_DISCONNECT then
                    and_then (MlmeDisconnectEvent_InitFromPacket packet) (\<lambda>event.
                      case event of None \<Rightarrow> Inr s | Some e \<Rightarrow> run (CallOnDisconnect handler e) s)
                  else if command = NL80211_CMD_DISASSOCIATE then
                    and_then (MlmeDisassociateEvent_InitFromPacket packet) (\<lambda>event.
                      case event of None \<Rightarrow> Inr s | Some e \<Rightarrow> run (CallOnDisassociate handler e) s)
                  else Inr s)))"

definition OnSchedScanResultsReady ::
    "(hcall \<Rightarrow> 'a nlm_scheme \<Rightarrow> 'a nlm_scheme res) \<Rightarrow> packet \<Rightarrow> 'a nlm_scheme \<Rightarrow> 'a nlm_scheme res" where
  "OnSchedScanResultsReady run packet s =
     and_then (Packet_GetAttributeValue word_class packet NL80211_ATTR_IFINDEX) (\<lambda>if_index.
       case if_index of
         None \<Rightarrow> Inr s
       | Some i \<Rightarrow>
           (case map_find (on_sched_scan_result_ready_handler s) i of
              None \<Rightarrow> Inr s
            | Some handler \<Rightarrow>
                and_then (GetCommand packet) (\<lambda>command.
                  run (CallSchedScanResults handler i (command = NL80211_CMD_SCHED_SCAN_STOPPED)) s)))"

text \<open>
  \<open>OnScanResultsReady\<close>: a missing list is an empty list; a list with a broken element
  (\<open>Some None\<close>) ends the function without running the handler.
\<close>

definition notification_list :: "'b attr_class \<Rightarrow> packet \<Rightarrow> nat \<Rightarrow> 'b list option res" where
  "notification_list T packet attr_id =
     and_then (Packet_GetAttribute packet attr_id) (\<lambda>list_attr.
       case list_attr of
         None \<Rightarrow> Inr (Some [])
       | Some a \<Rightarrow> GetListOfAttributeValues T a)"

definition OnScanResultsReady ::
    "(hcall \<Rightarrow> 'a nlm_scheme \<Rightarrow> 'a nlm_scheme res) \<Rightarrow> packet \<Rightarrow> 'a nlm_scheme \<Rightarrow> 'a nlm_scheme res" where
  "OnScanResultsReady run packet s =
     and_then (Packet_GetAttributeValue word_class packet NL80211_ATTR_IFINDEX) (\<lambda>if_index.
       case if_index of
         None \<Rightarrow> Inr s
       | Some i \<Rightarrow>
           and_then (GetCommand packet) (\<lambda>command.
             let aborted = (command = NL80211_CMD_SCAN_ABORTED) in
             case map_find (on_scan_result_ready_handler s) i of
               None \<Rightarrow> Inr s
             | Some handler \<Rightarrow>
                 and_then (notification_list vector_class packet NL80211_ATTR_SCAN_SSIDS) (\<lambda>ssids.
                   case ssids of
                     None \<Rightarrow> Inr s
                   | Some ss \<Rightarrow>
                       and_then (notification_list word_class packet NL80211_ATTR_SCAN_FREQUENCIES) (\<lambda>freqs.
                         case freqs of
                           None \<Rightarrow> Inr s
                         | Some fs \<Rightarrow> run (CallScanResults handler i aborted ss fs) s))))"

definition OnChannelSwitchEvent ::
    "(hcall \<Rightarrow> 'a nlm_scheme \<Rightarrow> 'a nlm_scheme res) \<Rightarrow> packet \<Rightarrow> 'a nlm_scheme \<Rightarrow> 'a nlm_scheme res" where
  "OnChannelSwitchEvent run packet s =
     and_then (Packet_GetAttributeValue (word_class :: u32 attr_class) packet NL80211_ATTR_IFINDEX) (\<lambda>if_index.
       case if_index of
         None \<Rightarrow> Inr s
       | Some i \<Rightarrow>
           and_then (Packet_GetAttributeValue word_class packet NL80211_ATTR_WIPHY_FREQ) (\<lambda>freq.
             case freq of
               None \<Rightarrow> Inr s
             | Some frequency \<Rightarrow>
                 and_then (Packet_GetAttributeValue word_class packet NL80211_ATTR_CHANNEL_WIDTH) (\<lambda>width.
                   case width of
                     None \<Rightarrow> Inr s
                   | Some bandwidth \<Rightarrow>
                       (case map_find (on_channel_switch_event_handler s) i of
                          None \<Rightarrow> Inr s
                        | Some handler \<Rightarrow>
                            run (CallChannelSwitch handler frequency (getBandwidthType bandwidth)) s))))"

definition OnFrameTxStatusEvent ::
    "(hcall \<Rightarrow> 'a nlm_scheme \<Rightarrow> 'a nlm_scheme res) \<Rightarrow> packet \<Rightarrow> 'a nlm_scheme \<Rightarrow> 'a nlm_scheme res" where
  "OnFrameTxStatusEvent run packet s =
     and_then (Packet_GetAttributeValue word_class packet NL80211_ATTR_IFINDEX) (\<lambda>if_index.
       case if_index of
         None \<Rightarrow> Inr s
       | Some i \<Rightarrow>
           and_then (Packet_GetAttributeValue word_class packet NL80211_ATTR_COOKIE) (\<lambda>cookie.
             case cookie of
               None \<Rightarrow> Inr s
             | Some c \<Rightarrow>
                 and_then (Packet_HasAttribute packet NL80211_ATTR_ACK) (\<lambda>was_acked.
                   case map_find (on_frame_tx_status_event_handler s) i of
                     None \<Rightarrow> Inr s
                   | Some handler \<Rightarrow> run (CallFrameTxStatus handler c was_acked) s)))"

text \<open>The station branch of \<open>BroadcastHandler\<close>.\<close>

definition OnStationEvent ::
    "(hcall \<Rightarrow> 'a nlm_scheme \<Rightarrow> 'a nlm_scheme res) \<Rightarrow> nat \<Rightarrow> packet \<Rightarrow> 'a nlm_scheme \<Rightarrow> 'a nlm_scheme res" where
  "OnStationEvent run command packet s =
     and_then (Packet_GetAttributeValue word_class packet NL80211_ATTR_IFINDEX) (\<lambda>if_index.
       case if_index of
         None \<Rightarrow> Inr s
       | Some i \<Rightarrow>
           (case map_find (on_station_event_handler s) i of
              None \<Rightarrow> Inr s
            | Some handler \<Rightarrow>
                and_then (Packet_GetAttributeValue mac_class packet NL80211_ATTR_MAC) (\<lambda>mac.
                  case mac of
                    None \<Rightarrow> Inr s
                  | Some mac_address \<Rightarrow>
                      run (CallStationEvent handler
                             (if command = NL80211_CMD_NEW_STATION then NEW_STATION else DEL_STATION)
                             mac_address) s)))"

definition BroadcastHandler ::
    "(hcall \<Rightarrow> 'a nlm_scheme \<Rightarrow> 'a nlm_scheme res) \<Rightarrow> packet \<Rightarrow> 'a nlm_scheme \<Rightarrow> 'a nlm_scheme res" where
  "BroadcastHandler run packet s =
     and_then (GetMessageType packet) (\<lambda>msg_type.
     and_then (GetFamilyId s) (\<lambda>(family, s1).
       if msg_type \<noteq> unat family then Inr s1
       else and_then (GetCommand packet) (\<lambda>command.
         if command = NL80211_CMD_NEW_SCAN_RESULTS \<or> command = NL80211_CMD_SCAN_ABORTED then
           OnScanResultsReady run packet s1
         else if command = NL80211_CMD_SCHED_SCAN_RESULTS \<or>
                 command = NL80211_CMD_SCHED_SCAN_STOPPED then
           OnSchedScanResultsReady run packet s1
         else if command = NL80211_CMD_CONNECT \<or> command = NL80211_CMD_ASSOCIATE \<or>
                 command = NL80211_CMD_ROAM \<or> command = NL80211_CMD_DISCONNECT \<or>
                 command = NL80211_CMD_DISASSOCIATE then
           OnMlmeEvent run packet s1
         else if command = NL80211_CMD_REG_CHANGE \<or> command = NL80211_CMD_WIPHY_REG_CHANGE then
           OnRegChangeEvent run packet s1
         else if command = NL80211_CMD_NEW_STATION \<or> command = NL80211_CMD_DEL_STATION then
           OnStationEvent run command packet s1
         else if command = NL80211_CMD_CH_SWITCH_NOTIFY then
           OnChannelSwitchEvent run packet s1
         else if command = NL80211_CMD_FRAME_TX_STATUS then
           OnFrameTxStatusEvent run packet s1
         else Inr s1)))"

section \<open>Receiving\<close>

definition run_handler ::
    "(hcall \<Rightarrow> 'a nlm_scheme \<Rightarrow> 'a nlm_scheme res) \<Rightarrow> msg_handler \<Rightarrow> packet \<Rightarrow>
     'a nlm_scheme \<Rightarrow> 'a nlm_scheme res" where
  "run_handler run h packet s =
     (case h of
        AppendPacket v \<Rightarrow>
          Inr (s\<lparr>response_vecs := (response_vecs s)[v := response_vecs s ! v @ [packet]]\<rparr>)
      | Registered f \<Rightarrow> run (CallMessageHandler f packet) s)"

definition erase_handler :: "u32 \<Rightarrow> 'a nlm_scheme \<Rightarrow> 'a nlm_scheme" where
  "erase_handler sequence s = s\<lparr>message_handlers := map_erase sequence (message_handlers s)\<rparr>"

lemma valid_packet_length:
  "Packet_IsValid (take n d) = Inr True \<Longrightarrow> 16 \<le> n"
  using Packet_IsValid_True(1) [of "take n d"] by simp

text \<open>
  The loop over the messages of one datagram of \<open>len\<close> bytes, \<open>ptr\<close> bytes into the static
  buffer. The packet is copied with the length its header claims, which is compared with
  the copy itself and never with \<open>len\<close>; only the end of the static buffer bounds the read.
  A handler may receive another datagram into the same buffer; the loop then goes on with
  what it finds there.
\<close>

function receive_loop ::
    "(hcall \<Rightarrow> 'a nlm_scheme \<Rightarrow> 'a nlm_scheme res) \<Rightarrow> nat \<Rightarrow> nat \<Rightarrow>
     'a nlm_scheme \<Rightarrow> 'a nlm_scheme res" where
  "receive_loop run len ptr s =
     (if len \<le> ptr then Inr s
      else if len < ptr + NLMSG_HDRLEN then Inr s
      else
        let nlmsg_length = field 4 ptr (ReceiveBuffer s);
            packet = take nlmsg_length (drop ptr (ReceiveBuffer s))
        in if length (ReceiveBuffer s) < ptr + nlmsg_length then Inl Out_Of_Bounds
           else and_then (Packet_IsValid packet) (\<lambda>valid.
             if \<not> valid then Inr s
             else and_then (GetMessageSequence packet) (\<lambda>sequence.
               if sequence = kBroadcastSequenceNumber then
                 and_then (BroadcastHandler run packet s) (receive_loop run len (ptr + nlmsg_length))
               else case map_find (message_handlers s) sequence of
                 None \<Rightarrow> Inr s
               | Some handler \<Rightarrow>
                   and_then (GetMessageType packet) (\<lambda>message_type.
                     if message_type = NLMSG_DONE \<or> message_type = NLMSG_NOOP then
                       Inr (erase_handler sequence s)
                     else if message_type = NLMSG_OVERRUN then Inr (erase_handler sequence s)
                     else and_then (IsMulti packet) (\<lambda>is_multi.
                       and_then (run_handler run handler packet s) (\<lambda>s'.
                         receive_loop run len (ptr + nlmsg_length)
                           (if is_multi then s' else erase_handler sequence s')))))))"
  by pat_completeness auto

termination
  by (relation "measure (\<lambda>(run, len, ptr, s). len - ptr)") (auto dest!: valid_packet_length)

declare receive_loop.simps [simp del]

definition ReceivePacketAndRunHandler ::
    "(hcall \<Rightarrow> 'a nlm_scheme \<Rightarrow> 'a nlm_scheme res) \<Rightarrow> read_result \<Rightarrow>
     'a nlm_scheme \<Rightarrow> 'a nlm_scheme res" where
  "ReceivePacketAndRunHandler run r s =
     (case r of
        ReadError \<Rightarrow> Inr s
      | ReadBytes datagram \<Rightarrow>
          let received = take kReceiveBufferSize datagram;
              len = length received
          in if len = 0 then Inr s
             else receive_loop run len 0 (s\<lparr>ReceiveBuffer := put 0 received (ReceiveBuffer s)\<rparr>))"

section \<open>Sending\<close>

text \<open>
  \<open>SendMessageInternal\<close>: the returned list is what the kernel will answer. A failure while
  \<open>nlinterceptor\<close> is enabled restarts the daemon through \<open>CHECK\<close>.
\<close>

definition SendMessageInternal ::
    "packet \<Rightarrow> int \<Rightarrow> u32 \<Rightarrow> 'a nlm_scheme \<Rightarrow> (bool \<times> poll_result list \<times> 'a nlm_scheme) res" where
  "SendMessageInternal packet fd nl_destination s =
     (case net_script s of
        [] \<Rightarrow> if interceptor_enabled s then Inl Check_Failed else Inr (False, [], s)
      | e # rest \<Rightarrow>
          if send_ok e then
            Inr (True, polls e, s\<lparr>net_script := rest,
                                  sent_packets := sent_packets s @ [(fd, nl_destination, packet)]\<rparr>)
          else if interceptor_enabled s then Inl Check_Failed
          else Inr (False, [], s\<lparr>net_script := rest\<rparr>))"

definition RegisterHandlerAndSendMessage ::
    "packet \<Rightarrow> hid \<Rightarrow> 'a nlm_scheme \<Rightarrow> (bool \<times> 'a nlm_scheme) res" where
  "RegisterHandlerAndSendMessage packet handler s =
     and_then (IsDump packet) (\<lambda>is_dump.
       if is_dump then Inr (False, s)
       else and_then (SendMessageInternal packet (async_netlink_fd s) (async_netlink_destination s) s)
         (\<lambda>(ok, _, s1).
           if \<not> ok then Inr (False, s1)
           else and_then (GetMessageSequence packet) (\<lambda>sequence.
             Inr (True, s1\<lparr>message_handlers := map_set sequence (Registered handler) (message_handlers s1)\<rparr>))))"

text \<open>The polling loop, over the outcomes of the environment.\<close>

primrec response_loop ::
    "(hcall \<Rightarrow> 'a nlm_scheme \<Rightarrow> 'a nlm_scheme res) \<Rightarrow> u32 \<Rightarrow> poll_result list \<Rightarrow> int \<Rightarrow>
     'a nlm_scheme \<Rightarrow> (bool \<times> 'a nlm_scheme) res" where
  "response_loop run sequence [] time_remaining s =
     (if 0 < time_remaining \<and> map_find (message_handlers s) sequence \<noteq> None
      then Inr (False, erase_handler sequence s)
      else if time_remaining \<le> 0 then Inr (False, erase_handler sequence s)
      else Inr (True, s))"
| "response_loop run sequence (p # ps) time_remaining s =
     (if 0 < time_remaining \<and> map_find (message_handlers s) sequence \<noteq> None
      then case p of
        PollTimeout \<Rightarrow> Inr (False, erase_handler sequence s)
      | PollError \<Rightarrow> Inr (False, erase_handler sequence s)
      | PollReady r interval \<Rightarrow>
          and_then (ReceivePacketAndRunHandler run r s)
            (response_loop run sequence ps (time_remaining - int interval))
      else if time_remaining \<le> 0 then Inr (False, erase_handler sequence s)
      else Inr (True, s))"

text \<open>
  \<open>SendMessageAndGetResponses\<close> appends to the vector of the caller: \<open>response\<close> is its
  contents before, and the middle component of the result its contents after the call.
\<close>

definition SendMessageAndGetResponses ::
    "(hcall \<Rightarrow> 'a nlm_scheme \<Rightarrow> 'a nlm_scheme res) \<Rightarrow> packet \<Rightarrow> packet list \<Rightarrow>
     'a nlm_scheme \<Rightarrow> (bool \<times> packet list \<times> 'a nlm_scheme) res" where
  "SendMessageAndGetResponses run packet response s =
     and_then (SendMessageInternal packet (sync_netlink_fd s) (sync_netlink_destination s) s)
       (\<lambda>(ok, ps, s1).
         if \<not> ok then Inr (False, response, s1)
         else and_then (GetMessageSequence packet) (\<lambda>sequence.
           let vec = length (response_vecs s1) in
           and_then
             (response_loop run sequence ps kMaximumNetlinkMessageWaitMilliSeconds
               (s1\<lparr>message_handlers := map_set sequence (AppendPacket vec) (message_handlers s1),
                   response_vecs := response_vecs s1 @ [response]\<rparr>))
             (\<lambda>(ok, s2). Inr (ok, response_vecs s2 ! vec, s2))))"

definition SendMessageAndGetSingleResponseOrError ::
    "(hcall \<Rightarrow> 'a nlm_scheme \<Rightarrow> 'a nlm_scheme res) \<Rightarrow> packet \<Rightarrow> 'a nlm_scheme \<Rightarrow>
     (packet option \<times> 'a nlm_scheme) res" where
  "SendMessageAndGetSingleResponseOrError run packet s =
     and_then (SendMessageAndGetResponses run packet [] s) (\<lambda>(ok, response_vec, s1).
       if \<not> ok then Inr (None, s1)
       else if length response_vec \<noteq> 1 then Inr (None, s1)
       else Inr (Some (response_vec ! 0), s1))"

definition SendMessageAndGetSingleResponse ::
    "(hcall \<Rightarrow> 'a nlm_scheme \<Rightarrow> 'a nlm_scheme res) \<Rightarrow> packet \<Rightarrow> 'a nlm_scheme \<Rightarrow>
     (packet option \<times> 'a nlm_scheme) res" where
  "SendMessageAndGetSingleResponse run packet s =
     and_then (SendMessageAndGetSingleResponseOrError run packet s) (\<lambda>(r, s1).
       case r of
         None \<Rightarrow> Inr (None, s1)
       | Some response_or_error \<Rightarrow>
           and_then (GetMessageType response_or_error) (\<lambda>message_type.
             if message_type = NLMSG_ERROR then
               and_then (GetErrorCode response_or_error) (\<lambda>_. Inr (None, s1))
             else Inr (Some response_or_error, s1)))"

definition SendMessageAndGetAckOrError ::
    "(hcall \<Rightarrow> 'a nlm_scheme \<Rightarrow> 'a nlm_scheme res) \<Rightarrow> packet \<Rightarrow> 'a nlm_scheme \<Rightarrow>
     (int option \<times> 'a nlm_scheme) res" where
  "SendMessageAndGetAckOrError run packet s =
     and_then (SendMessageAndGetSingleResponseOrError run packet s) (\<lambda>(r, s1).
       case r of
         None \<Rightarrow> Inr (None, s1)
       | Some response \<Rightarrow>
           and_then (GetMessageType response) (\<lambda>type.
             if type \<noteq> NLMSG_ERROR then Inr (None, s1)
             else and_then (GetErrorCode response) (\<lambda>error_code. Inr (Some error_code, s1))))"

definition SendMessageAndGetAck ::
    "(hcall \<Rightarrow> 'a nlm_scheme \<Rightarrow> 'a nlm_scheme res) \<Rightarrow> packet \<Rightarrow> 'a nlm_scheme \<Rightarrow>
     (bool \<times> 'a nlm_scheme) res" where
  "SendMessageAndGetAck run packet s =
     and_then (SendMessageAndGetAckOrError run packet s) (\<lambda>(r, s1).
       case r of
         None \<Rightarrow> Inr (False, s1)
       | Some error_code \<Rightarrow> Inr (error_code = 0, s1))"

section \<open>Family discovery and start\<close>

primrec add_groups ::
    "bytes \<Rightarrow> attr list \<Rightarrow> 'a nlm_scheme \<Rightarrow> 'a nlm_scheme res" where
  "add_groups family_name [] s = Inr s"
| "add_groups family_name (grp # rest) s =
     and_then (GetAttributeValue string_class grp CTRL_ATTR_MCAST_GRP_NAME) (\<lambda>name.
       case name of
         None \<Rightarrow> add_groups family_name rest s
       | Some group_name \<Rightarrow>
           and_then (GetAttributeValue word_class grp CTRL_ATTR_MCAST_GRP_ID) (\<lambda>grp_id.
             case grp_id of
               None \<Rightarrow> add_groups family_name rest s
             | Some group_id \<Rightarrow>
                 let (t, s1) = message_type_entry family_name s in
                 add_groups family_name rest
                   (s1\<lparr>message_types := map_set family_name
                          (t\<lparr>groups := map_set group_name group_id (groups t)\<rparr>) (message_types s1)\<rparr>)))"

text \<open>\<open>OnNewFamily\<close> warns about a family that is not nl80211 and then stores it as well.\<close>

definition OnNewFamily :: "packet \<Rightarrow> 'a nlm_scheme \<Rightarrow> 'a nlm_scheme res" where
  "OnNewFamily packet s =
     and_then (GetMessageType packet) (\<lambda>message_type.
       if message_type \<noteq> GENL_ID_CTRL then Inr s
       else and_then (GetCommand packet) (\<lambda>command.
         if command \<noteq> CTRL_CMD_NEWFAMILY then Inr s
         else and_then (Packet_GetAttributeValue word_class packet CTRL_ATTR_FAMILY_ID) (\<lambda>family.
           case family of
             None \<Rightarrow> Inr s
           | Some fid \<Rightarrow>
               and_then (Packet_GetAttributeValue string_class packet CTRL_ATTR_FAMILY_NAME) (\<lambda>name.
                 case name of
                   None \<Rightarrow> Inr s
                 | Some family_name \<Rightarrow>
                     let s1 = s\<lparr>message_types := map_set family_name
                                  \<lparr>family_id = Some fid, groups = []\<rparr> (message_types s)\<rparr> in
                     and_then (Packet_GetAttribute packet CTRL_ATTR_MCAST_GROUPS) (\<lambda>multicast_groups.
                       case multicast_groups of
                         None \<Rightarrow> Inr s1
                       | Some g \<Rightarrow>
                           (case GetListOfNestedAttributes g of
                              None \<Rightarrow> Inr s1
                            | Some gs \<Rightarrow> add_groups family_name gs s1))))))"

text \<open>
  What the kernel and \<open>nlinterceptor\<close> do during \<open>SetupSocket\<close>. Without the interceptor the
  code assigns \<open>{}\<close> to its own copy of the destination pointer, so the member keeps the
  value it had.
\<close>

record socket_env =
  sock_fd :: int
  rcvbuf_ok :: bool
  bind_ok :: bool
  interceptor_socket :: "u32 option"

definition SetupSocket ::
    "socket_env \<Rightarrow> u32 \<Rightarrow> bool \<Rightarrow> (bool \<times> int \<times> u32) res" where
  "SetupSocket env nl_destination interceptor =
     (if sock_fd env < 0 then Inr (False, sock_fd env, nl_destination)
      else if \<not> rcvbuf_ok env then Inr (False, sock_fd env, nl_destination)
      else if \<not> bind_ok env then Inr (False, sock_fd env, nl_destination)
      else if \<not> interceptor then Inr (True, sock_fd env, nl_destination)
      else case interceptor_socket env of
        None \<Rightarrow> Inl Check_Failed
      | Some port \<Rightarrow> Inr (True, sock_fd env, port))"

definition WatchSocket :: "bool \<Rightarrow> int \<Rightarrow> 'a nlm_scheme \<Rightarrow> bool \<times> 'a nlm_scheme" where
  "WatchSocket watch_ok fd s =
     (if watch_ok then (True, s\<lparr>watched_fds := watched_fds s @ [fd]\<rparr>) else (False, s))"

definition DiscoverFamilyId ::
    "(hcall \<Rightarrow> 'a nlm_scheme \<Rightarrow> 'a nlm_scheme res) \<Rightarrow> 'a nlm_scheme \<Rightarrow> (bool \<times> 'a nlm_scheme) res" where
  "DiscoverFamilyId run s =
     (let (sequence, s1) = GetSequenceNumber s;
          get_family_request = NL80211Packet (of_nat GENL_ID_CTRL) CTRL_CMD_GETFAMILY sequence (own_pid s1);
          family_name = make_string_attr CTRL_ATTR_FAMILY_NAME NL80211_GENL_NAME;
          get_family_request = Packet_AddAttribute family_name get_family_request
      in and_then (SendMessageAndGetSingleResponse run get_family_request s1) (\<lambda>(r, s2).
           case r of
             None \<Rightarrow> Inr (False, s2)
           | Some response \<Rightarrow>
               and_then (OnNewFamily response s2) (\<lambda>s3.
                 Inr (map_find (message_types s3) NL80211_GENL_NAME \<noteq> None, s3))))"

text \<open>
  \<open>member_ok\<close> is the outcome of \<open>nlinterceptor::subscribe\<close> or of the \<open>setsockopt\<close> call for
  a group.
\<close>

definition SubscribeToEvents ::
    "(u32 \<Rightarrow> bool) \<Rightarrow> bytes \<Rightarrow> 'a nlm_scheme \<Rightarrow> bool \<times> 'a nlm_scheme" where
  "SubscribeToEvents member_ok grp s =
     (let (t, s1) = message_type_entry NL80211_GENL_NAME s in
      case map_find (groups t) grp of
        None \<Rightarrow> (False, s1)
      | Some group_id \<Rightarrow> (member_ok group_id, s1))"

definition Start ::
    "(hcall \<Rightarrow> 'a nlm_scheme \<Rightarrow> 'a nlm_scheme res) \<Rightarrow> socket_env \<Rightarrow> socket_env \<Rightarrow> bool \<Rightarrow>
     (u32 \<Rightarrow> bool) \<Rightarrow> 'a nlm_scheme \<Rightarrow> (bool \<times> 'a nlm_scheme) res" where
  "Start run sync_env async_env watch_ok member_ok s =
     (if is_started s then Inr (True, s)
      else and_then (SetupSocket sync_env (sync_netlink_destination s) (interceptor_enabled s)) (\<lambda>(ok, fd, dest).
        let s1 = s\<lparr>sync_netlink_fd := fd, sync_netlink_destination := dest\<rparr> in
        if \<not> ok then Inr (False, s1)
        else and_then (SetupSocket async_env (async_netlink_destination s1) (interceptor_enabled s1)) (\<lambda>(ok, fd, dest).
          let s2 = s1\<lparr>async_netlink_fd := fd, async_netlink_destination := dest\<rparr> in
          if \<not> ok then Inr (False, s2)
          else and_then (DiscoverFamilyId run s2) (\<lambda>(ok, s3).
            if \<not> ok then Inr (False, s3)
            else
              let (ok, s4) = WatchSocket watch_ok (async_netlink_fd s3) s3 in
              if \<not> ok then Inr (False, s4)
              else
                let (ok, s5) = SubscribeToEvents member_ok NL80211_MULTICAST_GROUP_REG s4 in
                if \<not> ok then Inr (False, s5)
                else
                  let (ok, s6) = SubscribeToEvents member_ok NL80211_MULTICAST_GROUP_SCAN s5 in
                  if \<not> ok then Inr (False, s6)
                  else
                    let (ok, s7) = SubscribeToEvents member_ok NL80211_MULTICAST_GROUP_MLME s6 in
                    if \<not> ok then Inr (False, s7)
                    else Inr (True, s7\<lparr>is_started := True\<rparr>)))))"

section \<open>Sequence numbers\<close>

text \<open>The numbers of \<open>n\<close> successive calls, and the counter after them.\<close>

primrec sequence_numbers :: "nat \<Rightarrow> 'a nlm_scheme \<Rightarrow> u32 list \<times> 'a nlm_scheme" where
  "sequence_numbers 0 s = ([], s)"
| "sequence_numbers (Suc n) s =
     (let (x, s1) = GetSequenceNumber s; (xs, s2) = sequence_numbers n s1 in (x # xs, s2))"

lemma unat_next_sequence:
  "unat (fst (GetSequenceNumber s)) = unat (sequence_number s) mod 4294967295 + 1"
proof (cases "sequence_number s + 1 = 0")
  case True
  then have "sequence_number s = - 1" by (simp add: eq_neg_iff_add_eq_0)
  then show ?thesis by (simp add: GetSequenceNumber_def unsigned_minus_1_eq_mask mask_eq_exp_minus_1)
next
  case False
  then have "unat (sequence_number s + 1) = unat (sequence_number s) + 1"
    by (metis add.commute Suc_eq_plus1 unatSuc)
  moreover have "unat (sequence_number s + 1) < 4294967296" by (rule unat_u32_bound)
  ultimately show ?thesis using False by (simp add: GetSequenceNumber_def Let_def)
qed

lemma sequence_number_after: "sequence_number (snd (GetSequenceNumber s)) = fst (GetSequenceNumber s)"
  by (simp add: GetSequenceNumber_def Let_def)

lemma mod_Suc_shift: "(a mod m + 1 + i) mod m = (a + Suc i) mod (m :: nat)"
proof -
  have "(Suc (a mod m) + i) mod m = (Suc a + i) mod m"
    by (metis add_Suc mod_Suc_eq mod_add_left_eq)
  then show ?thesis by simp
qed

lemma sequence_numbers_closed:
  "map unat (fst (sequence_numbers n s)) =
     map (\<lambda>i. (unat (sequence_number s) + i) mod 4294967295 + 1) [0..<n]"
proof (induction n arbitrary: s)
  case 0
  show ?case by simp
next
  case (Suc n)
  let ?s1 = "snd (GetSequenceNumber s)"
  have shift: "(unat (sequence_number ?s1) + i) mod 4294967295 =
      (unat (sequence_number s) + Suc i) mod 4294967295" for i
    unfolding sequence_number_after unat_next_sequence by (rule mod_Suc_shift)
  have "map unat (fst (sequence_numbers (Suc n) s)) =
      unat (fst (GetSequenceNumber s)) # map unat (fst (sequence_numbers n ?s1))"
    by (simp add: Let_def split_beta)
  also have "\<dots> = (unat (sequence_number s) mod 4294967295 + 1) #
      map (\<lambda>i. (unat (sequence_number s) + Suc i) mod 4294967295 + 1) [0..<n]"
    by (simp only: Suc.IH shift unat_next_sequence)
  also have "\<dots> = map (\<lambda>i. (unat (sequence_number s) + i) mod 4294967295 + 1) [0..<Suc n]"
    by (simp only: upt_conv_Cons zero_less_Suc list.map add_0_right map_Suc_upt [symmetric] map_map comp_def)
  finally show ?case .
qed

lemma mod_shift_distinct:
  assumes "(a + i) mod m = (a + j) mod m" "i < m" "j < (m :: nat)"
  shows "i = j"
proof (cases "i \<le> j")
  case True
  then have "m dvd j - i" using assms(1) mod_eq_dvd_iff_nat [of "a + i" "a + j" m] by simp
  then show ?thesis using True assms(3) by (cases "j - i = 0") (auto dest!: dvd_imp_le)
next
  case False
  then have "m dvd i - j" using assms(1) mod_eq_dvd_iff_nat [of "a + j" "a + i" m] by simp
  then show ?thesis using False assms(2) by (auto dest!: dvd_imp_le)
qed

lemma sequence_numbers_distinct:
  assumes "n \<le> 4294967295"
  shows "distinct (fst (sequence_numbers n s))"
proof -
  have "distinct (map (\<lambda>i. (unat (sequence_number s) + i) mod 4294967295 + 1) [0..<n])"
    using assms by (auto simp: distinct_map inj_on_def dest: mod_shift_distinct)
  then have "distinct (map unat (fst (sequence_numbers n s)))"
    by (simp only: sequence_numbers_closed)
  then show ?thesis by (simp add: distinct_map)
qed

lemma GetSequenceNumber_nonzero: "fst (GetSequenceNumber s) \<noteq> 0"
  using unat_next_sequence [of s] by auto

lemma GetSequenceNumber_frame:
  "GetSequenceNumber s = (n, s') \<Longrightarrow> s' = s\<lparr>sequence_number := n\<rparr>"
  by (auto simp: GetSequenceNumber_def Let_def)

end
