(* ===== verification/Netlink_Requests.thy ===== *)
theory Netlink_Requests
  imports Netlink_Manager
begin

text \<open>
  What the request/response machinery of \<open>NetlinkManager\<close> guarantees. Running handlers may
  send requests and receive further datagrams, so the guarantees are stated as relations
  between the states before and after, first for any relation that the elementary steps and
  the handlers keep (locale \<open>handler_relation\<close>), then for the contract on response vectors
  (locale \<open>handler_contract\<close>): a vector only grows, by valid packets that carry the sequence
  number it is registered under.
\<close>

section \<open>Relations kept by receiving\<close>

definition reply_to :: "u32 \<Rightarrow> packet \<Rightarrow> bool" where
  "reply_to k p \<longleftrightarrow> Packet_IsValid p = Inr True \<and> GetMessageSequence p = Inr k"

text \<open>The four ways an iteration of the receive loop goes on.\<close>

lemma receive_loop_cases:
  assumes "receive_loop run len ptr s = Inr s'"
  obtains (stop) "s' = s"
  | (last) k where "map_find (message_handlers s) k \<noteq> None" "s' = erase_handler k s"
  | (broadcast) n packet s1 where "len - (ptr + n) < len - ptr"
      "BroadcastHandler run packet s = Inr s1" "receive_loop run len (ptr + n) s1 = Inr s'"
  | (reply) n k h packet is_multi s1 where "len - (ptr + n) < len - ptr"
      "map_find (message_handlers s) k = Some h" "reply_to k packet"
      "run_handler run h packet s = Inr s1"
      "receive_loop run len (ptr + n) (if is_multi then s1 else erase_handler k s1) = Inr s'"
proof -
  let ?n = "field 4 ptr (ReceiveBuffer s)"
  let ?p = "take ?n (drop ptr (ReceiveBuffer s))"
  show ?thesis
  proof (cases "len \<le> ptr \<or> len < ptr + 16 \<or> length (ReceiveBuffer s) < ptr + ?n \<or> Packet_IsValid ?p \<noteq> Inr True")
    case True
    then show ?thesis
      using assms by (intro stop)
        (auto simp: receive_loop.simps [of run len ptr s] Let_def split: if_splits elim!: and_then_InrE)
  next
    case False
    then have valid: "Packet_IsValid ?p = Inr True" and less: "len - (ptr + ?n) < len - ptr"
      using valid_packet_length [of ?n "drop ptr (ReceiveBuffer s)"] by auto
    obtain k where k: "GetMessageSequence ?p = Inr k"
      using valid_getters_return(2) [OF valid] by (auto simp: returns_def)
    note body = assms [unfolded receive_loop.simps [of run len ptr s] Let_def]
    show ?thesis
    proof (cases "k = 0")
      case True
      have "and_then (BroadcastHandler run ?p s) (receive_loop run len (ptr + ?n)) = Inr s'"
        using body False by (simp add: valid k True cong: if_cong)
      then show ?thesis by (rule and_then_InrE) (rule broadcast [OF less])
    next
      case nonzero: False
      show ?thesis
      proof (cases "map_find (message_handlers s) k")
        case None
        with body False valid k nonzero show ?thesis by (intro stop) simp
      next
        case (Some h)
        have "reply_to k ?p" using valid k by (simp add: reply_to_def)
        obtain t multi where t: "GetMessageType ?p = Inr t" "IsMulti ?p = Inr multi"
          using valid_getters_return [OF valid] by (auto simp: returns_def)
        show ?thesis
        proof (cases "t = NLMSG_DONE \<or> t = NLMSG_NOOP \<or> t = NLMSG_OVERRUN")
          case True
          with body False valid k nonzero Some t have "s' = erase_handler k s" by auto
          with Some show ?thesis using last [of k] by blast
        next
          case other: False
          with body False valid k nonzero Some t
          have "and_then (run_handler run h ?p s) (\<lambda>s1. receive_loop run len (ptr + ?n)
              (if multi then s1 else erase_handler k s1)) = Inr s'"
            by simp
          then show ?thesis
            by (rule and_then_InrE) (rule reply [OF less Some \<open>reply_to k ?p\<close>])
        qed
      qed
    qed
  qed
qed

locale handler_relation =
  fixes run :: "hcall \<Rightarrow> 'a nlm_scheme \<Rightarrow> 'a nlm_scheme res"
    and R :: "'a nlm_scheme \<Rightarrow> 'a nlm_scheme \<Rightarrow> bool"
  assumes R_refl: "R s s"
    and R_trans: "R s s' \<Longrightarrow> R s' s'' \<Longrightarrow> R s s''"
    and run_R: "run c s = Inr s' \<Longrightarrow> R s s'"
    and types_R: "R s (s\<lparr>message_types := t\<rparr>)"
    and buffer_R: "length bs \<le> kReceiveBufferSize \<Longrightarrow> R s (s\<lparr>ReceiveBuffer := put 0 bs (ReceiveBuffer s)\<rparr>)"
    and erase_R: "R s (erase_handler k s)"
    and append_R: "map_find (message_handlers s) k = Some (AppendPacket v) \<Longrightarrow> reply_to k p \<Longrightarrow>
      R s (s\<lparr>response_vecs := (response_vecs s)[v := response_vecs s ! v @ [p]]\<rparr>)"
    and sequence_R: "R s (s\<lparr>sequence_number := n\<rparr>)"
    and script_R: "R s (s\<lparr>net_script := es\<rparr>)"
    and sent_R: "R s (s\<lparr>sent_packets := ps\<rparr>)"
    and register_R: "R s (s\<lparr>message_handlers := map_set k (AppendPacket (length (response_vecs s))) (message_handlers s),
      response_vecs := response_vecs s @ [vs]\<rparr>)"
begin

lemma run_reg_handlers_R: "run_reg_handlers run c hs s = Inr s' \<Longrightarrow> R s s'"
  by (induction hs arbitrary: s) (auto simp: R_refl elim!: and_then_InrE intro: run_R R_trans)

lemma OnRegChangeEvent_R: "OnRegChangeEvent run p s = Inr s' \<Longrightarrow> R s s'"
  by (auto simp: OnRegChangeEvent_def R_refl elim!: and_then_InrE split: option.splits if_splits
      dest!: run_reg_handlers_R)

lemma OnMlmeEvent_R: "OnMlmeEvent run p s = Inr s' \<Longrightarrow> R s s'"
  by (auto simp: OnMlmeEvent_def R_refl elim!: and_then_InrE split: option.splits if_splits dest!: run_R)

lemma OnSchedScanResultsReady_R: "OnSchedScanResultsReady run p s = Inr s' \<Longrightarrow> R s s'"
  by (auto simp: OnSchedScanResultsReady_def R_refl elim!: and_then_InrE split: option.splits dest!: run_R)

lemma OnScanResultsReady_R: "OnScanResultsReady run p s = Inr s' \<Longrightarrow> R s s'"
  by (auto simp: OnScanResultsReady_def Let_def R_refl elim!: and_then_InrE split: option.splits dest!: run_R)

lemma OnChannelSwitchEvent_R: "OnChannelSwitchEvent run p s = Inr s' \<Longrightarrow> R s s'"
  by (auto simp: OnChannelSwitchEvent_def R_refl elim!: and_then_InrE split: option.splits dest!: run_R)

lemma OnFrameTxStatusEvent_R: "OnFrameTxStatusEvent run p s = Inr s' \<Longrightarrow> R s s'"
  by (auto simp: OnFrameTxStatusEvent_def R_refl elim!: and_then_InrE split: option.splits dest!: run_R)

lemma OnStationEvent_R: "OnStationEvent run c p s = Inr s' \<Longrightarrow> R s s'"
  by (auto simp: OnStationEvent_def R_refl elim!: and_then_InrE split: option.splits dest!: run_R)

lemma message_type_entry_R: "message_type_entry n s = (t, s') \<Longrightarrow> R s s'"
  by (auto simp: message_type_entry_def R_refl types_R split: option.splits)

lemma GetFamilyId_R: "GetFamilyId s = Inr (n, s') \<Longrightarrow> R s s'"
  by (auto simp: GetFamilyId_def split: prod.splits option.splits intro: message_type_entry_R)

lemmas notification_R = OnRegChangeEvent_R OnMlmeEvent_R OnSchedScanResultsReady_R
  OnScanResultsReady_R OnChannelSwitchEvent_R OnFrameTxStatusEvent_R OnStationEvent_R

lemma BroadcastHandler_R:
  assumes "BroadcastHandler run p s = Inr s'"
  shows "R s s'"
proof -
  from assms obtain family s1 where fam: "GetFamilyId s = Inr (family, s1)"
    by (auto simp: BroadcastHandler_def elim!: and_then_InrE)
  have "R s1 s'"
    using assms by (auto simp: BroadcastHandler_def fam elim!: and_then_InrE split: if_splits dest!: notification_R simp: R_refl)
  moreover have "R s s1" using fam by (rule GetFamilyId_R)
  ultimately show ?thesis by (blast intro: R_trans)
qed

lemma run_handler_R:
  "map_find (message_handlers s) k = Some h \<Longrightarrow> reply_to k p \<Longrightarrow> run_handler run h p s = Inr s' \<Longrightarrow> R s s'"
  by (auto simp: run_handler_def append_R split: msg_handler.splits intro: run_R)

lemma receive_loop_R: "receive_loop run len ptr s = Inr s' \<Longrightarrow> R s s'"
proof (induction "len - ptr" arbitrary: ptr s rule: less_induct)
  case less
  from less.prems show ?case
  proof (cases rule: receive_loop_cases)
    case (reply n k h packet is_multi s1)
    then have "R s (if is_multi then s1 else erase_handler k s1)"
      by (auto intro: R_trans run_handler_R erase_R)
    with reply less.hyps show ?thesis by (blast intro: R_trans)
  qed (auto simp: R_refl erase_R intro: R_trans BroadcastHandler_R less.hyps)
qed

lemma ReceivePacketAndRunHandler_R: "ReceivePacketAndRunHandler run r s = Inr s' \<Longrightarrow> R s s'"
  using receive_loop_R [of _ 0 _ s'] buffer_R [of "take kReceiveBufferSize _" s]
  by (auto simp: ReceivePacketAndRunHandler_def Let_def R_refl split: read_result.splits if_splits
      intro: R_trans)

lemma response_loop_R: "response_loop run k ps time s = Inr (ok, s') \<Longrightarrow> R s s'"
proof (induction ps arbitrary: time s)
  case Nil
  then show ?case by (auto simp: R_refl erase_R split: if_splits)
next
  case (Cons p ps)
  then show ?case
    by (auto simp: R_refl erase_R split: if_splits poll_result.splits elim!: and_then_InrE
        dest!: ReceivePacketAndRunHandler_R intro: R_trans)
qed

lemma GetSequenceNumber_R: "GetSequenceNumber s = (n, s') \<Longrightarrow> R s s'"
  by (auto dest!: GetSequenceNumber_frame intro: sequence_R)

lemma SendMessageInternal_R: "SendMessageInternal p fd dest s = Inr (ok, ps, s') \<Longrightarrow> R s s'"
  using R_trans [OF script_R sent_R]
  by (auto simp: SendMessageInternal_def R_refl script_R split: list.splits if_splits)

lemma SendMessageAndGetResponses_R:
  assumes "SendMessageAndGetResponses run p response s = Inr (ok, out, s')"
  shows "R s s'"
proof -
  from assms obtain sent ps s1 where send:
      "SendMessageInternal p (sync_netlink_fd s) (sync_netlink_destination s) s = Inr (sent, ps, s1)"
    by (auto simp: SendMessageAndGetResponses_def elim!: and_then_InrE)
  then have "R s s1" by (rule SendMessageInternal_R)
  moreover have "R s1 s'"
    using assms send
    by (auto simp: SendMessageAndGetResponses_def Let_def R_refl split: if_splits elim!: and_then_InrE
        dest!: response_loop_R intro: R_trans [OF register_R])
  ultimately show ?thesis by (rule R_trans)
qed

lemma SingleResponseOrError_R:
  "SendMessageAndGetSingleResponseOrError run p s = Inr (r, s') \<Longrightarrow> R s s'"
  by (auto simp: SendMessageAndGetSingleResponseOrError_def split: if_splits elim!: and_then_InrE
      dest!: SendMessageAndGetResponses_R)

lemma SingleResponse_R: "SendMessageAndGetSingleResponse run p s = Inr (r, s') \<Longrightarrow> R s s'"
  by (auto simp: SendMessageAndGetSingleResponse_def split: option.splits if_splits elim!: and_then_InrE
      dest!: SingleResponseOrError_R)

lemma AckOrError_R: "SendMessageAndGetAckOrError run p s = Inr (r, s') \<Longrightarrow> R s s'"
  by (auto simp: SendMessageAndGetAckOrError_def split: option.splits if_splits elim!: and_then_InrE
      dest!: SingleResponseOrError_R)

lemma Ack_R: "SendMessageAndGetAck run p s = Inr (r, s') \<Longrightarrow> R s s'"
  by (auto simp: SendMessageAndGetAck_def split: option.splits elim!: and_then_InrE dest!: AckOrError_R)

lemmas exchange_R = SendMessageAndGetResponses_R SingleResponse_R AckOrError_R Ack_R

end

section \<open>The contract on response vectors\<close>

text \<open>
  \<open>wf_nlm\<close>: every vector a message handler appends to exists, and the receive buffer has its
  size. \<open>delivers s s'\<close>: every vector of \<open>s\<close> has only been appended to, by valid packets with a
  sequence number it was registered under in \<open>s\<close>, and no new handler appends to it.
\<close>

definition wf_nlm :: "'a nlm_scheme \<Rightarrow> bool" where
  "wf_nlm s \<longleftrightarrow> length (ReceiveBuffer s) = kReceiveBufferSize \<and>
     (\<forall>k v. map_find (message_handlers s) k = Some (AppendPacket v) \<longrightarrow> v < length (response_vecs s))"

definition appended :: "'a nlm_scheme \<Rightarrow> nat \<Rightarrow> packet list \<Rightarrow> packet list \<Rightarrow> bool" where
  "appended s v old new \<longleftrightarrow> (\<exists>ps. new = old @ ps \<and>
     (\<forall>p \<in> set ps. \<exists>k. map_find (message_handlers s) k = Some (AppendPacket v) \<and> reply_to k p))"

definition delivers :: "'a nlm_scheme \<Rightarrow> 'a nlm_scheme \<Rightarrow> bool" where
  "delivers s s' \<longleftrightarrow>
     length (response_vecs s) \<le> length (response_vecs s') \<and>
     (\<forall>v < length (response_vecs s). appended s v (response_vecs s ! v) (response_vecs s' ! v)) \<and>
     (\<forall>v k. v < length (response_vecs s) \<longrightarrow> map_find (message_handlers s') k = Some (AppendPacket v) \<longrightarrow>
        map_find (message_handlers s) k = Some (AppendPacket v))"

definition good_step :: "'a nlm_scheme \<Rightarrow> 'a nlm_scheme \<Rightarrow> bool" where
  "good_step s s' \<longleftrightarrow> (wf_nlm s \<longrightarrow> wf_nlm s' \<and> delivers s s')"

lemma appended_refl: "appended s v ps ps"
  by (simp add: appended_def)

lemma appended_trans:
  assumes "appended s v a b" "appended s' v b c"
    and "\<And>k. map_find (message_handlers s') k = Some (AppendPacket v) \<Longrightarrow>
      map_find (message_handlers s) k = Some (AppendPacket v)"
  shows "appended s v a c"
proof -
  obtain p1 p2 where "b = a @ p1" "c = b @ p2"
    "\<forall>p \<in> set p1. \<exists>k. map_find (message_handlers s) k = Some (AppendPacket v) \<and> reply_to k p"
    "\<forall>p \<in> set p2. \<exists>k. map_find (message_handlers s') k = Some (AppendPacket v) \<and> reply_to k p"
    using assms(1,2) by (auto simp: appended_def)
  with assms(3) show ?thesis
    unfolding appended_def by (intro exI [of _ "p1 @ p2"]) (auto, meson)
qed

lemma delivers_refl: "delivers s s"
  by (simp add: delivers_def appended_refl)

lemma delivers_trans: "delivers s s' \<Longrightarrow> delivers s' s'' \<Longrightarrow> delivers s s''"
  by (auto simp: delivers_def intro: appended_trans [of s _ _ _ s'])

lemma delivers_appended:
  "delivers s s' \<Longrightarrow> v < length (response_vecs s) \<Longrightarrow>
     appended s v (response_vecs s ! v) (response_vecs s' ! v)"
  by (simp add: delivers_def)

lemma good_step_refl: "good_step s s"
  by (simp add: good_step_def delivers_refl)

lemma good_step_trans: "good_step s s' \<Longrightarrow> good_step s' s'' \<Longrightarrow> good_step s s''"
  by (auto simp: good_step_def intro: delivers_trans)

text \<open>A step that leaves handlers, vectors and buffer size alone keeps the contract.\<close>

lemma good_step_frame:
  "message_handlers s' = message_handlers s \<Longrightarrow> response_vecs s' = response_vecs s \<Longrightarrow>
     length (ReceiveBuffer s') = length (ReceiveBuffer s) \<Longrightarrow> good_step s s'"
  by (simp add: good_step_def wf_nlm_def delivers_def appended_refl)

lemma good_step_erase: "good_step s (erase_handler k s)"
  by (auto simp: good_step_def wf_nlm_def delivers_def appended_refl erase_handler_def split: if_splits)

lemma good_step_register:
  "good_step s (s\<lparr>message_handlers := map_set k (Registered f) (message_handlers s)\<rparr>)"
  by (auto simp: good_step_def wf_nlm_def delivers_def appended_refl split: if_splits)

lemma good_step_append:
  assumes "map_find (message_handlers s) k = Some (AppendPacket v)" "reply_to k p"
  shows "good_step s (s\<lparr>response_vecs := (response_vecs s)[v := response_vecs s ! v @ [p]]\<rparr>)"
proof -
  have "appended s v ps (ps @ [p])" for ps
    using assms by (auto simp: appended_def)
  then have "appended s u (response_vecs s ! u) ((response_vecs s)[v := response_vecs s ! v @ [p]] ! u)"
    if "u < length (response_vecs s)" for u
    using that by (cases "u = v") (simp_all add: appended_refl)
  then show ?thesis
    by (simp add: good_step_def wf_nlm_def delivers_def)
qed

lemma good_step_buffer:
  "length bs \<le> kReceiveBufferSize \<Longrightarrow> good_step s (s\<lparr>ReceiveBuffer := put 0 bs (ReceiveBuffer s)\<rparr>)"
  by (simp add: good_step_def wf_nlm_def delivers_def appended_refl length_put)

lemma good_step_new_vector:
  "good_step s (s\<lparr>message_handlers := map_set k (AppendPacket (length (response_vecs s))) (message_handlers s),
     response_vecs := response_vecs s @ [vs]\<rparr>)"
  by (auto simp: good_step_def wf_nlm_def delivers_def nth_append appended_refl less_Suc_eq split: if_splits)

lemma SendMessageInternal_good:
  "SendMessageInternal p fd dest s = Inr (ok, ps, s') \<Longrightarrow> good_step s s'"
  by (auto simp: SendMessageInternal_def intro!: good_step_frame split: list.splits if_splits)

lemma RegisterHandlerAndSendMessage_good:
  "RegisterHandlerAndSendMessage p f s = Inr (ok, s') \<Longrightarrow> good_step s s'"
  by (auto simp: RegisterHandlerAndSendMessage_def good_step_refl elim!: and_then_InrE split: if_splits)
    (erule SendMessageInternal_good, rule good_step_trans [OF SendMessageInternal_good good_step_register], assumption)

locale handler_contract =
  fixes run :: "hcall \<Rightarrow> 'a nlm_scheme \<Rightarrow> 'a nlm_scheme res"
  assumes run_good: "run c s = Inr s' \<Longrightarrow> good_step s s'"

sublocale handler_contract \<subseteq> handler_relation run good_step
proof
  show "good_step s s" for s :: "'a nlm_scheme" by (rule good_step_refl)
  show "good_step s s' \<Longrightarrow> good_step s' s'' \<Longrightarrow> good_step s s''" for s s' s'' :: "'a nlm_scheme"
    by (rule good_step_trans)
  show "run c s = Inr s' \<Longrightarrow> good_step s s'" for c s s' by (rule run_good)
  show "good_step s (s\<lparr>message_types := t\<rparr>)" for s :: "'a nlm_scheme" and t
    by (rule good_step_frame) simp_all
  show "good_step s (s\<lparr>sequence_number := n\<rparr>)" for s :: "'a nlm_scheme" and n
    by (rule good_step_frame) simp_all
  show "good_step s (s\<lparr>net_script := es\<rparr>)" for s :: "'a nlm_scheme" and es
    by (rule good_step_frame) simp_all
  show "good_step s (s\<lparr>sent_packets := ps\<rparr>)" for s :: "'a nlm_scheme" and ps
    by (rule good_step_frame) simp_all
qed (rule good_step_buffer good_step_erase good_step_append good_step_new_vector; assumption?)+

context handler_contract
begin

text \<open>The whole synchronous request, and what it puts into the caller's vector.\<close>

lemma SendMessageAndGetResponses_good:
  assumes "SendMessageAndGetResponses run p response s = Inr (ok, out, s')" "wf_nlm s"
  shows "wf_nlm s' \<and> delivers s s' \<and>
    (\<exists>ps. out = response @ ps \<and> (\<forall>q \<in> set ps. Packet_IsValid q = Inr True \<and>
       GetMessageSequence q = GetMessageSequence p))"
proof -
  obtain sent script s1 where send:
      "SendMessageInternal p (sync_netlink_fd s) (sync_netlink_destination s) s = Inr (sent, script, s1)"
    using assms(1) by (auto simp: SendMessageAndGetResponses_def elim!: and_then_InrE)
  then have s1: "wf_nlm s1" "delivers s s1"
    using SendMessageInternal_R [OF send] assms(2) by (simp_all add: good_step_def)
  show ?thesis
  proof (cases sent)
    case False
    with assms(1) send s1 show ?thesis by (simp add: SendMessageAndGetResponses_def)
  next
    case True
    let ?v = "length (response_vecs s1)"
    obtain k where k: "GetMessageSequence p = Inr k"
      using assms(1) send True by (auto simp: SendMessageAndGetResponses_def elim!: and_then_InrE)
    let ?s2 = "s1\<lparr>message_handlers := map_set k (AppendPacket ?v) (message_handlers s1),
      response_vecs := response_vecs s1 @ [response]\<rparr>"
    from assms(1) send True k obtain s3 where
      loop: "response_loop run k script 4000 ?s2 = Inr (ok, s3)" and out: "out = response_vecs s3 ! ?v" "s' = s3"
      by (auto simp: SendMessageAndGetResponses_def Let_def elim!: and_then_InrE)
    have s2: "wf_nlm ?s2" "delivers s1 ?s2"
      using good_step_new_vector [where s = s1 and k = k and vs = response] s1(1) by (simp_all add: good_step_def)
    have s3: "wf_nlm s3" "delivers ?s2 s3"
      using response_loop_R [OF loop] s2 by (auto simp: good_step_def)
    have "appended ?s2 ?v (response_vecs ?s2 ! ?v) (response_vecs s3 ! ?v)"
      by (rule delivers_appended [OF s3(2)]) simp
    then obtain ps where ps: "out = response @ ps"
      and from_k: "\<forall>q \<in> set ps. \<exists>j. map_find (message_handlers ?s2) j = Some (AppendPacket ?v) \<and> reply_to j q"
      using out by (auto simp: appended_def)
    have only: "j = k" if "map_find (message_handlers ?s2) j = Some (AppendPacket ?v)" for j
    proof (rule ccontr)
      assume "j \<noteq> k"
      with that have "map_find (message_handlers s1) j = Some (AppendPacket ?v)" by simp
      with s1(1) show False by (auto simp: wf_nlm_def)
    qed
    have "reply_to k q" if "q \<in> set ps" for q
      using from_k that only by blast
    then have "\<forall>q \<in> set ps. Packet_IsValid q = Inr True \<and> GetMessageSequence q = GetMessageSequence p"
      by (simp add: reply_to_def k)
    moreover have "delivers s s'"
      using s1(2) s2(2) s3(2) out(2) by (blast intro: delivers_trans)
    ultimately show ?thesis using s3(1) ps out(2) by blast
  qed
qed

end

section \<open>The handler of a finished request is gone\<close>

lemma response_loop_erases:
  "response_loop run k ps time s = Inr (ok, s') \<Longrightarrow> map_find (message_handlers s') k = None"
  by (induction ps arbitrary: time s)
    (auto simp: erase_handler_def split: if_splits poll_result.splits elim!: and_then_InrE)

lemma SendMessageAndGetResponses_erases:
  assumes "SendMessageAndGetResponses run p response s = Inr (ok, out, s')"
    and "GetMessageSequence p = Inr k" and "map_find (message_handlers s) k = None"
  shows "map_find (message_handlers s') k = None"
  using assms
  by (auto simp: SendMessageAndGetResponses_def SendMessageInternal_def Let_def elim!: and_then_InrE
      dest: response_loop_erases split: if_splits list.splits)

section \<open>Datagrams of whole messages\<close>

text \<open>
  A message is \<open>framed\<close> when its length field is its length and it passes \<open>IsValid\<close>. A
  datagram made of framed messages is taken apart into exactly these messages.
\<close>

definition framed :: "packet \<Rightarrow> bool" where
  "framed m \<longleftrightarrow> Packet_IsValid m = Inr True \<and> nlmsg_len m = length m"

lemma framed_length: "framed m \<Longrightarrow> 16 \<le> length m"
  using Packet_IsValid_True(1) by (simp add: framed_def)

text \<open>A message of a multipart reply to request \<open>k\<close>.\<close>

definition multi_reply :: "u32 \<Rightarrow> packet \<Rightarrow> bool" where
  "multi_reply k m \<longleftrightarrow> framed m \<and> GetMessageSequence m = Inr k \<and> IsMulti m = Inr True \<and>
     (\<exists>t. GetMessageType m = Inr t \<and> t \<noteq> NLMSG_NOOP \<and> t \<noteq> NLMSG_DONE \<and> t \<noteq> NLMSG_OVERRUN)"

definition single_reply :: "u32 \<Rightarrow> packet \<Rightarrow> bool" where
  "single_reply k m \<longleftrightarrow> framed m \<and> GetMessageSequence m = Inr k \<and> IsMulti m = Inr False \<and>
     (\<exists>t. GetMessageType m = Inr t \<and> t \<noteq> NLMSG_NOOP \<and> t \<noteq> NLMSG_DONE \<and> t \<noteq> NLMSG_OVERRUN)"

definition done_reply :: "u32 \<Rightarrow> packet \<Rightarrow> bool" where
  "done_reply k m \<longleftrightarrow> framed m \<and> GetMessageSequence m = Inr k \<and> GetMessageType m = Inr NLMSG_DONE"

text \<open>One iteration on a buffer that holds a framed message at the current position.\<close>

lemma receive_loop_framed:
  assumes "ReceiveBuffer s = pre @ m @ rest" and "framed m" and "length pre + length m \<le> len"
  shows "receive_loop run len (length pre) s =
    and_then (GetMessageSequence m) (\<lambda>sequence.
      if sequence = kBroadcastSequenceNumber then
        and_then (BroadcastHandler run m s) (receive_loop run len (length pre + length m))
      else case map_find (message_handlers s) sequence of
        None \<Rightarrow> Inr s
      | Some handler \<Rightarrow>
          and_then (GetMessageType m) (\<lambda>message_type.
            if message_type = NLMSG_DONE \<or> message_type = NLMSG_NOOP then
              Inr (erase_handler sequence s)
            else if message_type = NLMSG_OVERRUN then Inr (erase_handler sequence s)
            else and_then (IsMulti m) (\<lambda>is_multi.
              and_then (run_handler run handler m s) (\<lambda>s'.
                receive_loop run len (length pre + length m)
                  (if is_multi then s' else erase_handler sequence s')))))"
proof -
  have n: "field 4 (length pre) (ReceiveBuffer s) = length m"
    using assms(1,2) framed_length [OF assms(2)]
    by (simp add: framed_def nlmsg_len_def field_def)
  have p: "take (length m) (drop (length pre) (ReceiveBuffer s)) = m"
    using assms(1) by simp
  have b: "\<not> len \<le> length pre" "\<not> len < length pre + 16" "\<not> length (ReceiveBuffer s) < length pre + length m"
    using assms framed_length [OF assms(2)] by auto
  have v: "Packet_IsValid m = Inr True" using assms(2) by (simp add: framed_def)
  show ?thesis
    by (subst receive_loop.simps) (simp add: n p b v Let_def cong: if_cong option.case_cong)
qed

lemma receive_loop_end: "len \<le> ptr \<Longrightarrow> receive_loop run len ptr s = Inr s"
  by (subst receive_loop.simps) simp

definition append_response :: "nat \<Rightarrow> packet list \<Rightarrow> 'a nlm_scheme \<Rightarrow> 'a nlm_scheme" where
  "append_response v ps s = s\<lparr>response_vecs := (response_vecs s)[v := response_vecs s ! v @ ps]\<rparr>"

lemma append_response_simps [simp]:
  "message_handlers (append_response v ps s) = message_handlers s"
  "ReceiveBuffer (append_response v ps s) = ReceiveBuffer s"
  "length (response_vecs (append_response v ps s)) = length (response_vecs s)"
  "append_response v [] s = s"
  by (simp_all add: append_response_def)

lemma append_response_append:
  "v < length (response_vecs s) \<Longrightarrow>
     append_response v qs (append_response v ps s) = append_response v (ps @ qs) s"
  by (simp add: append_response_def)

lemma receive_loop_multi:
  assumes "ReceiveBuffer s = pre @ concat ms @ rest" "length pre + length (concat ms) \<le> len"
    and "\<forall>m \<in> set ms. multi_reply k m" "k \<noteq> 0"
    and "map_find (message_handlers s) k = Some (AppendPacket v)" "v < length (response_vecs s)"
  shows "receive_loop run len (length pre) s =
    receive_loop run len (length pre + length (concat ms)) (append_response v ms s)"
  using assms
proof (induction ms arbitrary: pre s)
  case Nil
  then show ?case by simp
next
  case (Cons m ms)
  let ?s = "append_response v [m] s"
  have m: "multi_reply k m" using Cons.prems(3) by simp
  have "receive_loop run len (length pre) s = receive_loop run len (length (pre @ m)) ?s"
    using Cons.prems m
    by (subst receive_loop_framed [of s pre m "concat ms @ rest"])
      (auto simp: multi_reply_def run_handler_def append_response_def)
  also have "\<dots> = receive_loop run len (length (pre @ m) + length (concat ms)) (append_response v ms ?s)"
    using Cons.prems by (intro Cons.IH) simp_all
  finally show ?case
    using Cons.prems by (simp add: append_response_append add.assoc)
qed

lemma receive_loop_done:
  assumes "ReceiveBuffer s = pre @ m @ rest" "length pre + length m \<le> len" "done_reply k m" "k \<noteq> 0"
    and "map_find (message_handlers s) k = Some h"
  shows "receive_loop run len (length pre) s = Inr (erase_handler k s)"
  using assms by (subst receive_loop_framed) (auto simp: done_reply_def)

lemma receive_loop_single:
  assumes "ReceiveBuffer s = pre @ m @ rest" "length pre + length m = len" "single_reply k m" "k \<noteq> 0"
    and "map_find (message_handlers s) k = Some (AppendPacket v)"
  shows "receive_loop run len (length pre) s = Inr (erase_handler k (append_response v [m] s))"
  using assms
  by (subst receive_loop_framed)
    (auto simp: single_reply_def run_handler_def append_response_def receive_loop_end)

section \<open>Complete requests\<close>

lemma put_front: "length bs \<le> length d \<Longrightarrow> put 0 bs d = bs @ drop (length bs) d"
  by (simp add: put_def)

text \<open>The state after a request for sequence number \<open>k\<close> that was answered.\<close>

definition request_done ::
    "packet \<Rightarrow> u32 \<Rightarrow> packet list \<Rightarrow> bytes \<Rightarrow> 'a nlm_scheme \<Rightarrow> 'a nlm_scheme" where
  "request_done p k out B s =
     s\<lparr>net_script := tl (net_script s),
       sent_packets := sent_packets s @ [(sync_netlink_fd s, sync_netlink_destination s, p)],
       message_handlers := map_erase k (map_set k (AppendPacket (length (response_vecs s))) (message_handlers s)),
       response_vecs := response_vecs s @ [out],
       ReceiveBuffer := B\<rparr>"

definition datagram :: "packet list \<times> nat \<Rightarrow> poll_result" where
  "datagram part = PollReady (ReadBytes (concat (fst part))) (snd part)"

definition datagram_fits :: "packet list \<times> nat \<Rightarrow> bool" where
  "datagram_fits part \<longleftrightarrow> length (concat (fst part)) \<le> kReceiveBufferSize"

abbreviation elapsed :: "(packet list \<times> nat) list \<Rightarrow> nat" where
  "elapsed parts \<equiv> sum_list (map snd parts)"

lemma receive_multi_datagram:
  assumes "length (ReceiveBuffer s) = 8192" "length (concat ms) \<le> 8192"
    and "\<forall>m \<in> set ms. multi_reply k m" "k \<noteq> 0"
    and "map_find (message_handlers s) k = Some (AppendPacket v)" "v < length (response_vecs s)"
  shows "\<exists>B. length B = 8192 \<and> ReceivePacketAndRunHandler run (ReadBytes (concat ms)) s =
    Inr (append_response v ms (s\<lparr>ReceiveBuffer := B\<rparr>))"
proof (cases "concat ms = []")
  case True
  then have "ms = []"
    using assms(3) framed_length by (cases ms) (fastforce simp: multi_reply_def)+
  then show ?thesis
    using assms(1) by (auto simp: ReceivePacketAndRunHandler_def intro!: exI [of _ "ReceiveBuffer s"])
next
  case False
  let ?B = "concat ms @ drop (length (concat ms)) (ReceiveBuffer s)"
  have "receive_loop run (length (concat ms)) 0 (s\<lparr>ReceiveBuffer := ?B\<rparr>) =
      Inr (append_response v ms (s\<lparr>ReceiveBuffer := ?B\<rparr>))"
    using receive_loop_multi [of "s\<lparr>ReceiveBuffer := ?B\<rparr>" "[]" ms "drop (length (concat ms)) (ReceiveBuffer s)"
        "length (concat ms)" k v run] assms
    by (simp add: receive_loop_end)
  with False assms show ?thesis
    by (intro exI [of _ ?B]) (auto simp: ReceivePacketAndRunHandler_def Let_def put_front)
qed

lemma receive_last_datagram:
  assumes "length (ReceiveBuffer s) = 8192" "length (concat ms @ d) \<le> 8192"
    and "\<forall>m \<in> set ms. multi_reply k m" "done_reply k d" "k \<noteq> 0"
    and "map_find (message_handlers s) k = Some (AppendPacket v)" "v < length (response_vecs s)"
  shows "\<exists>B. length B = 8192 \<and> ReceivePacketAndRunHandler run (ReadBytes (concat ms @ d)) s =
    Inr (erase_handler k (append_response v ms (s\<lparr>ReceiveBuffer := B\<rparr>)))"
proof -
  let ?r = "drop (length (concat ms @ d)) (ReceiveBuffer s)"
  let ?B = "concat ms @ d @ ?r"
  have d: "d \<noteq> []" using assms(4) framed_length [of d] by (auto simp: done_reply_def)
  have "receive_loop run (length (concat ms @ d)) 0 (s\<lparr>ReceiveBuffer := ?B\<rparr>) =
      receive_loop run (length (concat ms @ d)) (length (concat ms)) (append_response v ms (s\<lparr>ReceiveBuffer := ?B\<rparr>))"
    using receive_loop_multi [of "s\<lparr>ReceiveBuffer := ?B\<rparr>" "[]" ms "d @ ?r"
        "length (concat ms @ d)" k v run] assms
    by simp
  also have "\<dots> = Inr (erase_handler k (append_response v ms (s\<lparr>ReceiveBuffer := ?B\<rparr>)))"
    using assms by (intro receive_loop_done [of _ "concat ms" d ?r]) simp_all
  finally show ?thesis
    using d assms by (intro exI [of _ ?B]) (simp add: ReceivePacketAndRunHandler_def Let_def put_front)
qed

lemma receive_single_datagram:
  assumes "length (ReceiveBuffer s) = 8192" "length m \<le> 8192" "single_reply k m" "k \<noteq> 0"
    and "map_find (message_handlers s) k = Some (AppendPacket v)"
  shows "\<exists>B. length B = 8192 \<and> ReceivePacketAndRunHandler run (ReadBytes m) s =
    Inr (erase_handler k (append_response v [m] (s\<lparr>ReceiveBuffer := B\<rparr>)))"
proof -
  let ?B = "m @ drop (length m) (ReceiveBuffer s)"
  have m: "m \<noteq> []" using assms(3) framed_length [of m] by (auto simp: single_reply_def)
  have "receive_loop run (length m) 0 (s\<lparr>ReceiveBuffer := ?B\<rparr>) =
      Inr (erase_handler k (append_response v [m] (s\<lparr>ReceiveBuffer := ?B\<rparr>)))"
    using receive_loop_single [of "s\<lparr>ReceiveBuffer := ?B\<rparr>" "[]" m "drop (length m) (ReceiveBuffer s)"] assms
    by simp
  with m assms show ?thesis
    by (intro exI [of _ ?B]) (simp add: ReceivePacketAndRunHandler_def Let_def put_front)
qed

lemma response_loop_multi:
  assumes "\<forall>part \<in> set parts. datagram_fits part \<and> (\<forall>m \<in> set (fst part). multi_reply k m)"
    and "k \<noteq> 0" "length (ReceiveBuffer s) = 8192" "int (elapsed parts) < time"
    and "map_find (message_handlers s) k = Some (AppendPacket v)" "v < length (response_vecs s)"
  shows "\<exists>B. length B = 8192 \<and> response_loop run k (map datagram parts @ ps) time s =
    response_loop run k ps (time - int (elapsed parts))
      (append_response v (concat (map fst parts)) (s\<lparr>ReceiveBuffer := B\<rparr>))"
  using assms
proof (induction parts arbitrary: time s)
  case Nil
  then show ?case by (auto intro!: exI [of _ "ReceiveBuffer s"])
next
  case (Cons part parts)
  obtain B where B: "length B = 8192" "ReceivePacketAndRunHandler run (ReadBytes (concat (fst part))) s =
      Inr (append_response v (fst part) (s\<lparr>ReceiveBuffer := B\<rparr>))"
    using receive_multi_datagram [of s "fst part" k v run] Cons.prems by (auto simp: datagram_fits_def)
  let ?s = "append_response v (fst part) (s\<lparr>ReceiveBuffer := B\<rparr>)"
  obtain C where C: "length C = 8192"
      "response_loop run k (map datagram parts @ ps) (time - int (snd part)) ?s =
       response_loop run k ps (time - int (snd part) - int (elapsed parts))
         (append_response v (concat (map fst parts)) (?s\<lparr>ReceiveBuffer := C\<rparr>))"
    using Cons.IH [of ?s "time - int (snd part)"] Cons.prems B by auto
  have "append_response v (concat (map fst parts)) (?s\<lparr>ReceiveBuffer := C\<rparr>) =
      append_response v (concat (map fst (part # parts))) (s\<lparr>ReceiveBuffer := C\<rparr>)"
    using Cons.prems(6) by (simp add: append_response_def)
  with B C Cons.prems show ?case
    by (intro exI [of _ C]) (simp add: datagram_def [of part] algebra_simps)
qed

text \<open>The setting of a request: the kernel accepts it and \<open>ps\<close> is what follows.\<close>

definition will_answer :: "'a nlm_scheme \<Rightarrow> poll_result list \<Rightarrow> exchange list \<Rightarrow> bool" where
  "will_answer s ps rest \<longleftrightarrow> net_script s = \<lparr>send_ok = True, polls = ps\<rparr> # rest"

lemma SendMessageAndGetResponses_start:
  assumes "will_answer s ps rest" "GetMessageSequence p = Inr k"
  shows "SendMessageAndGetResponses run p response s =
    and_then
      (response_loop run k ps 4000
        (s\<lparr>net_script := rest,
           sent_packets := sent_packets s @ [(sync_netlink_fd s, sync_netlink_destination s, p)],
           message_handlers := map_set k (AppendPacket (length (response_vecs s))) (message_handlers s),
           response_vecs := response_vecs s @ [response]\<rparr>))
      (\<lambda>(ok, s2). Inr (ok, response_vecs s2 ! length (response_vecs s), s2))"
  using assms by (simp add: SendMessageAndGetResponses_def SendMessageInternal_def will_answer_def Let_def)

lemma SendMessageAndGetResponses_multipart:
  assumes "length (ReceiveBuffer s) = 8192" "GetMessageSequence p = Inr k" "k \<noteq> 0"
    and "will_answer s (map datagram parts @ [PollReady (ReadBytes (concat last_part @ d)) t]) rest"
    and "\<forall>part \<in> set parts. datagram_fits part \<and> (\<forall>m \<in> set (fst part). multi_reply k m)"
    and "length (concat last_part @ d) \<le> 8192" "\<forall>m \<in> set last_part. multi_reply k m" "done_reply k d"
    and "elapsed parts + t < 4000"
  shows "\<exists>B. length B = 8192 \<and> SendMessageAndGetResponses run p response s =
    Inr (True, response @ concat (map fst parts) @ last_part,
         request_done p k (response @ concat (map fst parts) @ last_part) B s)"
proof -
  let ?v = "length (response_vecs s)"
  let ?s = "s\<lparr>net_script := rest,
           sent_packets := sent_packets s @ [(sync_netlink_fd s, sync_netlink_destination s, p)],
           message_handlers := map_set k (AppendPacket ?v) (message_handlers s),
           response_vecs := response_vecs s @ [response]\<rparr>"
  let ?last = "[PollReady (ReadBytes (concat last_part @ d)) t]"
  obtain B where B: "length B = 8192" "response_loop run k (map datagram parts @ ?last) 4000 ?s =
      response_loop run k ?last (4000 - int (elapsed parts))
        (append_response ?v (concat (map fst parts)) (?s\<lparr>ReceiveBuffer := B\<rparr>))"
    using response_loop_multi [of parts k ?s 4000 ?v run ?last] assms by auto
  let ?t = "append_response ?v (concat (map fst parts)) (?s\<lparr>ReceiveBuffer := B\<rparr>)"
  obtain C where C: "length C = 8192" "ReceivePacketAndRunHandler run (ReadBytes (concat last_part @ d)) ?t =
      Inr (erase_handler k (append_response ?v last_part (?t\<lparr>ReceiveBuffer := C\<rparr>)))"
    using receive_last_datagram [of ?t last_part d k ?v run] B(1) assms by auto
  have "erase_handler k (append_response ?v last_part (?t\<lparr>ReceiveBuffer := C\<rparr>)) =
      request_done p k (response @ concat (map fst parts) @ last_part) C s"
    using assms(4)
    by (simp add: erase_handler_def append_response_def request_done_def will_answer_def list_update_append nth_append)
  with B C assms have "response_loop run k (map datagram parts @ ?last) 4000 ?s =
      Inr (True, request_done p k (response @ concat (map fst parts) @ last_part) C s)"
    by (simp add: request_done_def)
  with C show ?thesis
    by (intro exI [of _ C])
      (simp add: SendMessageAndGetResponses_start [OF assms(4,2)] request_done_def)
qed

lemma SendMessageAndGetResponses_single:
  assumes "length (ReceiveBuffer s) = 8192" "GetMessageSequence p = Inr k" "k \<noteq> 0"
    and "will_answer s (PollReady (ReadBytes m) t # ps) rest"
    and "single_reply k m" "length m \<le> 8192" "t < 4000"
  shows "\<exists>B. length B = 8192 \<and> SendMessageAndGetResponses run p response s =
    Inr (True, response @ [m], request_done p k (response @ [m]) B s)"
proof -
  let ?v = "length (response_vecs s)"
  let ?s = "s\<lparr>net_script := rest,
           sent_packets := sent_packets s @ [(sync_netlink_fd s, sync_netlink_destination s, p)],
           message_handlers := map_set k (AppendPacket ?v) (message_handlers s),
           response_vecs := response_vecs s @ [response]\<rparr>"
  obtain C where C: "length C = 8192" "ReceivePacketAndRunHandler run (ReadBytes m) ?s =
      Inr (erase_handler k (append_response ?v [m] (?s\<lparr>ReceiveBuffer := C\<rparr>)))"
    using receive_single_datagram [of ?s m k ?v run] assms by auto
  have "erase_handler k (append_response ?v [m] (?s\<lparr>ReceiveBuffer := C\<rparr>)) =
      request_done p k (response @ [m]) C s"
    using assms(4)
    by (simp add: erase_handler_def append_response_def request_done_def will_answer_def list_update_append nth_append)
  moreover have "response_loop run k ps time (request_done p k out C s) = Inr (True, request_done p k out C s)"
    if "0 < time" for time out
    using that by (cases ps) (simp_all add: request_done_def)
  ultimately have "response_loop run k (PollReady (ReadBytes m) t # ps) 4000 ?s =
      Inr (True, request_done p k (response @ [m]) C s)"
    using C assms by simp
  with C show ?thesis
    by (intro exI [of _ C])
      (simp add: SendMessageAndGetResponses_start [OF assms(4,2)] request_done_def)
qed

text \<open>A reply that takes the whole budget is dropped although it arrived.\<close>

lemma SendMessageAndGetResponses_late:
  assumes "length (ReceiveBuffer s) = 8192" "GetMessageSequence p = Inr k" "k \<noteq> 0"
    and "will_answer s (PollReady (ReadBytes m) t # ps) rest"
    and "single_reply k m" "length m \<le> 8192" "4000 \<le> t"
  shows "\<exists>s'. SendMessageAndGetResponses run p response s = Inr (False, response @ [m], s')"
proof -
  let ?v = "length (response_vecs s)"
  let ?s = "s\<lparr>net_script := rest,
           sent_packets := sent_packets s @ [(sync_netlink_fd s, sync_netlink_destination s, p)],
           message_handlers := map_set k (AppendPacket ?v) (message_handlers s),
           response_vecs := response_vecs s @ [response]\<rparr>"
  obtain C where C: "length C = 8192" "ReceivePacketAndRunHandler run (ReadBytes m) ?s =
      Inr (erase_handler k (append_response ?v [m] (?s\<lparr>ReceiveBuffer := C\<rparr>)))"
    using receive_single_datagram [of ?s m k ?v run] assms by auto
  have "response_loop run k ps time s' = Inr (False, erase_handler k s')" if "time \<le> 0" for time and s' :: "'a nlm_scheme"
    using that by (cases ps) simp_all
  then have "response_loop run k (PollReady (ReadBytes m) t # ps) 4000 ?s =
      Inr (False, erase_handler k (erase_handler k (append_response ?v [m] (?s\<lparr>ReceiveBuffer := C\<rparr>))))"
    using C assms by simp
  then show ?thesis
    by (simp add: SendMessageAndGetResponses_start [OF assms(4,2)] erase_handler_def append_response_def)
qed

section \<open>The wrappers for single responses\<close>

lemma SingleResponseOrError_single:
  assumes "length (ReceiveBuffer s) = 8192" "GetMessageSequence p = Inr k" "k \<noteq> 0"
    and "will_answer s (PollReady (ReadBytes m) t # ps) rest"
    and "single_reply k m" "length m \<le> 8192" "t < 4000"
  shows "\<exists>B. length B = 8192 \<and> SendMessageAndGetSingleResponseOrError run p s =
    Inr (Some m, request_done p k [m] B s)"
  using SendMessageAndGetResponses_single [OF assms, of run "[]"]
  by (auto simp: SendMessageAndGetSingleResponseOrError_def)

lemma SingleResponse_single:
  assumes "length (ReceiveBuffer s) = 8192" "GetMessageSequence p = Inr k" "k \<noteq> 0"
    and "will_answer s (PollReady (ReadBytes m) t # ps) rest"
    and "single_reply k m" "length m \<le> 8192" "t < 4000"
  shows "\<exists>B. length B = 8192 \<and> SendMessageAndGetSingleResponse run p s =
    Inr (if GetMessageType m = Inr NLMSG_ERROR then None else Some m, request_done p k [m] B s)"
proof -
  have v: "Packet_IsValid m = Inr True" using assms(5) by (simp add: single_reply_def framed_def)
  obtain B where "length B = 8192"
      "SendMessageAndGetSingleResponseOrError run p s = Inr (Some m, request_done p k [m] B s)"
    using SingleResponseOrError_single [OF assms, of run] by blast
  then show ?thesis
    using valid_getters_return(1,6) [OF v]
    by (intro exI [of _ B]) (auto simp: SendMessageAndGetSingleResponse_def returns_def)
qed

lemma AckOrError_single:
  assumes "length (ReceiveBuffer s) = 8192" "GetMessageSequence p = Inr k" "k \<noteq> 0"
    and "will_answer s (PollReady (ReadBytes m) t # ps) rest"
    and "single_reply k m" "length m \<le> 8192" "t < 4000"
    and "GetMessageType m = Inr NLMSG_ERROR" "GetErrorCode m = Inr code"
  shows "\<exists>B. length B = 8192 \<and> SendMessageAndGetAckOrError run p s =
      Inr (Some code, request_done p k [m] B s)"
    and "\<exists>B. length B = 8192 \<and> SendMessageAndGetAck run p s =
      Inr (code = 0, request_done p k [m] B s)"
  using SingleResponseOrError_single [OF assms(1-7), of run] assms(8,9)
  by (auto simp: SendMessageAndGetAckOrError_def SendMessageAndGetAck_def)

end
