(* ===== verification/Netlink_Utils.thy ===== *)
theory Netlink_Utils
  imports Wiphy_Info Netlink_Requests
begin

text \<open>
  \<open>net/netlink_utils.{h,cpp}\<close>: the requests to the nl80211 family. The state adds the member
  \<open>supports_split_wiphy_dump_\<close> and what \<open>if_nametoindex\<close> answers. The subscriptions the interfaces and
  the server make go through here: each function only calls the one of the same name of
  \<open>NetlinkManager\<close>, so the simplifier unfolds it.

  Every request is built the same way: \<open>new_request\<close> is the four constructor arguments
  \<open>GetFamilyId()\<close>, the command, \<open>GetSequenceNumber()\<close>, \<open>getpid()\<close>.
\<close>

record nlu = nlm +
  supports_split_wiphy_dump :: bool
  name_to_index :: "bytes \<Rightarrow> u32"

definition new_request :: "nat \<Rightarrow> 'a nlm_scheme \<Rightarrow> (packet \<times> 'a nlm_scheme) res" where
  "new_request command s =
     and_then (GetFamilyId s) (\<lambda>(family, s1).
       let (sequence, s2) = GetSequenceNumber s1
       in Inr (NL80211Packet family command sequence (own_pid s2), s2))"

definition u32_attribute :: "nat \<Rightarrow> u32 \<Rightarrow> attr" where
  "u32_attribute attr_id value = make_attr word_class attr_id value"

definition kNl80211CmdRetryCount :: nat where
  [simp]: "kNl80211CmdRetryCount = 1"

text \<open>
  The retry loop \<open>for (int i = kNl80211CmdRetryCount; i >= 0; i--)\<close>: the same packet is sent
  again, and the replies are appended to the same vector.
\<close>

fun send_with_retry ::
    "(hcall \<Rightarrow> 'a nlm_scheme \<Rightarrow> 'a nlm_scheme res) \<Rightarrow> nat \<Rightarrow> packet \<Rightarrow> packet list \<Rightarrow>
     'a nlm_scheme \<Rightarrow> (bool \<times> packet list \<times> 'a nlm_scheme) res" where
  "send_with_retry run i packet response s =
     and_then (SendMessageAndGetResponses run packet response s) (\<lambda>(ok, response1, s1).
       if ok then Inr (True, response1, s1)
       else case i of
         0 \<Rightarrow> Inr (False, response1, s1)
       | Suc j \<Rightarrow> send_with_retry run j packet response1 s1)"

declare send_with_retry.simps [simp del]

text \<open>The checks both dump loops make on a reply: no error, our family, the right command.\<close>

definition dump_reply_ok :: "nat \<Rightarrow> packet \<Rightarrow> 'a nlm_scheme \<Rightarrow> (bool \<times> 'a nlm_scheme) res" where
  "dump_reply_ok command packet s =
     and_then (GetMessageType packet) (\<lambda>message_type.
       if message_type = NLMSG_ERROR then and_then (GetErrorCode packet) (\<lambda>_. Inr (False, s))
       else and_then (GetFamilyId s) (\<lambda>(family, s1).
         if message_type \<noteq> unat family then Inr (False, s1)
         else and_then (GetCommand packet) (\<lambda>c. Inr (c = command, s1))))"

text \<open>
  The loop of \<open>GetWiphyIndex\<close>: every reply must be valid, the last one gives the index. The
  callers do not read the out parameter after a failure.
\<close>

primrec wiphy_index_loop ::
    "packet list \<Rightarrow> u32 option \<Rightarrow> 'a nlm_scheme \<Rightarrow> (u32 option \<times> 'a nlm_scheme) res" where
  "wiphy_index_loop [] out s = Inr (out, s)"
| "wiphy_index_loop (packet # packets) out s =
     and_then (dump_reply_ok NL80211_CMD_NEW_WIPHY packet s) (\<lambda>(ok, s1).
       if \<not> ok then Inr (None, s1)
       else if_value (Packet_GetAttributeValue word_class packet NL80211_ATTR_WIPHY) (Inr (None, s1)) (\<lambda>w.
         wiphy_index_loop packets (Some w) s1))"

definition c_str :: "bytes \<Rightarrow> bytes" where
  "c_str s = takeWhile (\<lambda>b. b \<noteq> 0) s"

definition GetWiphyIndex ::
    "(hcall \<Rightarrow> 'a nlu_scheme \<Rightarrow> 'a nlu_scheme res) \<Rightarrow> bytes \<Rightarrow> 'a nlu_scheme \<Rightarrow>
     (u32 option \<times> 'a nlu_scheme) res" where
  "GetWiphyIndex run iface_name s =
     and_then (new_request NL80211_CMD_GET_WIPHY s) (\<lambda>(get_wiphy, s1).
       let get_wiphy = AddFlag NLM_F_DUMP get_wiphy;
           ifindex = name_to_index s1 (c_str iface_name)
       in if iface_name \<noteq> [] \<and> ifindex = 0 then Inr (None, s1)
          else
            let get_wiphy = (if iface_name = [] then get_wiphy
                             else Packet_AddAttribute (u32_attribute NL80211_ATTR_IFINDEX ifindex) get_wiphy)
            in and_then (send_with_retry run kNl80211CmdRetryCount get_wiphy [] s1) (\<lambda>(ok, response, s2).
                 if \<not> ok then Inr (None, s2)
                 else if response = [] then Inr (None, s2)
                 else wiphy_index_loop response None s2))"

record interface_info =
  info_if_index :: u32
  info_wiphy_index :: u32
  info_name :: bytes
  info_mac_address :: bytes

primrec interfaces_loop ::
    "u32 \<Rightarrow> packet list \<Rightarrow> interface_info list \<Rightarrow> 'a nlm_scheme \<Rightarrow>
     (bool \<times> interface_info list \<times> 'a nlm_scheme) res" where
  "interfaces_loop wiphy_index [] out s = Inr (True, out, s)"
| "interfaces_loop wiphy_index (packet # packets) out s =
     and_then (dump_reply_ok NL80211_CMD_NEW_INTERFACE packet s) (\<lambda>(ok, s1).
       if \<not> ok then Inr (False, out, s1)
       else
         if_value (Packet_GetAttributeValue word_class packet NL80211_ATTR_IFINDEX)
           (interfaces_loop wiphy_index packets out s1) (\<lambda>if_index.
         if_value (Packet_GetAttributeValue string_class packet NL80211_ATTR_IFNAME)
           (interfaces_loop wiphy_index packets out s1) (\<lambda>if_name.
         if_value (Packet_GetAttributeValue mac_class packet NL80211_ATTR_MAC)
           (interfaces_loop wiphy_index packets out s1) (\<lambda>if_mac_addr.
             interfaces_loop wiphy_index packets
               (out @ [\<lparr>info_if_index = if_index, info_wiphy_index = wiphy_index,
                        info_name = if_name, info_mac_address = if_mac_addr\<rparr>]) s1))))"

definition GetInterfaces ::
    "(hcall \<Rightarrow> 'a nlm_scheme \<Rightarrow> 'a nlm_scheme res) \<Rightarrow> u32 \<Rightarrow> interface_info list \<Rightarrow> 'a nlm_scheme \<Rightarrow>
     (bool \<times> interface_info list \<times> 'a nlm_scheme) res" where
  "GetInterfaces run wiphy_index interface_info s =
     and_then (new_request NL80211_CMD_GET_INTERFACE s) (\<lambda>(get_interfaces, s1).
       let get_interfaces = Packet_AddAttribute (u32_attribute NL80211_ATTR_WIPHY wiphy_index)
                              (AddFlag NLM_F_DUMP get_interfaces)
       in and_then (SendMessageAndGetResponses run get_interfaces [] s1) (\<lambda>(ok, response, s2).
            if \<not> ok then Inr (False, interface_info, s2)
            else if response = [] then Inr (False, interface_info, s2)
            else interfaces_loop wiphy_index response interface_info s2))"

text \<open>\<open>InterfaceMode\<close> has one enumerator, so the branch for another mode is unreachable.\<close>

datatype InterfaceMode = STATION_MODE

definition SetInterfaceMode ::
    "(hcall \<Rightarrow> 'a nlm_scheme \<Rightarrow> 'a nlm_scheme res) \<Rightarrow> u32 \<Rightarrow> InterfaceMode \<Rightarrow> 'a nlm_scheme \<Rightarrow>
     (bool \<times> 'a nlm_scheme) res" where
  "SetInterfaceMode run interface_index mode s =
     (let set_to_mode = (case mode of STATION_MODE \<Rightarrow> NL80211_IFTYPE_STATION) in
      and_then (new_request NL80211_CMD_SET_INTERFACE s) (\<lambda>(set_interface_mode, s1).
        SendMessageAndGetAck run
          (Packet_AddAttribute (u32_attribute NL80211_ATTR_IFTYPE (of_nat set_to_mode))
            (Packet_AddAttribute (u32_attribute NL80211_ATTR_IFINDEX interface_index)
              (AddFlag NLM_F_ACK set_interface_mode))) s1))"

definition GetProtocolFeatures ::
    "(hcall \<Rightarrow> 'a nlm_scheme \<Rightarrow> 'a nlm_scheme res) \<Rightarrow> 'a nlm_scheme \<Rightarrow> (u32 option \<times> 'a nlm_scheme) res" where
  "GetProtocolFeatures run s =
     and_then (new_request NL80211_CMD_GET_PROTOCOL_FEATURES s) (\<lambda>(get_protocol_features, s1).
     and_then (SendMessageAndGetSingleResponse run get_protocol_features s1) (\<lambda>(r, s2).
       case r of
         None \<Rightarrow> Inr (None, s2)
       | Some response \<Rightarrow>
           and_then (Packet_GetAttributeValue word_class response NL80211_ATTR_PROTOCOL_FEATURES) (\<lambda>features.
             Inr (features, s2))))"

text \<open>The constructor of \<open>NetlinkUtils\<close> starts the manager and asks for split dumps.\<close>

definition NetlinkUtils ::
    "(hcall \<Rightarrow> 'a nlu_scheme \<Rightarrow> 'a nlu_scheme res) \<Rightarrow> socket_env \<Rightarrow> socket_env \<Rightarrow> bool \<Rightarrow>
     (u32 \<Rightarrow> bool) \<Rightarrow> 'a nlu_scheme \<Rightarrow> 'a nlu_scheme res" where
  "NetlinkUtils run sync_env async_env watch_ok member_ok s =
     and_then (if IsStarted s then Inr s
               else and_then (Start run sync_env async_env watch_ok member_ok s) (\<lambda>(_, s1). Inr s1)) (\<lambda>s1.
     and_then (GetProtocolFeatures run s1) (\<lambda>(features, s2).
       Inr (s2\<lparr>supports_split_wiphy_dump :=
              (case features of None \<Rightarrow> False
               | Some f \<Rightarrow> f AND NL80211_PROTOCOL_FEATURE_SPLIT_WIPHY_DUMP \<noteq> 0)\<rparr>)))"

primrec wiphy_info_loop ::
    "u32 \<Rightarrow> packet list \<Rightarrow> wiphy_info \<Rightarrow> (bool \<times> wiphy_info) res" where
  "wiphy_info_loop wiphy_index [] out = Inr (False, out)"
| "wiphy_info_loop wiphy_index (packet # packets) out =
     if_value (Packet_GetAttributeValue word_class packet NL80211_ATTR_WIPHY)
       (wiphy_info_loop wiphy_index packets out) (\<lambda>current_wiphy_index.
         if current_wiphy_index \<noteq> wiphy_index then wiphy_info_loop wiphy_index packets out
         else and_then (ParseWiphyInfoFromPacket packet out) (\<lambda>(ok, out1).
           if ok then Inr (True, out1) else wiphy_info_loop wiphy_index packets out1))"

definition GetWiphyInfo ::
    "(hcall \<Rightarrow> 'a nlu_scheme \<Rightarrow> 'a nlu_scheme res) \<Rightarrow> u32 \<Rightarrow> wiphy_info \<Rightarrow> 'a nlu_scheme \<Rightarrow>
     (bool \<times> wiphy_info \<times> 'a nlu_scheme) res" where
  "GetWiphyInfo run wiphy_index out s =
     and_then (new_request NL80211_CMD_GET_WIPHY s) (\<lambda>(get_wiphy, s1).
       let get_wiphy = Packet_AddAttribute (u32_attribute NL80211_ATTR_WIPHY wiphy_index) get_wiphy;
           get_wiphy = (if supports_split_wiphy_dump s1
                        then AddFlag NLM_F_DUMP (Packet_AddFlagAttribute NL80211_ATTR_SPLIT_WIPHY_DUMP get_wiphy)
                        else get_wiphy)
       in and_then (send_with_retry run kNl80211CmdRetryCount get_wiphy [] s1) (\<lambda>(ok, response, s2).
            if \<not> ok then Inr (False, out, s2)
            else and_then
                   (if supports_split_wiphy_dump s2
                    then and_then (MergePacketsForSplitWiphyDump response) (\<lambda>(_, merged). Inr merged)
                    else Inr response) (\<lambda>packet_per_wiphy.
                 and_then (wiphy_info_loop wiphy_index packet_per_wiphy out) (\<lambda>(ok, out1). Inr (ok, out1, s2)))))"

text \<open>The first four fields are stored from and into 32- and 8-bit integers unchanged.\<close>

record station_info =
  station_tx_packets :: u32
  station_tx_failed :: u32
  station_tx_bitrate :: u32
  current_rssi :: u8
  station_rx_bitrate :: u32

definition bitrate_of :: "attr \<Rightarrow> nat \<Rightarrow> u32 res" where
  "bitrate_of sta_info attr_id =
     if_value (GetNestedAttribute sta_info attr_id) (Inr 0) (\<lambda>bitrate_attr.
       if_value (GetAttributeValue word_class bitrate_attr NL80211_RATE_INFO_BITRATE32) (Inr 0) Inr)"

definition parse_station_info :: "packet \<Rightarrow> station_info option res" where
  "parse_station_info response =
     and_then (GetCommand response) (\<lambda>command.
       if command \<noteq> NL80211_CMD_NEW_STATION then Inr None
       else
         if_value (Packet_GetAttribute response NL80211_ATTR_STA_INFO) (Inr None) (\<lambda>sta_info.
         if_value (GetAttributeValue word_class sta_info NL80211_STA_INFO_TX_PACKETS) (Inr None) (\<lambda>tx_good.
         if_value (GetAttributeValue word_class sta_info NL80211_STA_INFO_TX_FAILED) (Inr None) (\<lambda>tx_bad.
         if_value (GetAttributeValue word_class sta_info NL80211_STA_INFO_SIGNAL) (Inr None) (\<lambda>rssi.
         and_then (bitrate_of sta_info NL80211_STA_INFO_TX_BITRATE) (\<lambda>tx_bitrate.
         and_then (bitrate_of sta_info NL80211_STA_INFO_RX_BITRATE) (\<lambda>rx_bitrate.
           Inr (Some \<lparr>station_tx_packets = tx_good, station_tx_failed = tx_bad,
                      station_tx_bitrate = tx_bitrate, current_rssi = rssi,
                      station_rx_bitrate = rx_bitrate\<rparr>))))))))"

definition GetStationInfo ::
    "(hcall \<Rightarrow> 'a nlm_scheme \<Rightarrow> 'a nlm_scheme res) \<Rightarrow> u32 \<Rightarrow> bytes \<Rightarrow> 'a nlm_scheme \<Rightarrow>
     (station_info option \<times> 'a nlm_scheme) res" where
  "GetStationInfo run interface_index mac_address s =
     and_then (new_request NL80211_CMD_GET_STATION s) (\<lambda>(get_station, s1).
       let get_station = Packet_AddAttribute (make_attr mac_class NL80211_ATTR_MAC mac_address)
                           (Packet_AddAttribute (u32_attribute NL80211_ATTR_IFINDEX interface_index) get_station)
       in and_then (SendMessageAndGetSingleResponse run get_station s1) (\<lambda>(r, s2).
            case r of
              None \<Rightarrow> Inr (None, s2)
            | Some response \<Rightarrow> and_then (parse_station_info response) (\<lambda>info. Inr (info, s2))))"

definition GetCountryCode ::
    "(hcall \<Rightarrow> 'a nlm_scheme \<Rightarrow> 'a nlm_scheme res) \<Rightarrow> 'a nlm_scheme \<Rightarrow> (bytes option \<times> 'a nlm_scheme) res" where
  "GetCountryCode run s =
     and_then (new_request NL80211_CMD_GET_REG s) (\<lambda>(get_country_code, s1).
     and_then (SendMessageAndGetSingleResponse run get_country_code s1) (\<lambda>(r, s2).
       case r of
         None \<Rightarrow> Inr (None, s2)
       | Some response \<Rightarrow>
           and_then (Packet_GetAttributeValue string_class response NL80211_ATTR_REG_ALPHA2) (\<lambda>code.
             Inr (code, s2))))"

text \<open>\<open>mcs\<close> is not used: the code has only a comment for \<open>mcs >= 0\<close>.\<close>

definition NetlinkUtils_SendMgmtFrame ::
    "(hcall \<Rightarrow> 'a nlm_scheme \<Rightarrow> 'a nlm_scheme res) \<Rightarrow> u32 \<Rightarrow> bytes \<Rightarrow> int \<Rightarrow> 'a nlm_scheme \<Rightarrow>
     (u64 option \<times> 'a nlm_scheme) res" where
  "NetlinkUtils_SendMgmtFrame run interface_index frame mcs s =
     and_then (new_request NL80211_CMD_FRAME s) (\<lambda>(send_mgmt_frame, s1).
       let send_mgmt_frame = Packet_AddAttribute (make_attr vector_class NL80211_ATTR_FRAME frame)
                               (Packet_AddAttribute (u32_attribute NL80211_ATTR_IFINDEX interface_index) send_mgmt_frame)
       in and_then (SendMessageAndGetSingleResponse run send_mgmt_frame s1) (\<lambda>(r, s2).
            case r of
              None \<Rightarrow> Inr (None, s2)
            | Some response \<Rightarrow>
                and_then (Packet_GetAttributeValue word_class response NL80211_ATTR_COOKIE) (\<lambda>cookie.
                  Inr (cookie, s2))))"

section \<open>Subscriptions\<close>

definition NetlinkUtils_SubscribeMlmeEvent :: "u32 \<Rightarrow> hid \<Rightarrow> 'a nlm_scheme \<Rightarrow> 'a nlm_scheme" where
  [simp]: "NetlinkUtils_SubscribeMlmeEvent interface_index handler s = SubscribeMlmeEvent interface_index handler s"

definition NetlinkUtils_UnsubscribeMlmeEvent :: "u32 \<Rightarrow> 'a nlm_scheme \<Rightarrow> 'a nlm_scheme" where
  [simp]: "NetlinkUtils_UnsubscribeMlmeEvent interface_index s = UnsubscribeMlmeEvent interface_index s"

definition NetlinkUtils_SubscribeRegDomainChange :: "u32 \<Rightarrow> hid \<Rightarrow> 'a nlm_scheme \<Rightarrow> 'a nlm_scheme" where
  [simp]: "NetlinkUtils_SubscribeRegDomainChange wiphy_index handler s = SubscribeRegDomainChange wiphy_index handler s"

definition NetlinkUtils_UnsubscribeRegDomainChange :: "u32 \<Rightarrow> 'a nlm_scheme \<Rightarrow> 'a nlm_scheme" where
  [simp]: "NetlinkUtils_UnsubscribeRegDomainChange wiphy_index s = UnsubscribeRegDomainChange wiphy_index s"

definition NetlinkUtils_SubscribeStationEvent :: "u32 \<Rightarrow> hid \<Rightarrow> 'a nlm_scheme \<Rightarrow> 'a nlm_scheme" where
  [simp]: "NetlinkUtils_SubscribeStationEvent interface_index handler s = SubscribeStationEvent interface_index handler s"

definition NetlinkUtils_UnsubscribeStationEvent :: "u32 \<Rightarrow> 'a nlm_scheme \<Rightarrow> 'a nlm_scheme" where
  [simp]: "NetlinkUtils_UnsubscribeStationEvent interface_index s = UnsubscribeStationEvent interface_index s"

definition NetlinkUtils_SubscribeChannelSwitchEvent :: "u32 \<Rightarrow> hid \<Rightarrow> 'a nlm_scheme \<Rightarrow> 'a nlm_scheme" where
  [simp]: "NetlinkUtils_SubscribeChannelSwitchEvent interface_index handler s = SubscribeChannelSwitchEvent interface_index handler s"

definition NetlinkUtils_UnsubscribeChannelSwitchEvent :: "u32 \<Rightarrow> 'a nlm_scheme \<Rightarrow> 'a nlm_scheme" where
  [simp]: "NetlinkUtils_UnsubscribeChannelSwitchEvent interface_index s = UnsubscribeChannelSwitchEvent interface_index s"

definition NetlinkUtils_SubscribeFrameTxStatusEvent :: "u32 \<Rightarrow> hid \<Rightarrow> 'a nlm_scheme \<Rightarrow> 'a nlm_scheme" where
  [simp]: "NetlinkUtils_SubscribeFrameTxStatusEvent interface_index handler s = SubscribeFrameTxStatusEvent interface_index handler s"

definition NetlinkUtils_UnsubscribeFrameTxStatusEvent :: "u32 \<Rightarrow> 'a nlm_scheme \<Rightarrow> 'a nlm_scheme" where
  [simp]: "NetlinkUtils_UnsubscribeFrameTxStatusEvent interface_index s = UnsubscribeFrameTxStatusEvent interface_index s"

lemmas forwarded =
  NetlinkUtils_SubscribeMlmeEvent_def NetlinkUtils_UnsubscribeMlmeEvent_def
  NetlinkUtils_SubscribeRegDomainChange_def NetlinkUtils_UnsubscribeRegDomainChange_def
  NetlinkUtils_SubscribeStationEvent_def NetlinkUtils_UnsubscribeStationEvent_def
  NetlinkUtils_SubscribeChannelSwitchEvent_def NetlinkUtils_UnsubscribeChannelSwitchEvent_def
  NetlinkUtils_SubscribeFrameTxStatusEvent_def NetlinkUtils_UnsubscribeFrameTxStatusEvent_def

end
