(* ===== verification/Scan_Utils.thy ===== *)
theory Scan_Utils
  imports Netlink_Utils
begin

text \<open>
  \<open>scanning/scan_utils.{h,cpp}\<close>: scan requests and the parsing of scan results. The state
  adds \<open>fresh_scan_result\<close>, the contents of the local \<open>NativeScanResult\<close> before the parser
  writes to it: its constructor is defaulted and leaves the scalar members indeterminate.
\<close>

section \<open>Scan results\<close>

record radio_chain_info =
  chain_id :: u32
  chain_level :: u32

record native_scan_result =
  scan_ssid :: bytes
  scan_bssid :: bytes
  scan_info_element :: bytes
  scan_frequency :: u32
  scan_signal_mbm :: u32
  scan_tsf :: u64
  scan_capability :: u16
  scan_associated :: bool
  scan_chain_infos :: "radio_chain_info list"

record scu = nlu +
  fresh_scan_result :: native_scan_result

text \<open>The constructor: as that of \<open>NetlinkUtils\<close>, it starts a manager that is not started yet.\<close>

definition ScanUtils ::
    "(hcall \<Rightarrow> 'a nlm_scheme \<Rightarrow> 'a nlm_scheme res) \<Rightarrow> socket_env \<Rightarrow> socket_env \<Rightarrow> bool \<Rightarrow>
     (u32 \<Rightarrow> bool) \<Rightarrow> 'a nlm_scheme \<Rightarrow> 'a nlm_scheme res" where
  "ScanUtils run sync_env async_env watch_ok member_ok s =
     (if \<not> IsStarted s
      then and_then (Start run sync_env async_env watch_ok member_ok s) (\<lambda>(_, s1). Inr s1)
      else Inr s)"

definition kElemIdSsid :: u8 where
  [simp]: "kElemIdSsid = 0"

definition kMsecPerSec :: u32 where
  [simp]: "kMsecPerSec = 1000"

text \<open>
  \<open>GetSSIDFromInfoElement\<close>: the argument is the rest of the information elements from the
  current pointer on. \<open>None\<close> is the return value false.
\<close>

function GetSSIDFromInfoElement :: "bytes \<Rightarrow> bytes option" where
  "GetSSIDFromInfoElement ie =
     (if length ie \<le> 1 then None
      else
        let type = ie ! 0; len = unat (ie ! 1)
        in if length ie \<le> 1 + len then None
           else if type = kElemIdSsid then Some (take len (drop 2 ie))
           else GetSSIDFromInfoElement (drop (2 + len) ie))"
  by pat_completeness auto
termination
  by (relation "measure length") auto

declare GetSSIDFromInfoElement.simps [simp del]

definition GetBssTimestamp :: "attr \<Rightarrow> u64 option res" where
  "GetBssTimestamp bss =
     if_value (GetAttributeValue word_class bss NL80211_BSS_LAST_SEEN_BOOTTIME)
       (if_value (GetAttributeValue word_class bss NL80211_BSS_TSF) (Inr None) (\<lambda>tsf_us.
        if_value (GetAttributeValue word_class bss NL80211_BSS_BEACON_TSF) (Inr (Some tsf_us)) (\<lambda>beacon_tsf_us.
          Inr (Some (max tsf_us beacon_tsf_us)))))
       (\<lambda>last_seen_ns. Inr (Some (last_seen_ns div 1000)))"

text \<open>Chain identifiers are 16-bit attribute types, levels are signed bytes widened to \<open>int\<close>.\<close>

primrec chain_infos_loop :: "attr list \<Rightarrow> radio_chain_info list res" where
  "chain_infos_loop [] = Inr []"
| "chain_infos_loop (attr # attrs) =
     and_then (GetAttributeId attr) (\<lambda>i.
     and_then (get_value (word_class :: u8 attr_class) attr) (\<lambda>v.
     and_then (chain_infos_loop attrs) (\<lambda>infos.
       Inr (\<lparr>chain_id = of_nat i, chain_level = scast v\<rparr> # infos))))"

definition ParseRadioChainInfos :: "attr \<Rightarrow> radio_chain_info list res" where
  "ParseRadioChainInfos bss =
     if_value (GetNestedAttribute bss NL80211_BSS_CHAIN_SIGNAL) (Inr []) (\<lambda>infos_attr.
       case GetListOfAttributes (word_class :: u8 attr_class) infos_attr of
         None \<Rightarrow> Inr []
       | Some attrs \<Rightarrow> chain_infos_loop attrs)"

definition parse_bss :: "attr \<Rightarrow> native_scan_result option res" where
  "parse_bss bss =
     if_value (GetAttributeValue mac_class bss NL80211_BSS_BSSID) (Inr None) (\<lambda>bssid.
     if_value (GetAttributeValue word_class bss NL80211_BSS_FREQUENCY) (Inr None) (\<lambda>freq.
     if_value (GetAttributeValue vector_class bss NL80211_BSS_INFORMATION_ELEMENTS) (Inr None) (\<lambda>ie.
     if_value (Inr (GetSSIDFromInfoElement ie)) (Inr None) (\<lambda>ssid.
     if_value (GetBssTimestamp bss) (Inr None) (\<lambda>last_seen_us.
     if_value (GetAttributeValue word_class bss NL80211_BSS_SIGNAL_MBM) (Inr None) (\<lambda>signal.
     if_value (GetAttributeValue word_class bss NL80211_BSS_CAPABILITY) (Inr None) (\<lambda>cap.
     and_then (GetAttributeValue (word_class :: u32 attr_class) bss NL80211_BSS_STATUS) (\<lambda>bss_status.
     and_then (ParseRadioChainInfos bss) (\<lambda>infos.
       Inr (Some
         \<lparr>scan_ssid = ssid, scan_bssid = bssid, scan_info_element = ie, scan_frequency = freq,
          scan_signal_mbm = signal, scan_tsf = last_seen_us, scan_capability = cap,
          scan_associated = (case bss_status of
              None \<Rightarrow> False
            | Some st \<Rightarrow> unat st = NL80211_BSS_STATUS_AUTHENTICATED \<or>
                        unat st = NL80211_BSS_STATUS_ASSOCIATED),
          scan_chain_infos = infos\<rparr>))))))))))"

text \<open>
  \<open>ParseScanResult\<close>: without \<open>NL80211_ATTR_BSS\<close> it returns true and leaves the object as it
  was; \<open>scan_result\<close> is its contents before.
\<close>

definition ParseScanResult :: "packet \<Rightarrow> native_scan_result \<Rightarrow> native_scan_result option res" where
  "ParseScanResult packet scan_result =
     and_then (GetCommand packet) (\<lambda>command.
       if command \<noteq> NL80211_CMD_NEW_SCAN_RESULTS then Inr None
       else if_value (Packet_GetAttribute packet NL80211_ATTR_BSS) (Inr (Some scan_result)) parse_bss)"

primrec scan_results_loop ::
    "u32 \<Rightarrow> packet list \<Rightarrow> native_scan_result list \<Rightarrow> 'a scu_scheme \<Rightarrow>
     (native_scan_result list \<times> 'a scu_scheme) res" where
  "scan_results_loop interface_index [] out s = Inr (out, s)"
| "scan_results_loop interface_index (packet # packets) out s =
     and_then (GetMessageType packet) (\<lambda>message_type.
       if message_type = NLMSG_ERROR then
         and_then (GetErrorCode packet) (\<lambda>_. scan_results_loop interface_index packets out s)
       else and_then (GetFamilyId s) (\<lambda>(family, s1).
         if message_type \<noteq> unat family then scan_results_loop interface_index packets out s1
         else
           if_value (Packet_GetAttributeValue word_class packet NL80211_ATTR_IFINDEX)
             (scan_results_loop interface_index packets out s1) (\<lambda>if_index.
               if if_index \<noteq> interface_index then scan_results_loop interface_index packets out s1
               else if_value (ParseScanResult packet (fresh_scan_result s1))
                 (scan_results_loop interface_index packets out s1) (\<lambda>scan_result.
                   scan_results_loop interface_index packets (out @ [scan_result]) s1))))"

definition GetScanResult ::
    "(hcall \<Rightarrow> 'a scu_scheme \<Rightarrow> 'a scu_scheme res) \<Rightarrow> u32 \<Rightarrow> native_scan_result list \<Rightarrow>
     'a scu_scheme \<Rightarrow> (bool \<times> native_scan_result list \<times> 'a scu_scheme) res" where
  "GetScanResult run interface_index out_scan_results s =
     and_then (new_request NL80211_CMD_GET_SCAN s) (\<lambda>(get_scan, s1).
       let get_scan = Packet_AddAttribute (u32_attribute NL80211_ATTR_IFINDEX interface_index)
                        (AddFlag NLM_F_DUMP get_scan)
       in and_then (SendMessageAndGetResponses run get_scan [] s1) (\<lambda>(ok, response, s2).
            if \<not> ok then Inr (False, out_scan_results, s2)
            else if response = [] then Inr (True, out_scan_results, s2)
            else and_then (scan_results_loop interface_index response out_scan_results s2)
                   (\<lambda>(out, s3). Inr (True, out, s3))))"

section \<open>Scan requests\<close>

text \<open>A nested attribute whose members are numbered from a first index.\<close>

definition numbered :: "nat \<Rightarrow> nat \<Rightarrow> (nat \<Rightarrow> 'a \<Rightarrow> attr) \<Rightarrow> 'a list \<Rightarrow> attr" where
  "numbered attr_id first mk xs =
     foldl AddAttribute (NL80211NestedAttr attr_id) (map (\<lambda>(i, x). mk i x) (enumerate first xs))"

definition ssids_attribute :: "bytes list \<Rightarrow> attr" where
  "ssids_attribute ssids = numbered NL80211_ATTR_SCAN_SSIDS 0 (make_attr vector_class) ssids"

definition freqs_attribute :: "u32 list \<Rightarrow> attr" where
  "freqs_attribute freqs = numbered NL80211_ATTR_SCAN_FREQUENCIES 0 u32_attribute freqs"

definition add_if :: "bool \<Rightarrow> attr \<Rightarrow> packet \<Rightarrow> packet" where
  "add_if b a p = (if b then Packet_AddAttribute a p else p)"

text \<open>The \<open>switch\<close> over the scan type; another value fails a \<open>CHECK\<close>.\<close>

definition scan_type_flag :: "int \<Rightarrow> u32 res" where
  "scan_type_flag scan_type =
     (if scan_type = SCAN_TYPE_LOW_SPAN then Inr NL80211_SCAN_FLAG_LOW_SPAN
      else if scan_type = SCAN_TYPE_LOW_POWER then Inr NL80211_SCAN_FLAG_LOW_POWER
      else if scan_type = SCAN_TYPE_HIGH_ACCURACY then Inr NL80211_SCAN_FLAG_HIGH_ACCURACY
      else if scan_type = SCAN_TYPE_DEFAULT then Inr 0
      else Inl Check_Failed)"

definition scan_request ::
    "u32 \<Rightarrow> bool \<Rightarrow> int \<Rightarrow> bool \<Rightarrow> bytes list \<Rightarrow> u32 list \<Rightarrow> bytes \<Rightarrow> packet \<Rightarrow> packet res" where
  "scan_request interface_index request_random_mac scan_type enable_6ghz_rnr ssids freqs vendor_ies trigger_scan =
     (let p1 = AddFlag NLM_F_ACK trigger_scan;
          p2 = Packet_AddAttribute (u32_attribute NL80211_ATTR_IFINDEX interface_index) p1;
          p3 = Packet_AddAttribute (ssids_attribute ssids) p2;
          p4 = add_if (freqs \<noteq> []) (freqs_attribute freqs) p3
      in and_then (scan_type_flag scan_type) (\<lambda>type_flag.
           let scan_flags = (if request_random_mac then NL80211_SCAN_FLAG_RANDOM_ADDR else 0) OR type_flag OR
                            (if enable_6ghz_rnr then NL80211_SCAN_FLAG_COLOCATED_6GHZ else 0);
               p5 = add_if (scan_flags \<noteq> 0) (u32_attribute NL80211_ATTR_SCAN_FLAGS scan_flags) p4
           in Inr (add_if (vendor_ies \<noteq> []) (make_attr vector_class NL80211_ATTR_IE vendor_ies) p5)))"

text \<open>\<open>error_code\<close> is the caller's variable: unchanged when no ACK or error arrives.\<close>

definition Scan ::
    "(hcall \<Rightarrow> 'a nlm_scheme \<Rightarrow> 'a nlm_scheme res) \<Rightarrow> u32 \<Rightarrow> bool \<Rightarrow> int \<Rightarrow> bool \<Rightarrow> bytes list \<Rightarrow>
     u32 list \<Rightarrow> bytes \<Rightarrow> int \<Rightarrow> 'a nlm_scheme \<Rightarrow> (bool \<times> int \<times> 'a nlm_scheme) res" where
  "Scan run interface_index request_random_mac scan_type enable_6ghz_rnr ssids freqs vendor_ies error_code s =
     and_then (new_request NL80211_CMD_TRIGGER_SCAN s) (\<lambda>(trigger_scan, s1).
     and_then (scan_request interface_index request_random_mac scan_type enable_6ghz_rnr ssids freqs
                 vendor_ies trigger_scan) (\<lambda>packet.
     and_then (SendMessageAndGetAckOrError run packet s1) (\<lambda>(r, s2).
       case r of
         None \<Rightarrow> Inr (False, error_code, s2)
       | Some code \<Rightarrow> Inr (code = 0, code, s2))))"

definition StopScheduledScan ::
    "(hcall \<Rightarrow> 'a nlm_scheme \<Rightarrow> 'a nlm_scheme res) \<Rightarrow> u32 \<Rightarrow> 'a nlm_scheme \<Rightarrow> (bool \<times> 'a nlm_scheme) res" where
  "StopScheduledScan run interface_index s =
     and_then (new_request NL80211_CMD_STOP_SCHED_SCAN s) (\<lambda>(stop_sched_scan, s1).
     and_then (SendMessageAndGetAckOrError run
                 (Packet_AddAttribute (u32_attribute NL80211_ATTR_IFINDEX interface_index)
                   (AddFlag NLM_F_ACK stop_sched_scan)) s1) (\<lambda>(r, s2).
       case r of
         None \<Rightarrow> Inr (False, s2)
       | Some error_code \<Rightarrow>
           if error_code = ENOENT then Inr (False, s2)
           else if error_code \<noteq> 0 then Inr (False, s2)
           else Inr (True, s2)))"

definition AbortScan ::
    "(hcall \<Rightarrow> 'a nlm_scheme \<Rightarrow> 'a nlm_scheme res) \<Rightarrow> u32 \<Rightarrow> 'a nlm_scheme \<Rightarrow> (bool \<times> 'a nlm_scheme) res" where
  "AbortScan run interface_index s =
     and_then (new_request NL80211_CMD_ABORT_SCAN s) (\<lambda>(abort_scan, s1).
       SendMessageAndGetAck run
         (Packet_AddAttribute (u32_attribute NL80211_ATTR_IFINDEX interface_index)
           (AddFlag NLM_F_ACK abort_scan)) s1)"

record scan_plan =
  plan_interval_ms :: u32
  plan_iterations :: u32

record sched_scan_interval_setting =
  setting_plans :: "scan_plan list"
  setting_final_interval_ms :: u32

record sched_scan_req_flags =
  flag_random_mac :: bool
  flag_low_power :: bool
  flag_relative_rssi :: bool

text \<open>
  One match group per SSID, all with the 5 GHz threshold. The relative threshold is the
  two-byte structure (band, delta) with the difference cut down to a signed byte.
\<close>

definition match_group :: "u32 \<Rightarrow> nat \<Rightarrow> bytes \<Rightarrow> attr" where
  "match_group rssi_threshold_5g i ssid =
     AddAttribute
       (AddAttribute (NL80211NestedAttr i) (make_attr vector_class NL80211_SCHED_SCAN_MATCH_ATTR_SSID ssid))
       (make_attr word_class NL80211_SCHED_SCAN_MATCH_ATTR_RSSI rssi_threshold_5g)"

definition rssi_adjust_attribute :: "u32 \<Rightarrow> u32 \<Rightarrow> attr" where
  "rssi_adjust_attribute rssi_threshold_2g rssi_threshold_5g =
     make_attr vector_class NL80211_ATTR_SCHED_SCAN_RSSI_ADJUST
       [of_nat NL80211_BAND_2GHZ, ucast (rssi_threshold_2g - rssi_threshold_5g)]"

definition scan_plan_attribute :: "nat \<Rightarrow> scan_plan \<Rightarrow> attr" where
  "scan_plan_attribute i plan =
     AddAttribute
       (AddAttribute (NL80211NestedAttr i)
         (u32_attribute NL80211_SCHED_SCAN_PLAN_INTERVAL (plan_interval_ms plan div kMsecPerSec)))
       (u32_attribute NL80211_SCHED_SCAN_PLAN_ITERATIONS (plan_iterations plan))"

definition scan_plans_attribute :: "sched_scan_interval_setting \<Rightarrow> attr" where
  "scan_plans_attribute interval_setting =
     AddAttribute
       (numbered NL80211_ATTR_SCHED_SCAN_PLANS 1 scan_plan_attribute (setting_plans interval_setting))
       (AddAttribute (NL80211NestedAttr (length (setting_plans interval_setting) + 1))
         (u32_attribute NL80211_SCHED_SCAN_PLAN_INTERVAL (setting_final_interval_ms interval_setting div kMsecPerSec)))"

definition sched_scan_request ::
    "u32 \<Rightarrow> sched_scan_interval_setting \<Rightarrow> u32 \<Rightarrow> u32 \<Rightarrow> u32 \<Rightarrow> sched_scan_req_flags \<Rightarrow>
     bytes list \<Rightarrow> bytes list \<Rightarrow> u32 list \<Rightarrow> packet \<Rightarrow> packet" where
  "sched_scan_request interface_index interval_setting rssi_threshold_2g rssi_threshold_5g
       rssi_threshold_6g req_flags scan_ssids match_ssids freqs start_sched_scan =
     (let p1 = AddFlag NLM_F_ACK start_sched_scan;
          p2 = Packet_AddAttribute
                 (numbered NL80211_ATTR_SCHED_SCAN_MATCH 0 (match_group rssi_threshold_5g) match_ssids) p1;
          p3 = add_if (flag_relative_rssi req_flags)
                 (rssi_adjust_attribute rssi_threshold_2g rssi_threshold_5g) p2;
          p4 = Packet_AddAttribute (u32_attribute NL80211_ATTR_IFINDEX interface_index) p3;
          p5 = Packet_AddAttribute (ssids_attribute scan_ssids) p4;
          p6 = add_if (freqs \<noteq> []) (freqs_attribute freqs) p5;
          p7 = Packet_AddAttribute
                 (if setting_plans interval_setting \<noteq> [] then scan_plans_attribute interval_setting
                  else u32_attribute NL80211_ATTR_SCHED_SCAN_INTERVAL (setting_final_interval_ms interval_setting)) p6;
          scan_flags = (if flag_random_mac req_flags then NL80211_SCAN_FLAG_RANDOM_ADDR else 0) OR
                       (if flag_low_power req_flags then NL80211_SCAN_FLAG_LOW_POWER else 0)
      in add_if (scan_flags \<noteq> 0) (u32_attribute NL80211_ATTR_SCAN_FLAGS scan_flags) p7)"

definition StartScheduledScan ::
    "(hcall \<Rightarrow> 'a nlm_scheme \<Rightarrow> 'a nlm_scheme res) \<Rightarrow> u32 \<Rightarrow> sched_scan_interval_setting \<Rightarrow>
     u32 \<Rightarrow> u32 \<Rightarrow> u32 \<Rightarrow> sched_scan_req_flags \<Rightarrow> bytes list \<Rightarrow> bytes list \<Rightarrow> u32 list \<Rightarrow> int \<Rightarrow>
     'a nlm_scheme \<Rightarrow> (bool \<times> int \<times> 'a nlm_scheme) res" where
  "StartScheduledScan run interface_index interval_setting rssi_threshold_2g rssi_threshold_5g
       rssi_threshold_6g req_flags scan_ssids match_ssids freqs error_code s =
     and_then (new_request NL80211_CMD_START_SCHED_SCAN s) (\<lambda>(start_sched_scan, s1).
     and_then (SendMessageAndGetAckOrError run
                 (sched_scan_request interface_index interval_setting rssi_threshold_2g
                   rssi_threshold_5g rssi_threshold_6g req_flags scan_ssids match_ssids freqs
                   start_sched_scan) s1) (\<lambda>(r, s2).
       case r of
         None \<Rightarrow> Inr (False, error_code, s2)
       | Some code \<Rightarrow> Inr (code = 0, code, s2)))"

section \<open>Subscriptions\<close>

text \<open>Forwarded to the netlink manager.\<close>

definition ScanUtils_SubscribeScanResultNotification :: "u32 \<Rightarrow> hid \<Rightarrow> 'a nlm_scheme \<Rightarrow> 'a nlm_scheme" where
  [simp]: "ScanUtils_SubscribeScanResultNotification interface_index handler s =
     SubscribeScanResultNotification interface_index handler s"

definition ScanUtils_UnsubscribeScanResultNotification :: "u32 \<Rightarrow> 'a nlm_scheme \<Rightarrow> 'a nlm_scheme" where
  [simp]: "ScanUtils_UnsubscribeScanResultNotification interface_index s = UnsubscribeScanResultNotification interface_index s"

definition ScanUtils_SubscribeSchedScanResultNotification :: "u32 \<Rightarrow> hid \<Rightarrow> 'a nlm_scheme \<Rightarrow> 'a nlm_scheme" where
  [simp]: "ScanUtils_SubscribeSchedScanResultNotification interface_index handler s =
     SubscribeSchedScanResultNotification interface_index handler s"

definition ScanUtils_UnsubscribeSchedScanResultNotification :: "u32 \<Rightarrow> 'a nlm_scheme \<Rightarrow> 'a nlm_scheme" where
  [simp]: "ScanUtils_UnsubscribeSchedScanResultNotification interface_index s = UnsubscribeSchedScanResultNotification interface_index s"

end
