(* ===== verification/Interface_State.thy ===== *)
theory Interface_State
  imports Scan_Utils
begin

text \<open>
  The objects above the netlink layer and the state they share: the settings a client passes
  to the scanner (\<open>scanning/*_settings.h\<close>, \<open>pno_network.h\<close>, \<open>hidden_network.h\<close>), the members of
  \<open>ScannerImpl\<close>, \<open>ClientInterfaceImpl\<close>, \<open>ApInterfaceImpl\<close> and of the two binder objects.

  An object is found through its identity (a number that is never reused) in a table; the
  destructor removes it. A call on an object that is gone is \<open>Use_After_Free\<close>. A scanner has
  the identity of the client interface that created it, but lives on after it, because
  remote processes hold references; so do the binder objects. Calls on remote callback
  objects and on \<open>InterfaceTool\<close> are one-way and are recorded in a trace.
\<close>

section \<open>Settings\<close>

record channel_settings =
  channel_frequency :: u32

record hidden_network =
  hidden_ssid :: bytes

record single_scan_settings =
  settings_scan_type :: int
  settings_enable_6ghz_rnr :: bool
  settings_channels :: "channel_settings list"
  settings_hidden_networks :: "hidden_network list"
  settings_vendor_ies :: bytes

record pno_network =
  pno_is_hidden :: bool
  pno_ssid :: bytes
  pno_frequencies :: "u32 list"

record pno_settings =
  pno_interval_ms :: u64
  pno_min_2g_rssi :: u32
  pno_min_5g_rssi :: u32
  pno_min_6g_rssi :: u32
  pno_scan_iterations :: u32
  pno_scan_interval_multiplier :: u32
  pno_networks :: "pno_network list"

section \<open>Objects\<close>

type_synonym obj = nat
type_synonym callback = nat

record scanner =
  valid :: bool
  scan_started :: bool
  pno_scan_started :: bool
  stored_pno_settings :: "pno_settings option"
  nodev_counter :: u32
  scanner_interface_index :: u32
  scanner_capabilities :: scan_capabilities
  scanner_features :: wiphy_features
  scan_event_handler :: "callback option"
  pno_scan_event_handler :: "callback option"

text \<open>
  \<open>frame_tx_handler\<close> is \<open>None\<close> for the lambda that does nothing, otherwise the callback and
  the start time that the lambda of \<open>SendMgmtFrame\<close> captures.
\<close>

record client_interface =
  client_wiphy_index :: u32
  client_interface_name :: bytes
  client_interface_index :: u32
  client_mac_addr :: bytes
  is_associated :: bool
  associated_bssid :: bytes
  associate_freq :: u32
  client_band_info :: band_info
  client_scan_capabilities :: scan_capabilities
  client_wiphy_features :: wiphy_features
  frame_tx_in_progress :: bool
  frame_tx_status_cookie :: u64
  frame_tx_handler :: "(callback \<times> int) option"

record ap_interface =
  ap_interface_name :: bytes
  ap_interface_index :: u32

text \<open>The binder objects: \<open>impl_\<close> is null once the implementation is dead.\<close>

record client_binder =
  client_impl :: "obj option"

record ap_binder =
  ap_impl :: "obj option"
  ap_event_callback :: "callback option"

text \<open>One-way calls to other processes, and to \<open>InterfaceTool\<close>.\<close>

datatype remote_call =
    OnScanResultReady callback
  | OnScanRequestFailed callback int
  | OnPnoNetworkFound callback
  | OnPnoScanFailed callback
  | OnFrameAck callback int
  | OnFrameFailure callback int
  | OnConnectedClientsChanged callback bytes bool
  | OnSoftApChannelSwitched callback u32 int
  | OnClientInterfaceReady callback obj
  | OnApInterfaceReady callback obj
  | OnClientTorndownEvent callback obj
  | OnApTorndownEvent callback obj
  | OnRegDomainChangedEvent callback bytes
  | SetUpState bytes bool

text \<open>
  \<open>fresh_client\<close> and \<open>fresh_info\<close> are the contents of memory in which a client interface and
  the locals of a capability query are made: members without an initialiser keep them.
\<close>

record ifs = scu +
  next_obj :: obj
  scanners :: "(obj, scanner) omap"
  clients :: "(obj, client_interface) omap"
  aps :: "(obj, ap_interface) omap"
  client_binders :: "(obj, client_binder) omap"
  ap_binders :: "(obj, ap_binder) omap"
  remote_calls :: "remote_call list"
  now_ns :: int
  fresh_client :: client_interface
  fresh_info :: wiphy_info

definition call_remote :: "remote_call \<Rightarrow> 'a ifs_scheme \<Rightarrow> 'a ifs_scheme" where
  "call_remote c s = s\<lparr>remote_calls := remote_calls s @ [c]\<rparr>"

text \<open>Access to an object, and an update of it.\<close>

definition the_scanner :: "obj \<Rightarrow> 'a ifs_scheme \<Rightarrow> scanner res" where
  "the_scanner i s = (case map_find (scanners s) i of None \<Rightarrow> Inl Use_After_Free | Some x \<Rightarrow> Inr x)"

definition the_client :: "obj \<Rightarrow> 'a ifs_scheme \<Rightarrow> client_interface res" where
  "the_client i s = (case map_find (clients s) i of None \<Rightarrow> Inl Use_After_Free | Some x \<Rightarrow> Inr x)"

definition the_ap :: "obj \<Rightarrow> 'a ifs_scheme \<Rightarrow> ap_interface res" where
  "the_ap i s = (case map_find (aps s) i of None \<Rightarrow> Inl Use_After_Free | Some x \<Rightarrow> Inr x)"

definition the_client_binder :: "obj \<Rightarrow> 'a ifs_scheme \<Rightarrow> client_binder res" where
  "the_client_binder i s =
     (case map_find (client_binders s) i of None \<Rightarrow> Inl Use_After_Free | Some x \<Rightarrow> Inr x)"

definition the_ap_binder :: "obj \<Rightarrow> 'a ifs_scheme \<Rightarrow> ap_binder res" where
  "the_ap_binder i s =
     (case map_find (ap_binders s) i of None \<Rightarrow> Inl Use_After_Free | Some x \<Rightarrow> Inr x)"

definition modify_scanner :: "obj \<Rightarrow> (scanner \<Rightarrow> scanner) \<Rightarrow> 'a ifs_scheme \<Rightarrow> 'a ifs_scheme res" where
  "modify_scanner i f s =
     and_then (the_scanner i s) (\<lambda>x. Inr (s\<lparr>scanners := map_set i (f x) (scanners s)\<rparr>))"

definition modify_client :: "obj \<Rightarrow> (client_interface \<Rightarrow> client_interface) \<Rightarrow> 'a ifs_scheme \<Rightarrow> 'a ifs_scheme res" where
  "modify_client i f s =
     and_then (the_client i s) (\<lambda>x. Inr (s\<lparr>clients := map_set i (f x) (clients s)\<rparr>))"

lemma the_scanner_modify:
  "modify_scanner i f s = Inr s' \<Longrightarrow> the_scanner i s = Inr x \<Longrightarrow> the_scanner i s' = Inr (f x)"
  by (auto simp: modify_scanner_def the_scanner_def)

lemma the_client_modify:
  "modify_client i f s = Inr s' \<Longrightarrow> the_client i s = Inr x \<Longrightarrow> the_client i s' = Inr (f x)"
  by (auto simp: modify_client_def the_client_def)

end
