(* ===== verification/Scanner_Impl.thy ===== *)
theory Scanner_Impl
  imports Interface_State
begin

text \<open>
  \<open>scanning/scanner_impl.{h,cpp}\<close>: the binder service through which the framework scans on
  one client interface. Every method first checks \<open>valid_\<close>, which the client interface
  clears in its destructor; only valid scanners touch \<open>client_interface_\<close>. The methods return
  \<open>Status::ok()\<close> always, so only their out parameters are modelled. \<open>LogSsidList\<close> only logs.
\<close>

definition IsScanTypeSupported :: "int \<Rightarrow> wiphy_features \<Rightarrow> bool res" where
  "IsScanTypeSupported scan_type features =
     (if scan_type = SCAN_TYPE_LOW_SPAN then Inr (supports_low_span_oneshot_scan features)
      else if scan_type = SCAN_TYPE_LOW_POWER then Inr (supports_low_power_oneshot_scan features)
      else if scan_type = SCAN_TYPE_HIGH_ACCURACY then Inr (supports_high_accuracy_oneshot_scan features)
      else Inl Check_Failed)"

definition convertStdErrNumToScanStatus :: "int \<Rightarrow> int" where
  "convertStdErrNumToScanStatus errNum =
     (if errNum = EINVAL then SCAN_STATUS_FAILED_INVALID_ARGS
      else if errNum = EBUSY then SCAN_STATUS_FAILED_BUSY
      else if errNum = ENODEV then SCAN_STATUS_FAILED_NODEV
      else SCAN_STATUS_FAILED_GENERIC)"

definition kPercentNetworksWithFreq :: nat where
  [simp]: "kPercentNetworksWithFreq = 30"

definition kPnoScanDefaultFreqs2G :: "u32 list" where
  "kPnoScanDefaultFreqs2G = [2412, 2417, 2422, 2427, 2432, 2437, 2447, 2452, 2457, 2462]"

definition kPnoScanDefaultFreqs5G :: "u32 list" where
  "kPnoScanDefaultFreqs5G = [5180, 5200, 5220, 5240, 5745, 5765, 5785, 5805]"

section \<open>Life cycle\<close>

definition ScannerImpl ::
    "obj \<Rightarrow> u32 \<Rightarrow> scan_capabilities \<Rightarrow> wiphy_features \<Rightarrow> 'a ifs_scheme \<Rightarrow> 'a ifs_scheme" where
  "ScannerImpl i interface_index capabilities features s =
     (let x = \<lparr>valid = True, scan_started = False, pno_scan_started = False,
               stored_pno_settings = None, nodev_counter = 0,
               scanner_interface_index = interface_index, scanner_capabilities = capabilities,
               scanner_features = features, scan_event_handler = None,
               pno_scan_event_handler = None\<rparr>
      in ScanUtils_SubscribeSchedScanResultNotification interface_index i
           (ScanUtils_SubscribeScanResultNotification interface_index i
             (s\<lparr>scanners := map_set i x (scanners s)\<rparr>)))"

definition Invalidate :: "obj \<Rightarrow> 'a ifs_scheme \<Rightarrow> 'a ifs_scheme res" where
  "Invalidate i s =
     and_then (the_scanner i s) (\<lambda>x.
       modify_scanner i (\<lambda>x. x\<lparr>valid := False\<rparr>)
         (ScanUtils_UnsubscribeSchedScanResultNotification (scanner_interface_index x)
           (ScanUtils_UnsubscribeScanResultNotification (scanner_interface_index x) s)))"

section \<open>Single scans\<close>

definition getScanResults ::
    "(hcall \<Rightarrow> 'a ifs_scheme \<Rightarrow> 'a ifs_scheme res) \<Rightarrow> obj \<Rightarrow> native_scan_result list \<Rightarrow>
     'a ifs_scheme \<Rightarrow> (native_scan_result list \<times> 'a ifs_scheme) res" where
  "getScanResults run i out_scan_results s =
     and_then (the_scanner i s) (\<lambda>x.
       if \<not> valid x then Inr (out_scan_results, s)
       else and_then (GetScanResult run (scanner_interface_index x) out_scan_results s)
              (\<lambda>(_, out, s1). Inr (out, s1)))"

definition getPnoScanResults ::
    "(hcall \<Rightarrow> 'a ifs_scheme \<Rightarrow> 'a ifs_scheme res) \<Rightarrow> obj \<Rightarrow> native_scan_result list \<Rightarrow>
     'a ifs_scheme \<Rightarrow> (native_scan_result list \<times> 'a ifs_scheme) res" where
  "getPnoScanResults run i out_scan_results s =
     and_then (the_scanner i s) (\<lambda>x.
       if \<not> valid x then Inr (out_scan_results, s)
       else and_then (GetScanResult run (scanner_interface_index x) out_scan_results s)
              (\<lambda>(_, out, s1). Inr (out, s1)))"

definition getMaxSsidsPerScan :: "obj \<Rightarrow> 'a ifs_scheme \<Rightarrow> int res" where
  "getMaxSsidsPerScan i s =
     and_then (the_scanner i s) (\<lambda>x.
       if \<not> valid x then Inr 0 else Inr (uint (max_num_scan_ssids (scanner_capabilities x))))"

text \<open>The loop over the hidden networks; \<open>ssids\<close> starts with the empty wildcard SSID.\<close>

primrec scan_ssids_loop :: "u8 \<Rightarrow> hidden_network list \<Rightarrow> bytes list \<Rightarrow> bytes list" where
  "scan_ssids_loop max_ssids [] ssids = ssids"
| "scan_ssids_loop max_ssids (network # networks) ssids =
     (if unat max_ssids < length ssids + 1 then scan_ssids_loop max_ssids networks ssids
      else if 32 < length (hidden_ssid network) then scan_ssids_loop max_ssids networks ssids
      else scan_ssids_loop max_ssids networks (ssids @ [hidden_ssid network]))"

text \<open>
  What both kinds of scan do after a failed request: count \<open>ENODEV\<close> answers, restart the
  daemon at the fourth in a row.
\<close>

definition count_nodev :: "obj \<Rightarrow> int \<Rightarrow> 'a ifs_scheme \<Rightarrow> 'a ifs_scheme res" where
  "count_nodev i error_code s =
     and_then (if error_code = ENODEV then modify_scanner i (\<lambda>x. x\<lparr>nodev_counter := nodev_counter x + 1\<rparr>) s
               else Inr s) (\<lambda>s1.
     and_then (the_scanner i s1) (\<lambda>x.
       if error_code \<noteq> ENODEV \<or> nodev_counter x \<le> 3 then Inr s1 else Inl Check_Failed))"

definition scanRequest ::
    "(hcall \<Rightarrow> 'a ifs_scheme \<Rightarrow> 'a ifs_scheme res) \<Rightarrow> obj \<Rightarrow> single_scan_settings \<Rightarrow>
     'a ifs_scheme \<Rightarrow> (int \<times> 'a ifs_scheme) res" where
  "scanRequest run i scan_settings s =
     and_then (the_scanner i s) (\<lambda>x.
       if \<not> valid x then Inr (SCAN_STATUS_FAILED_GENERIC, s)
       else
         and_then (if supports_random_mac_oneshot_scan (scanner_features x)
                   then and_then (the_client i s) (\<lambda>c. Inr (\<not> is_associated c))
                   else Inr False) (\<lambda>request_random_mac.
         and_then (IsScanTypeSupported (settings_scan_type scan_settings) (scanner_features x)) (\<lambda>supported.
           let scan_type = (if supported then settings_scan_type scan_settings else SCAN_TYPE_DEFAULT);
               ssids = scan_ssids_loop (max_num_scan_ssids (scanner_capabilities x))
                         (settings_hidden_networks scan_settings) [[]];
               freqs = map channel_frequency (settings_channels scan_settings)
           in and_then (Scan run (scanner_interface_index x) request_random_mac scan_type
                          (settings_enable_6ghz_rnr scan_settings) ssids freqs
                          (settings_vendor_ies scan_settings) 0 s) (\<lambda>(ok, error_code, s1).
                if \<not> ok then
                  and_then (count_nodev i error_code s1) (\<lambda>s2.
                    Inr (convertStdErrNumToScanStatus error_code, s2))
                else
                  and_then (modify_scanner i (\<lambda>x. x\<lparr>nodev_counter := 0, scan_started := True\<rparr>) s1) (\<lambda>s2.
                    Inr (SCAN_STATUS_SUCCESS, s2))))))"

definition scanner_scan ::
    "(hcall \<Rightarrow> 'a ifs_scheme \<Rightarrow> 'a ifs_scheme res) \<Rightarrow> obj \<Rightarrow> single_scan_settings \<Rightarrow>
     'a ifs_scheme \<Rightarrow> (bool \<times> 'a ifs_scheme) res" where
  "scanner_scan run i scan_settings s =
     and_then (scanRequest run i scan_settings s) (\<lambda>(status, s1).
       Inr (status = SCAN_STATUS_SUCCESS, s1))"

definition abortScan ::
    "(hcall \<Rightarrow> 'a ifs_scheme \<Rightarrow> 'a ifs_scheme res) \<Rightarrow> obj \<Rightarrow> 'a ifs_scheme \<Rightarrow> 'a ifs_scheme res" where
  "abortScan run i s =
     and_then (the_scanner i s) (\<lambda>x.
       if \<not> valid x then Inr s
       else if \<not> scan_started x then Inr s
       else and_then (AbortScan run (scanner_interface_index x) s) (\<lambda>(_, s1). Inr s1))"

section \<open>Preferred network offload\<close>

text \<open>
  \<open>std::set<int32_t>\<close> as an ordered table of its elements, read as signed numbers.
\<close>

type_synonym freq_set = "(int, unit) omap"

definition insert_freq :: "u32 \<Rightarrow> freq_set \<Rightarrow> freq_set" where
  "insert_freq f fs = map_set (sint f) () fs"

text \<open>
  The loop over the networks: the SSIDs to scan for actively, the SSIDs to match, the set of
  frequencies, and the number of networks without frequencies. A hidden network that does
  not fit the scan list is not matched either.
\<close>

fun pno_networks_loop ::
    "scan_capabilities \<Rightarrow> u32 list \<Rightarrow> pno_network list \<Rightarrow>
     bytes list \<times> bytes list \<times> freq_set \<times> nat \<Rightarrow> bytes list \<times> bytes list \<times> freq_set \<times> nat" where
  "pno_networks_loop cap all_freqs [] acc = acc"
| "pno_networks_loop cap all_freqs (network # networks) (scan_ssids, match_ssids, unique_frequencies, no_freqs) =
     (if pno_is_hidden network \<and> unat (max_num_sched_scan_ssids cap) < length scan_ssids + 1 then
        pno_networks_loop cap all_freqs networks (scan_ssids, match_ssids, unique_frequencies, no_freqs)
      else
        let scan_ssids1 = (if pno_is_hidden network then scan_ssids @ [pno_ssid network] else scan_ssids)
        in if unat (max_match_sets cap) < length match_ssids + 1 then
             pno_networks_loop cap all_freqs networks (scan_ssids1, match_ssids, unique_frequencies, no_freqs)
           else
             pno_networks_loop cap all_freqs networks
               (scan_ssids1, match_ssids @ [pno_ssid network],
                fold insert_freq (filter (\<lambda>f. f \<in> set all_freqs) (pno_frequencies network)) unique_frequencies,
                if pno_frequencies network = [] then no_freqs + 1 else no_freqs))"

text \<open>
  The returned triple is (\<open>scan_ssids\<close>, \<open>match_ssids\<close>, \<open>freqs\<close>); \<open>match_security\<close> is not used
  by the caller.
\<close>

definition ParsePnoSettings ::
    "scan_capabilities \<Rightarrow> band_info \<Rightarrow> pno_settings \<Rightarrow> bytes list \<Rightarrow> bytes list \<times> bytes list \<times> u32 list" where
  "ParsePnoSettings cap bands settings scan_ssids =
     (let all_freqs = band_2g bands @ band_5g bands @ band_dfs bands @ band_6g bands @ band_60g bands;
          (scan_ssids1, match_ssids, unique_frequencies, no_freqs) =
            pno_networks_loop cap all_freqs (pno_networks settings) (scan_ssids, [], [], 0);
          unique_frequencies1 =
            (if kPercentNetworksWithFreq * length match_ssids < no_freqs * 100 then
               fold insert_freq (filter (\<lambda>f. f \<in> set (band_5g bands)) kPnoScanDefaultFreqs5G)
                 (fold insert_freq (filter (\<lambda>f. f \<in> set (band_2g bands)) kPnoScanDefaultFreqs2G) unique_frequencies)
             else unique_frequencies)
      in (scan_ssids1, match_ssids, map (\<lambda>p. word_of_int (fst p)) unique_frequencies1))"

text \<open>
  \<open>GenerateIntervalSetting\<close>: \<open>max_scan_plan_interval * 1000\<close> and the final interval are unsigned
  32-bit products. The right-hand side of the comparison multiplies an \<open>int64_t\<close> by a \<open>uint32_t\<close>: a
  signed product of 64 bits, whose overflow is undefined.
\<close>

definition mul_int64 :: "int \<Rightarrow> int \<Rightarrow> int res" where
  "mul_int64 a b = (if - (2 ^ 63) \<le> a * b \<and> a * b < 2 ^ 63 then Inr (a * b) else Inl Signed_Overflow)"

definition GenerateIntervalSetting :: "scan_capabilities \<Rightarrow> pno_settings \<Rightarrow> sched_scan_interval_setting res" where
  "GenerateIntervalSetting cap settings =
     and_then (mul_int64 (sint (pno_interval_ms settings)) (uint (pno_scan_interval_multiplier settings))) (\<lambda>slow_interval.
       let support_num_scan_plans = 2 \<le> max_num_scan_plans cap;
           support_scan_plan_interval = slow_interval \<le> uint (max_scan_plan_interval cap * 1000);
           support_scan_plan_iterations = pno_scan_iterations settings \<le> max_scan_plan_iterations cap;
           fast_scan_interval = ucast (pno_interval_ms settings)
       in Inr (if support_num_scan_plans \<and> support_scan_plan_interval \<and> support_scan_plan_iterations then
            \<lparr>setting_plans = [\<lparr>plan_interval_ms = fast_scan_interval, plan_iterations = pno_scan_iterations settings\<rparr>],
             setting_final_interval_ms = fast_scan_interval * pno_scan_interval_multiplier settings\<rparr>
          else \<lparr>setting_plans = [], setting_final_interval_ms = fast_scan_interval\<rparr>))"

definition StartPnoScanDefault ::
    "(hcall \<Rightarrow> 'a ifs_scheme \<Rightarrow> 'a ifs_scheme res) \<Rightarrow> obj \<Rightarrow> pno_settings \<Rightarrow>
     'a ifs_scheme \<Rightarrow> (bool \<times> 'a ifs_scheme) res" where
  "StartPnoScanDefault run i settings s =
     and_then (the_scanner i s) (\<lambda>x.
       if \<not> valid x then Inr (False, s)
       else
         and_then (the_client i s) (\<lambda>c.
           let (scan_ssids, match_ssids, freqs) =
                 ParsePnoSettings (scanner_capabilities x) (client_band_info c) settings [[]];
               features = scanner_features x;
               req_flags =
                 \<lparr>flag_random_mac = supports_random_mac_sched_scan features \<and> \<not> is_associated c,
                  flag_low_power = supports_low_power_oneshot_scan features,
                  flag_relative_rssi = supports_ext_sched_scan_relative_rssi features\<rparr>
           in and_then (GenerateIntervalSetting (scanner_capabilities x) settings) (\<lambda>interval_setting.
              and_then (StartScheduledScan run (scanner_interface_index x) interval_setting
                          (pno_min_2g_rssi settings) (pno_min_5g_rssi settings) (pno_min_6g_rssi settings)
                          req_flags scan_ssids match_ssids freqs 0 s) (\<lambda>(ok, error_code, s1).
                if \<not> ok then and_then (count_nodev i error_code s1) (\<lambda>s2. Inr (False, s2))
                else and_then (modify_scanner i (\<lambda>x. x\<lparr>nodev_counter := 0, pno_scan_started := True\<rparr>) s1)
                       (\<lambda>s2. Inr (True, s2))))))"

definition startPnoScan ::
    "(hcall \<Rightarrow> 'a ifs_scheme \<Rightarrow> 'a ifs_scheme res) \<Rightarrow> obj \<Rightarrow> pno_settings \<Rightarrow>
     'a ifs_scheme \<Rightarrow> (bool \<times> 'a ifs_scheme) res" where
  "startPnoScan run i settings s =
     and_then (modify_scanner i (\<lambda>x. x\<lparr>stored_pno_settings := Some settings\<rparr>) s)
       (StartPnoScanDefault run i settings)"

definition StopPnoScanDefault ::
    "(hcall \<Rightarrow> 'a ifs_scheme \<Rightarrow> 'a ifs_scheme res) \<Rightarrow> obj \<Rightarrow> 'a ifs_scheme \<Rightarrow> (bool \<times> 'a ifs_scheme) res" where
  "StopPnoScanDefault run i s =
     and_then (the_scanner i s) (\<lambda>x.
       if \<not> valid x then Inr (False, s)
       else and_then (StopScheduledScan run (scanner_interface_index x) s) (\<lambda>(ok, s1).
         if \<not> ok then Inr (False, s1)
         else and_then (modify_scanner i (\<lambda>x. x\<lparr>pno_scan_started := False\<rparr>) s1) (\<lambda>s2. Inr (True, s2))))"

definition stopPnoScan ::
    "(hcall \<Rightarrow> 'a ifs_scheme \<Rightarrow> 'a ifs_scheme res) \<Rightarrow> obj \<Rightarrow> 'a ifs_scheme \<Rightarrow> (bool \<times> 'a ifs_scheme) res" where
  "stopPnoScan run i s = StopPnoScanDefault run i s"

section \<open>Event subscriptions and notifications\<close>

definition subscribeScanEvents :: "obj \<Rightarrow> callback \<Rightarrow> 'a ifs_scheme \<Rightarrow> 'a ifs_scheme res" where
  "subscribeScanEvents i handler s =
     and_then (the_scanner i s) (\<lambda>x.
       if \<not> valid x then Inr s
       else modify_scanner i (\<lambda>x. x\<lparr>scan_event_handler := Some handler\<rparr>) s)"

definition unsubscribeScanEvents :: "obj \<Rightarrow> 'a ifs_scheme \<Rightarrow> 'a ifs_scheme res" where
  "unsubscribeScanEvents i s = modify_scanner i (\<lambda>x. x\<lparr>scan_event_handler := None\<rparr>) s"

definition subscribePnoScanEvents :: "obj \<Rightarrow> callback \<Rightarrow> 'a ifs_scheme \<Rightarrow> 'a ifs_scheme res" where
  "subscribePnoScanEvents i handler s =
     and_then (the_scanner i s) (\<lambda>x.
       if \<not> valid x then Inr s
       else modify_scanner i (\<lambda>x. x\<lparr>pno_scan_event_handler := Some handler\<rparr>) s)"

definition unsubscribePnoScanEvents :: "obj \<Rightarrow> 'a ifs_scheme \<Rightarrow> 'a ifs_scheme res" where
  "unsubscribePnoScanEvents i s = modify_scanner i (\<lambda>x. x\<lparr>pno_scan_event_handler := None\<rparr>) s"

definition Scanner_OnScanResultsReady :: "obj \<Rightarrow> bool \<Rightarrow> 'a ifs_scheme \<Rightarrow> 'a ifs_scheme res" where
  "Scanner_OnScanResultsReady i aborted s =
     and_then (modify_scanner i (\<lambda>x. x\<lparr>scan_started := False\<rparr>) s) (\<lambda>s1.
     and_then (the_scanner i s1) (\<lambda>x.
       case scan_event_handler x of
         None \<Rightarrow> Inr s1
       | Some h \<Rightarrow>
           if aborted then Inr (call_remote (OnScanRequestFailed h SCAN_STATUS_FAILED_ABORT) s1)
           else Inr (call_remote (OnScanResultReady h) s1)))"

text \<open>Without a subscriber nothing happens, so a stopped scan stays marked as started.\<close>

definition Scanner_OnSchedScanResultsReady :: "obj \<Rightarrow> bool \<Rightarrow> 'a ifs_scheme \<Rightarrow> 'a ifs_scheme res" where
  "Scanner_OnSchedScanResultsReady i scan_stopped s =
     and_then (the_scanner i s) (\<lambda>x.
       case pno_scan_event_handler x of
         None \<Rightarrow> Inr s
       | Some h \<Rightarrow>
           if scan_stopped then
             modify_scanner i (\<lambda>x. x\<lparr>pno_scan_started := False\<rparr>)
               (if pno_scan_started x then call_remote (OnPnoScanFailed h) s else s)
           else Inr (call_remote (OnPnoNetworkFound h) s))"

end
