(* ===== verification/Client_Interface.thy ===== *)
theory Client_Interface
  imports Scanner_Impl
begin

text \<open>
  \<open>client_interface_impl.{h,cpp}\<close> and \<open>client_interface_binder.{h,cpp}\<close>: a station interface, its
  MLME event handler, and the binder object that remote processes hold and that outlives it.
  \<open>Dump\<close> only formats text.
\<close>

section \<open>Association state\<close>

text \<open>The loop keeps the frequency of the last associated result; the function returns false.\<close>

definition last_associated :: "native_scan_result list \<Rightarrow> u32 \<Rightarrow> u32" where
  "last_associated results freq =
     fold (\<lambda>r f. if scan_associated r then scan_frequency r else f) results freq"

definition RefreshAssociateFreq ::
    "(hcall \<Rightarrow> 'a ifs_scheme \<Rightarrow> 'a ifs_scheme res) \<Rightarrow> obj \<Rightarrow> 'a ifs_scheme \<Rightarrow> (bool \<times> 'a ifs_scheme) res" where
  "RefreshAssociateFreq run i s =
     and_then (the_client i s) (\<lambda>c.
     and_then (GetScanResult run (client_interface_index c) [] s) (\<lambda>(ok, scan_results, s1).
       if \<not> ok then Inr (False, s1)
       else and_then (modify_client i (\<lambda>c. c\<lparr>associate_freq := last_associated scan_results (associate_freq c)\<rparr>) s1)
              (\<lambda>s2. Inr (False, s2))))"

definition mark_associated ::
    "(hcall \<Rightarrow> 'a ifs_scheme \<Rightarrow> 'a ifs_scheme res) \<Rightarrow> obj \<Rightarrow> bytes \<Rightarrow> 'a ifs_scheme \<Rightarrow> 'a ifs_scheme res" where
  "mark_associated run i new_bssid s =
     and_then (modify_client i (\<lambda>c. c\<lparr>is_associated := True\<rparr>) s) (\<lambda>s1.
     and_then (RefreshAssociateFreq run i s1) (\<lambda>(_, s2).
       modify_client i (\<lambda>c. c\<lparr>associated_bssid := new_bssid\<rparr>) s2))"

definition mark_disassociated :: "obj \<Rightarrow> 'a ifs_scheme \<Rightarrow> 'a ifs_scheme res" where
  "mark_disassociated i s =
     modify_client i (\<lambda>c. c\<lparr>is_associated := False, associated_bssid := replicate ETH_ALEN 0\<rparr>) s"

definition OnConnect ::
    "(hcall \<Rightarrow> 'a ifs_scheme \<Rightarrow> 'a ifs_scheme res) \<Rightarrow> obj \<Rightarrow> mlme_status_event \<Rightarrow>
     'a ifs_scheme \<Rightarrow> 'a ifs_scheme res" where
  "OnConnect run i event s =
     (if \<not> mlme_is_timeout event \<and> mlme_status_code event = 0
      then mark_associated run i (mlme_bssid event) s
      else mark_disassociated i s)"

definition OnRoam ::
    "(hcall \<Rightarrow> 'a ifs_scheme \<Rightarrow> 'a ifs_scheme res) \<Rightarrow> obj \<Rightarrow> mlme_event \<Rightarrow>
     'a ifs_scheme \<Rightarrow> 'a ifs_scheme res" where
  "OnRoam run i event s = mark_associated run i (mlme_bssid event) s"

definition OnAssociate ::
    "(hcall \<Rightarrow> 'a ifs_scheme \<Rightarrow> 'a ifs_scheme res) \<Rightarrow> obj \<Rightarrow> mlme_status_event \<Rightarrow>
     'a ifs_scheme \<Rightarrow> 'a ifs_scheme res" where
  "OnAssociate run i event s =
     (if \<not> mlme_is_timeout event \<and> mlme_status_code event = 0
      then mark_associated run i (mlme_bssid event) s
      else mark_disassociated i s)"

definition OnDisconnect :: "obj \<Rightarrow> mlme_event \<Rightarrow> 'a ifs_scheme \<Rightarrow> 'a ifs_scheme res" where
  "OnDisconnect i event s = mark_disassociated i s"

definition OnDisassociate :: "obj \<Rightarrow> mlme_event \<Rightarrow> 'a ifs_scheme \<Rightarrow> 'a ifs_scheme res" where
  "OnDisassociate i event s = mark_disassociated i s"

definition Client_OnChannelSwitchEvent :: "obj \<Rightarrow> u32 \<Rightarrow> 'a ifs_scheme \<Rightarrow> 'a ifs_scheme res" where
  "Client_OnChannelSwitchEvent i freq s =
     (if freq = 0 then Inr s else modify_client i (\<lambda>c. c\<lparr>associate_freq := freq\<rparr>) s)"

section \<open>Frame transmission\<close>

text \<open>\<open>on_frame_tx_status_event_handler_(was_acked)\<close>; the elapsed time is cut to 32 bits.\<close>

definition run_frame_tx_handler :: "(callback \<times> int) option \<Rightarrow> bool \<Rightarrow> 'a ifs_scheme \<Rightarrow> 'a ifs_scheme" where
  "run_frame_tx_handler h was_acked s =
     (case h of
        None \<Rightarrow> s
      | Some (cb, start_time_ns) \<Rightarrow>
          if was_acked then
            call_remote (OnFrameAck cb (sint (word_of_int ((now_ns s - start_time_ns) div 1000000) :: u32))) s
          else call_remote (OnFrameFailure cb SEND_MGMT_FRAME_ERROR_NO_ACK) s)"

definition Client_OnFrameTxStatusEvent :: "obj \<Rightarrow> u64 \<Rightarrow> bool \<Rightarrow> 'a ifs_scheme \<Rightarrow> 'a ifs_scheme res" where
  "Client_OnFrameTxStatusEvent i cookie was_acked s =
     and_then (the_client i s) (\<lambda>c.
       if frame_tx_in_progress c \<and> frame_tx_status_cookie c = cookie then
         modify_client i (\<lambda>c. c\<lparr>frame_tx_in_progress := False, frame_tx_status_cookie := 0,
                                frame_tx_handler := None\<rparr>)
           (run_frame_tx_handler (frame_tx_handler c) was_acked s)
       else Inr s)"

definition Client_SendMgmtFrame ::
    "(hcall \<Rightarrow> 'a ifs_scheme \<Rightarrow> 'a ifs_scheme res) \<Rightarrow> obj \<Rightarrow> bytes \<Rightarrow> callback \<Rightarrow> int \<Rightarrow>
     'a ifs_scheme \<Rightarrow> 'a ifs_scheme res" where
  "Client_SendMgmtFrame run i frame cb mcs s =
     and_then (the_client i s) (\<lambda>c.
       if 0 \<le> mcs \<and> \<not> supports_tx_mgmt_frame_mcs (client_wiphy_features c) then
         Inr (call_remote (OnFrameFailure cb SEND_MGMT_FRAME_ERROR_MCS_UNSUPPORTED) s)
       else and_then (NetlinkUtils_SendMgmtFrame run (client_interface_index c) frame mcs s) (\<lambda>(r, s1).
         case r of
           None \<Rightarrow> Inr (call_remote (OnFrameFailure cb SEND_MGMT_FRAME_ERROR_UNKNOWN) s1)
         | Some cookie \<Rightarrow>
             modify_client i (\<lambda>c. c\<lparr>frame_tx_in_progress := True, frame_tx_status_cookie := cookie,
                                    frame_tx_handler := Some (cb, now_ns s1)\<rparr>) s1))"

section \<open>Life cycle\<close>

definition client_wiphy_info :: "client_interface \<Rightarrow> wiphy_info" where
  "client_wiphy_info c = (client_band_info c, client_scan_capabilities c, client_wiphy_features c)"

definition set_wiphy_info :: "wiphy_info \<Rightarrow> client_interface \<Rightarrow> client_interface" where
  "set_wiphy_info info c =
     c\<lparr>client_band_info := fst info, client_scan_capabilities := fst (snd info),
       client_wiphy_features := snd (snd info)\<rparr>"

definition UpdateBandInfo ::
    "(hcall \<Rightarrow> 'a ifs_scheme \<Rightarrow> 'a ifs_scheme res) \<Rightarrow> obj \<Rightarrow> 'a ifs_scheme \<Rightarrow> 'a ifs_scheme res" where
  "UpdateBandInfo run i s =
     and_then (the_client i s) (\<lambda>c.
     and_then (GetWiphyInfo run (client_wiphy_index c) (client_wiphy_info c) s) (\<lambda>(_, info, s1).
       modify_client i (set_wiphy_info info) s1))"

text \<open>The default constructor of \<open>WiphyFeatures\<close> leaves the last member as it is.\<close>

definition default_features :: "wiphy_features \<Rightarrow> wiphy_features" where
  "default_features mem =
     mem\<lparr>supports_random_mac_oneshot_scan := False, supports_random_mac_sched_scan := False,
         supports_low_span_oneshot_scan := False, supports_low_power_oneshot_scan := False,
         supports_high_accuracy_oneshot_scan := False, supports_tx_mgmt_frame_mcs := False\<rparr>"

text \<open>
  The constructor: \<open>bssid_\<close>, \<open>associate_freq_\<close> and the scan capabilities have no initialiser.
  The result is the identity of the new object (and of its binder and scanner).
\<close>

definition ClientInterfaceImpl ::
    "(hcall \<Rightarrow> 'a ifs_scheme \<Rightarrow> 'a ifs_scheme res) \<Rightarrow> u32 \<Rightarrow> bytes \<Rightarrow> u32 \<Rightarrow> bytes \<Rightarrow>
     'a ifs_scheme \<Rightarrow> (obj \<times> 'a ifs_scheme) res" where
  "ClientInterfaceImpl run wiphy interface_name interface_index mac_addr s =
     (let i = next_obj s;
          c = (fresh_client s)
                \<lparr>client_wiphy_index := wiphy, client_interface_name := interface_name,
                 client_interface_index := interface_index, client_mac_addr := mac_addr,
                 is_associated := False, client_band_info := BandInfo,
                 client_wiphy_features := default_features (client_wiphy_features (fresh_client s)),
                 frame_tx_in_progress := False, frame_tx_status_cookie := 0, frame_tx_handler := None\<rparr>;
          s1 = s\<lparr>next_obj := i + 1, clients := map_set i c (clients s),
                 client_binders := map_set i \<lparr>client_impl = Some i\<rparr> (client_binders s)\<rparr>;
          s2 = NetlinkUtils_SubscribeChannelSwitchEvent interface_index i
                 (NetlinkUtils_SubscribeFrameTxStatusEvent interface_index i
                   (NetlinkUtils_SubscribeMlmeEvent interface_index i s1))
      in and_then (UpdateBandInfo run i s2) (\<lambda>s3.
         and_then (the_client i s3) (\<lambda>c.
           Inr (i, call_remote (SetUpState (c_str interface_name) True)
                     (ScannerImpl i interface_index (client_scan_capabilities c)
                       (client_wiphy_features c) s3)))))"

definition delete_ClientInterfaceImpl :: "obj \<Rightarrow> 'a ifs_scheme \<Rightarrow> 'a ifs_scheme res" where
  "delete_ClientInterfaceImpl i s =
     and_then (the_client i s) (\<lambda>c.
     and_then (the_client_binder i s) (\<lambda>b.
     and_then (Invalidate i (s\<lparr>client_binders := map_set i (b\<lparr>client_impl := None\<rparr>) (client_binders s)\<rparr>)) (\<lambda>s1.
       let idx = client_interface_index c;
           s2 = NetlinkUtils_UnsubscribeChannelSwitchEvent idx
                  (NetlinkUtils_UnsubscribeMlmeEvent idx (NetlinkUtils_UnsubscribeFrameTxStatusEvent idx s1));
           s3 = call_remote (SetUpState (c_str (client_interface_name c)) False) s2
       in Inr (s3\<lparr>clients := map_erase i (clients s3)\<rparr>))))"

section \<open>Queries\<close>

text \<open>The out vectors hold 32-bit signed integers.\<close>

definition GetPacketCounters ::
    "(hcall \<Rightarrow> 'a ifs_scheme \<Rightarrow> 'a ifs_scheme res) \<Rightarrow> obj \<Rightarrow> int list \<Rightarrow> 'a ifs_scheme \<Rightarrow>
     (bool \<times> int list \<times> 'a ifs_scheme) res" where
  "GetPacketCounters run i out s =
     and_then (the_client i s) (\<lambda>c.
     and_then (GetStationInfo run (client_interface_index c) (associated_bssid c) s) (\<lambda>(r, s1).
       case r of
         None \<Rightarrow> Inr (False, out, s1)
       | Some info \<Rightarrow> Inr (True, out @ [sint (station_tx_packets info), sint (station_tx_failed info)], s1)))"

definition SignalPoll ::
    "(hcall \<Rightarrow> 'a ifs_scheme \<Rightarrow> 'a ifs_scheme res) \<Rightarrow> obj \<Rightarrow> int list \<Rightarrow> 'a ifs_scheme \<Rightarrow>
     (bool \<times> int list \<times> 'a ifs_scheme) res" where
  "SignalPoll run i out s =
     and_then (the_client i s) (\<lambda>c.
       if \<not> is_associated c then Inr (False, out, s)
       else and_then (GetStationInfo run (client_interface_index c) (associated_bssid c) s) (\<lambda>(r, s1).
         case r of
           None \<Rightarrow> Inr (False, out, s1)
         | Some info \<Rightarrow>
             and_then (the_client i s1) (\<lambda>c.
               Inr (True, out @ [sint (current_rssi info), sint (station_tx_bitrate info div 10),
                                 sint (associate_freq c), sint (station_rx_bitrate info div 10)], s1))))"

section \<open>The binder object\<close>

definition getPacketCounters ::
    "(hcall \<Rightarrow> 'a ifs_scheme \<Rightarrow> 'a ifs_scheme res) \<Rightarrow> obj \<Rightarrow> int list \<Rightarrow> 'a ifs_scheme \<Rightarrow>
     (int list \<times> 'a ifs_scheme) res" where
  "getPacketCounters run b out s =
     and_then (the_client_binder b s) (\<lambda>x.
       case client_impl x of
         None \<Rightarrow> Inr (out, s)
       | Some i \<Rightarrow> and_then (GetPacketCounters run i out s) (\<lambda>(_, out1, s1). Inr (out1, s1)))"

definition signalPoll ::
    "(hcall \<Rightarrow> 'a ifs_scheme \<Rightarrow> 'a ifs_scheme res) \<Rightarrow> obj \<Rightarrow> int list \<Rightarrow> 'a ifs_scheme \<Rightarrow>
     (int list \<times> 'a ifs_scheme) res" where
  "signalPoll run b out s =
     and_then (the_client_binder b s) (\<lambda>x.
       case client_impl x of
         None \<Rightarrow> Inr (out, s)
       | Some i \<Rightarrow> and_then (SignalPoll run i out s) (\<lambda>(_, out1, s1). Inr (out1, s1)))"

definition getMacAddress :: "obj \<Rightarrow> bytes \<Rightarrow> 'a ifs_scheme \<Rightarrow> bytes res" where
  "getMacAddress b out s =
     and_then (the_client_binder b s) (\<lambda>x.
       case client_impl x of
         None \<Rightarrow> Inr out
       | Some i \<Rightarrow> and_then (the_client i s) (\<lambda>c. Inr (client_mac_addr c)))"

definition getInterfaceName :: "obj \<Rightarrow> bytes \<Rightarrow> 'a ifs_scheme \<Rightarrow> bytes res" where
  "getInterfaceName b out s =
     and_then (the_client_binder b s) (\<lambda>x.
       case client_impl x of
         None \<Rightarrow> Inr out
       | Some i \<Rightarrow> and_then (the_client i s) (\<lambda>c. Inr (client_interface_name c)))"

definition getWifiScannerImpl :: "obj \<Rightarrow> 'a ifs_scheme \<Rightarrow> obj option res" where
  "getWifiScannerImpl b s =
     and_then (the_client_binder b s) (\<lambda>x.
       case client_impl x of
         None \<Rightarrow> Inr None
       | Some i \<Rightarrow> and_then (the_client i s) (\<lambda>_. Inr (Some i)))"

definition ClientBinder_SendMgmtFrame ::
    "(hcall \<Rightarrow> 'a ifs_scheme \<Rightarrow> 'a ifs_scheme res) \<Rightarrow> obj \<Rightarrow> bytes \<Rightarrow> callback \<Rightarrow> int \<Rightarrow>
     'a ifs_scheme \<Rightarrow> 'a ifs_scheme res" where
  "ClientBinder_SendMgmtFrame run b frame cb mcs s =
     and_then (the_client_binder b s) (\<lambda>x.
       case client_impl x of
         None \<Rightarrow> Inr (call_remote (OnFrameFailure cb SEND_MGMT_FRAME_ERROR_UNKNOWN) s)
       | Some i \<Rightarrow> Client_SendMgmtFrame run i frame cb mcs s)"

end
