(* ===== verification/Ap_Interface.thy ===== *)
theory Ap_Interface
  imports Interface_State
begin

text \<open>
  \<open>ap_interface_impl.{h,cpp}\<close>, \<open>ap_interface_binder.{h,cpp}\<close> and \<open>logging_utils.{h,cpp}\<close>: an access
  point interface, which forwards station and channel-switch events to the registered
  callback through its binder object.
\<close>

definition GetBandwidthString :: "ChannelBandwidth \<Rightarrow> bytes" where
  "GetBandwidthString bandwidth =
     (case bandwidth of
        BW_20_NOHT \<Rightarrow> ascii ''20MHz no HT''
      | BW_20 \<Rightarrow> ascii ''20MHz with HT''
      | BW_40 \<Rightarrow> ascii ''40MHz''
      | BW_80 \<Rightarrow> ascii ''80MHz''
      | BW_80P80 \<Rightarrow> ascii ''80+80MHz''
      | BW_160 \<Rightarrow> ascii ''160MHz''
      | _ \<Rightarrow> ascii ''Invalid'')"

definition hex_digit :: "nat \<Rightarrow> u8" where
  "hex_digit n = (if n < 10 then of_nat (48 + n) else of_nat (87 + n))"

text \<open>Two hexadecimal digits per byte, separated by colons.\<close>

fun GetMacString :: "bytes \<Rightarrow> bytes" where
  "GetMacString [] = []"
| "GetMacString [b] = [hex_digit (unat b div 16), hex_digit (unat b mod 16)]"
| "GetMacString (b # bs) = [hex_digit (unat b div 16), hex_digit (unat b mod 16), 58] @ GetMacString bs"

section \<open>The binder object\<close>

definition NotifyConnectedClientsChanged :: "obj \<Rightarrow> bytes \<Rightarrow> bool \<Rightarrow> 'a ifs_scheme \<Rightarrow> 'a ifs_scheme res" where
  "NotifyConnectedClientsChanged b client isConnected s =
     and_then (the_ap_binder b s) (\<lambda>x.
       case ap_event_callback x of
         None \<Rightarrow> Inr s
       | Some cb \<Rightarrow> Inr (call_remote (OnConnectedClientsChanged cb client isConnected) s))"

definition bandwidth_code :: "ChannelBandwidth \<Rightarrow> int" where
  "bandwidth_code channel_bandwidth =
     (case channel_bandwidth of
        BW_INVALID \<Rightarrow> BANDWIDTH_INVALID
      | BW_20_NOHT \<Rightarrow> BANDWIDTH_20_NOHT
      | BW_20 \<Rightarrow> BANDWIDTH_20
      | BW_40 \<Rightarrow> BANDWIDTH_40
      | BW_80 \<Rightarrow> BANDWIDTH_80
      | BW_80P80 \<Rightarrow> BANDWIDTH_80P80
      | BW_160 \<Rightarrow> BANDWIDTH_160
      | BW_320 \<Rightarrow> BANDWIDTH_320)"

definition NotifySoftApChannelSwitched :: "obj \<Rightarrow> u32 \<Rightarrow> ChannelBandwidth \<Rightarrow> 'a ifs_scheme \<Rightarrow> 'a ifs_scheme res" where
  "NotifySoftApChannelSwitched b freq channel_bandwidth s =
     and_then (the_ap_binder b s) (\<lambda>x.
       case ap_event_callback x of
         None \<Rightarrow> Inr s
       | Some cb \<Rightarrow> Inr (call_remote (OnSoftApChannelSwitched cb freq (bandwidth_code channel_bandwidth)) s))"

definition registerCallback :: "obj \<Rightarrow> callback option \<Rightarrow> 'a ifs_scheme \<Rightarrow> (bool \<times> 'a ifs_scheme) res" where
  "registerCallback b cb s =
     and_then (the_ap_binder b s) (\<lambda>x.
       Inr (True, s\<lparr>ap_binders := map_set b (x\<lparr>ap_event_callback := cb\<rparr>) (ap_binders s)\<rparr>))"

text \<open>Unlike the client binder, this method does not test \<open>impl_\<close>.\<close>

definition Ap_getInterfaceName :: "obj \<Rightarrow> 'a ifs_scheme \<Rightarrow> bytes res" where
  "Ap_getInterfaceName b s =
     and_then (the_ap_binder b s) (\<lambda>x.
       case ap_impl x of
         None \<Rightarrow> Inl Null_Pointer
       | Some i \<Rightarrow> and_then (the_ap i s) (\<lambda>a. Inr (ap_interface_name a)))"

section \<open>The interface\<close>

definition ApInterfaceImpl :: "bytes \<Rightarrow> u32 \<Rightarrow> 'a ifs_scheme \<Rightarrow> obj \<times> 'a ifs_scheme" where
  "ApInterfaceImpl interface_name interface_index s =
     (let i = next_obj s;
          s1 = s\<lparr>next_obj := i + 1,
                 aps := map_set i \<lparr>ap_interface_name = interface_name, ap_interface_index = interface_index\<rparr> (aps s),
                 ap_binders := map_set i \<lparr>ap_impl = Some i, ap_event_callback = None\<rparr> (ap_binders s)\<rparr>
      in (i, NetlinkUtils_SubscribeChannelSwitchEvent interface_index i (NetlinkUtils_SubscribeStationEvent interface_index i s1)))"

definition delete_ApInterfaceImpl :: "obj \<Rightarrow> 'a ifs_scheme \<Rightarrow> 'a ifs_scheme res" where
  "delete_ApInterfaceImpl i s =
     and_then (the_ap i s) (\<lambda>a.
     and_then (the_ap_binder i s) (\<lambda>b.
       let s1 = s\<lparr>ap_binders := map_set i (b\<lparr>ap_impl := None\<rparr>) (ap_binders s)\<rparr>;
           s2 = call_remote (SetUpState (c_str (ap_interface_name a)) False) s1;
           s3 = NetlinkUtils_UnsubscribeChannelSwitchEvent (ap_interface_index a)
                  (NetlinkUtils_UnsubscribeStationEvent (ap_interface_index a) s2)
       in Inr (s3\<lparr>aps := map_erase i (aps s3)\<rparr>)))"

definition Ap_OnStationEvent :: "obj \<Rightarrow> StationEvent \<Rightarrow> bytes \<Rightarrow> 'a ifs_scheme \<Rightarrow> 'a ifs_scheme res" where
  "Ap_OnStationEvent i event mac_address s =
     and_then (the_ap i s) (\<lambda>_.
       case event of
         NEW_STATION \<Rightarrow> NotifyConnectedClientsChanged i mac_address True s
       | DEL_STATION \<Rightarrow> NotifyConnectedClientsChanged i mac_address False s)"

definition Ap_OnChannelSwitchEvent :: "obj \<Rightarrow> u32 \<Rightarrow> ChannelBandwidth \<Rightarrow> 'a ifs_scheme \<Rightarrow> 'a ifs_scheme res" where
  "Ap_OnChannelSwitchEvent i freq bandwidth s =
     and_then (the_ap i s) (\<lambda>_. NotifySoftApChannelSwitched i freq bandwidth s)"

end
