(* ===== verification/Server.thy ===== *)
theory Server
  imports Client_Interface Ap_Interface
begin

text \<open>
  \<open>server.{h,cpp}\<close>: the wificond service. It owns the interface objects by name, remembers
  the wiphy of every interface and one wiphy per band, and broadcasts events to registered
  callbacks. C++ \<open>int\<close> arguments that receive a \<open>uint32_t\<close> wiphy index are 32-bit words here;
  the value -1 is the all-ones word. \<open>dump\<close> and its text are
  in \<open>Server_Dump\<close>.

  The last section is the dispatcher: what the handler identities of the netlink layer stand
  for. Handlers may send requests and so run further handlers, down to a given depth.
\<close>

record device_wiphy_capabilities =
  is80211nSupported :: bool
  is80211acSupported :: bool
  is80211axSupported :: bool
  is80211beSupported :: bool
  is160MhzSupported :: bool
  is80p80MhzSupported :: bool
  is320MhzSupported :: bool
  maxTxStreams :: u32
  maxRxStreams :: u32

definition DeviceWiphyCapabilities :: device_wiphy_capabilities where
  "DeviceWiphyCapabilities =
     \<lparr>is80211nSupported = False, is80211acSupported = False, is80211axSupported = False,
      is80211beSupported = False, is160MhzSupported = False, is80p80MhzSupported = False,
      is320MhzSupported = False, maxTxStreams = 1, maxRxStreams = 1\<rparr>"

record srv = ifs +
  band_to_wiphy_index_map :: "(u32, u32) omap"
  iface_to_wiphy_index_map :: "(bytes, u32) omap"
  ap_interfaces :: "(bytes, obj) omap"
  client_interfaces :: "(bytes, obj) omap"
  interface_event_callbacks :: "callback list"
  wificond_event_callbacks :: "callback list"
  debug_interfaces :: "interface_info list"

text \<open>
  The constructor, around a \<open>NetlinkManager\<close>: the members of \<open>Server\<close> are empty. The other
  arguments are the environment: what \<open>if_nametoindex\<close> answers and the contents of memory
  that later objects are made in.
\<close>

definition Server ::
    "nlm \<Rightarrow> (bytes \<Rightarrow> u32) \<Rightarrow> native_scan_result \<Rightarrow> client_interface \<Rightarrow> wiphy_info \<Rightarrow> srv" where
  "Server nl names scan_mem client_mem info_mem =
     \<lparr>is_started = is_started nl, sync_netlink_fd = sync_netlink_fd nl,
      async_netlink_fd = async_netlink_fd nl,
      sync_netlink_destination = sync_netlink_destination nl,
      async_netlink_destination = async_netlink_destination nl,
      message_handlers = message_handlers nl,
      on_scan_result_ready_handler = on_scan_result_ready_handler nl,
      on_sched_scan_result_ready_handler = on_sched_scan_result_ready_handler nl,
      on_mlme_event_handler = on_mlme_event_handler nl,
      on_reg_domain_changed_handler = on_reg_domain_changed_handler nl,
      on_station_event_handler = on_station_event_handler nl,
      on_channel_switch_event_handler = on_channel_switch_event_handler nl,
      on_frame_tx_status_event_handler = on_frame_tx_status_event_handler nl,
      message_types = message_types nl, sequence_number = sequence_number nl,
      ReceiveBuffer = ReceiveBuffer nl, response_vecs = response_vecs nl,
      net_script = net_script nl, interceptor_enabled = interceptor_enabled nl,
      own_pid = own_pid nl, watched_fds = watched_fds nl, sent_packets = sent_packets nl,
      supports_split_wiphy_dump = False, name_to_index = names, fresh_scan_result = scan_mem,
      next_obj = 1, scanners = [], clients = [], aps = [], client_binders = [], ap_binders = [],
      remote_calls = [], now_ns = 0, fresh_client = client_mem, fresh_info = info_mem,
      band_to_wiphy_index_map = [], iface_to_wiphy_index_map = [], ap_interfaces = [],
      client_interfaces = [], interface_event_callbacks = [], wificond_event_callbacks = [],
      debug_interfaces = []\<rparr>"

definition server_hid :: hid where
  [simp]: "server_hid = 0"

section \<open>Callbacks\<close>

definition registerWificondEventCallback :: "callback \<Rightarrow> 'a srv_scheme \<Rightarrow> 'a srv_scheme" where
  "registerWificondEventCallback cb s =
     (if cb \<in> set (wificond_event_callbacks s) then s
      else s\<lparr>wificond_event_callbacks := wificond_event_callbacks s @ [cb]\<rparr>)"

definition unregisterWificondEventCallback :: "callback \<Rightarrow> 'a srv_scheme \<Rightarrow> 'a srv_scheme" where
  "unregisterWificondEventCallback cb s =
     s\<lparr>wificond_event_callbacks := remove1 cb (wificond_event_callbacks s)\<rparr>"

definition RegisterCallback :: "callback \<Rightarrow> 'a srv_scheme \<Rightarrow> 'a srv_scheme" where
  "RegisterCallback cb s =
     (if cb \<in> set (interface_event_callbacks s) then s
      else s\<lparr>interface_event_callbacks := interface_event_callbacks s @ [cb]\<rparr>)"

definition UnregisterCallback :: "callback \<Rightarrow> 'a srv_scheme \<Rightarrow> 'a srv_scheme" where
  "UnregisterCallback cb s =
     s\<lparr>interface_event_callbacks := remove1 cb (interface_event_callbacks s)\<rparr>"

definition BroadcastClientInterfaceReady :: "obj \<Rightarrow> 'a srv_scheme \<Rightarrow> 'a srv_scheme" where
  "BroadcastClientInterfaceReady b s =
     fold (\<lambda>cb. call_remote (OnClientInterfaceReady cb b)) (interface_event_callbacks s) s"

definition BroadcastApInterfaceReady :: "obj \<Rightarrow> 'a srv_scheme \<Rightarrow> 'a srv_scheme" where
  "BroadcastApInterfaceReady b s =
     fold (\<lambda>cb. call_remote (OnApInterfaceReady cb b)) (interface_event_callbacks s) s"

definition BroadcastClientInterfaceTornDown :: "obj \<Rightarrow> 'a srv_scheme \<Rightarrow> 'a srv_scheme" where
  "BroadcastClientInterfaceTornDown b s =
     fold (\<lambda>cb. call_remote (OnClientTorndownEvent cb b)) (interface_event_callbacks s) s"

definition BroadcastApInterfaceTornDown :: "obj \<Rightarrow> 'a srv_scheme \<Rightarrow> 'a srv_scheme" where
  "BroadcastApInterfaceTornDown b s =
     fold (\<lambda>cb. call_remote (OnApTorndownEvent cb b)) (interface_event_callbacks s) s"

definition BroadcastRegDomainChanged :: "bytes \<Rightarrow> 'a srv_scheme \<Rightarrow> 'a srv_scheme" where
  "BroadcastRegDomainChanged country_code s =
     fold (\<lambda>cb. call_remote (OnRegDomainChangedEvent cb country_code)) (wificond_event_callbacks s) s"

section \<open>Wiphys and bands\<close>

definition hasNoIfaceForWiphyIndex :: "u32 \<Rightarrow> 'a srv_scheme \<Rightarrow> bool" where
  "hasNoIfaceForWiphyIndex wiphy s =
     (find (\<lambda>kv. snd kv = wiphy) (iface_to_wiphy_index_map s) = None)"

definition FindWiphyIndex :: "bytes \<Rightarrow> 'a srv_scheme \<Rightarrow> u32" where
  "FindWiphyIndex iface_name s =
     (case find (\<lambda>kv. fst kv = iface_name) (iface_to_wiphy_index_map s) of
        None \<Rightarrow> -1 | Some kv \<Rightarrow> snd kv)"

text \<open>Default-constructed locals \<open>BandInfo\<close>, \<open>ScanCapabilities\<close>, \<open>WiphyFeatures\<close>.\<close>

definition fresh_locals :: "'a ifs_scheme \<Rightarrow> wiphy_info" where
  "fresh_locals s =
     (BandInfo, fst (snd (fresh_info s)), default_features (snd (snd (fresh_info s))))"

definition GetBandInfo ::
    "(hcall \<Rightarrow> 'a ifs_scheme \<Rightarrow> 'a ifs_scheme res) \<Rightarrow> u32 \<Rightarrow> 'a ifs_scheme \<Rightarrow>
     (band_info option \<times> 'a ifs_scheme) res" where
  "GetBandInfo run wiphy s =
     (if wiphy = -1 then Inr (None, s)
      else and_then (GetWiphyInfo run wiphy (fresh_locals s) s) (\<lambda>(ok, info, s1).
        Inr (if ok then Some (fst info) else None, s1)))"

definition GetWiphyIndexFromBand :: "nat \<Rightarrow> 'a srv_scheme \<Rightarrow> u32" where
  "GetWiphyIndexFromBand band s =
     (case map_find (band_to_wiphy_index_map s) (of_nat band) of None \<Rightarrow> -1 | Some w \<Rightarrow> w)"

definition add_band :: "bool \<Rightarrow> nat \<Rightarrow> u32 \<Rightarrow> 'a srv_scheme \<Rightarrow> 'a srv_scheme" where
  "add_band present band wiphy s =
     (if present \<and> map_find (band_to_wiphy_index_map s) (of_nat band) = None
      then s\<lparr>band_to_wiphy_index_map := map_set (of_nat band) wiphy (band_to_wiphy_index_map s)\<rparr>
      else s)"

definition UpdateBandWiphyIndexMap ::
    "(hcall \<Rightarrow> 'a srv_scheme \<Rightarrow> 'a srv_scheme res) \<Rightarrow> u32 \<Rightarrow> 'a srv_scheme \<Rightarrow> 'a srv_scheme res" where
  "UpdateBandWiphyIndexMap run wiphy s =
     and_then (GetBandInfo run wiphy s) (\<lambda>(r, s1).
       case r of
         None \<Rightarrow> Inr s1
       | Some b \<Rightarrow>
           Inr (add_band (band_60g b \<noteq> []) NL80211_BAND_60GHZ wiphy
               (add_band (band_6g b \<noteq> []) NL80211_BAND_6GHZ wiphy
               (add_band (band_dfs b \<noteq> []) NL80211_BAND_5GHZ wiphy
               (add_band (band_5g b \<noteq> []) NL80211_BAND_5GHZ wiphy
               (add_band (band_2g b \<noteq> []) NL80211_BAND_2GHZ wiphy s1))))))"

definition EraseBandWiphyIndexMap :: "u32 \<Rightarrow> 'a srv_scheme \<Rightarrow> 'a srv_scheme" where
  "EraseBandWiphyIndexMap wiphy s =
     s\<lparr>band_to_wiphy_index_map := filter (\<lambda>kv. snd kv \<noteq> wiphy) (band_to_wiphy_index_map s)\<rparr>"

text \<open>The five channel queries differ in the band they look up and the list they return.\<close>

definition available_channels ::
    "nat \<Rightarrow> (band_info \<Rightarrow> u32 list) \<Rightarrow> (hcall \<Rightarrow> 'a srv_scheme \<Rightarrow> 'a srv_scheme res) \<Rightarrow>
     'a srv_scheme \<Rightarrow> (u32 list option \<times> 'a srv_scheme) res" where
  "available_channels band sel run s =
     and_then (GetBandInfo run (GetWiphyIndexFromBand band s) s) (\<lambda>(r, s1).
       case r of
         None \<Rightarrow> Inr (None, s1)
       | Some b \<Rightarrow> Inr (if length (sel b) = 0 then None else Some (sel b), s1))"

definition getAvailable2gChannels ::
    "(hcall \<Rightarrow> 'a srv_scheme \<Rightarrow> 'a srv_scheme res) \<Rightarrow> 'a srv_scheme \<Rightarrow> (u32 list option \<times> 'a srv_scheme) res" where
  "getAvailable2gChannels = available_channels NL80211_BAND_2GHZ band_2g"

definition getAvailable5gNonDFSChannels ::
    "(hcall \<Rightarrow> 'a srv_scheme \<Rightarrow> 'a srv_scheme res) \<Rightarrow> 'a srv_scheme \<Rightarrow> (u32 list option \<times> 'a srv_scheme) res" where
  "getAvailable5gNonDFSChannels = available_channels NL80211_BAND_5GHZ band_5g"

definition getAvailableDFSChannels ::
    "(hcall \<Rightarrow> 'a srv_scheme \<Rightarrow> 'a srv_scheme res) \<Rightarrow> 'a srv_scheme \<Rightarrow> (u32 list option \<times> 'a srv_scheme) res" where
  "getAvailableDFSChannels = available_channels NL80211_BAND_5GHZ band_dfs"

definition getAvailable6gChannels ::
    "(hcall \<Rightarrow> 'a srv_scheme \<Rightarrow> 'a srv_scheme res) \<Rightarrow> 'a srv_scheme \<Rightarrow> (u32 list option \<times> 'a srv_scheme) res" where
  "getAvailable6gChannels = available_channels NL80211_BAND_6GHZ band_6g"

definition getAvailable60gChannels ::
    "(hcall \<Rightarrow> 'a srv_scheme \<Rightarrow> 'a srv_scheme res) \<Rightarrow> 'a srv_scheme \<Rightarrow> (u32 list option \<times> 'a srv_scheme) res" where
  "getAvailable60gChannels = available_channels NL80211_BAND_60GHZ band_60g"

text \<open>
  On the two error paths the code assigns \<open>nullptr\<close> to its own copy of the out pointer, so
  the caller's object keeps its value \<open>capabilities\<close>.
\<close>

definition getDeviceWiphyCapabilities ::
    "(hcall \<Rightarrow> 'a srv_scheme \<Rightarrow> 'a srv_scheme res) \<Rightarrow> bytes \<Rightarrow> device_wiphy_capabilities option \<Rightarrow>
     'a srv_scheme \<Rightarrow> (device_wiphy_capabilities option \<times> 'a srv_scheme) res" where
  "getDeviceWiphyCapabilities run iface_name capabilities s =
     (let wiphy = FindWiphyIndex iface_name s in
      if wiphy = -1 then Inr (capabilities, s)
      else and_then (GetWiphyInfo run wiphy (fresh_locals s) s) (\<lambda>(ok, info, s1).
        if \<not> ok then Inr (capabilities, s1)
        else
          let b = fst info in
          Inr (Some (DeviceWiphyCapabilities
            \<lparr>is80211nSupported := is_80211n_supported b, is80211acSupported := is_80211ac_supported b,
             is80211axSupported := is_80211ax_supported b, is80211beSupported := is_80211be_supported b,
             is160MhzSupported := is_160_mhz_supported b, is80p80MhzSupported := is_80p80_mhz_supported b,
             is320MhzSupported := is_320_mhz_supported b,
             maxTxStreams := of_nat (max_tx_streams b), maxRxStreams := of_nat (max_rx_streams b)\<rparr>), s1)))"

section \<open>Creating and tearing down interfaces\<close>

definition SetupInterface ::
    "(hcall \<Rightarrow> 'a srv_scheme \<Rightarrow> 'a srv_scheme res) \<Rightarrow> bytes \<Rightarrow> 'a srv_scheme \<Rightarrow>
     ((interface_info \<times> u32) option \<times> 'a srv_scheme) res" where
  "SetupInterface run iface_name s =
     and_then (GetWiphyIndex run iface_name s) (\<lambda>(w, s1).
       case w of
         None \<Rightarrow> Inr (None, s1)
       | Some wiphy \<Rightarrow>
           let s2 = (NetlinkUtils_SubscribeRegDomainChange wiphy server_hid s1)\<lparr>debug_interfaces := []\<rparr> in
           and_then (GetInterfaces run wiphy [] s2) (\<lambda>(ok, infos, s3).
             let s4 = s3\<lparr>debug_interfaces := infos\<rparr> in
             if \<not> ok then Inr (None, s4)
             else case find (\<lambda>iface. info_name iface = iface_name) infos of
               None \<Rightarrow> Inr (None, s4)
             | Some iface \<Rightarrow> Inr (Some (iface, wiphy), s4)))"

text \<open>The common end of both create functions.\<close>

definition note_wiphy ::
    "(hcall \<Rightarrow> 'a srv_scheme \<Rightarrow> 'a srv_scheme res) \<Rightarrow> bytes \<Rightarrow> u32 \<Rightarrow> 'a srv_scheme \<Rightarrow> 'a srv_scheme res" where
  "note_wiphy run iface_name wiphy s =
     and_then (if hasNoIfaceForWiphyIndex wiphy s then UpdateBandWiphyIndexMap run wiphy s else Inr s) (\<lambda>s1.
       Inr (s1\<lparr>iface_to_wiphy_index_map := map_set iface_name wiphy (iface_to_wiphy_index_map s1)\<rparr>))"

text \<open>
  \<open>createClientInterface\<close>: the object that was stored under the name is destroyed by the
  assignment, after the new one was built and stored.
\<close>

definition createClientInterface ::
    "(hcall \<Rightarrow> 'a srv_scheme \<Rightarrow> 'a srv_scheme res) \<Rightarrow> bytes \<Rightarrow> 'a srv_scheme \<Rightarrow>
     (obj option \<times> 'a srv_scheme) res" where
  "createClientInterface run iface_name s =
     and_then (SetupInterface run iface_name s) (\<lambda>(r, s1).
       case r of
         None \<Rightarrow> Inr (None, s1)
       | Some (iface, wiphy) \<Rightarrow>
           and_then (ClientInterfaceImpl run wiphy (info_name iface) (info_if_index iface)
                       (info_mac_address iface) s1) (\<lambda>(i, s2).
             let s3 = BroadcastClientInterfaceReady i s2;
                 old = map_find (client_interfaces s3) iface_name;
                 s4 = s3\<lparr>client_interfaces := map_set iface_name i (client_interfaces s3)\<rparr>
             in and_then (case old of None \<Rightarrow> Inr s4 | Some j \<Rightarrow> delete_ClientInterfaceImpl j s4) (\<lambda>s5.
                and_then (note_wiphy run iface_name wiphy s5) (\<lambda>s6. Inr (Some i, s6)))))"

definition createApInterface ::
    "(hcall \<Rightarrow> 'a srv_scheme \<Rightarrow> 'a srv_scheme res) \<Rightarrow> bytes \<Rightarrow> 'a srv_scheme \<Rightarrow>
     (obj option \<times> 'a srv_scheme) res" where
  "createApInterface run iface_name s =
     and_then (SetupInterface run iface_name s) (\<lambda>(r, s1).
       case r of
         None \<Rightarrow> Inr (None, s1)
       | Some (iface, wiphy) \<Rightarrow>
           let (i, s2) = ApInterfaceImpl (info_name iface) (info_if_index iface) s1;
               s3 = BroadcastApInterfaceReady i s2;
               old = map_find (ap_interfaces s3) iface_name;
               s4 = s3\<lparr>ap_interfaces := map_set iface_name i (ap_interfaces s3)\<rparr>
           in and_then (case old of None \<Rightarrow> Inr s4 | Some j \<Rightarrow> delete_ApInterfaceImpl j s4) (\<lambda>s5.
              and_then (note_wiphy run iface_name wiphy s5) (\<lambda>s6. Inr (Some i, s6))))"

definition forget_wiphy :: "bytes \<Rightarrow> 'a srv_scheme \<Rightarrow> 'a srv_scheme" where
  "forget_wiphy iface_name s =
     (case map_find (iface_to_wiphy_index_map s) iface_name of
        None \<Rightarrow> s
      | Some wiphy \<Rightarrow>
          let s1 = s\<lparr>iface_to_wiphy_index_map := map_erase iface_name (iface_to_wiphy_index_map s)\<rparr>
          in if hasNoIfaceForWiphyIndex wiphy s1 then EraseBandWiphyIndexMap wiphy s1 else s1)"

definition tearDownClientInterface :: "bytes \<Rightarrow> 'a srv_scheme \<Rightarrow> (bool \<times> 'a srv_scheme) res" where
  "tearDownClientInterface iface_name s =
     (case map_find (client_interfaces s) iface_name of
        None \<Rightarrow> Inr (False, forget_wiphy iface_name s)
      | Some i \<Rightarrow>
          let s1 = BroadcastClientInterfaceTornDown i s;
              s2 = s1\<lparr>client_interfaces := map_erase iface_name (client_interfaces s1)\<rparr>
          in and_then (delete_ClientInterfaceImpl i s2) (\<lambda>s3. Inr (True, forget_wiphy iface_name s3)))"

definition tearDownApInterface :: "bytes \<Rightarrow> 'a srv_scheme \<Rightarrow> (bool \<times> 'a srv_scheme) res" where
  "tearDownApInterface iface_name s =
     (case map_find (ap_interfaces s) iface_name of
        None \<Rightarrow> Inr (False, forget_wiphy iface_name s)
      | Some i \<Rightarrow>
          let s1 = BroadcastApInterfaceTornDown i s;
              s2 = s1\<lparr>ap_interfaces := map_erase iface_name (ap_interfaces s1)\<rparr>
          in and_then (delete_ApInterfaceImpl i s2) (\<lambda>s3. Inr (True, forget_wiphy iface_name s3)))"

primrec delete_clients :: "(bytes \<times> obj) list \<Rightarrow> 'a srv_scheme \<Rightarrow> 'a srv_scheme res" where
  "delete_clients [] s = Inr s"
| "delete_clients (it # its) s = and_then (delete_ClientInterfaceImpl (snd it) s) (delete_clients its)"

primrec delete_aps :: "(bytes \<times> obj) list \<Rightarrow> 'a srv_scheme \<Rightarrow> 'a srv_scheme res" where
  "delete_aps [] s = Inr s"
| "delete_aps (it # its) s = and_then (delete_ApInterfaceImpl (snd it) s) (delete_aps its)"

definition MarkDownAllInterfaces :: "'a srv_scheme \<Rightarrow> 'a srv_scheme" where
  "MarkDownAllInterfaces s =
     fold (\<lambda>it. call_remote (SetUpState (c_str (fst it)) False)) (iface_to_wiphy_index_map s) s"

definition tearDownInterfaces :: "'a srv_scheme \<Rightarrow> 'a srv_scheme res" where
  "tearDownInterfaces s =
     (let s1 = fold (\<lambda>it. BroadcastClientInterfaceTornDown (snd it)) (client_interfaces s) s in
      and_then (delete_clients (client_interfaces s1) (s1\<lparr>client_interfaces := []\<rparr>)) (\<lambda>s2.
        let s3 = fold (\<lambda>it. BroadcastApInterfaceTornDown (snd it)) (ap_interfaces s2) s2 in
      and_then (delete_aps (ap_interfaces s3) (s3\<lparr>ap_interfaces := []\<rparr>)) (\<lambda>s4.
        let s5 = MarkDownAllInterfaces s4;
            s6 = fold (\<lambda>it s. EraseBandWiphyIndexMap (snd it) (NetlinkUtils_UnsubscribeRegDomainChange (snd it) s))
                   (iface_to_wiphy_index_map s5) s5
        in Inr (s6\<lparr>iface_to_wiphy_index_map := []\<rparr>))))"

definition GetClientInterfaces :: "'a srv_scheme \<Rightarrow> obj list" where
  "GetClientInterfaces s = map snd (client_interfaces s)"

definition GetApInterfaces :: "'a srv_scheme \<Rightarrow> obj list" where
  "GetApInterfaces s = map snd (ap_interfaces s)"

section \<open>Regulatory domain changes\<close>

definition LogSupportedBands ::
    "(hcall \<Rightarrow> 'a ifs_scheme \<Rightarrow> 'a ifs_scheme res) \<Rightarrow> u32 \<Rightarrow> 'a ifs_scheme \<Rightarrow> 'a ifs_scheme res" where
  "LogSupportedBands run wiphy s =
     and_then (GetWiphyInfo run wiphy (fresh_locals s) s) (\<lambda>(_, _, s1). Inr s1)"

text \<open>One iteration of the loops: the wiphy of an interface is handled once.\<close>

definition handle_wiphy ::
    "(hcall \<Rightarrow> 'a srv_scheme \<Rightarrow> 'a srv_scheme res) \<Rightarrow> bytes \<Rightarrow> u32 list \<Rightarrow> 'a srv_scheme \<Rightarrow>
     (u32 list \<times> 'a srv_scheme) res" where
  "handle_wiphy run iface_name handled s =
     and_then (GetWiphyIndex run iface_name s) (\<lambda>(w, s1).
       case w of
         None \<Rightarrow> Inr (handled, s1)
       | Some wiphy \<Rightarrow>
           if wiphy \<in> set handled then Inr (handled, s1)
           else and_then (UpdateBandWiphyIndexMap run wiphy s1) (\<lambda>s2.
                and_then (LogSupportedBands run wiphy s2) (\<lambda>s3. Inr (handled @ [wiphy], s3))))"

primrec handle_clients ::
    "(hcall \<Rightarrow> 'a srv_scheme \<Rightarrow> 'a srv_scheme res) \<Rightarrow> (bytes \<times> obj) list \<Rightarrow> u32 list \<Rightarrow> 'a srv_scheme \<Rightarrow>
     (u32 list \<times> 'a srv_scheme) res" where
  "handle_clients run [] handled s = Inr (handled, s)"
| "handle_clients run (it # its) handled s =
     and_then (UpdateBandInfo run (snd it) s) (\<lambda>s1.
     and_then (handle_wiphy run (fst it) handled s1) (\<lambda>(handled1, s2).
       handle_clients run its handled1 s2))"

primrec handle_aps ::
    "(hcall \<Rightarrow> 'a srv_scheme \<Rightarrow> 'a srv_scheme res) \<Rightarrow> (bytes \<times> obj) list \<Rightarrow> u32 list \<Rightarrow> 'a srv_scheme \<Rightarrow>
     'a srv_scheme res" where
  "handle_aps run [] handled s = Inr s"
| "handle_aps run (it # its) handled s =
     and_then (handle_wiphy run (fst it) handled s) (\<lambda>(handled1, s1). handle_aps run its handled1 s1)"

definition handleCountryCodeChanged ::
    "(hcall \<Rightarrow> 'a srv_scheme \<Rightarrow> 'a srv_scheme res) \<Rightarrow> 'a srv_scheme \<Rightarrow> 'a srv_scheme res" where
  "handleCountryCodeChanged run s =
     and_then (handle_clients run (client_interfaces s) [] s) (\<lambda>(handled, s1).
       handle_aps run (ap_interfaces s1) handled s1)"

definition notifyCountryCodeChanged ::
    "(hcall \<Rightarrow> 'a srv_scheme \<Rightarrow> 'a srv_scheme res) \<Rightarrow> 'a srv_scheme \<Rightarrow> 'a srv_scheme res" where
  "notifyCountryCodeChanged run s = handleCountryCodeChanged run s"

definition OnRegDomainChanged ::
    "(hcall \<Rightarrow> 'a srv_scheme \<Rightarrow> 'a srv_scheme res) \<Rightarrow> u32 \<Rightarrow> bytes \<Rightarrow> 'a srv_scheme \<Rightarrow> 'a srv_scheme res" where
  "OnRegDomainChanged run wiphy country_code s =
     and_then (if country_code = []
               then and_then (GetCountryCode run s) (\<lambda>(r, s1). Inr (value_or [] r, s1))
               else Inr (country_code, s)) (\<lambda>(current_country_code, s1).
       let s2 = (if current_country_code \<noteq> [] then BroadcastRegDomainChanged current_country_code s1 else s1)
       in if \<not> hasNoIfaceForWiphyIndex wiphy s2 then handleCountryCodeChanged run s2 else Inr s2)"

section \<open>The dispatcher\<close>

text \<open>
  What running a handler means. Scan handlers belong to a scanner, MLME and frame handlers to
  a client interface, station handlers to an access point; a channel-switch handler to
  either. No component of the program calls \<open>RegisterHandlerAndSendMessage\<close>.
\<close>

definition handle ::
    "(hcall \<Rightarrow> 'a srv_scheme \<Rightarrow> 'a srv_scheme res) \<Rightarrow> hcall \<Rightarrow> 'a srv_scheme \<Rightarrow> 'a srv_scheme res" where
  "handle run c s =
     (case c of
        CallScanResults h idx aborted ssids freqs \<Rightarrow> Scanner_OnScanResultsReady h aborted s
      | CallSchedScanResults h idx scan_stopped \<Rightarrow> Scanner_OnSchedScanResultsReady h scan_stopped s
      | CallRegDomainChanged h wiphy country_code \<Rightarrow> OnRegDomainChanged run wiphy country_code s
      | CallStationEvent h event mac \<Rightarrow> Ap_OnStationEvent h event mac s
      | CallChannelSwitch h freq bandwidth \<Rightarrow>
          (case map_find (clients s) h of
             Some _ \<Rightarrow> Client_OnChannelSwitchEvent h freq s
           | None \<Rightarrow> Ap_OnChannelSwitchEvent h freq bandwidth s)
      | CallFrameTxStatus h cookie was_acked \<Rightarrow> Client_OnFrameTxStatusEvent h cookie was_acked s
      | CallOnConnect h e \<Rightarrow> OnConnect run h e s
      | CallOnAssociate h e \<Rightarrow> OnAssociate run h e s
      | CallOnRoam h e \<Rightarrow> OnRoam run h e s
      | CallOnDisconnect h e \<Rightarrow> OnDisconnect h e s
      | CallOnDisassociate h e \<Rightarrow> OnDisassociate h e s
      | CallMessageHandler h packet \<Rightarrow> Inr s)"

primrec dispatch :: "nat \<Rightarrow> hcall \<Rightarrow> 'a srv_scheme \<Rightarrow> 'a srv_scheme res" where
  "dispatch 0 c s = Inl Call_Depth"
| "dispatch (Suc n) c s = handle (dispatch n) c s"

end
