(* ===== verification/Handler_Frames.thy ===== *)
theory Handler_Frames
  imports Server
begin

text \<open>
  What running handlers can do to the state. The locale \<open>server_relation\<close> collects the
  elementary updates that handlers make to the objects of the program; a relation that these
  updates keep is kept by every handler, by every request that may run handlers, and so, by
  induction on the nesting depth, by the dispatcher. Two relations are instances: the
  contract on response vectors (\<open>good_step\<close>) and \<open>same_objects\<close>, which says that handlers
  neither create nor destroy objects and leave all registrations alone.
\<close>

locale server_relation = handler_relation run R
  for run :: "hcall \<Rightarrow> 'b srv_scheme \<Rightarrow> 'b srv_scheme res" and R +
  assumes scanner_R: "map_find (scanners s) i = Some x \<Longrightarrow> valid x' = valid x \<Longrightarrow>
      scanner_interface_index x' = scanner_interface_index x \<Longrightarrow>
      R s (s\<lparr>scanners := map_set i x' (scanners s)\<rparr>)"
    and client_R: "map_find (clients s) i = Some c \<Longrightarrow>
      client_interface_index c' = client_interface_index c \<Longrightarrow>
      R s (s\<lparr>clients := map_set i c' (clients s)\<rparr>)"
    and remote_R: "R s (call_remote r s)"
    and bands_R: "R s (s\<lparr>band_to_wiphy_index_map := m\<rparr>)"
begin

section \<open>Requests\<close>

lemma new_request_R: "new_request command s = Inr (p, s') \<Longrightarrow> R s s'"
  by (auto simp: new_request_def split: prod.splits elim!: and_then_InrE
      dest!: GetFamilyId_R GetSequenceNumber_R) (blast intro: R_trans)+

lemma send_with_retry_R: "send_with_retry run i p response s = Inr (ok, out, s') \<Longrightarrow> R s s'"
proof (induction i arbitrary: response s)
  case 0
  then show ?case
    by (subst (asm) send_with_retry.simps; auto elim!: and_then_InrE split: if_splits dest!: SendMessageAndGetResponses_R)
next
  case (Suc i)
  from Suc.prems show ?case
    by (auto simp: send_with_retry.simps [of _ "Suc i"] elim!: and_then_InrE split: if_splits
        dest!: SendMessageAndGetResponses_R) (blast intro: R_trans Suc.IH)+
qed

lemma dump_reply_ok_R: "dump_reply_ok command p s = Inr (ok, s') \<Longrightarrow> R s s'"
  by (auto simp: dump_reply_ok_def R_refl elim!: and_then_InrE split: if_splits dest!: GetFamilyId_R)

lemma wiphy_index_loop_R: "wiphy_index_loop ps out s = Inr (w, s') \<Longrightarrow> R s s'"
  by (induction ps arbitrary: out s;
      auto simp: R_refl elim!: and_then_InrE if_value_InrE split: if_splits dest!: dump_reply_ok_R) (blast intro: R_trans)+

lemma GetWiphyIndex_R: "GetWiphyIndex run name s = Inr (w, s') \<Longrightarrow> R s s'"
  by (auto simp: GetWiphyIndex_def Let_def elim!: and_then_InrE split: if_splits
      dest!: new_request_R send_with_retry_R wiphy_index_loop_R) (blast intro: R_trans)+

lemma interfaces_loop_R: "interfaces_loop w ps out s = Inr (ok, out', s') \<Longrightarrow> R s s'"
  by (induction ps arbitrary: out s;
      auto simp: R_refl elim!: and_then_InrE if_value_InrE split: if_splits dest!: dump_reply_ok_R) (blast intro: R_trans)+

lemma GetInterfaces_R: "GetInterfaces run w infos s = Inr (ok, out, s') \<Longrightarrow> R s s'"
  by (auto simp: GetInterfaces_def Let_def elim!: and_then_InrE split: if_splits
      dest!: new_request_R SendMessageAndGetResponses_R interfaces_loop_R) (blast intro: R_trans)+

lemma GetWiphyInfo_R: "GetWiphyInfo run w info s = Inr (ok, out, s') \<Longrightarrow> R s s'"
  by (auto simp: GetWiphyInfo_def Let_def elim!: and_then_InrE split: if_splits
      dest!: new_request_R send_with_retry_R) (blast intro: R_trans)+

lemma GetStationInfo_R: "GetStationInfo run idx mac s = Inr (r, s') \<Longrightarrow> R s s'"
  by (auto simp: GetStationInfo_def Let_def elim!: and_then_InrE split: option.splits
      dest!: new_request_R SingleResponse_R) (blast intro: R_trans)+

lemma GetCountryCode_R: "GetCountryCode run s = Inr (r, s') \<Longrightarrow> R s s'"
  by (auto simp: GetCountryCode_def elim!: and_then_InrE split: option.splits
      dest!: new_request_R SingleResponse_R) (blast intro: R_trans)+

lemma scan_results_loop_R: "scan_results_loop idx ps out s = Inr (out', s') \<Longrightarrow> R s s'"
  by (induction ps arbitrary: out s;
      auto simp: R_refl elim!: and_then_InrE if_value_InrE split: if_splits dest!: GetFamilyId_R) (blast intro: R_trans)+

lemma GetScanResult_R: "GetScanResult run idx out s = Inr (ok, out', s') \<Longrightarrow> R s s'"
  by (auto simp: GetScanResult_def Let_def elim!: and_then_InrE split: if_splits
      dest!: new_request_R SendMessageAndGetResponses_R scan_results_loop_R) (blast intro: R_trans)+

section \<open>Handlers\<close>

lemma modify_scanner_R:
  "modify_scanner i f s = Inr s' \<Longrightarrow>
     (\<And>x. valid (f x) = valid x \<and> scanner_interface_index (f x) = scanner_interface_index x) \<Longrightarrow> R s s'"
  by (auto simp: modify_scanner_def the_scanner_def split: option.splits intro: scanner_R)

lemma modify_client_R:
  "modify_client i f s = Inr s' \<Longrightarrow>
     (\<And>c. client_interface_index (f c) = client_interface_index c) \<Longrightarrow> R s s'"
  by (auto simp: modify_client_def the_client_def split: option.splits intro: client_R)

lemma Scanner_OnScanResultsReady_R: "Scanner_OnScanResultsReady i aborted s = Inr s' \<Longrightarrow> R s s'"
  by (auto simp: Scanner_OnScanResultsReady_def R_refl elim!: and_then_InrE split: option.splits if_splits
      dest!: modify_scanner_R) (blast intro: R_trans remote_R)+

lemma Scanner_OnSchedScanResultsReady_R: "Scanner_OnSchedScanResultsReady i stopped s = Inr s' \<Longrightarrow> R s s'"
  by (auto simp: Scanner_OnSchedScanResultsReady_def R_refl remote_R elim!: and_then_InrE
      split: option.splits if_splits dest!: modify_scanner_R) (blast intro: R_trans remote_R)+

lemma RefreshAssociateFreq_R: "RefreshAssociateFreq run i s = Inr (b, s') \<Longrightarrow> R s s'"
  by (auto simp: RefreshAssociateFreq_def elim!: and_then_InrE split: if_splits
      dest!: GetScanResult_R modify_client_R) (blast intro: R_trans)+

lemma mark_associated_R: "mark_associated run i bssid s = Inr s' \<Longrightarrow> R s s'"
  by (auto simp: mark_associated_def elim!: and_then_InrE dest!: modify_client_R RefreshAssociateFreq_R)
    (blast intro: R_trans)+

lemma mark_disassociated_R: "mark_disassociated i s = Inr s' \<Longrightarrow> R s s'"
  by (auto simp: mark_disassociated_def dest!: modify_client_R)

lemma Client_OnChannelSwitchEvent_R: "Client_OnChannelSwitchEvent i freq s = Inr s' \<Longrightarrow> R s s'"
  by (auto simp: Client_OnChannelSwitchEvent_def R_refl split: if_splits dest!: modify_client_R)

lemma run_frame_tx_handler_R: "R s (run_frame_tx_handler h was_acked s)"
  by (auto simp: run_frame_tx_handler_def R_refl remote_R split: option.splits)

lemma Client_OnFrameTxStatusEvent_R: "Client_OnFrameTxStatusEvent i cookie was_acked s = Inr s' \<Longrightarrow> R s s'"
  by (auto simp: Client_OnFrameTxStatusEvent_def R_refl elim!: and_then_InrE split: if_splits
      dest!: modify_client_R) (blast intro: R_trans run_frame_tx_handler_R)+

lemma UpdateBandInfo_R: "UpdateBandInfo run i s = Inr s' \<Longrightarrow> R s s'"
  by (auto simp: UpdateBandInfo_def set_wiphy_info_def elim!: and_then_InrE dest!: GetWiphyInfo_R modify_client_R)
    (blast intro: R_trans)+

lemma ap_notifications_R:
  "Ap_OnStationEvent i event mac s = Inr s' \<Longrightarrow> R s s'"
  "Ap_OnChannelSwitchEvent i freq bandwidth s = Inr s' \<Longrightarrow> R s s'"
  by (auto simp: Ap_OnStationEvent_def Ap_OnChannelSwitchEvent_def NotifyConnectedClientsChanged_def
      NotifySoftApChannelSwitched_def R_refl remote_R elim!: and_then_InrE split: option.splits StationEvent.splits)

lemma GetBandInfo_R: "GetBandInfo run w s = Inr (r, s') \<Longrightarrow> R s s'"
  by (auto simp: GetBandInfo_def R_refl elim!: and_then_InrE split: if_splits dest!: GetWiphyInfo_R)

lemma add_band_R: "R s (add_band present band w s)"
  by (simp add: add_band_def R_refl bands_R)

lemma UpdateBandWiphyIndexMap_R:
  assumes "UpdateBandWiphyIndexMap run w s = Inr s'"
  shows "R s s'"
proof -
  have "R s1 (add_band a b w (add_band c d w (add_band e f w (add_band g h w (add_band k l w s1)))))"
    for s1 a b c d e f g h k l
    by (rule R_trans [OF R_trans [OF R_trans [OF R_trans]]]; rule add_band_R)
  with assms show ?thesis
    by (auto simp: UpdateBandWiphyIndexMap_def elim!: and_then_InrE split: option.splits dest!: GetBandInfo_R)
      (erule R_trans, assumption)
qed

lemma LogSupportedBands_R: "LogSupportedBands run w s = Inr s' \<Longrightarrow> R s s'"
  by (auto simp: LogSupportedBands_def elim!: and_then_InrE dest!: GetWiphyInfo_R)

lemma handle_wiphy_R: "handle_wiphy run name handled s = Inr (handled', s') \<Longrightarrow> R s s'"
  by (auto simp: handle_wiphy_def elim!: and_then_InrE split: option.splits if_splits
      dest!: GetWiphyIndex_R UpdateBandWiphyIndexMap_R LogSupportedBands_R) (blast intro: R_trans)+

lemma handle_clients_R: "handle_clients run its handled s = Inr (handled', s') \<Longrightarrow> R s s'"
  by (induction its arbitrary: handled s;
      auto simp: R_refl elim!: and_then_InrE dest!: UpdateBandInfo_R handle_wiphy_R) (blast intro: R_trans)+

lemma handle_aps_R: "handle_aps run its handled s = Inr s' \<Longrightarrow> R s s'"
  by (induction its arbitrary: handled s;
      auto simp: R_refl elim!: and_then_InrE dest!: handle_wiphy_R) (blast intro: R_trans)+

lemma handleCountryCodeChanged_R: "handleCountryCodeChanged run s = Inr s' \<Longrightarrow> R s s'"
  by (auto simp: handleCountryCodeChanged_def elim!: and_then_InrE dest!: handle_clients_R handle_aps_R)
    (blast intro: R_trans)+

lemma fold_remote_R: "R s (fold (\<lambda>cb. call_remote (f cb)) cbs s)"
  by (induction cbs arbitrary: s) (auto simp: R_refl intro: R_trans remote_R)

lemma OnRegDomainChanged_R:
  assumes "OnRegDomainChanged run w code s = Inr s'"
  shows "R s s'"
proof -
  let ?get = "if code = [] then and_then (GetCountryCode run s) (\<lambda>(r, s1). Inr (value_or [] r, s1)) else Inr (code, s)"
  from assms obtain x where get: "?get = Inr x"
    and tail: "(case x of (c, s1) \<Rightarrow> let s2 = (if c \<noteq> [] then BroadcastRegDomainChanged c s1 else s1)
      in if \<not> hasNoIfaceForWiphyIndex w s2 then handleCountryCodeChanged run s2 else Inr s2) = Inr s'"
    unfolding OnRegDomainChanged_def by (rule and_then_InrE)
  obtain c s1 where x: "x = (c, s1)" by (cases x)
  have first: "R s s1"
    using get by (auto simp: x R_refl elim!: and_then_InrE split: if_splits dest: GetCountryCode_R)
  note rest = tail [unfolded x prod.case]
  have "R s1 (if c \<noteq> [] then BroadcastRegDomainChanged c s1 else s1)"
    by (simp add: BroadcastRegDomainChanged_def fold_remote_R R_refl)
  moreover from rest have "R (if c \<noteq> [] then BroadcastRegDomainChanged c s1 else s1) s'"
    by (auto simp: Let_def R_refl split: if_splits dest: handleCountryCodeChanged_R)
  ultimately show ?thesis by (blast intro: R_trans first)
qed

lemma mlme_handlers_R:
  "OnConnect run i e s = Inr s' \<Longrightarrow> R s s'"
  "OnAssociate run i e s = Inr s' \<Longrightarrow> R s s'"
  "OnRoam run i d s = Inr s' \<Longrightarrow> R s s'"
  "OnDisconnect i d s = Inr s' \<Longrightarrow> R s s'"
  "OnDisassociate i d s = Inr s' \<Longrightarrow> R s s'"
  by (auto simp: OnConnect_def OnAssociate_def OnRoam_def OnDisconnect_def OnDisassociate_def
      split: if_splits intro: mark_associated_R mark_disassociated_R)

lemmas handler_R = Scanner_OnScanResultsReady_R Scanner_OnSchedScanResultsReady_R OnRegDomainChanged_R
  ap_notifications_R Client_OnChannelSwitchEvent_R Client_OnFrameTxStatusEvent_R mlme_handlers_R

lemma handle_R: "handle run c s = Inr s' \<Longrightarrow> R s s'"
  by (cases c) (simp_all add: handle_def R_refl handler_R split: option.splits)

end

section \<open>The dispatcher\<close>

text \<open>
  \<open>same_objects\<close>: the objects and their identities, the names they are registered under, the
  registrations of event handlers and the callbacks are the same in both states.
\<close>

definition scanner_frame :: "scanner option \<Rightarrow> (bool \<times> u32) option" where
  "scanner_frame = map_option (\<lambda>x. (valid x, scanner_interface_index x))"

definition same_objects :: "'a srv_scheme \<Rightarrow> 'a srv_scheme \<Rightarrow> bool" where
  "same_objects s s' \<longleftrightarrow>
     next_obj s' = next_obj s \<and>
     (\<forall>i. scanner_frame (map_find (scanners s') i) = scanner_frame (map_find (scanners s) i)) \<and>
     (\<forall>i. map_option client_interface_index (map_find (clients s') i) =
          map_option client_interface_index (map_find (clients s) i)) \<and>
     aps s' = aps s \<and> client_binders s' = client_binders s \<and> ap_binders s' = ap_binders s \<and>
     client_interfaces s' = client_interfaces s \<and> ap_interfaces s' = ap_interfaces s \<and>
     iface_to_wiphy_index_map s' = iface_to_wiphy_index_map s \<and>
     interface_event_callbacks s' = interface_event_callbacks s \<and>
     wificond_event_callbacks s' = wificond_event_callbacks s \<and>
     on_scan_result_ready_handler s' = on_scan_result_ready_handler s \<and>
     on_sched_scan_result_ready_handler s' = on_sched_scan_result_ready_handler s \<and>
     on_mlme_event_handler s' = on_mlme_event_handler s \<and>
     on_reg_domain_changed_handler s' = on_reg_domain_changed_handler s \<and>
     on_station_event_handler s' = on_station_event_handler s \<and>
     on_channel_switch_event_handler s' = on_channel_switch_event_handler s \<and>
     on_frame_tx_status_event_handler s' = on_frame_tx_status_event_handler s"

lemma same_objects_refl: "same_objects s s"
  by (simp add: same_objects_def)

lemma same_objects_trans: "same_objects s s' \<Longrightarrow> same_objects s' s'' \<Longrightarrow> same_objects s s''"
  by (simp add: same_objects_def)

lemma same_objects_scanner:
  "map_find (scanners s) i = Some x \<Longrightarrow> valid x' = valid x \<Longrightarrow>
     scanner_interface_index x' = scanner_interface_index x \<Longrightarrow>
     same_objects s (s\<lparr>scanners := map_set i x' (scanners s)\<rparr>)"
  by (simp add: same_objects_def scanner_frame_def)

lemma same_objects_client:
  "map_find (clients s) i = Some c \<Longrightarrow> client_interface_index c' = client_interface_index c \<Longrightarrow>
     same_objects s (s\<lparr>clients := map_set i c' (clients s)\<rparr>)"
  by (simp add: same_objects_def)

lemma server_relation_same_objects:
  assumes "\<And>c s s'. run c s = Inr s' \<Longrightarrow> same_objects s s'"
  shows "server_relation run same_objects"
proof unfold_locales
  fix s s' s'' :: "'b srv_scheme"
  assume "same_objects s s'" "same_objects s' s''"
  then show "same_objects s s''" by (rule same_objects_trans)
qed (simp_all add: assms same_objects_refl same_objects_scanner same_objects_client,
     simp_all add: same_objects_def call_remote_def erase_handler_def)

lemma server_relation_good_step:
  assumes "\<And>c s s'. run c s = Inr s' \<Longrightarrow> good_step s s'"
  shows "server_relation run good_step"
proof unfold_locales
  fix s s' s'' :: "'b srv_scheme"
  assume "good_step s s'" "good_step s' s''"
  then show "good_step s s''" by (rule good_step_trans)
qed (simp_all add: assms good_step_refl good_step_buffer good_step_erase good_step_append
       good_step_new_vector, simp_all add: good_step_frame call_remote_def)

lemma dispatch_same_objects: "dispatch n c s = Inr s' \<Longrightarrow> same_objects s s'"
proof (induction n arbitrary: c s s')
  case (Suc n)
  from server_relation.handle_R [OF server_relation_same_objects [OF Suc.IH]] Suc.prems
  show ?case by simp
qed simp

lemma dispatch_good_step: "dispatch n c s = Inr s' \<Longrightarrow> good_step s s'"
proof (induction n arbitrary: c s s')
  case (Suc n)
  from server_relation.handle_R [OF server_relation_good_step [OF Suc.IH]] Suc.prems
  show ?case by simp
qed simp

interpretation objects: server_relation "dispatch n" same_objects for n
  by (rule server_relation_same_objects) (rule dispatch_same_objects)

interpretation vectors: handler_contract "dispatch n" for n
  by unfold_locales (rule dispatch_good_step)

end
