(* ===== verification/Wire_Properties.thy ===== *)
theory Wire_Properties
  imports Mlme_Event
begin

text \<open>
  The properties of the wire format: attributes, messages and the events built from them.
  They rest on the refinement lemmas of the component theories (\<open>tlv\<close>, \<open>nested_attr\<close>,
  \<open>message\<close>) and on the interpretations of \<open>attr_codec\<close>.
\<close>

section \<open>Building with the code's operations\<close>

definition build_nested :: "nat \<Rightarrow> attr list \<Rightarrow> attr" where
  "build_nested t as = foldl AddAttribute (NL80211NestedAttr t) as"

definition build_packet :: "packet \<Rightarrow> attr list \<Rightarrow> packet" where
  "build_packet p as = foldl (\<lambda>p a. Packet_AddAttribute a p) p as"

lemma fits_prefix: "fits (concat (as @ bs)) \<Longrightarrow> fits (concat as)"
  by (simp add: fits_def)

lemma foldl_AddAttribute_nested:
  "wf_attrs (as @ bs) \<Longrightarrow> fits (concat (as @ bs)) \<Longrightarrow>
     foldl AddAttribute (nested_attr t as) bs = nested_attr t (as @ bs)"
proof (induction bs arbitrary: as)
  case (Cons b bs)
  then have "AddAttribute (nested_attr t as) b = nested_attr t (as @ [b])"
    by (intro AddAttribute_nested) (auto simp: fits_def)
  with Cons.IH [of "as @ [b]"] Cons.prems show ?case by simp
qed simp

lemma build_nested_nested:
  "wf_attrs as \<Longrightarrow> fits (concat as) \<Longrightarrow> build_nested t as = nested_attr t as"
  using foldl_AddAttribute_nested [of "[]" as t] by (simp add: build_nested_def NL80211NestedAttr_nested)

lemma build_packet_message:
  "fits_message (as @ bs) \<Longrightarrow> build_packet (message h as) bs = message h (as @ bs)"
proof (induction bs arbitrary: as)
  case (Cons b bs)
  then have "fits_message (as @ [b])" by (simp add: fits_message_def)
  with Cons.IH [of "as @ [b]"] Cons.prems show ?case
    by (simp add: build_packet_def Packet_AddAttribute_message)
qed (simp add: build_packet_def)

context attr_codec
begin

lemma read_back_built:
  assumes "ok v" "wf_attrs (as @ bs)" "i < 65536" "\<forall>a \<in> set as. nla_type a \<noteq> i"
    and "length (concat (as @ bs)) < 60000" "length (make_attr T i v) \<le> 5000"
  shows "GetAttributeValue T (build_nested t (as @ make_attr T i v # bs)) i = Inr (Some v)"
proof -
  have "build_nested t (as @ make_attr T i v # bs) = nested_attr t (as @ make_attr T i v # bs)"
    using assms wf_make [of v i] by (intro build_nested_nested) (auto simp: fits_def)
  then show ?thesis
    using assms by (simp add: GetAttributeValue_stored)
qed

end

lemma length_word_attr:
  "LENGTH('w::len) = 8 * n \<Longrightarrow> length (make_attr (word_class :: 'w word attr_class) i v) = 4 + NLA_ALIGN n"
  by (simp add: word_class_def make_int_attr_tlv length_tlv)

lemma length_bytes_attrs:
  "length (make_attr vector_class i v) = 4 + NLA_ALIGN (length v)"
  "length (make_attr mac_class i v) = 4 + NLA_ALIGN (length v)"
  "length (make_attr string_class i v) = 4 + NLA_ALIGN (length v + 1)"
  by (simp_all add: vector_class_def mac_class_def array_class_def string_class_def
      BaseNL80211Attr_tlv make_string_attr_tlv length_tlv)

section \<open>Properties\<close>

text \<open>
  C19. A packet built by the constructor, \<open>AddFlag\<close> and any sequence of \<open>AddAttribute\<close> calls is
  the pair of its header and its attribute list: it is valid, every header getter returns what
  was stored, the packet length field is the length, an attribute lookup returns the first
  attribute of that type, and \<open>GetAllAttributes\<close> returns all of them in order.
\<close>

theorem built_packet_reads_back:
  assumes "wf_attrs as" "fits_message as" "t \<noteq> 2"
  shows "let d = build_packet (AddFlag f (NL80211Packet t c n p)) as in
    Packet_IsValid d = Inr True \<and> nlmsg_len d = length d \<and>
    GetMessageType d = Inr (unat t) \<and> GetFlags d = Inr (1 OR f) \<and>
    GetMessageSequence d = Inr n \<and> GetPortId d = Inr p \<and> GetCommand d = Inr (c mod 256) \<and>
    (\<forall>i. Packet_GetAttribute d i = Inr (find (\<lambda>a. nla_type a = i) as)) \<and>
    GetAllAttributes d = Inr (True, map normal_attr as)"
proof -
  let ?h = "\<lparr>msg_type = t, msg_flags = 1 OR f, msg_seq = n, msg_pid = p, msg_cmd = c\<rparr>"
  have "build_packet (AddFlag f (NL80211Packet t c n p)) as = message ?h as"
    using assms(2) by (simp add: NL80211Packet_message AddFlag_message build_packet_message)
  then show ?thesis
    using assms
    by (simp add: Packet_IsValid_message nlmsg_len_message fits_message_def
        Packet_GetAttribute_message GetAllAttributes_message)
qed

theorem built_packet_reads_back_witness:
  "let d = build_packet (AddFlag 4 (NL80211Packet 28 32 7 99)) [mac_attribute [1, 2, 3, 4, 5, 6], ifindex_attr 5] in
   Packet_IsValid d = Inr True \<and> GetMessageSequence d = Inr 7 \<and> Packet_GetAttribute d 3 = Inr (Some (ifindex_attr 5))"
proof -
  have "fits_message [mac_attribute [1, 2, 3, 4, 5, 6], ifindex_attr 5]"
    by (simp add: fits_message_def mac_attribute_def ifindex_attr_def length_word_attr [of 4]
        length_bytes_attrs NLA_ALIGN_def)
  then show ?thesis
    using built_packet_reads_back [of "[mac_attribute [1, 2, 3, 4, 5, 6], ifindex_attr 5]" 28 4 32 7 99]
    by (simp add: mac_attribute_facts Let_def)
qed

text \<open>
  C20. A value of any of the seven payload types, stored in a nested attribute among others
  with \<open>AddAttribute\<close>, is what \<open>GetAttributeValue\<close> reads back for its identifier, as long as no
  earlier attribute has the same identifier. Integers keep all their bits, strings must not
  end in a zero byte.
\<close>

theorem stored_values_read_back:
  assumes "wf_attrs (as @ bs)" "i < 65536" "\<forall>a \<in> set as. nla_type a \<noteq> i" "length (concat (as @ bs)) < 60000"
  shows "GetAttributeValue word_class (build_nested t (as @ make_attr word_class i (v8 :: u8) # bs)) i = Inr (Some v8) \<and>
    GetAttributeValue word_class (build_nested t (as @ make_attr word_class i (v16 :: u16) # bs)) i = Inr (Some v16) \<and>
    GetAttributeValue word_class (build_nested t (as @ make_attr word_class i (v32 :: u32) # bs)) i = Inr (Some v32) \<and>
    GetAttributeValue word_class (build_nested t (as @ make_attr word_class i (v64 :: u64) # bs)) i = Inr (Some v64) \<and>
    (length raw < 4000 \<longrightarrow>
      GetAttributeValue vector_class (build_nested t (as @ make_attr vector_class i raw # bs)) i = Inr (Some raw)) \<and>
    (length mac = 6 \<longrightarrow>
      GetAttributeValue mac_class (build_nested t (as @ make_attr mac_class i mac # bs)) i = Inr (Some mac)) \<and>
    (length str < 4000 \<and> (str = [] \<or> last str \<noteq> 0) \<longrightarrow>
      GetAttributeValue string_class (build_nested t (as @ make_attr string_class i str # bs)) i = Inr (Some str))"
  using assms NLA_ALIGN_less [of "length raw"] NLA_ALIGN_less [of "length mac"] NLA_ALIGN_less [of "length str + 1"]
  by (auto simp: length_bytes_attrs length_word_attr [of 1] length_word_attr [of 2] length_word_attr [of 4]
      length_word_attr [of 8] NLA_ALIGN_def fits_def plain_string_def
      intro!: u8_attr.read_back_built u16_attr.read_back_built u32_attr.read_back_built
      u64_attr.read_back_built vector_attr.read_back_built mac_attr.read_back_built string_attr.read_back_built)

theorem stored_values_read_back_witness:
  "GetAttributeValue word_class
     (build_nested 9 ([ifindex_attr 5] @ make_attr word_class 30 (0x0102 :: u16) # [])) 30 = Inr (Some (0x0102 :: u16))"
  by (rule stored_values_read_back [of "[ifindex_attr 5]" "[]" 30, THEN conjunct2, THEN conjunct1])
    (simp_all add: ifindex_attr_def length_word_attr [of 4] NLA_ALIGN_def u32_attr.wf_make u32_attr.type_make)

text \<open>
  C22. The attribute search fails to return on a buffer exactly when it reaches, through
  headers of other types, a header of another type whose length is zero; it has no other
  fault. In particular a buffer of well-formed attributes is always searched to the end.
\<close>

theorem attribute_search_termination:
  "(GetAttributeImpl buf i = Inl e \<longleftrightarrow> e = No_Return \<and> spins buf i) \<and>
   (wf_attrs as \<longrightarrow> GetAttributeImpl (concat as) i = Inr (find (\<lambda>a. nla_type a = i) as))"
  by (simp add: GetAttributeImpl_fault_iff GetAttributeImpl_concat wf_attrs_def)

theorem attribute_search_termination_witness:
  "GetAttributeImpl (concat [ifindex_attr 5]) 3 = Inr (Some (ifindex_attr 5))"
  using attribute_search_termination [of "[]" 3 No_Return "[ifindex_attr 5]"] by simp

text \<open>
  C23. Reading an integer from the attributes of an arbitrary packet never touches memory out
  of bounds: whatever bytes the kernel or an attacker sent, the only fault is a
  search that does not end.
\<close>

theorem integer_reads_memory_safe:
  "(Packet_GetAttributeValue (word_class :: u8 attr_class) d i = Inl e \<longrightarrow> e = No_Return \<and> spins (attr_area d) i) \<and>
   (Packet_GetAttributeValue (word_class :: u16 attr_class) d i = Inl e \<longrightarrow> e = No_Return \<and> spins (attr_area d) i) \<and>
   (Packet_GetAttributeValue (word_class :: u32 attr_class) d i = Inl e \<longrightarrow> e = No_Return \<and> spins (attr_area d) i) \<and>
   (Packet_GetAttributeValue (word_class :: u64 attr_class) d i = Inl e \<longrightarrow> e = No_Return \<and> spins (attr_area d) i)"
  by (simp add: Packet_word_value_fault_iff)

definition looping_packet :: packet where
  "looping_packet = replicate 20 0 @ [0, 0, 9, 0]"

lemma looping_packet_spins: "spins (attr_area looping_packet) 3"
  by (rule spins.stuck) (simp_all add: looping_packet_def attr_area_def nla_len_def nla_type_def field_def)

lemma looping_packet_value:
  "Packet_GetAttributeValue (word_class :: u32 attr_class) looping_packet 3 = Inl No_Return"
  by (simp add: Packet_word_value_fault_iff looping_packet_spins)

theorem integer_reads_memory_safe_witness:
  "spins (attr_area looping_packet) 3"
  using integer_reads_memory_safe [of looping_packet 3 No_Return] looping_packet_value by simp

text \<open>
  C21. What \<open>GetAttribute\<close> for a nested attribute returns on an arbitrary buffer is a valid
  attribute of the wanted type and a contiguous slice of the buffer; the list traversal
  returns valid attributes that tile the payload, up to less than a header of trailing bytes.
\<close>

theorem nested_lookups_sound:
  "(GetNestedAttribute data i = Inr (Some a) \<longrightarrow>
     IsValid a \<and> nla_type a = i \<and> (\<exists>n. a = take (length a) (drop n data))) \<and>
   (GetListOfNestedAttributes data = Some as \<longrightarrow>
     (\<exists>rest. drop 4 data = concat as @ rest \<and> length rest < 4 \<and> (\<forall>b \<in> set as. IsValid b)))"
  using GetNestedAttribute_sound nested_list_loop_sound [of "drop 4 data" "[]" as]
  by (auto simp: GetListOfNestedAttributes_def)

theorem nested_lookups_sound_witness:
  "\<exists>rest. drop 4 (nested_attr 9 [ifindex_attr 5]) = concat [ifindex_attr 5] @ rest \<and> length rest < 4 \<and>
     (\<forall>b \<in> set [ifindex_attr 5]. IsValid b)"
  using nested_lookups_sound [of "nested_attr 9 [ifindex_attr 5]" 3 "ifindex_attr 5" "[ifindex_attr 5]"]
  by (simp add: GetListOfNestedAttributes_nested)

text \<open>
  \<open>Merge\<close> of two attributes of the same type gives one whose payload is the concatenation
  of the payloads, with header and padding redone, even when the 16-bit length field
  overflows; an invalid attribute or one of another type leaves the target unchanged and is
  reported. The result is a valid attribute exactly when the joint payload still fits.
\<close>

theorem merge_concatenates_payloads:
  assumes "fits p" "fits q"
  shows "Merge (tlv t p) (tlv t q) = Inr (True, tlv t (p @ q)) \<and>
    (IsValid (tlv t (p @ q)) \<longleftrightarrow> length p + length q < 65532) \<and>
    (t mod 65536 \<noteq> u mod 65536 \<longrightarrow> Merge (tlv t p) (tlv u q) = Inr (False, tlv t p)) \<and>
    (\<not> IsValid b \<longrightarrow> Merge (tlv t p) b = Inr (False, tlv t p))"
  using assms tlv_fits_iff_valid [of "p @ q" t]
  by (auto simp: Merge_tlv Merge_other_type Merge_invalid fits_def)

theorem merge_concatenates_payloads_witness:
  "Merge (tlv 22 [1, 2, 3]) (tlv 22 [4, 5]) = Inr (True, tlv 22 [1, 2, 3, 4, 5])"
  using merge_concatenates_payloads [of "[1, 2, 3]" "[4, 5]" 22 0 "[]"] by (simp add: fits_def)

text \<open>
  After \<open>IsValid\<close> said yes, the header getters that the receive loop and the parsers use
  do not read past the end of the packet: type, sequence, flags and port always, the error
  code of an error message, the command of every other message.
\<close>

theorem valid_packet_getters_safe:
  assumes "Packet_IsValid d = Inr True"
  shows "returns (GetMessageType d) \<and> returns (GetMessageSequence d) \<and> returns (IsMulti d) \<and>
    returns (GetPortId d) \<and> nlmsg_len d \<le> length d \<and>
    (GetMessageType d = Inr NLMSG_ERROR \<longrightarrow> returns (GetErrorCode d)) \<and>
    (\<forall>t. GetMessageType d = Inr t \<and> 16 \<le> t \<longrightarrow> returns (GetCommand d))"
  using valid_getters_return [OF assms] Packet_IsValid_True [OF assms] by blast

theorem valid_packet_getters_safe_witness:
  "nlmsg_len (NL80211Packet 28 4 7 99) \<le> length (NL80211Packet 28 4 7 99)"
  using valid_packet_getters_safe [of "NL80211Packet 28 4 7 99"]
  by (simp add: NL80211Packet_message Packet_IsValid_message fits_message_def)

end
