(* ===== verification/Example_State.thy ===== *)
theory Example_State
  imports Handler_Frames Wire_Properties
begin

text \<open>
  Concrete states and packets at which the properties are applied: a started server with the
  nl80211 family known, and the replies a kernel would send.
\<close>

definition blank_capabilities :: scan_capabilities where
  "blank_capabilities =
     \<lparr>max_num_scan_ssids = 3, max_num_sched_scan_ssids = 2, max_match_sets = 2, max_num_scan_plans = 0,
      max_scan_plan_interval = 0, max_scan_plan_iterations = 0\<rparr>"

definition blank_features :: wiphy_features where
  "blank_features = WiphyFeatures 0 []"

definition blank_client :: client_interface where
  "blank_client =
     \<lparr>client_wiphy_index = 0, client_interface_name = [], client_interface_index = 0,
      client_mac_addr = replicate 6 0, is_associated = False, associated_bssid = replicate 6 0,
      associate_freq = 0, client_band_info = BandInfo, client_scan_capabilities = blank_capabilities,
      client_wiphy_features = blank_features, frame_tx_in_progress = False,
      frame_tx_status_cookie = 0, frame_tx_handler = None\<rparr>"

definition blank_scan_result :: native_scan_result where
  "blank_scan_result =
     \<lparr>scan_ssid = [], scan_bssid = replicate 6 0, scan_info_element = [], scan_frequency = 0,
      scan_signal_mbm = 0, scan_tsf = 0, scan_capability = 0, scan_associated = False, scan_chain_infos = []\<rparr>"

text \<open>A server after \<open>Start\<close> and family discovery, with what the kernel will answer.\<close>

definition started_server :: "exchange list \<Rightarrow> srv" where
  "started_server script =
     (Server (NetlinkManager script False 99) (\<lambda>_. 5) blank_scan_result blank_client
        (BandInfo, blank_capabilities, blank_features))
       \<lparr>is_started := True, message_types := [(NL80211_GENL_NAME, \<lparr>family_id = Some 28, groups = []\<rparr>)]\<rparr>"

text \<open>
  The same server with client interface 1 on interface index 5, its scanner, and access point
  interface 2 on interface index 6.
\<close>

definition client_1 :: client_interface where
  "client_1 = blank_client\<lparr>client_wiphy_index := 0, client_interface_name := [119], client_interface_index := 5\<rparr>"

definition scanner_1 :: scanner where
  "scanner_1 =
     \<lparr>valid = True, scan_started = False, pno_scan_started = False, stored_pno_settings = None,
      nodev_counter = 0, scanner_interface_index = 5, scanner_capabilities = blank_capabilities,
      scanner_features = blank_features, scan_event_handler = None, pno_scan_event_handler = None\<rparr>"

definition running_server :: "exchange list \<Rightarrow> srv" where
  "running_server script =
     (started_server script)
       \<lparr>next_obj := 3, clients := [(1, client_1)], client_binders := [(1, \<lparr>client_impl = Some 1\<rparr>)],
        scanners := [(1, scanner_1)],
        aps := [(2, \<lparr>ap_interface_name = [97], ap_interface_index = 6\<rparr>)],
        ap_binders := [(2, \<lparr>ap_impl = Some 2, ap_event_callback = Some 40\<rparr>)],
        client_interfaces := [([119], 1)], ap_interfaces := [([97], 2)],
        iface_to_wiphy_index_map := [([97], 0), ([119], 0)],
        on_scan_result_ready_handler := [(5, 1)], on_sched_scan_result_ready_handler := [(5, 1)],
        on_mlme_event_handler := [(5, 1)], on_frame_tx_status_event_handler := [(5, 1)],
        on_channel_switch_event_handler := [(5, 1), (6, 2)], on_station_event_handler := [(6, 2)],
        on_reg_domain_changed_handler := [(0, 0)], interface_event_callbacks := [50]\<rparr>"

lemmas example_defs = started_server_def running_server_def Server_def NetlinkManager_def

text \<open>Replies to a request with sequence number \<open>k\<close>.\<close>

definition ack_reply :: "u32 \<Rightarrow> packet" where
  "ack_reply k = le_bytes 4 20 @ le_bytes 2 2 @ [0, 0] @ le_bytes 4 (unat k) @ [0, 0, 0, 0] @ [0, 0, 0, 0]"

definition error_reply :: "u32 \<Rightarrow> packet" where
  "error_reply k = le_bytes 4 20 @ le_bytes 2 2 @ [0, 0] @ le_bytes 4 (unat k) @ [0, 0, 0, 0] @ le_bytes 4 4294967280"

definition data_reply :: "u32 \<Rightarrow> packet" where
  "data_reply k = message \<lparr>msg_type = 28, msg_flags = 2, msg_seq = k, msg_pid = 99, msg_cmd = 3\<rparr> []"

definition done_packet :: "u32 \<Rightarrow> packet" where
  "done_packet k = message \<lparr>msg_type = 3, msg_flags = 2, msg_seq = k, msg_pid = 99, msg_cmd = 0\<rparr> []"

lemma started_server_facts [simp]:
  "length (ReceiveBuffer (started_server es)) = 8192"
  "message_handlers (started_server es) = []" "response_vecs (started_server es) = []"
  "net_script (started_server es) = es" "wf_nlm (started_server es)"
  by (simp_all add: example_defs wf_nlm_def)

lemma GetSequenceNumber_request [simp]: "GetMessageSequence (NL80211Packet t c k p) = Inr k"
  by (simp add: NL80211Packet_message)

lemma framed_message: "fits_message as \<Longrightarrow> msg_type h \<noteq> 2 \<Longrightarrow> framed (message h as)"
  by (simp add: framed_def Packet_IsValid_message nlmsg_len_message fits_message_def)

lemma IsMulti_message: "IsMulti (message h as) = Inr (msg_flags h AND NLM_F_MULTI \<noteq> 0)"
  by (simp add: IsMulti_def field_message)

lemma multi_data_reply: "multi_reply k (data_reply k)"
  by (auto simp: multi_reply_def data_reply_def framed_message fits_message_def IsMulti_message)

lemma done_done_packet: "done_reply k (done_packet k)"
  by (simp add: done_reply_def done_packet_def framed_message fits_message_def)

lemma length_replies: "length (data_reply k) = 20" "length (done_packet k) = 20"
  "length (ack_reply k) = 20" "length (error_reply k) = 20"
  by (simp_all add: data_reply_def done_packet_def ack_reply_def error_reply_def)

end
