(* ===== verification/Netlink_Properties.thy ===== *)
theory Netlink_Properties
  imports Example_State
begin

text \<open>
  The properties of the netlink layer, with handlers that are the real ones: \<open>run\<close> is
  \<open>dispatch n\<close>, the interpretation of the handler contracts on the model of the whole program.
\<close>

section \<open>Helper lemmas\<close>

lemma single_ack: "single_reply k (ack_reply k)" "single_reply k (error_reply k)"
  using unat_u32_bound [of k]
  by (auto simp: single_reply_def framed_def ack_reply_def error_reply_def Packet_IsValid_def GetMessageType_def
      GetMessageSequence_def GetErrorCode_def IsMulti_def GetFlags_def nlmsg_len_def field_def le_nat_le_bytes)

lemma ack_codes:
  "GetMessageType (ack_reply k) = Inr NLMSG_ERROR" "GetErrorCode (ack_reply k) = Inr 0"
  "GetMessageType (error_reply k) = Inr NLMSG_ERROR" "GetErrorCode (error_reply k) = Inr EBUSY"
  by (simp_all add: ack_reply_def error_reply_def GetMessageType_def GetErrorCode_def field_def le_nat_le_bytes)

section \<open>Which handlers a notification can reach\<close>

definition registered_for :: "u32 \<Rightarrow> 'a nlm_scheme \<Rightarrow> hid set" where
  "registered_for i s =
     {h. map_find (on_scan_result_ready_handler s) i = Some h \<or>
         map_find (on_sched_scan_result_ready_handler s) i = Some h \<or>
         map_find (on_mlme_event_handler s) i = Some h \<or>
         map_find (on_station_event_handler s) i = Some h \<or>
         map_find (on_channel_switch_event_handler s) i = Some h \<or>
         map_find (on_frame_tx_status_event_handler s) i = Some h}"

fun addressee :: "hcall \<Rightarrow> hid" where
  "addressee (CallScanResults h _ _ _ _) = h"
| "addressee (CallSchedScanResults h _ _) = h"
| "addressee (CallRegDomainChanged h _ _) = h"
| "addressee (CallStationEvent h _ _) = h"
| "addressee (CallChannelSwitch h _ _) = h"
| "addressee (CallFrameTxStatus h _ _) = h"
| "addressee (CallOnConnect h _) = h"
| "addressee (CallOnAssociate h _) = h"
| "addressee (CallOnRoam h _) = h"
| "addressee (CallOnDisconnect h _) = h"
| "addressee (CallOnDisassociate h _) = h"
| "addressee (CallMessageHandler h _) = h"

definition agree_for :: "packet \<Rightarrow> (hcall \<Rightarrow> 'a nlm_scheme \<Rightarrow> 'a nlm_scheme res) \<Rightarrow>
    (hcall \<Rightarrow> 'a nlm_scheme \<Rightarrow> 'a nlm_scheme res) \<Rightarrow> 'a nlm_scheme \<Rightarrow> bool" where
  "agree_for p run run' s \<longleftrightarrow>
     (\<forall>i c. Packet_GetAttributeValue word_class p NL80211_ATTR_IFINDEX = Inr (Some i) \<longrightarrow>
        addressee c \<in> registered_for i s \<longrightarrow> (\<forall>s'. run c s' = run' c s'))"

lemma and_then_cong_Inr: "(\<And>x. m = Inr x \<Longrightarrow> f x = g x) \<Longrightarrow> and_then m f = and_then m g"
  by (cases m) auto

lemma agree_forD:
  "agree_for p run run' s \<Longrightarrow> Packet_GetAttributeValue word_class p 3 = Inr (Some i) \<Longrightarrow>
     addressee c \<in> registered_for i s \<Longrightarrow> run c s' = run' c s'"
  by (simp add: agree_for_def)

lemma notifications_agree:
  assumes "agree_for p run run' s"
  shows "OnMlmeEvent run p s = OnMlmeEvent run' p s"
    "OnScanResultsReady run p s = OnScanResultsReady run' p s"
    "OnSchedScanResultsReady run p s = OnSchedScanResultsReady run' p s"
    "OnStationEvent run command p s = OnStationEvent run' command p s"
    "OnChannelSwitchEvent run p s = OnChannelSwitchEvent run' p s"
    "OnFrameTxStatusEvent run p s = OnFrameTxStatusEvent run' p s"
  unfolding OnMlmeEvent_def OnScanResultsReady_def OnSchedScanResultsReady_def OnStationEvent_def
    OnChannelSwitchEvent_def OnFrameTxStatusEvent_def Let_def
  by (intro and_then_cong_Inr; auto split: option.split intro!: and_then_cong_Inr;
      erule agree_forD [OF assms]; simp add: registered_for_def)+

text \<open>The notification of a finished connection attempt.\<close>

definition connect_notification :: "u32 \<Rightarrow> bytes \<Rightarrow> u16 \<Rightarrow> packet" where
  "connect_notification i bssid status =
     message \<lparr>msg_type = 28, msg_flags = 0, msg_seq = 0, msg_pid = 0, msg_cmd = NL80211_CMD_CONNECT\<rparr>
       [ifindex_attr i, mac_attribute bssid, make_attr word_class NL80211_ATTR_STATUS_CODE status]"

definition family_known :: "'a nlm_scheme \<Rightarrow> bool" where
  "family_known s \<longleftrightarrow> (\<exists>t. map_find (message_types s) NL80211_GENL_NAME = Some t \<and> family_id t = Some 28)"

lemma GetFamilyId_known: "family_known s \<Longrightarrow> GetFamilyId s = Inr (28, s)"
  by (auto simp: family_known_def GetFamilyId_def message_type_entry_def)

lemma status_attr_facts [simp]:
  "wf_attr (make_attr word_class 72 (st :: u16))" "nla_type (make_attr word_class 72 (st :: u16)) = 72"
  by (simp_all add: u16_attr.wf_make u16_attr.type_make)

lemma connect_notification_event:
  assumes "length bssid = 6"
  shows "MlmeConnectEvent_InitFromPacket (connect_notification i bssid st) =
    Inr (Some \<lparr>mlme_interface_index = i, mlme_bssid = bssid, mlme_status_code = st, mlme_is_timeout = False\<rparr>)"
proof -
  let ?as = "[ifindex_attr i, mac_attribute bssid, make_attr word_class 72 st]"
  have wf: "wf_attrs ?as" using assms by (simp add: mac_attribute_facts)
  have "Packet_GetAttributeValue word_class (connect_notification i bssid st) 72 = Inr (Some st)"
    unfolding connect_notification_def using wf assms
    by (intro u16_attr.Packet_value_found) (simp_all add: mac_attribute_facts)
  moreover have "GetCommonFields (connect_notification i bssid st) = Inr (Some (i, bssid))"
    unfolding connect_notification_def using wf assms
    by (intro GetCommonFields_message(1)) (simp_all add: mac_attribute_facts)
  ultimately show ?thesis
    using wf assms
    by (simp add: MlmeConnectEvent_InitFromPacket_def connect_notification_def Packet_HasAttribute_message
        mac_attribute_facts)
qed

lemma connect_notification_runs:
  assumes "length bssid = 6" "family_known s" "map_find (on_mlme_event_handler s) i = Some h"
  shows "BroadcastHandler run (connect_notification i bssid st) s =
    run (CallOnConnect h \<lparr>mlme_interface_index = i, mlme_bssid = bssid, mlme_status_code = st, mlme_is_timeout = False\<rparr>) s"
proof -
  have "Packet_GetAttributeValue word_class (connect_notification i bssid st) 3 = Inr (Some i)"
    unfolding connect_notification_def using assms(1)
    by (intro u32_attr.Packet_value_found [where j = 3]) (simp_all add: mac_attribute_facts, simp add: ifindex_attr_def)
  moreover have "GetMessageType (connect_notification i bssid st) = Inr 28" "GetCommand (connect_notification i bssid st) = Inr 46"
    by (simp_all add: connect_notification_def)
  ultimately show ?thesis
    using assms connect_notification_event [of bssid i st]
    by (simp add: BroadcastHandler_def GetFamilyId_known OnMlmeEvent_def)
qed

section \<open>Properties\<close>

text \<open>
  C1. A synchronous request only ever appends valid messages with the sequence number of the
  request to the caller's vector, whatever datagrams the kernel sends and whatever the
  notification handlers do meanwhile, including sending requests of their own. The receive
  buffer keeps its size and no other vector gets foreign messages.
\<close>

theorem responses_belong_to_request:
  assumes "SendMessageAndGetResponses (dispatch n) p response (s :: 'a srv_scheme) = Inr (ok, out, s')" "wf_nlm s"
  shows "wf_nlm s' \<and> delivers s s' \<and>
    (\<exists>ps. out = response @ ps \<and> (\<forall>q \<in> set ps. Packet_IsValid q = Inr True \<and>
       GetMessageSequence q = GetMessageSequence p))"
  using assms by (rule vectors.SendMessageAndGetResponses_good)

theorem responses_belong_to_request_witness:
  "\<exists>out s'. SendMessageAndGetResponses (dispatch 3) (NL80211Packet 28 3 7 99) []
       (started_server [\<lparr>send_ok = True, polls = [PollReady (ReadBytes (ack_reply 7)) 5]\<rparr>]) = Inr (True, out, s') \<and>
     wf_nlm s' \<and> out \<noteq> [] \<and> (\<forall>q \<in> set out. GetMessageSequence q = Inr 7)"
proof -
  let ?s = "started_server [\<lparr>send_ok = True, polls = [PollReady (ReadBytes (ack_reply 7)) 5]\<rparr>]"
  obtain B where run: "SendMessageAndGetResponses (dispatch 3) (NL80211Packet 28 3 7 99) [] ?s =
      Inr (True, [ack_reply 7], request_done (NL80211Packet 28 3 7 99) 7 [ack_reply 7] B ?s)"
    using SendMessageAndGetResponses_single [of ?s "NL80211Packet 28 3 7 99" 7 "ack_reply 7" 5 "[]" "[]"
        "dispatch 3" "[]"]
    by (auto simp: single_ack length_replies will_answer_def)
  from responses_belong_to_request [OF this] run show ?thesis by auto
qed

text \<open>
  C4. A dump: the kernel accepts the request and answers with any number of datagrams of
  multipart messages, the last one ending with \<open>NLMSG_DONE\<close>, within the time budget. Then the
  request succeeds, the vector gets exactly the messages in the order of arrival, and the
  handler of the request is gone.
\<close>

theorem dump_collects_all_parts:
  assumes "length (ReceiveBuffer (s :: 'a srv_scheme)) = 8192" "GetMessageSequence p = Inr k" "k \<noteq> 0"
    and "map_find (message_handlers s) k = None"
    and "will_answer s (map datagram parts @ [PollReady (ReadBytes (concat last_part @ d)) t]) rest"
    and "\<forall>part \<in> set parts. datagram_fits part \<and> (\<forall>m \<in> set (fst part). multi_reply k m)"
    and "length (concat last_part @ d) \<le> 8192" "\<forall>m \<in> set last_part. multi_reply k m" "done_reply k d"
    and "sum_list (map snd parts) + t < 4000"
  shows "\<exists>s'. SendMessageAndGetResponses (dispatch n) p response s =
      Inr (True, response @ concat (map fst parts) @ last_part, s') \<and>
    map_find (message_handlers s') k = None"
proof -
  obtain B where run: "SendMessageAndGetResponses (dispatch n) p response s =
    Inr (True, response @ concat (map fst parts) @ last_part,
         request_done p k (response @ concat (map fst parts) @ last_part) B s)"
    using SendMessageAndGetResponses_multipart [OF assms(1-3,5-10), of "dispatch n" response] by blast
  from SendMessageAndGetResponses_erases [OF this assms(2,4)] run show ?thesis by blast
qed

theorem dump_collects_all_parts_witness:
  "\<exists>s'. SendMessageAndGetResponses (dispatch 3) (NL80211Packet 28 1 7 99) []
      (started_server [\<lparr>send_ok = True, polls =
         [datagram ([data_reply 7, data_reply 7], 20), PollReady (ReadBytes (data_reply 7 @ done_packet 7)) 30]\<rparr>]) =
    Inr (True, [data_reply 7, data_reply 7, data_reply 7], s') \<and> map_find (message_handlers s') 7 = None"
  using dump_collects_all_parts [of
      "started_server [\<lparr>send_ok = True, polls =
         [datagram ([data_reply 7, data_reply 7], 20), PollReady (ReadBytes (data_reply 7 @ done_packet 7)) 30]\<rparr>]"
      "NL80211Packet 28 1 7 99" 7 "[([data_reply 7, data_reply 7], 20)]" "[data_reply 7]" "done_packet 7" 30 "[]" 3 "[]"]
  by (simp add: will_answer_def datagram_fits_def multi_data_reply done_done_packet length_replies)

text \<open>
  A request that asks for an acknowledgement reports success exactly when the kernel's
  reply carries error code zero; the error code of any other reply is passed on.
\<close>

theorem ack_iff_error_code_zero:
  assumes "length (ReceiveBuffer (s :: 'a srv_scheme)) = 8192" "GetMessageSequence p = Inr k" "k \<noteq> 0"
    and "will_answer s (PollReady (ReadBytes m) t # ps) rest"
    and "single_reply k m" "length m \<le> 8192" "t < 4000"
    and "GetMessageType m = Inr NLMSG_ERROR" "GetErrorCode m = Inr code"
  shows "(\<exists>s'. SendMessageAndGetAckOrError (dispatch n) p s = Inr (Some code, s')) \<and>
    (\<exists>s'. SendMessageAndGetAck (dispatch n) p s = Inr (code = 0, s'))"
  using AckOrError_single [OF assms, of "dispatch n"] by blast

theorem ack_iff_error_code_zero_witness:
  "(\<exists>s'. SendMessageAndGetAckOrError (dispatch 2) (NL80211Packet 28 33 9 99)
      (started_server [\<lparr>send_ok = True, polls = [PollReady (ReadBytes (error_reply 9)) 3]\<rparr>]) = Inr (Some EBUSY, s')) \<and>
   (\<exists>s'. SendMessageAndGetAck (dispatch 2) (NL80211Packet 28 33 9 99)
      (started_server [\<lparr>send_ok = True, polls = [PollReady (ReadBytes (error_reply 9)) 3]\<rparr>]) = Inr (False, s'))"
  using ack_iff_error_code_zero [of
      "started_server [\<lparr>send_ok = True, polls = [PollReady (ReadBytes (error_reply 9)) 3]\<rparr>]"
      "NL80211Packet 28 33 9 99" 9 "error_reply 9" 3 "[]" "[]" EBUSY 2]
  by (simp add: will_answer_def single_ack ack_codes length_replies)

text \<open>
  A reply that arrives when the whole time budget is used up is stored but the request
  reports failure.
\<close>

theorem late_reply_reports_failure:
  assumes "length (ReceiveBuffer (s :: 'a srv_scheme)) = 8192" "GetMessageSequence p = Inr k" "k \<noteq> 0"
    and "will_answer s (PollReady (ReadBytes m) t # ps) rest"
    and "single_reply k m" "length m \<le> 8192" "4000 \<le> t"
  shows "\<exists>s'. SendMessageAndGetResponses (dispatch n) p response s = Inr (False, response @ [m], s')"
  using SendMessageAndGetResponses_late [OF assms] .

theorem late_reply_reports_failure_witness:
  "\<exists>s'. SendMessageAndGetResponses (dispatch 2) (NL80211Packet 28 33 9 99) []
      (started_server [\<lparr>send_ok = True, polls = [PollReady (ReadBytes (ack_reply 9)) 4000]\<rparr>]) =
    Inr (False, [ack_reply 9], s')"
  using late_reply_reports_failure [of
      "started_server [\<lparr>send_ok = True, polls = [PollReady (ReadBytes (ack_reply 9)) 4000]\<rparr>]"
      "NL80211Packet 28 33 9 99" 9 "ack_reply 9" 4000 "[]" "[]" 2 "[]"]
  by (simp add: will_answer_def single_ack length_replies)

text \<open>
  C40. Sequence numbers are never zero, the number of broadcasts, and no two requests in any
  run of fewer than \<open>2 ^ 32\<close> share one, across the wrap-around of the 32-bit counter.
\<close>

theorem sequence_numbers_unique:
  assumes "n \<le> 4294967295"
  shows "distinct (fst (sequence_numbers n s)) \<and> length (fst (sequence_numbers n s)) = n \<and>
    (\<forall>k \<in> set (fst (sequence_numbers n s)). k \<noteq> 0)"
proof -
  have "length (map unat (fst (sequence_numbers n s))) = n"
    by (simp only: sequence_numbers_closed) simp
  moreover have "0 \<notin> set (map unat (fst (sequence_numbers n s)))"
    by (simp only: sequence_numbers_closed) auto
  ultimately show ?thesis using sequence_numbers_distinct [OF assms] by force
qed

theorem sequence_numbers_unique_witness:
  "distinct (fst (sequence_numbers 3 (started_server [])))"
  using sequence_numbers_unique [of 3 "started_server []"] by simp

text \<open>
  C17. Notifications are isolated per interface: which handlers run for a notification other
  than a regulatory change depends only on the interface index in it. If two interpretations
  of the handlers agree on the handlers registered for that index, the whole reception gives
  the same result; so handlers of other interfaces are never run.
\<close>

theorem broadcast_isolated_per_interface:
  assumes "agree_for p run run' s" "GetCommand p \<noteq> Inr NL80211_CMD_REG_CHANGE"
    "GetCommand p \<noteq> Inr NL80211_CMD_WIPHY_REG_CHANGE"
  shows "BroadcastHandler run p s = BroadcastHandler run' p s"
proof -
  have "agree_for p run run' s1" if "GetFamilyId s = Inr (family, s1)" for family s1
    using that assms(1)
    by (auto simp: GetFamilyId_def message_type_entry_def agree_for_def registered_for_def
        split: option.splits prod.splits)
  note agree = notifications_agree [OF this]
  show ?thesis
    unfolding BroadcastHandler_def using assms(2,3)
    by (intro and_then_cong_Inr) (auto intro!: and_then_cong_Inr simp: agree)
qed

theorem broadcast_isolated_per_interface_witness:
  "BroadcastHandler (dispatch 5) (message \<lparr>msg_type = 28, msg_flags = 0, msg_seq = 0, msg_pid = 0, msg_cmd = 46\<rparr>
      [ifindex_attr 9]) (running_server []) =
   BroadcastHandler (\<lambda>c s. Inl Null_Pointer) (message \<lparr>msg_type = 28, msg_flags = 0, msg_seq = 0, msg_pid = 0, msg_cmd = 46\<rparr>
      [ifindex_attr 9]) (running_server [])"
proof (rule broadcast_isolated_per_interface)
  let ?p = "message \<lparr>msg_type = 28, msg_flags = 0, msg_seq = 0, msg_pid = 0, msg_cmd = 46\<rparr> [ifindex_attr 9]"
  have "Packet_GetAttributeValue word_class ?p 3 = Inr (Some (9 :: u32))"
    by (rule u32_attr.Packet_value_found [where j = 3]) (simp_all, simp add: ifindex_attr_def)
  moreover have "registered_for 9 (running_server []) = {}"
    by (simp add: registered_for_def example_defs)
  ultimately show "agree_for ?p (dispatch 5) (\<lambda>c s. Inl Null_Pointer) (running_server [])"
    by (simp add: agree_for_def)
qed simp_all

text \<open>
  C11. A connect notification of the kernel for a client interface reaches the MLME handler
  of the client registered for the interface index. With a non-zero status the client is
  disassociated and its BSSID cleared. With status zero it keeps the BSSID of the
  notification whatever happens while the scan results are fetched, and it is associated
  when the kernel refuses that request.
\<close>

theorem connect_notification_sets_association:
  assumes "length bssid = 6" "family_known s" "map_find (on_mlme_event_handler s) i = Some h"
    and "map_find (clients s) h = Some c"
  shows "(st \<noteq> 0 \<longrightarrow> BroadcastHandler (dispatch (Suc n)) (connect_notification i bssid st) s =
        Inr (s\<lparr>clients := map_set h (c\<lparr>is_associated := False, associated_bssid := replicate 6 0\<rparr>) (clients s)\<rparr>)) \<and>
    (\<forall>s'. BroadcastHandler (dispatch (Suc n)) (connect_notification i bssid 0) s = Inr s' \<longrightarrow>
       (\<exists>c'. map_find (clients s') h = Some c' \<and> associated_bssid c' = bssid)) \<and>
    (net_script s = [] \<and> \<not> interceptor_enabled s \<longrightarrow>
       (\<exists>s'. BroadcastHandler (dispatch (Suc n)) (connect_notification i bssid 0) s = Inr s' \<and>
         map_find (clients s') h = Some (c\<lparr>is_associated := True, associated_bssid := bssid\<rparr>)))"
proof -
  note run = connect_notification_runs [OF assms(1-3), of "dispatch (Suc n)"]
  have refused: "new_request cmd s1 = Inr (NL80211Packet 28 cmd (fst (GetSequenceNumber s1)) (own_pid s1),
      s1\<lparr>sequence_number := fst (GetSequenceNumber s1)\<rparr>)" if "family_known s1" for cmd and s1 :: "'a srv_scheme"
    using that by (simp add: new_request_def GetFamilyId_known GetSequenceNumber_def Let_def)
  show ?thesis
    using assms(4)
    apply (intro conjI impI allI)
      apply (simp add: run handle_def OnConnect_def mark_disassociated_def modify_client_def the_client_def)
     apply (auto simp: run handle_def OnConnect_def mark_associated_def modify_client_def the_client_def
        elim!: and_then_InrE split: option.splits)[1]
    apply (use assms(2) in \<open>auto simp: run handle_def OnConnect_def mark_associated_def modify_client_def the_client_def
        RefreshAssociateFreq_def GetScanResult_def refused family_known_def Let_def SendMessageAndGetResponses_def SendMessageInternal_def\<close>)
    done
qed

theorem connect_notification_sets_association_witness:
  "(\<exists>s'. BroadcastHandler (dispatch 1) (connect_notification 5 [1, 2, 3, 4, 5, 6] 0) (running_server []) = Inr s' \<and>
     map_find (clients s') 1 = Some (client_1\<lparr>is_associated := True, associated_bssid := [1, 2, 3, 4, 5, 6]\<rparr>)) \<and>
   (\<exists>s'. BroadcastHandler (dispatch 1) (connect_notification 5 [1, 2, 3, 4, 5, 6] 1) (running_server []) = Inr s' \<and>
     map_find (clients s') 1 = Some (client_1\<lparr>is_associated := False, associated_bssid := replicate 6 0\<rparr>))"
  using connect_notification_sets_association [of "[1, 2, 3, 4, 5, 6]" "running_server []" 5 1 client_1 1 0]
  by (simp add: family_known_def example_defs)

end
