(* ===== verification/Parcelables.thy ===== *)
theory Parcelables
  imports Server
begin

text \<open>
  \<open>scanning/*.cpp\<close>, \<open>device_wiphy_capabilities.cpp\<close>, \<open>client/native_wifi_client.cpp\<close> and
  \<open>parcelable_utils.h\<close>: how results and settings travel between processes. \<open>android::Parcel\<close> is
  not part of the repository. It is the parameter \<open>P\<close> of all definitions, a record of the
  operations that the code calls; every one returns a status (zero is success) and a read gets
  the value its destination holds and returns the new one.
\<close>

section \<open>The parcel\<close>

type_synonym status = int

definition OK :: status where
  [simp]: "OK = 0"

definition BAD_VALUE :: status where
  [simp]: "BAD_VALUE = - 22"

record 'p parcel_api =
  writeInt32 :: "u32 \<Rightarrow> 'p \<Rightarrow> status \<times> 'p"
  writeUint32 :: "u32 \<Rightarrow> 'p \<Rightarrow> status \<times> 'p"
  writeInt64 :: "u64 \<Rightarrow> 'p \<Rightarrow> status \<times> 'p"
  writeUint64 :: "u64 \<Rightarrow> 'p \<Rightarrow> status \<times> 'p"
  writeBool :: "bool \<Rightarrow> 'p \<Rightarrow> status \<times> 'p"
  writeByteVector :: "bytes \<Rightarrow> 'p \<Rightarrow> status \<times> 'p"
  writeInt32Vector :: "u32 list \<Rightarrow> 'p \<Rightarrow> status \<times> 'p"
  readInt32 :: "'p \<Rightarrow> u32 \<Rightarrow> status \<times> u32 \<times> 'p"
  readUint32 :: "'p \<Rightarrow> u32 \<Rightarrow> status \<times> u32 \<times> 'p"
  readInt64 :: "'p \<Rightarrow> u64 \<Rightarrow> status \<times> u64 \<times> 'p"
  readUint64 :: "'p \<Rightarrow> u64 \<Rightarrow> status \<times> u64 \<times> 'p"
  readBool :: "'p \<Rightarrow> bool \<Rightarrow> status \<times> bool \<times> 'p"
  readByteVector :: "'p \<Rightarrow> bytes \<Rightarrow> status \<times> bytes \<times> 'p"
  readInt32Vector :: "'p \<Rightarrow> u32 list \<Rightarrow> status \<times> u32 list \<times> 'p"
  int32_value :: "'p \<Rightarrow> u32 \<times> 'p"
  uint32_value :: "'p \<Rightarrow> u32 \<times> 'p"

text \<open>
  \<open>RETURN_IF_FAILED\<close>: a step works on a state (a parcel, or an object that is being read with
  its parcel); the first status that is not zero is returned.
\<close>

definition RETURN_IF_FAILED :: "('s \<Rightarrow> status \<times> 's) \<Rightarrow> ('s \<Rightarrow> status \<times> 's) \<Rightarrow> 's \<Rightarrow> status \<times> 's" where
  "RETURN_IF_FAILED step rest s =
     (case step s of (return_status, s1) \<Rightarrow> if return_status \<noteq> 0 then (return_status, s1) else rest s1)"

primrec in_turn :: "('s \<Rightarrow> status \<times> 's) list \<Rightarrow> 's \<Rightarrow> status \<times> 's" where
  "in_turn [] s = (OK, s)"
| "in_turn (step # steps) s = RETURN_IF_FAILED step (in_turn steps) s"

text \<open>Reading a member of an object, and a test that fails with \<open>BAD_VALUE\<close>.\<close>

definition into :: "('p \<Rightarrow> 'v \<Rightarrow> status \<times> 'v \<times> 'p) \<Rightarrow> ('o \<Rightarrow> 'v) \<Rightarrow> ('v \<Rightarrow> 'o \<Rightarrow> 'o) \<Rightarrow> 'o \<times> 'p \<Rightarrow> status \<times> 'o \<times> 'p" where
  "into read sel store op = (case read (snd op) (sel (fst op)) of (st, v, p) \<Rightarrow> (st, store v (fst op), p))"

definition demand :: "('s \<Rightarrow> bool) \<Rightarrow> 's \<Rightarrow> status \<times> 's" where
  "demand ok s = (if ok s then (OK, s) else (BAD_VALUE, s))"

text \<open>The list convention of Java's \<open>writeTypedList\<close>: a count, and a 1 before each element.\<close>

definition write_typed_list :: "('p, 'z) parcel_api_scheme \<Rightarrow> ('e \<Rightarrow> 'p \<Rightarrow> status \<times> 'p) \<Rightarrow> 'e list \<Rightarrow> 'p \<Rightarrow> status \<times> 'p" where
  "write_typed_list P write elements =
     in_turn (writeInt32 P (of_nat (length elements)) #
              concat (map (\<lambda>e. [writeInt32 P 1, write e]) elements))"

primrec read_elements ::
    "('p, 'z) parcel_api_scheme \<Rightarrow> 'e \<Rightarrow> ('e \<times> 'p \<Rightarrow> status \<times> 'e \<times> 'p) \<Rightarrow> ('e \<Rightarrow> 'o \<Rightarrow> 'o) \<Rightarrow> nat \<Rightarrow>
     'o \<times> 'p \<Rightarrow> status \<times> 'o \<times> 'p" where
  "read_elements P fresh read push 0 op = (OK, op)"
| "read_elements P fresh read push (Suc n) op =
     (case readInt32 P (snd op) 0 of (st, leading_number, p1) \<Rightarrow>
        if st \<noteq> 0 then (st, fst op, p1)
        else if leading_number \<noteq> 1 then (BAD_VALUE, fst op, p1)
        else case read (fresh, p1) of (st, e, p2) \<Rightarrow>
          if st \<noteq> 0 then (st, fst op, p2)
          else read_elements P fresh read push n (push e (fst op), p2))"

definition read_typed_list ::
    "('p, 'z) parcel_api_scheme \<Rightarrow> 'e \<Rightarrow> ('e \<times> 'p \<Rightarrow> status \<times> 'e \<times> 'p) \<Rightarrow> ('e \<Rightarrow> 'o \<Rightarrow> 'o) \<Rightarrow>
     'o \<times> 'p \<Rightarrow> status \<times> 'o \<times> 'p" where
  "read_typed_list P fresh read push op =
     (case readInt32 P (snd op) 0 of (st, num, p) \<Rightarrow>
        if st \<noteq> 0 then (st, fst op, p)
        else read_elements P fresh read push (nat (sint num)) (fst op, p))"

section \<open>Scan results\<close>

definition RadioChainInfo_writeToParcel ::
    "('p, 'z) parcel_api_scheme \<Rightarrow> radio_chain_info \<Rightarrow> 'p \<Rightarrow> status \<times> 'p" where
  "RadioChainInfo_writeToParcel P x = in_turn [writeInt32 P (chain_id x), writeInt32 P (chain_level x)]"

definition RadioChainInfo_readFromParcel ::
    "('p, 'z) parcel_api_scheme \<Rightarrow> radio_chain_info \<times> 'p \<Rightarrow> status \<times> radio_chain_info \<times> 'p" where
  "RadioChainInfo_readFromParcel P =
     in_turn [into (readInt32 P) chain_id (\<lambda>v x. x\<lparr>chain_id := v\<rparr>),
              into (readInt32 P) chain_level (\<lambda>v x. x\<lparr>chain_level := v\<rparr>)]"

definition RadioChainInfo :: radio_chain_info where
  "RadioChainInfo = \<lparr>chain_id = 0, chain_level = 0\<rparr>"

definition NativeScanResult_writeToParcel ::
    "('p, 'z) parcel_api_scheme \<Rightarrow> native_scan_result \<Rightarrow> 'p \<Rightarrow> status \<times> 'p" where
  "NativeScanResult_writeToParcel P r =
     in_turn [writeByteVector P (scan_ssid r), writeByteVector P (scan_bssid r),
              writeByteVector P (scan_info_element r), writeUint32 P (scan_frequency r),
              writeInt32 P (scan_signal_mbm r), writeUint64 P (scan_tsf r),
              writeUint32 P (ucast (scan_capability r)),
              writeInt32 P (if scan_associated r then 1 else 0),
              write_typed_list P (RadioChainInfo_writeToParcel P) (scan_chain_infos r)]"

text \<open>The BSSID goes through a local vector, which must have six bytes.\<close>

definition read_bssid ::
    "('p, 'z) parcel_api_scheme \<Rightarrow> native_scan_result \<times> 'p \<Rightarrow> status \<times> native_scan_result \<times> 'p" where
  "read_bssid P op =
     (case readByteVector P (snd op) [] of (st, bssid_vec, p) \<Rightarrow>
        if st \<noteq> 0 then (st, fst op, p)
        else if length bssid_vec \<noteq> ETH_ALEN then (BAD_VALUE, fst op, p)
        else (OK, (fst op)\<lparr>scan_bssid := bssid_vec\<rparr>, p))"

text \<open>Two of the reads return a value and no status, so that their failure goes unnoticed.\<close>

definition NativeScanResult_readFromParcel ::
    "('p, 'z) parcel_api_scheme \<Rightarrow> native_scan_result \<times> 'p \<Rightarrow> status \<times> native_scan_result \<times> 'p" where
  "NativeScanResult_readFromParcel P =
     in_turn [into (readByteVector P) scan_ssid (\<lambda>v r. r\<lparr>scan_ssid := v\<rparr>),
              read_bssid P,
              into (readByteVector P) scan_info_element (\<lambda>v r. r\<lparr>scan_info_element := v\<rparr>),
              into (readUint32 P) scan_frequency (\<lambda>v r. r\<lparr>scan_frequency := v\<rparr>),
              into (readInt32 P) scan_signal_mbm (\<lambda>v r. r\<lparr>scan_signal_mbm := v\<rparr>),
              into (readUint64 P) scan_tsf (\<lambda>v r. r\<lparr>scan_tsf := v\<rparr>),
              (\<lambda>op. case uint32_value P (snd op) of (v, p) \<Rightarrow> (OK, (fst op)\<lparr>scan_capability := ucast v\<rparr>, p)),
              (\<lambda>op. case int32_value P (snd op) of (v, p) \<Rightarrow> (OK, (fst op)\<lparr>scan_associated := v \<noteq> 0\<rparr>, p)),
              read_typed_list P RadioChainInfo (RadioChainInfo_readFromParcel P)
                (\<lambda>e r. r\<lparr>scan_chain_infos := scan_chain_infos r @ [e]\<rparr>)]"

section \<open>Settings of single scans\<close>

definition ChannelSettings_writeToParcel ::
    "('p, 'z) parcel_api_scheme \<Rightarrow> channel_settings \<Rightarrow> 'p \<Rightarrow> status \<times> 'p" where
  "ChannelSettings_writeToParcel P x = in_turn [writeInt32 P (channel_frequency x)]"

definition ChannelSettings_readFromParcel ::
    "('p, 'z) parcel_api_scheme \<Rightarrow> channel_settings \<times> 'p \<Rightarrow> status \<times> channel_settings \<times> 'p" where
  "ChannelSettings_readFromParcel P = in_turn [into (readInt32 P) channel_frequency (\<lambda>v x. x\<lparr>channel_frequency := v\<rparr>)]"

definition HiddenNetwork_writeToParcel ::
    "('p, 'z) parcel_api_scheme \<Rightarrow> hidden_network \<Rightarrow> 'p \<Rightarrow> status \<times> 'p" where
  "HiddenNetwork_writeToParcel P x = in_turn [writeByteVector P (hidden_ssid x)]"

definition HiddenNetwork_readFromParcel ::
    "('p, 'z) parcel_api_scheme \<Rightarrow> hidden_network \<times> 'p \<Rightarrow> status \<times> hidden_network \<times> 'p" where
  "HiddenNetwork_readFromParcel P = in_turn [into (readByteVector P) hidden_ssid (\<lambda>v x. x\<lparr>hidden_ssid := v\<rparr>)]"

definition isValidScanType :: "single_scan_settings \<Rightarrow> bool" where
  "isValidScanType x \<longleftrightarrow>
     settings_scan_type x = SCAN_TYPE_LOW_SPAN \<or> settings_scan_type x = SCAN_TYPE_LOW_POWER \<or>
     settings_scan_type x = SCAN_TYPE_HIGH_ACCURACY"

definition SingleScanSettings_writeToParcel ::
    "('p, 'z) parcel_api_scheme \<Rightarrow> single_scan_settings \<Rightarrow> 'p \<Rightarrow> status \<times> 'p" where
  "SingleScanSettings_writeToParcel P x =
     in_turn [demand (\<lambda>_. isValidScanType x),
              writeInt32 P (word_of_int (settings_scan_type x)),
              writeBool P (settings_enable_6ghz_rnr x),
              write_typed_list P (ChannelSettings_writeToParcel P) (settings_channels x),
              write_typed_list P (HiddenNetwork_writeToParcel P) (settings_hidden_networks x),
              writeByteVector P (settings_vendor_ies x)]"

definition SingleScanSettings_readFromParcel ::
    "('p, 'z) parcel_api_scheme \<Rightarrow> single_scan_settings \<times> 'p \<Rightarrow> status \<times> single_scan_settings \<times> 'p" where
  "SingleScanSettings_readFromParcel P =
     in_turn [into (readInt32 P) (\<lambda>x. word_of_int (settings_scan_type x)) (\<lambda>v x. x\<lparr>settings_scan_type := sint v\<rparr>),
              demand (\<lambda>op. isValidScanType (fst op)),
              into (readBool P) settings_enable_6ghz_rnr (\<lambda>v x. x\<lparr>settings_enable_6ghz_rnr := v\<rparr>),
              read_typed_list P \<lparr>channel_frequency = 0\<rparr> (ChannelSettings_readFromParcel P)
                (\<lambda>e x. x\<lparr>settings_channels := settings_channels x @ [e]\<rparr>),
              read_typed_list P \<lparr>hidden_ssid = []\<rparr> (HiddenNetwork_readFromParcel P)
                (\<lambda>e x. x\<lparr>settings_hidden_networks := settings_hidden_networks x @ [e]\<rparr>),
              into (readByteVector P) settings_vendor_ies (\<lambda>v x. x\<lparr>settings_vendor_ies := v\<rparr>)]"

section \<open>Settings of scheduled scans\<close>

definition PnoNetwork_writeToParcel ::
    "('p, 'z) parcel_api_scheme \<Rightarrow> pno_network \<Rightarrow> 'p \<Rightarrow> status \<times> 'p" where
  "PnoNetwork_writeToParcel P x =
     in_turn [writeInt32 P (if pno_is_hidden x then 1 else 0), writeByteVector P (pno_ssid x),
              writeInt32Vector P (pno_frequencies x)]"

text \<open>\<open>is_hidden\<close> is a local that starts with 0 and is stored after the read succeeded.\<close>

definition PnoNetwork_readFromParcel ::
    "('p, 'z) parcel_api_scheme \<Rightarrow> pno_network \<times> 'p \<Rightarrow> status \<times> pno_network \<times> 'p" where
  "PnoNetwork_readFromParcel P =
     in_turn [(\<lambda>op. case readInt32 P (snd op) 0 of (st, is_hidden, p) \<Rightarrow>
                 if st \<noteq> 0 then (st, fst op, p) else (OK, (fst op)\<lparr>pno_is_hidden := is_hidden \<noteq> 0\<rparr>, p)),
              into (readByteVector P) pno_ssid (\<lambda>v x. x\<lparr>pno_ssid := v\<rparr>),
              into (readInt32Vector P) pno_frequencies (\<lambda>v x. x\<lparr>pno_frequencies := v\<rparr>)]"

definition PnoSettings :: pno_settings where
  "PnoSettings =
     \<lparr>pno_interval_ms = 0, pno_min_2g_rssi = 0, pno_min_5g_rssi = 0, pno_min_6g_rssi = 0,
      pno_scan_iterations = 0, pno_scan_interval_multiplier = 0, pno_networks = []\<rparr>"

definition PnoSettings_writeToParcel ::
    "('p, 'z) parcel_api_scheme \<Rightarrow> pno_settings \<Rightarrow> 'p \<Rightarrow> status \<times> 'p" where
  "PnoSettings_writeToParcel P x =
     in_turn [writeInt64 P (pno_interval_ms x), writeInt32 P (pno_min_2g_rssi x),
              writeInt32 P (pno_min_5g_rssi x), writeInt32 P (pno_min_6g_rssi x),
              writeUint32 P (pno_scan_iterations x), writeUint32 P (pno_scan_interval_multiplier x),
              write_typed_list P (PnoNetwork_writeToParcel P) (pno_networks x)]"

text \<open>The local \<open>PnoNetwork\<close> is made in memory \<open>mem\<close>: its constructor leaves \<open>is_hidden_\<close> as it is.\<close>

definition PnoSettings_readFromParcel ::
    "('p, 'z) parcel_api_scheme \<Rightarrow> pno_network \<Rightarrow> pno_settings \<times> 'p \<Rightarrow> status \<times> pno_settings \<times> 'p" where
  "PnoSettings_readFromParcel P mem =
     in_turn [into (readInt64 P) pno_interval_ms (\<lambda>v x. x\<lparr>pno_interval_ms := v\<rparr>),
              into (readInt32 P) pno_min_2g_rssi (\<lambda>v x. x\<lparr>pno_min_2g_rssi := v\<rparr>),
              into (readInt32 P) pno_min_5g_rssi (\<lambda>v x. x\<lparr>pno_min_5g_rssi := v\<rparr>),
              into (readInt32 P) pno_min_6g_rssi (\<lambda>v x. x\<lparr>pno_min_6g_rssi := v\<rparr>),
              into (readUint32 P) pno_scan_iterations (\<lambda>v x. x\<lparr>pno_scan_iterations := v\<rparr>),
              into (readUint32 P) pno_scan_interval_multiplier (\<lambda>v x. x\<lparr>pno_scan_interval_multiplier := v\<rparr>),
              read_typed_list P (mem\<lparr>pno_ssid := [], pno_frequencies := []\<rparr>) (PnoNetwork_readFromParcel P)
                (\<lambda>e x. x\<lparr>pno_networks := pno_networks x @ [e]\<rparr>)]"

section \<open>Capabilities and clients\<close>

definition DeviceWiphyCapabilities_writeToParcel ::
    "('p, 'z) parcel_api_scheme \<Rightarrow> device_wiphy_capabilities \<Rightarrow> 'p \<Rightarrow> status \<times> 'p" where
  "DeviceWiphyCapabilities_writeToParcel P x =
     in_turn [writeBool P (is80211nSupported x), writeBool P (is80211acSupported x), writeBool P (is80211axSupported x),
              writeBool P (is80211beSupported x), writeBool P (is160MhzSupported x), writeBool P (is80p80MhzSupported x),
              writeBool P (is320MhzSupported x), writeUint32 P (maxTxStreams x), writeUint32 P (maxRxStreams x)]"

definition DeviceWiphyCapabilities_readFromParcel ::
    "('p, 'z) parcel_api_scheme \<Rightarrow> device_wiphy_capabilities \<times> 'p \<Rightarrow> status \<times> device_wiphy_capabilities \<times> 'p" where
  "DeviceWiphyCapabilities_readFromParcel P =
     in_turn [into (readBool P) is80211nSupported (\<lambda>v x. x\<lparr>is80211nSupported := v\<rparr>),
              into (readBool P) is80211acSupported (\<lambda>v x. x\<lparr>is80211acSupported := v\<rparr>),
              into (readBool P) is80211axSupported (\<lambda>v x. x\<lparr>is80211axSupported := v\<rparr>),
              into (readBool P) is80211beSupported (\<lambda>v x. x\<lparr>is80211beSupported := v\<rparr>),
              into (readBool P) is160MhzSupported (\<lambda>v x. x\<lparr>is160MhzSupported := v\<rparr>),
              into (readBool P) is80p80MhzSupported (\<lambda>v x. x\<lparr>is80p80MhzSupported := v\<rparr>),
              into (readBool P) is320MhzSupported (\<lambda>v x. x\<lparr>is320MhzSupported := v\<rparr>),
              into (readUint32 P) maxTxStreams (\<lambda>v x. x\<lparr>maxTxStreams := v\<rparr>),
              into (readUint32 P) maxRxStreams (\<lambda>v x. x\<lparr>maxRxStreams := v\<rparr>)]"

record native_wifi_client =
  mac_address :: bytes

definition NativeWifiClient_writeToParcel ::
    "('p, 'z) parcel_api_scheme \<Rightarrow> native_wifi_client \<Rightarrow> 'p \<Rightarrow> status \<times> 'p" where
  "NativeWifiClient_writeToParcel P x = in_turn [writeByteVector P (mac_address x)]"

definition NativeWifiClient_readFromParcel ::
    "('p, 'z) parcel_api_scheme \<Rightarrow> native_wifi_client \<times> 'p \<Rightarrow> status \<times> native_wifi_client \<times> 'p" where
  "NativeWifiClient_readFromParcel P = in_turn [into (readByteVector P) mac_address (\<lambda>v x. x\<lparr>mac_address := v\<rparr>)]"

section \<open>Equality\<close>

text \<open>The comparison operators; the ones of the settings leave out some of the members.\<close>

definition ChannelSettings_eq :: "channel_settings \<Rightarrow> channel_settings \<Rightarrow> bool" where
  "ChannelSettings_eq x rhs \<longleftrightarrow> channel_frequency x = channel_frequency rhs"

definition HiddenNetwork_eq :: "hidden_network \<Rightarrow> hidden_network \<Rightarrow> bool" where
  "HiddenNetwork_eq x rhs \<longleftrightarrow> hidden_ssid x = hidden_ssid rhs"

definition PnoNetwork_eq :: "pno_network \<Rightarrow> pno_network \<Rightarrow> bool" where
  "PnoNetwork_eq x rhs \<longleftrightarrow> pno_is_hidden x = pno_is_hidden rhs \<and> pno_ssid x = pno_ssid rhs"

definition PnoSettings_eq :: "pno_settings \<Rightarrow> pno_settings \<Rightarrow> bool" where
  "PnoSettings_eq x rhs \<longleftrightarrow>
     list_all2 PnoNetwork_eq (pno_networks x) (pno_networks rhs) \<and> pno_min_2g_rssi x = pno_min_2g_rssi rhs \<and>
     pno_min_5g_rssi x = pno_min_5g_rssi rhs \<and> pno_min_6g_rssi x = pno_min_6g_rssi rhs"

definition SingleScanSettings_eq :: "single_scan_settings \<Rightarrow> single_scan_settings \<Rightarrow> bool" where
  "SingleScanSettings_eq x rhs \<longleftrightarrow>
     settings_scan_type x = settings_scan_type rhs \<and>
     list_all2 ChannelSettings_eq (settings_channels x) (settings_channels rhs) \<and>
     list_all2 HiddenNetwork_eq (settings_hidden_networks x) (settings_hidden_networks rhs) \<and>
     settings_vendor_ies x = settings_vendor_ies rhs"

definition RadioChainInfo_eq :: "radio_chain_info \<Rightarrow> radio_chain_info \<Rightarrow> bool" where
  "RadioChainInfo_eq x rhs \<longleftrightarrow> chain_id x = chain_id rhs \<and> chain_level x = chain_level rhs"

definition DeviceWiphyCapabilities_eq :: "device_wiphy_capabilities \<Rightarrow> device_wiphy_capabilities \<Rightarrow> bool" where
  "DeviceWiphyCapabilities_eq x rhs \<longleftrightarrow>
     is80211nSupported x = is80211nSupported rhs \<and> is80211acSupported x = is80211acSupported rhs \<and>
     is80211axSupported x = is80211axSupported rhs \<and> is80211beSupported x = is80211beSupported rhs \<and>
     is160MhzSupported x = is160MhzSupported rhs \<and> is80p80MhzSupported x = is80p80MhzSupported rhs \<and>
     is320MhzSupported x = is320MhzSupported rhs \<and> maxTxStreams x = maxTxStreams rhs \<and>
     maxRxStreams x = maxRxStreams rhs"

definition NativeWifiClient_eq :: "native_wifi_client \<Rightarrow> native_wifi_client \<Rightarrow> bool" where
  "NativeWifiClient_eq x rhs \<longleftrightarrow> mac_address x = mac_address rhs"

end
