(* ===== verification/Parcel_Properties.thy ===== *)
theory Parcel_Properties
  imports Parcelables
begin

text \<open>
  What is written to a parcel is read back. The locale \<open>parcel_format\<close> states what the code relies
  on: the items that were written successfully are read in the order in which they were written.
  Its lemmas give the sequence of items of every class and that the reader takes exactly this
  sequence. The interpretation is a parcel as a sequence of bytes with four-byte alignment.
\<close>

section \<open>The contract of a parcel\<close>

datatype item =
    Int32 u32
  | Uint32 u32
  | Int64 u64
  | Uint64 u64
  | Bool bool
  | Byte_Vector bytes
  | Int32_Vector "u32 list"

definition reads :: "('p \<Rightarrow> item list \<Rightarrow> bool) \<Rightarrow> ('p \<Rightarrow> 'v \<Rightarrow> status \<times> 'v \<times> 'p) \<Rightarrow> item \<Rightarrow> 'v \<Rightarrow> bool" where
  "reads holds read i v \<longleftrightarrow>
     (\<forall>p rest old. holds p (i # rest) \<longrightarrow> (\<exists>p'. read p old = (0, v, p') \<and> holds p' rest))"

definition writes :: "('p \<Rightarrow> item list \<Rightarrow> bool) \<Rightarrow> ('p \<Rightarrow> status \<times> 'p) \<Rightarrow> item list \<Rightarrow> bool" where
  "writes holds write is \<longleftrightarrow>
     (\<forall>p p' before. holds p before \<longrightarrow> write p = (0, p') \<longrightarrow> holds p' (before @ is))"

locale parcel_format =
  fixes P :: "'p parcel_api" and holds :: "'p \<Rightarrow> item list \<Rightarrow> bool"
  assumes writes_items:
    "writes holds (writeInt32 P w) [Int32 w]" "writes holds (writeUint32 P w) [Uint32 w]"
    "writes holds (writeInt64 P d) [Int64 d]" "writes holds (writeUint64 P d) [Uint64 d]"
    "writes holds (writeBool P b) [Bool b]" "writes holds (writeByteVector P bs) [Byte_Vector bs]"
    "writes holds (writeInt32Vector P ws) [Int32_Vector ws]"
  assumes reads_items:
    "reads holds (readInt32 P) (Int32 w) w" "reads holds (readUint32 P) (Uint32 w) w"
    "reads holds (readInt64 P) (Int64 d) d" "reads holds (readUint64 P) (Uint64 d) d"
    "reads holds (readBool P) (Bool b) b" "reads holds (readByteVector P) (Byte_Vector bs) bs"
    "reads holds (readInt32Vector P) (Int32_Vector ws) ws"
  assumes value_items:
    "holds p (Int32 w # rest) \<Longrightarrow> \<exists>p'. int32_value P p = (w, p') \<and> holds p' rest"
    "holds p (Uint32 w # rest) \<Longrightarrow> \<exists>p'. uint32_value P p = (w, p') \<and> holds p' rest"

text \<open>A step of reading an object takes some items and changes the object.\<close>

definition takes :: "('p \<Rightarrow> item list \<Rightarrow> bool) \<Rightarrow> ('o \<times> 'p \<Rightarrow> status \<times> 'o \<times> 'p) \<Rightarrow> item list \<Rightarrow> ('o \<Rightarrow> 'o) \<Rightarrow> bool" where
  "takes holds step is f \<longleftrightarrow>
     (\<forall>x p rest. holds p (is @ rest) \<longrightarrow> (\<exists>p'. step (x, p) = (0, f x, p') \<and> holds p' rest))"

lemma writes_nil: "writes holds (in_turn []) []"
  by (simp add: writes_def)

lemma writes_cons:
  "writes holds step a \<Longrightarrow> writes holds (in_turn steps) b \<Longrightarrow> writes holds (in_turn (step # steps)) (a @ b)"
  by (fastforce simp: writes_def RETURN_IF_FAILED_def split: prod.splits if_splits)

lemma writes_demand: "writes holds (demand ok) []"
  by (simp add: writes_def demand_def)

lemma takes_nil: "takes holds (in_turn []) [] (\<lambda>x. x)"
  by (simp add: takes_def)

lemma takes_cons:
  assumes "takes holds step a f" "takes holds (in_turn steps) b g"
  shows "takes holds (in_turn (step # steps)) (a @ b) (\<lambda>x. g (f x))"
  unfolding takes_def
proof (intro allI impI)
  fix x p rest
  assume "holds p ((a @ b) @ rest)"
  then obtain p1 where p1: "step (x, p) = (0, f x, p1)" "holds p1 (b @ rest)"
    using assms(1) unfolding takes_def append_assoc by blast
  then obtain p2 where "in_turn steps (f x, p1) = (0, g (f x), p2)" "holds p2 rest"
    using assms(2) unfolding takes_def by blast
  with p1(1) show "\<exists>p'. in_turn (step # steps) (x, p) = (0, g (f x), p') \<and> holds p' rest"
    by (simp add: RETURN_IF_FAILED_def)
qed

lemma takes_demand:
  assumes "takes holds step a f" "takes holds (in_turn steps) b g" "\<And>x p. ok (f x, p)"
  shows "takes holds (in_turn (step # demand ok # steps)) (a @ b) (\<lambda>x. g (f x))"
proof -
  have "in_turn (step # demand ok # steps) (x, p) = in_turn (step # steps) (x, p)"
    if "step (x, p) = (0, f x, p1)" for x p p1
    using that assms(3) by (simp add: RETURN_IF_FAILED_def demand_def)
  moreover have "takes holds (in_turn (step # steps)) (a @ b) (\<lambda>x. g (f x))" by (rule takes_cons [OF assms(1,2)])
  ultimately show ?thesis
    using assms(1) unfolding takes_def append_assoc by metis
qed

lemma takes_eq: "takes holds step is f \<Longrightarrow> (\<And>x. f x = g x) \<Longrightarrow> takes holds step is g"
  by (simp add: takes_def)

lemma takes_into:
  assumes "reads holds read i v"
  shows "takes holds (into read sel store) [i] (store v)"
  unfolding takes_def
proof (intro allI impI)
  fix x p rest
  assume "holds p ([i] @ rest)"
  then obtain p' where "read p (sel x) = (0, v, p')" "holds p' rest"
    using assms unfolding reads_def by (metis append_Cons append_Nil)
  then show "\<exists>p'. into read sel store (x, p) = (0, store v x, p') \<and> holds p' rest" by (simp add: into_def)
qed

lemma sint_small: "- (2 ^ 31) \<le> k \<Longrightarrow> k < 2 ^ 31 \<Longrightarrow> sint (word_of_int k :: u32) = k"
  by (simp add: signed_of_int signed_take_bit_int_eq_self)

lemma sint_small_64: "- (2 ^ 63) \<le> k \<Longrightarrow> k < 2 ^ 63 \<Longrightarrow> sint (word_of_int k :: u64) = k"
  by (simp add: signed_of_int signed_take_bit_int_eq_self)

lemma nat_sint_of_nat: "n < 2 ^ 31 \<Longrightarrow> nat (sint (of_nat n :: u32)) = n"
  using sint_small [of "int n"] by simp

lemma ucast_ucast_16: "ucast (ucast (w :: u16) :: u32) = w"
  by (simp add: ucast_up_ucast_id is_up)

text \<open>Lists.\<close>

definition list_items :: "('e \<Rightarrow> item list) \<Rightarrow> 'e list \<Rightarrow> item list" where
  "list_items items elements = Int32 (of_nat (length elements)) # concat (map (\<lambda>e. Int32 1 # items e) elements)"

context parcel_format
begin

lemma writes_list:
  assumes "\<And>e. writes holds (write e) (items e)"
  shows "writes holds (write_typed_list P write elements) (list_items items elements)"
proof -
  have "writes holds (in_turn (concat (map (\<lambda>e. [writeInt32 P 1, write e]) elements)))
      (concat (map (\<lambda>e. Int32 1 # items e) elements))"
  proof (induction elements)
    case (Cons e es)
    show ?case
      using writes_cons [OF writes_items(1) writes_cons [OF assms Cons.IH]] by (simp del: in_turn.simps)
  qed (simp add: writes_def)
  from writes_cons [OF writes_items(1) this] show ?thesis
    by (simp add: write_typed_list_def list_items_def del: in_turn.simps)
qed

lemma takes_elements:
  assumes "\<And>e. takes holds read (items e) (\<lambda>_. e)"
  shows "takes holds (read_elements P fresh read push (length es)) (concat (map (\<lambda>e. Int32 1 # items e) es)) (fold push es)"
proof (induction es)
  case Nil
  then show ?case by (simp add: takes_def)
next
  case (Cons e es)
  show ?case
    unfolding takes_def
  proof (intro allI impI)
    fix x p rest
    let ?more = "concat (map (\<lambda>e. Int32 1 # items e) es) @ rest"
    assume "holds p (concat (map (\<lambda>e. Int32 1 # items e) (e # es)) @ rest)"
    then have "holds p (Int32 1 # items e @ ?more)" by simp
    then obtain p1 where p1: "readInt32 P p 0 = (0, 1, p1)" "holds p1 (items e @ ?more)"
      using reads_items(1) unfolding reads_def by blast
    then obtain p2 where p2: "read (fresh, p1) = (0, e, p2)" "holds p2 ?more"
      using assms [of e] unfolding takes_def by blast
    then obtain p3 where "read_elements P fresh read push (length es) (push e x, p2) = (0, fold push es (push e x), p3)"
      "holds p3 rest" using Cons.IH unfolding takes_def by blast
    with p1(1) p2(1) show "\<exists>p'. read_elements P fresh read push (length (e # es)) (x, p) = (0, fold push (e # es) x, p') \<and> holds p' rest"
      by simp
  qed
qed

lemma takes_list:
  assumes "\<And>e. takes holds read (items e) (\<lambda>_. e)" "length es < 2 ^ 31"
  shows "takes holds (read_typed_list P fresh read push) (list_items items es) (fold push es)"
  unfolding takes_def
proof (intro allI impI)
  fix x p rest
  assume "holds p (list_items items es @ rest)"
  then have "holds p (Int32 (of_nat (length es)) # concat (map (\<lambda>e. Int32 1 # items e) es) @ rest)"
    by (simp add: list_items_def)
  then obtain p1 where p1: "readInt32 P p 0 = (0, of_nat (length es), p1)"
    "holds p1 (concat (map (\<lambda>e. Int32 1 # items e) es) @ rest)"
    using reads_items(1) unfolding reads_def by blast
  have "nat (sint (of_nat (length es) :: u32)) = length es"
    using assms(2) by (intro nat_sint_of_nat)
  with p1 takes_elements [OF assms(1), of fresh push es]
  show "\<exists>p'. read_typed_list P fresh read push (x, p) = (0, fold push es x, p') \<and> holds p' rest"
    unfolding takes_def by (simp add: read_typed_list_def)
qed

end

section \<open>Items of the classes\<close>

definition radio_chain_items :: "radio_chain_info \<Rightarrow> item list" where
  "radio_chain_items x = [Int32 (chain_id x), Int32 (chain_level x)]"

definition scan_result_items :: "native_scan_result \<Rightarrow> item list" where
  "scan_result_items r =
     [Byte_Vector (scan_ssid r), Byte_Vector (scan_bssid r), Byte_Vector (scan_info_element r),
      Uint32 (scan_frequency r), Int32 (scan_signal_mbm r), Uint64 (scan_tsf r), Uint32 (ucast (scan_capability r)),
      Int32 (if scan_associated r then 1 else 0)] @ list_items radio_chain_items (scan_chain_infos r)"

definition channel_items :: "channel_settings \<Rightarrow> item list" where
  "channel_items x = [Int32 (channel_frequency x)]"

definition hidden_network_items :: "hidden_network \<Rightarrow> item list" where
  "hidden_network_items x = [Byte_Vector (hidden_ssid x)]"

definition single_scan_items :: "single_scan_settings \<Rightarrow> item list" where
  "single_scan_items x =
     Int32 (word_of_int (settings_scan_type x)) # Bool (settings_enable_6ghz_rnr x) #
     list_items channel_items (settings_channels x) @ list_items hidden_network_items (settings_hidden_networks x) @
     [Byte_Vector (settings_vendor_ies x)]"

definition pno_network_items :: "pno_network \<Rightarrow> item list" where
  "pno_network_items x = [Int32 (if pno_is_hidden x then 1 else 0), Byte_Vector (pno_ssid x), Int32_Vector (pno_frequencies x)]"

definition pno_items :: "pno_settings \<Rightarrow> item list" where
  "pno_items x =
     [Int64 (pno_interval_ms x), Int32 (pno_min_2g_rssi x), Int32 (pno_min_5g_rssi x),
      Int32 (pno_min_6g_rssi x), Uint32 (pno_scan_iterations x), Uint32 (pno_scan_interval_multiplier x)] @
     list_items pno_network_items (pno_networks x)"

lemma fold_chain_infos:
  "fold (\<lambda>e r. r\<lparr>scan_chain_infos := scan_chain_infos r @ [e]\<rparr>) es r = r\<lparr>scan_chain_infos := scan_chain_infos r @ es\<rparr>"
  by (induction es arbitrary: r) simp_all

lemma fold_channels:
  "fold (\<lambda>e x. x\<lparr>settings_channels := settings_channels x @ [e]\<rparr>) cs x = x\<lparr>settings_channels := settings_channels x @ cs\<rparr>"
  by (induction cs arbitrary: x) simp_all

lemma fold_hidden_networks:
  "fold (\<lambda>e x. x\<lparr>settings_hidden_networks := settings_hidden_networks x @ [e]\<rparr>) hs x =
     x\<lparr>settings_hidden_networks := settings_hidden_networks x @ hs\<rparr>"
  by (induction hs arbitrary: x) simp_all

lemma fold_pno_networks:
  "fold (\<lambda>e y. y\<lparr>pno_networks := pno_networks y @ [e]\<rparr>) ns y = y\<lparr>pno_networks := pno_networks y @ ns\<rparr>"
  by (induction ns arbitrary: y) simp_all

lemmas fold_appends = fold_chain_infos fold_channels fold_hidden_networks fold_pno_networks

context parcel_format
begin

lemmas writing = writes_items [THEN writes_cons, simplified append_Cons append_Nil]

lemmas taking = reads_items [THEN takes_into, THEN takes_cons, simplified append_Cons append_Nil]

lemma RadioChainInfo_parcel:
  "writes holds (RadioChainInfo_writeToParcel P x) (radio_chain_items x)"
  "takes holds (RadioChainInfo_readFromParcel P) (radio_chain_items x) (\<lambda>_. x)"
  unfolding RadioChainInfo_writeToParcel_def radio_chain_items_def RadioChainInfo_readFromParcel_def
  by (intro writing writes_nil) (rule takes_eq, (rule taking takes_nil)+, simp)

lemma ChannelSettings_parcel:
  "writes holds (ChannelSettings_writeToParcel P c) (channel_items c)"
  "takes holds (ChannelSettings_readFromParcel P) (channel_items c) (\<lambda>_. c)"
  unfolding ChannelSettings_writeToParcel_def channel_items_def ChannelSettings_readFromParcel_def
  by (intro writing writes_nil) (rule takes_eq, (rule taking takes_nil)+, simp)

lemma HiddenNetwork_parcel:
  "writes holds (HiddenNetwork_writeToParcel P h) (hidden_network_items h)"
  "takes holds (HiddenNetwork_readFromParcel P) (hidden_network_items h) (\<lambda>_. h)"
  unfolding HiddenNetwork_writeToParcel_def hidden_network_items_def HiddenNetwork_readFromParcel_def
  by (intro writing writes_nil) (rule takes_eq, (rule taking takes_nil)+, simp)

lemma takes_bssid:
  assumes "length b = ETH_ALEN"
  shows "takes holds (read_bssid P) [Byte_Vector b] (\<lambda>r. r\<lparr>scan_bssid := b\<rparr>)"
  unfolding takes_def
proof (intro allI impI)
  fix x p rest
  assume "holds p ([Byte_Vector b] @ rest)"
  then obtain p' where "readByteVector P p [] = (0, b, p')" "holds p' rest"
    using reads_items(6) unfolding reads_def by (metis append_Cons append_Nil)
  with assms show "\<exists>p'. read_bssid P (x, p) = (0, x\<lparr>scan_bssid := b\<rparr>, p') \<and> holds p' rest"
    by (simp add: read_bssid_def)
qed

lemma takes_values:
  "takes holds (\<lambda>op. case uint32_value P (snd op) of (v, p) \<Rightarrow> (OK, (fst op)\<lparr>scan_capability := ucast v\<rparr>, p))
     [Uint32 w] (\<lambda>r. r\<lparr>scan_capability := ucast w\<rparr>)"
  "takes holds (\<lambda>op. case int32_value P (snd op) of (v, p) \<Rightarrow> (OK, (fst op)\<lparr>scan_associated := v \<noteq> 0\<rparr>, p))
     [Int32 w] (\<lambda>r. r\<lparr>scan_associated := w \<noteq> 0\<rparr>)"
  using value_items unfolding takes_def by fastforce+

lemma takes_hidden:
  "takes holds (\<lambda>op. case readInt32 P (snd op) 0 of (st, is_hidden, p) \<Rightarrow>
       if st \<noteq> 0 then (st, fst op, p) else (OK, (fst op)\<lparr>pno_is_hidden := is_hidden \<noteq> 0\<rparr>, p))
     [Int32 w] (\<lambda>x. x\<lparr>pno_is_hidden := w \<noteq> 0\<rparr>)"
  unfolding takes_def
proof (intro allI impI)
  fix x p rest
  assume "holds p ([Int32 w] @ rest)"
  then obtain p' where "readInt32 P p 0 = (0, w, p')" "holds p' rest"
    using reads_items(1) unfolding reads_def by (metis append_Cons append_Nil)
  then show "\<exists>p'. (case readInt32 P (snd (x, p)) 0 of (st, is_hidden, p1) \<Rightarrow>
       if st \<noteq> 0 then (st, fst (x, p), p1) else (OK, (fst (x, p))\<lparr>pno_is_hidden := is_hidden \<noteq> 0\<rparr>, p1)) =
     (0, x\<lparr>pno_is_hidden := w \<noteq> 0\<rparr>, p') \<and> holds p' rest" by simp
qed

lemmas taking_more = takes_bssid [THEN takes_cons, simplified append_Cons append_Nil]
  takes_values [THEN takes_cons, simplified append_Cons append_Nil]
  takes_hidden [THEN takes_cons, simplified append_Cons append_Nil]

lemma NativeScanResult_parcel:
  "writes holds (NativeScanResult_writeToParcel P r) (scan_result_items r)"
  "length (scan_bssid r) = ETH_ALEN \<Longrightarrow> length (scan_chain_infos r) < 2 ^ 31 \<Longrightarrow>
   takes holds (NativeScanResult_readFromParcel P) (scan_result_items r)
     (\<lambda>old. r\<lparr>scan_chain_infos := scan_chain_infos old @ scan_chain_infos r\<rparr>)"
proof -
  note last = writes_cons [OF writes_list [OF RadioChainInfo_parcel(1)] writes_nil, simplified append_Nil2]
  show "writes holds (NativeScanResult_writeToParcel P r) (scan_result_items r)"
    unfolding NativeScanResult_writeToParcel_def scan_result_items_def append_Cons append_Nil
    by (intro writing last)
  assume len: "length (scan_bssid r) = ETH_ALEN" "length (scan_chain_infos r) < 2 ^ 31"
  note last = takes_cons [OF takes_list [OF RadioChainInfo_parcel(2) len(2)] takes_nil, simplified append_Nil2]
  show "takes holds (NativeScanResult_readFromParcel P) (scan_result_items r)
     (\<lambda>old. r\<lparr>scan_chain_infos := scan_chain_infos old @ scan_chain_infos r\<rparr>)"
    unfolding NativeScanResult_readFromParcel_def scan_result_items_def append_Cons append_Nil
    by (rule takes_eq, (rule taking taking_more last len(1))+) (auto simp: fold_appends ucast_ucast_16 intro!: native_scan_result.equality)
qed

lemma PnoNetwork_parcel:
  "writes holds (PnoNetwork_writeToParcel P x) (pno_network_items x)"
  "takes holds (PnoNetwork_readFromParcel P) (pno_network_items x) (\<lambda>_. x)"
  unfolding PnoNetwork_writeToParcel_def pno_network_items_def PnoNetwork_readFromParcel_def
  by (intro writing writes_nil) (rule takes_eq, (rule taking taking_more takes_nil)+, simp)

lemma PnoSettings_parcel:
  "writes holds (PnoSettings_writeToParcel P x) (pno_items x)"
  "length (pno_networks x) < 2 ^ 31 \<Longrightarrow>
   takes holds (PnoSettings_readFromParcel P mem) (pno_items x) (\<lambda>old. x\<lparr>pno_networks := pno_networks old @ pno_networks x\<rparr>)"
proof -
  note last = writes_cons [OF writes_list [OF PnoNetwork_parcel(1)] writes_nil, simplified append_Nil2]
  show "writes holds (PnoSettings_writeToParcel P x) (pno_items x)"
    unfolding PnoSettings_writeToParcel_def pno_items_def append_Cons append_Nil
    by (intro writing last)
  assume len: "length (pno_networks x) < 2 ^ 31"
  note last = takes_cons [OF takes_list [OF PnoNetwork_parcel(2) len] takes_nil, simplified append_Nil2]
  show "takes holds (PnoSettings_readFromParcel P mem) (pno_items x) (\<lambda>old. x\<lparr>pno_networks := pno_networks old @ pno_networks x\<rparr>)"
    unfolding PnoSettings_readFromParcel_def pno_items_def append_Cons append_Nil
    by (rule takes_eq, (rule taking last)+) (simp add: fold_appends)
qed

lemma SingleScanSettings_parcel:
  "writes holds (SingleScanSettings_writeToParcel P x) (single_scan_items x)"
  "isValidScanType x \<Longrightarrow> length (settings_channels x) < 2 ^ 31 \<Longrightarrow> length (settings_hidden_networks x) < 2 ^ 31 \<Longrightarrow>
   takes holds (SingleScanSettings_readFromParcel P) (single_scan_items x)
     (\<lambda>old. x\<lparr>settings_channels := settings_channels old @ settings_channels x,
              settings_hidden_networks := settings_hidden_networks old @ settings_hidden_networks x\<rparr>)"
proof -
  note lists = writes_cons [OF writes_list [OF ChannelSettings_parcel(1)]] writes_cons [OF writes_list [OF HiddenNetwork_parcel(1)]]
    writing(6) [OF writes_nil]
  show "writes holds (SingleScanSettings_writeToParcel P x) (single_scan_items x)"
    unfolding SingleScanSettings_writeToParcel_def single_scan_items_def
    by (rule writes_cons [OF writes_demand, simplified append_Nil]) (rule writing lists)+
  assume a: "isValidScanType x" "length (settings_channels x) < 2 ^ 31" "length (settings_hidden_networks x) < 2 ^ 31"
  have type: "sint (word_of_int (settings_scan_type x) :: u32) = settings_scan_type x"
    using a(1) by (intro sint_small) (auto simp: isValidScanType_def)
  let ?store = "\<lambda>v (x :: single_scan_settings). x\<lparr>settings_scan_type := sint v\<rparr>" let ?v = "word_of_int (settings_scan_type x) :: u32"
  have first: "takes holds (into (readInt32 P) (\<lambda>x. word_of_int (settings_scan_type x)) ?store) [Int32 ?v] (?store ?v)"
    by (rule takes_into) (rule reads_items)
  note lists = takes_cons [OF takes_list [OF ChannelSettings_parcel(2) a(2)]] takes_cons [OF takes_list [OF HiddenNetwork_parcel(2) a(3)]]
    takes_nil
  show "takes holds (SingleScanSettings_readFromParcel P) (single_scan_items x)
     (\<lambda>old. x\<lparr>settings_channels := settings_channels old @ settings_channels x,
              settings_hidden_networks := settings_hidden_networks old @ settings_hidden_networks x\<rparr>)"
    unfolding SingleScanSettings_readFromParcel_def single_scan_items_def
    by (rule takes_eq, rule takes_demand [OF first, simplified append_Cons append_Nil], (rule taking lists)+)
      (use a(1) in \<open>auto simp: fold_appends type isValidScanType_def intro!: single_scan_settings.equality\<close>)
qed

end

section \<open>A parcel of bytes\<close>

text \<open>
  An instance of the contract: little-endian values, vectors with a 32-bit length in front, every
  item padded to a multiple of four bytes; a vector of more than \<open>INT32_MAX\<close> elements is refused.
\<close>

definition pad4 :: "bytes \<Rightarrow> bytes" where
  "pad4 bs = bs @ replicate ((4 - length bs mod 4) mod 4) 0"

fun item_bytes :: "item \<Rightarrow> bytes" where
  "item_bytes (Int32 w) = le_bytes 4 (unat w)"
| "item_bytes (Uint32 w) = le_bytes 4 (unat w)"
| "item_bytes (Int64 d) = le_bytes 8 (unat d)"
| "item_bytes (Uint64 d) = le_bytes 8 (unat d)"
| "item_bytes (Bool b) = le_bytes 4 (if b then 1 else 0)"
| "item_bytes (Byte_Vector bs) = le_bytes 4 (length bs) @ pad4 bs"
| "item_bytes (Int32_Vector ws) = le_bytes 4 (length ws) @ concat (map (\<lambda>w. le_bytes 4 (unat w)) ws)"

fun small :: "item \<Rightarrow> bool" where
  "small (Byte_Vector bs) = (length bs < 2 ^ 31)"
| "small (Int32_Vector ws) = (length ws < 2 ^ 31)"
| "small _ = True"

definition NOT_ENOUGH_DATA :: status where
  [simp]: "NOT_ENOUGH_DATA = - 61"

definition put_item :: "item \<Rightarrow> bytes \<Rightarrow> status \<times> bytes" where
  "put_item i p = (if small i then (0, p @ item_bytes i) else (BAD_VALUE, p))"

definition get_fixed :: "nat \<Rightarrow> (nat \<Rightarrow> 'v) \<Rightarrow> bytes \<Rightarrow> 'v \<Rightarrow> status \<times> 'v \<times> bytes" where
  "get_fixed n f p old =
     (if length p < n then (NOT_ENOUGH_DATA, old, p) else (0, f (le_nat (take n p)), drop n p))"

definition get_bytes :: "bytes \<Rightarrow> bytes \<Rightarrow> status \<times> bytes \<times> bytes" where
  "get_bytes p old =
     (let n = le_nat (take 4 p) in
      if length p < 4 \<or> 2 ^ 31 \<le> n \<or> length p < 4 + (n + 3) div 4 * 4 then (NOT_ENOUGH_DATA, old, p)
      else (0, take n (drop 4 p), drop (4 + (n + 3) div 4 * 4) p))"

primrec words_of :: "nat \<Rightarrow> bytes \<Rightarrow> u32 list" where
  "words_of 0 bs = []"
| "words_of (Suc n) bs = of_nat (le_nat (take 4 bs)) # words_of n (drop 4 bs)"

definition get_words :: "bytes \<Rightarrow> u32 list \<Rightarrow> status \<times> u32 list \<times> bytes" where
  "get_words p old =
     (let n = le_nat (take 4 p) in
      if length p < 4 \<or> 2 ^ 31 \<le> n \<or> length p < 4 + 4 * n then (NOT_ENOUGH_DATA, old, p)
      else (0, words_of n (drop 4 p), drop (4 + 4 * n) p))"

definition byte_parcel :: "bytes parcel_api" where
  "byte_parcel =
     \<lparr>writeInt32 = put_item \<circ> Int32, writeUint32 = put_item \<circ> Uint32, writeInt64 = put_item \<circ> Int64,
      writeUint64 = put_item \<circ> Uint64, writeBool = put_item \<circ> Bool, writeByteVector = put_item \<circ> Byte_Vector,
      writeInt32Vector = put_item \<circ> Int32_Vector,
      readInt32 = get_fixed 4 of_nat, readUint32 = get_fixed 4 of_nat, readInt64 = get_fixed 8 of_nat,
      readUint64 = get_fixed 8 of_nat, readBool = get_fixed 4 (\<lambda>n. n \<noteq> 0), readByteVector = get_bytes,
      readInt32Vector = get_words,
      int32_value = (\<lambda>p. snd (get_fixed 4 of_nat p 0)), uint32_value = (\<lambda>p. snd (get_fixed 4 of_nat p 0))\<rparr>"

definition holds_bytes :: "bytes \<Rightarrow> item list \<Rightarrow> bool" where
  "holds_bytes p is \<longleftrightarrow> list_all small is \<and> p = concat (map item_bytes is)"

lemma le_nat_word_bytes:
  "le_nat (le_bytes 4 (unat (w :: u32))) = unat w" "le_nat (le_bytes 8 (unat (d :: u64))) = unat d"
  "n < 2 ^ 31 \<Longrightarrow> le_nat (le_bytes 4 n) = n"
proof -
  have "unat w < 2 ^ LENGTH(32)" "unat d < 2 ^ LENGTH(64)" by (rule unsigned_less)+
  then show "le_nat (le_bytes 4 (unat w)) = unat w" "le_nat (le_bytes 8 (unat d)) = unat d"
    "n < 2 ^ 31 \<Longrightarrow> le_nat (le_bytes 4 n) = n"
    by (simp_all add: le_nat_le_bytes)
qed

lemma words_of_bytes: "words_of (length ws) (concat (map (\<lambda>w. le_bytes 4 (unat w)) ws) @ rest) = ws"
  by (induction ws) (simp_all add: le_nat_word_bytes)

lemma length_word_bytes: "length (concat (map (\<lambda>w. le_bytes 4 (unat (w :: u32))) ws)) = 4 * length ws"
  by (induction ws) simp_all

lemma length_pad4: "length (pad4 bs) = (length bs + 3) div 4 * 4"
proof -
  define q where "q = length bs div 4"
  define r where "r = length bs mod 4"
  have len: "length bs = 4 * q + r" "r < 4" by (simp_all add: q_def r_def)
  from len(2) consider "r = 0" | "r = 1" | "r = 2" | "r = 3" by linarith
  then show ?thesis by cases (simp_all add: pad4_def len(1) del: add_2_eq_Suc add_2_eq_Suc')
qed

interpretation bytes_parcel: parcel_format byte_parcel holds_bytes
proof
  show "writes holds_bytes (writeInt32 byte_parcel w) [Int32 w]" "writes holds_bytes (writeUint32 byte_parcel w) [Uint32 w]"
    "writes holds_bytes (writeInt64 byte_parcel d) [Int64 d]" "writes holds_bytes (writeUint64 byte_parcel d) [Uint64 d]"
    "writes holds_bytes (writeBool byte_parcel b) [Bool b]" "writes holds_bytes (writeByteVector byte_parcel bs) [Byte_Vector bs]"
    "writes holds_bytes (writeInt32Vector byte_parcel ws) [Int32_Vector ws]" for w d b bs ws
    by (auto simp: writes_def byte_parcel_def put_item_def holds_bytes_def)
  show "reads holds_bytes (readInt32 byte_parcel) (Int32 w) w" "reads holds_bytes (readUint32 byte_parcel) (Uint32 w) w"
    "reads holds_bytes (readInt64 byte_parcel) (Int64 d) d" "reads holds_bytes (readUint64 byte_parcel) (Uint64 d) d"
    "reads holds_bytes (readBool byte_parcel) (Bool b) b" for w d b
    by (simp_all add: reads_def byte_parcel_def get_fixed_def holds_bytes_def le_nat_word_bytes)
  show "reads holds_bytes (readByteVector byte_parcel) (Byte_Vector bs) bs" for bs
    by (auto simp: reads_def byte_parcel_def get_bytes_def Let_def holds_bytes_def le_nat_word_bytes length_pad4)
      (simp add: pad4_def)
  show "reads holds_bytes (readInt32Vector byte_parcel) (Int32_Vector ws) ws" for ws
    by (auto simp: reads_def byte_parcel_def get_words_def Let_def holds_bytes_def le_nat_word_bytes length_word_bytes words_of_bytes)
  show "\<exists>p'. int32_value byte_parcel p = (w, p') \<and> holds_bytes p' rest" if "holds_bytes p (Int32 w # rest)" for p w rest
    using that by (auto simp: byte_parcel_def get_fixed_def holds_bytes_def le_nat_word_bytes)
  show "\<exists>p'. uint32_value byte_parcel p = (w, p') \<and> holds_bytes p' rest" if "holds_bytes p (Uint32 w # rest)" for p w rest
    using that by (auto simp: byte_parcel_def get_fixed_def holds_bytes_def le_nat_word_bytes)
qed

section \<open>Properties\<close>

text \<open>From the contract to reading what was written.\<close>

lemma written_reads_back:
  assumes "writes holds write items" "takes holds read items f" "holds p []" "write p = (0, p')"
  shows "\<exists>p''. read (old, p') = (0, f old, p'') \<and> holds p'' []"
proof -
  have "holds p' ([] @ items)" using assms(1,3,4) unfolding writes_def by blast
  then have "holds p' (items @ [])" by simp
  with assms(2) show ?thesis unfolding takes_def by blast
qed

text \<open>
  C34. A scan result that was written to a parcel is read back, and nothing is left over. The chain
  infos are appended to those that the destination already has; everything else is replaced.
\<close>

theorem scan_result_parcel_round_trip:
  assumes "parcel_format P holds" "holds p []"
    and "length (scan_bssid r) = ETH_ALEN" "length (scan_chain_infos r) < 2 ^ 31"
    and "NativeScanResult_writeToParcel P r p = (OK, p')"
  shows "\<exists>p''. NativeScanResult_readFromParcel P (old, p') =
      (OK, r\<lparr>scan_chain_infos := scan_chain_infos old @ scan_chain_infos r\<rparr>, p'') \<and> holds p'' []"
  using written_reads_back [OF parcel_format.NativeScanResult_parcel(1) [OF assms(1)]
      parcel_format.NativeScanResult_parcel(2) [OF assms(1,3,4)] assms(2)] assms(5) by simp

definition example_result :: native_scan_result where
  "example_result =
     \<lparr>scan_ssid = [104, 105, 33], scan_bssid = [1, 2, 3, 4, 5, 6], scan_info_element = [0, 3, 104, 105, 33],
      scan_frequency = 2412, scan_signal_mbm = - 5000, scan_tsf = 1234567890123, scan_capability = 65535,
      scan_associated = True, scan_chain_infos = [\<lparr>chain_id = 1, chain_level = - 50\<rparr>]\<rparr>"

lemmas byte_writes = byte_parcel_def put_item_def RETURN_IF_FAILED_def write_typed_list_def RadioChainInfo_writeToParcel_def

theorem scan_result_parcel_round_trip_witness:
  "\<exists>p' p''. NativeScanResult_writeToParcel byte_parcel example_result [] = (OK, p') \<and>
     NativeScanResult_readFromParcel byte_parcel (example_result\<lparr>scan_chain_infos := []\<rparr>, p') = (OK, example_result, p'')"
proof -
  have "\<exists>p'. NativeScanResult_writeToParcel byte_parcel example_result [] = (OK, p')"
    by (simp add: NativeScanResult_writeToParcel_def byte_writes example_result_def)
  then obtain p' where p': "NativeScanResult_writeToParcel byte_parcel example_result [] = (OK, p')" ..
  have start: "holds_bytes [] []" by (simp add: holds_bytes_def)
  have sizes: "length (scan_bssid example_result) = ETH_ALEN" "length (scan_chain_infos example_result) < 2 ^ 31"
    by (simp_all add: example_result_def)
  from scan_result_parcel_round_trip [OF bytes_parcel.parcel_format_axioms start sizes p',
      of "example_result\<lparr>scan_chain_infos := []\<rparr>"] p'
  show ?thesis by auto
qed

text \<open>
  C35. The settings of a single scan and of a scheduled scan that were written to a parcel are read
  back, whatever the destination held before, and nothing is left over. Channels and networks are
  appended to those that the destination already has; everything else is replaced.
\<close>

theorem settings_parcel_round_trip:
  assumes "parcel_format P holds" "holds p []"
    and "length (settings_channels x) < 2 ^ 31" "length (settings_hidden_networks x) < 2 ^ 31"
    and "length (pno_networks y) < 2 ^ 31"
  shows "(SingleScanSettings_writeToParcel P x p = (OK, p1) \<longrightarrow>
      (\<exists>p2. SingleScanSettings_readFromParcel P (old, p1) =
         (OK, x\<lparr>settings_channels := settings_channels old @ settings_channels x,
                 settings_hidden_networks := settings_hidden_networks old @ settings_hidden_networks x\<rparr>, p2) \<and> holds p2 [])) \<and>
    (PnoSettings_writeToParcel P y p = (OK, p3) \<longrightarrow>
      (\<exists>p4. PnoSettings_readFromParcel P mem (old_pno, p3) =
         (OK, y\<lparr>pno_networks := pno_networks old_pno @ pno_networks y\<rparr>, p4) \<and> holds p4 []))"
proof (intro conjI impI)
  note parcels = parcel_format.SingleScanSettings_parcel [OF assms(1)] parcel_format.PnoSettings_parcel [OF assms(1)]
  assume w: "SingleScanSettings_writeToParcel P x p = (OK, p1)"
  then have "isValidScanType x"
    by (auto simp: SingleScanSettings_writeToParcel_def RETURN_IF_FAILED_def demand_def split: if_splits)
  from written_reads_back [OF parcels(1) parcels(2) [OF this assms(3,4)] assms(2),
      of p1 old] w
  show "\<exists>p2. SingleScanSettings_readFromParcel P (old, p1) =
      (OK, x\<lparr>settings_channels := settings_channels old @ settings_channels x,
              settings_hidden_networks := settings_hidden_networks old @ settings_hidden_networks x\<rparr>, p2) \<and> holds p2 []"
    by simp
next
  note parcels = parcel_format.PnoSettings_parcel [OF assms(1)]
  assume "PnoSettings_writeToParcel P y p = (OK, p3)"
  with written_reads_back [OF parcels(1) parcels(2) [OF assms(5)] assms(2), of p3 _ old_pno]
  show "\<exists>p4. PnoSettings_readFromParcel P mem (old_pno, p3) =
      (OK, y\<lparr>pno_networks := pno_networks old_pno @ pno_networks y\<rparr>, p4) \<and> holds p4 []"
    by simp
qed

definition parcel_pno :: pno_settings where
  "parcel_pno =
     \<lparr>pno_interval_ms = 20000, pno_min_2g_rssi = - 80, pno_min_5g_rssi = - 77, pno_min_6g_rssi = - 76,
      pno_scan_iterations = 3, pno_scan_interval_multiplier = 2,
      pno_networks = [\<lparr>pno_is_hidden = True, pno_ssid = [97, 98], pno_frequencies = [2412, 5180]\<rparr>]\<rparr>"

definition example_settings :: single_scan_settings where
  "example_settings =
     \<lparr>settings_scan_type = 2, settings_enable_6ghz_rnr = True, settings_channels = [\<lparr>channel_frequency = 5955\<rparr>],
      settings_hidden_networks = [\<lparr>hidden_ssid = [97]\<rparr>], settings_vendor_ies = [221, 0]\<rparr>"

theorem settings_parcel_round_trip_witness:
  "\<exists>p1 p2 p3 p4. SingleScanSettings_writeToParcel byte_parcel example_settings [] = (OK, p1) \<and>
     SingleScanSettings_readFromParcel byte_parcel
       (\<lparr>settings_scan_type = 7, settings_enable_6ghz_rnr = False, settings_channels = [],
         settings_hidden_networks = [], settings_vendor_ies = [1]\<rparr>, p1) = (OK, example_settings, p2) \<and>
     PnoSettings_writeToParcel byte_parcel parcel_pno [] = (OK, p3) \<and>
     PnoSettings_readFromParcel byte_parcel (hd (pno_networks parcel_pno)) (PnoSettings, p3) = (OK, parcel_pno, p4)"
proof -
  have "\<exists>p1. SingleScanSettings_writeToParcel byte_parcel example_settings [] = (OK, p1)"
    by (simp add: SingleScanSettings_writeToParcel_def ChannelSettings_writeToParcel_def HiddenNetwork_writeToParcel_def
        demand_def isValidScanType_def byte_writes example_settings_def)
  moreover have "\<exists>p3. PnoSettings_writeToParcel byte_parcel parcel_pno [] = (OK, p3)"
    by (simp add: PnoSettings_writeToParcel_def PnoNetwork_writeToParcel_def byte_writes parcel_pno_def)
  ultimately obtain p1 p3 where w: "SingleScanSettings_writeToParcel byte_parcel example_settings [] = (OK, p1)"
    "PnoSettings_writeToParcel byte_parcel parcel_pno [] = (OK, p3)" by blast
  have start: "holds_bytes [] []" by (simp add: holds_bytes_def)
  have sizes: "length (settings_channels example_settings) < 2 ^ 31" "length (settings_hidden_networks example_settings) < 2 ^ 31"
    "length (pno_networks parcel_pno) < 2 ^ 31"
    by (simp_all add: example_settings_def parcel_pno_def)
  from settings_parcel_round_trip [OF bytes_parcel.parcel_format_axioms start sizes, of p1
      "\<lparr>settings_scan_type = 7, settings_enable_6ghz_rnr = False, settings_channels = [],
         settings_hidden_networks = [], settings_vendor_ies = [1]\<rparr>" p3 "hd (pno_networks parcel_pno)" PnoSettings] w
  obtain p2 p4 where
    "SingleScanSettings_readFromParcel byte_parcel
       (\<lparr>settings_scan_type = 7, settings_enable_6ghz_rnr = False, settings_channels = [],
         settings_hidden_networks = [], settings_vendor_ies = [1]\<rparr>, p1) = (OK, example_settings, p2)"
    "PnoSettings_readFromParcel byte_parcel (hd (pno_networks parcel_pno)) (PnoSettings, p3) = (OK, parcel_pno, p4)"
    by (auto simp: PnoSettings_def)
  with w show ?thesis by blast
qed

text \<open>Steps of reading that leave a part of the object alone.\<close>

definition keeps :: "('o \<Rightarrow> bool) \<Rightarrow> ('o \<times> 'p \<Rightarrow> status \<times> 'o \<times> 'p) \<Rightarrow> bool" where
  "keeps ok step \<longleftrightarrow> (\<forall>x p st x' p'. step (x, p) = (st, x', p') \<longrightarrow> ok x \<longrightarrow> ok x')"

lemma keepsD: "keeps ok step \<Longrightarrow> step (x, p) = (st, x', p') \<Longrightarrow> ok x \<Longrightarrow> ok x'"
  unfolding keeps_def by blast

lemma keeps_in_turn: "keeps ok (in_turn [])" "keeps ok step \<Longrightarrow> keeps ok (in_turn steps) \<Longrightarrow> keeps ok (in_turn (step # steps))"
  by (auto simp: keeps_def RETURN_IF_FAILED_def split: prod.splits if_splits) metis+

lemma keeps_into: "(\<And>v x. ok x \<Longrightarrow> ok (store v x)) \<Longrightarrow> keeps ok (into read sel store)"
  by (auto simp: keeps_def into_def split: prod.splits)

lemma keeps_list:
  assumes "\<And>e x. ok x \<Longrightarrow> ok (push e x)"
  shows "keeps ok (read_typed_list P fresh read push)"
proof -
  have "read_elements P fresh read push n (x, p) = (st, x', p') \<Longrightarrow> ok x \<Longrightarrow> ok x'" for n x p st x' p'
    by (induction n arbitrary: x p) (auto split: prod.splits if_splits intro: assms)
  then show ?thesis by (auto simp: keeps_def read_typed_list_def split: prod.splits if_splits)
qed

lemma in_turn_Cons_OK: "in_turn (step # steps) op = (0, op') \<Longrightarrow> \<exists>op1. step op = (0, op1) \<and> in_turn steps op1 = (0, op')"
  by (auto simp: RETURN_IF_FAILED_def split: prod.splits if_splits)

text \<open>
  C36. Whatever a parcel contains and however it answers, the settings of a single scan that are
  accepted from it have one of the three scan types, so the scan type of a request that came
  through a parcel never fails the \<open>CHECK\<close> of \<open>IsScanTypeSupported\<close>. Settings of another type
  are refused by the writer, which leaves the parcel as it was.
\<close>

theorem received_scan_type_valid:
  "(SingleScanSettings_readFromParcel P op = (OK, x, p') \<longrightarrow>
      isValidScanType x \<and> (\<exists>b. IsScanTypeSupported (settings_scan_type x) features = Inr b)) \<and>
   (\<not> isValidScanType y \<longrightarrow> SingleScanSettings_writeToParcel P y p = (BAD_VALUE, p))"
proof (intro conjI impI)
  assume "SingleScanSettings_readFromParcel P op = (OK, x, p')"
  then obtain op1 op2 where "demand (\<lambda>op. isValidScanType (fst op)) op1 = (0, op2)"
    and rest: "in_turn [into (readBool P) settings_enable_6ghz_rnr (\<lambda>v x. x\<lparr>settings_enable_6ghz_rnr := v\<rparr>),
              read_typed_list P \<lparr>channel_frequency = 0\<rparr> (ChannelSettings_readFromParcel P)
                (\<lambda>e x. x\<lparr>settings_channels := settings_channels x @ [e]\<rparr>),
              read_typed_list P \<lparr>hidden_ssid = []\<rparr> (HiddenNetwork_readFromParcel P)
                (\<lambda>e x. x\<lparr>settings_hidden_networks := settings_hidden_networks x @ [e]\<rparr>),
              into (readByteVector P) settings_vendor_ies (\<lambda>v x. x\<lparr>settings_vendor_ies := v\<rparr>)] op2 = (0, x, p')"
    unfolding SingleScanSettings_readFromParcel_def OK_def by (blast dest: in_turn_Cons_OK)
  then have ok: "isValidScanType (fst op2)" by (simp add: demand_def split: if_splits)
  have kept: "keeps isValidScanType (in_turn [into (readBool P) settings_enable_6ghz_rnr (\<lambda>v x. x\<lparr>settings_enable_6ghz_rnr := v\<rparr>),
              read_typed_list P \<lparr>channel_frequency = 0\<rparr> (ChannelSettings_readFromParcel P)
                (\<lambda>e x. x\<lparr>settings_channels := settings_channels x @ [e]\<rparr>),
              read_typed_list P \<lparr>hidden_ssid = []\<rparr> (HiddenNetwork_readFromParcel P)
                (\<lambda>e x. x\<lparr>settings_hidden_networks := settings_hidden_networks x @ [e]\<rparr>),
              into (readByteVector P) settings_vendor_ies (\<lambda>v x. x\<lparr>settings_vendor_ies := v\<rparr>)])"
    by (intro keeps_in_turn keeps_into keeps_list) (simp_all add: isValidScanType_def)
  obtain a b where op2: "op2 = (a, b)" by force
  show valid: "isValidScanType x"
    by (rule keepsD [OF kept rest [unfolded op2]]) (use ok op2 in simp)
  then show "\<exists>b. IsScanTypeSupported (settings_scan_type x) features = Inr b"
    by (auto simp: isValidScanType_def IsScanTypeSupported_def)
next
  assume "\<not> isValidScanType y"
  then show "SingleScanSettings_writeToParcel P y p = (BAD_VALUE, p)"
    by (simp add: SingleScanSettings_writeToParcel_def RETURN_IF_FAILED_def demand_def)
qed

definition read_received :: "bytes \<Rightarrow> status \<times> single_scan_settings \<times> bytes" where
  "read_received p =
     SingleScanSettings_readFromParcel byte_parcel
       (example_settings\<lparr>settings_channels := [], settings_hidden_networks := []\<rparr>, p)"

theorem received_scan_type_valid_witness:
  "SingleScanSettings_writeToParcel byte_parcel (example_settings\<lparr>settings_scan_type := 7\<rparr>) [] = (BAD_VALUE, []) \<and>
   (\<exists>x p'. read_received (concat (map item_bytes (single_scan_items example_settings))) = (OK, x, p') \<and> isValidScanType x)"
proof -
  have "takes holds_bytes (SingleScanSettings_readFromParcel byte_parcel) (single_scan_items example_settings)
      (\<lambda>old. example_settings\<lparr>settings_channels := settings_channels old @ settings_channels example_settings,
         settings_hidden_networks := settings_hidden_networks old @ settings_hidden_networks example_settings\<rparr>)"
    by (rule bytes_parcel.SingleScanSettings_parcel(2)) (simp_all add: example_settings_def isValidScanType_def)
  moreover have "holds_bytes (concat (map item_bytes (single_scan_items example_settings))) (single_scan_items example_settings @ [])"
    by (simp add: holds_bytes_def single_scan_items_def example_settings_def list_items_def channel_items_def
        hidden_network_items_def)
  ultimately obtain x p' where "read_received (concat (map item_bytes (single_scan_items example_settings))) = (OK, x, p')"
    unfolding takes_def read_received_def OK_def by blast
  moreover have "\<not> isValidScanType (example_settings\<lparr>settings_scan_type := 7\<rparr>)" by (simp add: isValidScanType_def)
  ultimately show ?thesis
    using received_scan_type_valid [of byte_parcel _ x p' _ "example_settings\<lparr>settings_scan_type := 7\<rparr>"]
    unfolding read_received_def by (auto simp del: OK_def BAD_VALUE_def)
qed

end
