(* ===== verification/Object_Invariant.thy ===== *)
theory Object_Invariant
  imports Handler_Frames
begin

text \<open>
  The invariant of the objects that the server owns, and its preservation by every operation
  of the program: interface objects are exactly those stored under a name, binder objects
  and scanners know whether their implementation lives, and every registered event handler
  belongs to a live object of the interface index it is registered for.
\<close>

section \<open>The invariant\<close>

text \<open>What the invariant looks at; handlers keep it by \<open>same_objects\<close>.\<close>

definition live_client :: "'a srv_scheme \<Rightarrow> obj \<Rightarrow> u32 option" where
  "live_client s i = map_option client_interface_index (map_find (clients s) i)"

definition live_ap :: "'a srv_scheme \<Rightarrow> obj \<Rightarrow> u32 option" where
  "live_ap s i = map_option ap_interface_index (map_find (aps s) i)"

definition live_scanner :: "'a srv_scheme \<Rightarrow> obj \<Rightarrow> u32 option" where
  "live_scanner s i =
     (case scanner_frame (map_find (scanners s) i) of Some (True, idx) \<Rightarrow> Some idx | _ \<Rightarrow> None)"

text \<open>A registration table: whatever is registered under a key satisfies \<open>P\<close> for it.\<close>

definition keyed :: "('k \<Rightarrow> 'h option) \<Rightarrow> ('h \<Rightarrow> 'k \<Rightarrow> bool) \<Rightarrow> bool" where
  "keyed m P \<longleftrightarrow> (\<forall>k h. m k = Some h \<longrightarrow> P h k)"

lemma keyedD: "keyed m P \<Longrightarrow> m k = Some h \<Longrightarrow> P h k"
  by (simp add: keyed_def)

lemma keyed_mono: "keyed m P \<Longrightarrow> (\<And>h k. P h k \<Longrightarrow> Q h k) \<Longrightarrow> keyed m Q"
  by (simp add: keyed_def)

lemma keyed_erase: "keyed m P \<Longrightarrow> (\<And>h k. P h k \<Longrightarrow> k \<noteq> j \<Longrightarrow> Q h k) \<Longrightarrow> keyed (m(j := None)) Q"
  by (simp add: keyed_def)

lemma keyed_set: "keyed m P \<Longrightarrow> (\<And>h k. P h k \<Longrightarrow> Q h k) \<Longrightarrow> Q i j \<Longrightarrow> keyed (m(j \<mapsto> i)) Q"
  by (simp add: keyed_def)

definition handlers_ok :: "'a srv_scheme \<Rightarrow> bool" where
  "handlers_ok s \<longleftrightarrow>
     keyed (map_find (on_mlme_event_handler s)) (\<lambda>h idx. live_client s h = Some idx) \<and>
     keyed (map_find (on_frame_tx_status_event_handler s)) (\<lambda>h idx. live_client s h = Some idx) \<and>
     keyed (map_find (on_scan_result_ready_handler s)) (\<lambda>h idx. live_scanner s h = Some idx) \<and>
     keyed (map_find (on_sched_scan_result_ready_handler s)) (\<lambda>h idx. live_scanner s h = Some idx) \<and>
     keyed (map_find (on_station_event_handler s)) (\<lambda>h idx. live_ap s h = Some idx) \<and>
     keyed (map_find (on_channel_switch_event_handler s))
       (\<lambda>h idx. live_client s h = Some idx \<or> live_ap s h = Some idx) \<and>
     keyed (map_find (on_reg_domain_changed_handler s)) (\<lambda>h w. h = server_hid)"

definition proxies_ok :: "'a srv_scheme \<Rightarrow> bool" where
  "proxies_ok s \<longleftrightarrow>
     (\<forall>i. live_scanner s i = live_client s i) \<and>
     (\<forall>i b. map_find (client_binders s) i = Some b \<longrightarrow>
        client_impl b = (if live_client s i = None then None else Some i)) \<and>
     (\<forall>i. live_client s i \<noteq> None \<longrightarrow> map_find (client_binders s) i \<noteq> None) \<and>
     (\<forall>i b. map_find (ap_binders s) i = Some b \<longrightarrow> ap_impl b = (if live_ap s i = None then None else Some i)) \<and>
     (\<forall>i. live_ap s i \<noteq> None \<longrightarrow> map_find (ap_binders s) i \<noteq> None)"

text \<open>
  \<open>owned s C A\<close>: the live client interfaces are \<open>C\<close> and the live access point interfaces \<open>A\<close>. In
  the middle of an operation these are not the tables: a new object is not yet stored under
  its name, or an old one no longer.
\<close>

definition owned :: "'a srv_scheme \<Rightarrow> obj set \<Rightarrow> obj set \<Rightarrow> bool" where
  "owned s C A \<longleftrightarrow>
     dom (live_client s) = C \<and> dom (live_ap s) = A \<and> C \<inter> A = {} \<and>
     (\<forall>i. i \<in> C \<union> A \<or> map_find (scanners s) i \<noteq> None \<or>
        map_find (client_binders s) i \<noteq> None \<or> map_find (ap_binders s) i \<noteq> None \<longrightarrow> i < next_obj s) \<and>
     proxies_ok s \<and> handlers_ok s"

lemma ownedD:
  assumes "owned s C A"
  shows "dom (live_client s) = C" "dom (live_ap s) = A" "C \<inter> A = {}" "proxies_ok s" "handlers_ok s"
  using assms by (simp_all only: owned_def)

lemma proxiesD:
  assumes "proxies_ok s"
  shows "live_scanner s i = live_client s i"
    "live_client s i = Some idx \<Longrightarrow> \<exists>b. map_find (client_binders s) i = Some b \<and> client_impl b = Some i"
    "live_ap s i = Some idx \<Longrightarrow> \<exists>b. map_find (ap_binders s) i = Some b \<and> ap_impl b = Some i"
    "map_find (client_binders s) i = Some b \<Longrightarrow> client_impl b = Some j \<Longrightarrow> j = i \<and> live_client s i \<noteq> None"
    "map_find (ap_binders s) i = Some b' \<Longrightarrow> ap_impl b' = Some j \<Longrightarrow> j = i \<and> live_ap s i \<noteq> None"
  using assms unfolding proxies_ok_def by (metis option.distinct(1) option.exhaust option.inject)+

definition named :: "'a srv_scheme \<Rightarrow> bool" where
  "named s \<longleftrightarrow> ordered (client_interfaces s) \<and> ordered (ap_interfaces s) \<and>
     distinct (map snd (client_interfaces s)) \<and> distinct (map snd (ap_interfaces s))"

definition objects_ok :: "'a srv_scheme \<Rightarrow> bool" where
  "objects_ok s \<longleftrightarrow> named s \<and> owned s (snd ` set (client_interfaces s)) (snd ` set (ap_interfaces s))"

lemmas objects_defs = objects_ok_def named_def owned_def proxies_ok_def handlers_ok_def

lemma same_objects_live:
  assumes "same_objects s s'"
  shows "live_client s' = live_client s" "live_ap s' = live_ap s" "live_scanner s' = live_scanner s"
    "(map_find (scanners s') i = None) = (map_find (scanners s) i = None)"
proof -
  show "live_client s' = live_client s" "live_ap s' = live_ap s" "live_scanner s' = live_scanner s"
    using assms by (simp_all add: same_objects_def live_client_def live_ap_def live_scanner_def fun_eq_iff)
  have "scanner_frame (map_find (scanners s') i) = scanner_frame (map_find (scanners s) i)"
    using assms by (simp add: same_objects_def)
  then show "(map_find (scanners s') i = None) = (map_find (scanners s) i = None)"
    by (cases "map_find (scanners s') i"; cases "map_find (scanners s) i") (simp_all add: scanner_frame_def)
qed

lemma same_objects_ok:
  assumes "same_objects s s'"
  shows "owned s' C A = owned s C A" "named s' = named s" "objects_ok s' = objects_ok s"
proof -
  have frame: "client_interfaces s' = client_interfaces s" "ap_interfaces s' = ap_interfaces s"
    "next_obj s' = next_obj s" "client_binders s' = client_binders s" "ap_binders s' = ap_binders s"
    "on_scan_result_ready_handler s' = on_scan_result_ready_handler s"
    "on_sched_scan_result_ready_handler s' = on_sched_scan_result_ready_handler s"
    "on_mlme_event_handler s' = on_mlme_event_handler s"
    "on_reg_domain_changed_handler s' = on_reg_domain_changed_handler s"
    "on_station_event_handler s' = on_station_event_handler s"
    "on_channel_switch_event_handler s' = on_channel_switch_event_handler s"
    "on_frame_tx_status_event_handler s' = on_frame_tx_status_event_handler s"
    using assms by (simp_all add: same_objects_def)
  show "owned s' C A = owned s C A" "named s' = named s" "objects_ok s' = objects_ok s"
    by (simp_all only: objects_defs frame same_objects_live [OF assms])
qed

text \<open>A server that was just constructed owns nothing.\<close>

lemma objects_ok_Server: "objects_ok (Server (NetlinkManager script i pid) names a b c)"
  by (simp add: keyed_def fun_eq_iff objects_defs Server_def NetlinkManager_def live_client_def live_ap_def live_scanner_def
      scanner_frame_def ordered_Nil)

section \<open>Destructors\<close>

lemma live_updates [simp]:
  "live_client (s\<lparr>clients := m\<rparr>) i = map_option client_interface_index (map_find m i)"
  "live_ap (s\<lparr>aps := n\<rparr>) i = map_option ap_interface_index (map_find n i)"
  by (simp_all add: live_client_def live_ap_def)

lemma fun_upd_Some: "(f(k := None)) x = Some y \<longleftrightarrow> x \<noteq> k \<and> f x = Some y"
  by auto

lemmas delete_client_defs =
  delete_ClientInterfaceImpl_def Invalidate_def the_client_def the_client_binder_def the_scanner_def
  modify_scanner_def call_remote_def Let_def
  UnsubscribeSchedScanResultNotification_def UnsubscribeScanResultNotification_def
  UnsubscribeChannelSwitchEvent_def UnsubscribeMlmeEvent_def UnsubscribeFrameTxStatusEvent_def

text \<open>What the destructor of a client interface does to the projections.\<close>

lemma delete_client_effect:
  assumes "delete_ClientInterfaceImpl i s = Inr s'"
  obtains c b x where "map_find (clients s) i = Some c" "map_find (client_binders s) i = Some b"
    "map_find (scanners s) i = Some x"
    "live_client s' = (live_client s)(i := None)" "live_ap s' = live_ap s" "live_scanner s' = (live_scanner s)(i := None)"
    "map_find (scanners s') = (map_find (scanners s))(i \<mapsto> x\<lparr>valid := False\<rparr>)"
    "map_find (client_binders s') = (map_find (client_binders s))(i \<mapsto> b\<lparr>client_impl := None\<rparr>)"
    "ap_binders s' = ap_binders s" "next_obj s' = next_obj s"
    "map_find (on_mlme_event_handler s') = (map_find (on_mlme_event_handler s))(client_interface_index c := None)"
    "map_find (on_frame_tx_status_event_handler s') =
       (map_find (on_frame_tx_status_event_handler s))(client_interface_index c := None)"
    "map_find (on_channel_switch_event_handler s') =
       (map_find (on_channel_switch_event_handler s))(client_interface_index c := None)"
    "map_find (on_scan_result_ready_handler s') =
       (map_find (on_scan_result_ready_handler s))(scanner_interface_index x := None)"
    "map_find (on_sched_scan_result_ready_handler s') =
       (map_find (on_sched_scan_result_ready_handler s))(scanner_interface_index x := None)"
    "on_station_event_handler s' = on_station_event_handler s"
    "on_reg_domain_changed_handler s' = on_reg_domain_changed_handler s"
proof -
  from assms obtain c b x where c: "map_find (clients s) i = Some c" "map_find (client_binders s) i = Some b"
    "map_find (scanners s) i = Some x"
    by (auto simp: delete_client_defs elim!: and_then_InrE split: option.splits)
  show ?thesis
    using assms c
    by (intro that [OF c])
      (auto simp: delete_client_defs live_client_def live_ap_def live_scanner_def scanner_frame_def fun_eq_iff)
qed

lemma delete_client_owned:
  assumes "delete_ClientInterfaceImpl i s = Inr s'" "owned s C A"
  shows "owned s' (C - {i}) A"
  using assms(1)
proof (rule delete_client_effect)
  fix c b x
  assume c: "map_find (clients s) i = Some c" "map_find (client_binders s) i = Some b" "map_find (scanners s) i = Some x"
    and e: "live_client s' = (live_client s)(i := None)" "live_ap s' = live_ap s" "live_scanner s' = (live_scanner s)(i := None)"
    "map_find (scanners s') = (map_find (scanners s))(i \<mapsto> x\<lparr>valid := False\<rparr>)"
    "map_find (client_binders s') = (map_find (client_binders s))(i \<mapsto> b\<lparr>client_impl := None\<rparr>)"
    "ap_binders s' = ap_binders s" "next_obj s' = next_obj s"
    "map_find (on_mlme_event_handler s') = (map_find (on_mlme_event_handler s))(client_interface_index c := None)"
    "map_find (on_frame_tx_status_event_handler s') =
       (map_find (on_frame_tx_status_event_handler s))(client_interface_index c := None)"
    "map_find (on_channel_switch_event_handler s') =
       (map_find (on_channel_switch_event_handler s))(client_interface_index c := None)"
    "map_find (on_scan_result_ready_handler s') =
       (map_find (on_scan_result_ready_handler s))(scanner_interface_index x := None)"
    "map_find (on_sched_scan_result_ready_handler s') =
       (map_find (on_sched_scan_result_ready_handler s))(scanner_interface_index x := None)"
    "on_station_event_handler s' = on_station_event_handler s"
    "on_reg_domain_changed_handler s' = on_reg_domain_changed_handler s"
  have li: "live_client s i = Some (client_interface_index c)" by (simp add: live_client_def c)
  then have ls: "live_scanner s i = Some (client_interface_index c)" using assms(2) by (simp add: owned_def proxies_ok_def)
  then have idx: "scanner_interface_index x = client_interface_index c"
    by (auto simp: live_scanner_def scanner_frame_def c split: bool.splits)
  have iC: "i \<in> C" "i \<notin> A" using assms(2) li unfolding owned_def by blast+
  have la: "live_ap s i = None" using assms(2) iC unfolding owned_def by blast
  have bound: "i < next_obj s" using assms(2) iC unfolding owned_def by blast
  note [simp] = fun_upd_Some e idx li ls la
  have ok: "proxies_ok s" "handlers_ok s" using assms(2) by (simp_all add: owned_def)
  have "proxies_ok s'" using ok(1) by (auto simp: proxies_ok_def)
  moreover have "handlers_ok s'"
    using ok(2) unfolding handlers_ok_def by (auto elim!: keyed_erase keyed_mono)
  ultimately show "owned s' (C - {i}) A"
    using assms(2) bound by (auto simp: owned_def)
qed

lemma delete_ap_effect:
  assumes "delete_ApInterfaceImpl i s = Inr s'"
  obtains a b where "map_find (aps s) i = Some a" "map_find (ap_binders s) i = Some b"
    "live_client s' = live_client s" "live_ap s' = (live_ap s)(i := None)" "live_scanner s' = live_scanner s"
    "scanners s' = scanners s" "client_binders s' = client_binders s"
    "map_find (ap_binders s') = (map_find (ap_binders s))(i \<mapsto> b\<lparr>ap_impl := None\<rparr>)"
    "next_obj s' = next_obj s"
    "on_mlme_event_handler s' = on_mlme_event_handler s"
    "on_frame_tx_status_event_handler s' = on_frame_tx_status_event_handler s"
    "map_find (on_channel_switch_event_handler s') =
       (map_find (on_channel_switch_event_handler s))(ap_interface_index a := None)"
    "on_scan_result_ready_handler s' = on_scan_result_ready_handler s"
    "on_sched_scan_result_ready_handler s' = on_sched_scan_result_ready_handler s"
    "map_find (on_station_event_handler s') = (map_find (on_station_event_handler s))(ap_interface_index a := None)"
    "on_reg_domain_changed_handler s' = on_reg_domain_changed_handler s"
proof -
  note defs = delete_ApInterfaceImpl_def the_ap_def the_ap_binder_def call_remote_def Let_def
    UnsubscribeChannelSwitchEvent_def UnsubscribeStationEvent_def
  from assms obtain a b where a: "map_find (aps s) i = Some a" "map_find (ap_binders s) i = Some b"
    by (auto simp: defs elim!: and_then_InrE split: option.splits)
  show ?thesis
    using assms a
    by (intro that [OF a])
      (auto simp: defs live_client_def live_ap_def live_scanner_def scanner_frame_def fun_eq_iff)
qed

lemma delete_ap_owned:
  assumes "delete_ApInterfaceImpl i s = Inr s'" "owned s C A"
  shows "owned s' C (A - {i})"
  using assms(1)
proof (rule delete_ap_effect)
  fix a b
  assume a: "map_find (aps s) i = Some a" "map_find (ap_binders s) i = Some b"
    and e: "live_client s' = live_client s" "live_ap s' = (live_ap s)(i := None)" "live_scanner s' = live_scanner s"
    "scanners s' = scanners s" "client_binders s' = client_binders s"
    "map_find (ap_binders s') = (map_find (ap_binders s))(i \<mapsto> b\<lparr>ap_impl := None\<rparr>)"
    "next_obj s' = next_obj s"
    "on_mlme_event_handler s' = on_mlme_event_handler s"
    "on_frame_tx_status_event_handler s' = on_frame_tx_status_event_handler s"
    "map_find (on_channel_switch_event_handler s') =
       (map_find (on_channel_switch_event_handler s))(ap_interface_index a := None)"
    "on_scan_result_ready_handler s' = on_scan_result_ready_handler s"
    "on_sched_scan_result_ready_handler s' = on_sched_scan_result_ready_handler s"
    "map_find (on_station_event_handler s') = (map_find (on_station_event_handler s))(ap_interface_index a := None)"
    "on_reg_domain_changed_handler s' = on_reg_domain_changed_handler s"
  have la: "live_ap s i = Some (ap_interface_index a)" by (simp add: live_ap_def a)
  have "i \<in> A" using assms(2) la unfolding owned_def by blast
  then have bound: "i < next_obj s" "live_client s i = None" using assms(2) unfolding owned_def by blast+
  note [simp] = fun_upd_Some e la bound
  have ok: "proxies_ok s" "handlers_ok s" using assms(2) by (simp_all add: owned_def)
  have "proxies_ok s'" using ok(1) by (auto simp: proxies_ok_def)
  moreover have "handlers_ok s'"
    using ok(2) unfolding handlers_ok_def by (auto elim!: keyed_erase keyed_mono split: if_splits)
  ultimately show "owned s' C (A - {i})"
    using assms(2) by (auto simp: owned_def)
qed

lemma delete_keeps_names:
  "delete_ClientInterfaceImpl i s = Inr s' \<Longrightarrow> client_interfaces s' = client_interfaces s \<and>
     ap_interfaces s' = ap_interfaces s \<and> iface_to_wiphy_index_map s' = iface_to_wiphy_index_map s"
  "delete_ApInterfaceImpl i s = Inr s' \<Longrightarrow> client_interfaces s' = client_interfaces s \<and>
     ap_interfaces s' = ap_interfaces s \<and> iface_to_wiphy_index_map s' = iface_to_wiphy_index_map s"
  by (auto simp: delete_client_defs delete_ApInterfaceImpl_def the_ap_def the_ap_binder_def
      UnsubscribeStationEvent_def elim!: and_then_InrE split: option.splits)

section \<open>Constructors\<close>

lemma owned_fresh:
  assumes "owned s C A"
  shows "next_obj s \<notin> C \<union> A" "map_find (scanners s) (next_obj s) = None"
    "map_find (client_binders s) (next_obj s) = None" "map_find (ap_binders s) (next_obj s) = None"
    "live_client s (next_obj s) = None" "live_ap s (next_obj s) = None" "live_scanner s (next_obj s) = None"
proof -
  have bound: "i \<in> C \<union> A \<or> map_find (scanners s) i \<noteq> None \<or>
        map_find (client_binders s) i \<noteq> None \<or> map_find (ap_binders s) i \<noteq> None \<Longrightarrow> i < next_obj s" for i
    using assms by (auto simp: owned_def)
  show fresh: "next_obj s \<notin> C \<union> A" "map_find (scanners s) (next_obj s) = None"
    "map_find (client_binders s) (next_obj s) = None" "map_find (ap_binders s) (next_obj s) = None"
    using bound [of "next_obj s"] by (metis less_irrefl)+
  then show "live_client s (next_obj s) = None" "live_ap s (next_obj s) = None" "live_scanner s (next_obj s) = None"
    using assms by (auto simp: owned_def live_scanner_def scanner_frame_def)
qed

lemma ApInterfaceImpl_owned:
  assumes "ApInterfaceImpl name idx s = (i, s')" "owned s C A"
  shows "owned s' C (insert i A)" "i = next_obj s" "i \<notin> C \<union> A" "named s' = named s"
    "client_interfaces s' = client_interfaces s" "ap_interfaces s' = ap_interfaces s"
proof -
  note defs = ApInterfaceImpl_def Let_def SubscribeChannelSwitchEvent_def SubscribeStationEvent_def
  have i: "i = next_obj s" using assms(1) by (auto simp: defs)
  then have fresh: "i \<notin> C \<union> A" "map_find (ap_binders s) i = None" "live_client s i = None" "live_ap s i = None"
    using owned_fresh [OF assms(2)] by simp_all
  show "i = next_obj s" "i \<notin> C \<union> A" by (rule i) (rule fresh(1))
  have e: "live_client s' = live_client s" "live_ap s' = (live_ap s)(i \<mapsto> idx)" "live_scanner s' = live_scanner s"
    "scanners s' = scanners s" "client_binders s' = client_binders s" "next_obj s' = next_obj s + 1"
    "map_find (ap_binders s') = (map_find (ap_binders s))(i \<mapsto> \<lparr>ap_impl = Some i, ap_event_callback = None\<rparr>)"
    "on_mlme_event_handler s' = on_mlme_event_handler s"
    "on_frame_tx_status_event_handler s' = on_frame_tx_status_event_handler s"
    "map_find (on_channel_switch_event_handler s') = (map_find (on_channel_switch_event_handler s))(idx \<mapsto> i)"
    "on_scan_result_ready_handler s' = on_scan_result_ready_handler s"
    "on_sched_scan_result_ready_handler s' = on_sched_scan_result_ready_handler s"
    "map_find (on_station_event_handler s') = (map_find (on_station_event_handler s))(idx \<mapsto> i)"
    "on_reg_domain_changed_handler s' = on_reg_domain_changed_handler s"
    "client_interfaces s' = client_interfaces s" "ap_interfaces s' = ap_interfaces s"
    using assms(1)
    by (auto simp: defs live_client_def live_ap_def live_scanner_def scanner_frame_def fun_eq_iff)
  show "client_interfaces s' = client_interfaces s" "ap_interfaces s' = ap_interfaces s" "named s' = named s"
    by (simp_all add: named_def e)
  note [simp] = e fresh
  have ok: "proxies_ok s" "handlers_ok s" using assms(2) by (simp_all add: owned_def)
  have "proxies_ok s'" using ok(1) by (auto simp: proxies_ok_def)
  moreover have "handlers_ok s'"
    using ok(2) unfolding handlers_ok_def by (auto elim!: keyed_set keyed_mono split: if_splits)
  ultimately show "owned s' C (insert i A)"
    using assms(2) by (auto simp: owned_def i)
qed

lemma ClientInterfaceImpl_same:
  assumes "ClientInterfaceImpl (dispatch n) w name idx mac s = Inr (i, s')"
  obtains c s2 s3 where "i = next_obj s" "client_interface_index c = idx"
    "s2 = SubscribeChannelSwitchEvent idx i (SubscribeFrameTxStatusEvent idx i (SubscribeMlmeEvent idx i
       (s\<lparr>next_obj := i + 1, clients := map_set i c (clients s),
          client_binders := map_set i \<lparr>client_impl = Some i\<rparr> (client_binders s)\<rparr>)))"
    "same_objects s2 s3" "\<exists>caps features r. s' = call_remote r (ScannerImpl i idx caps features s3)"
proof -
  let ?c = "(fresh_client s)
                \<lparr>client_wiphy_index := w, client_interface_name := name,
                 client_interface_index := idx, client_mac_addr := mac,
                 is_associated := False, client_band_info := BandInfo,
                 client_wiphy_features := default_features (client_wiphy_features (fresh_client s)),
                 frame_tx_in_progress := False, frame_tx_status_cookie := 0, frame_tx_handler := None\<rparr>"
  let ?s2 = "SubscribeChannelSwitchEvent idx (next_obj s) (SubscribeFrameTxStatusEvent idx (next_obj s) (SubscribeMlmeEvent idx (next_obj s)
       (s\<lparr>next_obj := next_obj s + 1, clients := map_set (next_obj s) ?c (clients s),
          client_binders := map_set (next_obj s) \<lparr>client_impl = Some (next_obj s)\<rparr> (client_binders s)\<rparr>)))"
  from assms obtain s3 where "UpdateBandInfo (dispatch n) (next_obj s) ?s2 = Inr s3" and i: "i = next_obj s"
    and last: "\<exists>caps features r. s' = call_remote r (ScannerImpl i idx caps features s3)"
    by (auto simp: ClientInterfaceImpl_def Let_def elim!: and_then_InrE)
  from objects.UpdateBandInfo_R [OF this(1)] have "same_objects ?s2 s3" .
  from that [OF i _ _ this last, of ?c] show ?thesis by (simp add: i)
qed

lemma ClientInterfaceImpl_owned:
  assumes "ClientInterfaceImpl (dispatch n) w name idx mac s = Inr (i, s')" "owned s C A"
  shows "owned s' (insert i C) A" "i = next_obj s" "i \<notin> C \<union> A" "named s' = named s"
    "client_interfaces s' = client_interfaces s" "ap_interfaces s' = ap_interfaces s" "live_client s' i = Some idx"
proof -
  from ClientInterfaceImpl_same [OF assms(1)] obtain c s2 s3 caps features r where i: "i = next_obj s"
    and c: "client_interface_index c = idx"
    and s2: "s2 = SubscribeChannelSwitchEvent idx i (SubscribeFrameTxStatusEvent idx i (SubscribeMlmeEvent idx i
       (s\<lparr>next_obj := i + 1, clients := map_set i c (clients s),
          client_binders := map_set i \<lparr>client_impl = Some i\<rparr> (client_binders s)\<rparr>)))"
    and same: "same_objects s2 s3" and s': "s' = call_remote r (ScannerImpl i idx caps features s3)"
    by metis
  have fresh: "i \<notin> C \<union> A" "map_find (client_binders s) i = None" "live_client s i = None" "live_ap s i = None"
    "live_scanner s i = None"
    using owned_fresh [OF assms(2)] by (simp_all add: i)
  show "i = next_obj s" "i \<notin> C \<union> A" by (rule i) (rule fresh(1))
  note defs = s' s2 ScannerImpl_def Let_def call_remote_def SubscribeChannelSwitchEvent_def
    SubscribeFrameTxStatusEvent_def SubscribeMlmeEvent_def SubscribeScanResultNotification_def
    SubscribeSchedScanResultNotification_def
  have tables: "next_obj s3 = next_obj s2" "client_binders s3 = client_binders s2" "ap_binders s3 = ap_binders s2"
    "client_interfaces s3 = client_interfaces s2" "ap_interfaces s3 = ap_interfaces s2"
    "on_scan_result_ready_handler s3 = on_scan_result_ready_handler s2"
    "on_sched_scan_result_ready_handler s3 = on_sched_scan_result_ready_handler s2"
    "on_mlme_event_handler s3 = on_mlme_event_handler s2"
    "on_reg_domain_changed_handler s3 = on_reg_domain_changed_handler s2"
    "on_station_event_handler s3 = on_station_event_handler s2"
    "on_channel_switch_event_handler s3 = on_channel_switch_event_handler s2"
    "on_frame_tx_status_event_handler s3 = on_frame_tx_status_event_handler s2"
    using same by (simp_all add: same_objects_def)
  have lives: "live_client s' = live_client s3" "live_ap s' = live_ap s3" "live_scanner s' = (live_scanner s3)(i \<mapsto> idx)"
    "live_client s2 = (live_client s)(i \<mapsto> idx)" "live_ap s2 = live_ap s" "live_scanner s2 = live_scanner s"
    "(map_find (scanners s') j = None) = (map_find (scanners s3) j = None \<and> j \<noteq> i)" "scanners s2 = scanners s" for j
    using c by (auto simp: defs live_client_def live_ap_def live_scanner_def scanner_frame_def fun_eq_iff)
  have e: "live_client s' = (live_client s)(i \<mapsto> idx)" "live_ap s' = live_ap s" "live_scanner s' = (live_scanner s)(i \<mapsto> idx)"
    "(map_find (scanners s') j = None) = (map_find (scanners s) j = None \<and> j \<noteq> i)" for j
    using lives same_objects_live [OF same] by simp_all
  have f: "map_find (client_binders s') = (map_find (client_binders s))(i \<mapsto> \<lparr>client_impl = Some i\<rparr>)"
    "ap_binders s' = ap_binders s" "next_obj s' = next_obj s + 1"
    "map_find (on_mlme_event_handler s') = (map_find (on_mlme_event_handler s))(idx \<mapsto> i)"
    "map_find (on_frame_tx_status_event_handler s') = (map_find (on_frame_tx_status_event_handler s))(idx \<mapsto> i)"
    "map_find (on_channel_switch_event_handler s') = (map_find (on_channel_switch_event_handler s))(idx \<mapsto> i)"
    "map_find (on_scan_result_ready_handler s') = (map_find (on_scan_result_ready_handler s))(idx \<mapsto> i)"
    "map_find (on_sched_scan_result_ready_handler s') = (map_find (on_sched_scan_result_ready_handler s))(idx \<mapsto> i)"
    "on_station_event_handler s' = on_station_event_handler s"
    "on_reg_domain_changed_handler s' = on_reg_domain_changed_handler s"
    "client_interfaces s' = client_interfaces s" "ap_interfaces s' = ap_interfaces s"
    unfolding defs using tables unfolding s2 by (simp_all add: defs i fun_eq_iff)
  show "client_interfaces s' = client_interfaces s" "ap_interfaces s' = ap_interfaces s" "named s' = named s"
    "live_client s' i = Some idx"
    by (simp_all add: named_def e f)
  note [simp] = e f fresh
  have ok: "proxies_ok s" "handlers_ok s" using assms(2) by (simp_all add: owned_def)
  have "proxies_ok s'" using ok(1) by (auto simp: proxies_ok_def)
  moreover have "handlers_ok s'"
    using ok(2) unfolding handlers_ok_def by (auto elim!: keyed_set keyed_mono split: if_splits)
  ultimately show "owned s' (insert i C) A"
    using assms(2) by (auto simp: owned_def i)
qed

section \<open>Operations of the server\<close>

text \<open>Handlers and every request keep all objects; the rest of an operation changes only names.\<close>

lemma SetupInterface_ok:
  assumes "SetupInterface (dispatch n) name s = Inr (r, s')" "objects_ok s"
  shows "objects_ok s'"
proof -
  have reg: "objects_ok (SubscribeRegDomainChange w 0 t)" if "objects_ok t" for w t
    using that
    by (auto simp: objects_defs SubscribeRegDomainChange_def live_client_def [abs_def] live_ap_def [abs_def]
        live_scanner_def [abs_def] keyed_def)
  have dbg: "objects_ok (t\<lparr>debug_interfaces := x\<rparr>) = objects_ok t" for t x
    by (simp add: objects_defs live_client_def [abs_def] live_ap_def [abs_def] live_scanner_def [abs_def])
  show ?thesis
    using assms
    by (auto simp: SetupInterface_def Let_def dbg elim!: and_then_InrE split: option.splits if_splits
        dest!: objects.GetWiphyIndex_R objects.GetInterfaces_R)
      (auto simp: same_objects_ok dbg reg)
qed

lemma fold_remote_same: "same_objects s (fold (\<lambda>x. call_remote (f x)) xs s)"
proof (induction xs arbitrary: s)
  case (Cons x xs)
  have "same_objects s (call_remote (f x) s)" by (simp add: same_objects_def call_remote_def)
  with Cons same_objects_trans show ?case by fastforce
qed (simp add: same_objects_refl)

lemma broadcasts_same:
  "same_objects s (BroadcastClientInterfaceReady b s)" "same_objects s (BroadcastApInterfaceReady b s)"
  "same_objects s (BroadcastClientInterfaceTornDown b s)" "same_objects s (BroadcastApInterfaceTornDown b s)"
  "same_objects s (BroadcastRegDomainChanged cc s)"
  by (simp_all add: BroadcastClientInterfaceReady_def BroadcastApInterfaceReady_def
      BroadcastClientInterfaceTornDown_def BroadcastApInterfaceTornDown_def BroadcastRegDomainChanged_def fold_remote_same)

text \<open>Changes that the invariant does not see.\<close>

lemma wiphy_tables_invisible:
  "owned (s\<lparr>iface_to_wiphy_index_map := m\<rparr>) C A = owned s C A" "named (s\<lparr>iface_to_wiphy_index_map := m\<rparr>) = named s"
  "objects_ok (s\<lparr>iface_to_wiphy_index_map := m\<rparr>) = objects_ok s"
  "objects_ok (s\<lparr>band_to_wiphy_index_map := b\<rparr>) = objects_ok s"
  by (simp_all add: objects_defs live_client_def [abs_def] live_ap_def [abs_def] live_scanner_def [abs_def])

lemma names_owned:
  "owned (s\<lparr>client_interfaces := m\<rparr>) C A = owned s C A" "owned (s\<lparr>ap_interfaces := n\<rparr>) C A = owned s C A"
  by (simp_all add: owned_def proxies_ok_def handlers_ok_def live_client_def [abs_def] live_ap_def [abs_def]
      live_scanner_def [abs_def])

lemma note_wiphy_ok: "note_wiphy (dispatch n) name w s = Inr s' \<Longrightarrow> objects_ok s \<Longrightarrow> objects_ok s'"
  by (auto simp: note_wiphy_def wiphy_tables_invisible same_objects_ok elim!: and_then_InrE split: if_splits
      dest!: objects.UpdateBandWiphyIndexMap_R)

lemma forget_wiphy_ok: "objects_ok (forget_wiphy name s) = objects_ok s"
  by (simp add: forget_wiphy_def Let_def EraseBandWiphyIndexMap_def wiphy_tables_invisible split: option.split)

text \<open>Storing an object under a name.\<close>

lemma set_map_set_ordered: "ordered m \<Longrightarrow> set (map_set k v m) = insert (k, v) {p \<in> set m. fst p \<noteq> k}"
  by (induction m) (auto simp: ordered_Cons)

lemma ordered_distinct_pairs: "ordered m \<Longrightarrow> distinct m"
  using ordered_distinct [of m] by (simp add: distinct_map)

lemma values_without:
  assumes "ordered m" "distinct (map snd m)"
  shows "snd ` {p \<in> set m. fst p \<noteq> k} = snd ` set m - {j. map_of m k = Some j}"
proof -
  have inj: "\<And>p q. p \<in> set m \<Longrightarrow> q \<in> set m \<Longrightarrow> snd p = snd q \<Longrightarrow> p = q"
    using assms(2) by (auto simp: distinct_map inj_on_def)
  have key: "map_of m k = Some (snd p) \<longleftrightarrow> fst p = k" if "p \<in> set m" for p
    using that inj [of p] ordered_in_set [OF assms(1), of k "snd p"] by (metis fst_conv prod.collapse snd_conv)
  have "{p \<in> set m. fst p \<noteq> k} = {p \<in> set m. map_of m k \<noteq> Some (snd p)}" using key by blast
  then show ?thesis by auto
qed

lemma map_set_values:
  assumes "ordered m" "distinct (map snd m)" "i \<notin> snd ` set m"
  shows "ordered (map_set k i m)" "distinct (map snd (map_set k i m))"
    "snd ` set (map_set k i m) = insert i (snd ` set m - {j. map_of m k = Some j})"
proof -
  show ord: "ordered (map_set k i m)" using assms(1) by (rule ordered_map_set)
  have inj: "inj_on snd (set m)" using assms(2) by (simp add: distinct_map)
  have new: "set (map_set k i m) = insert (k, i) {p \<in> set m. fst p \<noteq> k}" by (rule set_map_set_ordered [OF assms(1)])
  have "inj_on snd (set (map_set k i m))" using inj assms(3) unfolding new by (force simp: inj_on_def)
  then show "distinct (map snd (map_set k i m))" using ordered_distinct_pairs [OF ord] by (simp add: distinct_map)
  show "snd ` set (map_set k i m) = insert i (snd ` set m - {j. map_of m k = Some j})"
    unfolding new by (simp only: image_insert snd_conv values_without [OF assms(1,2)])
qed

lemma map_erase_values:
  assumes "ordered m" "distinct (map snd m)" "map_of m k = Some j"
  shows "ordered (map_erase k m)" "distinct (map snd (map_erase k m))" "snd ` set (map_erase k m) = snd ` set m - {j}"
  using assms values_without [OF assms(1,2), of k]
  by (simp_all add: ordered_map_erase [unfolded map_erase_def] map_erase_def distinct_map_filter)

lemma same_objects_names:
  "same_objects s s' \<Longrightarrow> client_interfaces s' = client_interfaces s"
  "same_objects s s' \<Longrightarrow> ap_interfaces s' = ap_interfaces s"
  "same_objects s s' \<Longrightarrow> iface_to_wiphy_index_map s' = iface_to_wiphy_index_map s"
  by (simp_all add: same_objects_def)

lemma broadcast_names [simp]:
  "client_interfaces (BroadcastClientInterfaceReady b s) = client_interfaces s"
  "ap_interfaces (BroadcastApInterfaceReady b s) = ap_interfaces s"
  "client_interfaces (BroadcastClientInterfaceTornDown b s) = client_interfaces s"
  "ap_interfaces (BroadcastApInterfaceTornDown b s) = ap_interfaces s"
  by (rule same_objects_names, rule broadcasts_same)+

text \<open>Storing a new client interface under a name and destroying the one stored before.\<close>

lemma replace_client_ok:
  assumes "owned s (insert i (snd ` set (client_interfaces s))) (snd ` set (ap_interfaces s))"
    and "named s" "i \<notin> snd ` set (client_interfaces s)"
    and "(case map_find (client_interfaces s) name of
            None \<Rightarrow> Inr (s\<lparr>client_interfaces := map_set name i (client_interfaces s)\<rparr>)
          | Some j \<Rightarrow> delete_ClientInterfaceImpl j (s\<lparr>client_interfaces := map_set name i (client_interfaces s)\<rparr>)) = Inr s'"
  shows "objects_ok s'"
proof -
  let ?t = "s\<lparr>client_interfaces := map_set name i (client_interfaces s)\<rparr>"
  have t: "owned ?t (insert i (snd ` set (client_interfaces s))) (snd ` set (ap_interfaces s))"
    using assms(1) by (simp add: names_owned)
  have nm: "ordered (client_interfaces s)" "distinct (map snd (client_interfaces s))" using assms(2) by (simp_all add: named_def)
  note vals = map_set_values [OF nm assms(3), of name]
  show ?thesis
  proof (cases "map_find (client_interfaces s) name")
    case None
    with assms(2,4) t vals show ?thesis by (auto simp: objects_ok_def named_def)
  next
    case (Some j)
    then have del: "delete_ClientInterfaceImpl j ?t = Inr s'" using assms(4) by simp
    have "j \<in> snd ` set (client_interfaces s)" using map_of_SomeD [OF Some] by force
    then have "j \<noteq> i" using assms(3) by blast
    then have "insert i (snd ` set (client_interfaces s)) - {j} = snd ` set (map_set name i (client_interfaces s))"
      using vals(3) Some by auto
    with delete_client_owned [OF del t] delete_keeps_names(1) [OF del] assms(2) vals
    show ?thesis by (simp add: objects_ok_def named_def)
  qed
qed

lemma replace_ap_ok:
  assumes "owned s (snd ` set (client_interfaces s)) (insert i (snd ` set (ap_interfaces s)))"
    and "named s" "i \<notin> snd ` set (ap_interfaces s)"
    and "(case map_find (ap_interfaces s) name of
            None \<Rightarrow> Inr (s\<lparr>ap_interfaces := map_set name i (ap_interfaces s)\<rparr>)
          | Some j \<Rightarrow> delete_ApInterfaceImpl j (s\<lparr>ap_interfaces := map_set name i (ap_interfaces s)\<rparr>)) = Inr s'"
  shows "objects_ok s'"
proof -
  let ?t = "s\<lparr>ap_interfaces := map_set name i (ap_interfaces s)\<rparr>"
  have t: "owned ?t (snd ` set (client_interfaces s)) (insert i (snd ` set (ap_interfaces s)))"
    using assms(1) by (simp add: names_owned)
  have nm: "ordered (ap_interfaces s)" "distinct (map snd (ap_interfaces s))" using assms(2) by (simp_all add: named_def)
  note vals = map_set_values [OF nm assms(3), of name]
  show ?thesis
  proof (cases "map_find (ap_interfaces s) name")
    case None
    with assms(2,4) t vals show ?thesis by (auto simp: objects_ok_def named_def)
  next
    case (Some j)
    then have del: "delete_ApInterfaceImpl j ?t = Inr s'" using assms(4) by simp
    have "j \<in> snd ` set (ap_interfaces s)" using map_of_SomeD [OF Some] by force
    then have "j \<noteq> i" using assms(3) by blast
    then have "insert i (snd ` set (ap_interfaces s)) - {j} = snd ` set (map_set name i (ap_interfaces s))"
      using vals(3) Some by auto
    with delete_ap_owned [OF del t] delete_keeps_names(2) [OF del] assms(2) vals
    show ?thesis by (simp add: objects_ok_def named_def)
  qed
qed

text \<open>The stages of a successful \<open>createClientInterface\<close>.\<close>

lemma createClientInterface_SomeE:
  assumes "createClientInterface run name s = Inr (Some i, s')"
  obtains iface w s1 s2 s5 where "SetupInterface run name s = Inr (Some (iface, w), s1)"
    "ClientInterfaceImpl run w (info_name iface) (info_if_index iface) (info_mac_address iface) s1 = Inr (i, s2)"
    "(case map_find (client_interfaces (BroadcastClientInterfaceReady i s2)) name of
        None \<Rightarrow> Inr ((BroadcastClientInterfaceReady i s2)\<lparr>client_interfaces := map_set name i (client_interfaces (BroadcastClientInterfaceReady i s2))\<rparr>)
      | Some j \<Rightarrow> delete_ClientInterfaceImpl j
          ((BroadcastClientInterfaceReady i s2)\<lparr>client_interfaces := map_set name i (client_interfaces (BroadcastClientInterfaceReady i s2))\<rparr>)) = Inr s5"
    "note_wiphy run name w s5 = Inr s'"
  using assms by (auto simp: createClientInterface_def Let_def elim!: and_then_InrE split: option.splits)

lemma createClientInterface_ok:
  assumes "createClientInterface (dispatch n) name s = Inr (r, s')" "objects_ok s"
  shows "objects_ok s'"
proof (cases r)
  case None
  then show ?thesis
    using assms by (auto simp: createClientInterface_def Let_def elim!: and_then_InrE split: option.splits
        dest!: SetupInterface_ok)
next
  case (Some i)
  from assms(1) [unfolded Some] obtain iface w s1 s2 s5 where prep: "SetupInterface (dispatch n) name s = Inr (Some (iface, w), s1)"
    and new: "ClientInterfaceImpl (dispatch n) w (info_name iface) (info_if_index iface) (info_mac_address iface) s1 = Inr (i, s2)"
    and store: "(case map_find (client_interfaces (BroadcastClientInterfaceReady i s2)) name of
        None \<Rightarrow> Inr ((BroadcastClientInterfaceReady i s2)\<lparr>client_interfaces := map_set name i (client_interfaces (BroadcastClientInterfaceReady i s2))\<rparr>)
      | Some j \<Rightarrow> delete_ClientInterfaceImpl j
          ((BroadcastClientInterfaceReady i s2)\<lparr>client_interfaces := map_set name i (client_interfaces (BroadcastClientInterfaceReady i s2))\<rparr>)) = Inr s5"
    and rest: "note_wiphy (dispatch n) name w s5 = Inr s'"
    by (rule createClientInterface_SomeE)
  have "objects_ok s1" using SetupInterface_ok [OF prep assms(2)] .
  note o = this [unfolded objects_ok_def]
  note c = ClientInterfaceImpl_owned [OF new conjunct2 [OF o]]
  let ?s3 = "BroadcastClientInterfaceReady i s2"
  have same: "same_objects s2 ?s3" by (rule broadcasts_same)
  have tables: "client_interfaces ?s3 = client_interfaces s1" "ap_interfaces ?s3 = ap_interfaces s1"
    using same c(5,6) by (simp_all add: same_objects_def)
  have "objects_ok s5"
    using c(1,3,4) o by (intro replace_client_ok [OF _ _ _ store]) (simp_all add: same_objects_ok [OF same] tables c(5,6))
  with rest show ?thesis by (rule note_wiphy_ok)
qed

lemma createApInterface_SomeE:
  assumes "createApInterface run name s = Inr (Some i, s')"
  obtains iface w s1 s2 s5 where "SetupInterface run name s = Inr (Some (iface, w), s1)"
    "ApInterfaceImpl (info_name iface) (info_if_index iface) s1 = (i, s2)"
    "(case map_find (ap_interfaces (BroadcastApInterfaceReady i s2)) name of
        None \<Rightarrow> Inr ((BroadcastApInterfaceReady i s2)\<lparr>ap_interfaces := map_set name i (ap_interfaces (BroadcastApInterfaceReady i s2))\<rparr>)
      | Some j \<Rightarrow> delete_ApInterfaceImpl j
          ((BroadcastApInterfaceReady i s2)\<lparr>ap_interfaces := map_set name i (ap_interfaces (BroadcastApInterfaceReady i s2))\<rparr>)) = Inr s5"
    "note_wiphy run name w s5 = Inr s'"
  using assms by (auto simp: createApInterface_def Let_def elim!: and_then_InrE split: option.splits prod.splits)

lemma createApInterface_ok:
  assumes "createApInterface (dispatch n) name s = Inr (r, s')" "objects_ok s"
  shows "objects_ok s'"
proof (cases r)
  case None
  then show ?thesis
    using assms by (auto simp: createApInterface_def Let_def elim!: and_then_InrE split: option.splits prod.splits
        dest!: SetupInterface_ok)
next
  case (Some i)
  with assms(1) have "createApInterface (dispatch n) name s = Inr (Some i, s')" by simp
  then obtain iface w s1 s2 s5 where prep: "SetupInterface (dispatch n) name s = Inr (Some (iface, w), s1)"
    and new: "ApInterfaceImpl (info_name iface) (info_if_index iface) s1 = (i, s2)"
    and store: "(case map_find (ap_interfaces (BroadcastApInterfaceReady i s2)) name of
        None \<Rightarrow> Inr ((BroadcastApInterfaceReady i s2)\<lparr>ap_interfaces := map_set name i (ap_interfaces (BroadcastApInterfaceReady i s2))\<rparr>)
      | Some j \<Rightarrow> delete_ApInterfaceImpl j
          ((BroadcastApInterfaceReady i s2)\<lparr>ap_interfaces := map_set name i (ap_interfaces (BroadcastApInterfaceReady i s2))\<rparr>)) = Inr s5"
    and rest: "note_wiphy (dispatch n) name w s5 = Inr s'"
    by (rule createApInterface_SomeE)
  have "objects_ok s1" using SetupInterface_ok [OF prep assms(2)] .
  note o = this [unfolded objects_ok_def]
  note c = ApInterfaceImpl_owned [OF new conjunct2 [OF o]]
  let ?s3 = "BroadcastApInterfaceReady i s2"
  have same: "same_objects s2 ?s3" by (rule broadcasts_same)
  have tables: "client_interfaces ?s3 = client_interfaces s1" "ap_interfaces ?s3 = ap_interfaces s1"
    using same c(5,6) by (simp_all add: same_objects_def)
  have "objects_ok s5"
    using c(1,3,4) o by (intro replace_ap_ok [OF _ _ _ store]) (simp_all add: same_objects_ok [OF same] tables c(5,6))
  with rest show ?thesis by (rule note_wiphy_ok)
qed

section \<open>Tearing down\<close>

lemma tearDownClientInterface_ok:
  assumes "tearDownClientInterface name s = Inr (b, s')" "objects_ok s"
  shows "objects_ok s'"
proof (cases "map_find (client_interfaces s) name")
  case None
  with assms show ?thesis by (auto simp: tearDownClientInterface_def forget_wiphy_ok)
next
  case (Some i)
  let ?t = "BroadcastClientInterfaceTornDown i s"
  let ?u = "?t\<lparr>client_interfaces := map_erase name (client_interfaces s)\<rparr>"
  have same: "same_objects s ?t" by (rule broadcasts_same)
  have t: "objects_ok ?t" "ap_interfaces ?t = ap_interfaces s"
    using assms(2) same same_objects_names [OF same] by (simp_all add: same_objects_ok)
  obtain s3 where del: "delete_ClientInterfaceImpl i ?u = Inr s3" and s': "s' = forget_wiphy name s3"
    using assms(1) Some by (auto simp: tearDownClientInterface_def Let_def elim!: and_then_InrE)
  have nm: "ordered (client_interfaces s)" "distinct (map snd (client_interfaces s))" and named: "named s"
    using assms(2) by (simp_all add: objects_ok_def named_def)
  note vals = map_erase_values [OF nm Some]
  have "owned ?u (snd ` set (client_interfaces s)) (snd ` set (ap_interfaces s))"
    using t by (simp add: names_owned objects_ok_def)
  from delete_client_owned [OF del this] delete_keeps_names(1) [OF del] vals named t(2)
  have "objects_ok s3" by (simp add: objects_ok_def named_def)
  then show ?thesis by (simp add: s' forget_wiphy_ok)
qed

lemma tearDownApInterface_ok:
  assumes "tearDownApInterface name s = Inr (b, s')" "objects_ok s"
  shows "objects_ok s'"
proof (cases "map_find (ap_interfaces s) name")
  case None
  with assms show ?thesis by (auto simp: tearDownApInterface_def forget_wiphy_ok)
next
  case (Some i)
  let ?t = "BroadcastApInterfaceTornDown i s"
  let ?u = "?t\<lparr>ap_interfaces := map_erase name (ap_interfaces s)\<rparr>"
  have same: "same_objects s ?t" by (rule broadcasts_same)
  have t: "objects_ok ?t" "client_interfaces ?t = client_interfaces s"
    using assms(2) same same_objects_names [OF same] by (simp_all add: same_objects_ok)
  obtain s3 where del: "delete_ApInterfaceImpl i ?u = Inr s3" and s': "s' = forget_wiphy name s3"
    using assms(1) Some by (auto simp: tearDownApInterface_def Let_def elim!: and_then_InrE)
  have nm: "ordered (ap_interfaces s)" "distinct (map snd (ap_interfaces s))" and named: "named s"
    using assms(2) by (simp_all add: objects_ok_def named_def)
  note vals = map_erase_values [OF nm Some]
  have "owned ?u (snd ` set (client_interfaces s)) (snd ` set (ap_interfaces s))"
    using t by (simp add: names_owned objects_ok_def)
  from delete_ap_owned [OF del this] delete_keeps_names(2) [OF del] vals named t(2)
  have "objects_ok s3" by (simp add: objects_ok_def named_def)
  then show ?thesis by (simp add: s' forget_wiphy_ok)
qed

lemma delete_clients_owned:
  "delete_clients its s = Inr s' \<Longrightarrow> owned s C A \<Longrightarrow>
     owned s' (C - snd ` set its) A \<and> client_interfaces s' = client_interfaces s \<and> ap_interfaces s' = ap_interfaces s \<and>
     iface_to_wiphy_index_map s' = iface_to_wiphy_index_map s"
proof (induction its arbitrary: s C)
  case (Cons it its)
  from Cons.prems(1) obtain s1 where d: "delete_ClientInterfaceImpl (snd it) s = Inr s1" "delete_clients its s1 = Inr s'"
    by (auto elim!: and_then_InrE)
  have "C - snd ` set (it # its) = C - {snd it} - snd ` set its" by auto
  with Cons.IH [OF d(2) delete_client_owned [OF d(1) Cons.prems(2)]] delete_keeps_names(1) [OF d(1)] show ?case by simp
qed simp

lemma delete_aps_owned:
  "delete_aps its s = Inr s' \<Longrightarrow> owned s C A \<Longrightarrow>
     owned s' C (A - snd ` set its) \<and> client_interfaces s' = client_interfaces s \<and> ap_interfaces s' = ap_interfaces s \<and>
     iface_to_wiphy_index_map s' = iface_to_wiphy_index_map s"
proof (induction its arbitrary: s A)
  case (Cons it its)
  from Cons.prems(1) obtain s1 where d: "delete_ApInterfaceImpl (snd it) s = Inr s1" "delete_aps its s1 = Inr s'"
    by (auto elim!: and_then_InrE)
  have "A - snd ` set (it # its) = A - {snd it} - snd ` set its" by auto
  with Cons.IH [OF d(2) delete_ap_owned [OF d(1) Cons.prems(2)]] delete_keeps_names(2) [OF d(1)] show ?case by simp
qed simp

lemma fold_same:
  "(\<And>b s. same_objects s (f b s)) \<Longrightarrow> same_objects s (fold (\<lambda>it. f (snd it)) its s)"
proof (induction its arbitrary: s)
  case (Cons it its)
  have "same_objects (f (snd it) s) (fold (\<lambda>it. f (snd it)) its (f (snd it) s))" by (rule Cons.IH) (rule Cons.prems)
  with Cons.prems [of s "snd it"] show ?case by (auto intro: same_objects_trans)
qed (simp add: same_objects_refl)

lemma drop_wiphy_owned:
  "owned s C A \<Longrightarrow> owned (EraseBandWiphyIndexMap w (UnsubscribeRegDomainChange w s)) C A"
  "client_interfaces (EraseBandWiphyIndexMap w (UnsubscribeRegDomainChange w s)) = client_interfaces s"
  "ap_interfaces (EraseBandWiphyIndexMap w (UnsubscribeRegDomainChange w s)) = ap_interfaces s"
  by (auto simp: owned_def proxies_ok_def handlers_ok_def EraseBandWiphyIndexMap_def UnsubscribeRegDomainChange_def
      live_client_def [abs_def] live_ap_def [abs_def] live_scanner_def [abs_def] keyed_def)

lemma drop_wiphys_owned:
  "owned s C A \<Longrightarrow>
     owned (fold (\<lambda>it s. EraseBandWiphyIndexMap (snd it) (UnsubscribeRegDomainChange (snd it) s)) its s) C A \<and>
     client_interfaces (fold (\<lambda>it s. EraseBandWiphyIndexMap (snd it) (UnsubscribeRegDomainChange (snd it) s)) its s) = client_interfaces s \<and>
     ap_interfaces (fold (\<lambda>it s. EraseBandWiphyIndexMap (snd it) (UnsubscribeRegDomainChange (snd it) s)) its s) = ap_interfaces s"
proof (induction its arbitrary: s)
  case (Cons it its)
  then show ?case using drop_wiphy_owned(1) [of s C A "snd it"] by (simp add: drop_wiphy_owned(2,3))
qed simp

lemma tearDownInterfaces_ok:
  assumes "tearDownInterfaces s = Inr s'" "objects_ok s"
  shows "objects_ok s'" "client_interfaces s' = []" "ap_interfaces s' = []" "iface_to_wiphy_index_map s' = []"
proof -
  let ?s1 = "fold (\<lambda>it. BroadcastClientInterfaceTornDown (snd it)) (client_interfaces s) s"
  from assms(1) obtain s2 s4 where dc: "delete_clients (client_interfaces ?s1) (?s1\<lparr>client_interfaces := []\<rparr>) = Inr s2"
    and da: "delete_aps (ap_interfaces (fold (\<lambda>it. BroadcastApInterfaceTornDown (snd it)) (ap_interfaces s2) s2))
       ((fold (\<lambda>it. BroadcastApInterfaceTornDown (snd it)) (ap_interfaces s2) s2)\<lparr>ap_interfaces := []\<rparr>) = Inr s4"
    and s': "s' = (fold (\<lambda>it s. EraseBandWiphyIndexMap (snd it) (UnsubscribeRegDomainChange (snd it) s))
         (iface_to_wiphy_index_map (MarkDownAllInterfaces s4)) (MarkDownAllInterfaces s4))\<lparr>iface_to_wiphy_index_map := []\<rparr>"
    by (auto simp: tearDownInterfaces_def Let_def elim!: and_then_InrE)
  define s3 where "s3 = fold (\<lambda>it. BroadcastApInterfaceTornDown (snd it)) (ap_interfaces s2) s2"
  have same1: "same_objects s ?s1" by (intro fold_same broadcasts_same)
  have same3: "same_objects s2 s3" unfolding s3_def by (intro fold_same broadcasts_same)
  have same5: "same_objects s4 (MarkDownAllInterfaces s4)" by (simp add: MarkDownAllInterfaces_def fold_remote_same)
  have "owned (?s1\<lparr>client_interfaces := []\<rparr>) (snd ` set (client_interfaces s)) (snd ` set (ap_interfaces s))"
    using assms(2) by (simp add: names_owned same_objects_ok [OF same1] objects_ok_def)
  from delete_clients_owned [OF dc this]
  have s2: "owned s2 {} (snd ` set (ap_interfaces s))" "client_interfaces s2 = []" "ap_interfaces s2 = ap_interfaces s"
    by (simp_all add: same_objects_names [OF same1])
  have "owned (s3\<lparr>ap_interfaces := []\<rparr>) {} (snd ` set (ap_interfaces s))"
    using s2(1) by (simp add: names_owned same_objects_ok [OF same3])
  from delete_aps_owned [OF da [folded s3_def] this] s2
  have "owned s4 {} {}" "client_interfaces s4 = []" "ap_interfaces s4 = []"
    by (simp_all add: same_objects_names [OF same3])
  then have "owned (MarkDownAllInterfaces s4) {} {}" "client_interfaces (MarkDownAllInterfaces s4) = []"
    "ap_interfaces (MarkDownAllInterfaces s4) = []"
    by (simp_all add: same_objects_ok [OF same5] same_objects_names [OF same5])
  note s5 = this
  define s6 where "s6 = fold (\<lambda>it s. EraseBandWiphyIndexMap (snd it) (UnsubscribeRegDomainChange (snd it) s))
         (iface_to_wiphy_index_map (MarkDownAllInterfaces s4)) (MarkDownAllInterfaces s4)"
  have "owned s6 {} {} \<and> client_interfaces s6 = client_interfaces (MarkDownAllInterfaces s4) \<and>
      ap_interfaces s6 = ap_interfaces (MarkDownAllInterfaces s4)"
    unfolding s6_def by (rule drop_wiphys_owned) (rule s5(1))
  then show "client_interfaces s' = []" "ap_interfaces s' = []" "objects_ok s'"
    unfolding s' s6_def [symmetric]
    by (simp_all add: s5 objects_ok_def wiphy_tables_invisible) (simp add: named_def ordered_Nil s5)
  show "iface_to_wiphy_index_map s' = []" by (simp add: s')
qed

section \<open>Every step of the program\<close>

text \<open>
  Calls of the scanner, client and access point binders, and the queries of the server, keep the
  objects as handlers do.
\<close>

context server_relation
begin

lemma new_then_R:
  assumes "and_then (new_request command s) (\<lambda>(p, s1). f p s1) = Inr r"
    and "\<And>p s1. new_request command s = Inr (p, s1) \<Longrightarrow> f p s1 = Inr r \<Longrightarrow> R s1 s'"
  shows "R s s'"
  using assms by (elim and_then_InrE) (auto split: prod.splits intro: R_trans [OF new_request_R])

lemma Scan_R: "Scan run idx rm st rnr ssids freqs ies e s = Inr (ok, e', s') \<Longrightarrow> R s s'"
  unfolding Scan_def
  by (erule new_then_R) (auto elim!: and_then_InrE split: option.splits dest!: AckOrError_R)

lemma StartScheduledScan_R: "StartScheduledScan run idx g r2 r5 r6 f ssids ms freqs e s = Inr (ok, e', s') \<Longrightarrow> R s s'"
  unfolding StartScheduledScan_def
  by (erule new_then_R) (auto elim!: and_then_InrE split: option.splits dest!: AckOrError_R)

lemma StopScheduledScan_R: "StopScheduledScan run idx s = Inr (ok, s') \<Longrightarrow> R s s'"
  unfolding StopScheduledScan_def
  by (erule new_then_R) (auto elim!: and_then_InrE split: option.splits if_splits dest!: AckOrError_R)

lemma AbortScan_R: "AbortScan run idx s = Inr (ok, s') \<Longrightarrow> R s s'"
  unfolding AbortScan_def by (erule new_then_R) (auto dest!: Ack_R)

lemma count_nodev_R: "count_nodev i e s = Inr s' \<Longrightarrow> R s s'"
  by (auto simp: count_nodev_def R_refl elim!: and_then_InrE split: if_splits elim!: modify_scanner_R)

end

end
