(* ===== verification/Server_Dump.thy ===== *)
theory Server_Dump
  imports Server
begin

text \<open>
  The textual report of the state that \<open>dumpsys\<close> asks for: \<open>Server::dump\<close> of \<open>server.cpp\<close> and the
  \<open>Dump\<close> functions of the client interface and of the access point interface.
\<close>

section \<open>Output streams\<close>

text \<open>
  A string stream is the bytes written so far; \<open>endl\<close> is a newline. Integers are written in
  decimal, and booleans as 0 and 1.
\<close>

fun decimal :: "nat \<Rightarrow> bytes" where
  "decimal n = (if n < 10 then [of_nat (48 + n)] else decimal (n div 10) @ [of_nat (48 + n mod 10)])"

declare decimal.simps [simp del]

definition boolean :: "bool \<Rightarrow> bytes" where
  "boolean b = decimal (if b then 1 else 0)"

definition endl :: bytes where
  "endl = [10]"

definition line :: "string \<Rightarrow> bytes \<Rightarrow> bytes" where
  "line label text = ascii label @ text @ endl"

section \<open>The reports\<close>

definition Client_Dump :: "client_interface \<Rightarrow> bytes" where
  "Client_Dump c =
     (let caps = client_scan_capabilities c; features = client_wiphy_features c in
      ascii ''------- Dump of client interface with index: '' @ decimal (unat (client_interface_index c)) @
        ascii '' and name: '' @ client_interface_name c @ ascii ''-------'' @ endl @
      line ''Max number of ssids for single shot scan: '' (decimal (unat (max_num_scan_ssids caps))) @
      line ''Max number of ssids for scheduled scan: '' (decimal (unat (max_num_sched_scan_ssids caps))) @
      line ''Max number of match sets for scheduled scan: '' (decimal (unat (max_match_sets caps))) @
      line ''Maximum number of scan plans: '' (decimal (unat (max_num_scan_plans caps))) @
      line ''Max scan plan interval in seconds: '' (decimal (unat (max_scan_plan_interval caps))) @
      line ''Max scan plan iterations: '' (decimal (unat (max_scan_plan_iterations caps))) @
      line ''Device supports random MAC for single shot scan: ''
        (boolean (supports_random_mac_oneshot_scan features)) @
      line ''Device supports low span single shot scan: '' (boolean (supports_low_span_oneshot_scan features)) @
      line ''Device supports low power single shot scan: '' (boolean (supports_low_power_oneshot_scan features)) @
      line ''Device supports high accuracy single shot scan: ''
        (boolean (supports_high_accuracy_oneshot_scan features)) @
      line ''Device supports random MAC for scheduled scan: '' (boolean (supports_random_mac_sched_scan features)) @
      line ''Device supports sending management frames at specified MCS rate: ''
        (boolean (supports_tx_mgmt_frame_mcs features)) @
      line ''------- Dump End -------'' [])"

definition Ap_Dump :: "ap_interface \<Rightarrow> bytes" where
  "Ap_Dump a =
     ascii ''------- Dump of AP interface with index: '' @ decimal (unat (ap_interface_index a)) @
       ascii '' and name: '' @ ap_interface_name a @ ascii ''-------'' @ endl @
     line ''------- Dump End -------'' []"

text \<open>One line of the cached answer of the kernel.\<close>

definition dump_interface :: "interface_info \<Rightarrow> bytes" where
  "dump_interface iface =
     ascii ''Interface index: '' @ decimal (unat (info_if_index iface)) @
     ascii '', name: '' @ info_name iface @
     ascii '', wiphy index: '' @ decimal (unat (info_wiphy_index iface)) @
     ascii '', mac address: '' @ GetMacString (info_mac_address iface) @ endl"

definition dump_band :: "u32 \<times> u32 \<Rightarrow> bytes" where
  "dump_band it = ascii ''Channel type '' @ decimal (unat (fst it)) @ ascii '': '' @ decimal (unat (snd it)) @ endl"

text \<open>The loop over a table of interfaces.\<close>

primrec dump_table :: "(obj \<Rightarrow> bytes res) \<Rightarrow> (bytes \<times> obj) list \<Rightarrow> bytes res" where
  "dump_table Dump [] = Inr []"
| "dump_table Dump (it # its) =
     and_then (Dump (snd it)) (\<lambda>text. and_then (dump_table Dump its) (\<lambda>rest. Inr (text @ rest)))"

definition PERMISSION_DENIED :: int where
  "PERMISSION_DENIED = - 1"

definition FAILED_TRANSACTION :: int where
  "FAILED_TRANSACTION = - 2147483646"

text \<open>
  Two answers come from outside: whether the caller has the permission \<open>android.permission.DUMP\<close>,
  and whether \<open>WriteStringToFd\<close> can write to the descriptor. The result is the status, the text
  that was handed to \<open>WriteStringToFd\<close> and the state.
\<close>

definition dump ::
    "(hcall \<Rightarrow> 'a srv_scheme \<Rightarrow> 'a srv_scheme res) \<Rightarrow> bool \<Rightarrow> bool \<Rightarrow> 'a srv_scheme \<Rightarrow>
     ((int \<times> bytes option) \<times> 'a srv_scheme) res" where
  "dump run permitted write_ok s =
     (if \<not> permitted then Inr ((PERMISSION_DENIED, None), s)
      else
        let ss = line ''Cached interfaces list from kernel message: '' [] @
                 concat (map dump_interface (debug_interfaces s))
        in and_then (GetCountryCode run s) (\<lambda>(country_code, s1).
           let ss = ss @ (case country_code of
                            Some code \<Rightarrow> line ''Current country code from kernel: '' code
                          | None \<Rightarrow> line ''Failed to get country code from kernel.'' [])
           in and_then (dump_table (\<lambda>i. map_sum id Client_Dump (the_client i s1)) (client_interfaces s1)) (\<lambda>clients_text.
              and_then (dump_table (\<lambda>i. map_sum id Ap_Dump (the_ap i s1)) (ap_interfaces s1)) (\<lambda>aps_text.
                let ss = ss @ clients_text @ aps_text @
                         line ''Channel Type / Wiphy Index Mapping:'' [] @
                         concat (map dump_band (band_to_wiphy_index_map s1))
                in Inr ((if write_ok then 0 else FAILED_TRANSACTION, Some ss), s1)))))"

end
