(* ===== verification/Server_Steps.thy ===== *)
theory Server_Steps
  imports Object_Invariant Example_State Server_Dump
begin

text \<open>
  The program as a state machine. A request is a call of another process through one of the
  binder objects (the AIDL interfaces of the server, the scanner, the client and the access
  point interface), or a datagram on the socket that the event loop watches. All of them are
  handled by the one thread of the event loop, so a run of the program is a sequence of
  requests; between two of them the kernel decides what it will answer and the clock moves.
\<close>

section \<open>Requests keep the objects\<close>

context server_relation
begin

lemma getScanResults_R: "getScanResults run i out s = Inr (out', s') \<Longrightarrow> R s s'"
  by (auto simp: getScanResults_def R_refl elim!: and_then_InrE split: if_splits dest!: GetScanResult_R)

lemma getPnoScanResults_R: "getPnoScanResults run i out s = Inr (out', s') \<Longrightarrow> R s s'"
  by (auto simp: getPnoScanResults_def R_refl elim!: and_then_InrE split: if_splits dest!: GetScanResult_R)

lemma scanRequest_R: "scanRequest run i settings s = Inr (status, s') \<Longrightarrow> R s s'"
  by (auto simp: scanRequest_def Let_def R_refl elim!: and_then_InrE split: if_splits
      dest!: Scan_R count_nodev_R modify_scanner_R) (blast intro: R_trans)+

lemma scanner_scan_R: "scanner_scan run i settings s = Inr (ok, s') \<Longrightarrow> R s s'"
  by (auto simp: scanner_scan_def elim!: and_then_InrE dest!: scanRequest_R)

lemma abortScan_R: "abortScan run i s = Inr s' \<Longrightarrow> R s s'"
  by (auto simp: abortScan_def R_refl elim!: and_then_InrE split: if_splits dest!: AbortScan_R)

lemma StartPnoScanDefault_R: "StartPnoScanDefault run i settings s = Inr (ok, s') \<Longrightarrow> R s s'"
  by (auto simp: StartPnoScanDefault_def Let_def R_refl elim!: and_then_InrE split: if_splits prod.splits
      dest!: StartScheduledScan_R count_nodev_R modify_scanner_R) (blast intro: R_trans)+

lemma startPnoScan_R: "startPnoScan run i settings s = Inr (ok, s') \<Longrightarrow> R s s'"
  by (auto simp: startPnoScan_def elim!: and_then_InrE dest!: modify_scanner_R StartPnoScanDefault_R)
    (blast intro: R_trans)

lemma stopPnoScan_R: "stopPnoScan run i s = Inr (ok, s') \<Longrightarrow> R s s'"
  by (auto simp: stopPnoScan_def StopPnoScanDefault_def R_refl elim!: and_then_InrE split: if_splits
      dest!: StopScheduledScan_R modify_scanner_R) (blast intro: R_trans)

lemma subscriptions_R:
  "subscribeScanEvents i h s = Inr s' \<Longrightarrow> R s s'"
  "unsubscribeScanEvents i s = Inr s' \<Longrightarrow> R s s'"
  "subscribePnoScanEvents i h s = Inr s' \<Longrightarrow> R s s'"
  "unsubscribePnoScanEvents i s = Inr s' \<Longrightarrow> R s s'"
  by (auto simp: subscribeScanEvents_def unsubscribeScanEvents_def subscribePnoScanEvents_def
      unsubscribePnoScanEvents_def R_refl elim!: and_then_InrE split: if_splits dest!: modify_scanner_R)

lemma getPacketCounters_R: "getPacketCounters run b out s = Inr (out', s') \<Longrightarrow> R s s'"
  by (auto simp: getPacketCounters_def GetPacketCounters_def R_refl elim!: and_then_InrE
      split: option.splits dest!: GetStationInfo_R)

lemma signalPoll_R: "signalPoll run b out s = Inr (out', s') \<Longrightarrow> R s s'"
  by (auto simp: signalPoll_def SignalPoll_def R_refl elim!: and_then_InrE
      split: option.splits if_splits dest!: GetStationInfo_R)

lemma NetlinkUtils_SendMgmtFrame_R: "NetlinkUtils_SendMgmtFrame run idx frame mcs s = Inr (r, s') \<Longrightarrow> R s s'"
  unfolding NetlinkUtils_SendMgmtFrame_def
  by (erule new_then_R) (auto simp: Let_def elim!: and_then_InrE split: option.splits dest!: SingleResponse_R)

lemma ClientBinder_SendMgmtFrame_R: "ClientBinder_SendMgmtFrame run b frame cb mcs s = Inr s' \<Longrightarrow> R s s'"
  by (auto simp: ClientBinder_SendMgmtFrame_def Client_SendMgmtFrame_def remote_R elim!: and_then_InrE
      split: option.splits if_splits dest!: NetlinkUtils_SendMgmtFrame_R modify_client_R)
    (blast intro: R_trans remote_R)+

lemma available_channels_R: "available_channels band sel run s = Inr (r, s') \<Longrightarrow> R s s'"
  by (auto simp: available_channels_def elim!: and_then_InrE split: option.splits dest!: GetBandInfo_R)

lemma getDeviceWiphyCapabilities_R: "getDeviceWiphyCapabilities run name out s = Inr (r, s') \<Longrightarrow> R s s'"
  by (auto simp: getDeviceWiphyCapabilities_def Let_def R_refl elim!: and_then_InrE split: if_splits
      dest!: GetWiphyInfo_R)

lemma dump_R: "dump run permitted write_ok s = Inr (r, s') \<Longrightarrow> R s s'"
  by (auto simp: dump_def Let_def R_refl elim!: and_then_InrE split: if_splits dest!: GetCountryCode_R)

lemma notifyCountryCodeChanged_R: "notifyCountryCodeChanged run s = Inr s' \<Longrightarrow> R s s'"
  by (simp add: notifyCountryCodeChanged_def handleCountryCodeChanged_R)

end

text \<open>While the objects are in order, every interface of the tables is there to be reported.\<close>

lemma dump_table_runs:
  "\<forall>p \<in> set its. Dump (snd p) = Inr (f (snd p)) \<Longrightarrow> dump_table Dump its = Inr (concat (map (\<lambda>p. f (snd p)) its))"
  by (induction its) simp_all

lemma dump_runs:
  assumes "objects_ok (s :: 'a srv_scheme)" "GetCountryCode (dispatch n) s = Inr (code, s1)"
  shows "dump (dispatch n) True write_ok s =
    Inr ((if write_ok then 0 else FAILED_TRANSACTION,
      Some ((line ''Cached interfaces list from kernel message: '' [] @ concat (map dump_interface (debug_interfaces s))) @
        (case code of Some c \<Rightarrow> line ''Current country code from kernel: '' c
         | None \<Rightarrow> line ''Failed to get country code from kernel.'' []) @
        concat (map (\<lambda>p. Client_Dump (the (map_find (clients s1) (snd p)))) (client_interfaces s)) @
        concat (map (\<lambda>p. Ap_Dump (the (map_find (aps s1) (snd p)))) (ap_interfaces s)) @
        line ''Channel Type / Wiphy Index Mapping:'' [] @ concat (map dump_band (band_to_wiphy_index_map s1)))), s1)"
proof -
  have same: "same_objects s s1" using assms(2) by (rule objects.GetCountryCode_R)
  have names: "client_interfaces s1 = client_interfaces s" "ap_interfaces s1 = ap_interfaces s"
    using same_objects_names [OF same] by simp_all
  have "owned s1 (snd ` set (client_interfaces s)) (snd ` set (ap_interfaces s))"
    using same_objects_ok(3) [OF same] assms(1) names by (simp add: objects_ok_def)
  note o = ownedD(1,2) [OF this]
  have "dump_table (\<lambda>i. map_sum id Client_Dump (the_client i s1)) (client_interfaces s) =
      Inr (concat (map (\<lambda>p. Client_Dump (the (map_find (clients s1) (snd p)))) (client_interfaces s)))"
  proof (rule dump_table_runs, rule ballI)
    fix p assume "p \<in> set (client_interfaces s)"
    then have "snd p \<in> dom (live_client s1)" using o(1) by simp
    then show "map_sum id Client_Dump (the_client (snd p) s1) = Inr (Client_Dump (the (map_find (clients s1) (snd p))))"
      by (auto simp: the_client_def live_client_def)
  qed
  moreover have "dump_table (\<lambda>i. map_sum id Ap_Dump (the_ap i s1)) (ap_interfaces s) =
      Inr (concat (map (\<lambda>p. Ap_Dump (the (map_find (aps s1) (snd p)))) (ap_interfaces s)))"
  proof (rule dump_table_runs, rule ballI)
    fix p assume "p \<in> set (ap_interfaces s)"
    then have "snd p \<in> dom (live_ap s1)" using o(2) by simp
    then show "map_sum id Ap_Dump (the_ap (snd p) s1) = Inr (Ap_Dump (the (map_find (aps s1) (snd p))))"
      by (auto simp: the_ap_def live_ap_def)
  qed
  ultimately show ?thesis
    using assms(2) by (simp add: dump_def Let_def names)
qed

section \<open>Start\<close>

context handler_relation
begin

lemma add_groups_R: "add_groups name gs s = Inr s' \<Longrightarrow> R s s'"
  by (induction gs arbitrary: s)
    (auto simp: R_refl elim!: and_then_InrE split: option.splits prod.splits
      dest!: message_type_entry_R, (blast intro: R_trans types_R)+)

lemma OnNewFamily_R: "OnNewFamily p s = Inr s' \<Longrightarrow> R s s'"
  by (auto simp: OnNewFamily_def Let_def R_refl types_R elim!: and_then_InrE split: option.splits if_splits
      dest!: add_groups_R) (blast intro: R_trans types_R)

lemma DiscoverFamilyId_R: "DiscoverFamilyId run s = Inr (ok, s') \<Longrightarrow> R s s'"
  by (auto simp: DiscoverFamilyId_def R_refl elim!: and_then_InrE split: option.splits prod.splits
      dest!: GetSequenceNumber_R SingleResponse_R OnNewFamily_R) (blast intro: R_trans)+

lemma SubscribeToEvents_R: "SubscribeToEvents member_ok g s = (ok, s') \<Longrightarrow> R s s'"
  by (auto simp: SubscribeToEvents_def split: option.splits prod.splits dest!: message_type_entry_R)

lemma GetProtocolFeatures_R: "GetProtocolFeatures run s = Inr (r, s') \<Longrightarrow>
    (\<And>c p s1. new_request c s = Inr (p, s1) \<Longrightarrow> R s s1) \<Longrightarrow> R s s'"
  by (auto simp: GetProtocolFeatures_def elim!: and_then_InrE split: option.splits
      dest!: SingleResponse_R) (blast intro: R_trans)+

end

lemma socket_fields_same:
  "same_objects s (s\<lparr>sync_netlink_fd := fd, sync_netlink_destination := d\<rparr>)"
  "same_objects s (s\<lparr>async_netlink_fd := fd, async_netlink_destination := d\<rparr>)"
  "same_objects s (s\<lparr>watched_fds := fds\<rparr>)" "same_objects s (s\<lparr>is_started := b\<rparr>)"
  "same_objects s (s\<lparr>supports_split_wiphy_dump := b\<rparr>)"
  by (simp_all add: same_objects_def)

lemma WatchSocket_same: "WatchSocket watch_ok fd s = (ok, s') \<Longrightarrow> same_objects s s'"
  by (auto simp: WatchSocket_def same_objects_refl socket_fields_same split: if_splits)

lemma Start_same:
  assumes "Start (dispatch n) sync_env async_env watch_ok member_ok s = Inr (ok, s')"
  shows "same_objects s s'"
  using assms
  by (auto simp: Start_def Let_def same_objects_refl elim!: and_then_InrE split: if_splits prod.splits
      dest!: objects.DiscoverFamilyId_R objects.SubscribeToEvents_R WatchSocket_same)
    (simp_all add: same_objects_def)

lemma NetlinkUtils_same:
  "NetlinkUtils (dispatch n) sync_env async_env watch_ok member_ok s = Inr s' \<Longrightarrow> same_objects s s'"
  by (auto simp: NetlinkUtils_def same_objects_refl elim!: and_then_InrE split: if_splits
      dest!: objects.GetProtocolFeatures_R [OF _ objects.new_request_R] Start_same)
    (blast intro: same_objects_trans socket_fields_same)+

lemma ScanUtils_same:
  "ScanUtils (dispatch n) sync_env async_env watch_ok member_ok s = Inr s' \<Longrightarrow> same_objects s s'"
  by (auto simp: ScanUtils_def same_objects_refl elim!: and_then_InrE split: if_splits dest!: Start_same)

section \<open>Requests\<close>

text \<open>
  One constructor per method of the AIDL interfaces, one for a datagram and one for \<open>dump\<close> (with
  what the system answers meanwhile). The first argument of a method of a scanner, a client or an
  access point interface is the object it is called on.
\<close>

datatype request =
    Socket_Ready read_result
  | Do_createClientInterface bytes
  | Do_createApInterface bytes
  | Do_tearDownClientInterface bytes
  | Do_tearDownApInterface bytes
  | Do_tearDownInterfaces
  | Do_RegisterCallback callback
  | Do_UnregisterCallback callback
  | Do_registerWificondEventCallback callback
  | Do_unregisterWificondEventCallback callback
  | Do_getAvailable2gChannels
  | Do_getAvailable5gNonDFSChannels
  | Do_getAvailableDFSChannels
  | Do_getAvailable6gChannels
  | Do_getAvailable60gChannels
  | Do_getDeviceWiphyCapabilities bytes
  | Do_notifyCountryCodeChanged
  | Do_getScanResults obj
  | Do_getPnoScanResults obj
  | Do_getMaxSsidsPerScan obj
  | Do_scan obj single_scan_settings
  | Do_scanRequest obj single_scan_settings
  | Do_abortScan obj
  | Do_startPnoScan obj pno_settings
  | Do_stopPnoScan obj
  | Do_subscribeScanEvents obj callback
  | Do_unsubscribeScanEvents obj
  | Do_subscribePnoScanEvents obj callback
  | Do_unsubscribePnoScanEvents obj
  | Do_getPacketCounters obj
  | Do_signalPoll obj
  | Do_getMacAddress obj
  | Do_getInterfaceName obj
  | Do_getWifiScannerImpl obj
  | Do_SendMgmtFrame obj bytes callback int
  | Do_registerCallback obj "callback option"
  | Do_Ap_getInterfaceName obj
  | Do_dump bool bool

text \<open>
  What handling a request does to the state; the answer is dropped. Handlers may nest \<open>n\<close> deep.
\<close>

definition ending :: "('r \<times> 's) res \<Rightarrow> 's res" where
  "ending m = and_then m (\<lambda>(_, s). Inr s)"

definition query :: "'r res \<Rightarrow> 's \<Rightarrow> 's res" where
  "query m s = and_then m (\<lambda>_. Inr s)"

lemma ending_InrE: "ending m = Inr s \<Longrightarrow> (\<And>r. m = Inr (r, s) \<Longrightarrow> P) \<Longrightarrow> P"
  by (auto simp: ending_def elim!: and_then_InrE)

lemma query_InrE: "query m s = Inr s' \<Longrightarrow> (\<And>r. m = Inr r \<Longrightarrow> s' = s \<Longrightarrow> P) \<Longrightarrow> P"
  by (auto simp: query_def elim!: and_then_InrE)

primrec perform :: "nat \<Rightarrow> request \<Rightarrow> 'a srv_scheme \<Rightarrow> 'a srv_scheme res" where
  "perform n (Socket_Ready r) s = ReceivePacketAndRunHandler (dispatch n) r s"
| "perform n (Do_createClientInterface name) s = ending (createClientInterface (dispatch n) name s)"
| "perform n (Do_createApInterface name) s = ending (createApInterface (dispatch n) name s)"
| "perform n (Do_tearDownClientInterface name) s = ending (tearDownClientInterface name s)"
| "perform n (Do_tearDownApInterface name) s = ending (tearDownApInterface name s)"
| "perform n Do_tearDownInterfaces s = tearDownInterfaces s"
| "perform n (Do_RegisterCallback cb) s = Inr (RegisterCallback cb s)"
| "perform n (Do_UnregisterCallback cb) s = Inr (UnregisterCallback cb s)"
| "perform n (Do_registerWificondEventCallback cb) s = Inr (registerWificondEventCallback cb s)"
| "perform n (Do_unregisterWificondEventCallback cb) s = Inr (unregisterWificondEventCallback cb s)"
| "perform n Do_getAvailable2gChannels s = ending (getAvailable2gChannels (dispatch n) s)"
| "perform n Do_getAvailable5gNonDFSChannels s = ending (getAvailable5gNonDFSChannels (dispatch n) s)"
| "perform n Do_getAvailableDFSChannels s = ending (getAvailableDFSChannels (dispatch n) s)"
| "perform n Do_getAvailable6gChannels s = ending (getAvailable6gChannels (dispatch n) s)"
| "perform n Do_getAvailable60gChannels s = ending (getAvailable60gChannels (dispatch n) s)"
| "perform n (Do_getDeviceWiphyCapabilities name) s = ending (getDeviceWiphyCapabilities (dispatch n) name None s)"
| "perform n Do_notifyCountryCodeChanged s = notifyCountryCodeChanged (dispatch n) s"
| "perform n (Do_getScanResults i) s = ending (getScanResults (dispatch n) i [] s)"
| "perform n (Do_getPnoScanResults i) s = ending (getPnoScanResults (dispatch n) i [] s)"
| "perform n (Do_getMaxSsidsPerScan i) s = query (getMaxSsidsPerScan i s) s"
| "perform n (Do_scan i settings) s = ending (scanner_scan (dispatch n) i settings s)"
| "perform n (Do_scanRequest i settings) s = ending (scanRequest (dispatch n) i settings s)"
| "perform n (Do_abortScan i) s = abortScan (dispatch n) i s"
| "perform n (Do_startPnoScan i pno) s = ending (startPnoScan (dispatch n) i pno s)"
| "perform n (Do_stopPnoScan i) s = ending (stopPnoScan (dispatch n) i s)"
| "perform n (Do_subscribeScanEvents i cb) s = subscribeScanEvents i cb s"
| "perform n (Do_unsubscribeScanEvents i) s = unsubscribeScanEvents i s"
| "perform n (Do_subscribePnoScanEvents i cb) s = subscribePnoScanEvents i cb s"
| "perform n (Do_unsubscribePnoScanEvents i) s = unsubscribePnoScanEvents i s"
| "perform n (Do_getPacketCounters b) s = ending (getPacketCounters (dispatch n) b [] s)"
| "perform n (Do_signalPoll b) s = ending (signalPoll (dispatch n) b [] s)"
| "perform n (Do_getMacAddress b) s = query (getMacAddress b [] s) s"
| "perform n (Do_getInterfaceName b) s = query (getInterfaceName b [] s) s"
| "perform n (Do_getWifiScannerImpl b) s = query (getWifiScannerImpl b s) s"
| "perform n (Do_SendMgmtFrame b frame cb mcs) s = ClientBinder_SendMgmtFrame (dispatch n) b frame cb mcs s"
| "perform n (Do_registerCallback b cb) s = ending (registerCallback b cb s)"
| "perform n (Do_Ap_getInterfaceName b) s = query (Ap_getInterfaceName b s) s"
| "perform n (Do_dump permitted write_ok) s = ending (dump (dispatch n) permitted write_ok s)"

lemma callbacks_ok:
  "objects_ok (s\<lparr>interface_event_callbacks := cbs\<rparr>) = objects_ok s"
  "objects_ok (s\<lparr>wificond_event_callbacks := cbs\<rparr>) = objects_ok s"
  by (simp_all add: objects_defs live_client_def [abs_def] live_ap_def [abs_def] live_scanner_def [abs_def])

lemma registerCallback_ok:
  assumes "registerCallback b cb s = Inr (r, s')" "objects_ok s"
  shows "objects_ok s'"
proof -
  obtain x where x: "map_find (ap_binders s) b = Some x" "s' = s\<lparr>ap_binders := map_set b (x\<lparr>ap_event_callback := cb\<rparr>) (ap_binders s)\<rparr>"
    using assms(1) by (auto simp: registerCallback_def the_ap_binder_def split: option.splits)
  have lives: "live_client s' = live_client s" "live_ap s' = live_ap s" "live_scanner s' = live_scanner s"
    by (simp_all add: x live_client_def [abs_def] live_ap_def [abs_def] live_scanner_def [abs_def])
  show ?thesis
    using assms(2) x(1) unfolding objects_defs lives by (auto simp: x(2))
qed

lemmas stateful_R = objects.getScanResults_R objects.getPnoScanResults_R objects.scanRequest_R objects.scanner_scan_R
  objects.abortScan_R objects.startPnoScan_R objects.stopPnoScan_R objects.subscriptions_R
  objects.getPacketCounters_R objects.signalPoll_R objects.ClientBinder_SendMgmtFrame_R
  objects.available_channels_R objects.getDeviceWiphyCapabilities_R objects.notifyCountryCodeChanged_R
  objects.ReceivePacketAndRunHandler_R objects.dump_R

lemmas channel_queries = getAvailable2gChannels_def getAvailable5gNonDFSChannels_def getAvailableDFSChannels_def
  getAvailable6gChannels_def getAvailable60gChannels_def

lemmas callback_defs = RegisterCallback_def UnregisterCallback_def registerWificondEventCallback_def
  unregisterWificondEventCallback_def

lemma perform_objects_ok: "perform n r s = Inr s' \<Longrightarrow> objects_ok s \<Longrightarrow> objects_ok s'"
  by (cases r) (auto simp: channel_queries callback_defs callbacks_ok same_objects_ok
      elim!: ending_InrE query_InrE
      intro: createClientInterface_ok createApInterface_ok tearDownClientInterface_ok tearDownApInterface_ok
        tearDownInterfaces_ok registerCallback_ok
      dest!: stateful_R split: if_splits)

section \<open>Reachable states\<close>

text \<open>
  \<open>main\<close>: the netlink manager is started, and \<open>NetlinkUtils\<close> and then \<open>ScanUtils\<close> try again
  while that failed; the failure of \<open>Start\<close> is only logged. The server has nothing to do then.
\<close>

type_synonym start_env = "socket_env \<times> socket_env \<times> bool \<times> (u32 \<Rightarrow> bool)"

definition start_service ::
    "(hcall \<Rightarrow> 'a nlu_scheme \<Rightarrow> 'a nlu_scheme res) \<Rightarrow> start_env \<Rightarrow> start_env \<Rightarrow> start_env \<Rightarrow>
     'a nlu_scheme \<Rightarrow> 'a nlu_scheme res" where
  "start_service run env env2 env3 s =
     and_then (case env of (sync_env, async_env, watch_ok, member_ok) \<Rightarrow> Start run sync_env async_env watch_ok member_ok s)
       (\<lambda>(_, s1).
     and_then (case env2 of (sync_env, async_env, watch_ok, member_ok) \<Rightarrow>
          NetlinkUtils run sync_env async_env watch_ok member_ok s1) (\<lambda>s2.
       case env3 of (sync_env, async_env, watch_ok, member_ok) \<Rightarrow>
          ScanUtils run sync_env async_env watch_ok member_ok s2))"

text \<open>The environment between two requests: the kernel's answers, the clock and the contents of fresh memory.\<close>

definition environment ::
    "exchange list \<Rightarrow> int \<Rightarrow> (bytes \<Rightarrow> u32) \<Rightarrow> native_scan_result \<Rightarrow> client_interface \<Rightarrow> wiphy_info \<Rightarrow>
     'a ifs_scheme \<Rightarrow> 'a ifs_scheme" where
  "environment es t names scan_mem client_mem info_mem s =
     s\<lparr>net_script := es, now_ns := t, name_to_index := names, fresh_scan_result := scan_mem,
       fresh_client := client_mem, fresh_info := info_mem\<rparr>"

inductive reachable :: "nat \<Rightarrow> srv \<Rightarrow> bool" for n where
  reachable_start: "start_service (dispatch n) env env2 env3
      (Server (NetlinkManager script interceptor pid) names scan_mem client_mem info_mem) = Inr s \<Longrightarrow> reachable n s"
| reachable_request: "reachable n s \<Longrightarrow> perform n r s = Inr s' \<Longrightarrow> reachable n s'"
| reachable_environment: "reachable n s \<Longrightarrow>
    reachable n (environment es t names scan_mem client_mem info_mem s)"

lemma start_service_same: "start_service (dispatch n) env env2 env3 s = Inr s' \<Longrightarrow> same_objects s s'"
  by (auto simp: start_service_def elim!: and_then_InrE split: prod.splits dest!: Start_same NetlinkUtils_same ScanUtils_same)
    (blast intro: same_objects_trans)

lemma environment_same: "same_objects s (environment es t names scan_mem client_mem info_mem s)"
  by (simp add: same_objects_def environment_def)

lemma reachable_ok: "reachable n s \<Longrightarrow> objects_ok s"
  by (induction rule: reachable.induct)
    (auto simp: same_objects_ok [OF start_service_same] objects_ok_Server same_objects_ok [OF environment_same]
      intro: perform_objects_ok)

lemma running_server_ok: "objects_ok (running_server es)"
proof -
  have dom_if: "dom (\<lambda>i. if i = a then Some x else None) = {a}" for a :: obj and x :: u32
    by (auto split: if_splits)
  have lives: "live_client (running_server es) = (\<lambda>i. if i = 1 then Some 5 else None)"
    "live_ap (running_server es) = (\<lambda>i. if i = 2 then Some 6 else None)"
    "live_scanner (running_server es) = (\<lambda>i. if i = 1 then Some 5 else None)"
    by (auto simp: running_server_def live_client_def live_ap_def live_scanner_def scanner_frame_def client_1_def scanner_1_def)
  have "handlers_ok (running_server es)"
    unfolding handlers_ok_def keyed_def lives by (simp add: running_server_def)
  moreover have "proxies_ok (running_server es)"
    unfolding proxies_ok_def lives by (simp add: running_server_def)
  moreover have "named (running_server es)"
    by (simp add: named_def running_server_def ordered_def)
  ultimately show ?thesis
    unfolding objects_ok_def owned_def lives dom_if by (simp add: running_server_def)
qed

section \<open>Properties\<close>

text \<open>
  C6. Every request, whatever the kernel answers and whatever notifications arrive meanwhile,
  keeps the invariant of the objects: the live interface objects are exactly those stored under
  a name, each name has its own, binder objects and scanners know whether their implementation
  lives, and every registered handler belongs to a live object of its interface index.
\<close>

theorem requests_keep_objects:
  assumes "perform n r (s :: 'a srv_scheme) = Inr s'" "objects_ok s"
  shows "objects_ok s'"
  using assms by (rule perform_objects_ok)

theorem requests_keep_objects_witness:
  "\<exists>s'. perform 3 (Do_tearDownClientInterface [119]) (running_server []) = Inr s' \<and> objects_ok s' \<and>
     client_interfaces s' = [] \<and> on_mlme_event_handler s' = []"
proof -
  have "\<exists>s'. perform 3 (Do_tearDownClientInterface [119]) (running_server []) = Inr s' \<and>
      client_interfaces s' = [] \<and> on_mlme_event_handler s' = []"
    by (simp add: ending_def tearDownClientInterface_def running_server_def delete_client_defs
        BroadcastClientInterfaceTornDown_def forget_wiphy_def map_erase_def client_1_def scanner_1_def
        hasNoIfaceForWiphyIndex_def blank_client_def c_str_def)
  with requests_keep_objects [OF _ running_server_ok] show ?thesis by blast
qed

text \<open>
  Handling a datagram, with all the handlers it runs and the requests they send, neither
  creates nor destroys an object and changes no registration of a handler or callback.
\<close>

theorem notifications_keep_objects:
  assumes "perform n (Socket_Ready r) (s :: 'a srv_scheme) = Inr s'"
  shows "same_objects s s' \<and> (\<forall>i. live_client s' i = live_client s i \<and> live_scanner s' i = live_scanner s i) \<and>
    aps s' = aps s \<and> next_obj s' = next_obj s"
proof -
  have "same_objects s s'" using assms by (auto dest: objects.ReceivePacketAndRunHandler_R)
  from same_objects_live [OF this] this show ?thesis by (simp add: same_objects_def)
qed

theorem notifications_keep_objects_witness:
  "\<exists>s'. perform 3 (Socket_Ready (ReadBytes [1, 2, 3])) (running_server []) = Inr s' \<and> same_objects (running_server []) s'"
proof -
  have "\<exists>s'. perform 3 (Socket_Ready (ReadBytes [1, 2, 3])) (running_server []) = Inr s'"
    by (simp add: ReceivePacketAndRunHandler_def Let_def) (subst receive_loop.simps, simp)
  with notifications_keep_objects show ?thesis by blast
qed

end
