(* ===== verification/Wiphy_Properties.thy ===== *)
theory Wiphy_Properties
  imports Wiphy_Info Wire_Properties
begin

text \<open>
  The properties of the parsers of wiphy replies: spatial streams, extended features, the
  sorting of frequencies into bands, bounds that hold for arbitrary packets, and the
  reassembly of a split dump.
\<close>

section \<open>Streams\<close>

lemma mcs_map_loop_spec:
  "1 \<le> mcs_map_loop n m \<and> mcs_map_loop n m \<le> max 1 n \<and>
   (\<forall>i. mcs_map_loop n m < i \<and> i \<le> n \<longrightarrow> drop_bit ((i - 1) * 2) m AND 3 = 3) \<and>
   (1 < mcs_map_loop n m \<longrightarrow> drop_bit ((mcs_map_loop n m - 1) * 2) m AND 3 \<noteq> 3)"
proof (induction n)
  case (Suc n)
  show ?case
  proof (cases "drop_bit (n * 2) m AND 3 = 3")
    case True
    then have loop: "mcs_map_loop (Suc n) m = mcs_map_loop n m" by simp
    have "drop_bit ((i - 1) * 2) m AND 3 = 3" if "mcs_map_loop n m < i" "i \<le> Suc n" for i
      using Suc.IH True that by (cases "i = Suc n") auto
    with Suc.IH show ?thesis unfolding loop by auto
  next
    case False
    then show ?thesis by auto
  qed
qed simp

lemma ht_stream_loop_bounds: "1 \<le> ht_stream_loop n s \<and> ht_stream_loop n s \<le> max 1 n"
  by (induction n) auto

lemma unat_and_3: "unat (x AND 3 :: u8) \<le> 3"
  using word_and_le1 [of x 3] by (simp add: word_le_nat_alt)

lemma ParseHtMcsSet_bounds:
  "1 \<le> fst (ParseHtMcsSet s)" "fst (ParseHtMcsSet s) \<le> 4" "1 \<le> snd (ParseHtMcsSet s)" "snd (ParseHtMcsSet s) \<le> 4"
  using ht_stream_loop_bounds [of 4 s] unat_and_3 [of "drop_bit 2 (s ! 12)"]
  by (simp_all add: ParseHtMcsSet_def Let_def)

lemma ParseMcsMap_bounds: "1 \<le> ParseMcsMap m" "ParseMcsMap m \<le> 8"
  using mcs_map_loop_spec [of 8 m] by (simp_all add: ParseMcsMap_def)

section \<open>An invariant of band information\<close>

text \<open>
  \<open>band_ok\<close>: the stream counts are between 1 and 8 and every list holds only frequencies of
  its band. The parsers keep it whatever the packet contains.
\<close>

definition band_ok :: "band_info \<Rightarrow> bool" where
  "band_ok b \<longleftrightarrow>
     1 \<le> max_tx_streams b \<and> max_tx_streams b \<le> 8 \<and> 1 \<le> max_rx_streams b \<and> max_rx_streams b \<le> 8 \<and>
     (\<forall>f \<in> set (band_2g b). 2400 < f \<and> f < 2500) \<and>
     (\<forall>f \<in> set (band_5g b). 5000 < f \<and> f \<le> 5885) \<and>
     (\<forall>f \<in> set (band_dfs b). 5000 < f \<and> f \<le> 5885) \<and>
     (\<forall>f \<in> set (band_6g b). 5925 < f \<and> f < 7125) \<and>
     (\<forall>f \<in> set (band_60g b). 58320 \<le> f \<and> f < 70200)"

named_theorems band_parsers

lemma band_ok_BandInfo: "band_ok BandInfo"
  by (simp add: band_ok_def BandInfo_def)

lemma band_ok_flags [simp]:
  "band_ok (b\<lparr>is_80211n_supported := x\<rparr>) = band_ok b" "band_ok (b\<lparr>is_80211ac_supported := x\<rparr>) = band_ok b"
  "band_ok (b\<lparr>is_80211ax_supported := x\<rparr>) = band_ok b" "band_ok (b\<lparr>is_80211be_supported := x\<rparr>) = band_ok b"
  "band_ok (b\<lparr>is_160_mhz_supported := x\<rparr>) = band_ok b" "band_ok (b\<lparr>is_80p80_mhz_supported := x\<rparr>) = band_ok b"
  "band_ok (b\<lparr>is_320_mhz_supported := x\<rparr>) = band_ok b"
  by (simp_all add: band_ok_def)

lemma band_ok_raise:
  "band_ok b \<Longrightarrow> tx \<le> 8 \<Longrightarrow> rx \<le> 8 \<Longrightarrow> band_ok (raise_streams tx rx b)"
  by (auto simp: band_ok_def raise_streams_def)

lemma band_ok_add:
  "band_ok b \<Longrightarrow> 2400 < f \<Longrightarrow> f < 2500 \<Longrightarrow> band_ok (b\<lparr>band_2g := band_2g b @ [f]\<rparr>)"
  "band_ok b \<Longrightarrow> 5000 < f \<Longrightarrow> f \<le> 5885 \<Longrightarrow> band_ok (b\<lparr>band_5g := band_5g b @ [f]\<rparr>)"
  "band_ok b \<Longrightarrow> 5000 < f \<Longrightarrow> f \<le> 5885 \<Longrightarrow> band_ok (b\<lparr>band_dfs := band_dfs b @ [f]\<rparr>)"
  "band_ok b \<Longrightarrow> 5925 < f \<Longrightarrow> f < 7125 \<Longrightarrow> band_ok (b\<lparr>band_6g := band_6g b @ [f]\<rparr>)"
  "band_ok b \<Longrightarrow> 58320 \<le> f \<Longrightarrow> f < 70200 \<Longrightarrow> band_ok (b\<lparr>band_60g := band_60g b @ [f]\<rparr>)"
  by (auto simp: band_ok_def)

text \<open>A frequency as the kernel describes it, and the list it goes to.\<close>

record channel =
  channel_freq :: u32
  channel_disabled :: bool
  channel_dfs_state :: "u32 option"
  channel_no_ir :: bool

definition sort_channel :: "channel \<Rightarrow> band_info \<Rightarrow> band_info" where
  "sort_channel c b =
     (let f = channel_freq c in
      if channel_disabled c then b
      else if 2400 < f \<and> f < 2500 then b\<lparr>band_2g := band_2g b @ [f]\<rparr>
      else if 5000 < f \<and> f \<le> 5885 then
        (if channel_dfs_state c = Some 0 \<or> channel_dfs_state c = Some 2 \<or> channel_no_ir c
         then b\<lparr>band_dfs := band_dfs b @ [f]\<rparr> else b\<lparr>band_5g := band_5g b @ [f]\<rparr>)
      else if 5925 < f \<and> f < 7125 then b\<lparr>band_6g := band_6g b @ [f]\<rparr>
      else if 58320 \<le> f \<and> f < 70200 then b\<lparr>band_60g := band_60g b @ [f]\<rparr>
      else b)"

lemma band_ok_sort_channel: "band_ok b \<Longrightarrow> band_ok (sort_channel c b)"
  by (simp add: sort_channel_def Let_def band_ok_add)

text \<open>What \<open>handle_freq\<close> does is sorting the channel that the attributes describe.\<close>

lemma handle_freq_sort:
  assumes "GetAttributeValue word_class freq 1 = Inr (Some (channel_freq c))"
    and "HasAttribute freq 2 = Inr (channel_disabled c)"
    and "GetAttributeValue word_class freq 7 = Inr (channel_dfs_state c)"
    and "HasAttribute freq 3 = Inr (channel_no_ir c)"
  shows "handle_freq freq b = Inr (sort_channel c b)"
proof -
  have "unat d = 0 \<longleftrightarrow> d = 0" "unat d = 2 \<longleftrightarrow> d = 2" for d :: u32
    by (auto simp: word_unat_eq_iff)
  with assms show ?thesis
    by (simp add: handle_freq_def sort_channel_def Let_def split: option.split)
qed

lemma handle_freq_ok [band_parsers]: "handle_freq freq b = Inr b' \<Longrightarrow> band_ok b \<Longrightarrow> band_ok b'"
  by (auto simp: handle_freq_def elim!: if_value_InrE and_then_InrE split: if_splits intro!: band_ok_add)

lemma handle_freqs_ok: "handle_freqs freqs b = Inr b' \<Longrightarrow> band_ok b \<Longrightarrow> band_ok b'"
  by (induction freqs arbitrary: b) (auto elim!: and_then_InrE dest: handle_freq_ok)

lemma handleBandFreqAttributes_ok [band_parsers]:
  "handleBandFreqAttributes a b = Inr b' \<Longrightarrow> band_ok b \<Longrightarrow> band_ok b'"
  by (auto simp: handleBandFreqAttributes_def split: option.splits dest: handle_freqs_ok)

lemma mcs_parsers_ok [band_parsers]:
  "ParseHtMcsSetAttribute a b = Inr b' \<Longrightarrow> band_ok b \<Longrightarrow> band_ok b'"
  "ParseVhtMcsSetAttribute a b = Inr b' \<Longrightarrow> band_ok b \<Longrightarrow> band_ok b'"
  "ParseHeMcsSetAttribute a b = Inr b' \<Longrightarrow> band_ok b \<Longrightarrow> band_ok b'"
  using order.trans [OF ParseHtMcsSet_bounds(2)] order.trans [OF ParseHtMcsSet_bounds(4)]
  by (auto simp: ParseHtMcsSetAttribute_def ParseVhtMcsSetAttribute_def ParseHeMcsSetAttribute_def Let_def
      elim!: if_value_InrE split: if_splits intro!: band_ok_raise ParseMcsMap_bounds)

lemma cap_parsers_ok [band_parsers]:
  "ParseVhtCapAttribute a b = Inr b' \<Longrightarrow> band_ok b \<Longrightarrow> band_ok b'"
  "ParseHeCapPhyAttribute a b = Inr b' \<Longrightarrow> band_ok b \<Longrightarrow> band_ok b'"
  "ParseEhtCapPhyAttribute a b = Inr b' \<Longrightarrow> band_ok b \<Longrightarrow> band_ok b'"
  by (auto simp: ParseVhtCapAttribute_def ParseHeCapPhyAttribute_def ParseEhtCapPhyAttribute_def Let_def
      elim!: if_value_InrE split: if_splits)

lemma ParseIfTypeDataAttributes_ok [band_parsers]:
  "ParseIfTypeDataAttributes a b = Inr b' \<Longrightarrow> band_ok b \<Longrightarrow> band_ok b'"
  by (auto simp: ParseIfTypeDataAttributes_def elim!: and_then_InrE split: option.splits list.splits if_splits
      dest!: mcs_parsers_ok cap_parsers_ok)

lemma parse_band_ok: "parse_band a b = Inr b' \<Longrightarrow> band_ok b \<Longrightarrow> band_ok b'"
  by (auto simp: parse_band_def ParseHtVhtPhyCapabilities_def Let_def
      elim!: and_then_InrE if_value_InrE split: if_splits dest!: band_parsers)

lemma parse_bands_ok: "parse_bands as b = Inr b' \<Longrightarrow> band_ok b \<Longrightarrow> band_ok b'"
  by (induction as arbitrary: b) (auto elim!: and_then_InrE dest: parse_band_ok)

lemma ParseBandInfo_ok: "ParseBandInfo p = Inr (Some b) \<Longrightarrow> band_ok b"
  by (auto simp: ParseBandInfo_def elim!: if_value_InrE and_then_InrE split: option.splits
      dest!: parse_bands_ok [OF _ band_ok_BandInfo])

section \<open>Reassembling a split dump\<close>

text \<open>
  A piece of a split dump says for one wiphy some attributes; the attributes that name the
  wiphy or the interface are not merged. \<open>dump_entries\<close> flattens a dump into triples of wiphy,
  attribute type and payload.
\<close>

type_synonym piece = "u32 \<times> (nat \<times> bytes) list"
type_synonym dump_entry = "u32 \<times> nat \<times> bytes"

definition wiphy_attr :: "u32 \<Rightarrow> attr" where
  "wiphy_attr w = make_attr word_class NL80211_ATTR_WIPHY w"

definition piece_packet :: "nl_header \<Rightarrow> piece \<Rightarrow> packet" where
  "piece_packet h q =
     build_packet (message h []) (wiphy_attr (fst q) # map (\<lambda>(t, p). tlv t p) (snd q))"

definition merged_type :: "nat \<Rightarrow> bool" where
  "merged_type t \<longleftrightarrow> t \<noteq> 1 \<and> t \<noteq> 3 \<and> t \<noteq> 153"

definition piece_entries :: "piece \<Rightarrow> dump_entry list" where
  "piece_entries q = map (\<lambda>(t, p). (fst q, t, p)) (filter (\<lambda>(t, p). merged_type t) (snd q))"

definition dump_entries :: "piece list \<Rightarrow> dump_entry list" where
  "dump_entries qs = concat (map piece_entries qs)"

text \<open>What the dump says in total about one attribute of one wiphy.\<close>

definition collected :: "dump_entry list \<Rightarrow> u32 \<Rightarrow> nat \<Rightarrow> bytes" where
  "collected es w t = concat (map (\<lambda>(_, _, p). p) (filter (\<lambda>(v, s, _). v = w \<and> s = t) es))"

definition mentions :: "dump_entry list \<Rightarrow> u32 \<Rightarrow> nat \<Rightarrow> bool" where
  "mentions es w t \<longleftrightarrow> (\<exists>p. (w, t, p) \<in> set es)"

fun row_ok :: "dump_entry list \<Rightarrow> u32 \<Rightarrow> (nat, attr) omap option \<Rightarrow> bool" where
  "row_ok es w None \<longleftrightarrow> (\<forall>t. \<not> mentions es w t)"
| "row_ok es w (Some m) \<longleftrightarrow> ordered m \<and> (\<exists>t. mentions es w t) \<and>
     (\<forall>t. map_of m t = (if mentions es w t then Some (tlv t (collected es w t)) else None))"

definition represents :: "attr_table \<Rightarrow> dump_entry list \<Rightarrow> bool" where
  "represents table es \<longleftrightarrow> ordered table \<and> (\<forall>w. row_ok es w (map_of table w))"

definition good_entries :: "dump_entry list \<Rightarrow> bool" where
  "good_entries es \<longleftrightarrow>
     length es \<le> 65000 \<and> (\<forall>(w, t, p) \<in> set es. t < 65536 \<and> merged_type t) \<and> (\<forall>w t. fits (collected es w t))"

lemma mentions_snoc [simp]: "mentions (es @ [(v, s, p)]) w t \<longleftrightarrow> mentions es w t \<or> v = w \<and> s = t"
  by (auto simp: mentions_def)

lemma mentions_Nil [simp]: "\<not> mentions [] w t"
  by (simp add: mentions_def)

lemma collected_snoc: "collected (es @ [(v, s, p)]) w t = collected es w t @ (if v = w \<and> s = t then p else [])"
  by (simp add: collected_def)

lemma collected_unmentioned: "\<not> mentions es w t \<Longrightarrow> collected es w t = []"
  by (auto simp: mentions_def collected_def filter_empty_conv)

lemma collected_append: "collected (es @ fs) w t = collected es w t @ collected fs w t"
  by (simp add: collected_def)

lemma good_entries_prefix: "good_entries (es @ fs) \<Longrightarrow> good_entries es"
  by (auto simp: good_entries_def collected_append fits_def) (metis le_add1 le_less_trans add.assoc)

lemma row_ok_other: "v \<noteq> w \<Longrightarrow> row_ok (es @ [(w, t, p)]) v r = row_ok es v r"
  by (cases r) (auto simp: collected_snoc)

lemma represents_Nil: "represents [] []"
  by (simp add: represents_def ordered_Nil)

text \<open>One attribute: an insertion or a merge.\<close>

lemma merge_attribute_step:
  assumes "represents table es" "good_entries (es @ [(w, t, p)])"
  shows "\<exists>table'. represents table' (es @ [(w, t, p)]) \<and>
    merge_attributes w (tlv t p # as) table = merge_attributes w as table'"
proof -
  let ?inner = "case map_of table w of None \<Rightarrow> [] | Some m \<Rightarrow> m"
  let ?new = "map_set w (map_set t (tlv t (collected es w t @ p)) ?inner) table"
  have t: "t < 65536" "merged_type t" using assms(2) by (simp_all add: good_entries_def)
  have "fits (collected (es @ [(w, t, p)]) w t)" using assms(2) unfolding good_entries_def by blast
  then have fit: "fits (collected es w t @ p)" by (simp add: collected_snoc)
  have fits: "fits (collected es w t)" "fits p" using fit by (simp_all add: fits_def)
  have rows: "ordered table" "row_ok es v (map_of table v)" for v
    using assms(1) by (simp_all add: represents_def)
  have inner: "ordered ?inner"
    "map_of ?inner s = (if mentions es w s then Some (tlv s (collected es w s)) else None)" for s
    using rows(2) [of w] by (auto simp: ordered_Nil split: option.splits)
  have "row_ok (es @ [(w, t, p)]) v (map_of ?new v)" for v
  proof (cases "v = w")
    case True
    then show ?thesis
      using inner by (auto simp: collected_snoc collected_unmentioned simp del: map_set.simps)
  qed (use rows(2) [of v] row_ok_other in simp)
  then have "represents ?new (es @ [(w, t, p)])"
    using rows(1) by (auto simp: represents_def)
  moreover have "merge_attributes w (tlv t p # as) table = merge_attributes w as ?new"
    using t inner(2) [of t] fits
    by (auto simp: GetAttributeId_tlv merged_type_def Merge_tlv collected_unmentioned Let_def split: option.split)
  ultimately show ?thesis by blast
qed

lemma merge_attributes_represents:
  assumes "represents table es" "good_entries (es @ piece_entries (w, kvs))" "\<forall>(t, p) \<in> set kvs. t < 65536"
  shows "\<exists>table'. represents table' (es @ piece_entries (w, kvs)) \<and>
    merge_attributes w (map (\<lambda>(t, p). tlv t p) kvs) table = Inr table'"
  using assms
proof (induction kvs arbitrary: table es)
  case (Cons kv kvs)
  obtain t p where kv: "kv = (t, p)" by (cases kv)
  show ?case
  proof (cases "merged_type t")
    case True
    then have entries: "piece_entries (w, kv # kvs) = (w, t, p) # piece_entries (w, kvs)"
      by (simp add: piece_entries_def kv)
    then have good: "good_entries ((es @ [(w, t, p)]) @ piece_entries (w, kvs))" using Cons.prems(2) by simp
    obtain table1 where table1: "represents table1 (es @ [(w, t, p)])"
      "merge_attributes w (map (\<lambda>(t, p). tlv t p) (kv # kvs)) table =
         merge_attributes w (map (\<lambda>(t, p). tlv t p) kvs) table1"
      using merge_attribute_step [OF Cons.prems(1) good_entries_prefix [OF good], of "map (\<lambda>(t, p). tlv t p) kvs"]
      by (auto simp: kv)
    show ?thesis
      using Cons.IH [OF table1(1) good] Cons.prems(3) entries by (simp add: table1(2) del: list.map)
  next
    case False
    then show ?thesis
      using Cons.IH [of table es] Cons.prems
      by (auto simp: kv piece_entries_def GetAttributeId_tlv merged_type_def)
  qed
qed (simp add: piece_entries_def)

text \<open>The packets of a dump, and the packets made of a table.\<close>

definition good_piece :: "piece \<Rightarrow> bool" where
  "good_piece q \<longleftrightarrow> (\<forall>(t, p) \<in> set (snd q). t < 65536 \<and> fits p) \<and>
     fits_message (wiphy_attr (fst q) # map (\<lambda>(t, p). tlv t p) (snd q))"

lemma wiphy_attr_facts [simp]: "wf_attr (wiphy_attr w)" "nla_type (wiphy_attr w) = 1"
  by (simp_all add: wiphy_attr_def u32_attr.wf_make u32_attr.type_make)

lemma piece_packet_message:
  "good_piece q \<Longrightarrow> piece_packet h q = message h (wiphy_attr (fst q) # map (\<lambda>(t, p). tlv t p) (snd q))"
  using build_packet_message [of "[]"] by (simp add: piece_packet_def good_piece_def)

lemma wf_piece: "good_piece q \<Longrightarrow> wf_attrs (wiphy_attr (fst q) # map (\<lambda>(t, p). tlv t p) (snd q))"
  by (auto simp: wf_attrs_def good_piece_def intro: wf_attr_tlv)

lemma piece_packet_reads:
  assumes "good_piece q"
  shows "Packet_GetAttributeValue word_class (piece_packet h q) (Suc 0) = Inr (Some (fst q))"
    and "GetAllAttributes (piece_packet h q) =
      Inr (True, normal_attr (wiphy_attr (fst q)) # map (\<lambda>(t, p). tlv t p) (snd q))"
proof -
  show "Packet_GetAttributeValue word_class (piece_packet h q) (Suc 0) = Inr (Some (fst q))"
    using wf_piece [OF assms] unfolding piece_packet_message [OF assms]
    by (intro u32_attr.Packet_value_found [where j = NL80211_ATTR_WIPHY]) (simp_all del: NL80211_ATTR_WIPHY_def flip: wiphy_attr_def)
  have "map normal_attr (map (\<lambda>(t, p). tlv t p) (snd q)) = map (\<lambda>(t, p). tlv t p) (snd q)"
    using assms by (auto simp: good_piece_def normal_attr_tlv)
  then show "GetAllAttributes (piece_packet h q) =
      Inr (True, normal_attr (wiphy_attr (fst q)) # map (\<lambda>(t, p). tlv t p) (snd q))"
    using wf_piece [OF assms] by (simp add: piece_packet_message [OF assms] GetAllAttributes_message)
qed

lemma merge_packets_represents:
  assumes "represents table es" "good_entries (es @ dump_entries qs)" "\<forall>q \<in> set qs. good_piece q"
  shows "\<exists>table'. represents table' (es @ dump_entries qs) \<and>
    merge_packets (map (piece_packet h) qs) table = Inr (Some table')"
  using assms
proof (induction qs arbitrary: table es)
  case (Cons q qs)
  obtain w kvs where q: "q = (w, kvs)" by (cases q)
  have "\<forall>(t, p) \<in> set kvs. t < 65536" using Cons.prems(3) by (auto simp: q good_piece_def)
  moreover have good: "good_entries ((es @ piece_entries q) @ dump_entries qs)"
    using Cons.prems(2) by (simp add: dump_entries_def)
  ultimately obtain table1 where "represents table1 (es @ piece_entries q)"
    "merge_attributes w (map (\<lambda>(t, p). tlv t p) kvs) table = Inr table1"
    using merge_attributes_represents [OF Cons.prems(1), of w kvs] good_entries_prefix [OF good] by (auto simp: q)
  moreover have "GetAttributeId (normal_attr (wiphy_attr w)) = Inr 1"
    by (simp add: normal_attr_def GetAttributeId_tlv)
  ultimately show ?case
    using Cons.IH [of table1 "es @ piece_entries q"] good Cons.prems(3)
    by (simp add: piece_packet_reads q dump_entries_def)
qed (simp add: dump_entries_def)

definition merged_header :: nl_header where
  "merged_header = \<lparr>msg_type = 0, msg_flags = 1, msg_seq = 0, msg_pid = 0, msg_cmd = 3\<rparr>"

lemma merged_packet_message:
  "fits_message (wiphy_attr w # map snd m) \<Longrightarrow> merged_packet (w, m) = message merged_header (wiphy_attr w # map snd m)"
proof -
  assume fit: "fits_message (wiphy_attr w # map snd m)"
  have attr: "make_attr word_class (Suc 0) w = wiphy_attr w" by (simp add: wiphy_attr_def)
  have "merged_packet (w, m) = build_packet (message merged_header []) (wiphy_attr w # map snd m)"
    by (simp add: merged_packet_def build_packet_def NL80211Packet_message merged_header_def foldl_map attr)
  with fit show ?thesis by (simp add: build_packet_message)
qed

lemma find_in_table:
  "\<forall>(t, a) \<in> set m. nla_type a = t \<Longrightarrow> find (\<lambda>a. nla_type a = t) (map snd m) = map_of m t"
  by (induction m) auto

lemma represented_row:
  assumes "represents table es" "good_entries es" "(w, m) \<in> set table"
  shows "wf_attrs (map snd m)" "fits_message (wiphy_attr w # map snd m)" "\<exists>t. mentions es w t"
    "find (\<lambda>a. nla_type a = t) (map snd m) = (if mentions es w t then Some (tlv t (collected es w t)) else None)"
proof -
  have row: "ordered m" "\<exists>t. mentions es w t"
    "map_of m t = (if mentions es w t then Some (tlv t (collected es w t)) else None)" for t
    using assms(1) ordered_in_set [of table w m] assms(3)
    by (auto simp: represents_def dest: spec [of _ w])
  have entry: "mentions es w t \<and> a = tlv t (collected es w t)" if "(t, a) \<in> set m" for t a
    using that row(3) [of t] ordered_in_set [OF row(1)] by (auto split: if_splits)
  have bound: "t < 65536" if "mentions es w t" for t
    using that assms(2) by (auto simp: mentions_def good_entries_def)
  have fits: "fits (collected es w t)" for t using assms(2) by (simp add: good_entries_def)
  show "wf_attrs (map snd m)" using entry fits wf_attr_tlv by (fastforce simp: wf_attrs_def)
  show "\<exists>t. mentions es w t" by (rule row(2))
  have "\<forall>(t, a) \<in> set m. nla_type a = t" using entry bound by (fastforce simp: nla_type_tlv)
  from find_in_table [OF this] row(3)
  show "find (\<lambda>a. nla_type a = t) (map snd m) = (if mentions es w t then Some (tlv t (collected es w t)) else None)"
    by simp
  have "length a \<le> 65540" if "a \<in> set (map snd m)" for a
  proof -
    from that obtain t where "a = tlv t (collected es w t)" using entry by fastforce
    then show ?thesis
      using fits [of t] NLA_ALIGN_less [of "length (collected es w t)"] by (simp add: length_tlv fits_def)
  qed
  then have "length (concat (map snd m)) \<le> 65540 * length (map snd m)" by (rule length_concat_le)
  moreover have "length m \<le> length es"
  proof -
    have "set (map fst m) \<subseteq> (\<lambda>(_, t, _). t) ` set es" using entry by (force simp: mentions_def)
    then have "card (set (map fst m)) \<le> card (set es)"
      by (metis card_image_le card_mono finite_imageI finite_set le_trans)
    then show ?thesis
      using distinct_card [OF ordered_distinct [OF row(1)]] card_length [of es] by simp
  qed
  moreover have "length es \<le> 65000" using assms(2) by (simp add: good_entries_def)
  ultimately show "fits_message (wiphy_attr w # map snd m)"
    by (simp add: fits_message_def wiphy_attr_def length_word_attr [of 4] NLA_ALIGN_def)
qed

text \<open>A packet for one wiphy: everything the dump says of it, and nothing else.\<close>

definition reassembled :: "dump_entry list \<Rightarrow> u32 \<Rightarrow> packet \<Rightarrow> bool" where
  "reassembled es w p \<longleftrightarrow>
     Packet_IsValid p = Inr True \<and> GetCommand p = Inr NL80211_CMD_NEW_WIPHY \<and>
     Packet_GetAttributeValue word_class p NL80211_ATTR_WIPHY = Inr (Some w) \<and>
     (\<forall>t. t \<noteq> NL80211_ATTR_WIPHY \<longrightarrow>
       Packet_GetAttribute p t = Inr (if mentions es w t then Some (tlv t (collected es w t)) else None))"

lemma reassembled_row:
  assumes "represents table es" "good_entries es" "row \<in> set table"
  shows "reassembled es (fst row) (merged_packet row)"
proof -
  obtain w m where row: "row = (w, m)" by (cases row)
  note r = represented_row [OF assms(1,2) assms(3) [unfolded row]]
  have "Packet_GetAttributeValue word_class (message merged_header (wiphy_attr w # map snd m)) NL80211_ATTR_WIPHY = Inr (Some w)"
    using r(1) by (intro u32_attr.Packet_value_found [where j = NL80211_ATTR_WIPHY])
      (simp_all del: NL80211_ATTR_WIPHY_def flip: wiphy_attr_def, simp add: wiphy_attr_def)
  then show ?thesis
    using r by (simp add: reassembled_def row merged_packet_message Packet_IsValid_message
        Packet_GetAttribute_message merged_header_def)
qed

lemma represented_wiphys:
  assumes "represents table es"
  shows "set (map fst table) = {w. \<exists>t. mentions es w t}"
proof -
  have "row_ok es w (map_of table w)" for w using assms by (simp add: represents_def)
  then have "(map_of table w \<noteq> None) = (\<exists>t. mentions es w t)" for w
    by (metis not_None_eq row_ok.simps)
  then show ?thesis by (auto simp: map_of_eq_None_iff)
qed

section \<open>Properties\<close>

text \<open>
  C7. Reassembly of a split wiphy dump: from well-formed pieces, in any interleaving of the
  wiphys, \<open>MergePacketsForSplitWiphyDump\<close> succeeds and returns one packet per mentioned wiphy,
  in ascending order of the index. Each is a valid \<open>NL80211_CMD_NEW_WIPHY\<close> packet that names its
  wiphy and holds, for every attribute type, the concatenation of the payloads that the
  pieces of this wiphy carry for the type, in order, and nothing else.
\<close>

theorem split_dump_reassembled:
  assumes "\<forall>q \<in> set qs. good_piece q" "good_entries (dump_entries qs)"
  shows "\<exists>ws ps. MergePacketsForSplitWiphyDump (map (piece_packet h) qs) = Inr (True, ps) \<and>
    sorted_wrt (<) ws \<and> set ws = {w. \<exists>t. mentions (dump_entries qs) w t} \<and>
    list_all2 (reassembled (dump_entries qs)) ws ps"
proof -
  obtain table where table: "represents table (dump_entries qs)"
    "merge_packets (map (piece_packet h) qs) [] = Inr (Some table)"
    using merge_packets_represents [OF represents_Nil, of qs] assms by auto
  have "MergePacketsForSplitWiphyDump (map (piece_packet h) qs) = Inr (True, map merged_packet table)"
    by (simp add: MergePacketsForSplitWiphyDump_def table(2))
  moreover have "sorted_wrt (<) (map fst table)" using table(1) by (simp add: represents_def ordered_def)
  moreover have "list_all2 (reassembled (dump_entries qs)) (map fst table) (map merged_packet table)"
    using reassembled_row [OF table(1) assms(2)] by (simp add: list.rel_map list_all2_same)
  ultimately show ?thesis using represented_wiphys [OF table(1)] by blast
qed

text \<open>Two wiphys, the attribute 22 of wiphy 1 in two pieces around a piece of wiphy 0.\<close>

definition split_pieces :: "piece list" where
  "split_pieces = [(1, [(22, [1, 2])]), (0, [(22, [9])]), (1, [(3, [5]), (22, [3]), (84, [])])]"

lemma split_pieces_entries:
  "dump_entries split_pieces = [(1, 22, [1, 2]), (0, 22, [9]), (1, 22, [3]), (1, 84, [])]"
  by (simp add: dump_entries_def split_pieces_def piece_entries_def merged_type_def)

theorem split_dump_reassembled_witness:
  "\<exists>p0 p1. MergePacketsForSplitWiphyDump (map (piece_packet merged_header) split_pieces) = Inr (True, [p0, p1]) \<and>
     Packet_GetAttribute p1 22 = Inr (Some (tlv 22 [1, 2, 3])) \<and> Packet_GetAttribute p0 84 = Inr None"
proof -
  have "\<forall>q \<in> set split_pieces. good_piece q"
    by (simp add: split_pieces_def good_piece_def fits_def fits_message_def wiphy_attr_def length_word_attr [of 4]
        length_tlv NLA_ALIGN_def)
  moreover have "good_entries (dump_entries split_pieces)"
    by (simp add: split_pieces_entries good_entries_def merged_type_def fits_def collected_def)
  ultimately obtain ws ps where ps: "MergePacketsForSplitWiphyDump (map (piece_packet merged_header) split_pieces) = Inr (True, ps)"
    "sorted_wrt (<) ws" "set ws = {w. \<exists>t. mentions (dump_entries split_pieces) w t}"
    "list_all2 (reassembled (dump_entries split_pieces)) ws ps"
    using split_dump_reassembled [of split_pieces merged_header] by blast
  have "set ws = {0, 1}"
    unfolding ps(3) split_pieces_entries mentions_def by auto
  then have "ws = [0, 1]"
    using ps(2) sorted_distinct_set_unique [of ws "[0, 1]"] by (simp add: strict_sorted_iff)
  with ps(1,4) show ?thesis
    by (auto simp: list_all2_Cons1 reassembled_def split_pieces_entries mentions_def collected_def)
qed

text \<open>The frequency attribute of a channel, as the kernel lays it out.\<close>

definition channel_attrs :: "channel \<Rightarrow> attr list" where
  "channel_attrs c =
     make_attr word_class NL80211_FREQUENCY_ATTR_FREQ (channel_freq c) #
     (if channel_disabled c then [tlv NL80211_FREQUENCY_ATTR_DISABLED []] else []) @
     (if channel_no_ir c then [tlv NL80211_FREQUENCY_ATTR_NO_IR []] else []) @
     (case channel_dfs_state c of None \<Rightarrow> [] | Some d \<Rightarrow> [make_attr word_class NL80211_FREQUENCY_ATTR_DFS_STATE d])"

definition freq_attr :: "nat \<Rightarrow> channel \<Rightarrow> attr" where
  "freq_attr i c = build_nested i (channel_attrs c)"

lemma wf_channel_attrs: "wf_attrs (channel_attrs c)" "length (concat (channel_attrs c)) \<le> 24"
  by (auto simp: channel_attrs_def u32_attr.wf_make wf_attr_tlv fits_def length_tlv length_word_attr [of 4]
      NLA_ALIGN_def split: option.split)

lemma freq_attr_nested: "freq_attr i c = nested_attr i (channel_attrs c)"
  using wf_channel_attrs [of c] by (simp add: freq_attr_def build_nested_nested fits_def)

lemma handle_freq_attr: "handle_freq (freq_attr i c) b = Inr (sort_channel c b)"
proof (rule handle_freq_sort)
  note nested = freq_attr_nested wf_channel_attrs(1)
  have types: "nla_type (make_attr word_class (Suc 0) (f :: u32)) = 1" "nla_type (make_attr word_class 7 (f :: u32)) = 7" for f
    by (simp_all add: u32_attr.type_make)
  show "GetAttributeValue word_class (freq_attr i c) 1 = Inr (Some (channel_freq c))"
    unfolding nested using wf_channel_attrs(1) [of c]
    by (intro u32_attr.GetAttributeValue_found [where j = 1]) (simp_all add: channel_attrs_def types)
  show "HasAttribute (freq_attr i c) 2 = Inr (channel_disabled c)"
    unfolding nested(1) HasAttribute_nested [OF nested(2)]
    by (auto simp: channel_attrs_def types nla_type_tlv split: option.split)
  show "HasAttribute (freq_attr i c) 3 = Inr (channel_no_ir c)"
    unfolding nested(1) HasAttribute_nested [OF nested(2)]
    by (auto simp: channel_attrs_def types nla_type_tlv split: option.split)
  show "GetAttributeValue word_class (freq_attr i c) 7 = Inr (channel_dfs_state c)"
  proof (cases "channel_dfs_state c")
    case None
    then show ?thesis
      unfolding nested using wf_channel_attrs(1) [of c]
      by (auto intro!: u32_attr.GetAttributeValue_absent simp: channel_attrs_def types nla_type_tlv)
  next
    case (Some d)
    then show ?thesis
      unfolding nested using wf_channel_attrs(1) [of c]
      by (simp, intro u32_attr.GetAttributeValue_found [where j = 7]) (simp_all add: channel_attrs_def types nla_type_tlv)
  qed
qed

definition indexed :: "'a list \<Rightarrow> (nat \<times> 'a) list" where
  "indexed xs = zip [0..<length xs] xs"

lemma handle_freq_attrs: "handle_freqs (map (\<lambda>(i, c). freq_attr i c) ics) b = Inr (fold (\<lambda>(i, c). sort_channel c) ics b)"
  by (induction ics arbitrary: b) (auto simp: handle_freq_attr)

lemma freq_attrs_wf: "wf_attrs (map (\<lambda>(i, c). freq_attr i c) ics)"
proof -
  have "wf_attr (freq_attr i c)" for i c
    using wf_channel_attrs [of c] by (simp add: freq_attr_nested fits_def nested_attr_wf)
  then show ?thesis by (auto simp: wf_attrs_def)
qed

lemma fold_indexed: "fold (\<lambda>(i, c). f c) (indexed xs) b = fold f (xs :: 'b list) b"
proof -
  have "map snd (indexed xs) = xs" by (simp add: indexed_def)
  moreover have "fold (\<lambda>(i, c). f c) ics b = fold f (map snd ics) b" for ics :: "(nat \<times> 'b) list"
    by (induction ics arbitrary: b) auto
  ultimately show ?thesis by metis
qed

lemma nested_attr_facts:
  "wf_attrs as \<Longrightarrow> length (nested_attr t as) = 4 + length (concat as)" "nla_type (nested_attr t as) = t mod 65536"
  by (simp_all add: nested_attr_layout) (simp add: nested_attr_def nla_type_tlv)

lemma GetAttributeValue_not_there:
  "wf_attrs as \<Longrightarrow> \<forall>a \<in> set as. nla_type a \<noteq> i \<Longrightarrow> GetAttributeValue T (nested_attr t as) i = Inr None"
  by (simp add: GetAttributeValue_def GetTypedAttribute_nested find_None_ball [THEN iffD2])

lemma freq_table_built:
  assumes "length cs < 2000"
  shows "build_nested t (map (\<lambda>(i, c). freq_attr i c) (indexed cs)) =
      nested_attr t (map (\<lambda>(i, c). freq_attr i c) (indexed cs))"
    and "length (concat (map (\<lambda>(i, c). freq_attr i c) (indexed cs))) \<le> 28 * length cs"
proof -
  let ?as = "map (\<lambda>(i, c). freq_attr i c) (indexed cs)"
  have "length a \<le> 28" if "a \<in> set ?as" for a
    using that wf_channel_attrs(2) by (auto simp: freq_attr_nested nested_attr_layout wf_channel_attrs(1))
  then have "length (concat ?as) \<le> 28 * length ?as" by (rule length_concat_le)
  then show le: "length (concat ?as) \<le> 28 * length cs" by (simp add: indexed_def)
  then show "build_nested t ?as = nested_attr t ?as"
    using assms by (simp add: build_nested_nested freq_attrs_wf fits_def)
qed

lemma freq_table_sorted:
  "length cs < 2000 \<Longrightarrow> handleBandFreqAttributes (build_nested t (map (\<lambda>(i, c). freq_attr i c) (indexed cs))) b =
    Inr (fold sort_channel cs b)"
  by (simp add: freq_table_built freq_attrs_wf handleBandFreqAttributes_def
      GetListOfNestedAttributes_nested handle_freq_attrs fold_indexed)

text \<open>A wiphy packet with one band that has a frequency table and no capabilities.\<close>

definition bands_packet :: "channel list \<Rightarrow> packet" where
  "bands_packet cs = build_packet (NL80211Packet 28 NL80211_CMD_NEW_WIPHY 7 0)
     [build_nested NL80211_ATTR_WIPHY_BANDS
       [build_nested 0 [build_nested NL80211_BAND_ATTR_FREQS (map (\<lambda>(i, c). freq_attr i c) (indexed cs))]]]"

lemma ParseBandInfo_bands_packet:
  assumes "length cs < 2000"
  shows "ParseBandInfo (bands_packet cs) = Inr (Some (fold sort_channel cs BandInfo))"
proof -
  let ?freqs = "build_nested 1 (map (\<lambda>(i, c). freq_attr i c) (indexed cs))"
  let ?band = "nested_attr 0 [?freqs]" and ?bands = "nested_attr 22 [nested_attr 0 [?freqs]]"
  note built = freq_table_built(1) [OF assms, of 1] freq_table_built(2) [OF assms]
  have f: "wf_attr ?freqs" "nla_type ?freqs = 1" "length ?freqs \<le> 4 + 28 * length cs"
    using built assms by (simp_all add: nested_attr_wf fits_def nested_attr_facts freq_attrs_wf)
  have band: "wf_attr ?band" "length ?band = 4 + length ?freqs"
    using f assms by (simp_all add: nested_attr_wf fits_def nested_attr_facts)
  have bands: "wf_attr ?bands" "length ?bands = 8 + length ?freqs" "nla_type ?bands = 22"
    using f assms band by (simp_all add: nested_attr_wf fits_def nested_attr_facts)
  have "bands_packet cs = message \<lparr>msg_type = 28, msg_flags = 1, msg_seq = 7, msg_pid = 0, msg_cmd = 3\<rparr> [?bands]"
    using f band bands assms
    by (simp add: bands_packet_def NL80211Packet_message build_nested_nested fits_def build_packet_message fits_message_def)
  then have "Packet_GetAttribute (bands_packet cs) 22 = Inr (Some ?bands)"
    using bands by (simp add: Packet_GetAttribute_message)
  moreover have "GetListOfNestedAttributes ?bands = Some [?band]"
    using band by (simp add: GetListOfNestedAttributes_nested)
  moreover have "HasAttribute ?band i = Inr False" if "i \<noteq> 1" for i
    using f that by (simp add: HasAttribute_nested)
  moreover have "GetNestedAttribute ?band i = Inr (if i = 1 then Some ?freqs else None)" for i
    using f by (simp add: GetNestedAttribute_nested)
  ultimately show ?thesis
    using freq_table_sorted [OF assms, of 1] f(1,2)
    by (simp add: ParseBandInfo_def parse_band_def ParseHtVhtPhyCapabilities_def ParseHtMcsSetAttribute_def
        ParseVhtMcsSetAttribute_def ParseVhtCapAttribute_def Let_def GetAttributeValue_not_there)
qed

text \<open>
  The frequency table of a band, encoded as the kernel does it, is parsed channel by channel in
  order: a disabled channel is dropped, a 2.4, 6 or 60 GHz channel goes to its list, a 5 GHz
  channel to the DFS list when its DFS state is usable or available or it forbids
  initiating radiation, otherwise to the 5 GHz list; other frequencies are dropped.
\<close>

theorem frequencies_sorted_into_bands:
  assumes "length cs < 2000"
  shows "handleBandFreqAttributes (build_nested t (map (\<lambda>(i, c). freq_attr i c) (indexed cs))) b =
    Inr (fold sort_channel cs b)"
  by (rule freq_table_sorted [OF assms])

definition example_channels :: "channel list" where
  "example_channels =
     [\<lparr>channel_freq = 2412, channel_disabled = False, channel_dfs_state = None, channel_no_ir = False\<rparr>,
      \<lparr>channel_freq = 5180, channel_disabled = False, channel_dfs_state = None, channel_no_ir = False\<rparr>,
      \<lparr>channel_freq = 5260, channel_disabled = False, channel_dfs_state = Some 2, channel_no_ir = False\<rparr>,
      \<lparr>channel_freq = 2484, channel_disabled = True, channel_dfs_state = None, channel_no_ir = False\<rparr>]"

theorem frequencies_sorted_into_bands_witness:
  "handleBandFreqAttributes (build_nested 1 (map (\<lambda>(i, c). freq_attr i c) (indexed example_channels))) BandInfo =
     Inr (BandInfo\<lparr>band_2g := [2412], band_5g := [5180], band_dfs := [5260]\<rparr>)"
  using frequencies_sorted_into_bands [of example_channels 1 BandInfo]
  by (simp add: example_channels_def sort_channel_def BandInfo_def)

text \<open>
  C32. Whatever bytes a wiphy packet consists of, a successful \<open>ParseBandInfo\<close> gives stream
  counts between 1 and 8 and puts only frequencies of the band into each of the five lists.
\<close>

theorem parsed_bands_in_range:
  assumes "ParseBandInfo p = Inr (Some b)"
  shows "1 \<le> max_tx_streams b \<and> max_tx_streams b \<le> 8 \<and> 1 \<le> max_rx_streams b \<and> max_rx_streams b \<le> 8 \<and>
     (\<forall>f \<in> set (band_2g b). 2400 < f \<and> f < 2500) \<and>
     (\<forall>f \<in> set (band_5g b) \<union> set (band_dfs b). 5000 < f \<and> f \<le> 5885) \<and>
     (\<forall>f \<in> set (band_6g b). 5925 < f \<and> f < 7125) \<and>
     (\<forall>f \<in> set (band_60g b). 58320 \<le> f \<and> f < 70200)"
  using ParseBandInfo_ok [OF assms] by (auto simp: band_ok_def)

theorem parsed_bands_in_range_witness:
  "ParseBandInfo (bands_packet example_channels) = Inr (Some (BandInfo\<lparr>band_2g := [2412], band_5g := [5180], band_dfs := [5260]\<rparr>)) \<and>
   2400 < (2412 :: u32) \<and> (5180 :: u32) \<le> 5885"
proof -
  have "ParseBandInfo (bands_packet example_channels) =
      Inr (Some (BandInfo\<lparr>band_2g := [2412], band_5g := [5180], band_dfs := [5260]\<rparr>))"
    using ParseBandInfo_bands_packet [of example_channels]
    by (simp add: example_channels_def sort_channel_def BandInfo_def)
  with parsed_bands_in_range [OF this] show ?thesis by simp
qed

text \<open>
  C33. The number of spatial streams that \<open>ParseMcsMap\<close> reads from a VHT or HE map is the greatest
  stream whose two bits are not 3, or 1 when no stream is supported; the HT count is between 1
  and 4 for both directions.
\<close>

theorem mcs_map_greatest_stream:
  "ParseMcsMap m = Max (insert 1 {i. 1 \<le> i \<and> i \<le> 8 \<and> drop_bit (2 * (i - 1)) m AND 3 \<noteq> 3}) \<and>
   1 \<le> fst (ParseHtMcsSet s) \<and> fst (ParseHtMcsSet s) \<le> 4 \<and> 1 \<le> snd (ParseHtMcsSet s) \<and> snd (ParseHtMcsSet s) \<le> 4"
proof -
  let ?S = "{i. 1 \<le> i \<and> i \<le> 8 \<and> drop_bit (2 * (i - 1)) m AND 3 \<noteq> 3}"
  have "finite ?S" by (rule finite_subset [of _ "{..8}"]) auto
  moreover have "ParseMcsMap m \<in> insert 1 ?S" "\<forall>i \<in> insert 1 ?S. i \<le> ParseMcsMap m"
    using mcs_map_loop_spec [of 8 m] by (auto simp: ParseMcsMap_def mult.commute not_less [symmetric])
  ultimately have "Max (insert 1 ?S) = ParseMcsMap m" by (intro Max_eqI) auto
  then show ?thesis using ParseHtMcsSet_bounds [of s] by simp
qed

text \<open>
  An extended feature flag is set exactly when its byte is present in the attribute and its
  bit is set in that byte; a flag beyond the bytes sent by the kernel is not set.
\<close>

theorem ext_feature_flag_iff:
  "IsExtFeatureFlagSet bs f \<longleftrightarrow> f div 8 < length bs \<and> bit (bs ! (f div 8)) (f mod 8)"
proof -
  have "(b AND push_bit (f mod 8) 1 \<noteq> 0) = bit b (f mod 8)" for b :: u8
  proof -
    have "f mod 8 < LENGTH(8)" by simp
    then show ?thesis by (simp flip: set_bit_eq_or add: and_exp_eq_0_iff_not_bit push_bit_eq_mult)
  qed
  then show ?thesis by (simp add: IsExtFeatureFlagSet_def Let_def not_le)
qed

end
