(* ===== verification/Scan_Properties.thy ===== *)
theory Scan_Properties
  imports Example_State Wiphy_Properties
begin

text \<open>
  The properties of scanning: the parsing of scan results, the requests as the kernel reads
  them, the limits that the device announces, and the scanner service.
\<close>

section \<open>Information elements\<close>

definition element :: "u8 \<times> bytes \<Rightarrow> bytes" where
  "element e = fst e # of_nat (length (snd e)) # snd e"

definition short_element :: "u8 \<times> bytes \<Rightarrow> bool" where
  "short_element e \<longleftrightarrow> length (snd e) < 256"

text \<open>The rest of a buffer in which no whole element is left.\<close>

definition cut_short :: "bytes \<Rightarrow> bool" where
  "cut_short ie \<longleftrightarrow> length ie \<le> 1 \<or> length ie \<le> 1 + unat (ie ! 1)"

lemma GetSSIDFromInfoElement_cut: "cut_short ie \<Longrightarrow> GetSSIDFromInfoElement ie = None"
  by (subst GetSSIDFromInfoElement.simps) (auto simp: cut_short_def Let_def)

lemma GetSSIDFromInfoElement_element:
  "short_element e \<Longrightarrow> GetSSIDFromInfoElement (element e @ rest) =
     (if fst e = 0 then Some (snd e) else GetSSIDFromInfoElement rest)"
  by (subst GetSSIDFromInfoElement.simps) (simp add: element_def short_element_def Let_def unat_of_nat_u8)

lemma GetSSIDFromInfoElement_elements:
  "\<forall>e \<in> set es. short_element e \<Longrightarrow> cut_short rest \<Longrightarrow>
     GetSSIDFromInfoElement (concat (map element es) @ rest) = map_option snd (find (\<lambda>e. fst e = 0) es)"
  by (induction es) (simp_all add: GetSSIDFromInfoElement_element GetSSIDFromInfoElement_cut)

text \<open>
  Information elements: of any sequence of elements followed by a truncated one,
  \<open>GetSSIDFromInfoElement\<close> returns the payload of the first SSID element, and reports failure
  when there is none before the truncation; it never reads past the end.
\<close>

theorem first_ssid_element_found:
  assumes "\<forall>e \<in> set es. short_element e" "cut_short rest"
  shows "GetSSIDFromInfoElement (concat (map element es) @ rest) = map_option snd (find (\<lambda>e. fst e = 0) es)"
  by (rule GetSSIDFromInfoElement_elements [OF assms])

theorem first_ssid_element_found_witness:
  "GetSSIDFromInfoElement (concat (map element [(1, [130, 132]), (0, [104, 105]), (0, [1])]) @ [48, 20, 1]) = Some [104, 105]"
  using first_ssid_element_found [of "[(1, [130, 132]), (0, [104, 105]), (0, [1])]" "[48, 20, 1]"]
  by (simp add: short_element_def cut_short_def)

section \<open>Limits of the device\<close>

lemma scan_ssids_loop_spec:
  "1 \<le> length ssids \<Longrightarrow>
     scan_ssids_loop m ns ssids =
       ssids @ take (unat m - length ssids) (filter (\<lambda>s. length s \<le> 32) (map hidden_ssid ns))"
proof (induction ns arbitrary: ssids)
  case (Cons n ns)
  show ?case
  proof (cases "unat m < length ssids + 1 \<or> 32 < length (hidden_ssid n)")
    case True
    then show ?thesis using Cons.IH [OF Cons.prems] by auto
  next
    case False
    then have "unat m - length ssids = Suc (unat m - Suc (length ssids))" by arith
    then show ?thesis using False Cons.IH [of "ssids @ [hidden_ssid n]"] by simp
  qed
qed simp

text \<open>
  The SSIDs of a single scan: the wildcard first, then the hidden networks in order, without
  those longer than 32 bytes, as many as the device supports in one scan.
\<close>

theorem scan_ssids_within_limit:
  "scan_ssids_loop m ns [[]] = [] # take (unat m - 1) (filter (\<lambda>s. length s \<le> 32) (map hidden_ssid ns)) \<and>
   length (scan_ssids_loop m ns [[]]) \<le> max 1 (unat m) \<and>
   (\<forall>s \<in> set (scan_ssids_loop m ns [[]]). length s \<le> 32)"
proof -
  have eq: "scan_ssids_loop m ns [[]] = [] # take (unat m - 1) (filter (\<lambda>s. length s \<le> 32) (map hidden_ssid ns))"
    by (simp add: scan_ssids_loop_spec)
  then show ?thesis by (auto dest: in_set_takeD)
qed

theorem scan_ssids_within_limit_witness:
  "scan_ssids_loop 3 [\<lparr>hidden_ssid = [97]\<rparr>, \<lparr>hidden_ssid = replicate 33 0\<rparr>, \<lparr>hidden_ssid = [98]\<rparr>, \<lparr>hidden_ssid = [99]\<rparr>] [[]] =
     [[], [97], [98]]"
  using scan_ssids_within_limit [of 3
      "[\<lparr>hidden_ssid = [97]\<rparr>, \<lparr>hidden_ssid = replicate 33 0\<rparr>, \<lparr>hidden_ssid = [98]\<rparr>, \<lparr>hidden_ssid = [99]\<rparr>]"]
  by simp

definition frequencies_of :: "band_info \<Rightarrow> u32 list" where
  "frequencies_of b = band_2g b @ band_5g b @ band_dfs b @ band_6g b @ band_60g b"

definition pno_acc_ok ::
    "scan_capabilities \<Rightarrow> u32 list \<Rightarrow> bytes list \<Rightarrow> bytes list \<times> bytes list \<times> freq_set \<times> nat \<Rightarrow> bool" where
  "pno_acc_ok cap freqs ssids = (\<lambda>(scan_ssids, match_ssids, unique, no_freqs).
     (\<exists>rest. scan_ssids = [] # rest \<and> set rest \<subseteq> set ssids) \<and>
     length scan_ssids \<le> max 1 (unat (max_num_sched_scan_ssids cap)) \<and>
     set match_ssids \<subseteq> set ssids \<and> length match_ssids \<le> unat (max_match_sets cap) \<and>
     ordered unique \<and> fst ` set unique \<subseteq> sint ` set freqs \<and> no_freqs \<le> length match_ssids)"

lemma insert_freqs_ordered: "ordered fs \<Longrightarrow> ordered (fold insert_freq xs fs)"
  by (induction xs arbitrary: fs) (auto simp: insert_freq_def)

lemma insert_freqs_keys: "fst ` set (fold insert_freq xs fs) = sint ` set xs \<union> fst ` set fs"
  by (induction xs arbitrary: fs) (auto simp: insert_freq_def set_map_set)

lemma pno_networks_loop_ok:
  "pno_acc_ok cap freqs ssids acc \<Longrightarrow> pno_ssid ` set ns \<subseteq> set ssids \<Longrightarrow>
     pno_acc_ok cap freqs ssids (pno_networks_loop cap freqs ns acc)"
proof (induction cap freqs ns acc rule: pno_networks_loop.induct)
  case (2 cap all_freqs n ns scan_ssids match_ssids unique no_freqs)
  let ?scan1 = "if pno_is_hidden n then scan_ssids @ [pno_ssid n] else scan_ssids"
  show ?case
  proof (cases "pno_is_hidden n \<and> unat (max_num_sched_scan_ssids cap) < length scan_ssids + 1")
    case True
    then show ?thesis using 2 by simp
  next
    case fits: False
    have scan: "pno_acc_ok cap all_freqs ssids (?scan1, match_ssids, unique, no_freqs)"
      using 2(4,5) fits by (auto simp: pno_acc_ok_def)
    show ?thesis
    proof (cases "unat (max_match_sets cap) < length match_ssids + 1")
      case True
      then show ?thesis using 2 fits scan by simp
    next
      case False
      then have "pno_acc_ok cap all_freqs ssids
          (?scan1, match_ssids @ [pno_ssid n],
           fold insert_freq (filter (\<lambda>f. f \<in> set all_freqs) (pno_frequencies n)) unique,
           if pno_frequencies n = [] then no_freqs + 1 else no_freqs)"
        using scan 2(5) by (auto simp: pno_acc_ok_def insert_freqs_ordered insert_freqs_keys)
      then show ?thesis using 2(3) 2(5) fits False by auto
    qed
  qed
qed simp

lemma ParsePnoSettings_ok:
  assumes "ParsePnoSettings cap bands settings [[]] = (scan_ssids, match_ssids, freqs)"
  shows "(\<exists>rest. scan_ssids = [] # rest \<and> set rest \<subseteq> pno_ssid ` set (pno_networks settings)) \<and>
    length scan_ssids \<le> max 1 (unat (max_num_sched_scan_ssids cap)) \<and>
    set match_ssids \<subseteq> pno_ssid ` set (pno_networks settings) \<and> length match_ssids \<le> unat (max_match_sets cap) \<and>
    set freqs \<subseteq> set (frequencies_of bands) \<and> sorted_wrt (<s) freqs"
proof -
  let ?ssids = "map pno_ssid (pno_networks settings)"
  obtain a b c d where loop: "pno_networks_loop cap (frequencies_of bands) (pno_networks settings) ([[]], [], [], 0) = (a, b, c, d)"
    by (metis prod_cases4)
  have "pno_acc_ok cap (frequencies_of bands) ?ssids (a, b, c, d)"
    using pno_networks_loop_ok [of cap "frequencies_of bands" ?ssids "([[]], [], [], 0)" "pno_networks settings"]
    by (simp add: loop pno_acc_ok_def ordered_Nil)
  note acc = this [unfolded pno_acc_ok_def prod.case set_map]
  define defaults where "defaults =
     fold insert_freq (filter (\<lambda>f. f \<in> set (band_5g bands)) kPnoScanDefaultFreqs5G)
       (fold insert_freq (filter (\<lambda>f. f \<in> set (band_2g bands)) kPnoScanDefaultFreqs2G) c)"
  obtain u where u: "u = c \<or> u = defaults" "scan_ssids = a" "match_ssids = b"
      "freqs = map (\<lambda>p. word_of_int (fst p)) u"
    using assms loop by (auto simp: ParsePnoSettings_def frequencies_of_def defaults_def Let_def split: if_splits)
  have ord: "ordered u" using u(1) acc by (auto simp: defaults_def insert_freqs_ordered)
  have keys: "fst ` set u \<subseteq> sint ` set (frequencies_of bands)"
  proof -
    have "fst ` set defaults \<subseteq> sint ` (set (band_5g bands) \<union> set (band_2g bands)) \<union> fst ` set c"
      unfolding defaults_def insert_freqs_keys by auto
    moreover have "sint ` (set (band_5g bands) \<union> set (band_2g bands)) \<subseteq> sint ` set (frequencies_of bands)"
      by (rule image_mono) (auto simp: frequencies_of_def)
    moreover have "fst ` set c \<subseteq> sint ` set (frequencies_of bands)" using acc by simp
    ultimately show ?thesis using u(1) by (elim disjE) (simp, blast)
  qed
  have exact: "sint (word_of_int k :: u32) = k" if "k \<in> fst ` set u" for k
    using that keys by fastforce
  have "set freqs \<subseteq> set (frequencies_of bands)"
    using keys unfolding u(4) by fastforce
  moreover have "sorted_wrt (<s) freqs"
  proof -
    have "sorted_wrt (\<lambda>p q. fst p < fst q) u" using ord by (simp add: ordered_def sorted_wrt_map)
    then have "sorted_wrt (\<lambda>p q. (word_of_int (fst p) :: u32) <s word_of_int (fst q)) u"
      by (rule sorted_wrt_mono_rel [rotated]) (auto simp: word_sless_alt exact)
    then show ?thesis unfolding u(4) by (simp add: sorted_wrt_map)
  qed
  ultimately show ?thesis using acc u(2,3) by simp
qed

text \<open>
  C30. The parameters of a scheduled scan stay within what the device announces: the scan list
  starts with the wildcard and is no longer than the device supports, the match list too;
  both hold only SSIDs of the settings; and the frequencies are supported by the device,
  without duplicates and in ascending order.
\<close>

theorem pno_settings_within_limits:
  assumes "ParsePnoSettings cap bands settings [[]] = (scan_ssids, match_ssids, freqs)"
  shows "(\<exists>rest. scan_ssids = [] # rest \<and> set rest \<subseteq> pno_ssid ` set (pno_networks settings)) \<and>
    length scan_ssids \<le> max 1 (unat (max_num_sched_scan_ssids cap)) \<and>
    set match_ssids \<subseteq> pno_ssid ` set (pno_networks settings) \<and> length match_ssids \<le> unat (max_match_sets cap) \<and>
    set freqs \<subseteq> set (band_2g bands @ band_5g bands @ band_dfs bands @ band_6g bands @ band_60g bands) \<and>
    sorted_wrt (<s) freqs"
  using ParsePnoSettings_ok [OF assms] by (simp add: frequencies_of_def)

definition example_capabilities :: scan_capabilities where
  "example_capabilities =
     \<lparr>max_num_scan_ssids = 3, max_num_sched_scan_ssids = 2, max_match_sets = 2, max_num_scan_plans = 2,
      max_scan_plan_interval = 100, max_scan_plan_iterations = 10\<rparr>"

definition example_pno :: pno_settings where
  "example_pno =
     \<lparr>pno_interval_ms = 20000, pno_min_2g_rssi = -80, pno_min_5g_rssi = -77, pno_min_6g_rssi = -77,
      pno_scan_iterations = 3, pno_scan_interval_multiplier = 3,
      pno_networks = [\<lparr>pno_is_hidden = True, pno_ssid = [97], pno_frequencies = [5180, 2412]\<rparr>,
        \<lparr>pno_is_hidden = True, pno_ssid = [98], pno_frequencies = [2412]\<rparr>,
        \<lparr>pno_is_hidden = False, pno_ssid = [99], pno_frequencies = [2412, 9999]\<rparr>]\<rparr>"

theorem pno_settings_within_limits_witness:
  "sorted_wrt (<s) [2412 :: u32, 5180] \<and>
   ParsePnoSettings example_capabilities (BandInfo\<lparr>band_2g := [2412], band_5g := [5180]\<rparr>) example_pno [[]] =
     ([[], [97]], [[97], [99]], [2412, 5180])"
proof -
  have *: "ParsePnoSettings example_capabilities (BandInfo\<lparr>band_2g := [2412], band_5g := [5180]\<rparr>) example_pno [[]] =
     ([[], [97]], [[97], [99]], [2412, 5180])"
    by (simp add: ParsePnoSettings_def example_capabilities_def example_pno_def BandInfo_def insert_freq_def)
  with pno_settings_within_limits [OF *] show ?thesis by blast
qed




section \<open>Requests as the kernel reads them\<close>

text \<open>The list of values in a nested attribute of a packet.\<close>

definition listed_values :: "'a attr_class \<Rightarrow> packet \<Rightarrow> nat \<Rightarrow> 'a list option res" where
  "listed_values T p i = if_value (Packet_GetAttribute p i) (Inr None) (GetListOfAttributeValues T)"

lemma numbered_nested:
  assumes "\<And>i x. x \<in> set xs \<Longrightarrow> wf_attr (mk i x)" "fits (concat (map (\<lambda>(i, x). mk i x) (enumerate n xs)))"
  shows "numbered t n mk xs = nested_attr t (map (\<lambda>(i, x). mk i x) (enumerate n xs))"
proof -
  have "wf_attrs (map (\<lambda>(i, x). mk i x) (enumerate n xs))"
    using assms(1) by (auto simp: wf_attrs_def in_set_enumerate_eq)
  with assms(2) show ?thesis
    using build_nested_nested [of "map (\<lambda>(i, x). mk i x) (enumerate n xs)" t]
    by (simp add: numbered_def build_nested_def)
qed

lemma length_numbered_list:
  assumes "\<And>i x. x \<in> set xs \<Longrightarrow> length (mk i x) \<le> k"
  shows "length (concat (map (\<lambda>(i, x). mk i x) (enumerate n xs))) \<le> k * length xs"
proof -
  have "length (concat (map (\<lambda>(i, x). mk i x) (enumerate n xs))) \<le> k * length (map (\<lambda>(i, x). mk i x) (enumerate n xs))"
    using assms by (intro length_concat_le) (auto simp: in_set_enumerate_eq)
  then show ?thesis by simp
qed

context attr_codec
begin

lemma numbered_values:
  assumes "\<forall>x \<in> set xs. ok x \<and> length (make_attr T 0 x) \<le> k" "k * length xs < 60000"
    and "\<And>i x. length (make_attr T i x) = length (make_attr T 0 x)"
  shows "wf_attr (numbered t n (make_attr T) xs)" "nla_type (numbered t n (make_attr T) xs) = t mod 65536"
    "GetListOfAttributeValues T (numbered t n (make_attr T) xs) = Inr (Some xs)"
    "length (numbered t n (make_attr T) xs) \<le> 4 + k * length xs"
proof -
  let ?as = "map (\<lambda>(i, x). make_attr T i x) (enumerate n xs)"
  have len: "length (concat ?as) \<le> k * length xs"
    using assms(1,3) by (intro length_numbered_list) metis
  then have fits: "fits (concat ?as)" using assms(2) by (simp add: fits_def)
  have eq: "numbered t n (make_attr T) xs = nested_attr t ?as"
    using assms(1) fits by (intro numbered_nested) (auto simp: wf_make)
  have wf: "wf_attrs ?as" using assms(1) by (auto simp: wf_attrs_def in_set_enumerate_eq wf_make)
  show "wf_attr (numbered t n (make_attr T) xs)" by (simp add: eq nested_attr_wf fits)
  show "nla_type (numbered t n (make_attr T) xs) = t mod 65536" by (simp add: eq nested_attr_facts)
  show "length (numbered t n (make_attr T) xs) \<le> 4 + k * length xs"
    using len by (simp add: eq nested_attr_facts wf)
  have "\<forall>p \<in> set (enumerate n xs). ok (snd p)" using assms(1) by (auto simp: in_set_enumerate_eq)
  from GetListOfAttributeValues_make [OF this, of t]
  show "GetListOfAttributeValues T (numbered t n (make_attr T) xs) = Inr (Some xs)" by (simp add: eq)
qed

end

text \<open>What a lookup returns, from the attribute list alone.\<close>

context attr_codec
begin

lemma value_by_find:
  assumes "wf_attrs as" "find (\<lambda>a. nla_type a = t) as = map_option (make_attr T j) r" "\<And>v. r = Some v \<Longrightarrow> ok v"
  shows "Packet_GetAttributeValue T (message h as) t = Inr r"
  using assms Packet_value_found [of as t j _ h] Packet_value_absent [of as t h]
  by (cases r) (simp_all add: find_None_ball)

end

lemma ssids_attribute_facts:
  assumes "\<forall>x \<in> set ssids. length x \<le> 32" "length ssids < 500"
  shows "wf_attr (ssids_attribute ssids)" "nla_type (ssids_attribute ssids) = 45"
    "GetListOfAttributeValues vector_class (ssids_attribute ssids) = Inr (Some ssids)"
    "length (ssids_attribute ssids) \<le> 20000"
proof -
  have "length (make_attr vector_class 0 x) \<le> 39" if "length x \<le> 32" for x
    using that NLA_ALIGN_less [of "length x"] by (simp add: length_bytes_attrs)
  then have "\<forall>x \<in> set ssids. fits x \<and> length (make_attr vector_class 0 x) \<le> 39"
    using assms(1) by (auto simp: fits_def)
  note v = vector_attr.numbered_values [OF this, of 45 0]
  show "wf_attr (ssids_attribute ssids)" "nla_type (ssids_attribute ssids) = 45"
    "GetListOfAttributeValues vector_class (ssids_attribute ssids) = Inr (Some ssids)"
    "length (ssids_attribute ssids) \<le> 20000"
    using v assms(2) by (simp_all add: ssids_attribute_def length_bytes_attrs)
qed

lemma freqs_attribute_facts:
  assumes "length freqs < 5000"
  shows "wf_attr (freqs_attribute freqs)" "nla_type (freqs_attribute freqs) = 44"
    "GetListOfAttributeValues word_class (freqs_attribute freqs) = Inr (Some freqs)"
    "length (freqs_attribute freqs) \<le> 50000"
proof -
  have len: "length (make_attr word_class i (x :: u32)) = 8" for i x
    by (simp add: length_word_attr [of 4] NLA_ALIGN_def)
  have mk: "u32_attribute = make_attr word_class" by (simp add: fun_eq_iff u32_attribute_def)
  note v = u32_attr.numbered_values [of freqs 8 44 0]
  show "wf_attr (freqs_attribute freqs)" "nla_type (freqs_attribute freqs) = 44"
    "GetListOfAttributeValues word_class (freqs_attribute freqs) = Inr (Some freqs)"
    "length (freqs_attribute freqs) \<le> 50000"
    using v assms by (simp_all add: freqs_attribute_def mk len)
qed

lemma u32_attribute_facts:
  "wf_attr (u32_attribute t v)" "nla_type (u32_attribute t v) = t mod 65536" "length (u32_attribute t v) = 8"
  by (simp_all add: u32_attribute_def u32_attr.wf_make u32_attr.type_make length_word_attr [of 4] NLA_ALIGN_def)

lemma add_if_message:
  "(b \<longrightarrow> fits_message (as @ [a])) \<Longrightarrow> add_if b a (message h as) = message h (as @ (if b then [a] else []))"
  by (simp add: add_if_def Packet_AddAttribute_message)

text \<open>The attributes of a request for a single scan, in order.\<close>

definition scan_attrs :: "u32 \<Rightarrow> bytes list \<Rightarrow> u32 list \<Rightarrow> u32 \<Rightarrow> bytes \<Rightarrow> attr list" where
  "scan_attrs i ssids freqs flags ies =
     [u32_attribute 3 i, ssids_attribute ssids] @ (if freqs \<noteq> [] then [freqs_attribute freqs] else []) @
     (if flags \<noteq> 0 then [u32_attribute 158 flags] else []) @ (if ies \<noteq> [] then [make_attr vector_class 42 ies] else [])"

definition scan_request_ok :: "bytes list \<Rightarrow> u32 list \<Rightarrow> bytes \<Rightarrow> bool" where
  "scan_request_ok ssids freqs ies \<longleftrightarrow>
     (\<forall>x \<in> set ssids. length x \<le> 32) \<and> length ssids < 500 \<and> length freqs < 5000 \<and> length ies < 60000"

lemma vector_attribute_facts:
  assumes "length v < 60000"
  shows "wf_attr (make_attr vector_class t v)" "nla_type (make_attr vector_class t v) = t mod 65536"
    "length (make_attr vector_class t v) \<le> 60010"
  using assms NLA_ALIGN_less [of "length v"]
  by (simp_all add: vector_attr.wf_make vector_attr.type_make fits_def length_bytes_attrs)

lemma scan_attrs_facts:
  assumes "scan_request_ok ssids freqs ies"
  shows "wf_attrs (scan_attrs i ssids freqs flags ies)" "length (concat (scan_attrs i ssids freqs flags ies)) \<le> 200000"
proof -
  note facts = ssids_attribute_facts [of ssids] freqs_attribute_facts [of freqs] vector_attribute_facts [of ies 42]
    u32_attribute_facts
  have ok: "\<forall>x \<in> set ssids. length x \<le> 32" "length ssids < 500" "length freqs < 5000" "length ies < 60000"
    using assms by (auto simp: scan_request_ok_def)
  show "wf_attrs (scan_attrs i ssids freqs flags ies)"
    using facts ok by (simp add: scan_attrs_def)
  show "length (concat (scan_attrs i ssids freqs flags ies)) \<le> 200000"
    using facts(4) [OF ok(1,2)] facts(8) [OF ok(3)] facts(11) [OF ok(4)] by (simp add: scan_attrs_def u32_attribute_facts)
qed

definition scan_flags_of :: "bool \<Rightarrow> u32 \<Rightarrow> bool \<Rightarrow> u32" where
  "scan_flags_of random_mac type_flag rnr =
     (if random_mac then NL80211_SCAN_FLAG_RANDOM_ADDR else 0) OR type_flag OR
     (if rnr then NL80211_SCAN_FLAG_COLOCATED_6GHZ else 0)"

lemma scan_request_message:
  assumes "scan_request_ok ssids freqs ies" "scan_type_flag scan_type = Inr type_flag"
  shows "scan_request i random_mac scan_type rnr ssids freqs ies (message h []) =
    Inr (message (h\<lparr>msg_flags := msg_flags h OR 4\<rparr>) (scan_attrs i ssids freqs (scan_flags_of random_mac type_flag rnr) ies))"
proof -
  have fits: "fits_message (scan_attrs i ssids freqs (scan_flags_of random_mac type_flag rnr) ies)"
    using scan_attrs_facts(2) [OF assms(1), of i "scan_flags_of random_mac type_flag rnr"]
    by (simp add: fits_message_def)
  have type_flag: "and_then (scan_type_flag scan_type) f = f type_flag" for f :: "u32 \<Rightarrow> packet res"
    by (simp add: assms(2))
  show ?thesis
    using fits unfolding scan_request_def Let_def type_flag scan_flags_of_def [symmetric]
    by (simp add: AddFlag_message Packet_AddAttribute_message add_if_message fits_message_def scan_attrs_def split: if_splits)
qed

lemma scan_attrs_found:
  assumes "scan_request_ok ssids freqs ies"
  shows "find (\<lambda>a. nla_type a = 3) (scan_attrs i ssids freqs flags ies) = Some (u32_attribute 3 i)"
    "find (\<lambda>a. nla_type a = 45) (scan_attrs i ssids freqs flags ies) = Some (ssids_attribute ssids)"
    "find (\<lambda>a. nla_type a = 44) (scan_attrs i ssids freqs flags ies) =
       (if freqs = [] then None else Some (freqs_attribute freqs))"
    "find (\<lambda>a. nla_type a = 158) (scan_attrs i ssids freqs flags ies) =
       map_option (u32_attribute 158) (if flags = 0 then None else Some flags)"
    "find (\<lambda>a. nla_type a = 42) (scan_attrs i ssids freqs flags ies) =
       map_option (make_attr vector_class 42) (if ies = [] then None else Some ies)"
proof -
  have ok: "\<forall>x \<in> set ssids. length x \<le> 32" "length ssids < 500" "length freqs < 5000" "length ies < 60000"
    using assms by (auto simp: scan_request_ok_def)
  note types = ssids_attribute_facts(2) [OF ok(1,2)] freqs_attribute_facts(2) [OF ok(3)]
    vector_attribute_facts(2) [OF ok(4)] u32_attribute_facts(2)
  show "find (\<lambda>a. nla_type a = 3) (scan_attrs i ssids freqs flags ies) = Some (u32_attribute 3 i)"
    "find (\<lambda>a. nla_type a = 45) (scan_attrs i ssids freqs flags ies) = Some (ssids_attribute ssids)"
    "find (\<lambda>a. nla_type a = 44) (scan_attrs i ssids freqs flags ies) =
       (if freqs = [] then None else Some (freqs_attribute freqs))"
    "find (\<lambda>a. nla_type a = 158) (scan_attrs i ssids freqs flags ies) =
       map_option (u32_attribute 158) (if flags = 0 then None else Some flags)"
    "find (\<lambda>a. nla_type a = 42) (scan_attrs i ssids freqs flags ies) =
       map_option (make_attr vector_class 42) (if ies = [] then None else Some ies)"
    using types by (simp_all add: scan_attrs_def)
qed

lemma u32_attribute_fun: "u32_attribute = make_attr word_class"
  by (simp add: fun_eq_iff u32_attribute_def)

text \<open>
  C28. A request for a single scan is read back by the receiver as it was asked: a valid packet
  with the ACK flag, the interface index, the SSIDs and the frequencies in order, the IE bytes,
  and scan flags with exactly the requested bits; frequencies, flags and IEs are left out when there
  are none.
\<close>

theorem scan_request_reads_back:
  assumes "scan_request_ok ssids freqs ies" "scan_type_flag scan_type = Inr type_flag"
    "flags = (if random_mac then 8 else 0) OR type_flag OR (if rnr then 16384 else 0)" "family \<noteq> 2"
  shows "\<exists>p. scan_request i random_mac scan_type rnr ssids freqs ies (NL80211Packet family 33 n pid) = Inr p \<and>
    Packet_IsValid p = Inr True \<and> GetCommand p = Inr 33 \<and> GetMessageSequence p = Inr n \<and> GetFlags p = Inr 5 \<and>
    Packet_GetAttributeValue word_class p NL80211_ATTR_IFINDEX = Inr (Some i) \<and>
    listed_values vector_class p NL80211_ATTR_SCAN_SSIDS = Inr (Some ssids) \<and>
    listed_values word_class p NL80211_ATTR_SCAN_FREQUENCIES = Inr (if freqs = [] then None else Some freqs) \<and>
    Packet_GetAttributeValue word_class p NL80211_ATTR_SCAN_FLAGS = Inr (if flags = 0 then None else Some flags) \<and>
    Packet_GetAttributeValue vector_class p NL80211_ATTR_IE = Inr (if ies = [] then None else Some ies)"
proof -
  let ?as = "scan_attrs i ssids freqs flags ies"
  define h where "h = \<lparr>msg_type = family, msg_flags = 5, msg_seq = n, msg_pid = pid, msg_cmd = 33\<rparr>"
  have ok: "\<forall>x \<in> set ssids. length x \<le> 32" "length ssids < 500" "length freqs < 5000" "length ies < 60000"
    using assms(1) by (auto simp: scan_request_ok_def)
  note wf = scan_attrs_facts(1) [OF assms(1), of i flags]
  note found = scan_attrs_found [OF assms(1), of i flags]
  have fits: "fits_message ?as" using scan_attrs_facts(2) [OF assms(1), of i flags] by (simp add: fits_message_def)
  have p: "scan_request i random_mac scan_type rnr ssids freqs ies (NL80211Packet family 33 n pid) = Inr (message h ?as)"
    using assms(3) by (simp add: NL80211Packet_message scan_request_message [OF assms(1,2)] scan_flags_of_def h_def)
  have "Packet_GetAttributeValue word_class (message h ?as) 3 = Inr (Some i)"
    "Packet_GetAttributeValue word_class (message h ?as) 158 = Inr (if flags = 0 then None else Some flags)"
    "Packet_GetAttributeValue vector_class (message h ?as) 42 = Inr (if ies = [] then None else Some ies)"
    using u32_attr.value_by_find [OF wf, of 3 3 "Some i" h]
      u32_attr.value_by_find [OF wf, of 158 158 "if flags = 0 then None else Some flags" h]
      vector_attr.value_by_find [OF wf, of 42 42 "if ies = [] then None else Some ies" h] found(1,4,5) ok(4)
    by (simp_all add: u32_attribute_fun fits_def split: if_splits)
  moreover have "listed_values vector_class (message h ?as) 45 = Inr (Some ssids)"
    "listed_values word_class (message h ?as) 44 = Inr (if freqs = [] then None else Some freqs)"
    using ssids_attribute_facts(3) [OF ok(1,2)] freqs_attribute_facts(3) [OF ok(3)]
    by (simp_all add: listed_values_def Packet_GetAttribute_message [OF wf] found)
  ultimately show ?thesis
    using fits assms(4) by (simp add: p Packet_IsValid_message h_def)
qed

theorem scan_request_reads_back_witness:
  "\<exists>p. scan_request 5 True 1 False [[], [104]] [2412] [] (NL80211Packet 28 33 7 99) = Inr p \<and>
    listed_values vector_class p 45 = Inr (Some [[], [104]]) \<and> Packet_GetAttributeValue word_class p 158 = Inr (Some (520 :: u32))"
proof -
  have "scan_request_ok [[], [104]] [2412] []" "scan_type_flag 1 = Inr 512"
    by (simp_all add: scan_request_ok_def scan_type_flag_def)
  from scan_request_reads_back [OF this, of 520 True False 28 5 7 99] show ?thesis by auto
qed

section \<open>Scheduled scans\<close>

text \<open>What the receiver reads of one match set and of one plan.\<close>

definition read_match_set :: "attr \<Rightarrow> (bytes option \<times> u32 option) res" where
  "read_match_set m =
     and_then (GetAttributeValue vector_class m NL80211_SCHED_SCAN_MATCH_ATTR_SSID) (\<lambda>ssid.
     and_then (GetAttributeValue word_class m NL80211_SCHED_SCAN_MATCH_ATTR_RSSI) (\<lambda>rssi.
       Inr (ssid, rssi)))"

definition read_plan :: "attr \<Rightarrow> (u32 option \<times> u32 option) res" where
  "read_plan m =
     and_then (GetAttributeValue word_class m NL80211_SCHED_SCAN_PLAN_INTERVAL) (\<lambda>interval.
     and_then (GetAttributeValue word_class m NL80211_SCHED_SCAN_PLAN_ITERATIONS) (\<lambda>iterations.
       Inr (interval, iterations)))"

definition read_list :: "(attr \<Rightarrow> 'a res) \<Rightarrow> packet \<Rightarrow> nat \<Rightarrow> 'a res list option res" where
  "read_list read p i =
     if_value (Packet_GetAttribute p i) (Inr None) (\<lambda>a. Inr (map_option (map read) (GetListOfNestedAttributes a)))"

lemma match_group_nested:
  assumes "length ssid \<le> 32"
  shows "match_group rssi i ssid = nested_attr i [make_attr vector_class 1 ssid, u32_attribute 2 rssi]"
    "length (match_group rssi i ssid) \<le> 60" "wf_attr (match_group rssi i ssid)"
    "read_match_set (match_group rssi i ssid) = Inr (Some ssid, Some rssi)"
proof -
  let ?as = "[make_attr vector_class 1 ssid, u32_attribute 2 rssi]"
  have len: "length (make_attr vector_class 1 ssid) \<le> 39"
    using assms NLA_ALIGN_less [of "length ssid"] by (simp add: length_bytes_attrs)
  have wf: "wf_attrs ?as" "nla_type (make_attr vector_class 1 ssid) = 1"
    using assms by (simp_all add: vector_attribute_facts u32_attribute_facts)
  have fits: "fits (concat ?as)" using len by (simp add: fits_def u32_attribute_facts)
  show eq: "match_group rssi i ssid = nested_attr i ?as"
    using build_nested_nested [OF wf(1) fits, of i]
    by (simp add: match_group_def build_nested_def u32_attribute_def)
  show "length (match_group rssi i ssid) \<le> 60" "wf_attr (match_group rssi i ssid)"
    using wf(1) fits len by (simp_all add: eq nested_attr_facts nested_attr_wf u32_attribute_facts)
  have "GetAttributeValue vector_class (nested_attr i ?as) 1 = Inr (Some ssid)"
    using wf assms by (intro vector_attr.GetAttributeValue_found [where j = 1]) (simp_all add: fits_def)
  moreover have "GetAttributeValue word_class (nested_attr i ?as) 2 = Inr (Some rssi)"
    using wf by (intro u32_attr.GetAttributeValue_found [where j = 2])
      (simp_all add: u32_attribute_facts, simp add: u32_attribute_def)
  ultimately show "read_match_set (match_group rssi i ssid) = Inr (Some ssid, Some rssi)"
    by (simp add: eq read_match_set_def)
qed

lemma scan_plan_nested:
  shows "wf_attr (scan_plan_attribute i plan)" "length (scan_plan_attribute i plan) = 20"
    "read_plan (scan_plan_attribute i plan) = Inr (Some (plan_interval_ms plan div 1000), Some (plan_iterations plan))"
proof -
  let ?as = "[u32_attribute 1 (plan_interval_ms plan div 1000), u32_attribute 2 (plan_iterations plan)]"
  have wf: "wf_attrs ?as" by (simp add: u32_attribute_facts)
  have fits: "fits (concat ?as)" by (simp add: fits_def u32_attribute_facts)
  have eq: "scan_plan_attribute i plan = nested_attr i ?as"
    using build_nested_nested [OF wf fits, of i] by (simp add: scan_plan_attribute_def build_nested_def)
  show "wf_attr (scan_plan_attribute i plan)" "length (scan_plan_attribute i plan) = 20"
    using wf fits by (simp_all add: eq nested_attr_facts nested_attr_wf u32_attribute_facts)
  have "GetAttributeValue word_class (nested_attr i ?as) 1 = Inr (Some (plan_interval_ms plan div 1000))"
    using wf by (intro u32_attr.GetAttributeValue_found [where j = 1]) (simp_all add: u32_attribute_facts, simp add: u32_attribute_def)
  moreover have "GetAttributeValue word_class (nested_attr i ?as) 2 = Inr (Some (plan_iterations plan))"
    using wf by (intro u32_attr.GetAttributeValue_found [where j = 2]) (simp_all add: u32_attribute_facts, simp add: u32_attribute_def)
  ultimately show "read_plan (scan_plan_attribute i plan) = Inr (Some (plan_interval_ms plan div 1000), Some (plan_iterations plan))"
    by (simp add: eq read_plan_def)
qed

lemma numbered_members:
  assumes "\<And>i x. x \<in> set xs \<Longrightarrow> wf_attr (mk i x) \<and> length (mk i x) \<le> k" "k * length xs < 60000"
  shows "numbered t n mk xs = nested_attr t (map (\<lambda>(i, x). mk i x) (enumerate n xs))"
    "wf_attr (numbered t n mk xs)" "nla_type (numbered t n mk xs) = t mod 65536"
    "GetListOfNestedAttributes (numbered t n mk xs) = Some (map (\<lambda>(i, x). mk i x) (enumerate n xs))"
    "length (numbered t n mk xs) \<le> 4 + k * length xs"
proof -
  let ?as = "map (\<lambda>(i, x). mk i x) (enumerate n xs)"
  have len: "length (concat ?as) \<le> k * length xs"
    using assms(1) by (intro length_numbered_list) metis
  then have fits: "fits (concat ?as)" using assms(2) by (simp add: fits_def)
  show eq: "numbered t n mk xs = nested_attr t ?as"
    using assms(1) fits by (intro numbered_nested) auto
  have wf: "wf_attrs ?as" using assms(1) by (auto simp: wf_attrs_def in_set_enumerate_eq)
  show "wf_attr (numbered t n mk xs)" "nla_type (numbered t n mk xs) = t mod 65536"
    "GetListOfNestedAttributes (numbered t n mk xs) = Some ?as" "length (numbered t n mk xs) \<le> 4 + k * length xs"
    using len wf fits by (simp_all add: eq nested_attr_wf nested_attr_facts GetListOfNestedAttributes_nested)
qed

lemma map_read_numbered:
  "(\<And>i x. x \<in> set xs \<Longrightarrow> read (mk i x) = f x) \<Longrightarrow>
     map read (map (\<lambda>(i, x). mk i x) (enumerate n xs)) = map f xs"
proof -
  assume read: "\<And>i x. x \<in> set xs \<Longrightarrow> read (mk i x) = f x"
  have "map read (map (\<lambda>(i, x). mk i x) (enumerate n xs)) = map (f \<circ> snd) (enumerate n xs)"
    using read by (auto simp: in_set_enumerate_eq)
  then show ?thesis by (simp only: map_map [symmetric] map_snd_enumerate)
qed

text \<open>The plan attribute: the plans in order, numbered from one, then the final interval.\<close>

lemma scan_plans_attribute_facts:
  assumes "length (setting_plans g) < 1000"
  shows "wf_attr (scan_plans_attribute g)" "nla_type (scan_plans_attribute g) = 225"
    "length (scan_plans_attribute g) \<le> 21000"
    "map_option (map read_plan) (GetListOfNestedAttributes (scan_plans_attribute g)) =
       Some (map (\<lambda>plan. Inr (Some (plan_interval_ms plan div 1000), Some (plan_iterations plan))) (setting_plans g) @
             [Inr (Some (setting_final_interval_ms g div 1000), None)])"
proof -
  let ?plans = "map (\<lambda>(i, x). scan_plan_attribute i x) (enumerate 1 (setting_plans g))"
  let ?final = "u32_attribute 1 (setting_final_interval_ms g div 1000)"
  define last_plan where "last_plan = nested_attr (length (setting_plans g) + 1) [?final]"
  have final: "wf_attr last_plan" "length last_plan = 12" "read_plan last_plan = Inr (Some (setting_final_interval_ms g div 1000), None)"
  proof -
    have "GetAttributeValue word_class last_plan 1 = Inr (Some (setting_final_interval_ms g div 1000))"
      unfolding last_plan_def
      by (intro u32_attr.GetAttributeValue_found [where j = 1]) (simp_all add: u32_attribute_facts, simp add: u32_attribute_def)
    moreover have "GetAttributeValue (word_class :: u32 attr_class) last_plan 2 = Inr None"
      unfolding last_plan_def by (intro GetAttributeValue_not_there) (simp_all add: u32_attribute_facts)
    ultimately show "read_plan last_plan = Inr (Some (setting_final_interval_ms g div 1000), None)"
      by (simp add: read_plan_def)
    show "wf_attr last_plan" "length last_plan = 12"
      by (simp_all add: last_plan_def nested_attr_facts nested_attr_wf fits_def u32_attribute_facts)
  qed
  have mk: "wf_attr (scan_plan_attribute i x) \<and> length (scan_plan_attribute i x) \<le> 20" for i x
    by (simp add: scan_plan_nested)
  note plans = numbered_members [of "setting_plans g" scan_plan_attribute 20 225 1, OF mk]
  have wf: "wf_attrs ?plans" by (auto simp: wf_attrs_def scan_plan_nested)
  have len: "length (concat ?plans) \<le> 20 * length (setting_plans g)"
    by (rule length_numbered_list) (simp add: scan_plan_nested)
  have "AddAttribute (NL80211NestedAttr (length (setting_plans g) + 1)) ?final = last_plan"
    using build_nested_nested [of "[?final]"] by (simp add: last_plan_def build_nested_def u32_attribute_facts fits_def)
  then have eq: "scan_plans_attribute g = nested_attr 225 (?plans @ [last_plan])"
    using plans(1) AddAttribute_nested [OF wf final(1)] assms len final(2)
    by (simp add: scan_plans_attribute_def fits_def)
  show "wf_attr (scan_plans_attribute g)" "nla_type (scan_plans_attribute g) = 225" "length (scan_plans_attribute g) \<le> 21000"
    using assms len final wf by (simp_all add: eq nested_attr_wf nested_attr_facts fits_def)
  have "map read_plan ?plans =
      map (\<lambda>plan. Inr (Some (plan_interval_ms plan div 1000), Some (plan_iterations plan))) (setting_plans g)"
    by (rule map_read_numbered) (simp add: scan_plan_nested)
  then show "map_option (map read_plan) (GetListOfNestedAttributes (scan_plans_attribute g)) =
       Some (map (\<lambda>plan. Inr (Some (plan_interval_ms plan div 1000), Some (plan_iterations plan))) (setting_plans g) @
             [Inr (Some (setting_final_interval_ms g div 1000), None)])"
    using wf final by (simp add: eq GetListOfNestedAttributes_nested)
qed

lemma match_sets_facts:
  assumes "\<forall>x \<in> set ssids. length x \<le> 32" "length ssids < 300"
  shows "wf_attr (numbered 132 0 (match_group rssi) ssids)" "nla_type (numbered 132 0 (match_group rssi) ssids) = 132"
    "length (numbered 132 0 (match_group rssi) ssids) \<le> 20000"
    "map_option (map read_match_set) (GetListOfNestedAttributes (numbered 132 0 (match_group rssi) ssids)) =
       Some (map (\<lambda>x. Inr (Some x, Some rssi)) ssids)"
proof -
  have mk: "wf_attr (match_group rssi i x) \<and> length (match_group rssi i x) \<le> 60" if "x \<in> set ssids" for i x
    using that assms(1) by (simp add: match_group_nested(2,3))
  note members = numbered_members [of ssids "match_group rssi" 60 132 0, OF mk]
  have "map read_match_set (map (\<lambda>(i, x). match_group rssi i x) (enumerate 0 ssids)) = map (\<lambda>x. Inr (Some x, Some rssi)) ssids"
    using assms(1) by (intro map_read_numbered) (simp add: match_group_nested(4))
  then show "wf_attr (numbered 132 0 (match_group rssi) ssids)" "nla_type (numbered 132 0 (match_group rssi) ssids) = 132"
    "length (numbered 132 0 (match_group rssi) ssids) \<le> 20000"
    "map_option (map read_match_set) (GetListOfNestedAttributes (numbered 132 0 (match_group rssi) ssids)) =
       Some (map (\<lambda>x. Inr (Some x, Some rssi)) ssids)"
    using members assms(2) by simp_all
qed

definition interval_attribute :: "sched_scan_interval_setting \<Rightarrow> attr" where
  "interval_attribute g =
     (if setting_plans g \<noteq> [] then scan_plans_attribute g
      else u32_attribute 119 (setting_final_interval_ms g))"

definition sched_scan_attrs ::
    "u32 \<Rightarrow> sched_scan_interval_setting \<Rightarrow> u32 \<Rightarrow> u32 \<Rightarrow> bool \<Rightarrow> bytes list \<Rightarrow> bytes list \<Rightarrow> u32 list \<Rightarrow> u32 \<Rightarrow> attr list" where
  "sched_scan_attrs i g rssi_2g rssi_5g relative ssids match_ssids freqs flags =
     [numbered 132 0 (match_group rssi_5g) match_ssids] @
     (if relative then [rssi_adjust_attribute rssi_2g rssi_5g] else []) @
     [u32_attribute 3 i, ssids_attribute ssids] @ (if freqs \<noteq> [] then [freqs_attribute freqs] else []) @
     [interval_attribute g] @ (if flags \<noteq> 0 then [u32_attribute 158 flags] else [])"

definition sched_request_ok :: "sched_scan_interval_setting \<Rightarrow> bytes list \<Rightarrow> bytes list \<Rightarrow> u32 list \<Rightarrow> bool" where
  "sched_request_ok g ssids match_ssids freqs \<longleftrightarrow>
     (\<forall>x \<in> set ssids \<union> set match_ssids. length x \<le> 32) \<and> length ssids < 500 \<and> length match_ssids < 300 \<and>
     length freqs < 5000 \<and> length (setting_plans g) < 1000"

lemma interval_attribute_facts:
  assumes "length (setting_plans g) < 1000"
  shows "wf_attr (interval_attribute g)" "length (interval_attribute g) \<le> 21000"
    "nla_type (interval_attribute g) = (if setting_plans g \<noteq> [] then 225 else 119)"
  using scan_plans_attribute_facts [OF assms] by (simp_all add: interval_attribute_def u32_attribute_facts)

lemma rssi_adjust_facts:
  "wf_attr (rssi_adjust_attribute a b)" "nla_type (rssi_adjust_attribute a b) = 247" "length (rssi_adjust_attribute a b) = 8"
  by (simp_all add: rssi_adjust_attribute_def vector_attribute_facts length_bytes_attrs NLA_ALIGN_def)

lemma sched_scan_attrs_facts:
  assumes "sched_request_ok g ssids match_ssids freqs"
  shows "wf_attrs (sched_scan_attrs i g r2 r5 relative ssids match_ssids freqs flags)"
    "length (concat (sched_scan_attrs i g r2 r5 relative ssids match_ssids freqs flags)) \<le> 200000"
proof -
  have ok: "\<forall>x \<in> set ssids. length x \<le> 32" "length ssids < 500" "\<forall>x \<in> set match_ssids. length x \<le> 32"
    "length match_ssids < 300" "length freqs < 5000" "length (setting_plans g) < 1000"
    using assms by (auto simp: sched_request_ok_def)
  note facts = match_sets_facts [OF ok(3,4), of r5] ssids_attribute_facts [OF ok(1,2)]
    freqs_attribute_facts [OF ok(5)] interval_attribute_facts [OF ok(6)] rssi_adjust_facts u32_attribute_facts
  show "wf_attrs (sched_scan_attrs i g r2 r5 relative ssids match_ssids freqs flags)"
    using facts by (simp add: sched_scan_attrs_def)
  show "length (concat (sched_scan_attrs i g r2 r5 relative ssids match_ssids freqs flags)) \<le> 200000"
    using facts(3,8,12,14) by (simp add: sched_scan_attrs_def u32_attribute_facts rssi_adjust_facts)
qed

definition sched_flags :: "sched_scan_req_flags \<Rightarrow> u32" where
  "sched_flags f = (if flag_random_mac f then 8 else 0) OR (if flag_low_power f then 512 else 0)"

lemma sched_scan_request_message:
  assumes "sched_request_ok g ssids match_ssids freqs"
  shows "sched_scan_request i g r2 r5 r6 f ssids match_ssids freqs (message h []) =
    message (h\<lparr>msg_flags := msg_flags h OR 4\<rparr>)
      (sched_scan_attrs i g r2 r5 (flag_relative_rssi f) ssids match_ssids freqs (sched_flags f))"
proof -
  have fits: "fits_message (sched_scan_attrs i g r2 r5 (flag_relative_rssi f) ssids match_ssids freqs (sched_flags f))"
    using sched_scan_attrs_facts(2) [OF assms, of i r2 r5 "flag_relative_rssi f" "sched_flags f"]
    by (simp add: fits_message_def)
  show ?thesis
    using fits unfolding sched_scan_request_def Let_def
    by (simp add: AddFlag_message Packet_AddAttribute_message add_if_message fits_message_def sched_scan_attrs_def
        interval_attribute_def sched_flags_def split: if_splits)
qed

lemma sched_scan_attrs_found:
  assumes "sched_request_ok g ssids match_ssids freqs"
  shows "find (\<lambda>a. nla_type a = 3) (sched_scan_attrs i g r2 r5 rel ssids match_ssids freqs flags) = Some (u32_attribute 3 i)"
    "find (\<lambda>a. nla_type a = 132) (sched_scan_attrs i g r2 r5 rel ssids match_ssids freqs flags) =
       Some (numbered 132 0 (match_group r5) match_ssids)"
    "find (\<lambda>a. nla_type a = 45) (sched_scan_attrs i g r2 r5 rel ssids match_ssids freqs flags) = Some (ssids_attribute ssids)"
    "find (\<lambda>a. nla_type a = 44) (sched_scan_attrs i g r2 r5 rel ssids match_ssids freqs flags) =
       (if freqs = [] then None else Some (freqs_attribute freqs))"
    "find (\<lambda>a. nla_type a = (if setting_plans g \<noteq> [] then 225 else 119))
       (sched_scan_attrs i g r2 r5 rel ssids match_ssids freqs flags) = Some (interval_attribute g)"
    "find (\<lambda>a. nla_type a = 158) (sched_scan_attrs i g r2 r5 rel ssids match_ssids freqs flags) =
       map_option (u32_attribute 158) (if flags = 0 then None else Some flags)"
    "find (\<lambda>a. nla_type a = 247) (sched_scan_attrs i g r2 r5 rel ssids match_ssids freqs flags) =
       map_option (make_attr vector_class 247) (if rel then Some [0, ucast (r2 - r5)] else None)"
proof -
  have ok: "\<forall>x \<in> set ssids. length x \<le> 32" "length ssids < 500" "\<forall>x \<in> set match_ssids. length x \<le> 32"
    "length match_ssids < 300" "length freqs < 5000" "length (setting_plans g) < 1000"
    using assms by (auto simp: sched_request_ok_def)
  note types = match_sets_facts(2) [OF ok(3,4), of r5] ssids_attribute_facts(2) [OF ok(1,2)]
    freqs_attribute_facts(2) [OF ok(5)] interval_attribute_facts(3) [OF ok(6)] rssi_adjust_facts(2) u32_attribute_facts(2)
  show "find (\<lambda>a. nla_type a = 3) (sched_scan_attrs i g r2 r5 rel ssids match_ssids freqs flags) = Some (u32_attribute 3 i)"
    "find (\<lambda>a. nla_type a = 132) (sched_scan_attrs i g r2 r5 rel ssids match_ssids freqs flags) =
       Some (numbered 132 0 (match_group r5) match_ssids)"
    "find (\<lambda>a. nla_type a = 45) (sched_scan_attrs i g r2 r5 rel ssids match_ssids freqs flags) = Some (ssids_attribute ssids)"
    "find (\<lambda>a. nla_type a = 44) (sched_scan_attrs i g r2 r5 rel ssids match_ssids freqs flags) =
       (if freqs = [] then None else Some (freqs_attribute freqs))"
    "find (\<lambda>a. nla_type a = (if setting_plans g \<noteq> [] then 225 else 119))
       (sched_scan_attrs i g r2 r5 rel ssids match_ssids freqs flags) = Some (interval_attribute g)"
    "find (\<lambda>a. nla_type a = 158) (sched_scan_attrs i g r2 r5 rel ssids match_ssids freqs flags) =
       map_option (u32_attribute 158) (if flags = 0 then None else Some flags)"
    using types by (simp_all add: sched_scan_attrs_def)
  show "find (\<lambda>a. nla_type a = 247) (sched_scan_attrs i g r2 r5 rel ssids match_ssids freqs flags) =
       map_option (make_attr vector_class 247) (if rel then Some [0, ucast (r2 - r5)] else None)"
    using types by (simp add: sched_scan_attrs_def) (simp add: rssi_adjust_attribute_def)
qed

lemma interval_attribute_reads:
  assumes "sched_request_ok g ssids match_ssids freqs"
  shows "if setting_plans g \<noteq> [] then
       read_list read_plan (message h (sched_scan_attrs i g r2 r5 rel ssids match_ssids freqs flags)) 225 =
         Inr (Some (map (\<lambda>plan. Inr (Some (plan_interval_ms plan div 1000), Some (plan_iterations plan))) (setting_plans g) @
           [Inr (Some (setting_final_interval_ms g div 1000), None)]))
     else Packet_GetAttributeValue word_class (message h (sched_scan_attrs i g r2 r5 rel ssids match_ssids freqs flags)) 119 =
       Inr (Some (setting_final_interval_ms g))"
proof (cases "setting_plans g = []")
  case True
  then show ?thesis
    using sched_scan_attrs_facts(1) [OF assms] sched_scan_attrs_found(5) [OF assms]
    by (auto intro!: u32_attr.value_by_find [where j = 119] simp: interval_attribute_def u32_attribute_fun)
next
  case False
  have "length (setting_plans g) < 1000" using assms by (simp add: sched_request_ok_def)
  with False show ?thesis
    using sched_scan_attrs_found(5) [OF assms, of i r2 r5 rel flags] scan_plans_attribute_facts(4) [of g]
    by (simp add: read_list_def Packet_GetAttribute_message [OF sched_scan_attrs_facts(1) [OF assms]] interval_attribute_def)
qed

text \<open>
  C29. A request for a scheduled scan is read back by the receiver as it was asked: a match set with
  the 5 GHz threshold per SSID, the SSIDs and the frequencies in order, the plans and the final
  interval converted to seconds (or the single interval in milliseconds when there is no
  plan), the scan flags, and the RSSI adjustment exactly when relative RSSI was asked for,
  with the difference of the thresholds cut down to one byte.
\<close>

theorem sched_scan_request_reads_back:
  assumes "sched_request_ok g ssids match_ssids freqs" "family \<noteq> 2"
  shows "let p = sched_scan_request i g r2 r5 r6 f ssids match_ssids freqs (NL80211Packet family 75 n pid) in
    Packet_IsValid p = Inr True \<and> GetCommand p = Inr 75 \<and> GetFlags p = Inr 5 \<and>
    Packet_GetAttributeValue word_class p NL80211_ATTR_IFINDEX = Inr (Some i) \<and>
    read_list read_match_set p NL80211_ATTR_SCHED_SCAN_MATCH = Inr (Some (map (\<lambda>x. Inr (Some x, Some r5)) match_ssids)) \<and>
    listed_values vector_class p NL80211_ATTR_SCAN_SSIDS = Inr (Some ssids) \<and>
    listed_values word_class p NL80211_ATTR_SCAN_FREQUENCIES = Inr (if freqs = [] then None else Some freqs) \<and>
    (if setting_plans g \<noteq> [] then
       read_list read_plan p NL80211_ATTR_SCHED_SCAN_PLANS =
         Inr (Some (map (\<lambda>plan. Inr (Some (plan_interval_ms plan div 1000), Some (plan_iterations plan))) (setting_plans g) @
           [Inr (Some (setting_final_interval_ms g div 1000), None)]))
     else Packet_GetAttributeValue word_class p NL80211_ATTR_SCHED_SCAN_INTERVAL = Inr (Some (setting_final_interval_ms g))) \<and>
    Packet_GetAttributeValue word_class p NL80211_ATTR_SCAN_FLAGS =
      Inr (if sched_flags f = 0 then None else Some (sched_flags f)) \<and>
    Packet_GetAttributeValue vector_class p NL80211_ATTR_SCHED_SCAN_RSSI_ADJUST =
      Inr (if flag_relative_rssi f then Some [0, ucast (r2 - r5)] else None)"
proof -
  let ?as = "sched_scan_attrs i g r2 r5 (flag_relative_rssi f) ssids match_ssids freqs (sched_flags f)"
  define h where "h = \<lparr>msg_type = family, msg_flags = 5, msg_seq = n, msg_pid = pid, msg_cmd = 75\<rparr>"
  have ok: "\<forall>x \<in> set ssids. length x \<le> 32" "length ssids < 500" "\<forall>x \<in> set match_ssids. length x \<le> 32"
    "length match_ssids < 300" "length freqs < 5000" "length (setting_plans g) < 1000"
    using assms by (auto simp: sched_request_ok_def)
  note wf = sched_scan_attrs_facts(1) [OF assms(1), of i r2 r5 "flag_relative_rssi f" "sched_flags f"]
  note found = sched_scan_attrs_found [OF assms(1), of i r2 r5 "flag_relative_rssi f" "sched_flags f"]
  have fits: "fits_message ?as"
    using sched_scan_attrs_facts(2) [OF assms(1), of i r2 r5 "flag_relative_rssi f" "sched_flags f"]
    by (simp add: fits_message_def)
  have p: "sched_scan_request i g r2 r5 r6 f ssids match_ssids freqs (NL80211Packet family 75 n pid) = message h ?as"
    by (simp add: NL80211Packet_message sched_scan_request_message [OF assms(1)] h_def)
  have "Packet_GetAttributeValue word_class (message h ?as) 3 = Inr (Some i)"
    "Packet_GetAttributeValue word_class (message h ?as) 158 = Inr (if sched_flags f = 0 then None else Some (sched_flags f))"
    "Packet_GetAttributeValue vector_class (message h ?as) 247 =
      Inr (if flag_relative_rssi f then Some [0, ucast (r2 - r5)] else None)"
    using u32_attr.value_by_find [OF wf, of 3 3 "Some i" h]
      u32_attr.value_by_find [OF wf, of 158 158 "if sched_flags f = 0 then None else Some (sched_flags f)" h]
      vector_attr.value_by_find [OF wf, of 247 247 "if flag_relative_rssi f then Some [0, ucast (r2 - r5)] else None" h]
      found(1,6,7)
    by (simp_all add: u32_attribute_fun fits_def split: if_splits)
  moreover have "read_list read_match_set (message h ?as) 132 = Inr (Some (map (\<lambda>x. Inr (Some x, Some r5)) match_ssids))"
    "listed_values vector_class (message h ?as) 45 = Inr (Some ssids)"
    "listed_values word_class (message h ?as) 44 = Inr (if freqs = [] then None else Some freqs)"
    using match_sets_facts(4) [OF ok(3,4), of r5] ssids_attribute_facts(3) [OF ok(1,2)] freqs_attribute_facts(3) [OF ok(5)]
    by (simp_all add: read_list_def listed_values_def Packet_GetAttribute_message [OF wf] found)
  ultimately show ?thesis
    using fits assms(2) interval_attribute_reads [OF assms(1), of h i r2 r5 "flag_relative_rssi f" "sched_flags f"]
    by (simp add: p Packet_IsValid_message h_def Let_def split: if_splits)
qed

theorem sched_scan_request_reads_back_witness:
  "let p = sched_scan_request 5 \<lparr>setting_plans = [], setting_final_interval_ms = 20000\<rparr> (-80) (-77) (-77)
      \<lparr>flag_random_mac = True, flag_low_power = False, flag_relative_rssi = True\<rparr> [[]] [[104]] [2412] (NL80211Packet 28 75 7 99) in
   Packet_GetAttributeValue word_class p 119 = Inr (Some (20000 :: u32)) \<and>
   read_list read_match_set p 132 = Inr (Some [Inr (Some [104], Some (-77))])"
proof -
  have "sched_request_ok \<lparr>setting_plans = [], setting_final_interval_ms = 20000\<rparr> [[]] [[104]] [2412]"
    by (simp add: sched_request_ok_def)
  from sched_scan_request_reads_back [OF this, of 28 5 "-80" "-77" "-77"
      "\<lparr>flag_random_mac = True, flag_low_power = False, flag_relative_rssi = True\<rparr>" 7 99]
  show ?thesis by (simp add: Let_def)
qed

section \<open>Scan results\<close>

text \<open>What the kernel reports of one BSS, and its encoding as a nested attribute.\<close>

record bss_report =
  report_bssid :: bytes
  report_freq :: u32
  report_elements :: "(u8 \<times> bytes) list"
  report_boottime_ns :: "u64 option"
  report_tsf_us :: "u64 option"
  report_beacon_tsf_us :: "u64 option"
  report_signal :: u32
  report_capability :: u16
  report_status :: "u32 option"
  report_chains :: "(nat \<times> u8) list"

abbreviation optional :: "('a \<Rightarrow> attr) \<Rightarrow> 'a option \<Rightarrow> attr list" where
  "optional mk r \<equiv> (case r of None \<Rightarrow> [] | Some v \<Rightarrow> [mk v])"

definition chain_attrs :: "(nat \<times> u8) list \<Rightarrow> attr list" where
  "chain_attrs levels = map (\<lambda>(i, v). make_attr word_class i v) levels"

definition bss_attrs :: "bss_report \<Rightarrow> attr list" where
  "bss_attrs r =
     [make_attr mac_class NL80211_BSS_BSSID (report_bssid r), make_attr word_class NL80211_BSS_FREQUENCY (report_freq r),
      make_attr vector_class NL80211_BSS_INFORMATION_ELEMENTS (concat (map element (report_elements r))),
      make_attr word_class NL80211_BSS_SIGNAL_MBM (report_signal r),
      make_attr word_class NL80211_BSS_CAPABILITY (report_capability r)] @
     optional (make_attr word_class NL80211_BSS_LAST_SEEN_BOOTTIME) (report_boottime_ns r) @
     optional (make_attr word_class NL80211_BSS_TSF) (report_tsf_us r) @
     optional (make_attr word_class NL80211_BSS_BEACON_TSF) (report_beacon_tsf_us r) @
     optional (make_attr word_class NL80211_BSS_STATUS) (report_status r) @
     (if report_chains r = [] then [] else [nested_attr NL80211_BSS_CHAIN_SIGNAL (chain_attrs (report_chains r))])"

definition bss_report_ok :: "bss_report \<Rightarrow> bool" where
  "bss_report_ok r \<longleftrightarrow>
     length (report_bssid r) = 6 \<and> (\<forall>e \<in> set (report_elements r). short_element e) \<and>
     length (concat (map element (report_elements r))) < 30000 \<and>
     (\<forall>(i, v) \<in> set (report_chains r). i < 65536) \<and> length (report_chains r) < 1000"

text \<open>What the framework should be told, if there is an SSID and a time stamp.\<close>

definition report_timestamp :: "bss_report \<Rightarrow> u64 option" where
  "report_timestamp r =
     (case report_boottime_ns r of
        Some ns \<Rightarrow> Some (ns div 1000)
      | None \<Rightarrow> (case report_tsf_us r of
                  None \<Rightarrow> None
                | Some tsf \<Rightarrow> Some (case report_beacon_tsf_us r of None \<Rightarrow> tsf | Some b \<Rightarrow> max tsf b)))"

definition expected_result :: "bss_report \<Rightarrow> native_scan_result option" where
  "expected_result r =
     (case (find (\<lambda>e. fst e = 0) (report_elements r), report_timestamp r) of
        (Some e, Some tsf) \<Rightarrow> Some
          \<lparr>scan_ssid = snd e, scan_bssid = report_bssid r, scan_info_element = concat (map element (report_elements r)),
           scan_frequency = report_freq r, scan_signal_mbm = report_signal r, scan_tsf = tsf,
           scan_capability = report_capability r,
           scan_associated = (report_status r = Some 0 \<or> report_status r = Some 1),
           scan_chain_infos = map (\<lambda>(i, v). \<lparr>chain_id = of_nat i, chain_level = scast v\<rparr>) (report_chains r)\<rparr>
      | _ \<Rightarrow> None)"

lemma attrs_list_loop_chains:
  "attrs_list_loop (word_class :: u8 attr_class) (concat (chain_attrs levels)) acc = Some (acc @ chain_attrs levels)"
proof (induction levels arbitrary: acc)
  case Nil
  show ?case by (subst attrs_list_loop.simps) (simp add: chain_attrs_def)
next
  case (Cons p levels)
  obtain i v where p: "p = (i, v)" by (cases p)
  note a = wf_attrD [OF u8_attr.wf_make [OF TrueI, of i v]]
  show ?case
    using Cons a(1,2)
    by (subst attrs_list_loop.simps) (simp add: chain_attrs_def p nla_len_append Let_def u8_attr.valid_make)
qed

lemma wf_chain_attrs: "wf_attrs (chain_attrs levels)" "length (concat (chain_attrs levels)) \<le> 8 * length levels"
proof -
  show "wf_attrs (chain_attrs levels)" by (auto simp: chain_attrs_def wf_attrs_def u8_attr.wf_make)
  have "length (concat (chain_attrs levels)) \<le> 8 * length (chain_attrs levels)"
    by (rule length_concat_le) (auto simp: chain_attrs_def length_word_attr [of 1] NLA_ALIGN_def)
  then show "length (concat (chain_attrs levels)) \<le> 8 * length levels" by (simp add: chain_attrs_def)
qed

lemma chain_infos_loop_chains:
  "\<forall>(i, v) \<in> set levels. i < 65536 \<Longrightarrow>
     chain_infos_loop (chain_attrs levels) = Inr (map (\<lambda>(i, v). \<lparr>chain_id = of_nat i, chain_level = scast v\<rparr>) levels)"
proof (induction levels)
  case (Cons p levels)
  obtain i v where p: "p = (i, v)" by (cases p)
  have "GetAttributeId (make_attr word_class i v) = Inr i"
    using Cons.prems by (simp add: p word_class_def make_int_attr_tlv GetAttributeId_tlv)
  moreover have "get_value word_class (make_attr word_class i v) = Inr v" by (rule u8_attr.get_make) simp
  ultimately show ?case using Cons by (simp add: chain_attrs_def p)
qed (simp add: chain_attrs_def)

context attr_codec
begin

lemma nested_value_by_find:
  assumes "wf_attrs as" "find (\<lambda>a. nla_type a = t) as = map_option (make_attr T j) r" "\<And>v. r = Some v \<Longrightarrow> ok v"
  shows "GetAttributeValue T (nested_attr i as) t = Inr r"
  using assms GetAttributeValue_found [of as t j _ i] GetAttributeValue_absent [of as t i]
  by (cases r) (simp_all add: find_None_ball)

end

text \<open>Each attribute is found under its identifier.\<close>

lemma bss_attrs_wf:
  assumes "bss_report_ok r"
  shows "wf_attrs (bss_attrs r)" "length (concat (bss_attrs r)) \<le> 40000"
proof -
  have ok: "length (report_bssid r) = 6" "length (concat (map element (report_elements r))) < 30000"
    "length (report_chains r) < 1000"
    using assms by (auto simp: bss_report_ok_def)
  let ?chains = "nested_attr 19 (chain_attrs (report_chains r))"
  have chain: "wf_attr ?chains" "length ?chains \<le> 8004"
    using wf_chain_attrs [of "report_chains r"] ok(3) by (simp_all add: nested_attr_wf nested_attr_facts fits_def)
  have fits: "fits (concat (map element (report_elements r)))" using ok(2) by (simp add: fits_def)
  show "wf_attrs (bss_attrs r)"
    using chain(1) ok(1) fits
    by (simp add: bss_attrs_def mac_attr.wf_make vector_attr.wf_make u32_attr.wf_make u16_attr.wf_make
        u64_attr.wf_make split: option.split)
  have "length (make_attr vector_class 6 (concat (map element (report_elements r)))) \<le> 30010"
    using ok(2) NLA_ALIGN_less [of "length (concat (map element (report_elements r)))"] by (simp add: length_bytes_attrs)
  then show "length (concat (bss_attrs r)) \<le> 40000"
    using chain(2) ok(1)
    by (auto simp: bss_attrs_def length_word_attr [of 4] length_word_attr [of 2] length_word_attr [of 8]
        length_bytes_attrs(2) NLA_ALIGN_def split: option.split)
qed

lemma bss_types:
  "nla_type (make_attr word_class t (v4 :: u32)) = t mod 65536" "nla_type (make_attr word_class t (v2 :: u16)) = t mod 65536"
  "nla_type (make_attr word_class t (v8 :: u64)) = t mod 65536" "nla_type (nested_attr t as) = t mod 65536"
  by (simp_all add: u32_attr.type_make u16_attr.type_make u64_attr.type_make nested_attr_facts)

lemma bss_attrs_found:
  assumes "bss_report_ok r"
  shows "find (\<lambda>a. nla_type a = 1) (bss_attrs r) = Some (make_attr mac_class 1 (report_bssid r))"
    "find (\<lambda>a. nla_type a = 2) (bss_attrs r) = Some (make_attr word_class 2 (report_freq r))"
    "find (\<lambda>a. nla_type a = 6) (bss_attrs r) = Some (make_attr vector_class 6 (concat (map element (report_elements r))))"
    "find (\<lambda>a. nla_type a = 7) (bss_attrs r) = Some (make_attr word_class 7 (report_signal r))"
    "find (\<lambda>a. nla_type a = 5) (bss_attrs r) = Some (make_attr word_class 5 (report_capability r))"
    "find (\<lambda>a. nla_type a = 15) (bss_attrs r) = map_option (make_attr word_class 15) (report_boottime_ns r)"
    "find (\<lambda>a. nla_type a = 3) (bss_attrs r) = map_option (make_attr word_class 3) (report_tsf_us r)"
    "find (\<lambda>a. nla_type a = 13) (bss_attrs r) = map_option (make_attr word_class 13) (report_beacon_tsf_us r)"
    "find (\<lambda>a. nla_type a = 9) (bss_attrs r) = map_option (make_attr word_class 9) (report_status r)"
    "find (\<lambda>a. nla_type a = 19) (bss_attrs r) =
       (if report_chains r = [] then None else Some (nested_attr 19 (chain_attrs (report_chains r))))"
proof -
  have "length (report_bssid r) = 6" "fits (concat (map element (report_elements r)))"
    using assms by (auto simp: bss_report_ok_def fits_def)
  then have types: "nla_type (make_attr mac_class t (report_bssid r)) = t mod 65536"
    "nla_type (make_attr vector_class t (concat (map element (report_elements r)))) = t mod 65536" for t
    by (simp_all add: mac_attr.type_make vector_attr.type_make)
  show "find (\<lambda>a. nla_type a = 1) (bss_attrs r) = Some (make_attr mac_class 1 (report_bssid r))"
    "find (\<lambda>a. nla_type a = 2) (bss_attrs r) = Some (make_attr word_class 2 (report_freq r))"
    "find (\<lambda>a. nla_type a = 6) (bss_attrs r) = Some (make_attr vector_class 6 (concat (map element (report_elements r))))"
    "find (\<lambda>a. nla_type a = 7) (bss_attrs r) = Some (make_attr word_class 7 (report_signal r))"
    "find (\<lambda>a. nla_type a = 5) (bss_attrs r) = Some (make_attr word_class 5 (report_capability r))"
    "find (\<lambda>a. nla_type a = 15) (bss_attrs r) = map_option (make_attr word_class 15) (report_boottime_ns r)"
    "find (\<lambda>a. nla_type a = 3) (bss_attrs r) = map_option (make_attr word_class 3) (report_tsf_us r)"
    "find (\<lambda>a. nla_type a = 13) (bss_attrs r) = map_option (make_attr word_class 13) (report_beacon_tsf_us r)"
    "find (\<lambda>a. nla_type a = 9) (bss_attrs r) = map_option (make_attr word_class 9) (report_status r)"
    "find (\<lambda>a. nla_type a = 19) (bss_attrs r) =
       (if report_chains r = [] then None else Some (nested_attr 19 (chain_attrs (report_chains r))))"
    by (simp_all add: bss_attrs_def types bss_types split: option.split)
qed

lemma parse_bss_report:
  assumes "bss_report_ok r"
  shows "parse_bss (nested_attr i (bss_attrs r)) = Inr (expected_result r)"
proof -
  let ?b = "nested_attr i (bss_attrs r)"
  note wf = bss_attrs_wf(1) [OF assms] and found = bss_attrs_found [OF assms]
  have ok: "length (report_bssid r) = 6" "fits (concat (map element (report_elements r)))"
    "\<forall>e \<in> set (report_elements r). short_element e" "\<forall>(i, v) \<in> set (report_chains r). i < 65536"
    using assms by (auto simp: bss_report_ok_def fits_def)
  have members: "GetAttributeValue mac_class ?b (Suc 0) = Inr (Some (report_bssid r))"
    "GetAttributeValue word_class ?b 2 = Inr (Some (report_freq r))"
    "GetAttributeValue vector_class ?b 6 = Inr (Some (concat (map element (report_elements r))))"
    "GetAttributeValue word_class ?b 7 = Inr (Some (report_signal r))"
    "GetAttributeValue word_class ?b 5 = Inr (Some (report_capability r))"
    using mac_attr.GetAttributeValue_found [OF wf found(1)] u32_attr.GetAttributeValue_found [OF wf found(2)]
      vector_attr.GetAttributeValue_found [OF wf found(3)] u32_attr.GetAttributeValue_found [OF wf found(4)]
      u16_attr.GetAttributeValue_found [OF wf found(5)] ok by simp_all
  have options: "GetAttributeValue word_class ?b 15 = Inr (report_boottime_ns r)"
    "GetAttributeValue word_class ?b 3 = Inr (report_tsf_us r)"
    "GetAttributeValue word_class ?b 13 = Inr (report_beacon_tsf_us r)"
    "GetAttributeValue word_class ?b 9 = Inr (report_status r)"
    using u64_attr.nested_value_by_find [OF wf found(6)] u64_attr.nested_value_by_find [OF wf found(7)]
      u64_attr.nested_value_by_find [OF wf found(8)] u32_attr.nested_value_by_find [OF wf found(9)] by simp_all
  have ssid: "GetSSIDFromInfoElement (concat (map element (report_elements r))) =
      map_option snd (find (\<lambda>e. fst e = 0) (report_elements r))"
    using GetSSIDFromInfoElement_elements [OF ok(3), of "[]"] by (simp add: cut_short_def)
  have stamp: "GetBssTimestamp ?b = Inr (report_timestamp r)"
    by (simp add: GetBssTimestamp_def report_timestamp_def options split: option.split)
  have infos: "ParseRadioChainInfos ?b = Inr (map (\<lambda>(i, v). \<lparr>chain_id = of_nat i, chain_level = scast v\<rparr>) (report_chains r))"
    using attrs_list_loop_chains [of "report_chains r" "[]"] chain_infos_loop_chains [OF ok(4)]
    by (simp add: ParseRadioChainInfos_def GetNestedAttribute_nested [OF wf] found(10) GetListOfAttributes_def
        drop_nested_attr wf_chain_attrs)
  have assoc: "(case s of None \<Rightarrow> False | Some st \<Rightarrow>
      unat st = NL80211_BSS_STATUS_AUTHENTICATED \<or> unat st = NL80211_BSS_STATUS_ASSOCIATED) = (s = Some 0 \<or> s = Some (1 :: u32))" for s
    by (auto simp: word_unat_eq_iff split: option.split)
  show ?thesis
    by (cases "find (\<lambda>e. fst e = 0) (report_elements r)"; cases "report_timestamp r")
      (simp_all add: parse_bss_def members options ssid expected_result_def stamp infos assoc)
qed

text \<open>
  A scan result is parsed faithfully: for a packet with everything the kernel reports of a BSS,
  \<open>ParseScanResult\<close> returns its BSSID, frequency, information elements, the SSID element in
  them, signal, capability, the association state, the signal per radio chain, and as time
  stamp the boot time in microseconds when there is one, otherwise the later of the two TSF values.
  Without an SSID element or without any time stamp the result is refused.
\<close>

theorem scan_result_parsed:
  assumes "bss_report_ok r"
  shows "ParseScanResult
      (build_packet (NL80211Packet family NL80211_CMD_NEW_SCAN_RESULTS n pid)
        [ifindex_attr i, build_nested NL80211_ATTR_BSS (bss_attrs r)]) before = Inr (expected_result r)"
proof -
  note wf = bss_attrs_wf [OF assms]
  have nested: "build_nested 47 (bss_attrs r) = nested_attr 47 (bss_attrs r)"
    using wf by (simp add: build_nested_nested fits_def)
  have attrs: "wf_attrs [ifindex_attr i, nested_attr 47 (bss_attrs r)]"
    using wf by (simp add: nested_attr_wf fits_def)
  have "fits_message [ifindex_attr i, nested_attr 47 (bss_attrs r)]"
    using wf by (simp add: fits_message_def nested_attr_facts ifindex_attr_def length_word_attr [of 4] NLA_ALIGN_def)
  then show ?thesis
    using parse_bss_report [OF assms, of 47]
    by (simp add: nested NL80211Packet_message build_packet_message ParseScanResult_def
        Packet_GetAttribute_message [OF attrs] nested_attr_facts)
qed

definition example_report :: bss_report where
  "example_report =
     \<lparr>report_bssid = [2, 0, 0, 0, 0, 1], report_freq = 2437, report_elements = [(0, [119, 105]), (1, [130])],
      report_boottime_ns = None, report_tsf_us = Some 500, report_beacon_tsf_us = Some 700, report_signal = -4500,
      report_capability = 17, report_status = Some 1, report_chains = [(0, 200), (1, 180)]\<rparr>"

theorem scan_result_parsed_witness:
  "\<exists>x. ParseScanResult
      (build_packet (NL80211Packet 28 NL80211_CMD_NEW_SCAN_RESULTS 7 99)
        [ifindex_attr 5, build_nested NL80211_ATTR_BSS (bss_attrs example_report)]) blank_scan_result = Inr (Some x) \<and>
     scan_ssid x = [119, 105] \<and> scan_tsf x = 700 \<and> scan_associated x \<and> length (scan_chain_infos x) = 2"
proof -
  have "bss_report_ok example_report"
    by (simp add: bss_report_ok_def example_report_def short_element_def element_def)
  from scan_result_parsed [OF this, of 28 7 99 5 blank_scan_result] show ?thesis
    by (simp add: expected_result_def report_timestamp_def example_report_def)
qed

end
