(* ===== verification/Startup_Properties.thy ===== *)
theory Startup_Properties
  imports Server_Steps Scan_Properties
begin

text \<open>
  Start-up: the reply of the kernel's generic netlink controller is parsed into the family id
  and the multicast groups, and the manager starts exactly when the socket is watched and the
  three groups it needs exist and can be joined.
\<close>

section \<open>The controller's reply\<close>

definition group_attr :: "nat \<Rightarrow> bytes \<times> u32 \<Rightarrow> attr" where
  "group_attr i g = nested_attr i [make_attr string_class CTRL_ATTR_MCAST_GRP_NAME (fst g),
     u32_attribute CTRL_ATTR_MCAST_GRP_ID (snd g)]"

definition family_reply :: "u32 \<Rightarrow> u16 \<Rightarrow> (bytes \<times> u32) list \<Rightarrow> packet" where
  "family_reply k f gs =
     message \<lparr>msg_type = 16, msg_flags = 0, msg_seq = k, msg_pid = 0, msg_cmd = 1\<rparr>
       [make_attr word_class CTRL_ATTR_FAMILY_ID f, make_attr string_class CTRL_ATTR_FAMILY_NAME NL80211_GENL_NAME,
        nested_attr CTRL_ATTR_MCAST_GROUPS (map (\<lambda>(i, g). group_attr i g) (enumerate 1 gs))]"

definition group_ok :: "bytes \<times> u32 \<Rightarrow> bool" where
  "group_ok g \<longleftrightarrow> length (fst g) \<le> 15 \<and> (fst g = [] \<or> last (fst g) \<noteq> 0)"

text \<open>The groups by name; of two with one name the later counts.\<close>

definition group_table :: "(bytes \<times> u32) list \<Rightarrow> (bytes, u32) omap" where
  "group_table gs = fold (\<lambda>(name, i). map_set name i) gs []"

lemma group_attr_facts:
  assumes "group_ok g"
  shows "wf_attr (group_attr i g)" "length (group_attr i g) \<le> 36"
    "GetAttributeValue string_class (group_attr i g) 1 = Inr (Some (fst g))"
    "GetAttributeValue word_class (group_attr i g) 2 = Inr (Some (snd g))"
proof -
  have name: "plain_string (fst g)" using assms by (simp add: group_ok_def plain_string_def fits_def)
  have len: "length (make_attr string_class 1 (fst g)) \<le> 24"
    using assms NLA_ALIGN_less [of "length (fst g) + 1"] by (simp add: group_ok_def length_bytes_attrs)
  let ?as = "[make_attr string_class 1 (fst g), u32_attribute 2 (snd g)]"
  have wf: "wf_attrs ?as" by (simp add: string_attr.wf_make name u32_attribute_facts)
  have types: "nla_type (make_attr string_class 1 (fst g)) = 1" by (simp add: string_attr.type_make name)
  show "wf_attr (group_attr i g)" "length (group_attr i g) \<le> 36"
    using len wf by (simp_all add: group_attr_def nested_attr_wf nested_attr_facts fits_def u32_attribute_facts)
  show "GetAttributeValue string_class (group_attr i g) 1 = Inr (Some (fst g))"
    unfolding group_attr_def CTRL_ATTR_MCAST_GRP_NAME_def CTRL_ATTR_MCAST_GRP_ID_def
    by (intro string_attr.GetAttributeValue_found [where j = 1] wf) (simp_all add: types [unfolded One_nat_def] name)
  show "GetAttributeValue word_class (group_attr i g) 2 = Inr (Some (snd g))"
    unfolding group_attr_def CTRL_ATTR_MCAST_GRP_NAME_def CTRL_ATTR_MCAST_GRP_ID_def
    by (intro u32_attr.GetAttributeValue_found [where j = 2] wf)
      (simp_all add: types [unfolded One_nat_def] u32_attribute_facts, simp add: u32_attribute_def)
qed

lemma add_groups_table:
  assumes "\<forall>p \<in> set igs. group_ok (snd p)" "map_find (message_types s) name = Some t"
  shows "\<exists>mt. add_groups name (map (\<lambda>(i, g). group_attr i g) igs) s = Inr (s\<lparr>message_types := mt\<rparr>) \<and>
    map_find mt name = Some (t\<lparr>groups := fold (\<lambda>(n, i). map_set n i) (map snd igs) (groups t)\<rparr>)"
  using assms
proof (induction igs arbitrary: s t)
  case Nil
  then show ?case by (intro exI [of _ "message_types s"]) simp
next
  case (Cons p igs)
  obtain i n gid where p: "p = (i, n, gid)" by (cases p) auto
  then have ok: "group_ok (n, gid)" using Cons.prems by simp
  let ?t = "t\<lparr>groups := map_set n gid (groups t)\<rparr>"
  let ?s = "s\<lparr>message_types := map_set name ?t (message_types s)\<rparr>"
  have first: "add_groups name (map (\<lambda>(i, g). group_attr i g) (p # igs)) s =
      add_groups name (map (\<lambda>(i, g). group_attr i g) igs) ?s"
    using group_attr_facts(3,4) [OF ok, of i] Cons.prems(2) by (simp add: p message_type_entry_def)
  obtain mt where "add_groups name (map (\<lambda>(i, g). group_attr i g) igs) ?s = Inr (?s\<lparr>message_types := mt\<rparr>)"
      "map_find mt name = Some (?t\<lparr>groups := fold (\<lambda>(n, i). map_set n i) (map snd igs) (groups ?t)\<rparr>)"
    using Cons.IH [of ?s ?t] Cons.prems by auto
  then show ?case unfolding first by (intro exI [of _ mt]) (simp add: p)
qed

lemma family_reply_facts:
  assumes "\<forall>g \<in> set gs. group_ok g" "length gs \<le> 100"
  shows "single_reply k (family_reply k f gs)" "length (family_reply k f gs) \<le> 4000"
    "GetMessageType (family_reply k f gs) = Inr 16" "GetCommand (family_reply k f gs) = Inr 1"
    "Packet_GetAttributeValue word_class (family_reply k f gs) 1 = Inr (Some f)"
    "Packet_GetAttributeValue string_class (family_reply k f gs) 2 = Inr (Some NL80211_GENL_NAME)"
    "\<exists>a. Packet_GetAttribute (family_reply k f gs) 7 = Inr (Some a) \<and>
       GetListOfNestedAttributes a = Some (map (\<lambda>(i, g). group_attr i g) (enumerate 1 gs))"
proof -
  let ?gs = "map (\<lambda>(i, g). group_attr i g) (enumerate 1 gs)"
  let ?as = "[make_attr word_class 1 f, make_attr string_class 2 NL80211_GENL_NAME, nested_attr 7 ?gs]"
  have "length (concat ?gs) \<le> 36 * length gs"
    using assms(1) by (intro length_numbered_list) (simp add: group_attr_facts)
  then have len: "length (concat ?gs) \<le> 3600" using assms(2) by linarith
  have "group_ok (snd p)" if "p \<in> set (enumerate 1 gs)" for p
    using that assms(1) nth_mem [of "fst p - 1" gs] by (auto simp: in_set_enumerate_eq)
  then have wfg: "wf_attrs ?gs" by (force simp: wf_attrs_def group_attr_facts)
  have name: "plain_string NL80211_GENL_NAME" by (simp add: plain_string_def NL80211_GENL_NAME_def fits_def ascii_def)
  have attrs: "wf_attr (make_attr word_class 1 f)" "nla_type (make_attr word_class 1 f) = 1"
    "wf_attr (make_attr string_class 2 NL80211_GENL_NAME)" "nla_type (make_attr string_class 2 NL80211_GENL_NAME) = 2"
    by (simp_all add: u16_attr.wf_make u16_attr.type_make string_attr.wf_make string_attr.type_make name)
  have wf: "wf_attrs ?as" using len by (simp add: attrs [unfolded One_nat_def] nested_attr_wf fits_def)
  have total: "length (concat ?as) \<le> 3700"
    using len wfg by (simp add: length_bytes_attrs length_word_attr [of 2] NLA_ALIGN_def nested_attr_facts
        NL80211_GENL_NAME_def ascii_def)
  then show "length (family_reply k f gs) \<le> 4000" by (simp add: family_reply_def)
  show "GetMessageType (family_reply k f gs) = Inr 16" "GetCommand (family_reply k f gs) = Inr 1"
    by (simp_all add: family_reply_def)
  show "single_reply k (family_reply k f gs)"
    using total by (auto simp: single_reply_def family_reply_def framed_message fits_message_def IsMulti_message)
  show "Packet_GetAttributeValue word_class (family_reply k f gs) 1 = Inr (Some f)"
    unfolding family_reply_def using wf by (intro u16_attr.Packet_value_found [where j = 1]) (simp_all add: attrs [unfolded One_nat_def])
  show "Packet_GetAttributeValue string_class (family_reply k f gs) 2 = Inr (Some NL80211_GENL_NAME)"
    unfolding family_reply_def using wf by (intro string_attr.Packet_value_found [where j = 2]) (simp_all add: attrs [unfolded One_nat_def] name)
  show "\<exists>a. Packet_GetAttribute (family_reply k f gs) 7 = Inr (Some a) \<and> GetListOfNestedAttributes a = Some ?gs"
    using wf wfg by (simp add: family_reply_def Packet_GetAttribute_message attrs [unfolded One_nat_def] nested_attr_facts GetListOfNestedAttributes_nested)
qed

section \<open>Discovery and start\<close>

lemma next_sequence_nonzero: "fst (GetSequenceNumber s) \<noteq> 0"
  using unat_next_sequence [of s] by auto

lemma request_sequence:
  "wf_attr a \<Longrightarrow> length a < 60000 \<Longrightarrow> GetMessageSequence (Packet_AddAttribute a (NL80211Packet t c k p)) = Inr k"
  by (simp add: NL80211Packet_message Packet_AddAttribute_message fits_message_def)

lemma OnNewFamily_reply:
  assumes "\<forall>g \<in> set gs. group_ok g" "length gs \<le> 100"
  shows "\<exists>mt e. OnNewFamily (family_reply k f gs) s = Inr (s\<lparr>message_types := mt\<rparr>) \<and>
    map_find mt NL80211_GENL_NAME = Some e \<and> family_id e = Some f \<and> groups e = group_table gs"
proof -
  note reply = family_reply_facts [OF assms, of k f]
  obtain a where a: "Packet_GetAttribute (family_reply k f gs) 7 = Inr (Some a)"
      "GetListOfNestedAttributes a = Some (map (\<lambda>(i, g). group_attr i g) (enumerate 1 gs))"
    using reply(7) by blast
  let ?t = "\<lparr>family_id = Some f, groups = []\<rparr>"
  let ?s = "s\<lparr>message_types := map_set NL80211_GENL_NAME ?t (message_types s)\<rparr>"
  have "\<forall>p \<in> set (enumerate 1 gs). group_ok (snd p)"
  proof
    fix p assume "p \<in> set (enumerate 1 gs)"
    then show "group_ok (snd p)" using assms(1) nth_mem [of "fst p - 1" gs] by (auto simp: in_set_enumerate_eq)
  qed
  then obtain mt where mt: "add_groups NL80211_GENL_NAME (map (\<lambda>(i, g). group_attr i g) (enumerate 1 gs)) ?s =
        Inr (?s\<lparr>message_types := mt\<rparr>)"
      "map_find mt NL80211_GENL_NAME = Some (?t\<lparr>groups := fold (\<lambda>(n, i). map_set n i) (map snd (enumerate 1 gs)) []\<rparr>)"
    using add_groups_table [of "enumerate 1 gs" ?s NL80211_GENL_NAME ?t] by auto
  have "OnNewFamily (family_reply k f gs) s = Inr (?s\<lparr>message_types := mt\<rparr>)"
    using reply(3-6) a mt(1) by (simp add: OnNewFamily_def Let_def)
  with mt(2) show ?thesis
    by (intro exI [of _ mt] exI [of _ "?t\<lparr>groups := group_table gs\<rparr>"]) (simp add: group_table_def)
qed

lemma DiscoverFamilyId_answered:
  fixes s :: "'a nlm_scheme"
  defines "k \<equiv> fst (GetSequenceNumber s)"
  assumes "length (ReceiveBuffer s) = 8192" "\<forall>g \<in> set gs. group_ok g" "length gs \<le> 100" "t < 4000"
    and "will_answer s (PollReady (ReadBytes (family_reply k f gs)) t # ps) rest"
  shows "\<exists>s' e. DiscoverFamilyId run s = Inr (True, s') \<and> map_find (message_types s') NL80211_GENL_NAME = Some e \<and>
    family_id e = Some f \<and> groups e = group_table gs \<and> async_netlink_fd s' = async_netlink_fd s \<and>
    net_script s' = rest \<and> length (ReceiveBuffer s') = 8192 \<and> sequence_number s' = k \<and>
    watched_fds s' = watched_fds s \<and> is_started s' = is_started s \<and> interceptor_enabled s' = interceptor_enabled s"
proof -
  note reply = family_reply_facts [OF assms(3,4), of k f]
  let ?s = "s\<lparr>sequence_number := k\<rparr>"
  let ?p = "Packet_AddAttribute (make_string_attr 2 NL80211_GENL_NAME) (NL80211Packet 16 3 k (own_pid s))"
  have seq: "GetSequenceNumber s = (k, ?s)"
    by (simp add: k_def GetSequenceNumber_def Let_def)
  have name: "plain_string NL80211_GENL_NAME" by (simp add: plain_string_def NL80211_GENL_NAME_def fits_def ascii_def)
  have "GetMessageSequence ?p = Inr k"
    using string_attr.wf_make [OF name, of 2]
    by (intro request_sequence) (simp_all add: string_class_def make_string_attr_tlv length_tlv NLA_ALIGN_def
        NL80211_GENL_NAME_def ascii_def)
  moreover have "k \<noteq> 0" unfolding k_def by (rule next_sequence_nonzero)
  ultimately obtain B where B: "length B = 8192" "SendMessageAndGetSingleResponse run ?p ?s =
      Inr (Some (family_reply k f gs), request_done ?p k [family_reply k f gs] B ?s)"
    using SingleResponse_single [of ?s ?p k "family_reply k f gs" t ps rest run] assms reply(1,2,3)
    by (auto simp: will_answer_def)
  obtain mt e where "OnNewFamily (family_reply k f gs) (request_done ?p k [family_reply k f gs] B ?s) =
      Inr ((request_done ?p k [family_reply k f gs] B ?s)\<lparr>message_types := mt\<rparr>)"
    "map_find mt NL80211_GENL_NAME = Some e" "family_id e = Some f" "groups e = group_table gs"
    using OnNewFamily_reply [OF assms(3,4)] by blast
  with B assms(6) show ?thesis
    by (intro exI [of _ "(request_done ?p k [family_reply k f gs] B ?s)\<lparr>message_types := mt\<rparr>"] exI [of _ e])
      (simp add: DiscoverFamilyId_def seq will_answer_def request_done_def)
qed

text \<open>Whether a multicast group was announced and could be joined.\<close>

definition joined :: "(u32 \<Rightarrow> bool) \<Rightarrow> (bytes \<times> u32) list \<Rightarrow> bytes \<Rightarrow> bool" where
  "joined member_ok gs name = (case map_find (group_table gs) name of None \<Rightarrow> False | Some i \<Rightarrow> member_ok i)"

definition plain_socket :: "socket_env \<Rightarrow> bool" where
  "plain_socket env \<longleftrightarrow> 0 \<le> sock_fd env \<and> rcvbuf_ok env \<and> bind_ok env"

lemma Start_answered:
  assumes "length (ReceiveBuffer (s :: 'a srv_scheme)) = 8192" "\<not> is_started s" "\<not> interceptor_enabled s"
    and "plain_socket sync_env" "plain_socket async_env"
    and "\<forall>g \<in> set gs. group_ok g" "length gs \<le> 100" "t < 4000"
    and "will_answer s (PollReady (ReadBytes (family_reply (fst (GetSequenceNumber s)) f gs)) t # ps) rest"
  shows "\<exists>s'. Start (dispatch n) sync_env async_env watch_ok member_ok s =
      Inr (watch_ok \<and> joined member_ok gs NL80211_MULTICAST_GROUP_REG \<and> joined member_ok gs NL80211_MULTICAST_GROUP_SCAN \<and>
           joined member_ok gs NL80211_MULTICAST_GROUP_MLME, s') \<and>
    is_started s' = (watch_ok \<and> joined member_ok gs NL80211_MULTICAST_GROUP_REG \<and>
      joined member_ok gs NL80211_MULTICAST_GROUP_SCAN \<and> joined member_ok gs NL80211_MULTICAST_GROUP_MLME) \<and>
    GetFamilyId s' = Inr (f, s') \<and> watched_fds s' = watched_fds s @ (if watch_ok then [sock_fd async_env] else []) \<and>
    net_script s' = rest \<and> sequence_number s' = fst (GetSequenceNumber s) \<and>
    length (ReceiveBuffer s') = 8192 \<and> interceptor_enabled s' = interceptor_enabled s"
proof -
  let ?s = "s\<lparr>sync_netlink_fd := sock_fd sync_env, sync_netlink_destination := sync_netlink_destination s,
      async_netlink_fd := sock_fd async_env, async_netlink_destination := async_netlink_destination s\<rparr>"
  have k: "fst (GetSequenceNumber ?s) = fst (GetSequenceNumber s)" by (simp add: GetSequenceNumber_def Let_def)
  obtain s3 e where d: "DiscoverFamilyId (dispatch n) ?s = Inr (True, s3)" "map_find (message_types s3) NL80211_GENL_NAME = Some e"
    "family_id e = Some f" "groups e = group_table gs" "async_netlink_fd s3 = sock_fd async_env" "net_script s3 = rest"
    "sequence_number s3 = fst (GetSequenceNumber s)" "watched_fds s3 = watched_fds s" "\<not> is_started s3"
    "length (ReceiveBuffer s3) = 8192" "interceptor_enabled s3 = interceptor_enabled s"
    using DiscoverFamilyId_answered [of ?s gs t f ps rest "dispatch n"] assms k by (auto simp: will_answer_def)
  have socks: "Start (dispatch n) sync_env async_env watch_ok member_ok s =
      (let (ok, s4) = WatchSocket watch_ok (sock_fd async_env) s3 in
       if \<not> ok then Inr (False, s4)
       else
         let (ok, s5) = SubscribeToEvents member_ok NL80211_MULTICAST_GROUP_REG s4 in
         if \<not> ok then Inr (False, s5)
         else
           let (ok, s6) = SubscribeToEvents member_ok NL80211_MULTICAST_GROUP_SCAN s5 in
           if \<not> ok then Inr (False, s6)
           else
             let (ok, s7) = SubscribeToEvents member_ok NL80211_MULTICAST_GROUP_MLME s6 in
             if \<not> ok then Inr (False, s7) else Inr (True, s7\<lparr>is_started := True\<rparr>))"
    using assms(2-5) d(1,5) by (simp add: Start_def SetupSocket_def plain_socket_def)
  have sub: "SubscribeToEvents member_ok g s' = (joined member_ok gs g, s')"
    if "message_types s' = message_types s3" for g and s' :: "'a srv_scheme"
    using d(2,4) that by (simp add: SubscribeToEvents_def message_type_entry_def joined_def split: option.split)
  show ?thesis
  proof (cases watch_ok)
    case False
    then have "Start (dispatch n) sync_env async_env watch_ok member_ok s = Inr (False, s3)"
      unfolding socks by (simp add: WatchSocket_def)
    then show ?thesis using d False by (simp add: GetFamilyId_def message_type_entry_def)
  next
    case True
    let ?s4 = "s3\<lparr>watched_fds := watched_fds s3 @ [sock_fd async_env]\<rparr>"
    have "Start (dispatch n) sync_env async_env watch_ok member_ok s =
        (if joined member_ok gs NL80211_MULTICAST_GROUP_REG \<and> joined member_ok gs NL80211_MULTICAST_GROUP_SCAN \<and>
            joined member_ok gs NL80211_MULTICAST_GROUP_MLME
         then Inr (True, ?s4\<lparr>is_started := True\<rparr>) else Inr (False, ?s4))"
      unfolding socks using True by (simp add: WatchSocket_def sub)
    then show ?thesis using d True by (auto simp: GetFamilyId_def message_type_entry_def)
  qed
qed

text \<open>
  C25. The kernel answers the first request with a family id and a list of multicast groups.
  Then \<open>Start\<close> succeeds exactly when the socket could be watched and the groups for regulatory,
  scan and MLME events were announced and joined; the family id is known from then on, and the
  next sequence number was used.
\<close>

theorem start_discovers_family:
  assumes "length (ReceiveBuffer (s :: 'a srv_scheme)) = 8192" "\<not> is_started s" "\<not> interceptor_enabled s"
    and "plain_socket sync_env" "plain_socket async_env"
    and "\<forall>g \<in> set gs. group_ok g" "length gs \<le> 100" "t < 4000"
    and "will_answer s (PollReady (ReadBytes (family_reply (fst (GetSequenceNumber s)) f gs)) t # ps) rest"
  shows "\<exists>s'. Start (dispatch n) sync_env async_env watch_ok member_ok s =
      Inr (watch_ok \<and> joined member_ok gs NL80211_MULTICAST_GROUP_REG \<and> joined member_ok gs NL80211_MULTICAST_GROUP_SCAN \<and>
           joined member_ok gs NL80211_MULTICAST_GROUP_MLME, s') \<and>
    is_started s' = (watch_ok \<and> joined member_ok gs NL80211_MULTICAST_GROUP_REG \<and>
      joined member_ok gs NL80211_MULTICAST_GROUP_SCAN \<and> joined member_ok gs NL80211_MULTICAST_GROUP_MLME) \<and>
    GetFamilyId s' = Inr (f, s') \<and> watched_fds s' = watched_fds s @ (if watch_ok then [sock_fd async_env] else []) \<and>
    net_script s' = rest \<and> sequence_number s' = fst (GetSequenceNumber s)"
  using Start_answered [OF assms] by blast

definition example_groups :: "(bytes \<times> u32) list" where
  "example_groups = [(ascii ''config'', 4), (ascii ''scan'', 5), (ascii ''regulatory'', 6), (ascii ''mlme'', 7)]"

definition good_socket :: socket_env where
  "good_socket = \<lparr>sock_fd = 8, rcvbuf_ok = True, bind_ok = True, interceptor_socket = None\<rparr>"

text \<open>A server before \<open>Start\<close>; the kernel answers the first request with the four groups.\<close>

definition cold_server :: srv where
  "cold_server =
     Server (NetlinkManager [\<lparr>send_ok = True, polls = [PollReady (ReadBytes (family_reply 1 28 example_groups)) 9]\<rparr>] False 99)
       (\<lambda>_. 5) blank_scan_result blank_client (BandInfo, blank_capabilities, blank_features)"

theorem start_discovers_family_witness:
  "\<exists>s'. Start (dispatch 3) good_socket good_socket True (\<lambda>i. True) cold_server = Inr (True, s') \<and>
     GetFamilyId s' = Inr (28, s') \<and> watched_fds s' = [8]"
proof -
  have seq: "fst (GetSequenceNumber cold_server) = 1"
    by (simp add: GetSequenceNumber_def cold_server_def Server_def NetlinkManager_def)
  have "\<forall>g \<in> set example_groups. group_ok g" by (simp add: example_groups_def group_ok_def ascii_def)
  moreover have "will_answer cold_server (PollReady (ReadBytes (family_reply (fst (GetSequenceNumber cold_server)) 28 example_groups)) 9 # []) []"
    unfolding seq by (simp add: will_answer_def cold_server_def Server_def NetlinkManager_def)
  ultimately obtain s' where "Start (dispatch 3) good_socket good_socket True (\<lambda>i. True) cold_server =
        Inr (True \<and> joined (\<lambda>i. True) example_groups NL80211_MULTICAST_GROUP_REG \<and>
          joined (\<lambda>i. True) example_groups NL80211_MULTICAST_GROUP_SCAN \<and>
          joined (\<lambda>i. True) example_groups NL80211_MULTICAST_GROUP_MLME, s')"
      "GetFamilyId s' = Inr (28, s')" "watched_fds s' = watched_fds cold_server @ [8]"
    using start_discovers_family [of cold_server good_socket good_socket example_groups 9 28 "[]" "[]" 3 True "\<lambda>i. True"]
    by (auto simp: cold_server_def Server_def NetlinkManager_def good_socket_def plain_socket_def example_groups_def)
  moreover have "joined (\<lambda>i. True) example_groups g"
    if "g \<in> {NL80211_MULTICAST_GROUP_REG, NL80211_MULTICAST_GROUP_SCAN, NL80211_MULTICAST_GROUP_MLME}" for g
    using that by (auto simp: joined_def group_table_def example_groups_def NL80211_MULTICAST_GROUP_REG_def
        NL80211_MULTICAST_GROUP_SCAN_def NL80211_MULTICAST_GROUP_MLME_def ascii_def)
  ultimately show ?thesis by (auto simp: cold_server_def Server_def NetlinkManager_def)
qed

end
