(* ===== verification/Server_Properties.thy ===== *)
theory Server_Properties
  imports Startup_Properties
begin

text \<open>
  What the operations of the service do: the dump of the interfaces of a wiphy is read back
  exactly; creating an interface stores, registers and announces it; tearing it down undoes
  that; and a run of the whole program from start-up to a live client interface.
\<close>

section \<open>Requests to a kernel that is silent\<close>

definition silent :: "'a nlm_scheme \<Rightarrow> bool" where
  "silent s \<longleftrightarrow> net_script s = [] \<and> \<not> interceptor_enabled s"

lemma silent_request: "silent s \<Longrightarrow> SendMessageAndGetResponses run p r s = Inr (False, r, s)"
  by (simp add: silent_def SendMessageAndGetResponses_def SendMessageInternal_def)

lemma silent_single: "silent s \<Longrightarrow> SendMessageAndGetSingleResponse run p s = Inr (None, s)"
  by (simp add: SendMessageAndGetSingleResponse_def SendMessageAndGetSingleResponseOrError_def silent_request)

definition knows_family :: "u16 \<Rightarrow> 'a nlm_scheme \<Rightarrow> bool" where
  "knows_family f s \<longleftrightarrow> (\<exists>t. map_find (message_types s) NL80211_GENL_NAME = Some t \<and> family_id t = Some f)"

lemma GetFamilyId_knows: "GetFamilyId s = Inr (f, s) \<longleftrightarrow> knows_family f s"
  by (auto simp: knows_family_def GetFamilyId_def message_type_entry_def default_message_type_def split: option.splits)

lemma GetSequenceNumber_pair:
  "GetSequenceNumber s = (fst (GetSequenceNumber s), s\<lparr>sequence_number := fst (GetSequenceNumber s)\<rparr>)"
  by (simp add: GetSequenceNumber_def Let_def)

lemma new_request_known:
  assumes "knows_family f s"
  shows "new_request c s =
     Inr (NL80211Packet f c (fst (GetSequenceNumber s)) (own_pid s), s\<lparr>sequence_number := fst (GetSequenceNumber s)\<rparr>)"
proof -
  have "GetFamilyId s = Inr (f, s)" using assms by (simp add: GetFamilyId_knows)
  then show ?thesis by (simp add: new_request_def) (subst GetSequenceNumber_pair, simp)
qed

lemma knows_family_cong: "message_types s' = message_types s \<Longrightarrow> knows_family f s' = knows_family f s"
  by (simp add: knows_family_def)

lemma silent_cong: "net_script s' = net_script s \<Longrightarrow> interceptor_enabled s' = interceptor_enabled s \<Longrightarrow> silent s' = silent s"
  by (simp add: silent_def)

lemma GetWiphyInfo_silent:
  "knows_family f s \<Longrightarrow> silent s \<Longrightarrow> GetWiphyInfo run w out s =
     Inr (False, out, s\<lparr>sequence_number := fst (GetSequenceNumber s)\<rparr>)"
  by (simp add: GetWiphyInfo_def new_request_known Let_def send_with_retry.simps silent_request silent_def)

section \<open>Dumps\<close>

definition wiphy_message :: "u16 \<Rightarrow> u32 \<Rightarrow> u32 \<Rightarrow> packet" where
  "wiphy_message f k w =
     message \<lparr>msg_type = f, msg_flags = NLM_F_MULTI, msg_seq = k, msg_pid = 0, msg_cmd = NL80211_CMD_NEW_WIPHY\<rparr>
       [u32_attribute NL80211_ATTR_WIPHY w]"

definition interface_message :: "u16 \<Rightarrow> u32 \<Rightarrow> interface_info \<Rightarrow> packet" where
  "interface_message f k i =
     message \<lparr>msg_type = f, msg_flags = NLM_F_MULTI, msg_seq = k, msg_pid = 0, msg_cmd = NL80211_CMD_NEW_INTERFACE\<rparr>
       [u32_attribute NL80211_ATTR_IFINDEX (info_if_index i), make_attr string_class NL80211_ATTR_IFNAME (info_name i),
        make_attr mac_class NL80211_ATTR_MAC (info_mac_address i)]"

definition interface_ok :: "interface_info \<Rightarrow> bool" where
  "interface_ok i \<longleftrightarrow> length (info_name i) \<le> 15 \<and> (info_name i = [] \<or> last (info_name i) \<noteq> 0) \<and>
     length (info_mac_address i) = 6"

lemma multi_message:
  assumes "fits_message as" "4 < unat f"
  shows "multi_reply k (message \<lparr>msg_type = f, msg_flags = 2, msg_seq = k, msg_pid = p, msg_cmd = c\<rparr> as)"
proof -
  have "f \<noteq> 2" using assms(2) by auto
  then show ?thesis using assms by (simp add: multi_reply_def framed_message IsMulti_message)
qed

lemma dump_reply_ok_message:
  assumes "knows_family f s" "4 < unat f" "c < 256"
  shows "dump_reply_ok c (message \<lparr>msg_type = f, msg_flags = g, msg_seq = k, msg_pid = p, msg_cmd = c\<rparr> as) s = Inr (True, s)"
proof -
  have "GetFamilyId s = Inr (f, s)" using assms(1) by (simp add: GetFamilyId_knows)
  then show ?thesis using assms(2,3) by (simp add: dump_reply_ok_def)
qed

lemma interface_message_facts:
  assumes "interface_ok i" "4 < unat f"
  shows "multi_reply k (interface_message f k i)" "length (interface_message f k i) \<le> 100"
    "Packet_GetAttributeValue word_class (interface_message f k i) NL80211_ATTR_IFINDEX = Inr (Some (info_if_index i))"
    "Packet_GetAttributeValue string_class (interface_message f k i) NL80211_ATTR_IFNAME = Inr (Some (info_name i))"
    "Packet_GetAttributeValue mac_class (interface_message f k i) NL80211_ATTR_MAC = Inr (Some (info_mac_address i))"
proof -
  let ?as = "[u32_attribute 3 (info_if_index i), make_attr string_class 4 (info_name i), make_attr mac_class 6 (info_mac_address i)]"
  have name: "plain_string (info_name i)" using assms(1) by (simp add: interface_ok_def plain_string_def fits_def)
  have mac: "length (info_mac_address i) = 6" using assms(1) by (simp add: interface_ok_def)
  note attrs = u32_attribute_facts string_attr.wf_make [OF name] string_attr.type_make [OF name]
    mac_attr.wf_make [OF mac] mac_attr.type_make [OF mac]
  have wf: "wf_attrs ?as" by (simp add: attrs)
  have "length (make_attr string_class 4 (info_name i)) \<le> 24"
    using assms(1) NLA_ALIGN_less [of "length (info_name i) + 1"] by (simp add: interface_ok_def length_bytes_attrs)
  then have len: "length (concat ?as) \<le> 80"
    using mac by (simp add: attrs length_bytes_attrs NLA_ALIGN_def)
  then show "multi_reply k (interface_message f k i)"
    unfolding interface_message_def NLM_F_MULTI_def NL80211_ATTR_IFINDEX_def NL80211_ATTR_IFNAME_def NL80211_ATTR_MAC_def
    by (intro multi_message) (simp_all add: fits_message_def assms(2))
  show "length (interface_message f k i) \<le> 100" using len by (simp add: interface_message_def)
  have found: "find (\<lambda>a. nla_type a = 3) ?as = Some (make_attr word_class 3 (info_if_index i))"
    "find (\<lambda>a. nla_type a = 4) ?as = Some (make_attr string_class 4 (info_name i))"
    "find (\<lambda>a. nla_type a = 6) ?as = Some (make_attr mac_class 6 (info_mac_address i))"
    by (simp_all add: attrs) (simp_all add: u32_attribute_def)
  show "Packet_GetAttributeValue word_class (interface_message f k i) NL80211_ATTR_IFINDEX = Inr (Some (info_if_index i))"
    "Packet_GetAttributeValue string_class (interface_message f k i) NL80211_ATTR_IFNAME = Inr (Some (info_name i))"
    "Packet_GetAttributeValue mac_class (interface_message f k i) NL80211_ATTR_MAC = Inr (Some (info_mac_address i))"
    unfolding interface_message_def NL80211_ATTR_IFINDEX_def NL80211_ATTR_IFNAME_def NL80211_ATTR_MAC_def
    by (rule u32_attr.Packet_value_found [OF wf found(1)] string_attr.Packet_value_found [OF wf found(2) name]
        mac_attr.Packet_value_found [OF wf found(3) mac]; simp)+
qed

lemma interfaces_loop_messages:
  assumes "\<forall>i \<in> set is. interface_ok i" "knows_family f s" "4 < unat f"
  shows "interfaces_loop w (map (interface_message f k) is) out s =
    Inr (True, out @ map (\<lambda>i. i\<lparr>info_wiphy_index := w\<rparr>) is, s)"
  using assms(1)
proof (induction "is" arbitrary: out)
  case (Cons i "is")
  then have ok: "interface_ok i" by simp
  have "dump_reply_ok NL80211_CMD_NEW_INTERFACE (interface_message f k i) s = Inr (True, s)"
    unfolding interface_message_def by (rule dump_reply_ok_message) (use assms in simp_all)
  then show ?case using Cons interface_message_facts(3-5) [OF ok assms(3), of k] by simp
qed simp

text \<open>What the kernel sends for a dump: datagrams of messages, the last with the end marker.\<close>

definition dump_polls :: "u32 \<Rightarrow> (packet list \<times> nat) list \<Rightarrow> packet list \<Rightarrow> nat \<Rightarrow> poll_result list" where
  "dump_polls k parts last_part t =
     map datagram parts @ [PollReady (ReadBytes (concat last_part @ done_packet k)) t]"

lemma dump_request_sequence:
  "GetMessageSequence (AddFlag g (NL80211Packet t c k p)) = Inr k"
  "wf_attr a \<Longrightarrow> length a < 60000 \<Longrightarrow>
     GetMessageSequence (Packet_AddAttribute a (AddFlag g (NL80211Packet t c k p))) = Inr k"
  by (simp_all add: NL80211Packet_message AddFlag_message Packet_AddAttribute_message fits_message_def)

text \<open>
  A dump of encoded items, however it is cut into datagrams, is collected completely and in order.
\<close>

lemma dump_answered:
  fixes s :: "'a nlm_scheme" and enc :: "'b \<Rightarrow> packet"
  assumes "length (ReceiveBuffer s) = 8192" "GetMessageSequence p = Inr k" "k \<noteq> 0"
    and "will_answer s (dump_polls k (map (\<lambda>(xs, u). (map enc xs, u)) parts) (map enc final) t) rest"
    and "\<forall>x \<in> set (concat (map fst parts) @ final). multi_reply k (enc x)"
    and "\<forall>(xs, u) \<in> set parts. length (concat (map enc xs)) \<le> 8000" "length (concat (map enc final)) \<le> 8000"
    and "sum_list (map snd parts) + t < 4000"
  shows "\<exists>B. length B = 8192 \<and> SendMessageAndGetResponses run p [] (s\<lparr>sequence_number := k\<rparr>) =
    Inr (True, map enc (concat (map fst parts) @ final),
      request_done p k (map enc (concat (map fst parts) @ final)) B (s\<lparr>sequence_number := k\<rparr>))"
proof -
  let ?s = "s\<lparr>sequence_number := k\<rparr>"
  define pieces where "pieces = map (\<lambda>(xs, u). (map enc xs, u)) parts"
  have times: "map snd pieces = map snd parts" and outs: "concat (map fst pieces) = map enc (concat (map fst parts))"
    unfolding pieces_def by (induction parts) auto
  have "\<forall>part \<in> set pieces. datagram_fits part \<and> (\<forall>m \<in> set (fst part). multi_reply k m)"
    using assms(5,6) by (force simp: pieces_def datagram_fits_def)
  moreover have "will_answer ?s (map datagram pieces @ [PollReady (ReadBytes (concat (map enc final) @ done_packet k)) t]) rest"
    using assms(4) by (simp add: will_answer_def dump_polls_def pieces_def)
  ultimately show ?thesis
    using SendMessageAndGetResponses_multipart [of ?s p k pieces "map enc final" "done_packet k" t rest run "[]"]
      assms(1-3,5,7,8) by (simp add: times outs done_done_packet length_replies)
qed

text \<open>
  A dump of the interfaces of a wiphy, however it is cut into datagrams, gives the list of the
  interfaces in order. Without any interface the request fails.
\<close>

lemma GetInterfaces_answered:
  fixes s :: "'a nlm_scheme"
  defines "k \<equiv> fst (GetSequenceNumber s)"
  assumes "length (ReceiveBuffer s) = 8192" "knows_family f s" "4 < unat f"
    and "will_answer s (dump_polls k (map (\<lambda>(is, t). (map (interface_message f k) is, t)) parts)
            (map (interface_message f k) final) t) rest"
    and "\<forall>i \<in> set (concat (map fst parts) @ final). interface_ok i"
    and "\<forall>(is, t) \<in> set parts. length is \<le> 80" "length final \<le> 80" "sum_list (map snd parts) + t < 4000"
  shows "\<exists>s'. GetInterfaces run w [] s =
      Inr (concat (map fst parts) @ final \<noteq> [], map (\<lambda>i. i\<lparr>info_wiphy_index := w\<rparr>) (concat (map fst parts) @ final), s') \<and>
    net_script s' = rest \<and> length (ReceiveBuffer s') = 8192 \<and> message_types s' = message_types s \<and>
    interceptor_enabled s' = interceptor_enabled s \<and> sequence_number s' = k"
proof -
  let ?s = "s\<lparr>sequence_number := k\<rparr>"
  let ?p = "Packet_AddAttribute (u32_attribute 1 w) (AddFlag NLM_F_DUMP (NL80211Packet f NL80211_CMD_GET_INTERFACE k (own_pid s)))"
  let ?m = "map (interface_message f k)"
  let ?infos = "concat (map fst parts) @ final"
  have small: "length (concat (?m is)) \<le> 8000" if "\<forall>i \<in> set is. interface_ok i" "length is \<le> 80" for "is"
  proof -
    have "length (concat (?m is)) \<le> 100 * length (?m is)"
      using that(1) by (intro length_concat_le) (auto simp: interface_message_facts(2) [OF _ assms(4)])
    then show ?thesis using that(2) by simp
  qed
  have "\<forall>(is, t) \<in> set parts. length (concat (?m is)) \<le> 8000" "length (concat (?m final)) \<le> 8000"
    using assms(6-8) small by fastforce+
  moreover have "k \<noteq> 0" unfolding k_def by (rule next_sequence_nonzero)
  moreover have "GetMessageSequence ?p = Inr k" by (simp add: dump_request_sequence u32_attribute_facts)
  moreover have "\<forall>i \<in> set ?infos. multi_reply k (interface_message f k i)"
    using assms(6) interface_message_facts(1) [OF _ assms(4)] by blast
  ultimately obtain B where B: "length B = 8192" "SendMessageAndGetResponses run ?p [] ?s =
      Inr (True, ?m ?infos, request_done ?p k (?m ?infos) B ?s)"
    using dump_answered [of s ?p k "interface_message f k" parts final t rest run] assms(2,5,9) by blast
  let ?s' = "request_done ?p k (?m ?infos) B ?s"
  have known: "knows_family f ?s'" using assms(3) by (simp add: knows_family_def request_done_def)
  have "GetInterfaces run w [] s = Inr (?infos \<noteq> [], map (\<lambda>i. i\<lparr>info_wiphy_index := w\<rparr>) ?infos, ?s')"
  proof (cases "?infos = []")
    case False
    then show ?thesis
      using interfaces_loop_messages [OF assms(6) known assms(4), of w k "[]"] B(2)
      by (simp add: GetInterfaces_def new_request_known [OF assms(3)] k_def Let_def)
  next
    case True
    then show ?thesis
      using B(2) by (simp add: GetInterfaces_def new_request_known [OF assms(3)] k_def Let_def)
  qed
  with B(1) assms(5) show ?thesis
    by (intro exI [of _ ?s']) (simp add: request_done_def will_answer_def)
qed

text \<open>The wiphy of an interface: one reply, or the last of several.\<close>

lemma wiphy_message_facts:
  assumes "4 < unat f"
  shows "multi_reply k (wiphy_message f k w)" "length (wiphy_message f k w) = 28"
    "Packet_GetAttributeValue word_class (wiphy_message f k w) NL80211_ATTR_WIPHY = Inr (Some w)"
proof -
  have wf: "wf_attrs [u32_attribute 1 w]" by (simp add: u32_attribute_facts)
  show "multi_reply k (wiphy_message f k w)"
    unfolding wiphy_message_def NLM_F_MULTI_def by (intro multi_message) (simp_all add: fits_message_def assms u32_attribute_facts)
  show "length (wiphy_message f k w) = 28" by (simp add: wiphy_message_def u32_attribute_facts)
  have "find (\<lambda>a. nla_type a = 1) [u32_attribute 1 w] = Some (make_attr word_class 1 w)"
    by (simp add: u32_attribute_facts, simp add: u32_attribute_def)
  from u32_attr.Packet_value_found [OF wf this]
  show "Packet_GetAttributeValue word_class (wiphy_message f k w) NL80211_ATTR_WIPHY = Inr (Some w)"
    by (simp add: wiphy_message_def)
qed

lemma wiphy_index_loop_messages:
  assumes "knows_family f s" "4 < unat f"
  shows "wiphy_index_loop (map (wiphy_message f k) ws) out s = Inr (if ws = [] then out else Some (last ws), s)"
proof (induction ws arbitrary: out)
  case (Cons w ws)
  have "dump_reply_ok NL80211_CMD_NEW_WIPHY (wiphy_message f k w) s = Inr (True, s)"
    unfolding wiphy_message_def by (rule dump_reply_ok_message) (use assms in simp_all)
  then show ?case using Cons wiphy_message_facts(3) [OF assms(2), of k w] by simp
qed simp

lemma GetWiphyIndex_answered:
  fixes s :: "'a nlu_scheme"
  defines "k \<equiv> fst (GetSequenceNumber s)"
  assumes "length (ReceiveBuffer s) = 8192" "knows_family f s" "4 < unat f"
    and "name_to_index s (c_str name) \<noteq> 0" "name \<noteq> []" "ws \<noteq> []" "length ws \<le> 200" "t < 4000"
    and "will_answer s (dump_polls k [] (map (wiphy_message f k) ws) t) rest"
  shows "\<exists>s'. GetWiphyIndex run name s = Inr (Some (last ws), s') \<and>
    net_script s' = rest \<and> length (ReceiveBuffer s') = 8192 \<and> message_types s' = message_types s \<and>
    interceptor_enabled s' = interceptor_enabled s \<and> sequence_number s' = k"
proof -
  let ?s = "s\<lparr>sequence_number := k\<rparr>"
  let ?p = "Packet_AddAttribute (u32_attribute 3 (name_to_index s (c_str name)))
      (AddFlag NLM_F_DUMP (NL80211Packet f NL80211_CMD_GET_WIPHY k (own_pid s)))"
  let ?m = "map (wiphy_message f k)"
  have "length (concat (?m ws)) \<le> 28 * length (?m ws)"
    by (intro length_concat_le) (auto simp: wiphy_message_facts(2) [OF assms(4)])
  then have size: "length (concat (?m ws)) \<le> 8000" using assms(8) by simp
  have "k \<noteq> 0" unfolding k_def by (rule next_sequence_nonzero)
  moreover have "GetMessageSequence ?p = Inr k" by (simp add: dump_request_sequence u32_attribute_facts)
  ultimately obtain B where B: "length B = 8192" "SendMessageAndGetResponses run ?p [] ?s =
      Inr (True, ?m ws, request_done ?p k (?m ws) B ?s)"
    using dump_answered [of s ?p k "wiphy_message f k" "[]" ws t rest run] size assms(2,9,10)
      wiphy_message_facts(1) [OF assms(4)] by auto
  let ?s' = "request_done ?p k (?m ws) B ?s"
  have known: "knows_family f ?s'" using assms(3) by (simp add: knows_family_def request_done_def)
  have "GetWiphyIndex run name s = Inr (Some (last ws), ?s')"
    using wiphy_index_loop_messages [OF known assms(4), of k ws None] B(2) assms(5,6,7)
    by (simp add: GetWiphyIndex_def new_request_known [OF assms(3)] k_def Let_def send_with_retry.simps)
  with B(1) assms(10) show ?thesis
    by (intro exI [of _ ?s']) (simp add: request_done_def will_answer_def)
qed

section \<open>Calls to other processes are only added\<close>

definition calls_extend :: "'a srv_scheme \<Rightarrow> 'a srv_scheme \<Rightarrow> bool" where
  "calls_extend s s' \<longleftrightarrow> (\<exists>xs. remote_calls s' = remote_calls s @ xs)"

lemma calls_extend_same: "remote_calls s' = remote_calls s \<Longrightarrow> calls_extend s s'"
  by (simp add: calls_extend_def)

lemma calls_extend_trans: "calls_extend s s' \<Longrightarrow> calls_extend s' s'' \<Longrightarrow> calls_extend s s''"
  by (auto simp: calls_extend_def)

lemma calls_extendD: "calls_extend s s' \<Longrightarrow> c \<in> set (remote_calls s) \<Longrightarrow> c \<in> set (remote_calls s')"
  by (auto simp: calls_extend_def)

lemma calls_extend_call: "calls_extend s (call_remote c s)"
  by (simp add: calls_extend_def call_remote_def)

lemma server_relation_calls:
  assumes "\<And>c s s'. run c s = Inr s' \<Longrightarrow> calls_extend s s'"
  shows "server_relation run calls_extend"
proof unfold_locales
  fix s s' s'' :: "'b srv_scheme"
  assume "calls_extend s s'" "calls_extend s' s''"
  then show "calls_extend s s''" by (rule calls_extend_trans)
qed (simp_all add: assms calls_extend_same calls_extend_call erase_handler_def)

lemma dispatch_calls: "dispatch n c s = Inr s' \<Longrightarrow> calls_extend s s'"
proof (induction n arbitrary: c s s')
  case (Suc n)
  from server_relation.handle_R [OF server_relation_calls [OF Suc.IH]] Suc.prems
  show ?case by simp
qed simp

interpretation calls: server_relation "dispatch n" calls_extend for n
  by (rule server_relation_calls) (rule dispatch_calls)

lemma fold_calls: "remote_calls (fold (\<lambda>x. call_remote (f x)) xs s) = remote_calls s @ map f xs"
  by (induction xs arbitrary: s) (simp_all add: call_remote_def)

lemma delete_calls:
  "delete_ClientInterfaceImpl i s = Inr s' \<Longrightarrow> calls_extend s s'"
  "delete_ApInterfaceImpl i s = Inr s' \<Longrightarrow> calls_extend s s'"
  by (auto simp: delete_client_defs delete_ApInterfaceImpl_def the_ap_def the_ap_binder_def calls_extend_def
      UnsubscribeStationEvent_def elim!: and_then_InrE split: option.splits)

section \<open>Creating a client interface\<close>

text \<open>What \<open>SetupInterface\<close> leaves alone, although it may run notifications.\<close>

definition same_names :: "'a srv_scheme \<Rightarrow> 'a srv_scheme \<Rightarrow> bool" where
  "same_names s s' \<longleftrightarrow> next_obj s' = next_obj s \<and> live_client s' = live_client s \<and>
     client_interfaces s' = client_interfaces s \<and> ap_interfaces s' = ap_interfaces s \<and>
     interface_event_callbacks s' = interface_event_callbacks s"

lemma same_objects_same_names: "same_objects s s' \<Longrightarrow> same_names s s'"
  by (simp add: same_names_def same_objects_live) (simp add: same_objects_def)

lemma same_names_trans: "same_names s s' \<Longrightarrow> same_names s' s'' \<Longrightarrow> same_names s s''"
  by (simp add: same_names_def)

lemma SetupInterface_names:
  assumes "SetupInterface (dispatch n) name s = Inr (r, s')"
  shows "same_names s s'"
proof -
  have step: "same_names t ((SubscribeRegDomainChange w 0 t)\<lparr>debug_interfaces := []\<rparr>)" "same_names t (t\<lparr>debug_interfaces := d\<rparr>)"
    for t :: "'a srv_scheme" and w d
    by (simp_all add: same_names_def SubscribeRegDomainChange_def live_client_def [abs_def])
  show ?thesis
    using assms
    by (auto simp: SetupInterface_def Let_def elim!: and_then_InrE split: option.splits if_splits
        dest!: objects.GetWiphyIndex_R objects.GetInterfaces_R same_objects_same_names)
      (blast intro: same_names_trans step)+
qed

text \<open>The handlers of a client interface \<open>i\<close> on interface index \<open>idx\<close> are registered.\<close>

definition listening :: "'a srv_scheme \<Rightarrow> obj \<Rightarrow> u32 \<Rightarrow> bool" where
  "listening s i idx \<longleftrightarrow>
     map_find (on_mlme_event_handler s) idx = Some i \<and> map_find (on_frame_tx_status_event_handler s) idx = Some i \<and>
     map_find (on_channel_switch_event_handler s) idx = Some i \<and>
     map_find (on_scan_result_ready_handler s) idx = Some i \<and> map_find (on_sched_scan_result_ready_handler s) idx = Some i"

text \<open>No handler of a client interface is registered for the index.\<close>

definition unheard :: "'a srv_scheme \<Rightarrow> u32 \<Rightarrow> bool" where
  "unheard s idx \<longleftrightarrow>
     map_find (on_mlme_event_handler s) idx = None \<and> map_find (on_frame_tx_status_event_handler s) idx = None \<and>
     map_find (on_channel_switch_event_handler s) idx = None \<and>
     map_find (on_scan_result_ready_handler s) idx = None \<and> map_find (on_sched_scan_result_ready_handler s) idx = None"

lemma same_objects_listening:
  "same_objects s s' \<Longrightarrow> listening s' i idx = listening s i idx" "same_objects s s' \<Longrightarrow> unheard s' idx = unheard s idx"
  by (simp_all add: same_objects_def listening_def unheard_def)

lemma ClientInterfaceImpl_listening:
  assumes "ClientInterfaceImpl (dispatch n) w name idx mac s = Inr (i, s')"
  shows "listening s' i idx" "interface_event_callbacks s' = interface_event_callbacks s"
    "live_client s' = (live_client s)(i \<mapsto> idx)"
proof -
  from ClientInterfaceImpl_same [OF assms] obtain c s2 s3 caps features r where
    c: "client_interface_index c = idx" and s2: "s2 = SubscribeChannelSwitchEvent idx i (SubscribeFrameTxStatusEvent idx i (SubscribeMlmeEvent idx i
       (s\<lparr>next_obj := i + 1, clients := map_set i c (clients s),
          client_binders := map_set i \<lparr>client_impl = Some i\<rparr> (client_binders s)\<rparr>)))"
    and same: "same_objects s2 s3" and s': "s' = call_remote r (ScannerImpl i idx caps features s3)"
    by metis
  note defs = s' s2 ScannerImpl_def Let_def call_remote_def SubscribeChannelSwitchEvent_def
    SubscribeFrameTxStatusEvent_def SubscribeMlmeEvent_def SubscribeScanResultNotification_def
    SubscribeSchedScanResultNotification_def
  have "on_mlme_event_handler s3 = on_mlme_event_handler s2" "on_frame_tx_status_event_handler s3 = on_frame_tx_status_event_handler s2"
    "on_channel_switch_event_handler s3 = on_channel_switch_event_handler s2"
    "interface_event_callbacks s3 = interface_event_callbacks s2"
    using same by (simp_all add: same_objects_def)
  then show "listening s' i idx" "interface_event_callbacks s' = interface_event_callbacks s"
    by (simp_all add: listening_def defs)
  have "live_client s2 = (live_client s)(i \<mapsto> idx)" by (simp add: defs c live_client_def fun_eq_iff)
  with same_objects_live(1) [OF same] show "live_client s' = (live_client s)(i \<mapsto> idx)" by (simp add: defs live_client_def fun_eq_iff)
qed

lemma note_wiphy_effect:
  assumes "note_wiphy (dispatch n) name w s = Inr s'"
  obtains t where "same_objects s t" "calls_extend s t"
    "s' = t\<lparr>iface_to_wiphy_index_map := map_set name w (iface_to_wiphy_index_map t)\<rparr>"
proof -
  from assms obtain t where t: "(if hasNoIfaceForWiphyIndex w s then UpdateBandWiphyIndexMap (dispatch n) w s else Inr s) = Inr t"
    "s' = t\<lparr>iface_to_wiphy_index_map := map_set name w (iface_to_wiphy_index_map t)\<rparr>"
    by (auto simp: note_wiphy_def elim!: and_then_InrE)
  then have "same_objects s t \<and> calls_extend s t"
    by (auto split: if_splits simp: same_objects_refl calls.R_refl
        dest: objects.UpdateBandWiphyIndexMap_R calls.UpdateBandWiphyIndexMap_R)
  with t(2) that show ?thesis by blast
qed

text \<open>The state in which a new client interface has been stored under its name.\<close>

lemma store_client_effect:
  assumes "(case map_find (client_interfaces s) name of
        None \<Rightarrow> Inr (s\<lparr>client_interfaces := map_set name i (client_interfaces s)\<rparr>)
      | Some j \<Rightarrow> delete_ClientInterfaceImpl j (s\<lparr>client_interfaces := map_set name i (client_interfaces s)\<rparr>)) = Inr s'"
  shows "client_interfaces s' = map_set name i (client_interfaces s)" "calls_extend s s'"
    "live_client s' = (case map_find (client_interfaces s) name of None \<Rightarrow> live_client s | Some j \<Rightarrow> (live_client s)(j := None))"
    "map_find (client_interfaces s) name = None \<Longrightarrow> listening s' = listening s"
    "map_find (client_interfaces s) name = Some j \<Longrightarrow> live_client s j = Some idx \<Longrightarrow> live_scanner s j = Some idx \<Longrightarrow> unheard s' idx"
proof -
  show "client_interfaces s' = map_set name i (client_interfaces s)"
    using assms by (auto split: option.splits dest: delete_keeps_names(1))
  show "calls_extend s s'"
    using assms by (auto split: option.splits intro: calls_extend_same dest!: delete_calls(1) simp: calls_extend_def)
  show "live_client s' = (case map_find (client_interfaces s) name of None \<Rightarrow> live_client s | Some j \<Rightarrow> (live_client s)(j := None))"
    using assms by (auto split: option.splits elim!: delete_client_effect simp: live_client_def [abs_def])
  show "listening s' = listening s" if "map_find (client_interfaces s) name = None"
    using assms that by (auto simp: listening_def [abs_def])
  show "unheard s' idx" if "map_find (client_interfaces s) name = Some j" "live_client s j = Some idx" "live_scanner s j = Some idx"
  proof -
    let ?t = "s\<lparr>client_interfaces := map_set name i (client_interfaces s)\<rparr>"
    from assms that(1) have "delete_ClientInterfaceImpl j ?t = Inr s'" by simp
    then obtain c x where e: "map_find (clients ?t) j = Some c" "map_find (scanners ?t) j = Some x"
      "map_find (on_mlme_event_handler s') = (map_find (on_mlme_event_handler ?t))(client_interface_index c := None)"
      "map_find (on_frame_tx_status_event_handler s') =
         (map_find (on_frame_tx_status_event_handler ?t))(client_interface_index c := None)"
      "map_find (on_channel_switch_event_handler s') =
         (map_find (on_channel_switch_event_handler ?t))(client_interface_index c := None)"
      "map_find (on_scan_result_ready_handler s') =
         (map_find (on_scan_result_ready_handler ?t))(scanner_interface_index x := None)"
      "map_find (on_sched_scan_result_ready_handler s') =
         (map_find (on_sched_scan_result_ready_handler ?t))(scanner_interface_index x := None)"
      by (rule delete_client_effect)
    have "client_interface_index c = idx" using e(1) that(2) by (simp add: live_client_def)
    moreover have "scanner_interface_index x = idx"
      using e(2) that(3) by (cases "valid x") (simp_all add: live_scanner_def scanner_frame_def)
    ultimately show ?thesis by (simp add: unheard_def e)
  qed
qed

lemma createClientInterface_result:
  assumes "createClientInterface (dispatch n) name s = Inr (Some i, s')" "objects_ok s"
  obtains iface w s1 where "SetupInterface (dispatch n) name s = Inr (Some (iface, w), s1)"
    "i = next_obj s" "live_client s i = None" "client_interfaces s' = map_set name i (client_interfaces s)"
    "map_find (iface_to_wiphy_index_map s') name = Some w"
    "live_client s' i = Some (info_if_index iface)" "live_scanner s' i = Some (info_if_index iface)"
    "map_find (client_interfaces s) name = None \<Longrightarrow> listening s' i (info_if_index iface)"
    "\<And>j. map_find (client_interfaces s) name = Some j \<Longrightarrow> live_client s' j = None"
    "\<And>j idx. map_find (client_interfaces s) name = Some j \<Longrightarrow> live_client s j = Some idx \<Longrightarrow> unheard s' idx"
    "\<And>cb. cb \<in> set (interface_event_callbacks s) \<Longrightarrow> OnClientInterfaceReady cb i \<in> set (remote_calls s')"
proof -
  from assms(1) obtain iface w s1 s2 s5 where prep: "SetupInterface (dispatch n) name s = Inr (Some (iface, w), s1)"
    and new: "ClientInterfaceImpl (dispatch n) w (info_name iface) (info_if_index iface) (info_mac_address iface) s1 = Inr (i, s2)"
    and store: "(case map_find (client_interfaces (BroadcastClientInterfaceReady i s2)) name of
        None \<Rightarrow> Inr ((BroadcastClientInterfaceReady i s2)\<lparr>client_interfaces := map_set name i (client_interfaces (BroadcastClientInterfaceReady i s2))\<rparr>)
      | Some j \<Rightarrow> delete_ClientInterfaceImpl j
          ((BroadcastClientInterfaceReady i s2)\<lparr>client_interfaces := map_set name i (client_interfaces (BroadcastClientInterfaceReady i s2))\<rparr>)) = Inr s5"
    and rest: "note_wiphy (dispatch n) name w s5 = Inr s'"
    by (rule createClientInterface_SomeE)
  let ?idx = "info_if_index iface"
  define s3 where "s3 = BroadcastClientInterfaceReady i s2"
  have same1: "same_names s s1" by (rule SetupInterface_names [OF prep])
  have ok1: "objects_ok s1" using SetupInterface_ok [OF prep assms(2)] .
  note c = ClientInterfaceImpl_owned [OF new conjunct2 [OF ok1 [unfolded objects_ok_def]]]
  note l = ClientInterfaceImpl_listening [OF new]
  have same3: "same_objects s2 s3" unfolding s3_def by (rule broadcasts_same)
  from rest obtain t where t: "same_objects s5 t" "calls_extend s5 t"
    "s' = t\<lparr>iface_to_wiphy_index_map := map_set name w (iface_to_wiphy_index_map t)\<rparr>"
    by (rule note_wiphy_effect)
  have names3: "client_interfaces s3 = client_interfaces s"
    using same1 c(5) same_objects_names(1) [OF same3] by (simp add: same_names_def)
  note st = store_client_effect [OF store [folded s3_def], unfolded names3]
  have i: "i = next_obj s" "live_client s i = None" "i \<notin> snd ` set (client_interfaces s)"
    using c(2,3) same1 owned_fresh(5) [OF conjunct2 [OF ok1 [unfolded objects_ok_def]]] by (auto simp: same_names_def)
  have live: "live_client s' = live_client s5" "listening s' = listening s5" "client_interfaces s' = client_interfaces s5"
    "unheard s' = unheard s5"
    using same_objects_live(1) [OF t(1)] same_objects_names(1) [OF t(1)] same_objects_listening [OF t(1)]
    by (simp_all add: t(3) live_client_def [abs_def] listening_def [abs_def] unheard_def [abs_def])
  have "live_client s3 i = Some ?idx" using same_objects_live(1) [OF same3] c(7) by simp
  moreover have "map_find (client_interfaces s) name \<noteq> Some i" using i(3) map_of_SomeD by force
  ultimately have alive: "live_client s' i = Some ?idx" using st(3) live(1) by (auto split: option.splits)
  have "objects_ok s'" using assms by (rule createClientInterface_ok)
  then have scan: "live_scanner s' i = Some ?idx" using alive by (simp add: objects_ok_def owned_def proxies_ok_def)
  have "OnClientInterfaceReady cb i \<in> set (remote_calls s')" if "cb \<in> set (interface_event_callbacks s)" for cb
  proof -
    have "OnClientInterfaceReady cb i \<in> set (remote_calls s3)"
      using that l(2) same1 by (simp add: s3_def BroadcastClientInterfaceReady_def fold_calls same_names_def)
    then show ?thesis using calls_extendD [OF st(2)] calls_extendD [OF t(2)] by (simp add: t(3))
  qed
  note told = this
  show ?thesis
  proof (rule that [OF prep i(1,2) _ _ alive scan _ _ _ told])
    show "client_interfaces s' = map_set name i (client_interfaces s)" using st(1) live(3) by simp
    show "map_find (iface_to_wiphy_index_map s') name = Some w" by (simp add: t(3))
    show "listening s' i ?idx" if "map_find (client_interfaces s) name = None"
      using st(4) that live(2) same_objects_listening [OF same3] l(1) by simp
    show "live_client s' j = None" if "map_find (client_interfaces s) name = Some j" for j
      using st(3) live(1) that by simp
    show "unheard s' idx" if "map_find (client_interfaces s) name = Some j" "live_client s j = Some idx" for j idx
    proof -
      have "j \<noteq> i" using i(3) that(1) map_of_SomeD by force
      then have "live_client s3 j = Some idx"
        using that(2) same1 l(3) same_objects_live(1) [OF same3] by (simp add: same_names_def)
      moreover have "live_scanner s3 j = live_client s3 j"
        using same_objects_live [OF same3] proxiesD(1) [OF ownedD(4) [OF c(1)]] by simp
      ultimately show ?thesis using st(5) [OF that(1)] live(4) by simp
    qed
  qed
qed

text \<open>
  C27. Whatever the kernel answers: a client interface that was created has a new identity, is
  stored under the requested name and no other name changes; it and its scanner are live for one
  interface index, its wiphy is remembered, every registered callback was told about it, and an
  object that had the name before is dead. When there was none, all its event handlers are
  registered. When there was one, its destructor has removed all handlers for its interface index,
  so that a new object with the same index is registered for no event at all.
\<close>

theorem created_client_registered:
  assumes "createClientInterface (dispatch n) name (s :: 'a srv_scheme) = Inr (Some i, s')" "objects_ok s"
  shows "i = next_obj s \<and> live_client s i = None \<and>
    client_interfaces s' = map_set name i (client_interfaces s) \<and>
    map_find (iface_to_wiphy_index_map s') name \<noteq> None \<and>
    (\<exists>idx. live_client s' i = Some idx \<and> live_scanner s' i = Some idx \<and>
       (map_find (client_interfaces s) name = None \<longrightarrow> listening s' i idx)) \<and>
    (\<forall>j. map_find (client_interfaces s) name = Some j \<longrightarrow>
       live_client s' j = None \<and> (\<forall>idx. live_client s j = Some idx \<longrightarrow> unheard s' idx)) \<and>
    (\<forall>cb \<in> set (interface_event_callbacks s). OnClientInterfaceReady cb i \<in> set (remote_calls s'))"
  using assms by (rule createClientInterface_result) auto

section \<open>A complete creation\<close>

lemma ClientInterfaceImpl_silent:
  fixes s :: "'a srv_scheme"
  assumes "knows_family f s" "silent s"
  shows "\<exists>s'. ClientInterfaceImpl run w nm idx mac s = Inr (next_obj s, s') \<and> knows_family f s' \<and> silent s'"
proof -
  have sub: "knows_family f t" "silent t"
    if "message_types t = message_types s" "net_script t = net_script s" "interceptor_enabled t = interceptor_enabled s"
    for t :: "'a srv_scheme"
    using assms that by (simp_all add: knows_family_def silent_def)
  show ?thesis
    by (auto simp: ClientInterfaceImpl_def Let_def UpdateBandInfo_def the_client_def modify_client_def
        SubscribeChannelSwitchEvent_def SubscribeFrameTxStatusEvent_def SubscribeMlmeEvent_def
        GetWiphyInfo_silent [OF sub] ScannerImpl_def call_remote_def SubscribeSchedScanResultNotification_def
        SubscribeScanResultNotification_def sub)
qed

lemma note_wiphy_silent:
  "knows_family f s \<Longrightarrow> silent s \<Longrightarrow> \<exists>s'. note_wiphy run name w s = Inr s'"
  by (simp add: note_wiphy_def UpdateBandWiphyIndexMap_def GetBandInfo_def GetWiphyInfo_silent)

lemma fold_call_fields:
  "message_types (fold (\<lambda>x. call_remote (g x)) xs s) = message_types s"
  "net_script (fold (\<lambda>x. call_remote (g x)) xs s) = net_script s"
  "interceptor_enabled (fold (\<lambda>x. call_remote (g x)) xs s) = interceptor_enabled s"
  by (induction xs arbitrary: s) (simp_all add: call_remote_def)

text \<open>The kernel's answers to the two dumps of \<open>createClientInterface\<close>; after that it is silent.\<close>

definition creation_script :: "u16 \<Rightarrow> u32 \<Rightarrow> u32 \<Rightarrow> u32 \<Rightarrow> interface_info list \<Rightarrow> nat \<Rightarrow> exchange list" where
  "creation_script f k k' w infos t =
     [\<lparr>send_ok = True, polls = dump_polls k [] [wiphy_message f k w] t\<rparr>,
      \<lparr>send_ok = True, polls = dump_polls k' [] (map (interface_message f k') infos) t\<rparr>]"

lemma client_creation_runs:
  assumes "objects_ok (s :: 'a srv_scheme)" "length (ReceiveBuffer s) = 8192" "knows_family f s" "4 < unat f"
    and "\<not> interceptor_enabled s" "name \<noteq> []" "name_to_index s (c_str name) \<noteq> 0" "t < 4000"
    and "net_script s = creation_script f k k' w infos t" "k = fst (GetSequenceNumber s)"
    and "k' = fst (GetSequenceNumber (s\<lparr>sequence_number := k\<rparr>))"
    and "\<forall>i \<in> set infos. interface_ok i" "length infos \<le> 80" "find (\<lambda>i. info_name i = name) infos = Some iface"
    and "map_find (client_interfaces s) name = None"
  shows "\<exists>s'. createClientInterface (dispatch n) name s = Inr (Some (next_obj s), s') \<and>
    live_client s' (next_obj s) = Some (info_if_index iface) \<and> listening s' (next_obj s) (info_if_index iface) \<and>
    map_find (client_interfaces s') name = Some (next_obj s)"
proof -
  obtain s1 where s1: "GetWiphyIndex (dispatch n) name s = Inr (Some w, s1)" "length (ReceiveBuffer s1) = 8192"
    "message_types s1 = message_types s" "interceptor_enabled s1 = interceptor_enabled s" "sequence_number s1 = k"
    "net_script s1 = [\<lparr>send_ok = True, polls = dump_polls k' [] (map (interface_message f k') infos) t\<rparr>]"
    using GetWiphyIndex_answered [of s f name "[w]" t _ "dispatch n"] assms(2-10) by (auto simp: will_answer_def creation_script_def)
  have same1: "same_objects s s1" by (rule objects.GetWiphyIndex_R [OF s1(1)])
  let ?s2 = "(SubscribeRegDomainChange w 0 s1)\<lparr>debug_interfaces := []\<rparr>"
  let ?infos = "map (\<lambda>i. i\<lparr>info_wiphy_index := w\<rparr>) infos"
  have s2: "ReceiveBuffer ?s2 = ReceiveBuffer s1" "message_types ?s2 = message_types s" "sequence_number ?s2 = k"
    "interceptor_enabled ?s2 = interceptor_enabled s" "net_script ?s2 = net_script s1"
    using s1 by (simp_all add: SubscribeRegDomainChange_def)
  have seq: "fst (GetSequenceNumber ?s2) = k'" using s2(3) assms(11) by (simp add: GetSequenceNumber_def Let_def)
  have known: "knows_family f t" if "message_types t = message_types s" for t :: "'a srv_scheme"
    using assms(3) that by (simp add: knows_family_def)
  have ne: "infos \<noteq> []" using assms(14) by auto
  obtain s3 where s3: "GetInterfaces (dispatch n) w [] ?s2 = Inr (True, ?infos, s3)" "net_script s3 = []"
    "message_types s3 = message_types s" "interceptor_enabled s3 = interceptor_enabled s"
    using GetInterfaces_answered [of ?s2 f "[]" infos t "[]" "dispatch n" w, OF _ known [OF s2(2)] assms(4)]
      s1(2,6) s2 seq assms(8,12,13) ne by (auto simp: will_answer_def)
  have "find (\<lambda>i. info_name i = name) ?infos = Some (iface\<lparr>info_wiphy_index := w\<rparr>)"
    using assms(14) by (induction infos) auto
  then have prep: "SetupInterface (dispatch n) name s = Inr (Some (iface\<lparr>info_wiphy_index := w\<rparr>, w), s3\<lparr>debug_interfaces := ?infos\<rparr>)"
    by (simp add: SetupInterface_def s1(1) s3(1) Let_def)
  have same4: "same_names s (s3\<lparr>debug_interfaces := ?infos\<rparr>)" by (rule SetupInterface_names [OF prep])
  obtain s5 where s5: "ClientInterfaceImpl (dispatch n) w (info_name iface) (info_if_index iface) (info_mac_address iface)
      (s3\<lparr>debug_interfaces := ?infos\<rparr>) = Inr (next_obj s, s5)" "knows_family f s5" "silent s5"
    using ClientInterfaceImpl_silent [of f "s3\<lparr>debug_interfaces := ?infos\<rparr>" "dispatch n" w "info_name iface"
        "info_if_index iface" "info_mac_address iface"] known [of "s3\<lparr>debug_interfaces := ?infos\<rparr>"] s3 same4 assms(5)
    by (auto simp: silent_def same_names_def)
  have ok4: "objects_ok (s3\<lparr>debug_interfaces := ?infos\<rparr>)" by (rule SetupInterface_ok [OF prep assms(1)])
  have names: "client_interfaces s5 = client_interfaces s"
    using ClientInterfaceImpl_owned(5) [OF s5(1) conjunct2 [OF ok4 [unfolded objects_ok_def]]] same4 by (simp add: same_names_def)
  let ?s6 = "(BroadcastClientInterfaceReady (next_obj s) s5)\<lparr>client_interfaces := map_set name (next_obj s) (client_interfaces s)\<rparr>"
  have "knows_family f ?s6" "silent ?s6"
    using s5(2,3) by (simp_all add: knows_family_def silent_def BroadcastClientInterfaceReady_def fold_call_fields)
  from note_wiphy_silent [OF this] obtain s' where "note_wiphy (dispatch n) name w ?s6 = Inr s'" by blast
  then have run: "createClientInterface (dispatch n) name s = Inr (Some (next_obj s), s')"
    using assms(15) by (simp add: createClientInterface_def prep s5(1) names Let_def)
  from run assms(1) show ?thesis
    by (rule createClientInterface_result) (use run prep assms(15) in auto)
qed

text \<open>
  C15. When the kernel names the wiphy of the interface and then lists the interfaces of that
  wiphy, the wanted name is among them and no client interface has that name yet, the client
  interface is created with the index of the first entry of that name and listens to its events.
  The kernel answers nothing after these two dumps, so the description of the radio that the
  constructor asks for is refused, which does not keep the interface from being created.
\<close>

theorem client_interface_created:
  assumes "objects_ok (s :: 'a srv_scheme)" "length (ReceiveBuffer s) = 8192" "knows_family f s" "4 < unat f"
    and "\<not> interceptor_enabled s" "name \<noteq> []" "name_to_index s (c_str name) \<noteq> 0" "t < 4000"
    and "net_script s = creation_script f k k' w infos t" "k = fst (GetSequenceNumber s)"
    and "k' = fst (GetSequenceNumber (s\<lparr>sequence_number := k\<rparr>))"
    and "\<forall>i \<in> set infos. interface_ok i" "length infos \<le> 80" "find (\<lambda>i. info_name i = name) infos = Some iface"
    and "map_find (client_interfaces s) name = None"
  shows "\<exists>s'. createClientInterface (dispatch n) name s = Inr (Some (next_obj s), s') \<and>
    live_client s' (next_obj s) = Some (info_if_index iface) \<and> listening s' (next_obj s) (info_if_index iface) \<and>
    map_find (client_interfaces s') name = Some (next_obj s)"
  using client_creation_runs [OF assms] .

definition wlan0 :: interface_info where
  "wlan0 = \<lparr>info_if_index = 5, info_wiphy_index = 0, info_name = ascii ''wlan0'', info_mac_address = [2, 0, 0, 0, 0, 1]\<rparr>"

definition p2p0 :: interface_info where
  "p2p0 = \<lparr>info_if_index = 9, info_wiphy_index = 0, info_name = ascii ''p2p0'', info_mac_address = [2, 0, 0, 0, 0, 2]\<rparr>"

lemma example_interfaces:
  "\<forall>i \<in> set [p2p0, wlan0]. interface_ok i" "find (\<lambda>i. info_name i = ascii ''wlan0'') [p2p0, wlan0] = Some wlan0"
  by (simp_all add: wlan0_def p2p0_def interface_ok_def ascii_def)

lemma started_server_ok: "objects_ok (started_server es)"
proof -
  let ?s = "Server (NetlinkManager es False 99) (\<lambda>_. 5) blank_scan_result blank_client (BandInfo, blank_capabilities, blank_features)"
  have "same_objects ?s (started_server es)" by (simp add: started_server_def same_objects_def)
  from same_objects_ok(3) [OF this] show ?thesis by (simp add: objects_ok_Server)
qed

text \<open>The creation of \<open>wlan0\<close> on a started server without interfaces, in any state of its callbacks.\<close>

lemma create_wlan0:
  assumes "objects_ok (s :: srv)" "length (ReceiveBuffer s) = 8192" "knows_family 28 s" "\<not> interceptor_enabled s"
    and "name_to_index s (ascii ''wlan0'') = 5" "client_interfaces s = []"
    and "net_script s = creation_script 28 k k' 0 [p2p0, wlan0] 10" "k = fst (GetSequenceNumber s)"
    and "k' = fst (GetSequenceNumber (s\<lparr>sequence_number := k\<rparr>))"
  shows "\<exists>s'. createClientInterface (dispatch 3) (ascii ''wlan0'') s = Inr (Some (next_obj s), s') \<and>
    live_client s' (next_obj s) = Some 5 \<and> listening s' (next_obj s) 5 \<and>
    map_find (client_interfaces s') (ascii ''wlan0'') = Some (next_obj s)"
proof -
  have "c_str (ascii ''wlan0'') = ascii ''wlan0''" by (simp add: c_str_def ascii_def)
  then show ?thesis
    using client_creation_runs [of s 28 "ascii ''wlan0''" 10 k k' 0 "[p2p0, wlan0]" wlan0 3, OF assms(1-3) _ assms(4)]
      assms example_interfaces
    by (simp add: wlan0_def) (simp add: ascii_def)
qed

lemma started_server_script:
  "length (ReceiveBuffer (started_server es)) = 8192" "knows_family 28 (started_server es)"
  "\<not> interceptor_enabled (started_server es)" "client_interfaces (started_server es) = []"
  "name_to_index (started_server es) x = 5" "next_obj (started_server es) = 1"
  "fst (GetSequenceNumber (started_server es)) = 1"
  "fst (GetSequenceNumber ((started_server es)\<lparr>sequence_number := 1\<rparr>)) = 2"
  by (simp_all add: example_defs GetSequenceNumber_def knows_family_def)

theorem client_interface_created_witness:
  "\<exists>s'. createClientInterface (dispatch 3) (ascii ''wlan0'') (started_server (creation_script 28 1 2 0 [p2p0, wlan0] 10)) = Inr (Some 1, s') \<and>
     live_client s' 1 = Some 5 \<and> map_find (on_mlme_event_handler s') 5 = Some 1"
proof -
  have "info_if_index wlan0 = 5" "ascii ''wlan0'' \<noteq> []" by (simp_all add: wlan0_def ascii_def)
  then show ?thesis
    using client_interface_created [of "started_server (creation_script 28 1 2 0 [p2p0, wlan0] 10)"
        28 "ascii ''wlan0''" 10 1 2 0 "[p2p0, wlan0]" wlan0 3]
      started_server_ok [of "creation_script 28 1 2 0 [p2p0, wlan0] 10"] example_interfaces started_server_script
    by (auto simp: listening_def simp del: find.simps)
qed

theorem created_client_registered_witness:
  "\<exists>s'. createClientInterface (dispatch 3) (ascii ''wlan0'')
       (RegisterCallback 50 (started_server (creation_script 28 1 2 0 [p2p0, wlan0] 10))) = Inr (Some 1, s') \<and>
     map_find (client_interfaces s') (ascii ''wlan0'') = Some 1 \<and> OnClientInterfaceReady 50 1 \<in> set (remote_calls s')"
proof -
  let ?t = "started_server (creation_script 28 1 2 0 [p2p0, wlan0] 10)"
  let ?s = "RegisterCallback 50 ?t"
  have s: "?s = ?t\<lparr>interface_event_callbacks := [50]\<rparr>" by (simp add: RegisterCallback_def example_defs)
  have ok: "objects_ok ?s" by (simp add: s callbacks_ok started_server_ok)
  have "fst (GetSequenceNumber ?s) = 1" "fst (GetSequenceNumber (?s\<lparr>sequence_number := 1\<rparr>)) = 2"
    using started_server_script(7,8) [of "creation_script 28 1 2 0 [p2p0, wlan0] 10"]
    by (simp_all add: s GetSequenceNumber_def Let_def)
  then obtain s' where run: "createClientInterface (dispatch 3) (ascii ''wlan0'') ?s = Inr (Some 1, s')"
    using create_wlan0 [OF ok, of 1 2] started_server_script [of "creation_script 28 1 2 0 [p2p0, wlan0] 10"]
    by (auto simp: s knows_family_def)
  from created_client_registered [OF run ok] run show ?thesis by (simp add: s started_server_script)
qed

section \<open>A run of the program\<close>

lemma GetProtocolFeatures_silent:
  "knows_family f s \<Longrightarrow> silent s \<Longrightarrow> GetProtocolFeatures run s =
     Inr (None, s\<lparr>sequence_number := fst (GetSequenceNumber s)\<rparr>)"
  by (simp add: GetProtocolFeatures_def new_request_known silent_single silent_def)

abbreviation good_start :: start_env where
  "good_start \<equiv> (good_socket, good_socket, True, \<lambda>_. True)"

text \<open>The program after start-up, and after the creation of \<open>wlan0\<close>.\<close>

lemma cold_start:
  "\<exists>s. start_service (dispatch 3) good_start good_start good_start cold_server = Inr s \<and>
      is_started s \<and> knows_family 28 s \<and> silent s \<and> length (ReceiveBuffer s) = 8192 \<and>
      sequence_number s = 2 \<and> \<not> supports_split_wiphy_dump s"
proof -
  have seq: "fst (GetSequenceNumber cold_server) = 1"
    by (simp add: GetSequenceNumber_def cold_server_def Server_def NetlinkManager_def)
  have groups: "\<forall>g \<in> set example_groups. group_ok g" by (simp add: example_groups_def group_ok_def ascii_def)
  have answer: "will_answer cold_server (PollReady (ReadBytes (family_reply (fst (GetSequenceNumber cold_server)) 28 example_groups)) 9 # []) []"
    unfolding seq by (simp add: will_answer_def cold_server_def Server_def NetlinkManager_def)
  have joins: "joined (\<lambda>i. True) example_groups NL80211_MULTICAST_GROUP_REG \<and>
      joined (\<lambda>i. True) example_groups NL80211_MULTICAST_GROUP_SCAN \<and> joined (\<lambda>i. True) example_groups NL80211_MULTICAST_GROUP_MLME"
    by (simp add: joined_def group_table_def example_groups_def NL80211_MULTICAST_GROUP_REG_def
        NL80211_MULTICAST_GROUP_SCAN_def NL80211_MULTICAST_GROUP_MLME_def ascii_def)
  obtain s1 where s1: "Start (dispatch 3) good_socket good_socket True (\<lambda>i. True) cold_server = Inr (True, s1)"
      "is_started s1" "knows_family 28 s1" "net_script s1 = []" "sequence_number s1 = 1"
      "length (ReceiveBuffer s1) = 8192" "\<not> interceptor_enabled s1"
    using Start_answered [of cold_server good_socket good_socket example_groups 9 28 "[]" "[]" 3 True "\<lambda>i. True",
        OF _ _ _ _ _ groups _ _ answer] joins seq
    by (auto simp: GetFamilyId_knows good_socket_def plain_socket_def example_groups_def cold_server_def Server_def NetlinkManager_def)
  then have "GetProtocolFeatures (dispatch 3) s1 = Inr (None, s1\<lparr>sequence_number := 2\<rparr>)"
    using GetProtocolFeatures_silent [of 28 s1 "dispatch 3"] by (simp add: silent_def GetSequenceNumber_def)
  with s1 show ?thesis
    by (simp add: start_service_def NetlinkUtils_def ScanUtils_def IsStarted_def knows_family_def silent_def)
qed

lemma reachable_wlan0:
  "\<exists>s i. reachable 3 s \<and> live_client s i = Some 5 \<and> listening s i 5 \<and> map_find (client_interfaces s) (ascii ''wlan0'') = Some i"
proof -
  obtain s where s: "start_service (dispatch 3) good_start good_start good_start cold_server = Inr s" "knows_family 28 s" "silent s" "length (ReceiveBuffer s) = 8192" "sequence_number s = 2"
    using cold_start by blast
  have reach: "reachable 3 s" by (rule reachable_start [OF s(1) [unfolded cold_server_def]])
  have names: "client_interfaces s = []"
    using same_objects_names(1) [OF start_service_same [OF s(1)]] by (simp add: cold_server_def Server_def)
  let ?e = "environment (creation_script 28 3 4 0 [p2p0, wlan0] 10) 0 (\<lambda>_. 5) blank_scan_result blank_client
      (BandInfo, blank_capabilities, blank_features) s"
  have e: "reachable 3 ?e" using reach by (rule reachable_environment)
  obtain s' where "createClientInterface (dispatch 3) (ascii ''wlan0'') ?e = Inr (Some (next_obj ?e), s')"
      "live_client s' (next_obj ?e) = Some 5" "listening s' (next_obj ?e) 5"
      "map_find (client_interfaces s') (ascii ''wlan0'') = Some (next_obj ?e)"
    using create_wlan0 [OF reachable_ok [OF e], of 3 4] s names
    by (auto simp: environment_def knows_family_def silent_def GetSequenceNumber_def)
  with reachable_request [OF e, of "Do_createClientInterface (ascii ''wlan0'')" s'] show ?thesis
    by (auto simp: ending_def)
qed

text \<open>
  C5. In every state that the program can reach, from start-up through any sequence of requests
  and whatever the kernel sends, each registered event handler belongs to an object that is
  alive, for the interface index it has; the object is stored under a name, its scanner is valid
  and its binder object still points to it. No event can reach an object that was destroyed.
\<close>

theorem reachable_handlers_live:
  assumes "reachable n s"
  shows "(\<forall>idx h. map_find (on_mlme_event_handler s) idx = Some h \<or> map_find (on_frame_tx_status_event_handler s) idx = Some h \<longrightarrow>
      live_client s h = Some idx \<and> h \<in> snd ` set (client_interfaces s) \<and> getWifiScannerImpl h s = Inr (Some h)) \<and>
    (\<forall>idx h. map_find (on_scan_result_ready_handler s) idx = Some h \<or> map_find (on_sched_scan_result_ready_handler s) idx = Some h \<longrightarrow>
      live_scanner s h = Some idx \<and> live_client s h = Some idx) \<and>
    (\<forall>idx h. map_find (on_station_event_handler s) idx = Some h \<longrightarrow>
      live_ap s h = Some idx \<and> h \<in> snd ` set (ap_interfaces s) \<and> Ap_getInterfaceName h s \<noteq> Inl Null_Pointer) \<and>
    (\<forall>idx h. map_find (on_channel_switch_event_handler s) idx = Some h \<longrightarrow>
      live_client s h = Some idx \<or> live_ap s h = Some idx)"
proof -
  have ok: "owned s (snd ` set (client_interfaces s)) (snd ` set (ap_interfaces s))"
    using reachable_ok [OF assms] by (simp add: objects_ok_def)
  note o = ownedD [OF ok]
  have client: "h \<in> snd ` set (client_interfaces s) \<and> getWifiScannerImpl h s = Inr (Some h)" if "live_client s h = Some idx" for h idx
    using that o(1) proxiesD(2) [OF o(4) that]
    by (auto simp: getWifiScannerImpl_def the_client_binder_def the_client_def live_client_def)
  have ap: "h \<in> snd ` set (ap_interfaces s) \<and> Ap_getInterfaceName h s \<noteq> Inl Null_Pointer" if "live_ap s h = Some idx" for h idx
    using that o(2) proxiesD(3) [OF o(4) that]
    by (auto simp: Ap_getInterfaceName_def the_ap_binder_def the_ap_def live_ap_def)
  note scan = proxiesD(1) [OF o(4)]
  note keys = o(5) [unfolded handlers_ok_def scan]
  show ?thesis
    unfolding scan using keyedD [OF keys [THEN conjunct1]] keyedD [OF keys [THEN conjunct2, THEN conjunct1]]
      keyedD [OF keys [THEN conjunct2, THEN conjunct2, THEN conjunct1]]
      keyedD [OF keys [THEN conjunct2, THEN conjunct2, THEN conjunct2, THEN conjunct1]]
      keyedD [OF keys [THEN conjunct2, THEN conjunct2, THEN conjunct2, THEN conjunct2, THEN conjunct1]]
      keyedD [OF keys [THEN conjunct2, THEN conjunct2, THEN conjunct2, THEN conjunct2, THEN conjunct2, THEN conjunct1]]
      client ap
    by (intro conjI allI impI) (blast+)
qed

theorem reachable_handlers_live_witness:
  "\<exists>s h. reachable 3 s \<and> map_find (on_mlme_event_handler s) 5 = Some h \<and> live_client s h = Some 5 \<and>
     getWifiScannerImpl h s = Inr (Some h)"
proof -
  obtain s i where "reachable 3 s" "listening s i 5" using reachable_wlan0 by blast
  with reachable_handlers_live [of 3 s] show ?thesis by (auto simp: listening_def)
qed

end
