(* ===== verification/Event_Loop.thy ===== *)
theory Event_Loop
  imports Server_Properties
begin

text \<open>
  \<open>looper_backed_event_loop.{h,cpp}\<close>, \<open>event_loop.h\<close> and the signal handler of \<open>main.cpp\<close>: the loop
  in which the one thread of the program runs all its callbacks. \<open>android::Looper\<close> is not part of
  the repository; it is the parameter \<open>L\<close>, a record of the operations that the code calls. A
  callback is a function on the state of the program that may also use the loop: \<open>body\<close> gives its
  new state and the operations of the loop that it calls, in order, or the fault that it ends in.
\<close>

section \<open>The loop\<close>

datatype 'c task =
    Callback 'c
  | Exit_Task

text \<open>What \<open>pollOnce\<close> hands out while it runs: a message, or a descriptor that is ready.\<close>

datatype 'c delivery =
    Message "'c task"
  | Ready int 'c

text \<open>
  \<open>pollOnce\<close> runs callbacks itself, and they may change the looper meanwhile. So it is two
  operations: \<open>poll_begin\<close> waits (\<open>None\<close> is a wait that never ends) and notes what is ready;
  \<open>poll_next\<close> picks what is handled next, from the looper as the callbacks before have left it, or
  says that this call of \<open>pollOnce\<close> is over. Nothing is assumed about which of the messages that
  are posted meanwhile this call still handles.
\<close>

record ('l, 'c) looper_api =
  sendMessage :: "'c task \<Rightarrow> 'l \<Rightarrow> 'l"
  sendMessageDelayed :: "int \<Rightarrow> 'c task \<Rightarrow> 'l \<Rightarrow> 'l"
  addFd :: "int \<Rightarrow> int \<Rightarrow> 'c \<Rightarrow> 'l \<Rightarrow> int \<times> 'l"
  removeFd :: "int \<Rightarrow> 'l \<Rightarrow> int \<times> 'l"
  poll_begin :: "int \<Rightarrow> 'l \<Rightarrow> 'l option"
  poll_next :: "'l \<Rightarrow> 'c delivery option \<times> 'l"

record ('l, 's) event_loop =
  looper :: 'l
  should_continue :: bool
  program :: 's

datatype ready_mode = kModeInput | kModeOutput | Other_Mode

definition EVENT_INPUT :: int where
  [simp]: "EVENT_INPUT = 1"

definition EVENT_OUTPUT :: int where
  [simp]: "EVENT_OUTPUT = 2"

definition LooperBackedEventLoop :: "'l \<Rightarrow> 's \<Rightarrow> ('l, 's) event_loop" where
  "LooperBackedEventLoop l s = \<lparr>looper = l, should_continue = True, program = s\<rparr>"

definition PostTask :: "('l, 'c) looper_api \<Rightarrow> 'c \<Rightarrow> ('l, 's) event_loop \<Rightarrow> ('l, 's) event_loop" where
  "PostTask L callback w = w\<lparr>looper := sendMessage L (Callback callback) (looper w)\<rparr>"

definition PostDelayedTask :: "('l, 'c) looper_api \<Rightarrow> 'c \<Rightarrow> int \<Rightarrow> ('l, 's) event_loop \<Rightarrow> ('l, 's) event_loop" where
  "PostDelayedTask L callback delay_ms w =
     w\<lparr>looper := sendMessageDelayed L (delay_ms * 1000000) (Callback callback) (looper w)\<rparr>"

definition WatchFileDescriptor ::
    "('l, 'c) looper_api \<Rightarrow> int \<Rightarrow> ready_mode \<Rightarrow> 'c \<Rightarrow> ('l, 's) event_loop \<Rightarrow> bool \<times> ('l, 's) event_loop" where
  "WatchFileDescriptor L fd mode callback w =
     (case (case mode of kModeInput \<Rightarrow> Some EVENT_INPUT | kModeOutput \<Rightarrow> Some EVENT_OUTPUT | Other_Mode \<Rightarrow> None) of
        None \<Rightarrow> (False, w)
      | Some event \<Rightarrow>
          let (r, l) = addFd L fd event callback (looper w) in (r \<noteq> 0, w\<lparr>looper := l\<rparr>))"

definition StopWatchFileDescriptor :: "('l, 'c) looper_api \<Rightarrow> int \<Rightarrow> ('l, 's) event_loop \<Rightarrow> bool \<times> ('l, 's) event_loop" where
  "StopWatchFileDescriptor L fd w =
     (let (r, l) = removeFd L fd (looper w) in (r = 1, w\<lparr>looper := l\<rparr>))"

text \<open>The lambda that \<open>TriggerExit\<close> posts is \<open>Exit_Task\<close>.\<close>

definition TriggerExit :: "('l, 'c) looper_api \<Rightarrow> ('l, 's) event_loop \<Rightarrow> ('l, 's) event_loop" where
  "TriggerExit L w = w\<lparr>looper := sendMessage L Exit_Task (looper w)\<rparr>"

section \<open>Running callbacks\<close>

text \<open>What a callback may do with the loop.\<close>

datatype 'c loop_call =
    Call_PostTask 'c
  | Call_PostDelayedTask 'c int
  | Call_WatchFileDescriptor int ready_mode 'c
  | Call_StopWatchFileDescriptor int
  | Call_TriggerExit

primrec call_loop :: "('l, 'c) looper_api \<Rightarrow> 'c loop_call \<Rightarrow> ('l, 's) event_loop \<Rightarrow> ('l, 's) event_loop" where
  "call_loop L (Call_PostTask c) w = PostTask L c w"
| "call_loop L (Call_PostDelayedTask c delay_ms) w = PostDelayedTask L c delay_ms w"
| "call_loop L (Call_WatchFileDescriptor fd mode c) w = snd (WatchFileDescriptor L fd mode c w)"
| "call_loop L (Call_StopWatchFileDescriptor fd) w = snd (StopWatchFileDescriptor L fd w)"
| "call_loop L Call_TriggerExit w = TriggerExit L w"

type_synonym ('c, 's) bodies = "'c \<Rightarrow> 's \<Rightarrow> ('s \<times> 'c loop_call list) res"

text \<open>A callback that ends in a fault ends the process: nothing is run after it.\<close>

definition run_callback ::
    "('l, 'c) looper_api \<Rightarrow> ('c, 's) bodies \<Rightarrow> 'c \<Rightarrow> ('l, 's) event_loop \<Rightarrow> ('l, 's) event_loop res" where
  "run_callback L body c w =
     and_then (body c (program w)) (\<lambda>(s, calls). Inr (fold (call_loop L) calls (w\<lparr>program := s\<rparr>)))"

definition handleMessage ::
    "('l, 'c) looper_api \<Rightarrow> ('c, 's) bodies \<Rightarrow> 'c task \<Rightarrow> ('l, 's) event_loop \<Rightarrow> ('l, 's) event_loop res" where
  "handleMessage L body t w =
     (case t of Callback c \<Rightarrow> run_callback L body c w | Exit_Task \<Rightarrow> Inr (w\<lparr>should_continue := False\<rparr>))"

text \<open>\<open>handleEvent\<close> returns 1: the looper goes on watching the descriptor.\<close>

definition deliver ::
    "('l, 'c) looper_api \<Rightarrow> ('c, 's) bodies \<Rightarrow> 'c delivery \<Rightarrow> ('l, 's) event_loop \<Rightarrow> ('l, 's) event_loop res" where
  "deliver L body d w = (case d of Message t \<Rightarrow> handleMessage L body t w | Ready fd c \<Rightarrow> run_callback L body c w)"

text \<open>The deliveries of one call of \<open>pollOnce\<close>; \<open>None\<close> is a call that never returns.\<close>

partial_function (option) deliveries ::
    "('l, 'c) looper_api \<Rightarrow> ('c, 's) bodies \<Rightarrow> ('l, 's) event_loop \<Rightarrow> ('l, 's) event_loop res option" where
  "deliveries L body w =
     (case poll_next L (looper w) of
        (None, l) \<Rightarrow> Some (Inr (w\<lparr>looper := l\<rparr>))
      | (Some d, l) \<Rightarrow>
          (case deliver L body d (w\<lparr>looper := l\<rparr>) of
             Inl e \<Rightarrow> Some (Inl e)
           | Inr w' \<Rightarrow> deliveries L body w'))"

definition PollForOne ::
    "('l, 'c) looper_api \<Rightarrow> ('c, 's) bodies \<Rightarrow> int \<Rightarrow> ('l, 's) event_loop \<Rightarrow> ('l, 's) event_loop res option" where
  "PollForOne L body timeout_millis w =
     (case poll_begin L timeout_millis (looper w) of
        None \<Rightarrow> None
      | Some l \<Rightarrow> deliveries L body (w\<lparr>looper := l\<rparr>))"

text \<open>The loop may run forever, which is the value \<open>None\<close>; a fault of a callback ends it.\<close>

partial_function (option) Poll ::
    "('l, 'c) looper_api \<Rightarrow> ('c, 's) bodies \<Rightarrow> ('l, 's) event_loop \<Rightarrow> ('l, 's) event_loop res option" where
  "Poll L body w =
     (if should_continue w
      then Option.bind (PollForOne L body (- 1) w) (\<lambda>r.
             case r of Inl e \<Rightarrow> Some (Inl e) | Inr w' \<Rightarrow> Poll L body w')
      else Some (Inr w))"

text \<open>The signal handler of \<open>main\<close>: it does nothing before the loop is registered and after.\<close>

definition LeaveLoop :: "('l, 'c) looper_api \<Rightarrow> bool \<Rightarrow> ('l, 's) event_loop \<Rightarrow> ('l, 's) event_loop" where
  "LeaveLoop L registered w = (if registered then TriggerExit L w else w)"

section \<open>What the looper promises\<close>

text \<open>
  \<open>due l\<close> are the messages that may be handled now, \<open>queued l\<close> bounds the number of messages that
  wait at all, also of those that were delayed, and \<open>ready l\<close> the number of descriptors that the
  current call of \<open>pollOnce\<close> still has to handle. A message that was sent is due, and a due message
  stays due until it is handed out. As long as a message is due, \<open>pollOnce\<close> does not wait and hands
  out a message first. Nothing is promised on their order, nor on when a call of \<open>pollOnce\<close> is over.
\<close>

locale message_queue =
  fixes L :: "('l, 'c) looper_api" and due :: "'l \<Rightarrow> 'c task set" and queued :: "'l \<Rightarrow> nat" and ready :: "'l \<Rightarrow> nat"
  assumes send: "t \<in> due (sendMessage L t l)" "due l \<subseteq> due (sendMessage L t l)"
      "queued (sendMessage L t l) \<le> Suc (queued l)" "ready (sendMessage L t l) \<le> ready l"
    and delay: "due l \<subseteq> due (sendMessageDelayed L ns t l)"
      "queued (sendMessageDelayed L ns t l) \<le> Suc (queued l)" "ready (sendMessageDelayed L ns t l) \<le> ready l"
    and add: "due l \<subseteq> due (snd (addFd L fd event c l))"
      "queued (snd (addFd L fd event c l)) \<le> queued l" "ready (snd (addFd L fd event c l)) \<le> ready l"
    and remove: "due l \<subseteq> due (snd (removeFd L fd l))"
      "queued (snd (removeFd L fd l)) \<le> queued l" "ready (snd (removeFd L fd l)) \<le> ready l"
    and begins: "t \<in> due l \<Longrightarrow> \<exists>l' u l''. poll_begin L timeout l = Some l' \<and> poll_next L l' = (Some (Message u), l'') \<and>
      (t = u \<or> t \<in> due l'') \<and> queued l'' < queued l"
    and next_message: "poll_next L l = (Some (Message u), l') \<Longrightarrow>
      due l \<subseteq> insert u (due l') \<and> queued l' < queued l \<and> ready l' \<le> ready l"
    and next_ready: "poll_next L l = (Some (Ready fd c), l') \<Longrightarrow>
      due l \<subseteq> due l' \<and> queued l' \<le> queued l \<and> ready l' < ready l"
    and next_none: "poll_next L l = (None, l') \<Longrightarrow> due l \<subseteq> due l' \<and> queued l' \<le> queued l"

text \<open>The messages that a callback posts, and a bound for all callbacks together.\<close>

primrec is_post :: "'c loop_call \<Rightarrow> bool" where
  "is_post (Call_PostTask c) = True"
| "is_post (Call_PostDelayedTask c delay_ms) = True"
| "is_post (Call_WatchFileDescriptor fd mode c) = False"
| "is_post (Call_StopWatchFileDescriptor fd) = False"
| "is_post Call_TriggerExit = True"

definition posts :: "'c loop_call list \<Rightarrow> nat" where
  "posts calls = length (filter is_post calls)"

text \<open>In a program state \<open>s\<close> the callbacks that run from now on post at most \<open>budget s\<close> messages.\<close>

definition finitely_many_posts :: "('c, 's) bodies \<Rightarrow> ('s \<Rightarrow> nat) \<Rightarrow> bool" where
  "finitely_many_posts body budget \<longleftrightarrow>
     (\<forall>c s s' calls. body c s = Inr (s', calls) \<longrightarrow> posts calls + budget s' \<le> budget s)"

subsection \<open>What callbacks leave alone\<close>

lemma call_loop_fields [simp]:
  "should_continue (call_loop L call w) = should_continue w" "program (call_loop L call w) = program w"
  by (cases call; auto simp: PostTask_def PostDelayedTask_def WatchFileDescriptor_def StopWatchFileDescriptor_def
      TriggerExit_def Let_def split: option.split prod.split)+

lemma calls_fields [simp]:
  "should_continue (fold (call_loop L) calls w) = should_continue w" "program (fold (call_loop L) calls w) = program w"
  by (induction calls arbitrary: w) simp_all

lemma deliver_flag:
  "deliver L body d w = Inr w' \<Longrightarrow> should_continue w' = (should_continue w \<and> d \<noteq> Message Exit_Task)"
  by (auto simp: deliver_def handleMessage_def run_callback_def elim!: and_then_InrE split: delivery.splits task.splits)

text \<open>What is known of a result when all callbacks keep \<open>I\<close>.\<close>

definition outcome :: "('s \<Rightarrow> bool) \<Rightarrow> ('c, 's) bodies \<Rightarrow> ('l, 's) event_loop res \<Rightarrow> bool" where
  "outcome I body r =
     (case r of Inl e \<Rightarrow> (\<exists>c s. I s \<and> body c s = Inl e) | Inr w \<Rightarrow> I (program w))"

definition kept_by :: "('c, 's) bodies \<Rightarrow> ('s \<Rightarrow> bool) \<Rightarrow> bool" where
  "kept_by body I \<longleftrightarrow> (\<forall>c s s' calls. I s \<longrightarrow> body c s = Inr (s', calls) \<longrightarrow> I s')"

lemma kept_byD: "kept_by body I \<Longrightarrow> body c s = Inr (s', calls) \<Longrightarrow> I s \<Longrightarrow> I s'"
  unfolding kept_by_def by blast

lemma outcome_simps [simp]:
  "outcome I body (Inr w) = I (program w)" "outcome I body (Inl e) \<longleftrightarrow> (\<exists>c s. I s \<and> body c s = Inl e)"
  by (simp_all add: outcome_def)

lemma run_callback_outcome: "kept_by body I \<Longrightarrow> I (program w) \<Longrightarrow> outcome I body (run_callback L body c w)"
  by (cases "body c (program w)") (auto simp: run_callback_def dest: kept_byD)

lemma deliver_outcome: "kept_by body I \<Longrightarrow> I (program w) \<Longrightarrow> outcome I body (deliver L body d w)"
  by (auto simp: deliver_def handleMessage_def run_callback_outcome split: delivery.split task.split)

lemma deliveries_outcome:
  assumes "kept_by body I" "deliveries L body w = Some r" "I (program w)"
  shows "outcome I body r"
proof -
  have "L' = L \<longrightarrow> body' = body \<longrightarrow> I (program v) \<longrightarrow> outcome I body r'" if "deliveries L' body' v = Some r'" for L' body' v r'
  proof (rule deliveries.raw_induct [where P = "\<lambda>L' body' v r'. L' = L \<longrightarrow> body' = body \<longrightarrow> I (program v) \<longrightarrow> outcome I body r'", OF _ that], intro impI)
    fix rec L' body' v r'
    assume IH: "\<And>L' body' v r'. rec L' body' v = Some r' \<Longrightarrow> L' = L \<longrightarrow> body' = body \<longrightarrow> I (program v) \<longrightarrow> outcome I body r'"
      and step: "(case poll_next L' (looper v) of
          (None, l) \<Rightarrow> Some (Inr (v\<lparr>looper := l\<rparr>))
        | (Some d, l) \<Rightarrow> (case deliver L' body' d (v\<lparr>looper := l\<rparr>) of Inl e \<Rightarrow> Some (Inl e) | Inr v' \<Rightarrow> rec L' body' v')) = Some r'"
      and same: "L' = L" "body' = body" "I (program v)"
    obtain d l where picked: "poll_next L (looper v) = (d, l)" by force
    show "outcome I body r'"
    proof (cases d)
      case None
      with step same picked show ?thesis by auto
    next
      case (Some x)
      have "outcome I body (deliver L body x (v\<lparr>looper := l\<rparr>))" by (rule deliver_outcome) (simp_all add: assms(1) same)
      with Some step same picked IH show ?thesis by (cases "deliver L body x (v\<lparr>looper := l\<rparr>)") auto
    qed
  qed
  with assms(2,3) show ?thesis by blast
qed

lemma Poll_outcome:
  assumes "kept_by body I" "Poll L body w = Some r" "I (program w)"
  shows "outcome I body r"
proof -
  have "L' = L \<longrightarrow> body' = body \<longrightarrow> I (program v) \<longrightarrow> outcome I body r'" if "Poll L' body' v = Some r'" for L' body' v r'
  proof (rule Poll.raw_induct [where P = "\<lambda>L' body' v r'. L' = L \<longrightarrow> body' = body \<longrightarrow> I (program v) \<longrightarrow> outcome I body r'", OF _ that], intro impI)
    fix rec L' body' v r'
    assume IH: "\<And>L' body' v r'. rec L' body' v = Some r' \<Longrightarrow> L' = L \<longrightarrow> body' = body \<longrightarrow> I (program v) \<longrightarrow> outcome I body r'"
      and step: "(if should_continue v
          then Option.bind (PollForOne L' body' (- 1) v) (\<lambda>r. case r of Inl e \<Rightarrow> Some (Inl e) | Inr v' \<Rightarrow> rec L' body' v')
          else Some (Inr v)) = Some r'"
      and same: "L' = L" "body' = body" "I (program v)"
    have polled: "outcome I body q" if "PollForOne L body (- 1) v = Some q" for q
      using that deliveries_outcome [OF assms(1), of L "v\<lparr>looper := _\<rparr>"] same
      by (auto simp: PollForOne_def split: option.splits)
    show "outcome I body r'"
    proof (cases "should_continue v")
      case True
      with step same obtain q where q: "PollForOne L body (- 1) v = Some q"
        "(case q of Inl e \<Rightarrow> Some (Inl e) | Inr v' \<Rightarrow> rec L body v') = Some r'"
        by (auto simp: bind_eq_Some_conv)
      show ?thesis
      proof (cases q)
        case (Inl e)
        then have "r' = q" using q(2) by simp
        with polled [OF q(1)] show ?thesis by simp
      next
        case (Inr v')
        with q(2) polled [OF q(1)] IH [of L body v'] show ?thesis by simp
      qed
    qed (use step same in auto)
  qed
  with assms(2,3) show ?thesis by blast
qed

lemma Poll_stopped:
  assumes "Poll L body w = Some (Inr w')"
  shows "\<not> should_continue w'"
proof -
  have "\<forall>w'. r = Inr w' \<longrightarrow> \<not> should_continue w'" if "Poll L body w = Some r" for L body w r
  proof (rule Poll.raw_induct [where P = "\<lambda>L body w r. \<forall>w'. r = Inr w' \<longrightarrow> \<not> should_continue w'", OF _ that])
    fix rec L body w r
    assume IH: "\<And>L body w r. rec L body w = Some r \<Longrightarrow> \<forall>w'. r = Inr w' \<longrightarrow> \<not> should_continue w'"
      and step: "(if should_continue w
          then Option.bind (PollForOne L body (- 1) w) (\<lambda>r. case r of Inl e \<Rightarrow> Some (Inl e) | Inr w' \<Rightarrow> rec L body w')
          else Some (Inr w)) = Some r"
    then show "\<forall>w'. r = Inr w' \<longrightarrow> \<not> should_continue w'"
      by (cases "PollForOne L body (- 1) w") (auto split: if_splits sum.splits)
  qed
  with assms show ?thesis by blast
qed

subsection \<open>The exit task ends the loop\<close>

lemma posts_simps [simp]:
  "posts [] = 0" "posts (call # calls) = (if is_post call then Suc (posts calls) else posts calls)"
  by (simp_all add: posts_def)

context message_queue
begin

lemma watch_effect:
  "due (looper w) \<subseteq> due (looper (snd (WatchFileDescriptor L fd mode c w))) \<and>
   queued (looper (snd (WatchFileDescriptor L fd mode c w))) \<le> queued (looper w) \<and>
   ready (looper (snd (WatchFileDescriptor L fd mode c w))) \<le> ready (looper w)"
  by (cases mode) (simp_all add: WatchFileDescriptor_def split_beta add)

lemma call_effect:
  "due (looper w) \<subseteq> due (looper (call_loop L call w)) \<and>
   queued (looper (call_loop L call w)) \<le> queued (looper w) + posts [call] \<and>
   ready (looper (call_loop L call w)) \<le> ready (looper w)"
proof (cases call)
  case (Call_WatchFileDescriptor fd mode c)
  with watch_effect [of w fd mode c] show ?thesis by simp
qed (simp_all add: PostTask_def PostDelayedTask_def TriggerExit_def StopWatchFileDescriptor_def split_beta send delay remove)

lemma calls_effect:
  "due (looper w) \<subseteq> due (looper (fold (call_loop L) calls w)) \<and>
   queued (looper (fold (call_loop L) calls w)) \<le> queued (looper w) + posts calls \<and>
   ready (looper (fold (call_loop L) calls w)) \<le> ready (looper w)"
proof (induction calls arbitrary: w)
  case (Cons call calls)
  show ?case using Cons [of "call_loop L call w"] call_effect [where w = w and call = call] by auto
qed simp

text \<open>What is left to do: the messages that wait and those that may still be posted.\<close>

definition work :: "('s \<Rightarrow> nat) \<Rightarrow> ('l, 's) event_loop \<Rightarrow> nat" where
  "work budget w = queued (looper w) + budget (program w)"

lemma run_callback_effect:
  assumes "finitely_many_posts body budget" "run_callback L body c w = Inr w'"
  shows "due (looper w) \<subseteq> due (looper w')" "work budget w' \<le> work budget w" "ready (looper w') \<le> ready (looper w)"
proof -
  from assms(2) obtain s calls where s: "body c (program w) = Inr (s, calls)"
    "w' = fold (call_loop L) calls (w\<lparr>program := s\<rparr>)"
    by (auto simp: run_callback_def elim!: and_then_InrE)
  from s(1) assms(1) have "posts calls + budget s \<le> budget (program w)" by (simp add: finitely_many_posts_def)
  with calls_effect [where w = "w\<lparr>program := s\<rparr>" and calls = calls]
  show "due (looper w) \<subseteq> due (looper w')" "work budget w' \<le> work budget w" "ready (looper w') \<le> ready (looper w)"
    by (auto simp: s(2) work_def)
qed

lemma deliver_effect:
  assumes "finitely_many_posts body budget" "deliver L body d w = Inr w'"
  shows "due (looper w) \<subseteq> due (looper w')" "work budget w' \<le> work budget w" "ready (looper w') \<le> ready (looper w)"
  using assms(2) run_callback_effect [OF assms(1)]
  by (auto simp: deliver_def handleMessage_def work_def split: delivery.splits task.splits)

text \<open>A call of \<open>pollOnce\<close> returns, with the exit task still due if it was not handled.\<close>

definition exiting :: "('l, 's) event_loop \<Rightarrow> bool" where
  "exiting w \<longleftrightarrow> \<not> should_continue w \<or> Exit_Task \<in> due (looper w)"

lemma deliver_exiting:
  assumes "finitely_many_posts body budget" "deliver L body d w = Inr w'" "\<not> should_continue w \<or> d = Message Exit_Task \<or> Exit_Task \<in> due (looper w)"
  shows "exiting w'"
  using assms(3) deliver_flag [OF assms(2)] deliver_effect(1) [OF assms(1,2)] by (auto simp: exiting_def)

lemma deliveries_return:
  assumes "finitely_many_posts body budget"
  shows "exiting w \<Longrightarrow> \<exists>r. deliveries L body w = Some r \<and>
    (\<forall>w'. r = Inr w' \<longrightarrow> exiting w' \<and> work budget w' \<le> work budget w)"
proof (induction "work budget w + ready (looper w)" arbitrary: w rule: less_induct)
  case less
  obtain d l where picked: "poll_next L (looper w) = (d, l)" by force
  show ?case
  proof (cases d)
    case None
    then have "deliveries L body w = Some (Inr (w\<lparr>looper := l\<rparr>))" using picked by (subst deliveries.simps) simp
    then show ?thesis using next_none [of "looper w" l] picked None less.prems by (auto simp: exiting_def work_def)
  next
    case (Some x)
    show ?thesis
    proof (cases "deliver L body x (w\<lparr>looper := l\<rparr>)")
      case (Inl e)
      then have "deliveries L body w = Some (Inl e)" using picked Some by (subst deliveries.simps) simp
      then show ?thesis by simp
    next
      case (Inr w1)
      then have step: "deliveries L body w = deliveries L body w1" using picked Some by (subst deliveries.simps) simp
      have rest: "work budget (w\<lparr>looper := l\<rparr>) + ready l < work budget w + ready (looper w)"
          "work budget (w\<lparr>looper := l\<rparr>) \<le> work budget w"
          "\<not> should_continue w \<or> x = Message Exit_Task \<or> Exit_Task \<in> due l"
        using picked Some less.prems next_message [of "looper w" _ l] next_ready [of "looper w" _ _ l]
        by (cases x; force simp: work_def exiting_def)+
      have "exiting w1" using deliver_exiting [OF assms Inr] rest(3) by simp
      with less.hyps [of w1] deliver_effect(2,3) [OF assms Inr] rest(1,2) show ?thesis by (fastforce simp: step)
    qed
  qed
qed

lemma Poll_returns:
  assumes "finitely_many_posts body budget"
  shows "exiting w \<Longrightarrow> \<exists>r. Poll L body w = Some r"
proof (induction "work budget w" arbitrary: w rule: less_induct)
  case less
  show ?case
  proof (cases "should_continue w")
    case False
    then show ?thesis by (subst Poll.simps) simp
  next
    case True
    with less.prems have "Exit_Task \<in> due (looper w)" by (simp add: exiting_def)
    from begins [OF this, of "- 1"] obtain l u l' where l: "poll_begin L (- 1) (looper w) = Some l"
        "poll_next L l = (Some (Message u), l')" "Exit_Task = u \<or> Exit_Task \<in> due l'" "queued l' < queued (looper w)"
      by blast
    let ?w = "w\<lparr>looper := l'\<rparr>"
    have poll: "PollForOne L body (- 1) w =
        (case deliver L body (Message u) ?w of Inl e \<Rightarrow> Some (Inl e) | Inr w1 \<Rightarrow> deliveries L body w1)"
      using l by (simp add: PollForOne_def deliveries.simps [of L body "w\<lparr>looper := l\<rparr>"])
    show ?thesis
    proof (cases "deliver L body (Message u) ?w")
      case (Inl e)
      then show ?thesis using True poll by (subst Poll.simps) simp
    next
      case (Inr w1)
      have "exiting w1" using deliver_exiting [OF assms Inr] l(3) by auto
      from deliveries_return [OF assms this] obtain r where r: "deliveries L body w1 = Some r"
        "\<And>w'. r = Inr w' \<Longrightarrow> exiting w' \<and> work budget w' \<le> work budget w1" by blast
      have less_work: "work budget w1 < work budget w"
        using deliver_effect(2) [OF assms Inr] l(4) by (simp add: work_def)
      have "Poll L body w = (case r of Inl e \<Rightarrow> Some (Inl e) | Inr w' \<Rightarrow> Poll L body w')"
        using True poll r(1) Inr by (subst Poll.simps) simp
      then show ?thesis using r(2) less.hyps less_work by (cases r) fastforce+
    qed
  qed
qed

end

section \<open>An instance\<close>

text \<open>
  A looper with a queue and a script of the descriptors that will be ready at each poll. As in
  \<open>android::Looper\<close>, one call of \<open>pollOnce\<close> first handles messages until none is due, those that
  are posted meanwhile included, and then the descriptors; what they post waits for the next call.
\<close>

record 'c fifo_looper =
  inbox :: "'c task list"
  delayed :: "'c task list"
  watched :: "(int \<times> 'c) list"
  readiness :: "int list list"
  in_messages :: bool
  responses :: "(int \<times> 'c) list"

definition empty_looper :: "'c fifo_looper" where
  "empty_looper = \<lparr>inbox = [], delayed = [], watched = [], readiness = [], in_messages = False, responses = []\<rparr>"

definition begin_poll :: "int \<Rightarrow> 'c fifo_looper \<Rightarrow> 'c fifo_looper option" where
  "begin_poll timeout l =
     (if inbox l @ delayed l = [] \<and> readiness l = [] \<and> timeout < 0 then None
      else Some (l\<lparr>inbox := inbox l @ delayed l, delayed := [], in_messages := True, readiness := tl (readiness l),
        responses := (case readiness l of [] \<Rightarrow> [] | fds # _ \<Rightarrow> filter (\<lambda>p. fst p \<in> set fds) (watched l))\<rparr>))"

definition next_delivery :: "'c fifo_looper \<Rightarrow> 'c delivery option \<times> 'c fifo_looper" where
  "next_delivery l =
     (case (in_messages l, inbox l) of
        (True, t # ts) \<Rightarrow> (Some (Message t), l\<lparr>inbox := ts\<rparr>)
      | _ \<Rightarrow>
          (case responses l of
             [] \<Rightarrow> (None, l\<lparr>in_messages := False\<rparr>)
           | (fd, c) # rs \<Rightarrow> (Some (Ready fd c), l\<lparr>in_messages := False, responses := rs\<rparr>)))"

definition queue_looper :: "('c fifo_looper, 'c) looper_api" where
  "queue_looper =
     \<lparr>sendMessage = (\<lambda>t l. l\<lparr>inbox := inbox l @ [t]\<rparr>),
      sendMessageDelayed = (\<lambda>ns t l. l\<lparr>delayed := delayed l @ [t]\<rparr>),
      addFd = (\<lambda>fd event c l. if fd < 0 then (0, l) else (1, l\<lparr>watched := (fd, c) # watched l\<rparr>)),
      removeFd = (\<lambda>fd l. if fd \<in> fst ` set (watched l)
        then (1, l\<lparr>watched := filter (\<lambda>p. fst p \<noteq> fd) (watched l)\<rparr>) else (0, l)),
      poll_begin = begin_poll, poll_next = next_delivery\<rparr>"

lemma next_delivery_effect:
  assumes "next_delivery l = (d, l')"
  shows "case d of
      None \<Rightarrow> l' = l\<lparr>in_messages := False\<rparr>
    | Some (Message t) \<Rightarrow> inbox l = t # inbox l' \<and> delayed l' = delayed l \<and> responses l' = responses l
    | Some (Ready fd c) \<Rightarrow> inbox l' = inbox l \<and> delayed l' = delayed l \<and> responses l = (fd, c) # responses l'"
  using assms by (auto simp: next_delivery_def split: bool.splits list.splits)

lemma begin_poll_due:
  assumes "t \<in> set (inbox l)"
  shows "\<exists>l' u l''. poll_begin queue_looper timeout l = Some l' \<and> poll_next queue_looper l' = (Some (Message u), l'') \<and>
    (t = u \<or> t \<in> set (inbox l'')) \<and> length (inbox l'') + length (delayed l'') < length (inbox l) + length (delayed l)"
proof -
  let ?l = "l\<lparr>inbox := inbox l @ delayed l, delayed := [], in_messages := True, readiness := tl (readiness l),
        responses := (case readiness l of [] \<Rightarrow> [] | fds # _ \<Rightarrow> filter (\<lambda>p. fst p \<in> set fds) (watched l))\<rparr>"
  from assms obtain u ts where u: "inbox l = u # ts" by (cases "inbox l") auto
  then have "begin_poll timeout l = Some ?l" "next_delivery ?l = (Some (Message u), ?l\<lparr>inbox := ts @ delayed l\<rparr>)"
    by (simp_all add: begin_poll_def next_delivery_def)
  with u assms show ?thesis by (auto simp: queue_looper_def)
qed

interpretation queue: message_queue queue_looper "\<lambda>l. set (inbox l)" "\<lambda>l. length (inbox l) + length (delayed l)"
  "\<lambda>l. length (responses l)"
  by (unfold_locales; (erule begin_poll_due)?) (auto simp: queue_looper_def dest!: next_delivery_effect)

section \<open>The service in the loop\<close>

text \<open>
  \<open>main\<close> watches the descriptor of the binder driver; \<open>Start\<close> watches the asynchronous netlink
  socket. What arrives on them is a script: the commands that are pending each time the binder
  descriptor is ready, and the datagrams. A request or a datagram that ends in a fault ends the
  process; the commands behind it are not served. No callback of the service posts anything.
\<close>

datatype service_callback = OnBinderReadReady | Netlink_Readable

type_synonym service = "request list list \<times> read_result list \<times> srv"

primrec handlePolledCommands :: "nat \<Rightarrow> request list \<Rightarrow> srv \<Rightarrow> srv res" where
  "handlePolledCommands n [] s = Inr s"
| "handlePolledCommands n (r # rs) s = and_then (perform n r s) (handlePolledCommands n rs)"

definition service_body :: "nat \<Rightarrow> (service_callback, service) bodies" where
  "service_body n c s =
     (case s of (commands, datagrams, server) \<Rightarrow>
       case c of
         OnBinderReadReady \<Rightarrow>
           (case commands of
              [] \<Rightarrow> Inr (s, [])
            | rs # later \<Rightarrow>
                and_then (handlePolledCommands n rs server) (\<lambda>server'. Inr ((later, datagrams, server'), [])))
       | Netlink_Readable \<Rightarrow>
           (case datagrams of
              [] \<Rightarrow> Inr (s, [])
            | d # later \<Rightarrow>
                and_then (perform n (Socket_Ready d) server) (\<lambda>server'. Inr ((commands, later, server'), []))))"

text \<open>What the loop has still to serve is part of what it was given.\<close>

definition serves :: "nat \<Rightarrow> request set \<Rightarrow> service \<Rightarrow> bool" where
  "serves n R p \<longleftrightarrow>
     (case p of (commands, datagrams, server) \<Rightarrow>
        reachable n server \<and> set (concat commands) \<subseteq> R \<and> Socket_Ready ` set datagrams \<subseteq> R)"

lemma handled_reachable:
  "handlePolledCommands n rs s = Inr s' \<Longrightarrow> reachable n s \<Longrightarrow> reachable n s'"
  by (induction rs arbitrary: s) (auto elim!: and_then_InrE intro: reachable_request)

lemma handled_fault:
  "handlePolledCommands n rs s = Inl e \<Longrightarrow> reachable n s \<Longrightarrow> \<exists>q t. q \<in> set rs \<and> reachable n t \<and> perform n q t = Inl e"
proof (induction rs arbitrary: s)
  case (Cons r rs)
  show ?case
  proof (cases "perform n r s")
    case (Inl e')
    with Cons.prems show ?thesis by auto
  next
    case (Inr s1)
    with Cons.prems have "handlePolledCommands n rs s1 = Inl e" "reachable n s1" by (auto intro: reachable_request)
    from Cons.IH [OF this] show ?thesis by (meson list.set_intros(2))
  qed
qed simp

text \<open>The ways in which a callback of the service goes on or fails.\<close>

lemma service_bodyE:
  assumes "service_body n c (commands, datagrams, server) = r"
  obtains "r = Inr ((commands, datagrams, server), [])"
  | rs later where "commands = rs # later"
      "r = and_then (handlePolledCommands n rs server) (\<lambda>s. Inr ((later, datagrams, s), []))"
  | d later where "datagrams = d # later"
      "r = and_then (perform n (Socket_Ready d) server) (\<lambda>s. Inr ((commands, later, s), []))"
  using assms by (auto simp: service_body_def simp del: perform.simps split: service_callback.splits list.splits)

lemma service_keeps: "kept_by (service_body n) (serves n R)"
  unfolding kept_by_def
proof (intro allI impI)
  fix c calls and p p' :: service
  obtain commands datagrams s where p: "p = (commands, datagrams, s)" by (cases p)
  assume serve: "serves n R p" and "service_body n c p = Inr (p', calls)"
  then show "serves n R p'"
    unfolding p
  proof (elim service_bodyE)
    fix rs later
    assume "commands = rs # later"
      "Inr (p', calls) = and_then (handlePolledCommands n rs s) (\<lambda>s. Inr ((later, datagrams, s), []))"
    with serve p show ?thesis by (auto simp: serves_def and_then_def dest: handled_reachable split: sum.splits)
  next
    fix d later
    assume d: "datagrams = d # later"
      "Inr (p', calls) = and_then (perform n (Socket_Ready d) s) (\<lambda>s. Inr ((commands, later, s), []))"
    then obtain s' where "perform n (Socket_Ready d) s = Inr s'" "p' = (commands, later, s')"
      by (auto simp del: perform.simps simp: and_then_def split: sum.splits)
    with d serve p reachable_request [of n s "Socket_Ready d" s'] show ?thesis by (simp add: serves_def del: perform.simps)
  qed (use serve p in simp)
qed

lemma service_fault:
  assumes "serves n R p" "service_body n c p = Inl e"
  shows "\<exists>q t. q \<in> R \<and> reachable n t \<and> perform n q t = Inl e"
proof -
  obtain commands datagrams s where p: "p = (commands, datagrams, s)" by (cases p)
  from assms(2) show ?thesis
    unfolding p
  proof (elim service_bodyE)
    fix rs later
    assume "commands = rs # later" "Inl e = and_then (handlePolledCommands n rs s) (\<lambda>s. Inr ((later, datagrams, s), []))"
    then have "set rs \<subseteq> R" "handlePolledCommands n rs s = Inl e" "reachable n s"
      using assms(1) p by (auto simp: serves_def and_then_def split: sum.splits)
    with handled_fault [of n rs s e] show ?thesis by blast
  next
    fix d later
    assume "datagrams = d # later" "Inl e = and_then (perform n (Socket_Ready d) s) (\<lambda>s. Inr ((commands, later, s), []))"
    then have "Socket_Ready d \<in> R" "perform n (Socket_Ready d) s = Inl e" "reachable n s"
      using assms(1) p by (auto simp: serves_def and_then_def simp del: perform.simps split: sum.splits)
    then show ?thesis by blast
  qed simp
qed

lemma service_posts_nothing: "finitely_many_posts (service_body n) (\<lambda>s. 0)"
  by (auto simp: finitely_many_posts_def service_body_def elim!: and_then_InrE split: service_callback.splits list.splits)

text \<open>However the loop of the service ends: in a reachable state, or by a fault of something it was given to serve.\<close>

lemma service_ends:
  assumes "Poll L (service_body n) w = Some r" "serves n R (program w)"
  shows "case r of
      Inl e \<Rightarrow> \<exists>q t. q \<in> R \<and> reachable n t \<and> perform n q t = Inl e
    | Inr w' \<Rightarrow> serves n R (program w') \<and> \<not> should_continue w'"
proof (cases r)
  case (Inl e)
  with Poll_outcome [OF service_keeps assms] service_fault show ?thesis by auto
next
  case (Inr w')
  with Poll_outcome [OF service_keeps assms] Poll_stopped [of L "service_body n" w w'] assms(1) show ?thesis by simp
qed

section \<open>Properties\<close>

text \<open>
  C38. After \<open>TriggerExit\<close> (which the signal handlers call) the event loop ends, whatever is still
  pending, as long as the callbacks do not post for ever: if all that run from now on together post
  finitely many messages (\<open>finitely_many_posts\<close>), \<open>Poll\<close> returns with the loop told to stop, unless
  a callback ended in a fault. Watching and unwatching descriptors is not restricted. It is needed
  of the looper that \<open>pollOnce\<close> hands out a message when one is due (\<open>message_queue\<close>).
\<close>

theorem exit_ends_loop:
  assumes "message_queue L due queued ready" "finitely_many_posts body budget"
  shows "\<exists>r. Poll L body (TriggerExit L w) = Some r \<and>
    (case r of Inl e \<Rightarrow> \<exists>c s. body c s = Inl e | Inr w' \<Rightarrow> \<not> should_continue w')"
proof -
  have "Exit_Task \<in> due (looper (TriggerExit L w))"
    by (simp add: TriggerExit_def message_queue.send(1) [OF assms(1)])
  then have "message_queue.exiting due (TriggerExit L w)" by (simp add: message_queue.exiting_def [OF assms(1)])
  from message_queue.Poll_returns [OF assms this] obtain r where r: "Poll L body (TriggerExit L w) = Some r" by blast
  have "outcome (\<lambda>_. True) body r" by (rule Poll_outcome [OF _ r]) (simp_all add: kept_by_def)
  with r Poll_stopped [of L body "TriggerExit L w"] show ?thesis by (cases r) auto
qed

text \<open>A callback that posts itself again five times, each time within the same call of \<open>pollOnce\<close>.\<close>

definition reposting :: "(unit, nat) bodies" where
  "reposting c s = Inr (s - 1, if s = 0 then [] else [Call_PostTask c])"

theorem exit_ends_loop_witness:
  "\<exists>w'. Poll queue_looper reposting
     (TriggerExit queue_looper (PostTask queue_looper () (LooperBackedEventLoop empty_looper 5))) = Some (Inr w') \<and>
     \<not> should_continue w'"
proof -
  have "finitely_many_posts reposting (\<lambda>s. s)" by (simp add: finitely_many_posts_def reposting_def)
  from exit_ends_loop [OF queue.message_queue_axioms this] obtain r where
    "Poll queue_looper reposting (TriggerExit queue_looper (PostTask queue_looper () (LooperBackedEventLoop empty_looper 5))) = Some r"
    "case r of Inl e \<Rightarrow> \<exists>c s. reposting c s = Inl e | Inr w' \<Rightarrow> \<not> should_continue w'" by blast
  then show ?thesis by (cases r) (simp_all add: reposting_def)
qed

text \<open>
  The bound is needed: \<open>pollOnce\<close> of such a looper does not return while a callback posts itself, and
  \<open>Poll\<close> does not get to test whether it was told to stop.
\<close>

lemma self_posting_deliveries:
  assumes "in_messages (looper w)" "Callback () \<in> set (inbox (looper w))"
  shows "deliveries queue_looper (\<lambda>c s. Inr (s, [Call_PostTask ()])) w = None"
proof -
  let ?stuck = "\<lambda>w :: (unit fifo_looper, 's) event_loop. in_messages (looper w) \<and> Callback () \<in> set (inbox (looper w))"
  let ?body = "\<lambda>c (s :: 's). Inr (s, [Call_PostTask ()]) :: ('s \<times> unit loop_call list) res"
  have step: "\<exists>d l v. poll_next queue_looper (looper w) = (Some d, l) \<and> deliver queue_looper ?body d (w\<lparr>looper := l\<rparr>) = Inr v \<and> ?stuck v"
    if "?stuck w" for w
    using that by (cases "inbox (looper w)"; cases "hd (inbox (looper w))")
      (auto simp: queue_looper_def next_delivery_def deliver_def handleMessage_def run_callback_def PostTask_def)
  have never: "L = queue_looper \<longrightarrow> body = ?body \<longrightarrow> \<not> ?stuck w" if "deliveries L body w = Some r" for L body w r
  proof (rule deliveries.raw_induct [where P = "\<lambda>L body w r. L = queue_looper \<longrightarrow> body = ?body \<longrightarrow> \<not> ?stuck w", OF _ that], intro impI notI)
    fix rec L body w r
    assume IH: "\<And>L body w r. rec L body w = Some r \<Longrightarrow> L = queue_looper \<longrightarrow> body = ?body \<longrightarrow> \<not> ?stuck w"
      and run: "(case poll_next L (looper w) of
          (None, l) \<Rightarrow> Some (Inr (w\<lparr>looper := l\<rparr>))
        | (Some d, l) \<Rightarrow> (case deliver L body d (w\<lparr>looper := l\<rparr>) of Inl e \<Rightarrow> Some (Inl e) | Inr w' \<Rightarrow> rec L body w')) = Some r"
      and same: "L = queue_looper" "body = ?body" "?stuck w"
    from step [OF same(3)] obtain d l v where "poll_next queue_looper (looper w) = (Some d, l)"
      "deliver queue_looper ?body d (w\<lparr>looper := l\<rparr>) = Inr v" "?stuck v" by blast
    with run same IH [of queue_looper ?body v r] show False by simp
  qed
  show ?thesis
  proof (cases "deliveries queue_looper ?body w")
    case (Some r)
    from never [OF this] assms show ?thesis by simp
  qed
qed

lemma self_posting_never_ends:
  "Poll queue_looper (\<lambda>c s. Inr (s, [Call_PostTask ()]))
     (TriggerExit queue_looper (PostTask queue_looper () (LooperBackedEventLoop empty_looper s))) = None"
proof -
  let ?w = "TriggerExit queue_looper (PostTask queue_looper () (LooperBackedEventLoop empty_looper s))"
  have w: "looper ?w = empty_looper\<lparr>inbox := [Callback (), Exit_Task]\<rparr>" "should_continue ?w"
    by (simp_all add: TriggerExit_def PostTask_def LooperBackedEventLoop_def queue_looper_def empty_looper_def)
  then have "PollForOne queue_looper (\<lambda>c s. Inr (s, [Call_PostTask ()])) (- 1) ?w = None"
    by (simp add: PollForOne_def queue_looper_def [THEN arg_cong, of poll_begin] begin_poll_def empty_looper_def self_posting_deliveries)
  with w(2) show ?thesis by (subst Poll.simps) simp
qed

end
