(* ===== verification/Main_Program.thy ===== *)
theory Main_Program
  imports Event_Loop
begin

text \<open>
  \<open>main.cpp\<close>: how the process is put together. The binder driver, the service manager and the
  sockets are what the system answers, the record \<open>process_world\<close>; the event loop is that of
  \<open>Event_Loop\<close> over a looper \<open>L\<close>. \<open>WifiKeystoreHalConnector\<close>, which \<open>main\<close> starts before the loop,
  calls into the HIDL library, which is the parameter \<open>K\<close>: the functions called, on a state of that
  library. A fault of the start-up or of something the loop serves ends the process, or is a search
  that never returns; only otherwise does \<open>main\<close> return its status.
\<close>

section \<open>The parts of \<open>main\<close>\<close>

record start_world =
  sync_socket :: socket_env
  async_socket :: socket_env
  membership :: "u32 \<Rightarrow> bool"

record process_world =
  polling :: "int \<times> int"
  has_service_manager :: bool
  addService_status :: int
  attempt1 :: start_world
  attempt2 :: start_world
  attempt3 :: start_world
  early_signal :: bool

text \<open>
  The argument and the result say whether the static pointer to the loop is set. A second object
  would end the process.
\<close>

definition ScopedSignalHandler :: "bool \<Rightarrow> bool res" where
  "ScopedSignalHandler s_event_loop = (if s_event_loop then Inl Check_Failed else Inr True)"

definition SetupBinderOrCrash :: "int \<times> int \<Rightarrow> int res" where
  "SetupBinderOrCrash setupPolling =
     (case setupPolling of (err, binder_fd) \<Rightarrow>
        if err \<noteq> 0 then Inl Check_Failed else if binder_fd < 0 then Inl Check_Failed else Inr binder_fd)"

definition RegisterServiceOrCrash :: "bool \<Rightarrow> int \<Rightarrow> unit res" where
  "RegisterServiceOrCrash service_manager addService =
     (if \<not> service_manager then Inl Check_Failed else if addService \<noteq> 0 then Inl Check_Failed else Inr ())"

text \<open>
  \<open>WifiKeystoreHalConnector::start\<close>: the status that is logged, if one is, and the state of the
  library. The registration may fail: nothing else happens then.
\<close>

record ('k, 'h) hidl_api =
  configureRpcThreadpool :: "nat \<Rightarrow> bool \<Rightarrow> 'h \<Rightarrow> 'h"
  new_Keystore :: "'h \<Rightarrow> 'k \<times> 'h"
  registerAsService :: "'k \<Rightarrow> 'h \<Rightarrow> int \<times> 'h"

definition WifiKeystoreHalConnector_start :: "('k, 'h) hidl_api \<Rightarrow> 'h \<Rightarrow> int option \<times> 'h" where
  "WifiKeystoreHalConnector_start K h =
     (let h1 = configureRpcThreadpool K 1 False h;
          (wifiKeystoreHalService, h2) = new_Keystore K h1;
          (err, h3) = registerAsService K wifiKeystoreHalService h2
      in (if err \<noteq> 0 then Some err else None, h3))"

text \<open>
  A step of the start-up that may watch the asynchronous netlink socket in the loop. \<open>WatchSocket\<close>
  is the only place that does, once per step; the looper is the one that watches the socket if the
  step got there. A looper that refuses (invalid arguments) is left as it was.
\<close>

definition watching ::
    "('l, service_callback) looper_api \<Rightarrow> start_world \<Rightarrow> (start_env \<Rightarrow> srv \<Rightarrow> srv res) \<Rightarrow>
     ('l, srv) event_loop \<Rightarrow> ('l, srv) event_loop res" where
  "watching L e step w =
     (let (ok, w') = WatchFileDescriptor L (sock_fd (async_socket e)) kModeInput Netlink_Readable w in
      and_then (step (sync_socket e, async_socket e, ok, membership e) (program w)) (\<lambda>s.
        Inr ((if length (watched_fds (program w)) < length (watched_fds s) then w' else w)\<lparr>program := s\<rparr>)))"

definition start_step :: "nat \<Rightarrow> start_env \<Rightarrow> srv \<Rightarrow> srv res" where
  "start_step n e s = (case e of (sync_env, async_env, watch_ok, member_ok) \<Rightarrow>
     and_then (Start (dispatch n) sync_env async_env watch_ok member_ok s) (\<lambda>(_, s1). Inr s1))"

definition netlink_utils_step :: "nat \<Rightarrow> start_env \<Rightarrow> srv \<Rightarrow> srv res" where
  "netlink_utils_step n e s = (case e of (sync_env, async_env, watch_ok, member_ok) \<Rightarrow>
     NetlinkUtils (dispatch n) sync_env async_env watch_ok member_ok s)"

definition scan_utils_step :: "nat \<Rightarrow> start_env \<Rightarrow> srv \<Rightarrow> srv res" where
  "scan_utils_step n e s = (case e of (sync_env, async_env, watch_ok, member_ok) \<Rightarrow>
     ScanUtils (dispatch n) sync_env async_env watch_ok member_ok s)"

text \<open>Up to the call of \<open>Poll\<close>; a signal may have arrived by then. The HIDL library is left as \<open>start\<close> leaves it.\<close>

definition main_startup ::
    "('l, service_callback) looper_api \<Rightarrow> ('k, 'h) hidl_api \<Rightarrow> nat \<Rightarrow> process_world \<Rightarrow> 'l \<Rightarrow> 'h \<Rightarrow> srv \<Rightarrow>
     ('h \<times> ('l, srv) event_loop) res" where
  "main_startup L K n P l h server =
     and_then (ScopedSignalHandler False) (\<lambda>registered.
     and_then (SetupBinderOrCrash (polling P)) (\<lambda>binder_fd.
       let (ok, w1) = WatchFileDescriptor L binder_fd kModeInput OnBinderReadReady (LooperBackedEventLoop l server) in
       if \<not> ok then Inl Check_Failed
       else and_then (watching L (attempt1 P) (start_step n) w1) (\<lambda>w2.
            and_then (watching L (attempt2 P) (netlink_utils_step n) w2) (\<lambda>w3.
            and_then (watching L (attempt3 P) (scan_utils_step n) w3) (\<lambda>w4.
            and_then (RegisterServiceOrCrash (has_service_manager P) (addService_status P)) (\<lambda>_.
              let (logged, h') = WifiKeystoreHalConnector_start K h
              in Inr (h', if early_signal P then LeaveLoop L registered w4 else w4)))))))"

text \<open>
  The exit status and the loop as it was left, or the fault that \<open>main\<close> did not get beyond. \<open>None\<close>
  is a loop that never ends, which is what a service does as long as no signal arrives.
\<close>

definition wificond_main ::
    "('l, service_callback) looper_api \<Rightarrow> ('k, 'h) hidl_api \<Rightarrow> nat \<Rightarrow> process_world \<Rightarrow> 'l \<Rightarrow> 'h \<Rightarrow> srv \<Rightarrow>
     request list list \<Rightarrow> read_result list \<Rightarrow> (int \<times> ('l, service) event_loop) res option" where
  "wificond_main L K n P l h server commands datagrams =
     (case main_startup L K n P l h server of
        Inl e \<Rightarrow> Some (Inl e)
      | Inr (_, w) \<Rightarrow> map_option (\<lambda>r. and_then r (\<lambda>w'. Inr (0, w')))
          (Poll L (service_body n)
            \<lparr>looper = looper w, should_continue = should_continue w, program = (commands, datagrams, program w)\<rparr>))"

section \<open>What the start-up leaves\<close>

lemma WatchFileDescriptor_keeps:
  "WatchFileDescriptor L fd mode c w = (ok, w') \<Longrightarrow> program w' = program w \<and> should_continue w' = should_continue w"
  by (auto simp: WatchFileDescriptor_def Let_def split: option.splits prod.splits)

lemma watching_InrE:
  assumes "watching L e step w = Inr w'"
  obtains ok where "step (sync_socket e, async_socket e, ok, membership e) (program w) = Inr (program w')"
    "should_continue w' = should_continue w"
proof -
  obtain ok v where v: "WatchFileDescriptor L (sock_fd (async_socket e)) kModeInput Netlink_Readable w = (ok, v)" by force
  from WatchFileDescriptor_keeps [OF v] assms that show ?thesis
    by (auto simp: watching_def v elim!: and_then_InrE split: if_splits)
qed

lemma main_startup_service:
  assumes "main_startup L K n P l h server = Inr (h', w)"
  shows "(\<exists>env env2 env3. start_service (dispatch n) env env2 env3 server = Inr (program w)) \<and> should_continue w \<and>
    fst (polling P) = 0 \<and> 0 \<le> snd (polling P) \<and> has_service_manager P \<and> addService_status P = 0"
proof -
  obtain err fd where p: "polling P = (err, fd)" by force
  obtain ok w1 where w1: "WatchFileDescriptor L fd kModeInput OnBinderReadReady (LooperBackedEventLoop l server) = (ok, w1)"
    by force
  have s1: "program w1 = server" "should_continue w1"
    using WatchFileDescriptor_keeps [OF w1] by (simp_all add: LooperBackedEventLoop_def)
  from assms p w1 obtain w2 w3 w4 where
    w: "watching L (attempt1 P) (start_step n) w1 = Inr w2" "watching L (attempt2 P) (netlink_utils_step n) w2 = Inr w3"
      "watching L (attempt3 P) (scan_utils_step n) w3 = Inr w4" "w = (if early_signal P then TriggerExit L w4 else w4)"
    and ok: "err = 0" "0 \<le> fd" "has_service_manager P" "addService_status P = 0"
    by (auto simp: main_startup_def ScopedSignalHandler_def SetupBinderOrCrash_def RegisterServiceOrCrash_def LeaveLoop_def
        elim!: and_then_InrE split: if_splits prod.splits)
  from w(1) obtain a where a: "start_step n (sync_socket (attempt1 P), async_socket (attempt1 P), a, membership (attempt1 P)) server =
      Inr (program w2)" "should_continue w2"
    using s1 by (auto elim: watching_InrE)
  from w(2) obtain b where b: "netlink_utils_step n (sync_socket (attempt2 P), async_socket (attempt2 P), b, membership (attempt2 P))
      (program w2) = Inr (program w3)" "should_continue w3"
    using a(2) by (auto elim: watching_InrE)
  from w(3) obtain c where c: "scan_utils_step n (sync_socket (attempt3 P), async_socket (attempt3 P), c, membership (attempt3 P))
      (program w3) = Inr (program w4)" "should_continue w4"
    using b(2) by (auto elim: watching_InrE)
  have "start_service (dispatch n) (sync_socket (attempt1 P), async_socket (attempt1 P), a, membership (attempt1 P))
      (sync_socket (attempt2 P), async_socket (attempt2 P), b, membership (attempt2 P))
      (sync_socket (attempt3 P), async_socket (attempt3 P), c, membership (attempt3 P)) server = Inr (program w4)"
    using a(1) b(1) c(1)
    by (auto simp: start_service_def start_step_def netlink_utils_step_def scan_utils_step_def elim!: and_then_InrE)
  moreover have "program w = program w4" "should_continue w = should_continue w4"
    by (simp_all add: w(4) TriggerExit_def)
  ultimately show ?thesis using p ok c(2) by (metis fst_conv snd_conv)
qed

lemma main_startup_reachable:
  assumes "main_startup L K n P l h (Server (NetlinkManager script interceptor pid) names scan_mem client_mem info_mem) = Inr (h', w)"
  shows "reachable n (program w)"
  using main_startup_service [OF assms] by (auto intro: reachable_start)

lemma early_signal_due:
  assumes "message_queue L due queued ready" "main_startup L K n P l h server = Inr (h', w)" "early_signal P"
  shows "Exit_Task \<in> due (looper w)"
proof -
  from assms(2,3) obtain v where "w = TriggerExit L v"
    by (auto simp: main_startup_def ScopedSignalHandler_def LeaveLoop_def Let_def elim!: and_then_InrE split: if_splits prod.splits)
  then show ?thesis by (simp add: TriggerExit_def message_queue.send(1) [OF assms(1)])
qed

text \<open>Without sockets the manager never learns the family.\<close>

lemma Start_no_socket:
  assumes "\<not> is_started s" "sock_fd sync_env < 0"
  shows "Start run sync_env async_env watch_ok member_ok s = Inr (False, s\<lparr>sync_netlink_fd := sock_fd sync_env\<rparr>)"
  using assms by (simp add: Start_def SetupSocket_def)

lemma new_request_unknown: "message_types s = [] \<Longrightarrow> new_request c s = Inl Uninitialized"
  by (simp add: new_request_def GetFamilyId_def message_type_entry_def default_message_type_def)

section \<open>Properties\<close>

text \<open>What the loop is given to serve: the commands of clients and the datagrams of the kernel.\<close>

definition served :: "request list list \<Rightarrow> read_result list \<Rightarrow> request set" where
  "served commands datagrams = set (concat commands) \<union> Socket_Ready ` set datagrams"

text \<open>
  C14. The process from \<open>main\<close> on. When the start-up succeeds, the loop is entered with the server in a
  reachable state. If \<open>main\<close> returns, its exit status is 0, the loop was told to stop and all objects
  of the server are in order. If it ends otherwise, a command or a datagram that it was given to
  serve had a fault in a reachable state (a failed check ends the process, an endless search never
  returns). A signal that arrives during the start-up is not lost: the loop does not go on for ever,
  and \<open>main\<close> returns if nothing it serves has a fault.
\<close>

theorem main_runs_in_order:
  assumes "main_startup L K n P l h (Server (NetlinkManager script interceptor pid) names scan_mem client_mem info_mem) = Inr (h', w)"
  shows "reachable n (program w) \<and>
    (\<forall>r. wificond_main L K n P l h (Server (NetlinkManager script interceptor pid) names scan_mem client_mem info_mem)
        commands datagrams = Some r \<longrightarrow>
      (case r of
         Inr (code, w') \<Rightarrow> code = 0 \<and> \<not> should_continue w' \<and> reachable n (snd (snd (program w'))) \<and> objects_ok (snd (snd (program w')))
       | Inl e \<Rightarrow> \<exists>q t. q \<in> served commands datagrams \<and> reachable n t \<and> perform n q t = Inl e)) \<and>
    (message_queue L due queued ready \<and> early_signal P \<longrightarrow>
      wificond_main L K n P l h (Server (NetlinkManager script interceptor pid) names scan_mem client_mem info_mem)
        commands datagrams \<noteq> None)"
proof (intro conjI allI impI)
  let ?v = "\<lparr>looper = looper w, should_continue = should_continue w, program = (commands, datagrams, program w)\<rparr>"
  show reach: "reachable n (program w)" by (rule main_startup_reachable [OF assms])
  have serves: "serves n (served commands datagrams) (program ?v)" using reach by (auto simp: serves_def served_def)
  fix r
  assume "wificond_main L K n P l h (Server (NetlinkManager script interceptor pid) names scan_mem client_mem info_mem)
        commands datagrams = Some r"
  then obtain q where q: "Poll L (service_body n) ?v = Some q" "r = and_then q (\<lambda>w'. Inr (0, w'))"
    using assms by (auto simp: wificond_main_def)
  from service_ends [OF q(1) serves] reachable_ok
  show "case r of
         Inr (code, w') \<Rightarrow> code = 0 \<and> \<not> should_continue w' \<and> reachable n (snd (snd (program w'))) \<and> objects_ok (snd (snd (program w')))
       | Inl e \<Rightarrow> \<exists>q t. q \<in> served commands datagrams \<and> reachable n t \<and> perform n q t = Inl e"
    by (cases q) (auto simp: q(2) serves_def)
next
  assume "message_queue L due queued ready \<and> early_signal P"
  then have q: "message_queue L due queued ready" and early: "early_signal P" by simp_all
  let ?v = "\<lparr>looper = looper w, should_continue = should_continue w, program = (commands, datagrams, program w)\<rparr>"
  have "message_queue.exiting due ?v"
    using early_signal_due [OF q assms early] by (simp add: message_queue.exiting_def [OF q])
  from message_queue.Poll_returns [OF q service_posts_nothing this] obtain r where "Poll L (service_body n) ?v = Some r" by blast
  then show "wificond_main L K n P l h (Server (NetlinkManager script interceptor pid) names scan_mem client_mem info_mem)
      commands datagrams \<noteq> None"
    using assms by (simp add: wificond_main_def)
qed

text \<open>A process that finds everything, and a signal before the loop is entered.\<close>

definition good_world :: process_world where
  "good_world =
     \<lparr>polling = (0, 7), has_service_manager = True, addService_status = 0,
      attempt1 = \<lparr>sync_socket = good_socket, async_socket = good_socket, membership = (\<lambda>_. True)\<rparr>,
      attempt2 = \<lparr>sync_socket = good_socket, async_socket = good_socket, membership = (\<lambda>_. True)\<rparr>,
      attempt3 = \<lparr>sync_socket = good_socket, async_socket = good_socket, membership = (\<lambda>_. True)\<rparr>,
      early_signal = True\<rparr>"

text \<open>A HIDL library that counts the services it was asked to register and refuses them.\<close>

definition refusing_hidl :: "(unit, nat) hidl_api" where
  "refusing_hidl =
     \<lparr>configureRpcThreadpool = (\<lambda>threads joins h. h), new_Keystore = (\<lambda>h. ((), h)), registerAsService = (\<lambda>k h. (- 1, h + 1))\<rparr>"

lemma good_startup: "\<exists>w. main_startup queue_looper refusing_hidl 3 good_world empty_looper 0 cold_server = Inr (1, w)"
proof -
  obtain s where s: "start_service (dispatch 3) good_start good_start good_start cold_server = Inr s" using cold_start by blast
  then obtain s1 s2 ok where parts: "Start (dispatch 3) good_socket good_socket True (\<lambda>_. True) cold_server = Inr (ok, s1)"
      "NetlinkUtils (dispatch 3) good_socket good_socket True (\<lambda>_. True) s1 = Inr s2"
      "ScanUtils (dispatch 3) good_socket good_socket True (\<lambda>_. True) s2 = Inr s"
    by (auto simp: start_service_def elim!: and_then_InrE)
  show ?thesis
    using parts
    by (auto simp: main_startup_def good_world_def empty_looper_def ScopedSignalHandler_def SetupBinderOrCrash_def
        RegisterServiceOrCrash_def WifiKeystoreHalConnector_start_def refusing_hidl_def WatchFileDescriptor_def
        LooperBackedEventLoop_def queue_looper_def watching_def Let_def
        start_step_def netlink_utils_step_def scan_utils_step_def good_socket_def split: if_splits)
qed

theorem main_runs_in_order_witness:
  "\<exists>w'. wificond_main queue_looper refusing_hidl 3 good_world empty_looper 0 cold_server [[Do_RegisterCallback 9]] [] =
     Some (Inr (0, w'))"
proof -
  obtain w where w: "main_startup queue_looper refusing_hidl 3 good_world empty_looper 0 cold_server = Inr (1, w)"
    using good_startup by blast
  have "early_signal good_world" by (simp add: good_world_def)
  with main_runs_in_order [OF w [unfolded cold_server_def], where commands = "[[Do_RegisterCallback 9]]" and datagrams = "[]"]
    queue.message_queue_axioms
  obtain r where r: "wificond_main queue_looper refusing_hidl 3 good_world empty_looper 0 cold_server [[Do_RegisterCallback 9]] [] = Some r"
    "case r of
       Inr (code, w') \<Rightarrow> code = 0 \<and> \<not> should_continue w' \<and> reachable 3 (snd (snd (program w'))) \<and> objects_ok (snd (snd (program w')))
     | Inl e \<Rightarrow> \<exists>q t. q \<in> served [[Do_RegisterCallback 9]] [] \<and> reachable 3 t \<and> perform 3 q t = Inl e"
    unfolding cold_server_def by blast
  then show ?thesis by (cases r) (auto simp: served_def)
qed

text \<open>
  C26. What happens when the start-up fails. Without the binder driver the process aborts before it
  does anything else. When no netlink socket can be made, \<open>main\<close> only logs that the manager did not
  start and goes on; the constructor of \<open>NetlinkUtils\<close> then builds a request with the
  uninitialised family number of an entry that \<open>GetFamilyId\<close> has just made.
\<close>

theorem startup_failures:
  fixes server :: srv
  assumes "\<not> is_started server" "message_types server = []"
  shows "(fst (polling P) \<noteq> 0 \<or> snd (polling P) < 0 \<or> fst (addFd L (snd (polling P)) 1 OnBinderReadReady l) = 0 \<longrightarrow>
      wificond_main L K n P l h server commands datagrams = Some (Inl Check_Failed)) \<and>
    (fst (polling P) = 0 \<and> 0 \<le> snd (polling P) \<and> fst (addFd L (snd (polling P)) 1 OnBinderReadReady l) \<noteq> 0 \<and>
      sock_fd (sync_socket (attempt1 P)) < 0 \<and> sock_fd (sync_socket (attempt2 P)) < 0 \<longrightarrow>
      wificond_main L K n P l h server commands datagrams = Some (Inl Uninitialized))"
proof -
  obtain err fd where p: "polling P = (err, fd)" by force
  obtain r l' where a: "addFd L fd 1 OnBinderReadReady l = (r, l')" by force
  have utils: "NetlinkUtils run sync_env async_env watch_ok member_ok s = Inl Uninitialized"
    if "sock_fd sync_env < 0" "\<not> is_started s" "message_types s = []" for run sync_env async_env watch_ok member_ok and s :: srv
    using that by (simp add: NetlinkUtils_def IsStarted_def Start_no_socket GetProtocolFeatures_def new_request_unknown)
  show ?thesis
    using assms a p
    by (auto simp: wificond_main_def main_startup_def ScopedSignalHandler_def SetupBinderOrCrash_def
        WatchFileDescriptor_def LooperBackedEventLoop_def watching_def Let_def start_step_def netlink_utils_step_def
        Start_no_socket utils split: prod.split)
qed

theorem startup_failures_witness:
  "wificond_main queue_looper refusing_hidl 3 (good_world\<lparr>polling := (0, - 1)\<rparr>) empty_looper 0 cold_server [] [] = Some (Inl Check_Failed) \<and>
   wificond_main queue_looper refusing_hidl 3
     (good_world\<lparr>attempt1 := (attempt1 good_world)\<lparr>sync_socket := good_socket\<lparr>sock_fd := - 1\<rparr>\<rparr>,
        attempt2 := (attempt2 good_world)\<lparr>sync_socket := good_socket\<lparr>sock_fd := - 1\<rparr>\<rparr>\<rparr>)
     empty_looper 0 cold_server [] [] = Some (Inl Uninitialized)"
proof -
  have cold: "\<not> is_started cold_server" "message_types cold_server = []"
    by (simp_all add: cold_server_def Server_def NetlinkManager_def)
  note fails = startup_failures [OF cold, where L = queue_looper and K = refusing_hidl and n = 3 and l = empty_looper
      and h = 0 and commands = "[]" and datagrams = "[]"]
  show ?thesis
    using fails [of "good_world\<lparr>polling := (0, - 1)\<rparr>"]
      fails [of "good_world\<lparr>attempt1 := (attempt1 good_world)\<lparr>sync_socket := good_socket\<lparr>sock_fd := - 1\<rparr>\<rparr>,
        attempt2 := (attempt2 good_world)\<lparr>sync_socket := good_socket\<lparr>sock_fd := - 1\<rparr>\<rparr>\<rparr>"]
    by (simp add: good_world_def queue_looper_def empty_looper_def good_socket_def)
qed

end
