(* ===== verification/Object_Safety.thy ===== *)
theory Object_Safety
  imports Server_Steps
begin

text \<open>
  No request reaches an object that was destroyed. A result is \<open>no_stale\<close> when it is not one of
  the two faults of object access; \<open>safe\<close> adds that the state it ends in has the objects and
  registrations of a given state, in which all registered handlers are alive. The locale
  \<open>safe_runs\<close> is the contract of running a handler: a handler that is alive can be run safely.
  Inside it every request and notification is shown to be safe, and so, by induction on the
  nesting depth, is the dispatcher.
\<close>

section \<open>Results without object faults\<close>

definition no_stale :: "'a res \<Rightarrow> bool" where
  "no_stale m \<longleftrightarrow> m \<noteq> Inl Use_After_Free \<and> m \<noteq> Inl Null_Pointer"

named_theorems ns \<open>functions that do not touch objects\<close>

lemma no_stale_simps [simp]:
  "no_stale (Inr x)" "no_stale (Inl e) \<longleftrightarrow> e \<noteq> Use_After_Free \<and> e \<noteq> Null_Pointer"
  by (auto simp: no_stale_def)

lemma no_stale_bind [ns]: "no_stale m \<Longrightarrow> (\<And>x. m = Inr x \<Longrightarrow> no_stale (f x)) \<Longrightarrow> no_stale (and_then m f)"
  by (cases m) auto

lemma no_stale_if_value [ns]: "no_stale m \<Longrightarrow> no_stale d \<Longrightarrow> (\<And>x. no_stale (f x)) \<Longrightarrow> no_stale (if_value m d f)"
  by (cases m) (auto simp: if_value_def split: option.split)

lemma GetAttributeImpl_ns [ns]: "no_stale (GetAttributeImpl buf i)"
proof (cases "GetAttributeImpl buf i")
  case (Inl e)
  moreover from this have "e = No_Return" by (simp add: GetAttributeImpl_fault_iff)
  ultimately show ?thesis by simp
qed simp

lemma no_stale_read_field [ns]: "no_stale (read_field n i d)"
  by (simp add: read_field_def)

subsection \<open>Attributes and packets\<close>

lemma attribute_reads [ns]:
  "no_stale (GetAttributeId d)" "no_stale (Merge a b)"
  "no_stale (HasAttribute d i)" "no_stale (GetNestedAttribute d i)" "no_stale (GetTypedAttribute T d i)"
  by (auto simp: GetAttributeId_def Merge_def HasAttribute_def GetNestedAttribute_def
      GetTypedAttribute_def Let_def intro!: ns split: option.split)

text \<open>The payload types; each \<open>GetValue\<close> may only read out of bounds.\<close>

definition plain_class :: "'a attr_class \<Rightarrow> bool" where
  "plain_class T \<longleftrightarrow> (\<forall>a. no_stale (get_value T a))"

lemma plain_classes [simp]:
  "plain_class (word_class :: 'w::len word attr_class)" "plain_class vector_class" "plain_class mac_class"
  "plain_class string_class"
  by (auto simp: plain_class_def word_class_def vector_class_def mac_class_def array_class_def string_class_def
      GetValue_int_def GetValue_vector_def GetValue_array_def GetValue_string_def Let_def intro!: ns)

lemma class_values [ns]:
  "plain_class T \<Longrightarrow> no_stale (get_value T a)" "plain_class T \<Longrightarrow> no_stale (GetAttributeValue T d i)"
  by (auto simp: plain_class_def GetAttributeValue_def intro!: ns split: option.split)

lemma values_list_loop_ns: "plain_class T \<Longrightarrow> no_stale (values_list_loop T buf acc)"
proof (induction T buf acc rule: values_list_loop.induct)
  case (1 T buf acc)
  then show ?case
    by (subst values_list_loop.simps) (auto simp: Let_def intro!: ns)
qed

lemma GetListOfAttributeValues_ns [ns]: "plain_class T \<Longrightarrow> no_stale (GetListOfAttributeValues T a)"
  by (simp add: GetListOfAttributeValues_def values_list_loop_ns)

lemma packet_reads [ns]:
  "no_stale (GetMessageType p)" "no_stale (GetFlags p)" "no_stale (GetMessageSequence p)" "no_stale (GetPortId p)"
  "no_stale (GetCommand p)" "no_stale (GetErrorCode p)" "no_stale (IsDump p)" "no_stale (IsMulti p)"
  "no_stale (Packet_IsValid p)" "no_stale (Packet_HasAttribute p i)" "no_stale (Packet_GetAttribute p i)"
  "no_stale (Packet_GetTypedAttribute T p i)"
  by (auto simp: GetMessageType_def GetFlags_def GetMessageSequence_def GetPortId_def GetCommand_def GetErrorCode_def
      IsDump_def IsMulti_def Packet_IsValid_def Packet_HasAttribute_def Packet_GetAttribute_def Packet_GetTypedAttribute_def
      read_field_def Let_def intro!: ns split: option.split)

lemma packet_values [ns]: "plain_class T \<Longrightarrow> no_stale (Packet_GetAttributeValue T p i)"
  by (auto simp: Packet_GetAttributeValue_def intro!: ns split: option.split)

lemma all_attributes_loop_ns: "no_stale (all_attributes_loop buf acc)"
proof (induction buf acc rule: all_attributes_loop.induct)
  case (1 buf acc)
  then show ?case
    by (subst all_attributes_loop.simps) (auto simp: Let_def intro!: ns)
qed

lemma GetAllAttributes_ns [ns]: "no_stale (GetAllAttributes p)"
  by (simp add: GetAllAttributes_def all_attributes_loop_ns)

subsection \<open>Events and replies\<close>

lemma mlme_events [ns]:
  "no_stale (MlmeConnectEvent_InitFromPacket p)" "no_stale (MlmeAssociateEvent_InitFromPacket p)"
  "no_stale (MlmeRoamEvent_InitFromPacket p)" "no_stale (MlmeDisconnectEvent_InitFromPacket p)"
  "no_stale (MlmeDisassociateEvent_InitFromPacket p)"
  by (auto simp: MlmeConnectEvent_InitFromPacket_def MlmeAssociateEvent_InitFromPacket_def
      MlmeRoamEvent_InitFromPacket_def MlmeDisconnectEvent_InitFromPacket_def
      MlmeDisassociateEvent_InitFromPacket_def GetCommonFields_def intro!: ns split: option.split)

lemma notification_list_ns [ns]: "plain_class T \<Longrightarrow> no_stale (notification_list T p i)"
  by (auto simp: notification_list_def intro!: ns split: option.split)

lemma handle_freqs_ns: "no_stale (handle_freqs freqs out)"
  by (induction freqs arbitrary: out) (auto simp: handle_freq_def intro!: ns split: option.split)

lemma band_parts [ns]:
  "no_stale (handleBandFreqAttributes a out)" "no_stale (ParseHtMcsSetAttribute a out)"
  "no_stale (ParseVhtMcsSetAttribute a out)" "no_stale (ParseHeMcsSetAttribute a out)"
  "no_stale (ParseVhtCapAttribute a out)" "no_stale (ParseHeCapPhyAttribute a out)" "no_stale (ParseEhtCapPhyAttribute a out)"
  by (auto simp: handleBandFreqAttributes_def ParseHtMcsSetAttribute_def ParseVhtMcsSetAttribute_def
      ParseHeMcsSetAttribute_def ParseVhtCapAttribute_def ParseHeCapPhyAttribute_def ParseEhtCapPhyAttribute_def
      handle_freqs_ns Let_def intro!: ns split: option.split)

lemma band_types [ns]: "no_stale (ParseHtVhtPhyCapabilities a out)" "no_stale (ParseIfTypeDataAttributes a out)"
  by (auto simp: ParseHtVhtPhyCapabilities_def ParseIfTypeDataAttributes_def intro!: ns split: option.split list.split)

lemma parse_bands_ns: "no_stale (parse_bands bands out)"
  by (induction bands arbitrary: out) (auto simp: parse_band_def Let_def intro!: ns)

lemma wiphy_parsers [ns]: "no_stale (ParseBandInfo p)" "no_stale (ParseScanCapabilities p)"
  by (auto simp: ParseBandInfo_def ParseScanCapabilities_def parse_bands_ns intro!: ns split: option.split)

lemma ParseWiphyInfoFromPacket_ns [ns]: "no_stale (ParseWiphyInfoFromPacket p out)"
  by (auto simp: ParseWiphyInfoFromPacket_def intro!: ns split: prod.split)

lemma wiphy_info_loop_ns [ns]: "no_stale (wiphy_info_loop w ps out)"
  by (induction ps arbitrary: out) (auto intro!: ns)

lemma merge_attributes_ns [ns]: "no_stale (merge_attributes w as table)"
  by (induction as arbitrary: table) (auto simp: Let_def intro!: ns split: option.split)

lemma merge_packets_ns: "no_stale (merge_packets ps table)"
  by (induction ps arbitrary: table) (auto intro!: ns)

lemma MergePackets_ns [ns]: "no_stale (MergePacketsForSplitWiphyDump ps)"
  by (auto simp: MergePacketsForSplitWiphyDump_def merge_packets_ns intro!: ns split: option.split)

lemma parse_station_info_ns [ns]: "no_stale (parse_station_info p)"
  by (auto simp: parse_station_info_def bitrate_of_def intro!: ns)

lemma chain_infos_loop_ns: "no_stale (chain_infos_loop as)"
  by (induction as) (auto intro!: ns)

lemma ParseScanResult_ns [ns]: "no_stale (ParseScanResult p r)"
  by (auto simp: ParseScanResult_def parse_bss_def GetBssTimestamp_def ParseRadioChainInfos_def chain_infos_loop_ns
      intro!: ns split: option.split)

lemma scan_request_ns [ns]:
  "no_stale (scan_type_flag t)" "no_stale (scan_request i rm t rnr ssids freqs ies p)" "no_stale (IsScanTypeSupported t f)"
  by (auto simp: scan_request_def scan_type_flag_def IsScanTypeSupported_def Let_def intro!: ns)

section \<open>States in which all handlers are alive\<close>

definition callees_ok :: "'a srv_scheme \<Rightarrow> bool" where
  "callees_ok s \<longleftrightarrow> handlers_ok s \<and> (\<forall>i. live_ap s i \<noteq> None \<longrightarrow> map_find (ap_binders s) i \<noteq> None) \<and>
     (\<forall>p \<in> set (client_interfaces s). live_client s (snd p) \<noteq> None)"

definition within :: "'a srv_scheme \<Rightarrow> 'a srv_scheme \<Rightarrow> bool" where
  "within s0 s \<longleftrightarrow> callees_ok s0 \<and> same_objects s0 s"

definition safe :: "'a srv_scheme \<Rightarrow> ('r \<Rightarrow> 'a srv_scheme) \<Rightarrow> 'r res \<Rightarrow> bool" where
  "safe s0 st m \<longleftrightarrow> no_stale m \<and> (\<forall>x. m = Inr x \<longrightarrow> within s0 (st x))"

lemma callees_ok_same: "same_objects s s' \<Longrightarrow> callees_ok s' = callees_ok s"
proof -
  assume same: "same_objects s s'"
  have "handlers_ok s' = handlers_ok s"
    unfolding handlers_ok_def same_objects_live [OF same] using same by (simp add: same_objects_def)
  then show ?thesis
    unfolding callees_ok_def same_objects_live [OF same] using same by (simp add: same_objects_def)
qed

lemma within_callees: "within s0 s \<Longrightarrow> callees_ok s"
  by (auto simp: within_def callees_ok_same)

lemma within_step: "within s0 s \<Longrightarrow> same_objects s s' \<Longrightarrow> within s0 s'"
  by (auto simp: within_def intro: same_objects_trans)

lemma within_updates [simp]:
  "within s0 (s\<lparr>message_handlers := a\<rparr>) = within s0 s" "within s0 (s\<lparr>response_vecs := b\<rparr>) = within s0 s"
  "within s0 (s\<lparr>ReceiveBuffer := c\<rparr>) = within s0 s" "within s0 (s\<lparr>sequence_number := d\<rparr>) = within s0 s"
  "within s0 (s\<lparr>net_script := e\<rparr>) = within s0 s" "within s0 (s\<lparr>sent_packets := f\<rparr>) = within s0 s"
  "within s0 (s\<lparr>message_types := g\<rparr>) = within s0 s" "within s0 (s\<lparr>remote_calls := h\<rparr>) = within s0 s"
  "within s0 (s\<lparr>band_to_wiphy_index_map := i\<rparr>) = within s0 s"
  "within s0 (s\<lparr>debug_interfaces := j\<rparr>) = within s0 s"
  by (simp_all add: within_def same_objects_def)

lemma within_refl: "callees_ok s \<Longrightarrow> within s s"
  by (simp add: within_def same_objects_refl)

lemma within_live: "within s0 s \<Longrightarrow> live_client s = live_client s0 \<and> live_ap s = live_ap s0 \<and> live_scanner s = live_scanner s0"
  by (simp add: within_def same_objects_live)

lemma safe_no_stale: "safe s0 st m \<Longrightarrow> no_stale m"
  by (simp add: safe_def)

lemma safe_Inr: "within s0 (st x) \<Longrightarrow> safe s0 st (Inr x)"
  by (simp add: safe_def)

lemma safe_Inl: "e \<noteq> Use_After_Free \<Longrightarrow> e \<noteq> Null_Pointer \<Longrightarrow> safe s0 st (Inl e)"
  by (simp add: safe_def)

lemma safe_bind:
  "safe s0 st m \<Longrightarrow> (\<And>x. m = Inr x \<Longrightarrow> within s0 (st x) \<Longrightarrow> safe s0 st' (f x)) \<Longrightarrow> safe s0 st' (and_then m f)"
  by (cases m) (auto simp: safe_def)

lemma safe_pure:
  "no_stale m \<Longrightarrow> (\<And>x. m = Inr x \<Longrightarrow> safe s0 st (f x)) \<Longrightarrow> safe s0 st (and_then m f)"
  by (cases m) (auto simp: safe_def)

lemma safe_if_value:
  "no_stale m \<Longrightarrow> safe s0 st d \<Longrightarrow> (\<And>x. safe s0 st (f x)) \<Longrightarrow> safe s0 st (if_value m d f)"
  by (cases m) (auto simp: if_value_def safe_def split: option.split)

text \<open>Whom a call of the netlink layer addresses.\<close>

fun callable :: "hcall \<Rightarrow> 'a srv_scheme \<Rightarrow> bool" where
  "callable (CallScanResults h _ _ _ _) s = (live_scanner s h \<noteq> None)"
| "callable (CallSchedScanResults h _ _) s = (live_scanner s h \<noteq> None)"
| "callable (CallStationEvent h _ _) s = (live_ap s h \<noteq> None)"
| "callable (CallChannelSwitch h _ _) s = (live_client s h \<noteq> None \<or> live_ap s h \<noteq> None)"
| "callable (CallFrameTxStatus h _ _) s = (live_client s h \<noteq> None)"
| "callable (CallOnConnect h _) s = (live_client s h \<noteq> None)"
| "callable (CallOnAssociate h _) s = (live_client s h \<noteq> None)"
| "callable (CallOnRoam h _) s = (live_client s h \<noteq> None)"
| "callable (CallOnDisconnect h _) s = (live_client s h \<noteq> None)"
| "callable (CallOnDisassociate h _) s = (live_client s h \<noteq> None)"
| "callable (CallRegDomainChanged _ _ _) s = True"
| "callable (CallMessageHandler _ _) s = True"

lemma registered_callable:
  assumes "callees_ok s"
  shows "map_find (on_mlme_event_handler s) k = Some h \<Longrightarrow> live_client s h \<noteq> None"
    "map_find (on_frame_tx_status_event_handler s) k = Some h \<Longrightarrow> live_client s h \<noteq> None"
    "map_find (on_scan_result_ready_handler s) k = Some h \<Longrightarrow> live_scanner s h \<noteq> None"
    "map_find (on_sched_scan_result_ready_handler s) k = Some h \<Longrightarrow> live_scanner s h \<noteq> None"
    "map_find (on_station_event_handler s) k = Some h \<Longrightarrow> live_ap s h \<noteq> None"
    "map_find (on_channel_switch_event_handler s) k = Some h \<Longrightarrow> live_client s h \<noteq> None \<or> live_ap s h \<noteq> None"
  using assms unfolding callees_ok_def handlers_ok_def keyed_def by (metis option.distinct(1))+

lemmas pure_binds = attribute_reads [THEN safe_pure] packet_reads [THEN safe_pure] packet_values [THEN safe_pure]
  class_values [THEN safe_pure] GetListOfAttributeValues_ns [THEN safe_pure] mlme_events [THEN safe_pure]
  notification_list_ns [THEN safe_pure] wiphy_info_loop_ns [THEN safe_pure] MergePackets_ns [THEN safe_pure]
  parse_station_info_ns [THEN safe_pure] scan_request_ns [THEN safe_pure]

subsection \<open>Access to objects\<close>

lemma within_scanner: "within s0 s \<Longrightarrow> (map_find (scanners s) i = None) = (map_find (scanners s0) i = None)"
  by (simp add: within_def same_objects_live(4))

lemma live_there:
  "live_scanner s i \<noteq> None \<Longrightarrow> \<exists>x. map_find (scanners s) i = Some x"
  "live_client s i \<noteq> None \<Longrightarrow> \<exists>c. map_find (clients s) i = Some c"
  "live_ap s i \<noteq> None \<Longrightarrow> \<exists>a. map_find (aps s) i = Some a"
  by (auto simp: live_scanner_def live_client_def live_ap_def scanner_frame_def split: option.splits)

lemma within_there:
  assumes "within s0 s"
  shows "live_client s0 i \<noteq> None \<Longrightarrow> \<exists>c. map_find (clients s) i = Some c"
    "live_ap s0 i \<noteq> None \<Longrightarrow> \<exists>a. map_find (aps s) i = Some a"
    "map_find (scanners s0) i \<noteq> None \<Longrightarrow> \<exists>x. map_find (scanners s) i = Some x"
  using live_there [of s i] within_live [OF assms] within_scanner [OF assms, of i] by auto

lemma the_scanner_pure: "within s0 s \<Longrightarrow> map_find (scanners s0) i \<noteq> None \<Longrightarrow> no_stale (the_scanner i s)"
  using within_there(3) [of s0 s i] by (auto simp: the_scanner_def)

lemma the_client_pure: "within s0 s \<Longrightarrow> live_client s0 i \<noteq> None \<Longrightarrow> no_stale (the_client i s)"
  using within_there(1) [of s0 s i] by (auto simp: the_client_def)

lemma modify_scanner_safe:
  assumes "within s0 s" "map_find (scanners s0) i \<noteq> None"
    and "\<And>x. valid (f x) = valid x \<and> scanner_interface_index (f x) = scanner_interface_index x"
  shows "safe s0 (\<lambda>s. s) (modify_scanner i f s)"
proof -
  obtain x where "map_find (scanners s) i = Some x" using within_there(3) [OF assms(1,2)] by blast
  then show ?thesis
    using within_step [OF assms(1) same_objects_scanner, of i x "f x"] assms(3)
    by (simp add: modify_scanner_def the_scanner_def safe_Inr)
qed

lemma modify_client_safe:
  assumes "within s0 s" "live_client s0 i \<noteq> None"
    and "\<And>c. client_interface_index (f c) = client_interface_index c"
  shows "safe s0 (\<lambda>s. s) (modify_client i f s)"
proof -
  obtain c where "map_find (clients s) i = Some c" using within_there(1) [OF assms(1,2)] by blast
  then show ?thesis
    using within_step [OF assms(1) same_objects_client, of i c "f c"] assms(3)
    by (simp add: modify_client_def the_client_def safe_Inr)
qed

text \<open>A scanner that exists, and is valid only while its client interface lives.\<close>

definition scanner_there :: "'a srv_scheme \<Rightarrow> obj \<Rightarrow> bool" where
  "scanner_there s i \<longleftrightarrow> map_find (scanners s) i \<noteq> None \<and> (live_scanner s i \<noteq> None \<longrightarrow> live_client s i \<noteq> None)"

lemma scanner_thereD:
  assumes "scanner_there s0 i" "within s0 s"
  shows "\<exists>x. the_scanner i s = Inr x \<and> map_find (scanners s0) i \<noteq> None \<and> (valid x \<longrightarrow> live_client s0 i \<noteq> None)"
proof -
  from assms obtain x where x: "map_find (scanners s) i = Some x"
    using within_there(3) [OF assms(2)] by (auto simp: scanner_there_def)
  have "valid x \<Longrightarrow> live_scanner s i \<noteq> None" using x by (simp add: live_scanner_def scanner_frame_def)
  with assms x within_live [OF assms(2)] show ?thesis
    by (auto simp: scanner_there_def the_scanner_def)
qed

section \<open>The contract of running a handler\<close>

locale safe_runs =
  fixes run :: "hcall \<Rightarrow> 'b srv_scheme \<Rightarrow> 'b srv_scheme res"
  assumes run_safe: "within s0 s \<Longrightarrow> callable c s \<Longrightarrow> safe s0 (\<lambda>s. s) (run c s)"
begin

lemma run_reg_handlers_safe: "within s0 s \<Longrightarrow> safe s0 (\<lambda>s. s) (run_reg_handlers run c hs s)"
proof (induction hs arbitrary: s)
  case (Cons h hs)
  then show ?case
    by (auto intro!: safe_bind [OF run_safe] Cons.IH)
qed (simp add: safe_Inr)

lemma notifications_safe:
  assumes "within s0 s"
  shows "safe s0 (\<lambda>s. s) (OnRegChangeEvent run p s)" "safe s0 (\<lambda>s. s) (OnMlmeEvent run p s)"
    "safe s0 (\<lambda>s. s) (OnSchedScanResultsReady run p s)" "safe s0 (\<lambda>s. s) (OnScanResultsReady run p s)"
    "safe s0 (\<lambda>s. s) (OnChannelSwitchEvent run p s)" "safe s0 (\<lambda>s. s) (OnFrameTxStatusEvent run p s)"
    "safe s0 (\<lambda>s. s) (OnStationEvent run c p s)"
  using assms registered_callable [OF within_callees [OF assms]]
  by (auto simp: OnRegChangeEvent_def OnMlmeEvent_def OnSchedScanResultsReady_def OnScanResultsReady_def
      OnChannelSwitchEvent_def OnFrameTxStatusEvent_def OnStationEvent_def Let_def
      intro!: pure_binds safe_Inr safe_Inl run_reg_handlers_safe run_safe split: option.split)

lemma GetFamilyId_safe: "within s0 s \<Longrightarrow> safe s0 snd (GetFamilyId s)"
  by (auto simp: GetFamilyId_def message_type_entry_def intro!: safe_Inr safe_Inl split: option.split)

lemma BroadcastHandler_safe: "within s0 s \<Longrightarrow> safe s0 (\<lambda>s. s) (BroadcastHandler run p s)"
  unfolding BroadcastHandler_def
  by (auto intro!: pure_binds safe_bind [OF GetFamilyId_safe] safe_Inr notifications_safe)

lemma run_handler_safe: "within s0 s \<Longrightarrow> safe s0 (\<lambda>s. s) (run_handler run h p s)"
  by (auto simp: run_handler_def intro!: safe_Inr run_safe split: msg_handler.split)

lemma erase_handler_within: "within s0 s \<Longrightarrow> within s0 (erase_handler k s)"
  by (simp add: erase_handler_def)

lemma receive_loop_safe: "within s0 s \<Longrightarrow> safe s0 (\<lambda>s. s) (receive_loop run len ptr s)"
proof (induction "len - ptr" arbitrary: ptr s rule: less_induct)
  case less
  let ?n = "field 4 ptr (ReceiveBuffer s)"
  let ?p = "take ?n (drop ptr (ReceiveBuffer s))"
  have go: "safe s0 (\<lambda>s. s) (receive_loop run len (ptr + ?n) t)"
    if "ptr < len" "Packet_IsValid ?p = Inr True" "within s0 t" for t
    using that valid_packet_length [OF that(2)] by (intro less.hyps) auto
  show ?case
    by (subst receive_loop.simps)
      (auto simp: Let_def less.prems intro!: pure_binds safe_Inr safe_Inl erase_handler_within go
        safe_bind [OF BroadcastHandler_safe] safe_bind [OF run_handler_safe] split: option.split)
qed

lemma ReceivePacketAndRunHandler_safe: "within s0 s \<Longrightarrow> safe s0 (\<lambda>s. s) (ReceivePacketAndRunHandler run r s)"
  by (auto simp: ReceivePacketAndRunHandler_def Let_def intro!: safe_Inr receive_loop_safe split: read_result.split)

lemma SendMessageInternal_safe: "within s0 s \<Longrightarrow> safe s0 (\<lambda>x. snd (snd x)) (SendMessageInternal p fd d s)"
  by (auto simp: SendMessageInternal_def intro!: safe_Inr safe_Inl split: list.split)

lemma response_loop_safe: "within s0 s \<Longrightarrow> safe s0 snd (response_loop run k ps time s)"
proof (induction ps arbitrary: time s)
  case Nil
  then show ?case by (auto intro!: safe_Inr erase_handler_within)
next
  case (Cons p ps)
  then show ?case
    by (auto intro!: safe_Inr erase_handler_within safe_bind [OF ReceivePacketAndRunHandler_safe] split: poll_result.split)
qed

lemma SendMessageAndGetResponses_safe:
  "within s0 s \<Longrightarrow> safe s0 (\<lambda>x. snd (snd x)) (SendMessageAndGetResponses run p r s)"
  unfolding SendMessageAndGetResponses_def Let_def
  by (auto intro!: safe_bind [OF SendMessageInternal_safe] pure_binds safe_Inr safe_bind [OF response_loop_safe])

lemma exchange_safe:
  assumes "within s0 s"
  shows "safe s0 snd (SendMessageAndGetSingleResponseOrError run p s)"
    "safe s0 snd (SendMessageAndGetSingleResponse run p s)"
    "safe s0 snd (SendMessageAndGetAckOrError run p s)" "safe s0 snd (SendMessageAndGetAck run p s)"
proof -
  show one: "safe s0 snd (SendMessageAndGetSingleResponseOrError run p s)"
    using assms unfolding SendMessageAndGetSingleResponseOrError_def
    by (auto intro!: safe_bind [OF SendMessageAndGetResponses_safe] safe_Inr)
  show "safe s0 snd (SendMessageAndGetSingleResponse run p s)"
    unfolding SendMessageAndGetSingleResponse_def
    by (auto intro!: safe_bind [OF one] pure_binds safe_Inr split: option.split)
  show ack: "safe s0 snd (SendMessageAndGetAckOrError run p s)"
    unfolding SendMessageAndGetAckOrError_def
    by (auto intro!: safe_bind [OF one] pure_binds safe_Inr split: option.split)
  show "safe s0 snd (SendMessageAndGetAck run p s)"
    unfolding SendMessageAndGetAck_def
    by (auto intro!: safe_bind [OF ack] safe_Inr split: option.split)
qed

subsection \<open>Requests\<close>

lemma GetSequenceNumber_within: "GetSequenceNumber s = (k, s') \<Longrightarrow> within s0 s \<Longrightarrow> within s0 s'"
  by (auto simp: GetSequenceNumber_def Let_def)

lemma new_request_safe: "within s0 s \<Longrightarrow> safe s0 snd (new_request c s)"
  unfolding new_request_def
  by (auto intro!: safe_bind [OF GetFamilyId_safe] safe_Inr split: prod.split)
    (erule (1) GetSequenceNumber_within)

lemma send_with_retry_safe: "within s0 s \<Longrightarrow> safe s0 (\<lambda>x. snd (snd x)) (send_with_retry run i p r s)"
proof (induction i arbitrary: r s)
  case 0
  then show ?case
    by (subst send_with_retry.simps) (auto intro!: safe_bind [OF SendMessageAndGetResponses_safe] safe_Inr)
next
  case (Suc i)
  then show ?case
    by (subst send_with_retry.simps) (auto intro!: safe_bind [OF SendMessageAndGetResponses_safe] safe_Inr Suc.IH)
qed

lemma dump_reply_ok_safe: "within s0 s \<Longrightarrow> safe s0 snd (dump_reply_ok c p s)"
  by (auto simp: dump_reply_ok_def intro!: pure_binds safe_bind [OF GetFamilyId_safe] safe_Inr)

lemma wiphy_index_loop_safe: "within s0 s \<Longrightarrow> safe s0 snd (wiphy_index_loop ps out s)"
  by (induction ps arbitrary: out s) (auto intro!: safe_bind [OF dump_reply_ok_safe] safe_if_value ns safe_Inr)

lemma GetWiphyIndex_safe: "within s0 s \<Longrightarrow> safe s0 snd (GetWiphyIndex run name s)"
  unfolding GetWiphyIndex_def Let_def
  by (auto intro!: safe_bind [OF new_request_safe] safe_bind [OF send_with_retry_safe] wiphy_index_loop_safe safe_Inr)

lemma interfaces_loop_safe: "within s0 s \<Longrightarrow> safe s0 (\<lambda>x. snd (snd x)) (interfaces_loop w ps out s)"
  by (induction ps arbitrary: out s) (auto intro!: safe_bind [OF dump_reply_ok_safe] safe_if_value ns safe_Inr)

lemma GetInterfaces_safe: "within s0 s \<Longrightarrow> safe s0 (\<lambda>x. snd (snd x)) (GetInterfaces run w out s)"
  unfolding GetInterfaces_def Let_def
  by (auto intro!: safe_bind [OF new_request_safe] safe_bind [OF SendMessageAndGetResponses_safe] interfaces_loop_safe safe_Inr)

lemma GetWiphyInfo_safe: "within s0 s \<Longrightarrow> safe s0 (\<lambda>x. snd (snd x)) (GetWiphyInfo run w out s)"
  unfolding GetWiphyInfo_def Let_def
  by (auto intro!: safe_bind [OF new_request_safe] safe_bind [OF send_with_retry_safe] pure_binds safe_Inr
      safe_pure [OF no_stale_bind [OF MergePackets_ns]])

lemma GetStationInfo_safe: "within s0 s \<Longrightarrow> safe s0 snd (GetStationInfo run idx mac s)"
  unfolding GetStationInfo_def Let_def
  by (auto intro!: safe_bind [OF new_request_safe] safe_bind [OF exchange_safe(2)] pure_binds safe_Inr split: option.split)

lemma GetCountryCode_safe: "within s0 s \<Longrightarrow> safe s0 snd (GetCountryCode run s)"
  unfolding GetCountryCode_def
  by (auto intro!: safe_bind [OF new_request_safe] safe_bind [OF exchange_safe(2)] pure_binds safe_Inr split: option.split)

lemma NetlinkUtils_SendMgmtFrame_safe: "within s0 s \<Longrightarrow> safe s0 snd (NetlinkUtils_SendMgmtFrame run idx frame mcs s)"
  unfolding NetlinkUtils_SendMgmtFrame_def Let_def
  by (auto intro!: safe_bind [OF new_request_safe] safe_bind [OF exchange_safe(2)] pure_binds safe_Inr split: option.split)

lemma scan_results_loop_safe: "within s0 s \<Longrightarrow> safe s0 snd (scan_results_loop idx ps out s)"
  by (induction ps arbitrary: out s)
    (auto intro!: pure_binds safe_bind [OF GetFamilyId_safe] safe_if_value ns safe_Inr)

lemma GetScanResult_safe: "within s0 s \<Longrightarrow> safe s0 (\<lambda>x. snd (snd x)) (GetScanResult run idx out s)"
  unfolding GetScanResult_def Let_def
  by (auto intro!: safe_bind [OF new_request_safe] safe_bind [OF SendMessageAndGetResponses_safe]
      safe_bind [OF scan_results_loop_safe] safe_Inr)

lemma scans_safe:
  assumes "within s0 s"
  shows "safe s0 (\<lambda>x. snd (snd x)) (Scan run idx rm st rnr ssids freqs ies e s)"
    "safe s0 (\<lambda>x. snd (snd x)) (StartScheduledScan run idx g r2 r5 r6 f ssids ms freqs e s)"
    "safe s0 snd (StopScheduledScan run idx s)" "safe s0 snd (AbortScan run idx s)"
  using assms unfolding Scan_def StartScheduledScan_def StopScheduledScan_def AbortScan_def Let_def
  by (auto intro!: safe_bind [OF new_request_safe] safe_bind [OF exchange_safe(3)] exchange_safe(4) pure_binds safe_Inr
      split: option.split)

subsection \<open>Handlers\<close>

lemma scanner_handlers_safe:
  assumes "within s0 s" "map_find (scanners s0) i \<noteq> None"
  shows "safe s0 (\<lambda>s. s) (Scanner_OnScanResultsReady i aborted s)"
    "safe s0 (\<lambda>s. s) (Scanner_OnSchedScanResultsReady i stopped s)"
  using assms unfolding Scanner_OnScanResultsReady_def Scanner_OnSchedScanResultsReady_def
  by (auto simp: call_remote_def intro!: safe_bind [OF modify_scanner_safe] safe_pure [OF the_scanner_pure] safe_Inr
      modify_scanner_safe split: option.split)

lemma RefreshAssociateFreq_safe:
  "within s0 s \<Longrightarrow> live_client s0 i \<noteq> None \<Longrightarrow> safe s0 snd (RefreshAssociateFreq run i s)"
  unfolding RefreshAssociateFreq_def
  by (auto intro!: safe_pure [OF the_client_pure] safe_bind [OF GetScanResult_safe] safe_bind [OF modify_client_safe] safe_Inr)

lemma association_safe:
  assumes "within s0 s" "live_client s0 i \<noteq> None"
  shows "safe s0 (\<lambda>s. s) (mark_associated run i bssid s)" "safe s0 (\<lambda>s. s) (mark_disassociated i s)"
  using assms unfolding mark_associated_def mark_disassociated_def
  by (auto intro!: safe_bind [OF modify_client_safe] safe_bind [OF RefreshAssociateFreq_safe] modify_client_safe)

lemma mlme_handlers_safe:
  assumes "within s0 s" "live_client s0 i \<noteq> None"
  shows "safe s0 (\<lambda>s. s) (OnConnect run i e s)" "safe s0 (\<lambda>s. s) (OnAssociate run i e s)"
    "safe s0 (\<lambda>s. s) (OnRoam run i d s)" "safe s0 (\<lambda>s. s) (OnDisconnect i d s)" "safe s0 (\<lambda>s. s) (OnDisassociate i d s)"
    "safe s0 (\<lambda>s. s) (Client_OnChannelSwitchEvent i freq s)" "safe s0 (\<lambda>s. s) (Client_OnFrameTxStatusEvent i cookie acked s)"
  using assms
  by (auto simp: OnConnect_def OnAssociate_def OnRoam_def OnDisconnect_def OnDisassociate_def
      Client_OnChannelSwitchEvent_def Client_OnFrameTxStatusEvent_def run_frame_tx_handler_def call_remote_def
      intro!: association_safe modify_client_safe safe_pure [OF the_client_pure] safe_Inr split: option.split)

lemma UpdateBandInfo_safe: "within s0 s \<Longrightarrow> live_client s0 i \<noteq> None \<Longrightarrow> safe s0 (\<lambda>s. s) (UpdateBandInfo run i s)"
  unfolding UpdateBandInfo_def
  by (auto simp: set_wiphy_info_def intro!: safe_pure [OF the_client_pure] safe_bind [OF GetWiphyInfo_safe] modify_client_safe)

lemma ap_handlers_safe:
  assumes "within s0 s" "live_ap s0 i \<noteq> None"
  shows "safe s0 (\<lambda>s. s) (Ap_OnStationEvent i e mac s)" "safe s0 (\<lambda>s. s) (Ap_OnChannelSwitchEvent i freq bw s)"
proof -
  obtain a where "map_find (aps s) i = Some a" using within_there(2) [OF assms(1,2)] by blast
  moreover obtain b where "map_find (ap_binders s) i = Some b"
    using within_callees [OF assms(1)] within_live [OF assms(1)] assms(2) unfolding callees_ok_def by fastforce
  ultimately show "safe s0 (\<lambda>s. s) (Ap_OnStationEvent i e mac s)" "safe s0 (\<lambda>s. s) (Ap_OnChannelSwitchEvent i freq bw s)"
    using assms(1)
    by (auto simp: Ap_OnStationEvent_def Ap_OnChannelSwitchEvent_def the_ap_def the_ap_binder_def call_remote_def
        NotifyConnectedClientsChanged_def NotifySoftApChannelSwitched_def intro!: safe_Inr split: option.split StationEvent.split)
qed

lemma GetBandInfo_safe: "within s0 s \<Longrightarrow> safe s0 snd (GetBandInfo run w s)"
  unfolding GetBandInfo_def by (auto intro!: safe_bind [OF GetWiphyInfo_safe] safe_Inr)

lemma add_band_within: "within s0 (add_band a b w s) = within s0 s"
  by (simp add: add_band_def)

lemma UpdateBandWiphyIndexMap_safe: "within s0 s \<Longrightarrow> safe s0 (\<lambda>s. s) (UpdateBandWiphyIndexMap run w s)"
  unfolding UpdateBandWiphyIndexMap_def
  by (auto simp: add_band_within intro!: safe_bind [OF GetBandInfo_safe] safe_Inr split: option.split)

lemma handle_wiphy_safe: "within s0 s \<Longrightarrow> safe s0 snd (handle_wiphy run name handled s)"
  unfolding handle_wiphy_def LogSupportedBands_def and_then_assoc
  by (auto intro!: safe_bind [OF GetWiphyIndex_safe] safe_bind [OF UpdateBandWiphyIndexMap_safe]
      safe_bind [OF GetWiphyInfo_safe] safe_Inr split: option.split)

lemma handle_clients_safe:
  "within s0 s \<Longrightarrow> \<forall>p \<in> set its. live_client s0 (snd p) \<noteq> None \<Longrightarrow> safe s0 snd (handle_clients run its handled s)"
  by (induction its arbitrary: handled s)
    (auto intro!: safe_bind [OF UpdateBandInfo_safe] safe_bind [OF handle_wiphy_safe] safe_Inr)

lemma handle_aps_safe: "within s0 s \<Longrightarrow> safe s0 (\<lambda>s. s) (handle_aps run its handled s)"
  by (induction its arbitrary: handled s) (auto intro!: safe_bind [OF handle_wiphy_safe] safe_Inr)

lemma handleCountryCodeChanged_safe:
  assumes "within s0 s"
  shows "safe s0 (\<lambda>s. s) (handleCountryCodeChanged run s)"
proof -
  have "\<forall>p \<in> set (client_interfaces s). live_client s0 (snd p) \<noteq> None"
    using within_callees [OF assms] within_live [OF assms] by (simp add: callees_ok_def)
  with assms show ?thesis
    unfolding handleCountryCodeChanged_def
    by (auto intro!: safe_bind [OF handle_clients_safe] handle_aps_safe)
qed

lemma OnRegDomainChanged_safe:
  assumes "within s0 s"
  shows "safe s0 (\<lambda>s. s) (OnRegDomainChanged run w code s)"
proof -
  have "safe s0 snd (if code = [] then and_then (GetCountryCode run s) (\<lambda>(r, s1). Inr (value_or [] r, s1)) else Inr (code, s))"
    using assms by (auto intro!: safe_bind [OF GetCountryCode_safe] safe_Inr)
  then show ?thesis
    unfolding OnRegDomainChanged_def
  proof (rule safe_bind)
    fix x :: "bytes \<times> 'b srv_scheme"
    assume "within s0 (snd x)"
    then have "within s0 (if fst x \<noteq> [] then BroadcastRegDomainChanged (fst x) (snd x) else snd x)"
      by (auto intro: within_step broadcasts_same)
    then show "safe s0 (\<lambda>s. s) (case x of (current_country_code, s1) \<Rightarrow>
        let s2 = (if current_country_code \<noteq> [] then BroadcastRegDomainChanged current_country_code s1 else s1)
        in if \<not> hasNoIfaceForWiphyIndex w s2 then handleCountryCodeChanged run s2 else Inr s2)"
      by (simp add: Let_def split_beta handleCountryCodeChanged_safe safe_Inr)
  qed
qed

lemma handle_safe:
  assumes "within s0 s" "callable c s"
  shows "safe s0 (\<lambda>s. s) (handle run c s)"
proof (cases c)
  case (CallChannelSwitch h freq bw)
  show ?thesis
  proof (cases "map_find (clients s) h")
    case None
    then have "live_ap s0 h \<noteq> None"
      using assms within_live [OF assms(1)] live_there(2) [of s h] by (auto simp: CallChannelSwitch)
    with assms(1) None show ?thesis by (simp add: handle_def CallChannelSwitch ap_handlers_safe)
  next
    case (Some x)
    then have "live_client s h \<noteq> None" by (simp add: live_client_def)
    then have "live_client s0 h \<noteq> None" using within_live [OF assms(1)] by simp
    with assms(1) Some show ?thesis by (simp add: handle_def CallChannelSwitch mlme_handlers_safe)
  qed
qed (use assms within_live [OF assms(1)] live_there(1) [of s0] in \<open>auto simp: handle_def safe_Inr
      intro!: scanner_handlers_safe mlme_handlers_safe ap_handlers_safe OnRegDomainChanged_safe\<close>)

subsection \<open>Calls of the scanner and of the client binder\<close>

lemma result_queries_safe:
  assumes "scanner_there s0 i" "within s0 s"
  shows "safe s0 snd (getScanResults run i out s)" "safe s0 snd (getPnoScanResults run i out s)"
    "no_stale (getMaxSsidsPerScan i s)"
  using scanner_thereD [OF assms] assms(2)
  by (auto simp: getScanResults_def getPnoScanResults_def getMaxSsidsPerScan_def intro!: safe_Inr safe_bind [OF GetScanResult_safe])

lemma count_nodev_safe:
  "within s0 s \<Longrightarrow> map_find (scanners s0) i \<noteq> None \<Longrightarrow> safe s0 (\<lambda>s. s) (count_nodev i e s)"
  unfolding count_nodev_def
  by (cases "e = ENODEV")
    (auto intro!: safe_bind [OF modify_scanner_safe] safe_pure [OF the_scanner_pure] safe_Inr safe_Inl)

lemma scanRequest_safe:
  assumes "scanner_there s0 i" "within s0 s"
  shows "safe s0 snd (scanRequest run i settings s)"
proof -
  from scanner_thereD [OF assms] obtain x where x: "the_scanner i s = Inr x" "map_find (scanners s0) i \<noteq> None"
    "valid x \<Longrightarrow> live_client s0 i \<noteq> None" by blast
  show ?thesis
  proof (cases "valid x")
    case False
    then show ?thesis by (simp add: scanRequest_def x(1) assms(2) safe_Inr)
  next
    case True
    have client: "no_stale (the_client i s)" using assms(2) x(3) True by (intro the_client_pure)
    have mac: "no_stale (and_then (the_client i s) (\<lambda>c. Inr (\<not> is_associated c)))"
      using client by (auto intro!: no_stale_bind)
    show ?thesis
      using x True assms(2) unfolding scanRequest_def
      by (auto simp: Let_def intro!: safe_pure [OF mac] pure_binds safe_bind [OF scans_safe(1)]
          safe_bind [OF count_nodev_safe] safe_bind [OF modify_scanner_safe] safe_Inr)
  qed
qed

lemma scans_of_scanner_safe:
  assumes "scanner_there s0 i" "within s0 s"
  shows "safe s0 snd (scanner_scan run i settings s)" "safe s0 (\<lambda>s. s) (abortScan run i s)"
    "safe s0 snd (stopPnoScan run i s)"
proof -
  show "safe s0 snd (scanner_scan run i settings s)"
    unfolding scanner_scan_def by (auto intro!: safe_bind [OF scanRequest_safe [OF assms]] safe_Inr)
  from scanner_thereD [OF assms] obtain x where "the_scanner i s = Inr x" "map_find (scanners s0) i \<noteq> None"
    "valid x \<Longrightarrow> live_client s0 i \<noteq> None" by blast
  with assms(2) show "safe s0 (\<lambda>s. s) (abortScan run i s)" "safe s0 snd (stopPnoScan run i s)"
    by (auto simp: abortScan_def stopPnoScan_def StopPnoScanDefault_def intro!: safe_Inr safe_bind [OF scans_safe(4)]
        safe_bind [OF scans_safe(3)] safe_bind [OF modify_scanner_safe])
qed

lemma GenerateIntervalSetting_ns: "no_stale (GenerateIntervalSetting cap settings)"
  by (simp add: GenerateIntervalSetting_def mul_int64_def Let_def)

lemma StartPnoScanDefault_safe:
  assumes "scanner_there s0 i" "within s0 s"
  shows "safe s0 snd (StartPnoScanDefault run i settings s)"
proof -
  from scanner_thereD [OF assms] obtain x where x: "the_scanner i s = Inr x" "map_find (scanners s0) i \<noteq> None"
    "valid x \<Longrightarrow> live_client s0 i \<noteq> None" by blast
  show ?thesis
  proof (cases "valid x")
    case False
    then show ?thesis by (simp add: StartPnoScanDefault_def x(1) assms(2) safe_Inr)
  next
    case True
    have client: "no_stale (the_client i s)" using assms(2) x(3) True by (intro the_client_pure)
    show ?thesis
      using x True assms(2) unfolding StartPnoScanDefault_def
      by (auto simp: Let_def intro!: safe_pure [OF client] safe_pure [OF GenerateIntervalSetting_ns] safe_bind [OF scans_safe(2)]
          safe_bind [OF count_nodev_safe] safe_bind [OF modify_scanner_safe] safe_Inr split: prod.split)
  qed
qed

lemma startPnoScan_safe:
  assumes "scanner_there s0 i" "within s0 s"
  shows "safe s0 snd (startPnoScan run i settings s)"
  unfolding startPnoScan_def
  using assms by (intro safe_bind [OF modify_scanner_safe] StartPnoScanDefault_safe) (auto simp: scanner_there_def)

lemma subscriptions_safe:
  assumes "scanner_there s0 i" "within s0 s"
  shows "safe s0 (\<lambda>s. s) (subscribeScanEvents i h s)" "safe s0 (\<lambda>s. s) (unsubscribeScanEvents i s)"
    "safe s0 (\<lambda>s. s) (subscribePnoScanEvents i h s)" "safe s0 (\<lambda>s. s) (unsubscribePnoScanEvents i s)"
proof -
  from scanner_thereD [OF assms] obtain x where "the_scanner i s = Inr x" "map_find (scanners s0) i \<noteq> None"
    "valid x \<Longrightarrow> live_client s0 i \<noteq> None" by blast
  with assms(2) show "safe s0 (\<lambda>s. s) (subscribeScanEvents i h s)" "safe s0 (\<lambda>s. s) (unsubscribeScanEvents i s)"
    "safe s0 (\<lambda>s. s) (subscribePnoScanEvents i h s)" "safe s0 (\<lambda>s. s) (unsubscribePnoScanEvents i s)"
    by (auto simp: subscribeScanEvents_def unsubscribeScanEvents_def subscribePnoScanEvents_def
        unsubscribePnoScanEvents_def intro!: safe_Inr modify_scanner_safe)
qed

lemma client_queries_safe:
  assumes "within s0 s" "live_client s0 i \<noteq> None"
  shows "safe s0 (\<lambda>x. snd (snd x)) (GetPacketCounters run i out s)" "safe s0 (\<lambda>x. snd (snd x)) (SignalPoll run i out s)"
    "safe s0 (\<lambda>s. s) (Client_SendMgmtFrame run i frame cb mcs s)"
  unfolding GetPacketCounters_def SignalPoll_def Client_SendMgmtFrame_def
  by (auto simp: call_remote_def intro!: safe_pure [OF the_client_pure [OF _ assms(2)]] assms(1) safe_bind [OF GetStationInfo_safe]
      safe_bind [OF NetlinkUtils_SendMgmtFrame_safe] modify_client_safe [OF _ assms(2)] safe_Inr split: option.split)

text \<open>A client binder that exists, with an implementation only while that lives.\<close>

lemma client_binder_safe:
  assumes "within s0 s" "map_find (client_binders s) b = Some x" "\<And>i. client_impl x = Some i \<Longrightarrow> live_client s0 i \<noteq> None"
  shows "safe s0 snd (getPacketCounters run b out s)" "safe s0 snd (signalPoll run b out s)"
    "safe s0 (\<lambda>s. s) (ClientBinder_SendMgmtFrame run b frame cb mcs s)"
    "no_stale (getMacAddress b mac s)" "no_stale (getInterfaceName b name s)" "no_stale (getWifiScannerImpl b s)"
proof -
  have there: "the_client_binder b s = Inr x" by (simp add: the_client_binder_def assms(2))
  show "safe s0 snd (getPacketCounters run b out s)" "safe s0 snd (signalPoll run b out s)"
    "safe s0 (\<lambda>s. s) (ClientBinder_SendMgmtFrame run b frame cb mcs s)"
    using assms(1,3)
    by (auto simp: getPacketCounters_def signalPoll_def ClientBinder_SendMgmtFrame_def there call_remote_def
        intro!: safe_bind [OF client_queries_safe(1)] safe_bind [OF client_queries_safe(2)] client_queries_safe(3)
          safe_Inr split: option.split)
  show "no_stale (getMacAddress b mac s)" "no_stale (getInterfaceName b name s)" "no_stale (getWifiScannerImpl b s)"
    using assms(3)
    by (auto simp: getMacAddress_def getInterfaceName_def getWifiScannerImpl_def there
        intro!: no_stale_bind [OF the_client_pure [OF assms(1)]] split: option.split)
qed

subsection \<open>Calls of the server\<close>

lemma channel_queries_safe: "within s0 s \<Longrightarrow> safe s0 snd (available_channels band sel run s)"
  unfolding available_channels_def
  by (auto intro!: safe_bind [OF GetBandInfo_safe] safe_Inr split: option.split)

lemma getDeviceWiphyCapabilities_safe: "within s0 s \<Longrightarrow> safe s0 snd (getDeviceWiphyCapabilities run name out s)"
  unfolding getDeviceWiphyCapabilities_def Let_def
  by (auto intro!: safe_bind [OF GetWiphyInfo_safe] safe_Inr)

end

lemma dispatch_safe: "within s0 s \<Longrightarrow> callable c s \<Longrightarrow> safe s0 (\<lambda>s. s) (dispatch n c s)"
proof (induction n arbitrary: s0 s c)
  case (Suc n)
  from safe_runs.handle_safe [OF safe_runs.intro [OF Suc.IH] Suc.prems] show ?case by simp
qed (simp add: safe_Inl)

interpretation safely: safe_runs "dispatch n" for n
  by unfold_locales (rule dispatch_safe)

section \<open>Operations of the server\<close>

lemma objects_ok_callees: "objects_ok s \<Longrightarrow> callees_ok s"
proof -
  assume "objects_ok s"
  then have o: "owned s (snd ` set (client_interfaces s)) (snd ` set (ap_interfaces s))" by (simp add: objects_ok_def)
  note ok = ownedD [OF o]
  have "\<forall>p \<in> set (client_interfaces s). live_client s (snd p) \<noteq> None" using ok(1) by blast
  moreover have "live_ap s i \<noteq> None \<longrightarrow> map_find (ap_binders s) i \<noteq> None" for i
    using proxiesD(3) [OF ok(4)] by fastforce
  ultimately show ?thesis using ok(5) by (simp add: callees_ok_def)
qed

lemma objects_ok_within: "objects_ok s \<Longrightarrow> within s s"
  by (intro within_refl objects_ok_callees)

lemma objects_ok_scanner:
  assumes "objects_ok s" "map_find (scanners s) i \<noteq> None"
  shows "scanner_there s i"
proof -
  have "proxies_ok s" using assms(1) ownedD(4) by (auto simp: objects_ok_def)
  from proxiesD(1) [OF this] assms(2) show ?thesis by (simp add: scanner_there_def)
qed

text \<open>The destructors of interfaces that the server owns.\<close>

lemma deletes_no_stale:
  assumes "owned s C A"
  shows "i \<in> C \<Longrightarrow> no_stale (delete_ClientInterfaceImpl i s)" "i \<in> A \<Longrightarrow> no_stale (delete_ApInterfaceImpl i s)"
proof -
  note ok = ownedD [OF assms]
  {
    assume "i \<in> C"
    then obtain idx where l: "live_client s i = Some idx" using ok(1) by blast
    then obtain b where b: "map_find (client_binders s) i = Some b" using proxiesD(2) [OF ok(4)] by blast
    obtain c where c: "map_find (clients s) i = Some c" using live_there(2) [of s i] l by blast
    obtain x where x: "map_find (scanners s) i = Some x" using live_there(1) [of s i] l proxiesD(1) [OF ok(4), of i] by auto
    show "no_stale (delete_ClientInterfaceImpl i s)" by (simp add: delete_client_defs b c x)
  }
  {
    assume "i \<in> A"
    then obtain idx where l: "live_ap s i = Some idx" using ok(2) by blast
    then obtain b where b: "map_find (ap_binders s) i = Some b" using proxiesD(3) [OF ok(4)] by blast
    obtain a where a: "map_find (aps s) i = Some a" using live_there(3) [of s i] l by blast
    show "no_stale (delete_ApInterfaceImpl i s)" by (simp add: delete_ApInterfaceImpl_def the_ap_def the_ap_binder_def Let_def a b)
  }
qed

lemma delete_clients_no_stale: "owned s C A \<Longrightarrow> snd ` set its \<subseteq> C \<Longrightarrow> distinct (map snd its) \<Longrightarrow> no_stale (delete_clients its s)"
proof (induction its arbitrary: s C)
  case (Cons it its)
  have "no_stale (delete_clients its t)" if "delete_ClientInterfaceImpl (snd it) s = Inr t" for t
    using Cons.prems(2,3) by (intro Cons.IH [OF delete_client_owned [OF that Cons.prems(1)]]) (auto simp: image_iff)
  with deletes_no_stale(1) [OF Cons.prems(1)] Cons.prems(2) show ?case by (auto intro!: no_stale_bind)
qed simp

lemma delete_aps_no_stale: "owned s C A \<Longrightarrow> snd ` set its \<subseteq> A \<Longrightarrow> distinct (map snd its) \<Longrightarrow> no_stale (delete_aps its s)"
proof (induction its arbitrary: s A)
  case (Cons it its)
  have "no_stale (delete_aps its t)" if "delete_ApInterfaceImpl (snd it) s = Inr t" for t
    using Cons.prems(2,3) by (intro Cons.IH [OF delete_ap_owned [OF that Cons.prems(1)]]) (auto simp: image_iff)
  with deletes_no_stale(2) [OF Cons.prems(1)] Cons.prems(2) show ?case by (auto intro!: no_stale_bind)
qed simp

lemma tear_downs_no_stale:
  assumes "objects_ok s"
  shows "no_stale (tearDownClientInterface name s)" "no_stale (tearDownApInterface name s)"
proof -
  have o: "owned s (snd ` set (client_interfaces s)) (snd ` set (ap_interfaces s))" using assms by (simp add: objects_ok_def)
  have "no_stale (delete_ClientInterfaceImpl i ((BroadcastClientInterfaceTornDown i s)\<lparr>client_interfaces := m\<rparr>))"
    if "map_find (client_interfaces s) name = Some i" for i m
  proof -
    have "i \<in> snd ` set (client_interfaces s)" using map_of_SomeD [OF that] by force
    with o show ?thesis
      by (intro deletes_no_stale(1)) (simp_all add: names_owned same_objects_ok(1) [OF broadcasts_same(3)])
  qed
  then show "no_stale (tearDownClientInterface name s)"
    by (auto simp: tearDownClientInterface_def Let_def intro!: no_stale_bind split: option.split)
  have "no_stale (delete_ApInterfaceImpl i ((BroadcastApInterfaceTornDown i s)\<lparr>ap_interfaces := m\<rparr>))"
    if "map_find (ap_interfaces s) name = Some i" for i m
  proof -
    have "i \<in> snd ` set (ap_interfaces s)" using map_of_SomeD [OF that] by force
    with o show ?thesis
      by (intro deletes_no_stale(2)) (simp_all add: names_owned same_objects_ok(1) [OF broadcasts_same(4)])
  qed
  then show "no_stale (tearDownApInterface name s)"
    by (auto simp: tearDownApInterface_def Let_def intro!: no_stale_bind split: option.split)
qed

lemma tearDownInterfaces_no_stale:
  assumes "objects_ok s"
  shows "no_stale (tearDownInterfaces s)"
proof -
  have o: "owned s (snd ` set (client_interfaces s)) (snd ` set (ap_interfaces s))" "named s"
    using assms by (simp_all add: objects_ok_def)
  let ?s1 = "fold (\<lambda>it. BroadcastClientInterfaceTornDown (snd it)) (client_interfaces s) s"
  have same1: "same_objects s ?s1" by (intro fold_same broadcasts_same)
  have o1: "owned (?s1\<lparr>client_interfaces := []\<rparr>) (snd ` set (client_interfaces s)) (snd ` set (ap_interfaces s))"
    using o(1) by (simp add: names_owned same_objects_ok(1) [OF same1])
  have first: "no_stale (delete_clients (client_interfaces s) (?s1\<lparr>client_interfaces := []\<rparr>))"
    using o(2) by (intro delete_clients_no_stale [OF o1]) (simp_all add: named_def)
  have second: "no_stale (delete_aps (ap_interfaces t') (t'\<lparr>ap_interfaces := []\<rparr>))"
    if d: "delete_clients (client_interfaces s) (?s1\<lparr>client_interfaces := []\<rparr>) = Inr t"
      and t': "t' = fold (\<lambda>it. BroadcastApInterfaceTornDown (snd it)) (ap_interfaces t) t" for t t'
  proof -
    from delete_clients_owned [OF d o1] have t: "owned t {} (snd ` set (ap_interfaces s))" "ap_interfaces t = ap_interfaces s"
      by (simp_all add: same_objects_names [OF same1])
    have same: "same_objects t t'" unfolding t' by (intro fold_same broadcasts_same)
    have "owned (t'\<lparr>ap_interfaces := []\<rparr>) {} (snd ` set (ap_interfaces s))"
      using t(1) by (simp add: names_owned same_objects_ok(1) [OF same])
    from delete_aps_no_stale [OF this, of "ap_interfaces t'"] o(2) t(2) show ?thesis
      by (simp add: same_objects_names [OF same] named_def)
  qed
  show ?thesis
    unfolding tearDownInterfaces_def Let_def same_objects_names(1) [OF same1]
    by (intro no_stale_bind [OF first] no_stale_bind [OF second]) auto
qed

text \<open>Construction; while a client interface is being made, its handlers already reach it.\<close>

lemma SubscribeRegDomain_callees:
  "callees_ok s \<Longrightarrow> callees_ok (SubscribeRegDomainChange w server_hid s)"
  by (auto simp: callees_ok_def handlers_ok_def SubscribeRegDomainChange_def live_client_def [abs_def]
      live_ap_def [abs_def] live_scanner_def [abs_def] keyed_def)

lemma SetupInterface_no_stale:
  assumes "callees_ok s"
  shows "no_stale (SetupInterface (dispatch n) name s)"
proof -
  have dump: "no_stale (and_then (GetInterfaces (dispatch n) w [] ((SubscribeRegDomainChange w server_hid t)\<lparr>debug_interfaces := []\<rparr>)) f)"
    if "within s t" "\<And>x. no_stale (f x)" for w t and f :: "_ \<Rightarrow> 'c res"
  proof -
    let ?u = "(SubscribeRegDomainChange w server_hid t)\<lparr>debug_interfaces := []\<rparr>"
    have "callees_ok ?u"
      using SubscribeRegDomain_callees [OF within_callees [OF that(1)], of w] within_refl
      by (simp add: callees_ok_def handlers_ok_def live_client_def [abs_def] live_ap_def [abs_def] live_scanner_def [abs_def])
    from safe_no_stale [OF safely.GetInterfaces_safe [OF within_refl [OF this]]] that(2) show ?thesis
      by (intro no_stale_bind) auto
  qed
  have "safe s snd (GetWiphyIndex (dispatch n) name s)" by (intro safely.GetWiphyIndex_safe within_refl assms)
  then show ?thesis
    unfolding SetupInterface_def Let_def
    by (cases "GetWiphyIndex (dispatch n) name s")
      (auto simp: safe_def simp del: server_hid_def intro!: dump split: option.split)
qed

lemma ClientInterfaceImpl_no_stale:
  assumes "owned s C A" "\<forall>p \<in> set (client_interfaces s). live_client s (snd p) \<noteq> None"
  shows "no_stale (ClientInterfaceImpl (dispatch n) w name idx mac s)"
proof -
  let ?i = "next_obj s"
  let ?c = "(fresh_client s)
                \<lparr>client_wiphy_index := w, client_interface_name := name,
                 client_interface_index := idx, client_mac_addr := mac,
                 is_associated := False, client_band_info := BandInfo,
                 client_wiphy_features := default_features (client_wiphy_features (fresh_client s)),
                 frame_tx_in_progress := False, frame_tx_status_cookie := 0, frame_tx_handler := None\<rparr>"
  let ?s2 = "SubscribeChannelSwitchEvent idx ?i (SubscribeFrameTxStatusEvent idx ?i (SubscribeMlmeEvent idx ?i
       (s\<lparr>next_obj := ?i + 1, clients := map_set ?i ?c (clients s),
          client_binders := map_set ?i \<lparr>client_impl = Some ?i\<rparr> (client_binders s)\<rparr>)))"
  note ok = ownedD [OF assms(1)]
  note fresh = owned_fresh [OF assms(1)]
  note defs = SubscribeChannelSwitchEvent_def SubscribeFrameTxStatusEvent_def SubscribeMlmeEvent_def
  have lives: "live_client ?s2 = (live_client s)(?i \<mapsto> idx)" "live_ap ?s2 = live_ap s" "live_scanner ?s2 = live_scanner s"
    by (auto simp: defs live_client_def live_ap_def live_scanner_def fun_eq_iff)
  have tables: "map_find (on_mlme_event_handler ?s2) = (map_find (on_mlme_event_handler s))(idx \<mapsto> ?i)"
    "map_find (on_frame_tx_status_event_handler ?s2) = (map_find (on_frame_tx_status_event_handler s))(idx \<mapsto> ?i)"
    "map_find (on_channel_switch_event_handler ?s2) = (map_find (on_channel_switch_event_handler s))(idx \<mapsto> ?i)"
    "on_scan_result_ready_handler ?s2 = on_scan_result_ready_handler s"
    "on_sched_scan_result_ready_handler ?s2 = on_sched_scan_result_ready_handler s"
    "on_station_event_handler ?s2 = on_station_event_handler s"
    "on_reg_domain_changed_handler ?s2 = on_reg_domain_changed_handler s"
    by (simp_all add: defs fun_eq_iff)
  have handlers: "handlers_ok ?s2"
    using ok(5) unfolding handlers_ok_def lives tables
    by (auto simp: fresh(5) elim!: keyed_set keyed_mono split: if_splits)
  have aps: "live_ap s i \<noteq> None \<longrightarrow> map_find (ap_binders s) i \<noteq> None" for i
    using proxiesD(3) [OF ok(4)] by fastforce
  have "callees_ok ?s2"
    using handlers assms(2) aps unfolding callees_ok_def lives by (auto simp: defs)
  then have w: "within ?s2 ?s2" by (rule within_refl)
  have there: "live_client ?s2 ?i \<noteq> None" unfolding lives by simp
  have "safe ?s2 (\<lambda>s. s) (UpdateBandInfo (dispatch n) ?i ?s2)" by (rule safely.UpdateBandInfo_safe [OF w there])
  then have "safe ?s2 (\<lambda>x. ?s2) (and_then (UpdateBandInfo (dispatch n) ?i ?s2) (\<lambda>s3. and_then (the_client ?i s3) (\<lambda>c.
      Inr (?i, call_remote (SetUpState (c_str name) True)
                     (ScannerImpl ?i idx (client_scan_capabilities c) (client_wiphy_features c) s3)))))"
    by (rule safe_bind) (rule safe_pure [OF the_client_pure [OF _ there]], assumption, rule safe_Inr, rule w)
  then show ?thesis unfolding ClientInterfaceImpl_def Let_def forwarded by (rule safe_no_stale)
qed

lemma note_wiphy_no_stale: "objects_ok s \<Longrightarrow> no_stale (note_wiphy (dispatch n) name w s)"
proof -
  assume "objects_ok s"
  then have "safe s (\<lambda>s. s) (UpdateBandWiphyIndexMap (dispatch n) w s)"
    by (intro safely.UpdateBandWiphyIndexMap_safe objects_ok_within)
  then show ?thesis unfolding note_wiphy_def by (auto dest: safe_no_stale intro!: no_stale_bind)
qed

lemma createClientInterface_no_stale:
  assumes "objects_ok s"
  shows "no_stale (createClientInterface (dispatch n) name s)"
proof -
  have "no_stale (and_then (ClientInterfaceImpl (dispatch n) w (info_name iface) (info_if_index iface) (info_mac_address iface) s1) (\<lambda>(i, s2).
             let s3 = BroadcastClientInterfaceReady i s2;
                 old = map_find (client_interfaces s3) name;
                 s4 = s3\<lparr>client_interfaces := map_set name i (client_interfaces s3)\<rparr>
             in and_then (case old of None \<Rightarrow> Inr s4 | Some j \<Rightarrow> delete_ClientInterfaceImpl j s4) (\<lambda>s5.
                and_then (note_wiphy (dispatch n) name w s5) (\<lambda>s6. Inr (Some i, s6)))))"
    if prep: "SetupInterface (dispatch n) name s = Inr (Some (iface, w), s1)" for iface w s1
  proof -
    have ok1: "objects_ok s1" using SetupInterface_ok [OF prep assms] .
    then have o: "owned s1 (snd ` set (client_interfaces s1)) (snd ` set (ap_interfaces s1))" by (simp add: objects_ok_def)
    have live: "\<forall>p \<in> set (client_interfaces s1). live_client s1 (snd p) \<noteq> None"
      using objects_ok_callees [OF ok1] by (simp add: callees_ok_def)
    have stored: "no_stale (and_then (case map_find (client_interfaces s2) name of None \<Rightarrow> Inr s4
        | Some j \<Rightarrow> delete_ClientInterfaceImpl j s4)
          (\<lambda>s5. and_then (note_wiphy (dispatch n) name w s5) (\<lambda>s6. Inr (Some i, s6))))"
      if new: "ClientInterfaceImpl (dispatch n) w (info_name iface) (info_if_index iface) (info_mac_address iface) s1 = Inr (i, s2)"
        and s4: "s4 = (BroadcastClientInterfaceReady i s2)\<lparr>client_interfaces := map_set name i (client_interfaces s2)\<rparr>"
      for i s2 s4
    proof -
      note c = ClientInterfaceImpl_owned [OF new o]
      let ?s3 = "BroadcastClientInterfaceReady i s2"
      have same: "same_objects s2 ?s3" by (rule broadcasts_same)
      have o4: "owned s4 (insert i (snd ` set (client_interfaces s1))) (snd ` set (ap_interfaces s1))"
        using c(1) by (simp add: s4 names_owned same_objects_ok(1) [OF same])
      have "no_stale (delete_ClientInterfaceImpl j s4)" if "map_find (client_interfaces s1) name = Some j" for j
      proof -
        have "j \<in> snd ` set (client_interfaces s1)" using map_of_SomeD [OF that] by force
        then show ?thesis by (intro deletes_no_stale(1) [OF o4]) simp
      qed
      moreover have "objects_ok s5" if "(case map_find (client_interfaces s2) name of None \<Rightarrow> Inr s4
          | Some j \<Rightarrow> delete_ClientInterfaceImpl j s4) = Inr s5" for s5
        using c(1,3,4) ok1 that [unfolded s4]
        by (intro replace_client_ok [of ?s3 i name])
          (simp_all add: same_objects_ok [OF same] same_objects_names [OF same] c(5,6) objects_ok_def cong: option.case_cong)
      ultimately show ?thesis
        using c(5) by (auto intro!: no_stale_bind note_wiphy_no_stale split: option.split)
    qed
    show ?thesis
      using ClientInterfaceImpl_no_stale [OF o live]
      by (intro no_stale_bind) (auto simp: Let_def intro: stored)
  qed
  then show ?thesis
    unfolding createClientInterface_def
    by (intro no_stale_bind SetupInterface_no_stale objects_ok_callees assms) (auto split: option.split)
qed

lemma createApInterface_no_stale:
  assumes "objects_ok s"
  shows "no_stale (createApInterface (dispatch n) name s)"
proof -
  have stored: "no_stale (and_then (case map_find (ap_interfaces s2) name of None \<Rightarrow> Inr s4
        | Some j \<Rightarrow> delete_ApInterfaceImpl j s4)
          (\<lambda>s5. and_then (note_wiphy (dispatch n) name w s5) (\<lambda>s6. Inr (Some i, s6))))"
    if prep: "SetupInterface (dispatch n) name s = Inr (Some (iface, w), s1)"
      and new: "ApInterfaceImpl (info_name iface) (info_if_index iface) s1 = (i, s2)"
      and s4: "s4 = (BroadcastApInterfaceReady i s2)\<lparr>ap_interfaces := map_set name i (ap_interfaces s2)\<rparr>"
    for iface w s1 i s2 s4
  proof -
    have ok1: "objects_ok s1" using SetupInterface_ok [OF prep assms] .
    then have o: "owned s1 (snd ` set (client_interfaces s1)) (snd ` set (ap_interfaces s1))" by (simp add: objects_ok_def)
    note c = ApInterfaceImpl_owned [OF new o]
    let ?s3 = "BroadcastApInterfaceReady i s2"
    have same: "same_objects s2 ?s3" by (rule broadcasts_same)
    have o4: "owned s4 (snd ` set (client_interfaces s1)) (insert i (snd ` set (ap_interfaces s1)))"
      using c(1) by (simp add: s4 names_owned same_objects_ok(1) [OF same])
    have "no_stale (delete_ApInterfaceImpl j s4)" if "map_find (ap_interfaces s1) name = Some j" for j
    proof -
      have "j \<in> snd ` set (ap_interfaces s1)" using map_of_SomeD [OF that] by force
      then show ?thesis by (intro deletes_no_stale(2) [OF o4]) simp
    qed
    moreover have "objects_ok s5" if "(case map_find (ap_interfaces s2) name of None \<Rightarrow> Inr s4
        | Some j \<Rightarrow> delete_ApInterfaceImpl j s4) = Inr s5" for s5
      using c(1,3,4) ok1 that [unfolded s4]
      by (intro replace_ap_ok [of ?s3 i name])
        (simp_all add: same_objects_ok [OF same] same_objects_names [OF same] c(5,6) objects_ok_def cong: option.case_cong)
    ultimately show ?thesis
      using c(6) by (auto intro!: no_stale_bind note_wiphy_no_stale split: option.split)
  qed
  show ?thesis
    unfolding createApInterface_def
  proof (intro no_stale_bind SetupInterface_no_stale objects_ok_callees assms, goal_cases)
    case (1 x)
    obtain r s1 where x: "x = (r, s1)" by force
    show ?case
    proof (cases r)
      case None
      then show ?thesis by (simp add: x)
    next
      case (Some y)
      obtain iface w where y: "y = (iface, w)" by force
      obtain i s2 where new: "ApInterfaceImpl (info_name iface) (info_if_index iface) s1 = (i, s2)" by force
      show ?thesis
        using stored [OF _ new refl, of w] 1 by (simp add: x Some y new Let_def cong: option.case_cong)
    qed
  qed
qed

section \<open>Requests\<close>

text \<open>
  The object that a request is called on. Another process only gets hold of scanners and binder
  objects that were made, and they are never destroyed.
\<close>

fun addressed :: "request \<Rightarrow> 'a srv_scheme \<Rightarrow> bool" where
  "addressed (Do_getScanResults i) s = (map_find (scanners s) i \<noteq> None)"
| "addressed (Do_getPnoScanResults i) s = (map_find (scanners s) i \<noteq> None)"
| "addressed (Do_getMaxSsidsPerScan i) s = (map_find (scanners s) i \<noteq> None)"
| "addressed (Do_scan i _) s = (map_find (scanners s) i \<noteq> None)"
| "addressed (Do_scanRequest i _) s = (map_find (scanners s) i \<noteq> None)"
| "addressed (Do_abortScan i) s = (map_find (scanners s) i \<noteq> None)"
| "addressed (Do_startPnoScan i _) s = (map_find (scanners s) i \<noteq> None)"
| "addressed (Do_stopPnoScan i) s = (map_find (scanners s) i \<noteq> None)"
| "addressed (Do_subscribeScanEvents i _) s = (map_find (scanners s) i \<noteq> None)"
| "addressed (Do_unsubscribeScanEvents i) s = (map_find (scanners s) i \<noteq> None)"
| "addressed (Do_subscribePnoScanEvents i _) s = (map_find (scanners s) i \<noteq> None)"
| "addressed (Do_unsubscribePnoScanEvents i) s = (map_find (scanners s) i \<noteq> None)"
| "addressed (Do_getPacketCounters b) s = (map_find (client_binders s) b \<noteq> None)"
| "addressed (Do_signalPoll b) s = (map_find (client_binders s) b \<noteq> None)"
| "addressed (Do_getMacAddress b) s = (map_find (client_binders s) b \<noteq> None)"
| "addressed (Do_getInterfaceName b) s = (map_find (client_binders s) b \<noteq> None)"
| "addressed (Do_getWifiScannerImpl b) s = (map_find (client_binders s) b \<noteq> None)"
| "addressed (Do_SendMgmtFrame b _ _ _) s = (map_find (client_binders s) b \<noteq> None)"
| "addressed (Do_registerCallback b _) s = (map_find (ap_binders s) b \<noteq> None)"
| "addressed (Do_Ap_getInterfaceName b) s = (map_find (ap_binders s) b \<noteq> None)"
| "addressed _ s = True"

text \<open>The one method of a binder that does not test whether its interface is still there.\<close>

fun asks_dead_ap :: "request \<Rightarrow> 'a srv_scheme \<Rightarrow> bool" where
  "asks_dead_ap (Do_Ap_getInterfaceName b) s = (live_ap s b = None)"
| "asks_dead_ap _ s = False"

lemma no_stale_ending [simp]: "no_stale (ending m) = no_stale m"
  by (cases m) (auto simp: ending_def)

lemma no_stale_query [simp]: "no_stale (query m s) = no_stale m"
  by (cases m) (auto simp: query_def)

lemma Ap_getInterfaceName_result:
  assumes "objects_ok s" "map_find (ap_binders s) b \<noteq> None"
  shows "Ap_getInterfaceName b s =
     (case map_find (aps s) b of None \<Rightarrow> Inl Null_Pointer | Some a \<Rightarrow> Inr (ap_interface_name a))"
proof -
  obtain x where x: "map_find (ap_binders s) b = Some x" using assms(2) by blast
  have "proxies_ok s" using assms(1) ownedD(4) by (auto simp: objects_ok_def)
  then have "ap_impl x = (if live_ap s b = None then None else Some b)" using x by (simp add: proxies_ok_def)
  with x show ?thesis
    by (simp add: Ap_getInterfaceName_def the_ap_binder_def the_ap_def live_ap_def split: option.split)
qed

lemma dump_no_stale:
  assumes "objects_ok (s :: 'a srv_scheme)"
  shows "no_stale (dump (dispatch n) permitted write_ok s)"
proof (cases permitted)
  case True
  have safe: "no_stale (GetCountryCode (dispatch n) s)"
    by (rule safe_no_stale [OF safely.GetCountryCode_safe]) (rule objects_ok_within [OF assms])
  show ?thesis
  proof (cases "GetCountryCode (dispatch n) s")
    case (Inl e)
    with safe show ?thesis by (simp add: True dump_def no_stale_def Let_def)
  next
    case (Inr p)
    then obtain code s1 where "GetCountryCode (dispatch n) s = Inr (code, s1)" by (cases p) simp
    from dump_runs [OF assms this] show ?thesis by (simp add: True no_stale_def)
  qed
qed (simp add: dump_def no_stale_def)

lemma perform_no_stale:
  assumes "objects_ok s" "addressed r s" "\<not> asks_dead_ap r s"
  shows "no_stale (perform n r s)"
proof -
  have w: "within s s" using assms(1) by (rule objects_ok_within)
  note scanner = objects_ok_scanner [OF assms(1)]
  note scanner_calls = safely.result_queries_safe(1,2) [OF scanner w] safely.scanRequest_safe [OF scanner w]
    safely.scans_of_scanner_safe [OF scanner w] safely.startPnoScan_safe [OF scanner w] safely.subscriptions_safe [OF scanner w]
  have live: "live_client s j \<noteq> None" if "map_find (client_binders s) b = Some x" "client_impl x = Some j" for b x j
    using proxiesD(4) [OF _ that] assms(1) ownedD(4) by (auto simp: objects_ok_def)
  note binder_calls = safely.client_binder_safe [OF w _ live]
  show ?thesis
    using assms(2,3)
    by (cases r)
      (auto simp: channel_queries registerCallback_def the_ap_binder_def notifyCountryCodeChanged_def
        Ap_getInterfaceName_result [OF assms(1)] live_ap_def
        intro: scanner_calls [THEN safe_no_stale] safely.result_queries_safe(3) [OF scanner w]
          binder_calls(1-3) [THEN safe_no_stale] binder_calls(4-6)
          safely.ReceivePacketAndRunHandler_safe [OF w, THEN safe_no_stale]
          dump_no_stale createClientInterface_no_stale createApInterface_no_stale tear_downs_no_stale tearDownInterfaces_no_stale
          safely.channel_queries_safe [OF w, THEN safe_no_stale]
          safely.getDeviceWiphyCapabilities_safe [OF w, THEN safe_no_stale]
          safely.handleCountryCodeChanged_safe [OF w, THEN safe_no_stale] assms(1))
qed

lemma perform_dead_ap:
  assumes "objects_ok s" "addressed r s" "asks_dead_ap r s"
  shows "perform n r s = Inl Null_Pointer"
  using assms Ap_getInterfaceName_result [OF assms(1)] by (cases r) (simp_all add: query_def live_ap_def split: option.splits)

section \<open>Properties\<close>

text \<open>
  C2. In a state in which the invariant of the objects holds, no request to an existing object
  reaches an object that was destroyed: not while it is handled, and not in the handlers of the
  notifications that arrive meanwhile. A null pointer is reached by exactly one kind of request,
  \<open>getInterfaceName\<close> on the binder of an access point that is gone.
\<close>

theorem no_use_after_free:
  assumes "objects_ok (s :: 'a srv_scheme)" "addressed r s"
  shows "perform n r s \<noteq> Inl Use_After_Free \<and> (perform n r s = Inl Null_Pointer \<longleftrightarrow> asks_dead_ap r s)"
  using perform_no_stale [OF assms] perform_dead_ap [OF assms] by (cases "asks_dead_ap r s") (simp_all add: no_stale_def)

text \<open>
  C37. \<open>getInterfaceName\<close> of an access point binder dereferences a null pointer exactly when the
  interface was torn down. The client binder tests for that and leaves the output as it was.
\<close>

theorem dead_binders_answer:
  assumes "objects_ok (s :: 'a srv_scheme)"
  shows "(map_find (ap_binders s) b \<noteq> None \<longrightarrow>
      (Ap_getInterfaceName b s = Inl Null_Pointer) = (live_ap s b = None)) \<and>
    (map_find (client_binders s) b \<noteq> None \<and> live_client s b = None \<longrightarrow> getInterfaceName b out s = Inr out)"
proof -
  have "proxies_ok s" using assms(1) ownedD(4) by (auto simp: objects_ok_def)
  then have impl: "client_impl x = None" if "map_find (client_binders s) b = Some x" "live_client s b = None" for x
    using that by (simp add: proxies_ok_def)
  show ?thesis
    using impl by (auto simp: Ap_getInterfaceName_result [OF assms] live_ap_def getInterfaceName_def the_client_binder_def
        split: option.split)
qed

text \<open>Applied to a request for the signal of a client interface whose kernel does not answer.\<close>

theorem no_use_after_free_witness:
  "perform 3 (Do_signalPoll 1) (running_server []) \<noteq> Inl Use_After_Free \<and>
   perform 3 (Do_tearDownInterfaces) (running_server []) \<noteq> Inl Null_Pointer"
proof -
  have "addressed (Do_signalPoll 1) (running_server [])" "addressed Do_tearDownInterfaces (running_server [])"
    by (simp_all add: running_server_def)
  from this [THEN no_use_after_free [OF running_server_ok]] show ?thesis by auto
qed

theorem dead_binders_answer_witness:
  "\<exists>s'. tearDownApInterface [97] (running_server []) = Inr (True, s') \<and> Ap_getInterfaceName 2 s' = Inl Null_Pointer"
proof -
  obtain s' where s': "tearDownApInterface [97] (running_server []) = Inr (True, s')"
    and dead: "map_find (aps s') 2 = None" "map_find (ap_binders s') 2 \<noteq> None"
    by (simp add: tearDownApInterface_def running_server_def delete_ApInterfaceImpl_def the_ap_def the_ap_binder_def
        BroadcastApInterfaceTornDown_def forget_wiphy_def map_erase_def call_remote_def Let_def
        UnsubscribeChannelSwitchEvent_def UnsubscribeStationEvent_def hasNoIfaceForWiphyIndex_def)
  from dead_binders_answer [OF tearDownApInterface_ok [OF s' running_server_ok], of 2] dead s'
  show ?thesis by (auto simp: live_ap_def)
qed

end
