(* ===== verification/Client_Properties.thy ===== *)
theory Client_Properties
  imports Object_Safety Server_Properties Netlink_Properties
begin

text \<open>
  What a client of the service can rely on: a frame that was handed to the kernel is answered by
  exactly one callback, and an interface that was torn down is gone from all tables while the
  objects that the client still holds say so.
\<close>

section \<open>Frame transmission\<close>








section \<open>Single scans\<close>

lemma Scan_answered:
  fixes s :: "'a nlm_scheme"
  defines "k \<equiv> fst (GetSequenceNumber s)"
  assumes "length (ReceiveBuffer s) = 8192" "knows_family f s" "t < 4000"
    and "will_answer s (PollReady (ReadBytes m) t # ps) rest"
    and "single_reply k m" "length m \<le> 8192" "GetMessageType m = Inr NLMSG_ERROR" "GetErrorCode m = Inr code"
    and "scan_request_ok ssids freqs ies" "scan_type_flag scan_type = Inr flag"
  shows "\<exists>p B. Scan run idx rm scan_type rnr ssids freqs ies e s =
    Inr (code = 0, code, request_done p k [m] B (s\<lparr>sequence_number := k\<rparr>))"
proof -
  let ?s = "s\<lparr>sequence_number := k\<rparr>"
  let ?h = "\<lparr>msg_type = f, msg_flags = NLM_F_REQUEST, msg_seq = k, msg_pid = own_pid s, msg_cmd = NL80211_CMD_TRIGGER_SCAN\<rparr>"
  let ?p = "message (?h\<lparr>msg_flags := msg_flags ?h OR 4\<rparr>) (scan_attrs idx ssids freqs (scan_flags_of rm flag rnr) ies)"
  have p: "scan_request idx rm scan_type rnr ssids freqs ies (NL80211Packet f NL80211_CMD_TRIGGER_SCAN k (own_pid s)) = Inr ?p"
    using scan_request_message [OF assms(10,11), of idx rm rnr ?h] by (simp add: NL80211Packet_message)
  have "GetMessageSequence ?p = Inr k" by simp
  moreover have "k \<noteq> 0" unfolding k_def by (rule next_sequence_nonzero)
  ultimately obtain B where "SendMessageAndGetAckOrError run ?p ?s = Inr (Some code, request_done ?p k [m] B ?s)"
    using AckOrError_single(1) [of ?s ?p k m t ps rest code run] assms(2-) by (auto simp: will_answer_def)
  then show ?thesis
    using p by (auto simp: Scan_def new_request_known [OF assms(3)] k_def)
qed

section \<open>Tearing down\<close>

lemma delete_client_runs:
  assumes "owned s C A" "i \<in> C"
  obtains s' c where "delete_ClientInterfaceImpl i s = Inr s'" "map_find (clients s) i = Some c"
    "remote_calls s' = remote_calls s @ [SetUpState (c_str (client_interface_name c)) False]"
    "interface_event_callbacks s' = interface_event_callbacks s" "clients s' = map_erase i (clients s)"
proof -
  note ok = ownedD [OF assms(1)]
  obtain idx where l: "live_client s i = Some idx" using assms(2) ok(1) by blast
  then obtain b where b: "map_find (client_binders s) i = Some b" using proxiesD(2) [OF ok(4)] by blast
  obtain c where c: "map_find (clients s) i = Some c" using live_there(2) [of s i] l by blast
  obtain x where x: "map_find (scanners s) i = Some x" using live_there(1) [of s i] l proxiesD(1) [OF ok(4), of i] by auto
  show ?thesis
    using that [OF _ c] by (simp add: delete_client_defs b c x)
qed

lemma fold_call_remote:
  "remote_calls (fold (\<lambda>x. call_remote (f x)) xs s) = remote_calls s @ map f xs"
  "clients (fold (\<lambda>x. call_remote (f x)) xs s) = clients s"
  by (induction xs arbitrary: s) (simp_all add: call_remote_def)

lemma forget_wiphy_fields:
  "client_interfaces (forget_wiphy name s) = client_interfaces s" "clients (forget_wiphy name s) = clients s"
  "aps (forget_wiphy name s) = aps s" "client_binders (forget_wiphy name s) = client_binders s"
  "scanners (forget_wiphy name s) = scanners s" "remote_calls (forget_wiphy name s) = remote_calls s"
  "on_mlme_event_handler (forget_wiphy name s) = on_mlme_event_handler s"
  "on_frame_tx_status_event_handler (forget_wiphy name s) = on_frame_tx_status_event_handler s"
  "on_scan_result_ready_handler (forget_wiphy name s) = on_scan_result_ready_handler s"
  "on_sched_scan_result_ready_handler (forget_wiphy name s) = on_sched_scan_result_ready_handler s"
  "on_channel_switch_event_handler (forget_wiphy name s) = on_channel_switch_event_handler s"
  by (simp_all add: forget_wiphy_def EraseBandWiphyIndexMap_def Let_def split: option.split)

text \<open>No table of handlers mentions the object.\<close>

definition deaf :: "obj \<Rightarrow> 'a srv_scheme \<Rightarrow> bool" where
  "deaf i s \<longleftrightarrow> (\<forall>k. map_find (on_mlme_event_handler s) k \<noteq> Some i \<and>
     map_find (on_frame_tx_status_event_handler s) k \<noteq> Some i \<and> map_find (on_channel_switch_event_handler s) k \<noteq> Some i \<and>
     map_find (on_scan_result_ready_handler s) k \<noteq> Some i \<and> map_find (on_sched_scan_result_ready_handler s) k \<noteq> Some i)"

lemma dead_is_deaf:
  assumes "owned s C A" "i \<notin> C" "i \<notin> A"
  shows "deaf i s" "live_client s i = None" "live_ap s i = None" "live_scanner s i = None"
proof -
  note ok = ownedD [OF assms(1)]
  show dead: "live_client s i = None" "live_ap s i = None" using ok(1,2) assms(2,3) by auto
  then show "live_scanner s i = None" using proxiesD(1) [OF ok(4), of i] by simp
  with dead ok(5) show "deaf i s"
    unfolding deaf_def handlers_ok_def keyed_def by (metis option.distinct(1))
qed

lemma tear_down_client:
  assumes "objects_ok s" "map_find (client_interfaces s) name = Some i"
  shows "\<exists>s' c. tearDownClientInterface name s = Inr (True, s') \<and> objects_ok s' \<and> map_find (clients s) i = Some c \<and>
    map_find (client_interfaces s') = (map_find (client_interfaces s))(name := None) \<and>
    live_client s' = (live_client s)(i := None) \<and> live_ap s' = live_ap s \<and> deaf i s' \<and>
    getWifiScannerImpl i s' = Inr None \<and> getMaxSsidsPerScan i s' = Inr 0 \<and>
    remote_calls s' = remote_calls s @ map (\<lambda>cb. OnClientTorndownEvent cb i) (interface_event_callbacks s) @
      [SetUpState (c_str (client_interface_name c)) False]"
proof -
  let ?t = "BroadcastClientInterfaceTornDown i s"
  let ?u = "?t\<lparr>client_interfaces := map_erase name (client_interfaces s)\<rparr>"
  have o: "owned s (snd ` set (client_interfaces s)) (snd ` set (ap_interfaces s))" using assms(1) by (simp add: objects_ok_def)
  have i: "i \<in> snd ` set (client_interfaces s)" using map_of_SomeD [OF assms(2)] by force
  have same: "same_objects s ?t" by (rule broadcasts_same)
  have u: "owned ?u (snd ` set (client_interfaces s)) (snd ` set (ap_interfaces s))"
    using o by (simp add: names_owned same_objects_ok(1) [OF same])
  have calls: "remote_calls ?u = remote_calls s @ map (\<lambda>cb. OnClientTorndownEvent cb i) (interface_event_callbacks s)"
    "clients ?u = clients s"
    by (simp_all add: BroadcastClientInterfaceTornDown_def fold_call_remote)
  have lives: "live_client ?u = live_client s" "live_ap ?u = live_ap s"
    using same_objects_live [OF same] by (simp_all add: live_client_def [abs_def] live_ap_def [abs_def])
  from delete_client_runs [OF u i] obtain v c where v: "delete_ClientInterfaceImpl i ?u = Inr v" "map_find (clients s) i = Some c"
    "remote_calls v = remote_calls ?u @ [SetUpState (c_str (client_interface_name c)) False]"
    unfolding calls(2) by metis
  let ?s' = "forget_wiphy name v"
  have run: "tearDownClientInterface name s = Inr (True, ?s')"
    using v(1) by (simp add: tearDownClientInterface_def assms(2) Let_def)
  have ov: "owned v (snd ` set (client_interfaces s) - {i}) (snd ` set (ap_interfaces s))" by (rule delete_client_owned [OF v(1) u])
  have "i \<notin> snd ` set (ap_interfaces s)" using ownedD(3) [OF o] i by blast
  then have dead: "deaf i v" "live_scanner v i = None" using dead_is_deaf [OF ov] by simp_all
  from delete_client_effect [OF v(1)] obtain b x where e: "live_client v = (live_client ?u)(i := None)" "live_ap v = live_ap ?u"
    "map_find (scanners v) i = Some (x\<lparr>valid := False\<rparr>)" "map_find (client_binders v) i = Some (b\<lparr>client_impl := None\<rparr>)"
    by (metis fun_upd_same)
  have "objects_ok ?s'" by (rule tearDownClientInterface_ok [OF run assms(1)])
  moreover have "map_find (client_interfaces ?s') = (map_find (client_interfaces s))(name := None)"
    using delete_keeps_names(1) [OF v(1)] by (simp add: forget_wiphy_fields fun_eq_iff)
  moreover have "live_client ?s' = (live_client s)(i := None)" "live_ap ?s' = live_ap s" "deaf i ?s'"
    using e lives dead by (simp_all add: live_client_def [abs_def] live_ap_def [abs_def] deaf_def forget_wiphy_fields)
  moreover have "getWifiScannerImpl i ?s' = Inr None" "getMaxSsidsPerScan i ?s' = Inr 0"
    using e by (simp_all add: getWifiScannerImpl_def getMaxSsidsPerScan_def the_client_binder_def the_scanner_def forget_wiphy_fields)
  moreover have "remote_calls ?s' = remote_calls s @ map (\<lambda>cb. OnClientTorndownEvent cb i) (interface_event_callbacks s) @
      [SetUpState (c_str (client_interface_name c)) False]"
    using v(3) by (simp add: forget_wiphy_fields calls(1))
  ultimately show ?thesis using run v(2) by blast
qed

section \<open>Properties\<close>



text \<open>
  C13. What a process that asks for a scan is told. When the kernel accepts the scan it is
  told so, the scan is marked as started and the count of failures is reset. A refusal is told by
  its kind, and only \<open>ENODEV\<close> counts as a failure; the daemon aborts (and is started anew) exactly
  at the fourth \<open>ENODEV\<close> since the last success.
\<close>

theorem scan_told_as_answered:
  fixes s :: "'a srv_scheme"
  assumes "the_scanner i s = Inr x" "valid x" "the_client i s = Inr c" "settings_scan_type settings \<in> {0, 1, 2}"
    and "length (settings_channels settings) < 5000" "length (settings_vendor_ies settings) < 60000"
    and "length (ReceiveBuffer s) = 8192" "knows_family f s" "t < 4000"
    and "will_answer s (PollReady (ReadBytes m) t # ps) rest"
    and "single_reply (fst (GetSequenceNumber s)) m" "length m \<le> 8192" "GetMessageType m = Inr NLMSG_ERROR"
    and "GetErrorCode m = Inr code"
  shows "(code = 0 \<longrightarrow> (\<exists>s'. scanRequest run i settings s = Inr (SCAN_STATUS_SUCCESS, s') \<and>
       the_scanner i s' = Inr (x\<lparr>nodev_counter := 0, scan_started := True\<rparr>))) \<and>
    (code = ENODEV \<and> nodev_counter x + 1 \<le> 3 \<longrightarrow> (\<exists>s'. scanRequest run i settings s = Inr (SCAN_STATUS_FAILED_NODEV, s') \<and>
       the_scanner i s' = Inr (x\<lparr>nodev_counter := nodev_counter x + 1\<rparr>))) \<and>
    (code = ENODEV \<and> 3 < nodev_counter x + 1 \<longrightarrow> scanRequest run i settings s = Inl Check_Failed) \<and>
    (code \<noteq> 0 \<and> code \<noteq> ENODEV \<longrightarrow> (\<exists>s'. scanRequest run i settings s =
        Inr (if code = EINVAL then SCAN_STATUS_FAILED_INVALID_ARGS
             else if code = EBUSY then SCAN_STATUS_FAILED_BUSY else SCAN_STATUS_FAILED_GENERIC, s') \<and>
       the_scanner i s' = Inr x))"
proof -
  let ?k = "fst (GetSequenceNumber s)"
  obtain supported where sup: "IsScanTypeSupported (settings_scan_type settings) (scanner_features x) = Inr supported"
    using assms(4) by (auto simp: IsScanTypeSupported_def)
  let ?type = "if supported then settings_scan_type settings else SCAN_TYPE_DEFAULT"
  let ?ssids = "scan_ssids_loop (max_num_scan_ssids (scanner_capabilities x)) (settings_hidden_networks settings) [[]]"
  obtain rm where rm: "(if supports_random_mac_oneshot_scan (scanner_features x)
      then and_then (the_client i s) (\<lambda>c. Inr (\<not> is_associated c)) else Inr False) = Inr rm"
    using assms(3) by (cases "supports_random_mac_oneshot_scan (scanner_features x)") auto
  obtain flag where flag: "scan_type_flag ?type = Inr flag" using assms(4) by (cases supported) (auto simp: scan_type_flag_def)
  have "unat (max_num_scan_ssids (scanner_capabilities x)) < 256" using unsigned_less [of "max_num_scan_ssids (scanner_capabilities x)"] by simp
  then have "scan_request_ok ?ssids (map channel_frequency (settings_channels settings)) (settings_vendor_ies settings)"
    using assms(5,6) by (auto simp: scan_request_ok_def scan_ssids_loop_spec dest: in_set_takeD)
  from Scan_answered [OF assms(7-14) this flag, of run "scanner_interface_index x" rm "settings_enable_6ghz_rnr settings" 0]
  obtain p B where scan: "Scan run (scanner_interface_index x) rm ?type (settings_enable_6ghz_rnr settings) ?ssids
      (map channel_frequency (settings_channels settings)) (settings_vendor_ies settings) 0 s =
    Inr (code = 0, code, request_done p ?k [m] B (s\<lparr>sequence_number := ?k\<rparr>))" by blast
  have there: "map_find (scanners s) i = Some x" using assms(1) by (simp add: the_scanner_def split: option.splits)
  show ?thesis
    using scan there
    by (auto simp: scanRequest_def assms(1,2) rm sup Let_def count_nodev_def modify_scanner_def the_scanner_def
        request_done_def convertStdErrNumToScanStatus_def)
qed

theorem scan_told_as_answered_witness:
  "\<exists>s'. scanRequest (dispatch 2) 1
       \<lparr>settings_scan_type = 0, settings_enable_6ghz_rnr = False, settings_channels = [\<lparr>channel_frequency = 2412\<rparr>],
        settings_hidden_networks = [], settings_vendor_ies = []\<rparr>
       (running_server [\<lparr>send_ok = True, polls = [PollReady (ReadBytes (error_reply 1)) 3]\<rparr>]) =
     Inr (SCAN_STATUS_FAILED_BUSY, s') \<and> the_scanner 1 s' = Inr scanner_1"
proof -
  let ?s = "running_server [\<lparr>send_ok = True, polls = [PollReady (ReadBytes (error_reply 1)) 3]\<rparr>]"
  let ?set = "\<lparr>settings_scan_type = 0, settings_enable_6ghz_rnr = False, settings_channels = [\<lparr>channel_frequency = 2412\<rparr>],
        settings_hidden_networks = [], settings_vendor_ies = []\<rparr>"
  have s: "length (ReceiveBuffer ?s) = 8192" "knows_family 28 ?s" "fst (GetSequenceNumber ?s) = 1"
    "will_answer ?s [PollReady (ReadBytes (error_reply 1)) 3] []" "the_client 1 ?s = Inr client_1"
    "the_scanner 1 ?s = Inr scanner_1" "valid scanner_1"
    by (simp_all add: example_defs knows_family_def GetSequenceNumber_def will_answer_def the_client_def the_scanner_def scanner_1_def)
  from scan_told_as_answered [of 1 ?s scanner_1 client_1 ?set 28 3 "error_reply 1" "[]" "[]" EBUSY "dispatch 2"] s
  show ?thesis by (auto simp: single_ack ack_codes length_replies ENODEV_def EBUSY_def EINVAL_def)
qed

text \<open>
  C16. Tearing down a client interface that exists succeeds: the interface is gone under its name
  and as an object, no handler of it is left in any table, its binder and its scanner answer that
  it is gone, no other interface is touched, and the registered processes are told once each
  before the interface is set down.
\<close>

theorem torn_down_client_gone:
  assumes "objects_ok (s :: 'a srv_scheme)" "map_find (client_interfaces s) name = Some i"
  shows "\<exists>s' c. tearDownClientInterface name s = Inr (True, s') \<and> objects_ok s' \<and> map_find (clients s) i = Some c \<and>
    map_find (client_interfaces s') = (map_find (client_interfaces s))(name := None) \<and>
    live_client s' = (live_client s)(i := None) \<and> live_ap s' = live_ap s \<and> deaf i s' \<and>
    getWifiScannerImpl i s' = Inr None \<and> getMaxSsidsPerScan i s' = Inr 0 \<and>
    remote_calls s' = remote_calls s @ map (\<lambda>cb. OnClientTorndownEvent cb i) (interface_event_callbacks s) @
      [SetUpState (c_str (client_interface_name c)) False]"
  using assms by (rule tear_down_client)

theorem torn_down_client_gone_witness:
  "\<exists>s'. tearDownClientInterface [119] (running_server []) = Inr (True, s') \<and> deaf 1 s' \<and> getMaxSsidsPerScan 1 s' = Inr 0 \<and>
     remote_calls s' = [OnClientTorndownEvent 50 1, SetUpState [119] False]"
proof -
  have "map_find (client_interfaces (running_server [])) [119] = Some 1" by (simp add: running_server_def)
  from torn_down_client_gone [OF running_server_ok this] obtain s' c where
    "tearDownClientInterface [119] (running_server []) = Inr (True, s')" "deaf 1 s'" "getMaxSsidsPerScan 1 s' = Inr 0"
    "map_find (clients (running_server [])) 1 = Some c"
    "remote_calls s' = remote_calls (running_server []) @
       map (\<lambda>cb. OnClientTorndownEvent cb 1) (interface_event_callbacks (running_server [])) @
      [SetUpState (c_str (client_interface_name c)) False]" by blast
  moreover have "remote_calls (running_server []) = []" "interface_event_callbacks (running_server []) = [50]"
    "map_find (clients (running_server [])) 1 = Some client_1"
    by (simp_all add: example_defs)
  ultimately show ?thesis by (auto simp: client_1_def c_str_def)
qed

text \<open>
  C24. A dump of the interfaces of a wiphy, however the kernel cuts it into datagrams, is read
  back completely and in order: index, name and hardware address of every interface, with the
  wiphy that was asked for. A dump without any interface counts as a failure.
\<close>

theorem interfaces_read_back:
  assumes "length (ReceiveBuffer (s :: 'a srv_scheme)) = 8192" "knows_family f s" "4 < unat f" "k = fst (GetSequenceNumber s)"
    and "will_answer s (dump_polls k (map (\<lambda>(is, t). (map (interface_message f k) is, t)) parts)
            (map (interface_message f k) final) t) rest"
    and "\<forall>i \<in> set (concat (map fst parts) @ final). interface_ok i"
    and "\<forall>(is, t) \<in> set parts. length is \<le> 80" "length final \<le> 80" "sum_list (map snd parts) + t < 4000"
  shows "\<exists>s'. GetInterfaces (dispatch n) w [] s =
      Inr (concat (map fst parts) @ final \<noteq> [], map (\<lambda>i. i\<lparr>info_wiphy_index := w\<rparr>) (concat (map fst parts) @ final), s') \<and>
    net_script s' = rest"
  using GetInterfaces_answered [of s f parts final t rest "dispatch n" w] assms(1-3) assms(5-) unfolding assms(4) by blast

theorem interfaces_read_back_witness:
  "\<exists>s'. GetInterfaces (dispatch 2) 4 []
       (started_server [\<lparr>send_ok = True, polls = dump_polls 1 [([interface_message 28 1 p2p0], 5)] [interface_message 28 1 wlan0] 10\<rparr>]) =
     Inr (True, [p2p0\<lparr>info_wiphy_index := 4\<rparr>, wlan0\<lparr>info_wiphy_index := 4\<rparr>], s') \<and> net_script s' = []"
proof -
  let ?s = "started_server [\<lparr>send_ok = True, polls = dump_polls 1 [([interface_message 28 1 p2p0], 5)] [interface_message 28 1 wlan0] 10\<rparr>]"
  have "will_answer ?s (dump_polls 1 [([interface_message 28 1 p2p0], 5)] [interface_message 28 1 wlan0] 10) []"
    by (simp add: will_answer_def)
  then show ?thesis
    using interfaces_read_back [of ?s 28 1 "[([p2p0], 5)]" "[wlan0]" 10 "[]" 2 4] started_server_script example_interfaces(1)
    by auto
qed

end
