(* ===== verification/Registry.thy ===== *)
theory Registry
  imports Object_Safety Server_Properties
begin

text \<open>
  What other processes may rely on when they look at the server as a registry: a specification of
  its abstract state, the names that have an interface and the registered callbacks, and of what each
  request may do to it; and the proof that the server, with all its objects, handlers and nested
  notifications, implements it.
\<close>

section \<open>The specification\<close>

record registry =
  reg_clients :: "bytes \<rightharpoonup> obj"
  reg_aps :: "bytes \<rightharpoonup> obj"
  reg_listeners :: "callback list"
  reg_country_listeners :: "callback list"

definition subscribe :: "callback \<Rightarrow> callback list \<Rightarrow> callback list" where
  "subscribe cb cbs = (if cb \<in> set cbs then cbs else cbs @ [cb])"

text \<open>An object that is not in use under any name.\<close>

definition unused :: "registry \<Rightarrow> obj \<Rightarrow> bool" where
  "unused r i \<longleftrightarrow> i \<notin> ran (reg_clients r) \<and> i \<notin> ran (reg_aps r)"

fun administrative :: "request \<Rightarrow> bool" where
  "administrative (Do_createClientInterface _) = True"
| "administrative (Do_createApInterface _) = True"
| "administrative (Do_tearDownClientInterface _) = True"
| "administrative (Do_tearDownApInterface _) = True"
| "administrative Do_tearDownInterfaces = True"
| "administrative (Do_RegisterCallback _) = True"
| "administrative (Do_UnregisterCallback _) = True"
| "administrative (Do_registerWificondEventCallback _) = True"
| "administrative (Do_unregisterWificondEventCallback _) = True"
| "administrative _ = False"

text \<open>
  A creation may fail, and then nothing has changed; a name that is in use gets the new object.
  Whatever the kernel sends, no request of another kind changes the registry.
\<close>

inductive registry_step :: "request \<Rightarrow> registry \<Rightarrow> registry \<Rightarrow> bool" where
  client_created: "unused r i \<Longrightarrow>
    registry_step (Do_createClientInterface name) r (r\<lparr>reg_clients := (reg_clients r)(name \<mapsto> i)\<rparr>)"
| client_refused: "registry_step (Do_createClientInterface name) r r"
| ap_created: "unused r i \<Longrightarrow>
    registry_step (Do_createApInterface name) r (r\<lparr>reg_aps := (reg_aps r)(name \<mapsto> i)\<rparr>)"
| ap_refused: "registry_step (Do_createApInterface name) r r"
| client_gone: "registry_step (Do_tearDownClientInterface name) r (r\<lparr>reg_clients := (reg_clients r)(name := None)\<rparr>)"
| ap_gone: "registry_step (Do_tearDownApInterface name) r (r\<lparr>reg_aps := (reg_aps r)(name := None)\<rparr>)"
| all_gone: "registry_step Do_tearDownInterfaces r (r\<lparr>reg_clients := Map.empty, reg_aps := Map.empty\<rparr>)"
| listening_starts: "registry_step (Do_RegisterCallback cb) r (r\<lparr>reg_listeners := subscribe cb (reg_listeners r)\<rparr>)"
| listening_ends: "registry_step (Do_UnregisterCallback cb) r (r\<lparr>reg_listeners := remove1 cb (reg_listeners r)\<rparr>)"
| country_starts: "registry_step (Do_registerWificondEventCallback cb) r
    (r\<lparr>reg_country_listeners := subscribe cb (reg_country_listeners r)\<rparr>)"
| country_ends: "registry_step (Do_unregisterWificondEventCallback cb) r
    (r\<lparr>reg_country_listeners := remove1 cb (reg_country_listeners r)\<rparr>)"
| unchanged: "\<not> administrative q \<Longrightarrow> registry_step q r r"

inductive_simps tear_down_step: "registry_step (Do_tearDownClientInterface name) r r'"
inductive_simps datagram_step: "registry_step (Socket_Ready d) r r'"

text \<open>The registry keeps one name per object and one list entry per callback.\<close>

definition one_name :: "('k \<rightharpoonup> 'v) \<Rightarrow> bool" where
  "one_name m \<longleftrightarrow> (\<forall>j k x. m j = Some x \<and> m k = Some x \<longrightarrow> j = k)"

definition registry_ok :: "registry \<Rightarrow> bool" where
  "registry_ok r \<longleftrightarrow> one_name (reg_clients r) \<and> one_name (reg_aps r) \<and>
     ran (reg_clients r) \<inter> ran (reg_aps r) = {} \<and> distinct (reg_listeners r) \<and> distinct (reg_country_listeners r)"

lemma one_name_update: "one_name m \<Longrightarrow> i \<notin> ran m \<Longrightarrow> one_name (m(k \<mapsto> i))"
  by (auto simp: one_name_def ran_def)

lemma one_name_remove: "one_name m \<Longrightarrow> one_name (m(k := None))"
  by (simp add: one_name_def)

lemma ran_update: "ran (m(k \<mapsto> i)) \<subseteq> insert i (ran m)" "ran (m(k := None)) \<subseteq> ran m"
  by (auto simp: ran_def split: if_splits)

lemma distinct_subscribe: "distinct cbs \<Longrightarrow> distinct (subscribe cb cbs)"
  by (simp add: subscribe_def)

lemma registry_step_ok: "registry_step q r r' \<Longrightarrow> registry_ok r \<Longrightarrow> registry_ok r'"
proof (induction rule: registry_step.induct)
  case (client_created r i name)
  then show ?case using ran_update(1) [of "reg_clients r" name i] by (auto simp: registry_ok_def unused_def one_name_update)
next
  case (ap_created r i name)
  then show ?case using ran_update(1) [of "reg_aps r" name i] by (auto simp: registry_ok_def unused_def one_name_update)
next
  case (client_gone name r)
  then show ?case using ran_update(2) [of "reg_clients r" name] by (auto simp: registry_ok_def one_name_remove)
next
  case (ap_gone name r)
  then show ?case using ran_update(2) [of "reg_aps r" name] by (auto simp: registry_ok_def one_name_remove)
qed (auto simp: registry_ok_def distinct_subscribe one_name_def)

section \<open>The abstraction\<close>

definition registry_of :: "'a srv_scheme \<Rightarrow> registry" where
  "registry_of s =
     \<lparr>reg_clients = map_find (client_interfaces s), reg_aps = map_find (ap_interfaces s),
      reg_listeners = interface_event_callbacks s, reg_country_listeners = wificond_event_callbacks s\<rparr>"

lemma registry_of_simps [simp]:
  "reg_clients (registry_of s) = map_find (client_interfaces s)" "reg_aps (registry_of s) = map_find (ap_interfaces s)"
  "reg_listeners (registry_of s) = interface_event_callbacks s"
  "reg_country_listeners (registry_of s) = wificond_event_callbacks s"
  by (simp_all add: registry_of_def)

lemma same_registry: "same_objects s s' \<Longrightarrow> registry_of s' = registry_of s"
  by (simp add: same_objects_def registry_of_def)

lemma SetupInterface_registry:
  assumes "SetupInterface (dispatch n) name s = Inr (r, s')"
  shows "registry_of s' = registry_of s"
  using assms
  by (auto simp: SetupInterface_def Let_def elim!: and_then_InrE split: option.splits if_splits
      dest!: objects.GetWiphyIndex_R objects.GetInterfaces_R same_registry)
    (simp_all add: registry_of_def SubscribeRegDomainChange_def)

lemma constructors_registry:
  "ClientInterfaceImpl (dispatch n) w name idx mac s = Inr (i, s') \<Longrightarrow> registry_of s' = registry_of s"
  "ApInterfaceImpl name idx s = (j, s'') \<Longrightarrow> registry_of s'' = registry_of s"
proof -
  assume "ClientInterfaceImpl (dispatch n) w name idx mac s = Inr (i, s')"
  from ClientInterfaceImpl_same [OF this] obtain c s2 s3 caps features r where
    "s2 = SubscribeChannelSwitchEvent idx i (SubscribeFrameTxStatusEvent idx i (SubscribeMlmeEvent idx i
       (s\<lparr>next_obj := i + 1, clients := map_set i c (clients s),
          client_binders := map_set i \<lparr>client_impl = Some i\<rparr> (client_binders s)\<rparr>)))"
    "same_objects s2 s3" "s' = call_remote r (ScannerImpl i idx caps features s3)"
    by metis
  with same_registry [of s2 s3] show "registry_of s' = registry_of s"
    by (simp add: registry_of_def ScannerImpl_def Let_def call_remote_def SubscribeChannelSwitchEvent_def
        SubscribeFrameTxStatusEvent_def SubscribeMlmeEvent_def SubscribeScanResultNotification_def
        SubscribeSchedScanResultNotification_def)
next
  assume "ApInterfaceImpl name idx s = (j, s'')"
  then show "registry_of s'' = registry_of s"
    by (auto simp: registry_of_def ApInterfaceImpl_def Let_def SubscribeChannelSwitchEvent_def SubscribeStationEvent_def)
qed

lemma destructors_registry:
  "delete_ClientInterfaceImpl i s = Inr s' \<Longrightarrow> registry_of s' = registry_of s"
  "delete_ApInterfaceImpl i s = Inr s' \<Longrightarrow> registry_of s' = registry_of s"
  by (auto simp: registry_of_def delete_client_defs delete_ApInterfaceImpl_def the_ap_def the_ap_binder_def
      UnsubscribeStationEvent_def elim!: and_then_InrE split: option.splits)

lemma note_wiphy_registry: "note_wiphy (dispatch n) name w s = Inr s' \<Longrightarrow> registry_of s' = registry_of s"
proof (erule note_wiphy_effect)
  fix t
  assume "same_objects s t" "s' = t\<lparr>iface_to_wiphy_index_map := map_set name w (iface_to_wiphy_index_map t)\<rparr>"
  with same_registry [of s t] show "registry_of s' = registry_of s" by (simp add: registry_of_def)
qed

lemma forget_wiphy_registry: "registry_of (forget_wiphy name s) = registry_of s"
  by (simp add: registry_of_def forget_wiphy_def EraseBandWiphyIndexMap_def Let_def split: option.split)

section \<open>The administrative requests\<close>

lemma fresh_unused: "objects_ok s \<Longrightarrow> unused (registry_of s) (next_obj s)"
  using owned_fresh(1) [of s "snd ` set (client_interfaces s)" "snd ` set (ap_interfaces s)"]
  by (auto simp: objects_ok_def unused_def ran_def dest!: map_of_SomeD) (force+)

lemma store_client_registry:
  assumes "(case map_find (client_interfaces s) name of
        None \<Rightarrow> Inr (s\<lparr>client_interfaces := map_set name i (client_interfaces s)\<rparr>)
      | Some j \<Rightarrow> delete_ClientInterfaceImpl j (s\<lparr>client_interfaces := map_set name i (client_interfaces s)\<rparr>)) = Inr s'"
  shows "registry_of s' = registry_of s\<lparr>reg_clients := (map_find (client_interfaces s))(name \<mapsto> i)\<rparr>"
  using assms by (auto split: option.splits dest!: destructors_registry(1)) (simp_all add: registry_of_def fun_eq_iff)

lemma store_ap_registry:
  assumes "(case map_find (ap_interfaces s) name of
        None \<Rightarrow> Inr (s\<lparr>ap_interfaces := map_set name i (ap_interfaces s)\<rparr>)
      | Some j \<Rightarrow> delete_ApInterfaceImpl j (s\<lparr>ap_interfaces := map_set name i (ap_interfaces s)\<rparr>)) = Inr s'"
  shows "registry_of s' = registry_of s\<lparr>reg_aps := (map_find (ap_interfaces s))(name \<mapsto> i)\<rparr>"
  using assms by (auto split: option.splits dest!: destructors_registry(2)) (simp_all add: registry_of_def fun_eq_iff)

lemma createClientInterface_step:
  assumes "createClientInterface (dispatch n) name s = Inr (r, s')" "objects_ok s"
  shows "registry_step (Do_createClientInterface name) (registry_of s) (registry_of s')"
proof (cases r)
  case None
  with assms(1) have "registry_of s' = registry_of s"
    by (auto simp: createClientInterface_def Let_def elim!: and_then_InrE split: option.splits prod.splits
        dest: SetupInterface_registry)
  then show ?thesis by (simp add: registry_step.client_refused)
next
  case (Some i)
  with assms(1) have "createClientInterface (dispatch n) name s = Inr (Some i, s')" by simp
  then obtain iface w s1 s2 s5 where prep: "SetupInterface (dispatch n) name s = Inr (Some (iface, w), s1)"
    and new: "ClientInterfaceImpl (dispatch n) w (info_name iface) (info_if_index iface) (info_mac_address iface) s1 = Inr (i, s2)"
    and store: "(case map_find (client_interfaces (BroadcastClientInterfaceReady i s2)) name of
        None \<Rightarrow> Inr ((BroadcastClientInterfaceReady i s2)\<lparr>client_interfaces := map_set name i (client_interfaces (BroadcastClientInterfaceReady i s2))\<rparr>)
      | Some j \<Rightarrow> delete_ClientInterfaceImpl j
          ((BroadcastClientInterfaceReady i s2)\<lparr>client_interfaces := map_set name i (client_interfaces (BroadcastClientInterfaceReady i s2))\<rparr>)) = Inr s5"
    and rest: "note_wiphy (dispatch n) name w s5 = Inr s'"
    by (rule createClientInterface_SomeE)
  have ok1: "objects_ok s1" using SetupInterface_ok [OF prep assms(2)] .
  have "i = next_obj s1" using ClientInterfaceImpl_owned(2) [OF new conjunct2 [OF ok1 [unfolded objects_ok_def]]] .
  then have fresh: "unused (registry_of s) i"
    using fresh_unused [OF ok1] SetupInterface_registry [OF prep] by simp
  have before: "registry_of (BroadcastClientInterfaceReady i s2) = registry_of s"
    using same_registry [OF broadcasts_same(1)] constructors_registry(1) [OF new] SetupInterface_registry [OF prep] by metis
  then have "map_find (client_interfaces (BroadcastClientInterfaceReady i s2)) = map_find (client_interfaces s)"
    by (metis registry_of_simps(1))
  with before store_client_registry [OF store] note_wiphy_registry [OF rest]
  have "registry_of s' = registry_of s\<lparr>reg_clients := (reg_clients (registry_of s))(name \<mapsto> i)\<rparr>" by simp
  with registry_step.client_created [OF fresh, of name] show ?thesis by simp
qed

lemma createApInterface_step:
  assumes "createApInterface (dispatch n) name s = Inr (r, s')" "objects_ok s"
  shows "registry_step (Do_createApInterface name) (registry_of s) (registry_of s')"
proof (cases r)
  case None
  with assms(1) have "registry_of s' = registry_of s"
    by (auto simp: createApInterface_def Let_def elim!: and_then_InrE split: option.splits prod.splits
        dest: SetupInterface_registry)
  then show ?thesis by (simp add: registry_step.ap_refused)
next
  case (Some i)
  with assms(1) have "createApInterface (dispatch n) name s = Inr (Some i, s')" by simp
  then obtain iface w s1 s2 s5 where prep: "SetupInterface (dispatch n) name s = Inr (Some (iface, w), s1)"
    and new: "ApInterfaceImpl (info_name iface) (info_if_index iface) s1 = (i, s2)"
    and store: "(case map_find (ap_interfaces (BroadcastApInterfaceReady i s2)) name of
        None \<Rightarrow> Inr ((BroadcastApInterfaceReady i s2)\<lparr>ap_interfaces := map_set name i (ap_interfaces (BroadcastApInterfaceReady i s2))\<rparr>)
      | Some j \<Rightarrow> delete_ApInterfaceImpl j
          ((BroadcastApInterfaceReady i s2)\<lparr>ap_interfaces := map_set name i (ap_interfaces (BroadcastApInterfaceReady i s2))\<rparr>)) = Inr s5"
    and rest: "note_wiphy (dispatch n) name w s5 = Inr s'"
    by (rule createApInterface_SomeE)
  have ok1: "objects_ok s1" using SetupInterface_ok [OF prep assms(2)] .
  have "i = next_obj s1" using ApInterfaceImpl_owned(2) [OF new conjunct2 [OF ok1 [unfolded objects_ok_def]]] .
  then have fresh: "unused (registry_of s) i"
    using fresh_unused [OF ok1] SetupInterface_registry [OF prep] by simp
  have before: "registry_of (BroadcastApInterfaceReady i s2) = registry_of s"
    using same_registry [OF broadcasts_same(2)] constructors_registry(2) [OF new] SetupInterface_registry [OF prep] by metis
  then have "map_find (ap_interfaces (BroadcastApInterfaceReady i s2)) = map_find (ap_interfaces s)"
    by (metis registry_of_simps(2))
  with before store_ap_registry [OF store] note_wiphy_registry [OF rest]
  have "registry_of s' = registry_of s\<lparr>reg_aps := (reg_aps (registry_of s))(name \<mapsto> i)\<rparr>" by simp
  with registry_step.ap_created [OF fresh, of name] show ?thesis by simp
qed

lemma tearDownClientInterface_registry:
  assumes "tearDownClientInterface name s = Inr (b, s')"
  shows "registry_of s' = registry_of s\<lparr>reg_clients := (reg_clients (registry_of s))(name := None)\<rparr>"
proof (cases "map_find (client_interfaces s) name")
  case None
  then have "(map_find (client_interfaces s))(name := None) = map_find (client_interfaces s)" by (simp add: fun_upd_idem)
  with None assms show ?thesis by (auto simp: tearDownClientInterface_def forget_wiphy_registry)
next
  case (Some i)
  with assms obtain v where "delete_ClientInterfaceImpl i ((BroadcastClientInterfaceTornDown i s)
      \<lparr>client_interfaces := map_erase name (client_interfaces (BroadcastClientInterfaceTornDown i s))\<rparr>) = Inr v" "s' = forget_wiphy name v"
    by (auto simp: tearDownClientInterface_def Let_def elim!: and_then_InrE)
  moreover have "registry_of ((BroadcastClientInterfaceTornDown i s)
      \<lparr>client_interfaces := map_erase name (client_interfaces (BroadcastClientInterfaceTornDown i s))\<rparr>) =
      registry_of s\<lparr>reg_clients := (reg_clients (registry_of s))(name := None)\<rparr>"
    using broadcasts_same(3) [of s i] by (simp add: registry_of_def same_objects_def fun_eq_iff)
  ultimately show ?thesis using destructors_registry(1) forget_wiphy_registry by metis
qed

lemma tearDownApInterface_registry:
  assumes "tearDownApInterface name s = Inr (b, s')"
  shows "registry_of s' = registry_of s\<lparr>reg_aps := (reg_aps (registry_of s))(name := None)\<rparr>"
proof (cases "map_find (ap_interfaces s) name")
  case None
  then have "(map_find (ap_interfaces s))(name := None) = map_find (ap_interfaces s)" by (simp add: fun_upd_idem)
  with None assms show ?thesis by (auto simp: tearDownApInterface_def forget_wiphy_registry)
next
  case (Some i)
  with assms obtain v where "delete_ApInterfaceImpl i ((BroadcastApInterfaceTornDown i s)
      \<lparr>ap_interfaces := map_erase name (ap_interfaces (BroadcastApInterfaceTornDown i s))\<rparr>) = Inr v" "s' = forget_wiphy name v"
    by (auto simp: tearDownApInterface_def Let_def elim!: and_then_InrE)
  moreover have "registry_of ((BroadcastApInterfaceTornDown i s)
      \<lparr>ap_interfaces := map_erase name (ap_interfaces (BroadcastApInterfaceTornDown i s))\<rparr>) =
      registry_of s\<lparr>reg_aps := (reg_aps (registry_of s))(name := None)\<rparr>"
    using broadcasts_same(4) [of s i] by (simp add: registry_of_def same_objects_def fun_eq_iff)
  ultimately show ?thesis using destructors_registry(2) forget_wiphy_registry by metis
qed

lemma tearDownInterfaces_callbacks:
  assumes "tearDownInterfaces s = Inr s'"
  shows "interface_event_callbacks s' = interface_event_callbacks s" "wificond_event_callbacks s' = wificond_event_callbacks s"
proof -
  have listeners: "interface_event_callbacks t = interface_event_callbacks u \<and> wificond_event_callbacks t = wificond_event_callbacks u"
    if "registry_of t = registry_of u" for t u :: "'a srv_scheme"
    using that by (metis registry_of_simps(3,4))
  have clients: "registry_of t' = registry_of t" if "delete_clients its t = Inr t'" for its and t t' :: "'a srv_scheme"
    using that by (induction its arbitrary: t) (auto elim!: and_then_InrE dest!: destructors_registry(1))
  have aps: "registry_of t' = registry_of t" if "delete_aps its t = Inr t'" for its and t t' :: "'a srv_scheme"
    using that by (induction its arbitrary: t) (auto elim!: and_then_InrE dest!: destructors_registry(2))
  have bcast: "same_objects t (fold (\<lambda>it. BroadcastClientInterfaceTornDown (snd it)) its t)"
    "same_objects t (fold (\<lambda>it. BroadcastApInterfaceTornDown (snd it)) its t)"
    "same_objects t (MarkDownAllInterfaces t)" for its :: "(bytes \<times> obj) list" and t :: "'a srv_scheme"
    by (intro fold_same broadcasts_same)+ (simp add: MarkDownAllInterfaces_def fold_remote_same)
  have wiphys: "registry_of (fold (\<lambda>it s. EraseBandWiphyIndexMap (snd it) (UnsubscribeRegDomainChange (snd it) s)) its t) = registry_of t"
    for its :: "(bytes \<times> u32) list" and t :: "'a srv_scheme"
    by (induction its arbitrary: t) (simp_all add: registry_of_def EraseBandWiphyIndexMap_def UnsubscribeRegDomainChange_def Let_def)
  show "interface_event_callbacks s' = interface_event_callbacks s" "wificond_event_callbacks s' = wificond_event_callbacks s"
    using assms
    by (auto simp: tearDownInterfaces_def Let_def listeners [OF wiphys] listeners [OF same_registry [OF bcast(1)]]
        listeners [OF same_registry [OF bcast(2)]] listeners [OF same_registry [OF bcast(3)]] elim!: and_then_InrE
        dest!: clients [THEN listeners] aps [THEN listeners])
qed

lemma tearDownInterfaces_registry:
  assumes "tearDownInterfaces s = Inr s'" "objects_ok s"
  shows "registry_of s' = registry_of s\<lparr>reg_clients := Map.empty, reg_aps := Map.empty\<rparr>"
  using tearDownInterfaces_callbacks [OF assms(1)] tearDownInterfaces_ok(2,3) [OF assms]
  by (simp add: registry_of_def)

lemma callback_registry:
  "registry_of (RegisterCallback cb s) = registry_of s\<lparr>reg_listeners := subscribe cb (reg_listeners (registry_of s))\<rparr>"
  "registry_of (UnregisterCallback cb s) = registry_of s\<lparr>reg_listeners := remove1 cb (reg_listeners (registry_of s))\<rparr>"
  "registry_of (registerWificondEventCallback cb s) =
     registry_of s\<lparr>reg_country_listeners := subscribe cb (reg_country_listeners (registry_of s))\<rparr>"
  "registry_of (unregisterWificondEventCallback cb s) =
     registry_of s\<lparr>reg_country_listeners := remove1 cb (reg_country_listeners (registry_of s))\<rparr>"
  by (simp_all add: registry_of_def callback_defs subscribe_def)

section \<open>Every request is a step\<close>

lemma registerCallback_registry: "registerCallback b cb s = Inr (r, s') \<Longrightarrow> registry_of s' = registry_of s"
  by (auto simp: registerCallback_def registry_of_def elim!: and_then_InrE)

lemma perform_registry:
  assumes "perform n q (s :: 'a srv_scheme) = Inr s'" "objects_ok s"
  shows "registry_step q (registry_of s) (registry_of s')"
proof (cases "administrative q")
  case False
  then have "registry_of s' = registry_of s"
    using assms(1)
    by (cases q) (auto simp: channel_queries elim!: ending_InrE query_InrE dest!: stateful_R same_registry registerCallback_registry)
  with registry_step.unchanged [OF False] show ?thesis by simp
next
  case True
  note steps = registry_step.client_gone registry_step.ap_gone registry_step.all_gone registry_step.listening_starts
    registry_step.listening_ends registry_step.country_starts registry_step.country_ends
  from True show ?thesis
    using assms
    by (cases q)
      (auto elim!: ending_InrE createClientInterface_step createApInterface_step
        simp: tearDownClientInterface_registry tearDownApInterface_registry tearDownInterfaces_registry
          callback_registry steps [where r = "registry_of s", simplified])
qed

lemma environment_registry: "registry_of (environment es t names scan_mem client_mem info_mem s) = registry_of s"
  by (simp add: registry_of_def environment_def)

lemma reachable_registry_ok: "reachable n s \<Longrightarrow> registry_ok (registry_of s)"
proof (induction rule: reachable.induct)
  case (reachable_start env env2 env3 script interceptor pid names scan_mem client_mem info_mem s)
  from same_registry [OF start_service_same [OF reachable_start]] show ?case
    by (simp add: registry_ok_def one_name_def registry_of_def Server_def)
next
  case (reachable_request s r s')
  from registry_step_ok [OF perform_registry [OF reachable_request(2) reachable_ok [OF reachable_request(1)]]] reachable_request(3)
  show ?case by simp
qed (simp add: environment_registry)

lemma ordered_ran: "ordered m \<Longrightarrow> ran (map_find m) = snd ` set m"
  by (rule ran_distinct) (auto simp: ordered_def strict_sorted_iff)

section \<open>Properties\<close>

text \<open>
  C3. The server implements the registry. In every state that the program can reach, no object has
  two names and no callback is registered twice; every request, with whatever the kernel answers and
  all notifications that are handled meanwhile, is a step of the registry: a creation enters an
  object that no name had or changes nothing, a teardown removes exactly its name, and only
  administrative requests change anything. The lists of interfaces that clients are given are those
  of the registry.
\<close>

theorem server_refines_registry:
  assumes "reachable n s"
  shows "registry_ok (registry_of s) \<and>
    (\<forall>q s'. perform n q s = Inr s' \<longrightarrow> registry_step q (registry_of s) (registry_of s')) \<and>
    set (GetClientInterfaces s) = ran (reg_clients (registry_of s)) \<and>
    set (GetApInterfaces s) = ran (reg_aps (registry_of s))"
proof -
  have ok: "objects_ok s" by (rule reachable_ok [OF assms])
  then have "ordered (client_interfaces s)" "ordered (ap_interfaces s)" by (simp_all add: objects_ok_def named_def)
  then show ?thesis
    using reachable_registry_ok [OF assms] perform_registry [OF _ ok]
    by (simp add: GetClientInterfaces_def GetApInterfaces_def ordered_ran)
qed

theorem server_refines_registry_witness:
  "\<exists>s i s'. reachable 3 s \<and> i \<in> set (GetClientInterfaces s) \<and> perform 3 (Do_RegisterCallback 9) s = Inr s' \<and>
     registry_step (Do_RegisterCallback 9) (registry_of s) (registry_of s') \<and> registry_ok (registry_of s)"
proof -
  obtain s i where s: "reachable 3 s" "map_find (client_interfaces s) (ascii ''wlan0'') = Some i" using reachable_wlan0 by blast
  then have "i \<in> ran (reg_clients (registry_of s))" by (simp add: ranI)
  moreover have "perform 3 (Do_RegisterCallback 9) s = Inr (RegisterCallback 9 s)" by simp
  ultimately show ?thesis using server_refines_registry [OF s(1)] s(1) by blast
qed

end
