(* ===== verification/Dump_Properties.thy ===== *)
theory Dump_Properties
  imports Object_Safety Server_Properties "HOL-Library.Sublist"
begin

text \<open>
  The report of the state: who gets it, that it reports every interface there is, and that its
  numbers can be read back.
\<close>

section \<open>Numbers\<close>

definition read_decimal :: "bytes \<Rightarrow> nat" where
  "read_decimal = foldl (\<lambda>n d. 10 * n + (unat d - 48)) 0"

lemma unat_digit: "d < 10 \<Longrightarrow> unat (of_nat (48 + d) :: u8) = 48 + d"
  by (simp only: unsigned_of_nat) (simp add: take_bit_nat_eq_self)

lemma read_decimal: "read_decimal (decimal n) = n"
proof (induction n rule: decimal.induct)
  case (1 n)
  show ?case
  proof (cases "n < 10")
    case True
    then show ?thesis by (subst decimal.simps) (simp add: read_decimal_def unat_digit [of n, simplified])
  next
    case False
    then have "read_decimal (decimal n) = 10 * read_decimal (decimal (n div 10)) + n mod 10"
      by (subst decimal.simps) (simp add: read_decimal_def unat_digit [of "n mod 10", simplified])
    then show ?thesis using 1 [OF False] by simp
  qed
qed

lemma decimal_digits: "d \<in> set (decimal n) \<Longrightarrow> 48 \<le> unat d \<and> unat d < 58"
proof (induction n rule: decimal.induct)
  case (1 n)
  then show ?case
    using unat_digit [of n] unat_digit [of "n mod 10"]
    by (subst (asm) decimal.simps) (auto split: if_splits)
qed

section \<open>The report\<close>

lemma sublist_concat: "x \<in> set xs \<Longrightarrow> sublist (f x) (concat (map f xs))"
  by (metis split_list map_append concat_append list.map(2) concat.simps(2) sublist_appendI)

lemma sublist_append_right: "sublist a b \<Longrightarrow> sublist a (b @ c)"
  by (metis sublist_order.order_trans sublist_append_rightI)

lemma sublist_append_left: "sublist a c \<Longrightarrow> sublist a (b @ c)"
  by (metis sublist_order.order_trans sublist_append_leftI)

text \<open>
  C39. \<open>dump\<close> gives a process without the permission nothing, and asks the kernel nothing for it.
  Otherwise it never fails on an interface that is gone: once the kernel has said the country code or
  failed to, the text has the entry of every cached answer, of every client interface and of every
  access point interface, with the state it has at that time, and the answer is passed to the
  caller as written or not; no object has changed.
\<close>

theorem dump_reports_state:
  assumes "objects_ok (s :: 'a srv_scheme)"
  shows "dump (dispatch n) False write_ok s = Inr ((PERMISSION_DENIED, None), s) \<and>
    (\<forall>code s1. GetCountryCode (dispatch n) s = Inr (code, s1) \<longrightarrow> same_objects s s1 \<and>
      (\<exists>text. dump (dispatch n) True write_ok s = Inr ((if write_ok then 0 else FAILED_TRANSACTION, Some text), s1) \<and>
        (\<forall>iface \<in> set (debug_interfaces s). sublist (dump_interface iface) text) \<and>
        sublist (case code of Some c \<Rightarrow> line ''Current country code from kernel: '' c
          | None \<Rightarrow> line ''Failed to get country code from kernel.'' []) text \<and>
        (\<forall>i \<in> set (GetClientInterfaces s). sublist (Client_Dump (the (map_find (clients s1) i))) text) \<and>
        (\<forall>i \<in> set (GetApInterfaces s). sublist (Ap_Dump (the (map_find (aps s1) i))) text) \<and>
        (\<forall>it \<in> set (band_to_wiphy_index_map s1). sublist (dump_band it) text)))"
proof (intro conjI allI impI)
  show "dump (dispatch n) False write_ok s = Inr ((PERMISSION_DENIED, None), s)" by (simp add: dump_def)
next
  fix code s1
  assume code: "GetCountryCode (dispatch n) s = Inr (code, s1)"
  then show "same_objects s s1" by (rule objects.GetCountryCode_R)
  let ?infos = "concat (map dump_interface (debug_interfaces s))"
  let ?clients = "concat (map (\<lambda>p. Client_Dump (the (map_find (clients s1) (snd p)))) (client_interfaces s))"
  let ?aps = "concat (map (\<lambda>p. Ap_Dump (the (map_find (aps s1) (snd p)))) (ap_interfaces s))"
  let ?bands = "concat (map dump_band (band_to_wiphy_index_map s1))"
  have entries: "iface \<in> set (debug_interfaces s) \<Longrightarrow> sublist (dump_interface iface) ?infos"
    "it \<in> set (band_to_wiphy_index_map s1) \<Longrightarrow> sublist (dump_band it) ?bands"
    "i \<in> set (GetClientInterfaces s) \<Longrightarrow> sublist (Client_Dump (the (map_find (clients s1) i))) ?clients"
    "i \<in> set (GetApInterfaces s) \<Longrightarrow> sublist (Ap_Dump (the (map_find (aps s1) i))) ?aps" for iface it i
    by (auto simp: GetClientInterfaces_def GetApInterfaces_def sublist_concat
        dest: sublist_concat [where f = "\<lambda>p. Client_Dump (the (map_find (clients s1) (snd p)))"]
          sublist_concat [where f = "\<lambda>p. Ap_Dump (the (map_find (aps s1) (snd p)))"])
  show "\<exists>text. dump (dispatch n) True write_ok s = Inr ((if write_ok then 0 else FAILED_TRANSACTION, Some text), s1) \<and>
        (\<forall>iface \<in> set (debug_interfaces s). sublist (dump_interface iface) text) \<and>
        sublist (case code of Some c \<Rightarrow> line ''Current country code from kernel: '' c
          | None \<Rightarrow> line ''Failed to get country code from kernel.'' []) text \<and>
        (\<forall>i \<in> set (GetClientInterfaces s). sublist (Client_Dump (the (map_find (clients s1) i))) text) \<and>
        (\<forall>i \<in> set (GetApInterfaces s). sublist (Ap_Dump (the (map_find (aps s1) i))) text) \<and>
        (\<forall>it \<in> set (band_to_wiphy_index_map s1). sublist (dump_band it) text)"
    using dump_runs [OF assms code, of write_ok]
    by (intro exI conjI ballI, assumption) (intro sublist_append_left entries sublist_append_right | simp)+
qed

theorem dump_reports_state_witness:
  "\<exists>text s1. dump (dispatch 3) True True (running_server []) = Inr ((0, Some text), s1) \<and>
     sublist (line ''Failed to get country code from kernel.'' []) text \<and>
     sublist (Ap_Dump \<lparr>ap_interface_name = [97], ap_interface_index = 6\<rparr>) text"
proof -
  let ?s = "running_server []"
  have known: "knows_family 28 ?s" "silent ?s" by (simp_all add: example_defs knows_family_def silent_def)
  have none: "GetCountryCode (dispatch 3) ?s = Inr (None, ?s\<lparr>sequence_number := fst (GetSequenceNumber ?s)\<rparr>)"
    using known by (simp add: GetCountryCode_def new_request_known silent_single silent_def)
  have "2 \<in> set (GetApInterfaces ?s)" "the (map_find (aps ?s) 2) = \<lparr>ap_interface_name = [97], ap_interface_index = 6\<rparr>"
    by (simp_all add: GetApInterfaces_def running_server_def)
  with dump_reports_state [OF running_server_ok, of 3 True "[]"] none show ?thesis by force
qed

end
