(* ===== verification/Wiphy_Queries.thy ===== *)
theory Wiphy_Queries
  imports Server_Properties
begin

text \<open>
  The queries that end in a wiphy dump, from the request of a process to the answer it gets: what
  the kernel says of the bands of a radio in any number of pieces is reassembled, parsed, sorted
  into channel lists and stream counts, and returned by \<open>getAvailable2gChannels\<close> and its
  siblings and by \<open>getDeviceWiphyCapabilities\<close>.
\<close>

section \<open>What the kernel says of a band\<close>

text \<open>
  The channels of a band; for HT the capability word and the MCS set; for VHT the same; for HE the
  PHY capabilities and the MCS set; for EHT the PHY capabilities.
\<close>

record band_report =
  band_channels :: "channel list"
  band_ht :: "(u16 \<times> bytes) option"
  band_vht :: "(u32 \<times> bytes) option"
  band_he :: "(bytes \<times> bytes) option"
  band_eht :: "bytes option"

definition band_report_ok :: "band_report \<Rightarrow> bool" where
  "band_report_ok r \<longleftrightarrow> length (band_channels r) < 1000 \<and>
     (case band_ht r of None \<Rightarrow> True | Some (_, mcs) \<Rightarrow> length mcs = 16) \<and>
     (case band_vht r of None \<Rightarrow> True | Some (_, mcs) \<Rightarrow> length mcs = 8) \<and>
     (case band_he r of None \<Rightarrow> True | Some (phy, mcs) \<Rightarrow>
        9 \<le> length phy \<and> length phy \<le> 20 \<and> 4 \<le> length mcs \<and> length mcs \<le> 20) \<and>
     (case band_eht r of None \<Rightarrow> True | Some phy \<Rightarrow> 8 \<le> length phy \<and> length phy \<le> 20)"

definition frequency_table :: "channel list \<Rightarrow> attr" where
  "frequency_table cs = nested_attr NL80211_BAND_ATTR_FREQS (map (\<lambda>(i, c). freq_attr i c) (indexed cs))"

definition iftype_attrs :: "band_report \<Rightarrow> attr list" where
  "iftype_attrs r =
     (case band_he r of None \<Rightarrow> [] | Some (phy, mcs) \<Rightarrow>
        [make_attr vector_class NL80211_BAND_IFTYPE_ATTR_HE_CAP_PHY phy,
         make_attr vector_class NL80211_BAND_IFTYPE_ATTR_HE_CAP_MCS_SET mcs]) @
     (case band_eht r of None \<Rightarrow> [] | Some phy \<Rightarrow>
        [make_attr vector_class NL80211_BAND_IFTYPE_ATTR_EHT_CAP_PHY phy])"

definition capability_attrs :: "band_report \<Rightarrow> attr list" where
  "capability_attrs r =
     (case band_ht r of None \<Rightarrow> [] | Some (capa, mcs) \<Rightarrow>
        [make_attr vector_class NL80211_BAND_ATTR_HT_MCS_SET mcs, make_attr word_class NL80211_BAND_ATTR_HT_CAPA capa]) @
     (case band_vht r of None \<Rightarrow> [] | Some (capa, mcs) \<Rightarrow>
        [make_attr vector_class NL80211_BAND_ATTR_VHT_MCS_SET mcs, make_attr word_class NL80211_BAND_ATTR_VHT_CAPA capa]) @
     (if band_he r = None \<and> band_eht r = None then []
      else [nested_attr NL80211_BAND_ATTR_IFTYPE_DATA [nested_attr 1 (iftype_attrs r)]])"

definition band_attrs :: "band_report \<Rightarrow> attr list" where
  "band_attrs r = capability_attrs r @ [frequency_table (band_channels r)]"

text \<open>What it means: the streams of each standard, the wide channels, and the channel lists.\<close>

definition rx_ht_vht :: "band_report \<Rightarrow> nat list" where
  "rx_ht_vht r =
     (case band_ht r of None \<Rightarrow> [] | Some (_, mcs) \<Rightarrow> [snd (ParseHtMcsSet mcs)]) @
     (case band_vht r of None \<Rightarrow> [] | Some (_, mcs) \<Rightarrow> [ParseMcsMap (two_bytes (mcs ! 1) (mcs ! 0))])"

definition rx_he :: "band_report \<Rightarrow> nat list" where
  "rx_he r =
     (case band_he r of None \<Rightarrow> [] | Some (_, mcs) \<Rightarrow> [ParseMcsMap (two_bytes (mcs ! 1) (mcs ! 0))])"

definition tx_ht_vht :: "band_report \<Rightarrow> nat list" where
  "tx_ht_vht r =
     (case band_ht r of None \<Rightarrow> [] | Some (_, mcs) \<Rightarrow> [fst (ParseHtMcsSet mcs)]) @
     (case band_vht r of None \<Rightarrow> [] | Some (_, mcs) \<Rightarrow> [ParseMcsMap (two_bytes (mcs ! 5) (mcs ! 4))])"

definition tx_he :: "band_report \<Rightarrow> nat list" where
  "tx_he r =
     (case band_he r of None \<Rightarrow> [] | Some (_, mcs) \<Rightarrow> [ParseMcsMap (two_bytes (mcs ! 3) (mcs ! 2))])"

definition vht_announces :: "nat \<Rightarrow> band_report \<Rightarrow> bool" where
  "vht_announces i r \<longleftrightarrow> (case band_vht r of None \<Rightarrow> False | Some (capa, _) \<Rightarrow> bit capa i)"

definition he_announces :: "nat \<Rightarrow> band_report \<Rightarrow> bool" where
  "he_announces i r \<longleftrightarrow> (case band_he r of None \<Rightarrow> False | Some (phy, _) \<Rightarrow> bit (phy ! 0) i)"

definition eht_announces :: "nat \<Rightarrow> band_report \<Rightarrow> bool" where
  "eht_announces i r \<longleftrightarrow> (case band_eht r of None \<Rightarrow> False | Some phy \<Rightarrow> bit (phy ! 0) i)"

definition with_band :: "band_report \<Rightarrow> band_info \<Rightarrow> band_info" where
  "with_band r b =
     (fold sort_channel (band_channels r) b)
       \<lparr>is_80211n_supported := is_80211n_supported b \<or> band_ht r \<noteq> None,
        is_80211ac_supported := is_80211ac_supported b \<or> band_vht r \<noteq> None,
        is_80211ax_supported := is_80211ax_supported b \<or> band_he r \<noteq> None,
        is_80211be_supported := is_80211be_supported b \<or> band_eht r \<noteq> None,
        is_160_mhz_supported := is_160_mhz_supported b \<or> he_announces 3 r \<or> vht_announces 2 r,
        is_80p80_mhz_supported := is_80p80_mhz_supported b \<or> he_announces 4 r \<or> vht_announces 3 r,
        is_320_mhz_supported := is_320_mhz_supported b \<or> eht_announces 1 r,
        max_tx_streams := foldl max (max_tx_streams b) (tx_he r @ tx_ht_vht r),
        max_rx_streams := foldl max (max_rx_streams b) (rx_he r @ rx_ht_vht r)\<rparr>"

section \<open>A band is parsed to what it means\<close>

lemma sort_channel_keeps:
  "is_80211n_supported (sort_channel c b) = is_80211n_supported b"
  "is_80211ac_supported (sort_channel c b) = is_80211ac_supported b"
  "is_80211ax_supported (sort_channel c b) = is_80211ax_supported b"
  "is_80211be_supported (sort_channel c b) = is_80211be_supported b"
  "is_160_mhz_supported (sort_channel c b) = is_160_mhz_supported b"
  "is_80p80_mhz_supported (sort_channel c b) = is_80p80_mhz_supported b"
  "is_320_mhz_supported (sort_channel c b) = is_320_mhz_supported b"
  "max_tx_streams (sort_channel c b) = max_tx_streams b"
  "max_rx_streams (sort_channel c b) = max_rx_streams b"
  by (simp_all add: sort_channel_def Let_def)

lemma sort_channels_keep [simp]:
  "is_80211n_supported (fold sort_channel cs b) = is_80211n_supported b"
  "is_80211ac_supported (fold sort_channel cs b) = is_80211ac_supported b"
  "is_80211ax_supported (fold sort_channel cs b) = is_80211ax_supported b"
  "is_80211be_supported (fold sort_channel cs b) = is_80211be_supported b"
  "is_160_mhz_supported (fold sort_channel cs b) = is_160_mhz_supported b"
  "is_80p80_mhz_supported (fold sort_channel cs b) = is_80p80_mhz_supported b"
  "is_320_mhz_supported (fold sort_channel cs b) = is_320_mhz_supported b"
  "max_tx_streams (fold sort_channel cs b) = max_tx_streams b"
  "max_rx_streams (fold sort_channel cs b) = max_rx_streams b"
  by (induction cs arbitrary: b) (simp_all add: sort_channel_keeps)

lemma short_vector:
  assumes "length v \<le> 20"
  shows "wf_attr (make_attr vector_class t v)" "nla_type (make_attr vector_class t v) = t mod 65536"
    "length (make_attr vector_class t v) \<le> 27" "fits v"
  using assms NLA_ALIGN_less [of "length v"]
  by (simp_all add: vector_attr.wf_make vector_attr.type_make fits_def length_bytes_attrs)

lemma short_word:
  "wf_attr (make_attr word_class t (v2 :: u16))" "nla_type (make_attr word_class t v2) = t mod 65536"
  "length (make_attr word_class t v2) = 8"
  "wf_attr (make_attr word_class t (v4 :: u32))" "nla_type (make_attr word_class t v4) = t mod 65536"
  "length (make_attr word_class t v4) = 8"
  by (simp_all add: u16_attr.wf_make u16_attr.type_make u32_attr.wf_make u32_attr.type_make
      length_word_attr [of 2] length_word_attr [of 4] NLA_ALIGN_def)

lemma frequency_table_facts:
  assumes "length cs < 1000"
  shows "wf_attr (frequency_table cs)" "nla_type (frequency_table cs) = 1" "length (frequency_table cs) \<le> 4 + 28 * length cs"
    "handleBandFreqAttributes (frequency_table cs) b = Inr (fold sort_channel cs b)"
proof -
  note built = freq_table_built(1) [of cs 1] freq_table_built(2) [of cs]
  show "wf_attr (frequency_table cs)" "nla_type (frequency_table cs) = 1" "length (frequency_table cs) \<le> 4 + 28 * length cs"
    using built assms by (simp_all add: frequency_table_def nested_attr_wf fits_def nested_attr_facts freq_attrs_wf)
  show "handleBandFreqAttributes (frequency_table cs) b = Inr (fold sort_channel cs b)"
    using freq_table_sorted [of cs 1 b] built assms by (simp add: frequency_table_def)
qed

lemma band_report_sizes:
  assumes "band_report_ok r"
  shows "length (band_channels r) < 1000" "band_ht r = Some (c, m) \<Longrightarrow> length m = 16"
    "band_vht r = Some (d, m) \<Longrightarrow> length m = 8"
    "band_he r = Some (p, m) \<Longrightarrow> 9 \<le> length p \<and> length p \<le> 20 \<and> 4 \<le> length m \<and> length m \<le> 20"
    "band_eht r = Some p \<Longrightarrow> 8 \<le> length p \<and> length p \<le> 20"
  using assms by (simp_all add: band_report_ok_def)

lemma iftype_attrs_wf:
  assumes "band_report_ok r"
  shows "wf_attrs (iftype_attrs r)" "length (concat (iftype_attrs r)) \<le> 81"
proof -
  note sizes = band_report_sizes [OF assms]
  show "wf_attrs (iftype_attrs r)"
    using sizes(4,5) by (auto simp: iftype_attrs_def short_vector split: option.split)
  have "length a \<le> 27" if "a \<in> set (iftype_attrs r)" for a
    using that sizes(4,5) short_vector(3)
    by (cases "band_he r"; cases "band_eht r") (auto simp: iftype_attrs_def)
  then have "length (concat (iftype_attrs r)) \<le> 27 * length (iftype_attrs r)" by (rule length_concat_le)
  also have "\<dots> \<le> 81" by (simp add: iftype_attrs_def split: option.split)
  finally show "length (concat (iftype_attrs r)) \<le> 81" .
qed

lemma iftype_member:
  assumes "band_report_ok r"
  shows "wf_attr (nested_attr i (iftype_attrs r))" "length (nested_attr i (iftype_attrs r)) \<le> 85"
    "wf_attr (nested_attr j [nested_attr i (iftype_attrs r)])" "length (nested_attr j [nested_attr i (iftype_attrs r)]) \<le> 89"
  using iftype_attrs_wf [OF assms] by (simp_all add: nested_attr_wf nested_attr_facts fits_def)

lemma band_attrs_wf:
  assumes "band_report_ok r"
  shows "wf_attrs (band_attrs r)" "length (concat (band_attrs r)) \<le> 450 + 28 * length (band_channels r)"
proof -
  note sizes = band_report_sizes [OF assms]
  note table = frequency_table_facts [OF sizes(1)]
  show "wf_attrs (band_attrs r)"
    using sizes(2,3) by (auto simp: band_attrs_def capability_attrs_def short_vector short_word table iftype_member [OF assms] split: option.split)
  have "length a \<le> 89" if "a \<in> set (capability_attrs r)" for a
  proof -
    have "length (make_attr vector_class t v) \<le> 89" if "length v \<le> 20" for t v
      using short_vector(3) [OF that, of t] by simp
    then show ?thesis
      using that sizes(2,3) iftype_member(4) [OF assms, of 9 1]
      by (cases "band_ht r"; cases "band_vht r") (auto simp: capability_attrs_def short_word split: if_splits)
  qed
  then have "length (concat (capability_attrs r)) \<le> 89 * length (capability_attrs r)" by (rule length_concat_le)
  also have "\<dots> \<le> 445" by (simp add: capability_attrs_def split: option.split)
  finally show "length (concat (band_attrs r)) \<le> 450 + 28 * length (band_channels r)"
    using table(3) sizes(1) by (simp add: band_attrs_def)
qed

lemma band_member:
  assumes "band_report_ok r"
  shows "wf_attr (nested_attr i (band_attrs r))"
    "length (nested_attr i (band_attrs r)) \<le> 454 + 28 * length (band_channels r)"
  using band_attrs_wf [OF assms] band_report_sizes(1) [OF assms] by (simp_all add: nested_attr_wf nested_attr_facts fits_def)

lemma band_attrs_found:
  assumes "band_report_ok r"
  shows "find (\<lambda>a. nla_type a = 1) (band_attrs r) = Some (frequency_table (band_channels r))"
    "find (\<lambda>a. nla_type a = 3) (band_attrs r) = map_option (\<lambda>(_, mcs). make_attr vector_class 3 mcs) (band_ht r)"
    "find (\<lambda>a. nla_type a = 4) (band_attrs r) = map_option (\<lambda>(capa, _). make_attr word_class 4 capa) (band_ht r)"
    "find (\<lambda>a. nla_type a = 7) (band_attrs r) = map_option (\<lambda>(_, mcs). make_attr vector_class 7 mcs) (band_vht r)"
    "find (\<lambda>a. nla_type a = 8) (band_attrs r) = map_option (\<lambda>(capa, _). make_attr word_class 8 capa) (band_vht r)"
    "find (\<lambda>a. nla_type a = 9) (band_attrs r) =
       (if band_he r = None \<and> band_eht r = None then None else Some (nested_attr 9 [nested_attr 1 (iftype_attrs r)]))"
proof -
  note sizes = band_report_sizes [OF assms]
  have types: "\<And>c m t. band_ht r = Some (c, m) \<Longrightarrow> nla_type (make_attr vector_class t m) = t mod 65536"
    "\<And>c m t. band_vht r = Some (c, m) \<Longrightarrow> nla_type (make_attr vector_class t m) = t mod 65536"
    using sizes(2,3) by (auto intro!: short_vector(2))
  note facts = types short_word(2,5) frequency_table_facts(2) [OF sizes(1)] nested_attr_facts(2)
  show "find (\<lambda>a. nla_type a = 1) (band_attrs r) = Some (frequency_table (band_channels r))"
    "find (\<lambda>a. nla_type a = 3) (band_attrs r) = map_option (\<lambda>(_, mcs). make_attr vector_class 3 mcs) (band_ht r)"
    "find (\<lambda>a. nla_type a = 4) (band_attrs r) = map_option (\<lambda>(capa, _). make_attr word_class 4 capa) (band_ht r)"
    "find (\<lambda>a. nla_type a = 7) (band_attrs r) = map_option (\<lambda>(_, mcs). make_attr vector_class 7 mcs) (band_vht r)"
    "find (\<lambda>a. nla_type a = 8) (band_attrs r) = map_option (\<lambda>(capa, _). make_attr word_class 8 capa) (band_vht r)"
    "find (\<lambda>a. nla_type a = 9) (band_attrs r) =
       (if band_he r = None \<and> band_eht r = None then None else Some (nested_attr 9 [nested_attr 1 (iftype_attrs r)]))"
    by (auto simp: band_attrs_def capability_attrs_def facts split: option.split)
qed

lemma iftype_attrs_found:
  assumes "band_report_ok r"
  shows "find (\<lambda>a. nla_type a = 3) (iftype_attrs r) = map_option (\<lambda>(phy, _). make_attr vector_class 3 phy) (band_he r)"
    "find (\<lambda>a. nla_type a = 4) (iftype_attrs r) = map_option (\<lambda>(_, mcs). make_attr vector_class 4 mcs) (band_he r)"
    "find (\<lambda>a. nla_type a = 9) (iftype_attrs r) = map_option (make_attr vector_class 9) (band_eht r)"
proof -
  note sizes = band_report_sizes [OF assms]
  have types: "\<And>p m t. band_he r = Some (p, m) \<Longrightarrow> nla_type (make_attr vector_class t m) = t mod 65536"
    "\<And>p m t. band_he r = Some (p, m) \<Longrightarrow> nla_type (make_attr vector_class t p) = t mod 65536"
    "\<And>p t. band_eht r = Some p \<Longrightarrow> nla_type (make_attr vector_class t p) = t mod 65536"
    using sizes(4,5) by (auto intro!: short_vector(2))
  show "find (\<lambda>a. nla_type a = 3) (iftype_attrs r) = map_option (\<lambda>(phy, _). make_attr vector_class 3 phy) (band_he r)"
    "find (\<lambda>a. nla_type a = 4) (iftype_attrs r) = map_option (\<lambda>(_, mcs). make_attr vector_class 4 mcs) (band_he r)"
    "find (\<lambda>a. nla_type a = 9) (iftype_attrs r) = map_option (make_attr vector_class 9) (band_eht r)"
    by (auto simp: iftype_attrs_def types split: option.split)
qed

lemma HasAttribute_by_find:
  "wf_attrs as \<Longrightarrow> HasAttribute (nested_attr t as) i = Inr (find (\<lambda>a. nla_type a = i) as \<noteq> None)"
  by (auto simp: HasAttribute_nested find_None_ball)

lemma capability_bits:
  "(v AND 4 \<noteq> 0) = bit (v :: u32) 2" "(v AND 8 \<noteq> 0) = bit v 3"
  "(b AND 8 \<noteq> 0) = bit (b :: u8) 3" "(b AND 16 \<noteq> 0) = bit b 4" "(b AND 2 \<noteq> 0) = bit b 1"
  using and_exp_eq_0_iff_not_bit [of v 2] and_exp_eq_0_iff_not_bit [of v 3] and_exp_eq_0_iff_not_bit [of b 3]
    and_exp_eq_0_iff_not_bit [of b 4] and_exp_eq_0_iff_not_bit [of b 1] by simp_all

lemma iftype_reads:
  assumes "band_report_ok r"
  defines "x \<equiv> nested_attr 1 (iftype_attrs r)"
  shows "HasAttribute x 3 = Inr (band_he r \<noteq> None)" "HasAttribute x 4 = Inr (band_he r \<noteq> None)"
    "HasAttribute x 9 = Inr (band_eht r \<noteq> None)"
    "GetAttributeValue vector_class x 3 = Inr (map_option fst (band_he r))"
    "GetAttributeValue vector_class x 4 = Inr (map_option snd (band_he r))"
    "GetAttributeValue vector_class x 9 = Inr (band_eht r)"
proof -
  note sizes = band_report_sizes [OF assms(1)]
  note wf = iftype_attrs_wf(1) [OF assms(1)] and found = iftype_attrs_found [OF assms(1)]
  show "HasAttribute x 3 = Inr (band_he r \<noteq> None)" "HasAttribute x 4 = Inr (band_he r \<noteq> None)"
    "HasAttribute x 9 = Inr (band_eht r \<noteq> None)"
    by (simp_all add: x_def HasAttribute_by_find [OF wf] found)
  have ok: "band_he r = Some (v, w) \<Longrightarrow> fits v" "band_he r = Some (w, v) \<Longrightarrow> fits v" "band_eht r = Some v \<Longrightarrow> fits v" for v w
    using sizes(4,5) by (auto simp: fits_def)
  show "GetAttributeValue vector_class x 3 = Inr (map_option fst (band_he r))"
    "GetAttributeValue vector_class x 4 = Inr (map_option snd (band_he r))"
    "GetAttributeValue vector_class x 9 = Inr (band_eht r)"
    unfolding x_def using found
    by (auto intro!: vector_attr.nested_value_by_find [OF wf] dest: ok split: option.splits
        simp: map_option_case)
qed

lemma band_reads:
  fixes i :: nat
  assumes "band_report_ok r"
  defines "x \<equiv> nested_attr i (band_attrs r)"
  shows "GetNestedAttribute x 1 = Inr (Some (frequency_table (band_channels r)))"
    "HasAttribute x 4 = Inr (band_ht r \<noteq> None)" "HasAttribute x 8 = Inr (band_vht r \<noteq> None)"
    "GetNestedAttribute x 9 = Inr (if band_he r = None \<and> band_eht r = None then None
       else Some (nested_attr 9 [nested_attr 1 (iftype_attrs r)]))"
    "GetAttributeValue vector_class x 3 = Inr (map_option snd (band_ht r))"
    "GetAttributeValue vector_class x 7 = Inr (map_option snd (band_vht r))"
    "GetAttributeValue word_class x 8 = Inr (map_option fst (band_vht r))"
proof -
  note sizes = band_report_sizes [OF assms(1)]
  note wf = band_attrs_wf(1) [OF assms(1)] and found = band_attrs_found [OF assms(1)]
  show "GetNestedAttribute x 1 = Inr (Some (frequency_table (band_channels r)))"
    "HasAttribute x 4 = Inr (band_ht r \<noteq> None)" "HasAttribute x 8 = Inr (band_vht r \<noteq> None)"
    "GetNestedAttribute x 9 = Inr (if band_he r = None \<and> band_eht r = None then None
       else Some (nested_attr 9 [nested_attr 1 (iftype_attrs r)]))"
    using found by (simp_all add: x_def HasAttribute_by_find [OF wf] GetNestedAttribute_nested [OF wf])
  have ok: "band_ht r = Some (c, v) \<Longrightarrow> fits v" "band_vht r = Some (d, v) \<Longrightarrow> fits v" for v c d
    using sizes(2,3) by (auto simp: fits_def)
  show "GetAttributeValue vector_class x 3 = Inr (map_option snd (band_ht r))"
    "GetAttributeValue vector_class x 7 = Inr (map_option snd (band_vht r))"
    "GetAttributeValue word_class x 8 = Inr (map_option fst (band_vht r))"
    unfolding x_def using found
    by (auto intro!: vector_attr.nested_value_by_find [OF wf] u32_attr.nested_value_by_find [OF wf] dest: ok
        split: option.splits simp: map_option_case)
qed

lemma band_info_eqI:
  assumes "band_2g a = band_2g b" "band_5g a = band_5g b" "band_dfs a = band_dfs b" "band_6g a = band_6g b"
    "band_60g a = band_60g b" "is_80211n_supported a = is_80211n_supported b"
    "is_80211ac_supported a = is_80211ac_supported b" "is_80211ax_supported a = is_80211ax_supported b"
    "is_80211be_supported a = is_80211be_supported b" "is_160_mhz_supported a = is_160_mhz_supported b"
    "is_80p80_mhz_supported a = is_80p80_mhz_supported b" "is_320_mhz_supported a = is_320_mhz_supported b"
    "max_tx_streams a = max_tx_streams b" "max_rx_streams a = max_rx_streams b"
  shows "a = (b :: band_info)"
  using assms by simp

lemma he_phy_parsed:
  assumes "band_report_ok r"
  shows "(if band_he r \<noteq> None then ParseHeCapPhyAttribute (nested_attr 1 (iftype_attrs r)) (b\<lparr>is_80211ax_supported := True\<rparr>)
      else Inr b) =
    Inr (b\<lparr>is_80211ax_supported := is_80211ax_supported b \<or> band_he r \<noteq> None,
           is_160_mhz_supported := is_160_mhz_supported b \<or> he_announces 3 r,
           is_80p80_mhz_supported := is_80p80_mhz_supported b \<or> he_announces 4 r\<rparr>)"
proof (cases "band_he r")
  case (Some he)
  obtain phy mcs where he: "band_he r = Some (phy, mcs)" using Some by (cases he) simp
  have "9 \<le> length phy" using band_report_sizes(4) [OF assms he] by simp
  with iftype_reads(4) [OF assms] he show ?thesis
    by (simp add: ParseHeCapPhyAttribute_def Let_def capability_bits he_announces_def)
qed (simp add: he_announces_def)

lemma he_mcs_parsed:
  assumes "band_report_ok r"
  shows "(if band_he r \<noteq> None then ParseHeMcsSetAttribute (nested_attr 1 (iftype_attrs r)) b else Inr b) =
    Inr (b\<lparr>max_tx_streams := foldl max (max_tx_streams b) (tx_he r), max_rx_streams := foldl max (max_rx_streams b) (rx_he r)\<rparr>)"
proof (cases "band_he r")
  case (Some he)
  obtain phy mcs where he: "band_he r = Some (phy, mcs)" using Some by (cases he) simp
  have "4 \<le> length mcs" using band_report_sizes(4) [OF assms he] by simp
  with iftype_reads(5) [OF assms] he show ?thesis
    by (simp add: ParseHeMcsSetAttribute_def raise_streams_def Let_def tx_he_def rx_he_def)
qed (simp add: tx_he_def rx_he_def)

lemma eht_phy_parsed:
  assumes "band_report_ok r"
  shows "(if band_eht r \<noteq> None then ParseEhtCapPhyAttribute (nested_attr 1 (iftype_attrs r)) (b\<lparr>is_80211be_supported := True\<rparr>)
      else Inr b) =
    Inr (b\<lparr>is_80211be_supported := is_80211be_supported b \<or> band_eht r \<noteq> None,
           is_320_mhz_supported := is_320_mhz_supported b \<or> eht_announces 1 r\<rparr>)"
proof (cases "band_eht r")
  case (Some phy)
  have "8 \<le> length phy" using band_report_sizes(5) [OF assms Some] by simp
  with iftype_reads(6) [OF assms] Some show ?thesis
    by (simp add: ParseEhtCapPhyAttribute_def capability_bits eht_announces_def)
qed (simp add: eht_announces_def)

lemma iftype_parsed:
  assumes "band_report_ok r"
  shows "if_value (GetNestedAttribute (nested_attr i (band_attrs r)) 9) (Inr b) (\<lambda>a. ParseIfTypeDataAttributes a b) =
    Inr (b\<lparr>is_80211ax_supported := is_80211ax_supported b \<or> band_he r \<noteq> None,
           is_80211be_supported := is_80211be_supported b \<or> band_eht r \<noteq> None,
           is_160_mhz_supported := is_160_mhz_supported b \<or> he_announces 3 r,
           is_80p80_mhz_supported := is_80p80_mhz_supported b \<or> he_announces 4 r,
           is_320_mhz_supported := is_320_mhz_supported b \<or> eht_announces 1 r,
           max_tx_streams := foldl max (max_tx_streams b) (tx_he r),
           max_rx_streams := foldl max (max_rx_streams b) (rx_he r)\<rparr>)"
proof (cases "band_he r = None \<and> band_eht r = None")
  case True
  then show ?thesis
    by (simp add: band_reads(4) [OF assms] he_announces_def eht_announces_def tx_he_def rx_he_def)
next
  case False
  let ?x = "nested_attr 1 (iftype_attrs r)"
  let ?parse = "if_value (GetNestedAttribute (nested_attr i (band_attrs r)) 9) (Inr b) (\<lambda>a. ParseIfTypeDataAttributes a b)"
  have "GetListOfNestedAttributes (nested_attr 9 [nested_attr 1 (iftype_attrs r)]) = Some [nested_attr 1 (iftype_attrs r)]"
    by (simp add: GetListOfNestedAttributes_nested iftype_member(1) [OF assms(1)])
  moreover have "GetNestedAttribute (nested_attr i (band_attrs r)) 9 = Inr (Some (nested_attr 9 [nested_attr 1 (iftype_attrs r)]))"
    using False by (simp add: band_reads(4) [OF assms])
  ultimately have "?parse = and_then (if band_he r \<noteq> None then ParseHeCapPhyAttribute ?x (b\<lparr>is_80211ax_supported := True\<rparr>) else Inr b)
      (\<lambda>out1. and_then (if band_he r \<noteq> None then ParseHeMcsSetAttribute ?x out1 else Inr out1)
      (\<lambda>out2. if band_eht r \<noteq> None then ParseEhtCapPhyAttribute ?x (out2\<lparr>is_80211be_supported := True\<rparr>) else Inr out2))"
    by (simp add: ParseIfTypeDataAttributes_def iftype_reads(1-3) [OF assms] del: One_nat_def)
  then show ?thesis
    unfolding he_phy_parsed [OF assms] he_mcs_parsed [OF assms] eht_phy_parsed [OF assms]
    by simp
qed

lemma phy_parsed:
  assumes "band_report_ok r"
  shows "ParseHtVhtPhyCapabilities (nested_attr i (band_attrs r)) b =
    Inr (b\<lparr>is_160_mhz_supported := is_160_mhz_supported b \<or> vht_announces 2 r,
           is_80p80_mhz_supported := is_80p80_mhz_supported b \<or> vht_announces 3 r,
           max_tx_streams := foldl max (max_tx_streams b) (tx_ht_vht r),
           max_rx_streams := foldl max (max_rx_streams b) (rx_ht_vht r)\<rparr>)"
proof -
  let ?x = "nested_attr i (band_attrs r)"
  note reads = band_reads(5-7) [OF assms, of i]
  define ht where "ht = (\<lambda>x. case band_ht r of None \<Rightarrow> [] | Some (_, mcs) \<Rightarrow> [x (ParseHtMcsSet mcs) :: nat])"
  define vht where "vht = (\<lambda>p q. case band_vht r of None \<Rightarrow> [] | Some (_, mcs) \<Rightarrow> [ParseMcsMap (two_bytes (mcs ! p) (mcs ! q))])"
  have "ParseHtMcsSetAttribute ?x b =
      Inr (b\<lparr>max_tx_streams := foldl max (max_tx_streams b) (ht fst), max_rx_streams := foldl max (max_rx_streams b) (ht snd)\<rparr>)" for b
  proof (cases "band_ht r")
    case (Some capa_mcs)
    obtain capa mcs where ht: "band_ht r = Some (capa, mcs)" using Some by (cases capa_mcs) simp
    have "length mcs = 16" by (rule band_report_sizes(2) [OF assms ht])
    with reads(1) ht show ?thesis by (simp add: ParseHtMcsSetAttribute_def raise_streams_def Let_def ht_def)
  qed (simp add: ParseHtMcsSetAttribute_def ht_def reads(1))
  moreover have "ParseVhtMcsSetAttribute ?x b =
      Inr (b\<lparr>max_tx_streams := foldl max (max_tx_streams b) (vht 5 4), max_rx_streams := foldl max (max_rx_streams b) (vht 1 0)\<rparr>)" for b
  proof (cases "band_vht r")
    case (Some capa_mcs)
    obtain capa mcs where vht: "band_vht r = Some (capa, mcs)" using Some by (cases capa_mcs) simp
    have "length mcs = 8" by (rule band_report_sizes(3) [OF assms vht])
    with reads(2) vht show ?thesis by (simp add: ParseVhtMcsSetAttribute_def raise_streams_def Let_def vht_def)
  qed (simp add: ParseVhtMcsSetAttribute_def vht_def reads(2))
  moreover have "ParseVhtCapAttribute ?x b =
      Inr (b\<lparr>is_160_mhz_supported := is_160_mhz_supported b \<or> vht_announces 2 r,
             is_80p80_mhz_supported := is_80p80_mhz_supported b \<or> vht_announces 3 r\<rparr>)" for b
    by (cases "band_vht r") (auto simp: ParseVhtCapAttribute_def reads(3) Let_def capability_bits vht_announces_def)
  moreover have "tx_ht_vht r = ht fst @ vht 5 4" "rx_ht_vht r = ht snd @ vht 1 0"
    by (simp_all add: tx_ht_vht_def rx_ht_vht_def ht_def vht_def split: option.split)
  ultimately show ?thesis by (simp add: ParseHtVhtPhyCapabilities_def)
qed

lemma parse_band_report:
  assumes "band_report_ok r"
  shows "parse_band (nested_attr i (band_attrs r)) b = Inr (with_band r b)"
proof -
  let ?b = "fold sort_channel (band_channels r) b"
  have freqs: "if_value (GetNestedAttribute (nested_attr i (band_attrs r)) 1) (Inr b)
      (\<lambda>freqs_attr. handleBandFreqAttributes freqs_attr b) = Inr ?b"
    using frequency_table_facts(4) [OF band_report_sizes(1) [OF assms]] by (simp add: band_reads(1) [OF assms, simplified])
  show ?thesis
    unfolding parse_band_def NL80211_BAND_ATTR_FREQS_def freqs NL80211_BAND_ATTR_IFTYPE_DATA_def iftype_parsed [OF assms]
    by (cases "band_ht r"; cases "band_vht r")
      (auto simp: band_reads(2,3) [OF assms] phy_parsed [OF assms] with_band_def Let_def intro!: band_info_eqI)
qed

section \<open>A wiphy and its packet\<close>

text \<open>
  What the kernel says of a wiphy: its bands with their numbers, the limits of scanning and the
  feature bits. Other attributes of the packet do not matter.
\<close>

record wiphy_report =
  report_bands :: "(nat \<times> band_report) list"
  report_scan_ssids :: u8
  report_sched_scan_ssids :: u8
  report_match_sets :: u8
  report_scan_plans :: "u32 option"
  report_plan_interval :: "u32 option"
  report_plan_iterations :: "u32 option"
  report_features :: u32
  report_ext_features :: "bytes option"

definition bands_attr :: "wiphy_report \<Rightarrow> attr" where
  "bands_attr r = nested_attr NL80211_ATTR_WIPHY_BANDS (map (\<lambda>(i, b). nested_attr i (band_attrs b)) (report_bands r))"

definition describes :: "(nat \<Rightarrow> attr option) \<Rightarrow> wiphy_report \<Rightarrow> bool" where
  "describes attribute r \<longleftrightarrow>
     (\<forall>(i, b) \<in> set (report_bands r). band_report_ok b) \<and>
     (case report_ext_features r of None \<Rightarrow> True | Some e \<Rightarrow> fits e) \<and>
     attribute NL80211_ATTR_WIPHY_BANDS = Some (bands_attr r) \<and>
     attribute NL80211_ATTR_MAX_NUM_SCAN_SSIDS =
       Some (make_attr word_class NL80211_ATTR_MAX_NUM_SCAN_SSIDS (report_scan_ssids r)) \<and>
     attribute NL80211_ATTR_MAX_NUM_SCHED_SCAN_SSIDS =
       Some (make_attr word_class NL80211_ATTR_MAX_NUM_SCHED_SCAN_SSIDS (report_sched_scan_ssids r)) \<and>
     attribute NL80211_ATTR_MAX_MATCH_SETS =
       Some (make_attr word_class NL80211_ATTR_MAX_MATCH_SETS (report_match_sets r)) \<and>
     attribute NL80211_ATTR_MAX_NUM_SCHED_SCAN_PLANS =
       map_option (make_attr word_class NL80211_ATTR_MAX_NUM_SCHED_SCAN_PLANS) (report_scan_plans r) \<and>
     attribute NL80211_ATTR_MAX_SCAN_PLAN_INTERVAL =
       map_option (make_attr word_class NL80211_ATTR_MAX_SCAN_PLAN_INTERVAL) (report_plan_interval r) \<and>
     attribute NL80211_ATTR_MAX_SCAN_PLAN_ITERATIONS =
       map_option (make_attr word_class NL80211_ATTR_MAX_SCAN_PLAN_ITERATIONS) (report_plan_iterations r) \<and>
     attribute NL80211_ATTR_FEATURE_FLAGS =
       Some (make_attr word_class NL80211_ATTR_FEATURE_FLAGS (report_features r)) \<and>
     attribute NL80211_ATTR_EXT_FEATURES =
       map_option (make_attr vector_class NL80211_ATTR_EXT_FEATURES) (report_ext_features r)"

text \<open>The three objects that are made of it.\<close>

definition bands_of :: "wiphy_report \<Rightarrow> band_info" where
  "bands_of r = fold with_band (map snd (report_bands r)) BandInfo"

definition capabilities_of :: "wiphy_report \<Rightarrow> scan_capabilities" where
  "capabilities_of r =
     \<lparr>max_num_scan_ssids = report_scan_ssids r, max_num_sched_scan_ssids = report_sched_scan_ssids r,
      max_match_sets = report_match_sets r, max_num_scan_plans = value_or 0 (report_scan_plans r),
      max_scan_plan_interval = value_or 0 (report_plan_interval r),
      max_scan_plan_iterations = value_or 0 (report_plan_iterations r)\<rparr>"

definition features_of :: "wiphy_report \<Rightarrow> wiphy_features" where
  "features_of r = WiphyFeatures (report_features r) (value_or [] (report_ext_features r))"

lemma parse_bands_report:
  "\<forall>(i, r) \<in> set rs. band_report_ok r \<Longrightarrow>
     parse_bands (map (\<lambda>(i, r). nested_attr i (band_attrs r)) rs) b = Inr (fold with_band (map snd rs) b)"
  by (induction rs arbitrary: b) (auto simp: parse_band_report)

lemma ParseWiphyInfo_described:
  assumes "wf_attrs as" "describes (\<lambda>t. find (\<lambda>a. nla_type a = t) as) r" "msg_cmd h = NL80211_CMD_NEW_WIPHY"
  shows "ParseWiphyInfoFromPacket (message h as) out = Inr (True, bands_of r, capabilities_of r, features_of r)"
proof -
  let ?f = "\<lambda>t. find (\<lambda>a. nla_type a = t) as"
  have bands: "\<forall>(i, b) \<in> set (report_bands r). band_report_ok b" and ext: "report_ext_features r = Some e \<Longrightarrow> fits e" for e
    using assms(2) by (auto simp: describes_def)
  have "wf_attrs (map (\<lambda>(i, b). nested_attr i (band_attrs b)) (report_bands r))"
    using bands band_member by (auto simp: wf_attrs_def)
  then have list: "GetListOfNestedAttributes (bands_attr r) = Some (map (\<lambda>(i, b). nested_attr i (band_attrs b)) (report_bands r))"
    by (simp add: bands_attr_def GetListOfNestedAttributes_nested)
  have "Packet_GetAttribute (message h as) 22 = Inr (Some (bands_attr r))"
    using assms(1,2) by (simp add: Packet_GetAttribute_message describes_def)
  then have "ParseBandInfo (message h as) = Inr (Some (bands_of r))"
    by (simp add: ParseBandInfo_def list parse_bands_report [OF bands] bands_of_def)
  moreover
  have u8: "?f t = Some (make_attr word_class t (v :: u8)) \<Longrightarrow> Packet_GetAttributeValue word_class (message h as) t = Inr (Some v)" for t v
    using u8_attr.value_by_find [OF assms(1), of t t "Some v"] by simp
  have u32: "?f t = map_option (make_attr word_class t) (v :: u32 option) \<Longrightarrow> Packet_GetAttributeValue word_class (message h as) t = Inr v" for t v
    using u32_attr.value_by_find [OF assms(1), of t t v] by simp
  have "Packet_GetAttributeValue word_class (message h as) 43 = Inr (Some (report_scan_ssids r))"
    "Packet_GetAttributeValue word_class (message h as) 123 = Inr (Some (report_sched_scan_ssids r))"
    "Packet_GetAttributeValue word_class (message h as) 133 = Inr (Some (report_match_sets r))"
    "Packet_GetAttributeValue word_class (message h as) 222 = Inr (report_scan_plans r)"
    "Packet_GetAttributeValue word_class (message h as) 223 = Inr (report_plan_interval r)"
    "Packet_GetAttributeValue word_class (message h as) 224 = Inr (report_plan_iterations r)"
    "Packet_GetAttributeValue word_class (message h as) 143 = Inr (Some (report_features r))"
    using assms(2) by (auto intro!: u8 u32 simp: describes_def)
  moreover have "Packet_GetAttributeValue vector_class (message h as) 217 = Inr (report_ext_features r)"
    using assms(2) by (intro vector_attr.value_by_find [OF assms(1)]) (auto simp: describes_def ext)
  ultimately show ?thesis
    using assms(3)
    by (simp add: ParseWiphyInfoFromPacket_def ParseScanCapabilities_def capabilities_of_def features_of_def split: prod.split)
qed

section \<open>The dump of a wiphy\<close>

text \<open>What a split dump says of an attribute of a wiphy, in one piece.\<close>

definition dump_attr :: "dump_entry list \<Rightarrow> u32 \<Rightarrow> nat \<Rightarrow> attr option" where
  "dump_attr es w t = (if mentions es w t then Some (tlv t (collected es w t)) else None)"

lemma split_dump_rows:
  assumes "\<forall>q \<in> set qs. good_piece q" "good_entries (dump_entries qs)"
  shows "\<exists>rows. MergePacketsForSplitWiphyDump (map (piece_packet h) qs) =
      Inr (True, map (\<lambda>(w, as). message merged_header (wiphy_attr w # as)) rows) \<and>
    set (map fst rows) = {w. \<exists>t. mentions (dump_entries qs) w t} \<and>
    (\<forall>(w, as) \<in> set rows. wf_attrs as \<and> (\<forall>t. find (\<lambda>a. nla_type a = t) as = dump_attr (dump_entries qs) w t))"
proof -
  obtain table where table: "represents table (dump_entries qs)" "merge_packets (map (piece_packet h) qs) [] = Inr (Some table)"
    using merge_packets_represents [OF represents_Nil, of qs] assms by auto
  have row: "wf_attrs (map snd m)" "merged_packet (w, m) = message merged_header (wiphy_attr w # map snd m)"
    "find (\<lambda>a. nla_type a = t) (map snd m) = dump_attr (dump_entries qs) w t" if "(w, m) \<in> set table" for w m t
    using represented_row [OF table(1) assms(2) that] merged_packet_message by (simp_all add: dump_attr_def)
  let ?rows = "map (\<lambda>(w, m). (w, map snd m)) table"
  have "map merged_packet table = map (\<lambda>(w, as). message merged_header (wiphy_attr w # as)) ?rows"
    using row(2) by auto
  moreover have "set (map fst ?rows) = {w. \<exists>t. mentions (dump_entries qs) w t}"
    using represented_wiphys [OF table(1)] by (simp add: case_prod_unfold comp_def)
  ultimately show ?thesis
    using row(1,3) table(2) by (intro exI [of _ ?rows]) (auto simp: MergePacketsForSplitWiphyDump_def)
qed

lemma wiphy_info_loop_rows:
  assumes "\<forall>(v, as) \<in> set rows. wf_attrs as \<and> (v = w \<longrightarrow> describes (\<lambda>t. find (\<lambda>a. nla_type a = t) (wiphy_attr v # as)) r)"
    and "w \<in> set (map fst rows)"
  shows "wiphy_info_loop w (map (\<lambda>(v, as). message merged_header (wiphy_attr v # as)) rows) out =
    Inr (True, bands_of r, capabilities_of r, features_of r)"
  using assms
proof (induction rows)
  case (Cons row rows)
  obtain v as where row: "row = (v, as)" by (cases row)
  with Cons.prems(1) have wf: "wf_attrs (wiphy_attr v # as)" by simp
  have "find (\<lambda>a. nla_type a = 1) (wiphy_attr v # as) = Some (make_attr word_class 1 v)"
    by (simp add: wiphy_attr_def u32_attr.type_make)
  from u32_attr.Packet_value_found [OF wf this]
  have index: "Packet_GetAttributeValue word_class (message merged_header (wiphy_attr v # as)) 1 = Inr (Some v)" by simp
  show ?case
  proof (cases "v = w")
    case True
    with Cons.prems(1) row have "describes (\<lambda>t. find (\<lambda>a. nla_type a = t) (wiphy_attr v # as)) r" by simp
    from ParseWiphyInfo_described [OF wf this] True index show ?thesis by (simp add: row merged_header_def)
  next
    case False
    with Cons index row show ?thesis by simp
  qed
qed simp

text \<open>The polls of a dump of pieces, cut into datagrams.\<close>

definition piece_header :: "u16 \<Rightarrow> u32 \<Rightarrow> nl_header" where
  "piece_header f k = \<lparr>msg_type = f, msg_flags = NLM_F_MULTI, msg_seq = k, msg_pid = 0, msg_cmd = NL80211_CMD_NEW_WIPHY\<rparr>"

definition wiphy_dump :: "u16 \<Rightarrow> u32 \<Rightarrow> (piece list \<times> nat) list \<Rightarrow> piece list \<Rightarrow> nat \<Rightarrow> poll_result list" where
  "wiphy_dump f k parts final t =
     dump_polls k (map (\<lambda>(qs, t). (map (piece_packet (piece_header f k)) qs, t)) parts) (map (piece_packet (piece_header f k)) final) t"

definition small_pieces :: "piece list \<Rightarrow> bool" where
  "small_pieces qs \<longleftrightarrow> (\<forall>q \<in> set qs. good_piece q) \<and>
     20 * length qs + length (concat (concat (map (\<lambda>q. wiphy_attr (fst q) # map (\<lambda>(t, p). tlv t p) (snd q)) qs))) \<le> 8000"

lemma small_pieces_size:
  "small_pieces qs \<Longrightarrow> length (concat (map (piece_packet h) qs)) \<le> 8000"
proof -
  have "\<forall>q \<in> set qs. good_piece q \<Longrightarrow> length (concat (map (piece_packet h) qs)) =
      20 * length qs + length (concat (concat (map (\<lambda>q. wiphy_attr (fst q) # map (\<lambda>(t, p). tlv t p) (snd q)) qs)))" for qs
    by (induction qs) (simp_all add: piece_packet_message)
  then show "small_pieces qs \<Longrightarrow> length (concat (map (piece_packet h) qs)) \<le> 8000" by (simp add: small_pieces_def)
qed

lemma piece_multi_reply: "good_piece q \<Longrightarrow> 4 < unat f \<Longrightarrow> multi_reply k (piece_packet (piece_header f k) q)"
  by (simp add: piece_packet_message piece_header_def multi_message good_piece_def)

lemma GetWiphyInfo_answered:
  fixes s :: "'a nlu_scheme" and parts :: "(piece list \<times> nat) list" and final :: "piece list"
  defines "k \<equiv> fst (GetSequenceNumber s)" and "qs \<equiv> concat (map fst parts) @ final"
  assumes "length (ReceiveBuffer s) = 8192" "knows_family f s" "4 < unat f" "supports_split_wiphy_dump s"
    and "will_answer s (wiphy_dump f k parts final t) rest"
    and "\<forall>(qs, t) \<in> set parts. small_pieces qs" "small_pieces final" "sum_list (map snd parts) + t < 4000"
    and "good_entries (dump_entries qs)" "describes (dump_attr (dump_entries qs) w) r"
  shows "\<exists>s'. GetWiphyInfo run w out s = Inr (True, (bands_of r, capabilities_of r, features_of r), s') \<and>
    net_script s' = rest \<and> length (ReceiveBuffer s') = 8192"
proof -
  let ?s = "s\<lparr>sequence_number := k\<rparr>" and ?m = "map (piece_packet (piece_header f k))"
  let ?p = "AddFlag NLM_F_DUMP (Packet_AddFlagAttribute NL80211_ATTR_SPLIT_WIPHY_DUMP (Packet_AddAttribute (u32_attribute NL80211_ATTR_WIPHY w)
      (NL80211Packet f NL80211_CMD_GET_WIPHY k (own_pid s))))"
  have good: "\<forall>q \<in> set qs. good_piece q" using assms(8,9) by (auto simp: qs_def small_pieces_def)
  then have "\<forall>q \<in> set qs. multi_reply k (piece_packet (piece_header f k) q)"
    using piece_multi_reply [OF _ assms(5)] by blast
  moreover have "\<forall>(qs, t) \<in> set parts. length (concat (?m qs)) \<le> 8000"
    using assms(8) small_pieces_size by fastforce
  moreover have "k \<noteq> 0" unfolding k_def by (rule next_sequence_nonzero)
  moreover have "GetMessageSequence ?p = Inr k"
    by (simp add: NL80211Packet_message Packet_AddAttribute_message Packet_AddFlagAttribute_as_AddAttribute AddFlag_message
        fits_message_def u32_attribute_facts length_tlv NLA_ALIGN_def wf_attr_tlv fits_def)
  ultimately obtain B where B: "length B = 8192" "SendMessageAndGetResponses run ?p [] ?s =
      Inr (True, ?m qs, request_done ?p k (?m qs) B ?s)"
    using dump_answered [of s ?p k "piece_packet (piece_header f k)" parts final t rest run]
      small_pieces_size [OF assms(9), of "piece_header f k"] assms(3,7,10)
    unfolding qs_def wiphy_dump_def by blast
  let ?s' = "request_done ?p k (?m qs) B ?s"
  obtain rows where rows: "MergePacketsForSplitWiphyDump (?m qs) = Inr (True, map (\<lambda>(w, as). message merged_header (wiphy_attr w # as)) rows)"
    "set (map fst rows) = {w. \<exists>t. mentions (dump_entries qs) w t}"
    "\<forall>(w, as) \<in> set rows. wf_attrs as \<and> (\<forall>t. find (\<lambda>a. nla_type a = t) as = dump_attr (dump_entries qs) w t)"
    using split_dump_rows [OF good assms(11), of "piece_header f k"] by blast
  have "w \<in> set (map fst rows)"
    using assms(12) unfolding rows(2) by (auto simp: describes_def dump_attr_def split: if_splits)
  moreover have "\<forall>(v, as) \<in> set rows. wf_attrs as \<and> (v = w \<longrightarrow> describes (\<lambda>t. find (\<lambda>a. nla_type a = t) (wiphy_attr v # as)) r)"
    using rows(3) assms(12) by (auto simp: describes_def)
  ultimately have "wiphy_info_loop w (map (\<lambda>(v, as). message merged_header (wiphy_attr v # as)) rows) out =
      Inr (True, bands_of r, capabilities_of r, features_of r)"
    by (intro wiphy_info_loop_rows)
  then have "GetWiphyInfo run w out s = Inr (True, (bands_of r, capabilities_of r, features_of r), ?s')"
    using B(2) rows(1) assms(6)
    by (simp add: GetWiphyInfo_def new_request_known [OF assms(4)] k_def Let_def send_with_retry.simps request_done_def)
  with B(1) assms(7) show ?thesis by (intro exI [of _ ?s']) (simp add: request_done_def will_answer_def)
qed

section \<open>The answers\<close>

text \<open>
  The kernel is going to answer the next request with a split dump, in any number of datagrams and
  with the pieces of any wiphys in any order, that says of wiphy \<open>w\<close> what is in the report.
\<close>

definition will_describe :: "'a nlu_scheme \<Rightarrow> u32 \<Rightarrow> wiphy_report \<Rightarrow> bool" where
  "will_describe s w r \<longleftrightarrow>
     (\<exists>f parts final t rest. length (ReceiveBuffer s) = 8192 \<and> knows_family f s \<and> 4 < unat f \<and>
        supports_split_wiphy_dump s \<and> will_answer s (wiphy_dump f (fst (GetSequenceNumber s)) parts final t) rest \<and>
        (\<forall>(qs, t) \<in> set parts. small_pieces qs) \<and> small_pieces final \<and> sum_list (map snd parts) + t < 4000 \<and>
        good_entries (dump_entries (concat (map fst parts) @ final)) \<and>
        describes (dump_attr (dump_entries (concat (map fst parts) @ final)) w) r)"

lemma GetWiphyInfo_described:
  assumes "will_describe s w r"
  shows "\<exists>s'. GetWiphyInfo run w out s = Inr (True, (bands_of r, capabilities_of r, features_of r), s')"
  using assms GetWiphyInfo_answered [of s _ _ _ _ _ _ r run out] unfolding will_describe_def by blast

text \<open>The channels of a report that a caller may be told, by band.\<close>

definition all_channels :: "wiphy_report \<Rightarrow> channel list" where
  "all_channels r = concat (map (\<lambda>(_, b). band_channels b) (report_bands r))"

definition frequencies_where :: "(channel \<Rightarrow> bool) \<Rightarrow> wiphy_report \<Rightarrow> u32 list" where
  "frequencies_where P r = map channel_freq (filter (\<lambda>c. \<not> channel_disabled c \<and> P c) (all_channels r))"

definition in_2g :: "channel \<Rightarrow> bool" where
  "in_2g c \<longleftrightarrow> 2400 < channel_freq c \<and> channel_freq c < 2500"

definition in_5g :: "channel \<Rightarrow> bool" where
  "in_5g c \<longleftrightarrow> 5000 < channel_freq c \<and> channel_freq c \<le> 5885"

definition in_6g :: "channel \<Rightarrow> bool" where
  "in_6g c \<longleftrightarrow> 5925 < channel_freq c \<and> channel_freq c < 7125"

definition in_60g :: "channel \<Rightarrow> bool" where
  "in_60g c \<longleftrightarrow> 58320 \<le> channel_freq c \<and> channel_freq c < 70200"

definition restricted :: "channel \<Rightarrow> bool" where
  "restricted c \<longleftrightarrow> channel_dfs_state c = Some 0 \<or> channel_dfs_state c = Some 2 \<or> channel_no_ir c"

lemmas band_tests = in_2g_def in_5g_def in_6g_def in_60g_def restricted_def

lemma sort_channels_lists:
  "band_2g (fold sort_channel cs b) = band_2g b @ map channel_freq (filter (\<lambda>c. \<not> channel_disabled c \<and> in_2g c) cs)"
  "band_5g (fold sort_channel cs b) = band_5g b @ map channel_freq (filter (\<lambda>c. \<not> channel_disabled c \<and> in_5g c \<and> \<not> restricted c) cs)"
  "band_dfs (fold sort_channel cs b) = band_dfs b @ map channel_freq (filter (\<lambda>c. \<not> channel_disabled c \<and> in_5g c \<and> restricted c) cs)"
  "band_6g (fold sort_channel cs b) = band_6g b @ map channel_freq (filter (\<lambda>c. \<not> channel_disabled c \<and> in_6g c) cs)"
  "band_60g (fold sort_channel cs b) = band_60g b @ map channel_freq (filter (\<lambda>c. \<not> channel_disabled c \<and> in_60g c) cs)"
proof -
  have apart: "in_2g c \<Longrightarrow> \<not> in_5g c \<and> \<not> in_6g c \<and> \<not> in_60g c" "in_5g c \<Longrightarrow> \<not> in_6g c \<and> \<not> in_60g c" "in_6g c \<Longrightarrow> \<not> in_60g c" for c
    by (auto simp: band_tests word_less_nat_alt word_le_nat_alt)
  have sort: "sort_channel c b =
      (if channel_disabled c then b else if in_2g c then b\<lparr>band_2g := band_2g b @ [channel_freq c]\<rparr>
       else if in_5g c then
         (if restricted c then b\<lparr>band_dfs := band_dfs b @ [channel_freq c]\<rparr> else b\<lparr>band_5g := band_5g b @ [channel_freq c]\<rparr>)
       else if in_6g c then b\<lparr>band_6g := band_6g b @ [channel_freq c]\<rparr>
       else if in_60g c then b\<lparr>band_60g := band_60g b @ [channel_freq c]\<rparr> else b)" for c b
    by (simp only: sort_channel_def Let_def band_tests)
  have step: "band_2g (sort_channel c b) = band_2g b @ (if \<not> channel_disabled c \<and> in_2g c then [channel_freq c] else [])"
    "band_5g (sort_channel c b) = band_5g b @ (if \<not> channel_disabled c \<and> in_5g c \<and> \<not> restricted c then [channel_freq c] else [])"
    "band_dfs (sort_channel c b) = band_dfs b @ (if \<not> channel_disabled c \<and> in_5g c \<and> restricted c then [channel_freq c] else [])"
    "band_6g (sort_channel c b) = band_6g b @ (if \<not> channel_disabled c \<and> in_6g c then [channel_freq c] else [])"
    "band_60g (sort_channel c b) = band_60g b @ (if \<not> channel_disabled c \<and> in_60g c then [channel_freq c] else [])" for c b
    using apart [of c] by (auto simp: sort)
  show "band_2g (fold sort_channel cs b) = band_2g b @ map channel_freq (filter (\<lambda>c. \<not> channel_disabled c \<and> in_2g c) cs)"
    "band_5g (fold sort_channel cs b) = band_5g b @ map channel_freq (filter (\<lambda>c. \<not> channel_disabled c \<and> in_5g c \<and> \<not> restricted c) cs)"
    "band_dfs (fold sort_channel cs b) = band_dfs b @ map channel_freq (filter (\<lambda>c. \<not> channel_disabled c \<and> in_5g c \<and> restricted c) cs)"
    "band_6g (fold sort_channel cs b) = band_6g b @ map channel_freq (filter (\<lambda>c. \<not> channel_disabled c \<and> in_6g c) cs)"
    "band_60g (fold sort_channel cs b) = band_60g b @ map channel_freq (filter (\<lambda>c. \<not> channel_disabled c \<and> in_60g c) cs)"
    by (induction cs arbitrary: b) (simp_all add: step)
qed

lemma with_band_lists:
  "band_2g (with_band r b) = band_2g (fold sort_channel (band_channels r) b)"
  "band_5g (with_band r b) = band_5g (fold sort_channel (band_channels r) b)"
  "band_dfs (with_band r b) = band_dfs (fold sort_channel (band_channels r) b)"
  "band_6g (with_band r b) = band_6g (fold sort_channel (band_channels r) b)"
  "band_60g (with_band r b) = band_60g (fold sort_channel (band_channels r) b)"
  by (simp_all add: with_band_def)

lemma bands_of_lists:
  "band_2g (bands_of r) = frequencies_where in_2g r"
  "band_5g (bands_of r) = frequencies_where (\<lambda>c. in_5g c \<and> \<not> restricted c) r"
  "band_dfs (bands_of r) = frequencies_where (\<lambda>c. in_5g c \<and> restricted c) r"
  "band_6g (bands_of r) = frequencies_where in_6g r"
  "band_60g (bands_of r) = frequencies_where in_60g r"
proof -
  have step: "sel (fold with_band bs b) = sel b @ map channel_freq (filter P (concat (map band_channels bs)))"
    if "\<And>r b. sel (with_band r b) = sel b @ map channel_freq (filter P (band_channels r))" for sel P bs b
    using that by (induction bs arbitrary: b) auto
  note lists = trans [OF with_band_lists(1) sort_channels_lists(1)] trans [OF with_band_lists(2) sort_channels_lists(2)]
    trans [OF with_band_lists(3) sort_channels_lists(3)] trans [OF with_band_lists(4) sort_channels_lists(4)]
    trans [OF with_band_lists(5) sort_channels_lists(5)]
  have all: "concat (map band_channels (map snd (report_bands r))) = all_channels r"
    by (simp add: all_channels_def comp_def case_prod_unfold)
  show "band_2g (bands_of r) = frequencies_where in_2g r"
    "band_5g (bands_of r) = frequencies_where (\<lambda>c. in_5g c \<and> \<not> restricted c) r"
    "band_dfs (bands_of r) = frequencies_where (\<lambda>c. in_5g c \<and> restricted c) r"
    "band_6g (bands_of r) = frequencies_where in_6g r"
    "band_60g (bands_of r) = frequencies_where in_60g r"
    using step [OF lists(1)] step [OF lists(2)] step [OF lists(3)] step [OF lists(4)] step [OF lists(5)]
    by (simp_all add: bands_of_def frequencies_where_def BandInfo_def flip: all)
qed

lemma foldl_max_Max: "foldl max m xs = Max (insert m (set xs))" for m :: nat
proof (induction xs arbitrary: m)
  case (Cons x xs)
  have "Max (insert (max m x) (set xs)) = Max (insert m (insert x (set xs)))"
    by (cases "xs = []") (simp_all add: max.assoc)
  then show ?case using Cons by simp
qed simp

text \<open>The whole radio: what any of its bands announces.\<close>

definition any_band :: "(band_report \<Rightarrow> bool) \<Rightarrow> wiphy_report \<Rightarrow> bool" where
  "any_band P r \<longleftrightarrow> (\<exists>(i, b) \<in> set (report_bands r). P b)"

definition most_streams :: "(band_report \<Rightarrow> nat list) \<Rightarrow> wiphy_report \<Rightarrow> nat" where
  "most_streams st r = Max (insert 1 (\<Union>(i, b) \<in> set (report_bands r). set (st b)))"

lemma bands_of_capabilities:
  "is_80211n_supported (bands_of r) = any_band (\<lambda>b. band_ht b \<noteq> None) r"
  "is_80211ac_supported (bands_of r) = any_band (\<lambda>b. band_vht b \<noteq> None) r"
  "is_80211ax_supported (bands_of r) = any_band (\<lambda>b. band_he b \<noteq> None) r"
  "is_80211be_supported (bands_of r) = any_band (\<lambda>b. band_eht b \<noteq> None) r"
  "is_160_mhz_supported (bands_of r) = any_band (\<lambda>b. he_announces 3 b \<or> vht_announces 2 b) r"
  "is_80p80_mhz_supported (bands_of r) = any_band (\<lambda>b. he_announces 4 b \<or> vht_announces 3 b) r"
  "is_320_mhz_supported (bands_of r) = any_band (eht_announces 1) r"
  "max_tx_streams (bands_of r) = most_streams (\<lambda>b. tx_he b @ tx_ht_vht b) r"
  "max_rx_streams (bands_of r) = most_streams (\<lambda>b. rx_he b @ rx_ht_vht b) r"
proof -
  have flag: "sel (bands_of r) = any_band P r"
    if "\<And>r b. sel (with_band r b) = (sel b \<or> P r)" "\<not> sel BandInfo" for sel P
  proof -
    have "sel (fold with_band bs b) = (sel b \<or> (\<exists>r \<in> set bs. P r))" for bs b
      using that(1) by (induction bs arbitrary: b) auto
    with that(2) show ?thesis by (simp add: bands_of_def any_band_def case_prod_unfold)
  qed
  have streams: "sel (bands_of r) = most_streams st r"
    if "\<And>r b. sel (with_band r b) = foldl max (sel b) (st r)" "sel BandInfo = 1" for sel :: "band_info \<Rightarrow> nat" and st
  proof -
    have "sel (fold with_band bs b) = foldl max (sel b) (concat (map st bs))" for bs b
      using that(1) by (induction bs arbitrary: b) auto
    with that(2) show ?thesis by (simp add: bands_of_def most_streams_def foldl_max_Max case_prod_unfold)
  qed
  show "is_80211n_supported (bands_of r) = any_band (\<lambda>b. band_ht b \<noteq> None) r"
    "is_80211ac_supported (bands_of r) = any_band (\<lambda>b. band_vht b \<noteq> None) r"
    "is_80211ax_supported (bands_of r) = any_band (\<lambda>b. band_he b \<noteq> None) r"
    "is_80211be_supported (bands_of r) = any_band (\<lambda>b. band_eht b \<noteq> None) r"
    "is_160_mhz_supported (bands_of r) = any_band (\<lambda>b. he_announces 3 b \<or> vht_announces 2 b) r"
    "is_80p80_mhz_supported (bands_of r) = any_band (\<lambda>b. he_announces 4 b \<or> vht_announces 3 b) r"
    "is_320_mhz_supported (bands_of r) = any_band (eht_announces 1) r"
    by (rule flag, simp_all add: with_band_def BandInfo_def)+
  show "max_tx_streams (bands_of r) = most_streams (\<lambda>b. tx_he b @ tx_ht_vht b) r"
    "max_rx_streams (bands_of r) = most_streams (\<lambda>b. rx_he b @ rx_ht_vht b) r"
    by (rule streams, simp_all add: with_band_def BandInfo_def)+
qed

section \<open>A radio with two bands\<close>

definition plain_channel :: "u32 \<Rightarrow> channel" where
  "plain_channel f = \<lparr>channel_freq = f, channel_disabled = False, channel_dfs_state = None, channel_no_ir = False\<rparr>"

definition example_ht_mcs :: bytes where
  "example_ht_mcs = [255, 255] @ replicate 14 0"

definition example_band_2g :: band_report where
  "example_band_2g =
     \<lparr>band_channels = [plain_channel 2412, (plain_channel 2484)\<lparr>channel_disabled := True\<rparr>],
      band_ht = Some (1, example_ht_mcs), band_vht = None, band_he = None, band_eht = None\<rparr>"

definition example_band_5g :: band_report where
  "example_band_5g =
     \<lparr>band_channels = [plain_channel 5180, (plain_channel 5260)\<lparr>channel_dfs_state := Some 2\<rparr>],
      band_ht = None, band_vht = Some (4, [234, 255, 0, 0, 250, 255, 0, 0]), band_he = None, band_eht = None\<rparr>"

definition example_wiphy :: wiphy_report where
  "example_wiphy =
     \<lparr>report_bands = [(0, example_band_2g), (1, example_band_5g)], report_scan_ssids = 4, report_sched_scan_ssids = 16,
      report_match_sets = 8, report_scan_plans = None, report_plan_interval = None, report_plan_iterations = None,
      report_features = 0, report_ext_features = None\<rparr>"

text \<open>Radio 0 in four pieces with one of radio 1 in between, the bands in two pieces.\<close>

definition example_part :: "piece list" where
  "example_part = [(0, [(43, [4]), (123, [16]), (133, [8])]), (1, [(43, [1])]),
     (0, [(22, nested_attr 0 (band_attrs example_band_2g))])]"

definition example_final :: "piece list" where
  "example_final = [(0, [(22, nested_attr 1 (band_attrs example_band_5g)), (143, [0, 0, 0, 0])])]"

definition asked_server :: srv where
  "asked_server =
     (started_server [\<lparr>send_ok = True, polls = wiphy_dump 28 1 [(example_part, 5)] example_final 10\<rparr>])
       \<lparr>supports_split_wiphy_dump := True, band_to_wiphy_index_map := [(0, 0), (1, 0)], iface_to_wiphy_index_map := [([119], 0)]\<rparr>"

lemma example_bands_ok: "band_report_ok example_band_2g" "band_report_ok example_band_5g"
  by (simp_all add: band_report_ok_def example_ht_mcs_def example_band_2g_def example_band_5g_def)

lemma example_bands_small:
  "length (nested_attr i (band_attrs example_band_2g)) \<le> 510" "length (nested_attr i (band_attrs example_band_5g)) \<le> 510"
  using band_member(2) [OF example_bands_ok(1), of i] band_member(2) [OF example_bands_ok(2), of i]
  by (simp_all add: example_band_2g_def example_band_5g_def)

lemma example_collected:
  "dump_attr (dump_entries (example_part @ example_final)) 0 t =
     map_of [(43, tlv 43 [4]), (123, tlv 123 [16]), (133, tlv 133 [8]), (143, tlv 143 [0, 0, 0, 0]), (22, bands_attr example_wiphy)] t"
  by (auto simp: dump_attr_def dump_entries_def example_part_def example_final_def piece_entries_def merged_type_def
      mentions_def collected_def bands_attr_def example_wiphy_def nested_attr_def)

lemma length_collected: "length (collected es w t) \<le> sum_list (map (\<lambda>(_, _, p). length p) es)"
  by (induction es) (auto simp: collected_def)

lemma NLA_ALIGN_small: "NLA_ALIGN 1 = 4" "NLA_ALIGN (Suc 0) = 4" "NLA_ALIGN (Suc (Suc (Suc (Suc 0)))) = 4"
  by (simp_all add: NLA_ALIGN_def)

lemma asked_server_described: "will_describe asked_server 0 example_wiphy"
proof -
  note small = example_bands_small [of 0] example_bands_small [of 1, simplified]
  have zero: "le_bytes 4 0 = [0, 0, 0, 0]" by code_simp
  have less: "NLA_ALIGN n \<le> n + 3" for n using NLA_ALIGN_less [of n] by simp
  have "small_pieces example_part" "small_pieces example_final"
    using small less [of "length (nested_attr 0 (band_attrs example_band_2g))"]
      less [of "length (nested_attr 1 (band_attrs example_band_5g))"]
    by (simp_all add: small_pieces_def example_part_def example_final_def good_piece_def fits_def fits_message_def
        length_tlv wiphy_attr_def short_word NLA_ALIGN_small)
  moreover have "good_entries (dump_entries (example_part @ example_final))"
  proof -
    let ?es = "dump_entries (example_part @ example_final)"
    have "length (collected ?es w t) \<le> 1100" for w t
      using order_trans [OF length_collected, of ?es 1100 w t] small
      by (simp add: dump_entries_def example_part_def example_final_def piece_entries_def merged_type_def)
    moreover have "length c \<le> 1100 \<Longrightarrow> fits c" for c by (simp add: fits_def)
    ultimately have "fits (collected ?es w t)" for w t by blast
    then show ?thesis
      by (simp add: good_entries_def) (simp add: dump_entries_def example_part_def example_final_def piece_entries_def merged_type_def)
  qed
  moreover have "describes (dump_attr (dump_entries (example_part @ example_final)) 0) example_wiphy"
    unfolding describes_def example_collected
    using example_bands_ok zero
    by (simp add: example_wiphy_def word_class_def make_int_attr_tlv)
  ultimately show ?thesis
    unfolding will_describe_def
    by (intro exI [of _ 28] exI [of _ "[(example_part, 5)]"] exI [of _ example_final] exI [of _ 10] exI [of _ "[]"])
      (simp add: asked_server_def example_defs knows_family_def GetSequenceNumber_def will_answer_def)
qed

section \<open>Properties\<close>

text \<open>A list of channels is returned when it has an element.\<close>

definition answer :: "u32 list \<Rightarrow> u32 list option" where
  "answer fs = (if fs = [] then None else Some fs)"

lemma available_channels_described:
  fixes s :: "'a srv_scheme"
  assumes "will_describe s w r" "w \<noteq> -1" "GetWiphyIndexFromBand band s = w"
  shows "\<exists>s'. available_channels band sel run s = Inr (answer (sel (bands_of r)), s')"
  using GetWiphyInfo_described [OF assms(1), of run "fresh_locals s"] assms(2,3)
  by (auto simp: available_channels_def GetBandInfo_def answer_def)

text \<open>
  C8. What a process that asks for channels is told. The kernel describes the radio that serves
  the band by a split dump in any number of datagrams, with pieces of other radios in between;
  the query then returns exactly the channels of that radio in the band that are not
  disabled, in the kernel's order, and nothing when there are none. Of the 5 GHz channels those
  that need radar detection or forbid initiating radiation are told by the DFS query only.
\<close>

theorem channel_queries_answered:
  fixes s :: "'a srv_scheme"
  assumes "will_describe s w r" "w \<noteq> -1"
  shows "(GetWiphyIndexFromBand NL80211_BAND_2GHZ s = w \<longrightarrow>
      (\<exists>s'. getAvailable2gChannels run s = Inr (answer (frequencies_where in_2g r), s'))) \<and>
    (GetWiphyIndexFromBand NL80211_BAND_5GHZ s = w \<longrightarrow>
      (\<exists>s'. getAvailable5gNonDFSChannels run s = Inr (answer (frequencies_where (\<lambda>c. in_5g c \<and> \<not> restricted c) r), s')) \<and>
      (\<exists>s'. getAvailableDFSChannels run s = Inr (answer (frequencies_where (\<lambda>c. in_5g c \<and> restricted c) r), s'))) \<and>
    (GetWiphyIndexFromBand NL80211_BAND_6GHZ s = w \<longrightarrow>
      (\<exists>s'. getAvailable6gChannels run s = Inr (answer (frequencies_where in_6g r), s'))) \<and>
    (GetWiphyIndexFromBand NL80211_BAND_60GHZ s = w \<longrightarrow>
      (\<exists>s'. getAvailable60gChannels run s = Inr (answer (frequencies_where in_60g r), s')))"
  unfolding channel_queries bands_of_lists [symmetric]
  using available_channels_described [OF assms] by blast

theorem channel_queries_answered_witness:
  "\<exists>s1 s2. getAvailable2gChannels (dispatch 2) asked_server = Inr (Some [2412], s1) \<and>
     getAvailableDFSChannels (dispatch 2) asked_server = Inr (Some [5260], s2)"
proof -
  have "GetWiphyIndexFromBand NL80211_BAND_2GHZ asked_server = 0" "GetWiphyIndexFromBand NL80211_BAND_5GHZ asked_server = 0"
    by (simp_all add: GetWiphyIndexFromBand_def asked_server_def)
  moreover have "frequencies_where in_2g example_wiphy = [2412]"
    "frequencies_where (\<lambda>c. in_5g c \<and> restricted c) example_wiphy = [5260]"
    by (simp_all add: frequencies_where_def all_channels_def example_wiphy_def example_band_2g_def example_band_5g_def
        plain_channel_def band_tests)
  ultimately show ?thesis
    using channel_queries_answered [OF asked_server_described, of "dispatch 2"] by (simp add: answer_def)
qed

text \<open>
  C9. What a process that asks for the capabilities of a radio is told: a standard or a channel
  width is reported exactly when one of the bands of the radio announces it, and the numbers of
  streams are the greatest of any band and standard, at least one. For an interface that
  is not known the caller's object is left as it is and the kernel is not asked.
\<close>

theorem device_capabilities_reported:
  fixes s :: "'a srv_scheme"
  assumes "will_describe s w r" "w \<noteq> -1"
  shows "(FindWiphyIndex name s = w \<longrightarrow> (\<exists>c s'. getDeviceWiphyCapabilities run name out s = Inr (Some c, s') \<and>
      is80211nSupported c = any_band (\<lambda>b. band_ht b \<noteq> None) r \<and>
      is80211acSupported c = any_band (\<lambda>b. band_vht b \<noteq> None) r \<and>
      is80211axSupported c = any_band (\<lambda>b. band_he b \<noteq> None) r \<and>
      is80211beSupported c = any_band (\<lambda>b. band_eht b \<noteq> None) r \<and>
      is160MhzSupported c = any_band (\<lambda>b. he_announces 3 b \<or> vht_announces 2 b) r \<and>
      is80p80MhzSupported c = any_band (\<lambda>b. he_announces 4 b \<or> vht_announces 3 b) r \<and>
      is320MhzSupported c = any_band (eht_announces 1) r \<and>
      maxTxStreams c = of_nat (most_streams (\<lambda>b. tx_he b @ tx_ht_vht b) r) \<and>
      maxRxStreams c = of_nat (most_streams (\<lambda>b. rx_he b @ rx_ht_vht b) r))) \<and>
    (FindWiphyIndex name s = -1 \<longrightarrow> getDeviceWiphyCapabilities run name out s = Inr (out, s))"
  using GetWiphyInfo_described [OF assms(1), of run "fresh_locals s"] assms(2)
  by (auto simp: getDeviceWiphyCapabilities_def Let_def bands_of_capabilities)

theorem device_capabilities_reported_witness:
  "\<exists>c s'. getDeviceWiphyCapabilities (dispatch 2) [119] None asked_server = Inr (Some c, s') \<and>
     is80211nSupported c \<and> \<not> is80211axSupported c \<and> is160MhzSupported c \<and> maxRxStreams c = 3 \<and> maxTxStreams c = 2"
proof -
  have "FindWiphyIndex [119] asked_server = 0" by (simp add: FindWiphyIndex_def asked_server_def)
  with device_capabilities_reported [OF asked_server_described, of "[119]" "dispatch 2" None]
  obtain c s' where c: "getDeviceWiphyCapabilities (dispatch 2) [119] None asked_server = Inr (Some c, s')"
    "is80211nSupported c = any_band (\<lambda>b. band_ht b \<noteq> None) example_wiphy"
    "is80211axSupported c = any_band (\<lambda>b. band_he b \<noteq> None) example_wiphy"
    "is160MhzSupported c = any_band (\<lambda>b. he_announces 3 b \<or> vht_announces 2 b) example_wiphy"
    "maxTxStreams c = of_nat (most_streams (\<lambda>b. tx_he b @ tx_ht_vht b) example_wiphy)"
    "maxRxStreams c = of_nat (most_streams (\<lambda>b. rx_he b @ rx_ht_vht b) example_wiphy)" by auto
  have "tx_he example_band_2g @ tx_ht_vht example_band_2g = [2]" "tx_he example_band_5g @ tx_ht_vht example_band_5g = [2]"
    "rx_he example_band_2g @ rx_ht_vht example_band_2g = [2]" "rx_he example_band_5g @ rx_ht_vht example_band_5g = [3]"
    by code_simp+
  then have "most_streams (\<lambda>b. tx_he b @ tx_ht_vht b) example_wiphy = 2" "most_streams (\<lambda>b. rx_he b @ rx_ht_vht b) example_wiphy = 3"
    by (simp_all add: most_streams_def example_wiphy_def del: set_append)
  moreover have "any_band (\<lambda>b. band_ht b \<noteq> None) example_wiphy" "\<not> any_band (\<lambda>b. band_he b \<noteq> None) example_wiphy"
    "any_band (\<lambda>b. he_announces 3 b \<or> vht_announces 2 b) example_wiphy"
    by code_simp+
  ultimately show ?thesis using c by simp
qed

end
