(* ===== verification/Scan_Queries.thy ===== *)
theory Scan_Queries
  imports Server_Properties
begin

text \<open>
  The scan results from the kernel to the caller: what the kernel reports of the networks in range, in
  any number of datagrams, is what \<open>getScanResults\<close> hands to the process that asked.
\<close>

section \<open>The reports of a dump\<close>

text \<open>A report of the scan of an interface, and a size that is enough for it in a datagram.\<close>

definition bss_message :: "u16 \<Rightarrow> u32 \<Rightarrow> u32 \<times> bss_report \<Rightarrow> packet" where
  "bss_message f k x =
     message \<lparr>msg_type = f, msg_flags = NLM_F_MULTI, msg_seq = k, msg_pid = 0, msg_cmd = NL80211_CMD_NEW_SCAN_RESULTS\<rparr>
       [u32_attribute NL80211_ATTR_IFINDEX (fst x), nested_attr NL80211_ATTR_BSS (bss_attrs (snd x))]"

definition bss_message_size :: "u32 \<times> bss_report \<Rightarrow> nat" where
  "bss_message_size x =
     132 + length (concat (map element (report_elements (snd x)))) + 8 * length (report_chains (snd x))"

definition small_reports :: "(u32 \<times> bss_report) list \<Rightarrow> bool" where
  "small_reports xs \<longleftrightarrow> sum_list (map bss_message_size xs) \<le> 8000"

text \<open>The results for interface \<open>i\<close>: reports without an SSID or a time stamp are left out.\<close>

definition results_for :: "u32 \<Rightarrow> (u32 \<times> bss_report) list \<Rightarrow> native_scan_result list" where
  "results_for i xs = List.map_filter (\<lambda>(j, r). if j = i then expected_result r else None) xs"

lemma results_for_simps [simp]:
  "results_for i [] = []"
  "results_for i ((j, r) # xs) = (if j = i then (case expected_result r of None \<Rightarrow> [] | Some y \<Rightarrow> [y]) else []) @ results_for i xs"
  by (simp_all add: results_for_def map_filter_simps split: option.split)

lemma bss_attrs_length:
  assumes "length (report_bssid r) = 6"
  shows "length (concat (bss_attrs r)) \<le> 100 + length (concat (map element (report_elements r))) + 8 * length (report_chains r)"
proof -
  have "length (make_attr vector_class 6 (concat (map element (report_elements r)))) \<le>
      7 + length (concat (map element (report_elements r)))"
    using NLA_ALIGN_less [of "length (concat (map element (report_elements r)))"] by (simp add: length_bytes_attrs)
  moreover have "length (nested_attr 19 (chain_attrs (report_chains r))) \<le> 4 + 8 * length (report_chains r)"
    using wf_chain_attrs [of "report_chains r"] by (simp add: nested_attr_facts)
  ultimately show ?thesis
    using assms
    by (auto simp: bss_attrs_def length_word_attr [of 4] length_word_attr [of 2] length_word_attr [of 8]
        length_bytes_attrs(2) NLA_ALIGN_def split: option.split)
qed

lemma bss_message_facts:
  assumes "bss_report_ok r" "4 < unat f"
  shows "multi_reply k (bss_message f k (i, r))" "length (bss_message f k (i, r)) \<le> bss_message_size (i, r)"
    "Packet_GetAttributeValue word_class (bss_message f k (i, r)) NL80211_ATTR_IFINDEX = Inr (Some i)"
    "ParseScanResult (bss_message f k (i, r)) before = Inr (expected_result r)"
    "GetMessageType (bss_message f k (i, r)) = Inr (unat f)"
proof -
  let ?as = "[u32_attribute 3 i, nested_attr 47 (bss_attrs r)]"
  note wf = bss_attrs_wf [OF assms(1)]
  have attrs: "wf_attrs ?as" using wf by (simp add: nested_attr_wf fits_def u32_attribute_facts)
  have len: "length (concat ?as) = 12 + length (concat (bss_attrs r))"
    by (simp add: nested_attr_facts wf(1) u32_attribute_facts)
  have fits: "fits_message ?as" using wf(2) len by (simp add: fits_message_def)
  then show "multi_reply k (bss_message f k (i, r))"
    unfolding bss_message_def NLM_F_MULTI_def by (simp add: multi_message assms(2))
  show "length (bss_message f k (i, r)) \<le> bss_message_size (i, r)"
    using len bss_attrs_length [of r] assms(1) by (simp add: bss_message_def bss_message_size_def bss_report_ok_def)
  have found: "find (\<lambda>a. nla_type a = 3) ?as = Some (make_attr word_class 3 i)"
    by (simp add: u32_attribute_facts) (simp add: u32_attribute_def)
  show "Packet_GetAttributeValue word_class (bss_message f k (i, r)) NL80211_ATTR_IFINDEX = Inr (Some i)"
    using u32_attr.Packet_value_found [OF attrs found] by (simp add: bss_message_def)
  show "ParseScanResult (bss_message f k (i, r)) before = Inr (expected_result r)"
    using parse_bss_report [OF assms(1), of 47]
    by (simp add: bss_message_def ParseScanResult_def Packet_GetAttribute_message [OF attrs] nested_attr_facts u32_attribute_facts)
  show "GetMessageType (bss_message f k (i, r)) = Inr (unat f)" by (simp add: bss_message_def)
qed

lemma scan_results_loop_reports:
  assumes "\<forall>(i, r) \<in> set xs. bss_report_ok r" "knows_family f s" "4 < unat f"
  shows "scan_results_loop i (map (bss_message f k) xs) out s = Inr (out @ results_for i xs, s)"
  using assms(1)
proof (induction xs arbitrary: out)
  case (Cons x xs)
  obtain j r where x: "x = (j, r)" by (cases x)
  with Cons.prems have ok: "bss_report_ok r" by simp
  have family: "GetFamilyId s = Inr (f, s)" using assms(2) by (simp add: GetFamilyId_knows)
  show ?case
    using Cons family assms(3) bss_message_facts(3-5) [OF ok assms(3), of k j]
    by (cases "j = i") (simp_all add: x split: option.split)
qed simp

lemma GetScanResult_answered:
  fixes s :: "'a scu_scheme"
  defines "k \<equiv> fst (GetSequenceNumber s)"
  assumes "length (ReceiveBuffer s) = 8192" "knows_family f s" "4 < unat f"
    and "will_answer s (dump_polls k (map (\<lambda>(xs, u). (map (bss_message f k) xs, u)) parts) (map (bss_message f k) final) t) rest"
    and "\<forall>(i, r) \<in> set (concat (map fst parts) @ final). bss_report_ok r"
    and "\<forall>(xs, u) \<in> set parts. small_reports xs" "small_reports final" "sum_list (map snd parts) + t < 4000"
  shows "\<exists>s'. GetScanResult run i out s = Inr (True, out @ results_for i (concat (map fst parts) @ final), s')"
proof -
  let ?s = "s\<lparr>sequence_number := k\<rparr>" and ?m = "map (bss_message f k)"
  let ?p = "Packet_AddAttribute (u32_attribute 3 i) (AddFlag NLM_F_DUMP (NL80211Packet f NL80211_CMD_GET_SCAN k (own_pid s)))"
  let ?xs = "concat (map fst parts) @ final"
  have small: "length (concat (?m xs)) \<le> 8000" if "small_reports xs" "\<forall>(i, r) \<in> set xs. bss_report_ok r" for xs
  proof -
    have "length (concat (?m xs)) \<le> sum_list (map bss_message_size xs)"
      using that(2) bss_message_facts(2) [OF _ assms(4)] by (induction xs) (auto intro!: add_mono)
    then show ?thesis using that(1) by (simp add: small_reports_def)
  qed
  have "length (concat (?m xs)) \<le> 8000" if "(xs, u) \<in> set parts" for xs u
    by (rule small) (use that assms(6,7) in force)+
  moreover have "length (concat (?m final)) \<le> 8000" by (rule small) (use assms(6,8) in auto)
  moreover have "k \<noteq> 0" unfolding k_def by (rule next_sequence_nonzero)
  moreover have "GetMessageSequence ?p = Inr k" by (simp add: dump_request_sequence u32_attribute_facts)
  moreover have "\<forall>x \<in> set ?xs. multi_reply k (bss_message f k x)"
    using assms(6) bss_message_facts(1) [OF _ assms(4)] by fast
  ultimately obtain B where B: "SendMessageAndGetResponses run ?p [] ?s =
      Inr (True, ?m ?xs, request_done ?p k (?m ?xs) B ?s)"
    using dump_answered [of s ?p k "bss_message f k" parts final t rest run] assms(2,5,9) by blast
  let ?s' = "request_done ?p k (?m ?xs) B ?s"
  have known: "knows_family f ?s'" using assms(3) by (simp add: knows_family_def request_done_def)
  obtain xs where xs: "?xs = xs" by blast
  have "GetScanResult run i out s = Inr (True, out @ results_for i xs, ?s')"
    using scan_results_loop_reports [OF assms(6) known assms(4), of i k out] B unfolding xs
    by (cases "xs = []") (simp_all add: GetScanResult_def new_request_known [OF assms(3)] k_def Let_def)
  then show ?thesis unfolding xs by blast
qed

section \<open>Properties\<close>

text \<open>
  C10. Scan results are read back. When the kernel answers with its reports, cut into datagrams in any
  way, \<open>getScanResults\<close> returns one result for each report on its own interface that has an SSID and
  a time stamp, in order and after what was in the vector: BSSID, frequency, information
  elements and the SSID in them, signal, capability, association state, signal per radio chain,
  and as time stamp the boot time in microseconds, or else the later of the two TSF values. An
  invalid scanner leaves the vector as it is.
\<close>

theorem scan_results_read_back:
  fixes s :: "'a ifs_scheme"
  assumes "map_find (scanners s) x = Some sc" "length (ReceiveBuffer s) = 8192" "knows_family f s" "4 < unat f"
    and "k = fst (GetSequenceNumber s)"
    and "will_answer s (dump_polls k (map (\<lambda>(xs, u). (map (bss_message f k) xs, u)) parts) (map (bss_message f k) final) t) rest"
    and "\<forall>(i, r) \<in> set (concat (map fst parts) @ final). bss_report_ok r"
    and "\<forall>(xs, u) \<in> set parts. small_reports xs" "small_reports final" "sum_list (map snd parts) + t < 4000"
  shows "\<exists>s'. getScanResults run x out s =
    Inr (if valid sc then out @ results_for (scanner_interface_index sc) (concat (map fst parts) @ final) else out, s')"
  using GetScanResult_answered [of s f parts final t rest run "scanner_interface_index sc" out] assms
  by (auto simp: getScanResults_def the_scanner_def)

text \<open>A network without an SSID element, and one seen by another interface.\<close>

definition example_reports :: "(u32 \<times> bss_report) list" where
  "example_reports = [(5, example_report\<lparr>report_elements := [(1, [130])]\<rparr>), (6, example_report)]"

theorem scan_results_read_back_witness:
  "\<exists>y s'. getScanResults (dispatch 3) 1 []
      (running_server [\<lparr>send_ok = True, polls = dump_polls 1 [(map (bss_message 28 1) example_reports, 5)]
         [bss_message 28 1 (5, example_report)] 10\<rparr>]) = Inr ([y], s') \<and>
     scan_ssid y = [119, 105] \<and> scan_tsf y = 700 \<and> scan_associated y \<and> length (scan_chain_infos y) = 2"
proof -
  let ?s = "running_server [\<lparr>send_ok = True, polls = dump_polls 1 [(map (bss_message 28 1) example_reports, 5)]
         [bss_message 28 1 (5, example_report)] 10\<rparr>]"
  have ok: "bss_report_ok example_report" "bss_report_ok (example_report\<lparr>report_elements := [(1, [130])]\<rparr>)"
    by (simp_all add: bss_report_ok_def example_report_def short_element_def element_def)
  have small: "small_reports example_reports" "small_reports [(5, example_report)]" by code_simp+
  let ?parts = "[(example_reports, 5 :: nat)]" and ?final = "[(5, example_report)]"
  have reports: "\<forall>(i, r) \<in> set (concat (map fst ?parts) @ ?final). bss_report_ok r"
    using ok by (simp add: example_reports_def)
  have results: "results_for 5 (concat (map fst ?parts) @ ?final) = [the (expected_result example_report)]"
    by code_simp
  have result: "let y = the (expected_result example_report)
      in scan_ssid y = [119, 105] \<and> scan_tsf y = 700 \<and> scan_associated y \<and> length (scan_chain_infos y) = 2"
    by code_simp
  have "will_answer ?s (dump_polls 1 (map (\<lambda>(xs, u). (map (bss_message 28 1) xs, u)) ?parts) (map (bss_message 28 1) ?final) 10) []"
    by (simp add: will_answer_def example_defs)
  then have "\<exists>s'. getScanResults (dispatch 3) 1 [] ?s =
      Inr (if valid scanner_1 then [] @ results_for (scanner_interface_index scanner_1) (concat (map fst ?parts) @ ?final) else [], s')"
    by (rule scan_results_read_back [rotated 5])
      (use reports small in \<open>simp_all add: knows_family_def GetSequenceNumber_def example_defs\<close>)
  then show ?thesis
    using results result by (auto simp: scanner_1_def Let_def)
qed

end
