(* ===== verification/Station_Queries.thy ===== *)
theory Station_Queries
  imports Server_Properties Netlink_Properties
begin

text \<open>
  The statistics of the connection from the kernel to the caller: what the kernel reports of the
  station a client interface is associated with is what \<open>getPacketCounters\<close> and \<open>signalPoll\<close> return.
\<close>

section \<open>What the kernel reports of a station\<close>

text \<open>Bit rates are in units of 100 kbit/s; the kernel leaves out the ones it does not know.\<close>

record station_report =
  sta_tx_packets :: u32
  sta_tx_failed :: u32
  sta_signal :: u8
  sta_tx_bitrate :: "u32 option"
  sta_rx_bitrate :: "u32 option"

definition rate_attr :: "nat \<Rightarrow> u32 \<Rightarrow> attr" where
  "rate_attr t b = nested_attr t [u32_attribute NL80211_RATE_INFO_BITRATE32 b]"

definition station_attrs :: "station_report \<Rightarrow> attr list" where
  "station_attrs r =
     [make_attr word_class NL80211_STA_INFO_SIGNAL (sta_signal r)] @
     optional (rate_attr NL80211_STA_INFO_TX_BITRATE) (sta_tx_bitrate r) @
     optional (rate_attr NL80211_STA_INFO_RX_BITRATE) (sta_rx_bitrate r) @
     [make_attr word_class NL80211_STA_INFO_TX_PACKETS (sta_tx_packets r),
      make_attr word_class NL80211_STA_INFO_TX_FAILED (sta_tx_failed r)]"

definition station_message :: "u16 \<Rightarrow> u32 \<Rightarrow> station_report \<Rightarrow> packet" where
  "station_message f k r =
     message \<lparr>msg_type = f, msg_flags = 0, msg_seq = k, msg_pid = 0, msg_cmd = NL80211_CMD_NEW_STATION\<rparr>
       [nested_attr NL80211_ATTR_STA_INFO (station_attrs r)]"

text \<open>A missing rate counts as 0.\<close>

definition rate_or_0 :: "u32 option \<Rightarrow> u32" where
  "rate_or_0 r = (case r of None \<Rightarrow> 0 | Some b \<Rightarrow> b)"

lemma rate_attr_facts:
  "wf_attr (rate_attr t b)" "nla_type (rate_attr t b) = t mod 65536" "length (rate_attr t b) = 12"
  by (simp_all add: rate_attr_def nested_attr_facts nested_attr_wf u32_attribute_facts fits_def)

lemma bitrate_of_report:
  assumes "wf_attrs as" "find (\<lambda>a. nla_type a = t) as = map_option (rate_attr t) r"
  shows "bitrate_of (nested_attr i as) t = Inr (rate_or_0 r)"
proof (cases r)
  case (Some b)
  have wf: "wf_attrs [u32_attribute 5 b]" by (simp add: u32_attribute_facts)
  have "find (\<lambda>a. nla_type a = 5) [u32_attribute 5 b] = Some (make_attr word_class 5 b)"
    by (simp add: u32_attribute_facts) (simp add: u32_attribute_def)
  from u32_attr.GetAttributeValue_found [OF wf this]
  have "GetAttributeValue word_class (rate_attr t b) 5 = Inr (Some b)" by (simp add: rate_attr_def)
  with Some show ?thesis
    using assms by (simp add: bitrate_of_def GetNestedAttribute_nested rate_or_0_def)
qed (use assms in \<open>simp add: bitrate_of_def GetNestedAttribute_nested rate_or_0_def\<close>)

lemma station_attrs_facts:
  "wf_attrs (station_attrs r)" "length (concat (station_attrs r)) \<le> 100"
  "find (\<lambda>a. nla_type a = 7) (station_attrs r) = Some (make_attr word_class 7 (sta_signal r))"
  "find (\<lambda>a. nla_type a = 8) (station_attrs r) = map_option (rate_attr 8) (sta_tx_bitrate r)"
  "find (\<lambda>a. nla_type a = 14) (station_attrs r) = map_option (rate_attr 14) (sta_rx_bitrate r)"
  "find (\<lambda>a. nla_type a = 10) (station_attrs r) = Some (make_attr word_class 10 (sta_tx_packets r))"
  "find (\<lambda>a. nla_type a = 12) (station_attrs r) = Some (make_attr word_class 12 (sta_tx_failed r))"
  by (simp_all add: station_attrs_def rate_attr_facts u8_attr.wf_make u32_attr.wf_make u8_attr.type_make u32_attr.type_make
      length_word_attr [of 1] length_word_attr [of 4] NLA_ALIGN_def split: option.split)

lemma parse_station_report:
  "parse_station_info (station_message f k r) =
     Inr (Some \<lparr>station_tx_packets = sta_tx_packets r, station_tx_failed = sta_tx_failed r,
                station_tx_bitrate = rate_or_0 (sta_tx_bitrate r), current_rssi = sta_signal r,
                station_rx_bitrate = rate_or_0 (sta_rx_bitrate r)\<rparr>)"
proof -
  let ?b = "nested_attr 21 (station_attrs r)"
  note wf = station_attrs_facts(1) [of r] and found = station_attrs_facts(3-) [of r]
  have attrs: "wf_attrs [?b]" using wf station_attrs_facts(2) [of r] by (simp add: nested_attr_wf fits_def)
  have members: "GetAttributeValue word_class ?b 10 = Inr (Some (sta_tx_packets r))"
    "GetAttributeValue word_class ?b 12 = Inr (Some (sta_tx_failed r))"
    "GetAttributeValue word_class ?b 7 = Inr (Some (sta_signal r))"
    using u32_attr.GetAttributeValue_found [OF wf found(4)] u32_attr.GetAttributeValue_found [OF wf found(5)]
      u8_attr.GetAttributeValue_found [OF wf found(1)] by simp_all
  show ?thesis
    by (simp add: parse_station_info_def station_message_def Packet_GetAttribute_message [OF attrs] nested_attr_facts members
        bitrate_of_report [OF wf found(2)] bitrate_of_report [OF wf found(3)])
qed

lemma station_message_single:
  assumes "4 < unat f"
  shows "single_reply k (station_message f k r)" "length (station_message f k r) \<le> 8192"
    "GetMessageType (station_message f k r) = Inr (unat f)"
  using assms station_attrs_facts(1,2) [of r]
  by (auto simp: single_reply_def station_message_def fits_message_def IsMulti_message nested_attr_facts intro!: framed_message)

text \<open>The kernel answers the next request with the report, or refuses it with an error.\<close>

definition station_answer :: "u16 \<Rightarrow> u32 \<Rightarrow> station_report option \<Rightarrow> packet \<Rightarrow> bool" where
  "station_answer f k r m \<longleftrightarrow>
     (case r of
        Some r \<Rightarrow> m = station_message f k r
      | None \<Rightarrow> single_reply k m \<and> length m \<le> 8192 \<and> GetMessageType m = Inr NLMSG_ERROR)"

lemma GetStationInfo_answered:
  fixes s :: "'a nlm_scheme"
  defines "k \<equiv> fst (GetSequenceNumber s)"
  assumes "length (ReceiveBuffer s) = 8192" "knows_family f s" "4 < unat f" "length mac = 6" "t < 4000"
    and "will_answer s (PollReady (ReadBytes m) t # ps) rest" "station_answer f k r m"
  shows "\<exists>p B. GetStationInfo run idx mac s =
    Inr (map_option (\<lambda>r. \<lparr>station_tx_packets = sta_tx_packets r, station_tx_failed = sta_tx_failed r,
                station_tx_bitrate = rate_or_0 (sta_tx_bitrate r), current_rssi = sta_signal r,
                station_rx_bitrate = rate_or_0 (sta_rx_bitrate r)\<rparr>) r,
      request_done p k [m] B (s\<lparr>sequence_number := k\<rparr>))"
proof -
  let ?s = "s\<lparr>sequence_number := k\<rparr>"
  let ?p = "Packet_AddAttribute (make_attr mac_class NL80211_ATTR_MAC mac)
     (Packet_AddAttribute (u32_attribute NL80211_ATTR_IFINDEX idx) (NL80211Packet f NL80211_CMD_GET_STATION k (own_pid s)))"
  have "GetMessageSequence ?p = Inr k"
    using assms(5)
    by (simp add: NL80211Packet_message Packet_AddAttribute_message fits_message_def u32_attribute_facts mac_attr.wf_make
        length_bytes_attrs NLA_ALIGN_def)
  moreover have "k \<noteq> 0" unfolding k_def by (rule next_sequence_nonzero)
  moreover have "single_reply k m" "length m \<le> 8192" "(GetMessageType m = Inr NLMSG_ERROR) = (r = None)"
    using assms(8) station_message_single [OF assms(4)] assms(4) by (auto simp: station_answer_def split: option.splits)
  ultimately obtain B where "SendMessageAndGetSingleResponse run ?p ?s =
      Inr (if r = None then None else Some m, request_done ?p k [m] B ?s)"
    using SingleResponse_single [of ?s ?p k m t ps rest run] assms(2,6,7) by (auto simp: will_answer_def)
  then show ?thesis
    using parse_station_report assms(8)
    by (intro exI [of _ ?p] exI [of _ B])
      (auto simp: GetStationInfo_def new_request_known [OF assms(3)] k_def Let_def station_answer_def split: option.split)
qed

section \<open>Properties\<close>

text \<open>
  C18. The statistics of a connection are those of the kernel. When the kernel answers with its report
  of the station, \<open>getPacketCounters\<close> appends the numbers of sent and of failed packets, and
  \<open>signalPoll\<close>, on an associated interface, the signal, the rate to and from the station in Mbit/s, 0 for
  a rate that is not reported, and the associated frequency between them. When the kernel refuses, or
  for \<open>signalPoll\<close> when the interface is not associated, the caller's vector stays as it is.
\<close>

theorem station_report_returned:
  fixes s :: "'a ifs_scheme"
  assumes "map_find (client_binders s) b = Some \<lparr>client_impl = Some i\<rparr>" "map_find (clients s) i = Some c"
    and "length (ReceiveBuffer s) = 8192" "knows_family f s" "4 < unat f" "length (associated_bssid c) = 6" "t < 4000"
    and "will_answer s (PollReady (ReadBytes m) t # ps) rest" "station_answer f (fst (GetSequenceNumber s)) answer m"
  shows "(\<exists>s'. getPacketCounters run b out s =
      Inr (case answer of None \<Rightarrow> out | Some r \<Rightarrow> out @ [sint (sta_tx_packets r), sint (sta_tx_failed r)], s')) \<and>
    (\<exists>s'. signalPoll run b out s =
      Inr (case answer of
             Some r \<Rightarrow> if is_associated c
               then out @ [sint (sta_signal r), sint (rate_or_0 (sta_tx_bitrate r) div 10), sint (associate_freq c),
                           sint (rate_or_0 (sta_rx_bitrate r) div 10)]
               else out
           | None \<Rightarrow> out, s'))"
proof -
  obtain p B where "GetStationInfo run (client_interface_index c) (associated_bssid c) s =
      Inr (map_option (\<lambda>r. \<lparr>station_tx_packets = sta_tx_packets r, station_tx_failed = sta_tx_failed r,
                station_tx_bitrate = rate_or_0 (sta_tx_bitrate r), current_rssi = sta_signal r,
                station_rx_bitrate = rate_or_0 (sta_rx_bitrate r)\<rparr>) answer,
        request_done p (fst (GetSequenceNumber s)) [m] B (s\<lparr>sequence_number := fst (GetSequenceNumber s)\<rparr>))"
    using GetStationInfo_answered [OF assms(3-9)] by blast
  then show ?thesis
    using assms(1,2)
    by (auto simp: getPacketCounters_def GetPacketCounters_def signalPoll_def SignalPoll_def the_client_binder_def the_client_def
        request_done_def split: option.split)
qed

definition example_station :: station_report where
  "example_station =
     \<lparr>sta_tx_packets = 1200, sta_tx_failed = 3, sta_signal = -60, sta_tx_bitrate = Some 866, sta_rx_bitrate = None\<rparr>"

definition connected_server :: "exchange list \<Rightarrow> srv" where
  "connected_server script =
     (running_server script)\<lparr>clients := [(1, client_1\<lparr>is_associated := True, associate_freq := 5180\<rparr>)]\<rparr>"

theorem station_report_returned_witness:
  "(\<exists>s'. signalPoll (dispatch 3) 1 []
      (connected_server [\<lparr>send_ok = True, polls = [PollReady (ReadBytes (station_message 28 1 example_station)) 3]\<rparr>]) =
     Inr ([-60, 86, 5180, 0], s')) \<and>
   (\<exists>s'. signalPoll (dispatch 3) 1 [7]
      (connected_server [\<lparr>send_ok = True, polls = [PollReady (ReadBytes (error_reply 1)) 3]\<rparr>]) = Inr ([7], s'))"
proof -
  let ?s = "\<lambda>m. connected_server [\<lparr>send_ok = True, polls = [PollReady (ReadBytes m) 3]\<rparr>]"
  let ?c = "client_1\<lparr>is_associated := True, associate_freq := 5180\<rparr>"
  have state: "map_find (client_binders (?s m)) 1 = Some \<lparr>client_impl = Some 1\<rparr>" "map_find (clients (?s m)) 1 = Some ?c"
      "length (ReceiveBuffer (?s m)) = 8192" "knows_family 28 (?s m)" "4 < unat (28 :: u16)" "length (associated_bssid ?c) = 6"
      "(3 :: nat) < 4000" "will_answer (?s m) (PollReady (ReadBytes m) 3 # []) []" "fst (GetSequenceNumber (?s m)) = 1" for m
    by (simp_all add: connected_server_def example_defs knows_family_def will_answer_def GetSequenceNumber_def client_1_def
        blank_client_def)
  have "station_answer 28 1 (Some example_station) (station_message 28 1 example_station)" by (simp add: station_answer_def)
  moreover have "station_answer 28 1 None (error_reply 1)"
    using single_ack(2) ack_codes(3) by (simp add: station_answer_def length_replies)
  ultimately show ?thesis
    using station_report_returned [OF state(1-8), of "station_message 28 1 example_station" "Some example_station" "dispatch 3" "[]"]
      station_report_returned [OF state(1-8), of "error_reply 1" None "dispatch 3" "[7]"]
    by (simp add: state(9) example_station_def rate_or_0_def)
qed

end
