(* ===== verification/Nl80211_Enums.thy ===== *)
theory Nl80211_Enums
  imports Nl80211_Constants
begin

text \<open>
  The enumerations of \<open>net/kernel-header-latest/nl80211.h\<close> from which wificond takes its
  numbers, entry by entry as the header declares them, and the rule of C that numbers them. The
  lemmas show that the value of every constant of \<open>Nl80211_Constants\<close> is the one that the
  compiler gives to the enumerator of the same name. A declaration of more than about 140 lines is
  a concatenation of pieces.
\<close>

section \<open>How C numbers an enumeration\<close>

text \<open>
  An enumerator has no value of its own, a power of two (\<open>1 << n\<close>), the value of an
  earlier one, or the predecessor of that.
\<close>

datatype enumerator = Plain string | Shifted string nat | Equals string string | Before string string

primrec enumerator_name :: "enumerator \<Rightarrow> string" where
  "enumerator_name (Plain x) = x"
| "enumerator_name (Shifted x k) = x"
| "enumerator_name (Equals x y) = x"
| "enumerator_name (Before x y) = x"

text \<open>The value of an enumerator after those of \<open>env\<close>; a name that is not declared has none.\<close>

fun next_value :: "(string \<times> nat) list \<Rightarrow> nat" where
  "next_value [] = 0"
| "next_value ((x, v) # env) = v + 1"

primrec enumerator_value :: "enumerator \<Rightarrow> (string \<times> nat) list \<Rightarrow> nat option" where
  "enumerator_value (Plain x) env = Some (next_value env)"
| "enumerator_value (Shifted x k) env = Some (2 ^ k)"
| "enumerator_value (Equals x y) env = map_of env y"
| "enumerator_value (Before x y) env = map_option (\<lambda>v. v - 1) (map_of env y)"

text \<open>The last enumerator comes first in the result.\<close>

primrec number_enum :: "enumerator list \<Rightarrow> (string \<times> nat) list \<Rightarrow> (string \<times> nat) list option" where
  "number_enum [] env = Some env"
| "number_enum (e # es) env =
     (case enumerator_value e env of
        None \<Rightarrow> None
      | Some v \<Rightarrow> number_enum es ((enumerator_name e, v) # env))"

text \<open>
  A piece of an enumeration that starts at the value \<open>n\<close> is well formed, gives these values to
  these names, and the enumerator after it would have the value \<open>m\<close>.
\<close>

definition piece :: "nat \<Rightarrow> enumerator list \<Rightarrow> (string \<times> nat) list \<Rightarrow> nat \<Rightarrow> bool" where
  "piece n es wanted m \<longleftrightarrow>
     (\<forall>env. next_value env = n \<longrightarrow>
       (\<exists>env'. number_enum es env = Some env' \<and> set wanted \<subseteq> set env' \<and> next_value env' = m))"

lemma number_enum_append:
  "number_enum (as @ bs) env = (case number_enum as env of None \<Rightarrow> None | Some env' \<Rightarrow> number_enum bs env')"
  by (induction as arbitrary: env) (auto split: option.split)

lemma number_enum_keeps: "number_enum es env = Some env' \<Longrightarrow> set env \<subseteq> set env'"
  by (induction es arbitrary: env) (force split: option.splits)+

lemma piece_append [intro]:
  assumes "piece n as us k" "piece k bs vs m"
  shows "piece n (as @ bs) (us @ vs) m"
  unfolding piece_def
proof (intro allI impI)
  fix env assume "next_value env = n"
  with assms(1) obtain env' where a: "number_enum as env = Some env'" "set us \<subseteq> set env'" "next_value env' = k"
    by (auto simp: piece_def)
  with assms(2) obtain env'' where b: "number_enum bs env' = Some env''" "set vs \<subseteq> set env''" "next_value env'' = m"
    by (auto simp: piece_def)
  with a number_enum_keeps [OF b(1)]
  show "\<exists>env'. number_enum (as @ bs) env = Some env' \<and> set (us @ vs) \<subseteq> set env' \<and> next_value env' = m"
    by (auto simp: number_enum_append)
qed

text \<open>The values that a whole enumeration gives to its names.\<close>

definition gives :: "enumerator list \<Rightarrow> (string \<times> nat) list \<Rightarrow> bool" where
  "gives es wanted \<longleftrightarrow> (case number_enum es [] of None \<Rightarrow> False | Some env \<Rightarrow> set wanted \<subseteq> set env)"

lemma gives_piece: "piece 0 es wanted m \<Longrightarrow> gives es wanted"
  by (auto simp: piece_def gives_def dest!: spec [of _ "[]"])

section \<open>The enumerations\<close>

definition nl80211_commands_1 :: "enumerator list" where
  "nl80211_commands_1 =
    [Plain ''NL80211_CMD_UNSPEC'', Plain ''NL80211_CMD_GET_WIPHY'', Plain ''NL80211_CMD_SET_WIPHY'',
     Plain ''NL80211_CMD_NEW_WIPHY'', Plain ''NL80211_CMD_DEL_WIPHY'', Plain ''NL80211_CMD_GET_INTERFACE'',
     Plain ''NL80211_CMD_SET_INTERFACE'', Plain ''NL80211_CMD_NEW_INTERFACE'',
     Plain ''NL80211_CMD_DEL_INTERFACE'', Plain ''NL80211_CMD_GET_KEY'', Plain ''NL80211_CMD_SET_KEY'',
     Plain ''NL80211_CMD_NEW_KEY'', Plain ''NL80211_CMD_DEL_KEY'', Plain ''NL80211_CMD_GET_BEACON'',
     Plain ''NL80211_CMD_SET_BEACON'', Plain ''NL80211_CMD_START_AP'',
     Equals ''NL80211_CMD_NEW_BEACON'' ''NL80211_CMD_START_AP'', Plain ''NL80211_CMD_STOP_AP'',
     Equals ''NL80211_CMD_DEL_BEACON'' ''NL80211_CMD_STOP_AP'', Plain ''NL80211_CMD_GET_STATION'',
     Plain ''NL80211_CMD_SET_STATION'', Plain ''NL80211_CMD_NEW_STATION'',
     Plain ''NL80211_CMD_DEL_STATION'', Plain ''NL80211_CMD_GET_MPATH'', Plain ''NL80211_CMD_SET_MPATH'',
     Plain ''NL80211_CMD_NEW_MPATH'', Plain ''NL80211_CMD_DEL_MPATH'', Plain ''NL80211_CMD_SET_BSS'',
     Plain ''NL80211_CMD_SET_REG'', Plain ''NL80211_CMD_REQ_SET_REG'',
     Plain ''NL80211_CMD_GET_MESH_CONFIG'', Plain ''NL80211_CMD_SET_MESH_CONFIG'',
     Plain ''NL80211_CMD_SET_MGMT_EXTRA_IE'', Plain ''NL80211_CMD_GET_REG'',
     Plain ''NL80211_CMD_GET_SCAN'', Plain ''NL80211_CMD_TRIGGER_SCAN'',
     Plain ''NL80211_CMD_NEW_SCAN_RESULTS'', Plain ''NL80211_CMD_SCAN_ABORTED'',
     Plain ''NL80211_CMD_REG_CHANGE'']"

definition nl80211_commands_2 :: "enumerator list" where
  "nl80211_commands_2 =
    [Plain ''NL80211_CMD_AUTHENTICATE'', Plain ''NL80211_CMD_ASSOCIATE'',
     Plain ''NL80211_CMD_DEAUTHENTICATE'', Plain ''NL80211_CMD_DISASSOCIATE'',
     Plain ''NL80211_CMD_MICHAEL_MIC_FAILURE'', Plain ''NL80211_CMD_REG_BEACON_HINT'',
     Plain ''NL80211_CMD_JOIN_IBSS'', Plain ''NL80211_CMD_LEAVE_IBSS'', Plain ''NL80211_CMD_TESTMODE'',
     Plain ''NL80211_CMD_CONNECT'', Plain ''NL80211_CMD_ROAM'', Plain ''NL80211_CMD_DISCONNECT'',
     Plain ''NL80211_CMD_SET_WIPHY_NETNS'', Plain ''NL80211_CMD_GET_SURVEY'',
     Plain ''NL80211_CMD_NEW_SURVEY_RESULTS'', Plain ''NL80211_CMD_SET_PMKSA'',
     Plain ''NL80211_CMD_DEL_PMKSA'', Plain ''NL80211_CMD_FLUSH_PMKSA'',
     Plain ''NL80211_CMD_REMAIN_ON_CHANNEL'', Plain ''NL80211_CMD_CANCEL_REMAIN_ON_CHANNEL'',
     Plain ''NL80211_CMD_SET_TX_BITRATE_MASK'', Plain ''NL80211_CMD_REGISTER_FRAME'',
     Equals ''NL80211_CMD_REGISTER_ACTION'' ''NL80211_CMD_REGISTER_FRAME'', Plain ''NL80211_CMD_FRAME'',
     Equals ''NL80211_CMD_ACTION'' ''NL80211_CMD_FRAME'', Plain ''NL80211_CMD_FRAME_TX_STATUS'',
     Equals ''NL80211_CMD_ACTION_TX_STATUS'' ''NL80211_CMD_FRAME_TX_STATUS'',
     Plain ''NL80211_CMD_SET_POWER_SAVE'', Plain ''NL80211_CMD_GET_POWER_SAVE'',
     Plain ''NL80211_CMD_SET_CQM'', Plain ''NL80211_CMD_NOTIFY_CQM'', Plain ''NL80211_CMD_SET_CHANNEL'',
     Plain ''NL80211_CMD_SET_WDS_PEER'', Plain ''NL80211_CMD_FRAME_WAIT_CANCEL'',
     Plain ''NL80211_CMD_JOIN_MESH'', Plain ''NL80211_CMD_LEAVE_MESH'',
     Plain ''NL80211_CMD_UNPROT_DEAUTHENTICATE'', Plain ''NL80211_CMD_UNPROT_DISASSOCIATE'',
     Plain ''NL80211_CMD_NEW_PEER_CANDIDATE'']"

definition nl80211_commands_3 :: "enumerator list" where
  "nl80211_commands_3 =
    [Plain ''NL80211_CMD_GET_WOWLAN'', Plain ''NL80211_CMD_SET_WOWLAN'',
     Plain ''NL80211_CMD_START_SCHED_SCAN'', Plain ''NL80211_CMD_STOP_SCHED_SCAN'',
     Plain ''NL80211_CMD_SCHED_SCAN_RESULTS'', Plain ''NL80211_CMD_SCHED_SCAN_STOPPED'',
     Plain ''NL80211_CMD_SET_REKEY_OFFLOAD'', Plain ''NL80211_CMD_PMKSA_CANDIDATE'',
     Plain ''NL80211_CMD_TDLS_OPER'', Plain ''NL80211_CMD_TDLS_MGMT'',
     Plain ''NL80211_CMD_UNEXPECTED_FRAME'', Plain ''NL80211_CMD_PROBE_CLIENT'',
     Plain ''NL80211_CMD_REGISTER_BEACONS'', Plain ''NL80211_CMD_UNEXPECTED_4ADDR_FRAME'',
     Plain ''NL80211_CMD_SET_NOACK_MAP'', Plain ''NL80211_CMD_CH_SWITCH_NOTIFY'',
     Plain ''NL80211_CMD_START_P2P_DEVICE'', Plain ''NL80211_CMD_STOP_P2P_DEVICE'',
     Plain ''NL80211_CMD_CONN_FAILED'', Plain ''NL80211_CMD_SET_MCAST_RATE'',
     Plain ''NL80211_CMD_SET_MAC_ACL'', Plain ''NL80211_CMD_RADAR_DETECT'',
     Plain ''NL80211_CMD_GET_PROTOCOL_FEATURES'', Plain ''NL80211_CMD_UPDATE_FT_IES'',
     Plain ''NL80211_CMD_FT_EVENT'', Plain ''NL80211_CMD_CRIT_PROTOCOL_START'',
     Plain ''NL80211_CMD_CRIT_PROTOCOL_STOP'', Plain ''NL80211_CMD_GET_COALESCE'',
     Plain ''NL80211_CMD_SET_COALESCE'', Plain ''NL80211_CMD_CHANNEL_SWITCH'',
     Plain ''NL80211_CMD_VENDOR'', Plain ''NL80211_CMD_SET_QOS_MAP'', Plain ''NL80211_CMD_ADD_TX_TS'',
     Plain ''NL80211_CMD_DEL_TX_TS'', Plain ''NL80211_CMD_GET_MPP'', Plain ''NL80211_CMD_JOIN_OCB'',
     Plain ''NL80211_CMD_LEAVE_OCB'', Plain ''NL80211_CMD_CH_SWITCH_STARTED_NOTIFY'',
     Plain ''NL80211_CMD_TDLS_CHANNEL_SWITCH'']"

definition nl80211_commands_4 :: "enumerator list" where
  "nl80211_commands_4 =
    [Plain ''NL80211_CMD_TDLS_CANCEL_CHANNEL_SWITCH'', Plain ''NL80211_CMD_WIPHY_REG_CHANGE'',
     Plain ''NL80211_CMD_ABORT_SCAN'', Plain ''NL80211_CMD_START_NAN'', Plain ''NL80211_CMD_STOP_NAN'',
     Plain ''NL80211_CMD_ADD_NAN_FUNCTION'', Plain ''NL80211_CMD_DEL_NAN_FUNCTION'',
     Plain ''NL80211_CMD_CHANGE_NAN_CONFIG'', Plain ''NL80211_CMD_NAN_MATCH'',
     Plain ''NL80211_CMD_SET_MULTICAST_TO_UNICAST'', Plain ''NL80211_CMD_UPDATE_CONNECT_PARAMS'',
     Plain ''NL80211_CMD_SET_PMK'', Plain ''NL80211_CMD_DEL_PMK'', Plain ''NL80211_CMD_PORT_AUTHORIZED'',
     Plain ''NL80211_CMD_RELOAD_REGDB'', Plain ''NL80211_CMD_EXTERNAL_AUTH'',
     Plain ''NL80211_CMD_STA_OPMODE_CHANGED'', Plain ''NL80211_CMD_CONTROL_PORT_FRAME'',
     Plain ''NL80211_CMD_GET_FTM_RESPONDER_STATS'', Plain ''NL80211_CMD_PEER_MEASUREMENT_START'',
     Plain ''NL80211_CMD_PEER_MEASUREMENT_RESULT'', Plain ''NL80211_CMD_PEER_MEASUREMENT_COMPLETE'',
     Plain ''NL80211_CMD_NOTIFY_RADAR'', Plain ''NL80211_CMD_UPDATE_OWE_INFO'',
     Plain ''NL80211_CMD_PROBE_MESH_LINK'', Plain ''NL80211_CMD_SET_TID_CONFIG'',
     Plain ''NL80211_CMD_UNPROT_BEACON'', Plain ''NL80211_CMD_CONTROL_PORT_FRAME_TX_STATUS'',
     Plain ''NL80211_CMD_SET_SAR_SPECS'', Plain ''NL80211_CMD_OBSS_COLOR_COLLISION'',
     Plain ''NL80211_CMD_COLOR_CHANGE_REQUEST'', Plain ''NL80211_CMD_COLOR_CHANGE_STARTED'',
     Plain ''NL80211_CMD_COLOR_CHANGE_ABORTED'', Plain ''NL80211_CMD_COLOR_CHANGE_COMPLETED'',
     Plain ''NL80211_CMD_SET_FILS_AAD'', Plain ''NL80211_CMD_ASSOC_COMEBACK'',
     Plain ''__NL80211_CMD_AFTER_LAST'', Before ''NL80211_CMD_MAX'' ''__NL80211_CMD_AFTER_LAST'']"

definition nl80211_commands :: "enumerator list" where
  "nl80211_commands = nl80211_commands_1 @ nl80211_commands_2 @ nl80211_commands_3 @ nl80211_commands_4"

definition nl80211_attrs_1 :: "enumerator list" where
  "nl80211_attrs_1 =
    [Plain ''NL80211_ATTR_UNSPEC'', Plain ''NL80211_ATTR_WIPHY'', Plain ''NL80211_ATTR_WIPHY_NAME'',
     Plain ''NL80211_ATTR_IFINDEX'', Plain ''NL80211_ATTR_IFNAME'', Plain ''NL80211_ATTR_IFTYPE'',
     Plain ''NL80211_ATTR_MAC'', Plain ''NL80211_ATTR_KEY_DATA'', Plain ''NL80211_ATTR_KEY_IDX'',
     Plain ''NL80211_ATTR_KEY_CIPHER'', Plain ''NL80211_ATTR_KEY_SEQ'', Plain ''NL80211_ATTR_KEY_DEFAULT'',
     Plain ''NL80211_ATTR_BEACON_INTERVAL'', Plain ''NL80211_ATTR_DTIM_PERIOD'',
     Plain ''NL80211_ATTR_BEACON_HEAD'', Plain ''NL80211_ATTR_BEACON_TAIL'',
     Plain ''NL80211_ATTR_STA_AID'', Plain ''NL80211_ATTR_STA_FLAGS'',
     Plain ''NL80211_ATTR_STA_LISTEN_INTERVAL'', Plain ''NL80211_ATTR_STA_SUPPORTED_RATES'',
     Plain ''NL80211_ATTR_STA_VLAN'', Plain ''NL80211_ATTR_STA_INFO'', Plain ''NL80211_ATTR_WIPHY_BANDS'',
     Plain ''NL80211_ATTR_MNTR_FLAGS'', Plain ''NL80211_ATTR_MESH_ID'',
     Plain ''NL80211_ATTR_STA_PLINK_ACTION'', Plain ''NL80211_ATTR_MPATH_NEXT_HOP'',
     Plain ''NL80211_ATTR_MPATH_INFO'', Plain ''NL80211_ATTR_BSS_CTS_PROT'',
     Plain ''NL80211_ATTR_BSS_SHORT_PREAMBLE'', Plain ''NL80211_ATTR_BSS_SHORT_SLOT_TIME'',
     Plain ''NL80211_ATTR_HT_CAPABILITY'', Plain ''NL80211_ATTR_SUPPORTED_IFTYPES'',
     Plain ''NL80211_ATTR_REG_ALPHA2'', Plain ''NL80211_ATTR_REG_RULES'',
     Plain ''NL80211_ATTR_MESH_CONFIG'', Plain ''NL80211_ATTR_BSS_BASIC_RATES'',
     Plain ''NL80211_ATTR_WIPHY_TXQ_PARAMS'', Plain ''NL80211_ATTR_WIPHY_FREQ'',
     Plain ''NL80211_ATTR_WIPHY_CHANNEL_TYPE'']"

definition nl80211_attrs_2 :: "enumerator list" where
  "nl80211_attrs_2 =
    [Plain ''NL80211_ATTR_KEY_DEFAULT_MGMT'', Plain ''NL80211_ATTR_MGMT_SUBTYPE'',
     Plain ''NL80211_ATTR_IE'', Plain ''NL80211_ATTR_MAX_NUM_SCAN_SSIDS'',
     Plain ''NL80211_ATTR_SCAN_FREQUENCIES'', Plain ''NL80211_ATTR_SCAN_SSIDS'',
     Plain ''NL80211_ATTR_GENERATION'', Plain ''NL80211_ATTR_BSS'', Plain ''NL80211_ATTR_REG_INITIATOR'',
     Plain ''NL80211_ATTR_REG_TYPE'', Plain ''NL80211_ATTR_SUPPORTED_COMMANDS'',
     Plain ''NL80211_ATTR_FRAME'', Plain ''NL80211_ATTR_SSID'', Plain ''NL80211_ATTR_AUTH_TYPE'',
     Plain ''NL80211_ATTR_REASON_CODE'', Plain ''NL80211_ATTR_KEY_TYPE'',
     Plain ''NL80211_ATTR_MAX_SCAN_IE_LEN'', Plain ''NL80211_ATTR_CIPHER_SUITES'',
     Plain ''NL80211_ATTR_FREQ_BEFORE'', Plain ''NL80211_ATTR_FREQ_AFTER'',
     Plain ''NL80211_ATTR_FREQ_FIXED'', Plain ''NL80211_ATTR_WIPHY_RETRY_SHORT'',
     Plain ''NL80211_ATTR_WIPHY_RETRY_LONG'', Plain ''NL80211_ATTR_WIPHY_FRAG_THRESHOLD'',
     Plain ''NL80211_ATTR_WIPHY_RTS_THRESHOLD'', Plain ''NL80211_ATTR_TIMED_OUT'',
     Plain ''NL80211_ATTR_USE_MFP'', Plain ''NL80211_ATTR_STA_FLAGS2'',
     Plain ''NL80211_ATTR_CONTROL_PORT'', Plain ''NL80211_ATTR_TESTDATA'', Plain ''NL80211_ATTR_PRIVACY'',
     Plain ''NL80211_ATTR_DISCONNECTED_BY_AP'', Plain ''NL80211_ATTR_STATUS_CODE'',
     Plain ''NL80211_ATTR_CIPHER_SUITES_PAIRWISE'', Plain ''NL80211_ATTR_CIPHER_SUITE_GROUP'',
     Plain ''NL80211_ATTR_WPA_VERSIONS'', Plain ''NL80211_ATTR_AKM_SUITES'', Plain ''NL80211_ATTR_REQ_IE'',
     Plain ''NL80211_ATTR_RESP_IE'', Plain ''NL80211_ATTR_PREV_BSSID'']"

definition nl80211_attrs_3 :: "enumerator list" where
  "nl80211_attrs_3 =
    [Plain ''NL80211_ATTR_KEY'', Plain ''NL80211_ATTR_KEYS'', Plain ''NL80211_ATTR_PID'',
     Plain ''NL80211_ATTR_4ADDR'', Plain ''NL80211_ATTR_SURVEY_INFO'', Plain ''NL80211_ATTR_PMKID'',
     Plain ''NL80211_ATTR_MAX_NUM_PMKIDS'', Plain ''NL80211_ATTR_DURATION'', Plain ''NL80211_ATTR_COOKIE'',
     Plain ''NL80211_ATTR_WIPHY_COVERAGE_CLASS'', Plain ''NL80211_ATTR_TX_RATES'',
     Plain ''NL80211_ATTR_FRAME_MATCH'', Plain ''NL80211_ATTR_ACK'', Plain ''NL80211_ATTR_PS_STATE'',
     Plain ''NL80211_ATTR_CQM'', Plain ''NL80211_ATTR_LOCAL_STATE_CHANGE'',
     Plain ''NL80211_ATTR_AP_ISOLATE'', Plain ''NL80211_ATTR_WIPHY_TX_POWER_SETTING'',
     Plain ''NL80211_ATTR_WIPHY_TX_POWER_LEVEL'', Plain ''NL80211_ATTR_TX_FRAME_TYPES'',
     Plain ''NL80211_ATTR_RX_FRAME_TYPES'', Plain ''NL80211_ATTR_FRAME_TYPE'',
     Plain ''NL80211_ATTR_CONTROL_PORT_ETHERTYPE'', Plain ''NL80211_ATTR_CONTROL_PORT_NO_ENCRYPT'',
     Plain ''NL80211_ATTR_SUPPORT_IBSS_RSN'', Plain ''NL80211_ATTR_WIPHY_ANTENNA_TX'',
     Plain ''NL80211_ATTR_WIPHY_ANTENNA_RX'', Plain ''NL80211_ATTR_MCAST_RATE'',
     Plain ''NL80211_ATTR_OFFCHANNEL_TX_OK'', Plain ''NL80211_ATTR_BSS_HT_OPMODE'',
     Plain ''NL80211_ATTR_KEY_DEFAULT_TYPES'', Plain ''NL80211_ATTR_MAX_REMAIN_ON_CHANNEL_DURATION'',
     Plain ''NL80211_ATTR_MESH_SETUP'', Plain ''NL80211_ATTR_WIPHY_ANTENNA_AVAIL_TX'',
     Plain ''NL80211_ATTR_WIPHY_ANTENNA_AVAIL_RX'', Plain ''NL80211_ATTR_SUPPORT_MESH_AUTH'',
     Plain ''NL80211_ATTR_STA_PLINK_STATE'', Plain ''NL80211_ATTR_WOWLAN_TRIGGERS'',
     Plain ''NL80211_ATTR_WOWLAN_TRIGGERS_SUPPORTED'', Plain ''NL80211_ATTR_SCHED_SCAN_INTERVAL'']"

definition nl80211_attrs_4 :: "enumerator list" where
  "nl80211_attrs_4 =
    [Plain ''NL80211_ATTR_INTERFACE_COMBINATIONS'', Plain ''NL80211_ATTR_SOFTWARE_IFTYPES'',
     Plain ''NL80211_ATTR_REKEY_DATA'', Plain ''NL80211_ATTR_MAX_NUM_SCHED_SCAN_SSIDS'',
     Plain ''NL80211_ATTR_MAX_SCHED_SCAN_IE_LEN'', Plain ''NL80211_ATTR_SCAN_SUPP_RATES'',
     Plain ''NL80211_ATTR_HIDDEN_SSID'', Plain ''NL80211_ATTR_IE_PROBE_RESP'',
     Plain ''NL80211_ATTR_IE_ASSOC_RESP'', Plain ''NL80211_ATTR_STA_WME'',
     Plain ''NL80211_ATTR_SUPPORT_AP_UAPSD'', Plain ''NL80211_ATTR_ROAM_SUPPORT'',
     Plain ''NL80211_ATTR_SCHED_SCAN_MATCH'', Plain ''NL80211_ATTR_MAX_MATCH_SETS'',
     Plain ''NL80211_ATTR_PMKSA_CANDIDATE'', Plain ''NL80211_ATTR_TX_NO_CCK_RATE'',
     Plain ''NL80211_ATTR_TDLS_ACTION'', Plain ''NL80211_ATTR_TDLS_DIALOG_TOKEN'',
     Plain ''NL80211_ATTR_TDLS_OPERATION'', Plain ''NL80211_ATTR_TDLS_SUPPORT'',
     Plain ''NL80211_ATTR_TDLS_EXTERNAL_SETUP'', Plain ''NL80211_ATTR_DEVICE_AP_SME'',
     Plain ''NL80211_ATTR_DONT_WAIT_FOR_ACK'', Plain ''NL80211_ATTR_FEATURE_FLAGS'',
     Plain ''NL80211_ATTR_PROBE_RESP_OFFLOAD'', Plain ''NL80211_ATTR_PROBE_RESP'',
     Plain ''NL80211_ATTR_DFS_REGION'', Plain ''NL80211_ATTR_DISABLE_HT'',
     Plain ''NL80211_ATTR_HT_CAPABILITY_MASK'', Plain ''NL80211_ATTR_NOACK_MAP'',
     Plain ''NL80211_ATTR_INACTIVITY_TIMEOUT'', Plain ''NL80211_ATTR_RX_SIGNAL_DBM'',
     Plain ''NL80211_ATTR_BG_SCAN_PERIOD'', Plain ''NL80211_ATTR_WDEV'',
     Plain ''NL80211_ATTR_USER_REG_HINT_TYPE'', Plain ''NL80211_ATTR_CONN_FAILED_REASON'',
     Plain ''NL80211_ATTR_AUTH_DATA'', Plain ''NL80211_ATTR_VHT_CAPABILITY'',
     Plain ''NL80211_ATTR_SCAN_FLAGS'', Plain ''NL80211_ATTR_CHANNEL_WIDTH'']"

definition nl80211_attrs_5 :: "enumerator list" where
  "nl80211_attrs_5 =
    [Plain ''NL80211_ATTR_CENTER_FREQ1'', Plain ''NL80211_ATTR_CENTER_FREQ2'',
     Plain ''NL80211_ATTR_P2P_CTWINDOW'', Plain ''NL80211_ATTR_P2P_OPPPS'',
     Plain ''NL80211_ATTR_LOCAL_MESH_POWER_MODE'', Plain ''NL80211_ATTR_ACL_POLICY'',
     Plain ''NL80211_ATTR_MAC_ADDRS'', Plain ''NL80211_ATTR_MAC_ACL_MAX'',
     Plain ''NL80211_ATTR_RADAR_EVENT'', Plain ''NL80211_ATTR_EXT_CAPA'',
     Plain ''NL80211_ATTR_EXT_CAPA_MASK'', Plain ''NL80211_ATTR_STA_CAPABILITY'',
     Plain ''NL80211_ATTR_STA_EXT_CAPABILITY'', Plain ''NL80211_ATTR_PROTOCOL_FEATURES'',
     Plain ''NL80211_ATTR_SPLIT_WIPHY_DUMP'', Plain ''NL80211_ATTR_DISABLE_VHT'',
     Plain ''NL80211_ATTR_VHT_CAPABILITY_MASK'', Plain ''NL80211_ATTR_MDID'',
     Plain ''NL80211_ATTR_IE_RIC'', Plain ''NL80211_ATTR_CRIT_PROT_ID'',
     Plain ''NL80211_ATTR_MAX_CRIT_PROT_DURATION'', Plain ''NL80211_ATTR_PEER_AID'',
     Plain ''NL80211_ATTR_COALESCE_RULE'', Plain ''NL80211_ATTR_CH_SWITCH_COUNT'',
     Plain ''NL80211_ATTR_CH_SWITCH_BLOCK_TX'', Plain ''NL80211_ATTR_CSA_IES'',
     Plain ''NL80211_ATTR_CNTDWN_OFFS_BEACON'', Plain ''NL80211_ATTR_CNTDWN_OFFS_PRESP'',
     Plain ''NL80211_ATTR_RXMGMT_FLAGS'', Plain ''NL80211_ATTR_STA_SUPPORTED_CHANNELS'',
     Plain ''NL80211_ATTR_STA_SUPPORTED_OPER_CLASSES'', Plain ''NL80211_ATTR_HANDLE_DFS'',
     Plain ''NL80211_ATTR_SUPPORT_5_MHZ'', Plain ''NL80211_ATTR_SUPPORT_10_MHZ'',
     Plain ''NL80211_ATTR_OPMODE_NOTIF'', Plain ''NL80211_ATTR_VENDOR_ID'',
     Plain ''NL80211_ATTR_VENDOR_SUBCMD'', Plain ''NL80211_ATTR_VENDOR_DATA'',
     Plain ''NL80211_ATTR_VENDOR_EVENTS'', Plain ''NL80211_ATTR_QOS_MAP'']"

definition nl80211_attrs_6 :: "enumerator list" where
  "nl80211_attrs_6 =
    [Plain ''NL80211_ATTR_MAC_HINT'', Plain ''NL80211_ATTR_WIPHY_FREQ_HINT'',
     Plain ''NL80211_ATTR_MAX_AP_ASSOC_STA'', Plain ''NL80211_ATTR_TDLS_PEER_CAPABILITY'',
     Plain ''NL80211_ATTR_SOCKET_OWNER'', Plain ''NL80211_ATTR_CSA_C_OFFSETS_TX'',
     Plain ''NL80211_ATTR_MAX_CSA_COUNTERS'', Plain ''NL80211_ATTR_TDLS_INITIATOR'',
     Plain ''NL80211_ATTR_USE_RRM'', Plain ''NL80211_ATTR_WIPHY_DYN_ACK'', Plain ''NL80211_ATTR_TSID'',
     Plain ''NL80211_ATTR_USER_PRIO'', Plain ''NL80211_ATTR_ADMITTED_TIME'',
     Plain ''NL80211_ATTR_SMPS_MODE'', Plain ''NL80211_ATTR_OPER_CLASS'', Plain ''NL80211_ATTR_MAC_MASK'',
     Plain ''NL80211_ATTR_WIPHY_SELF_MANAGED_REG'', Plain ''NL80211_ATTR_EXT_FEATURES'',
     Plain ''NL80211_ATTR_SURVEY_RADIO_STATS'', Plain ''NL80211_ATTR_NETNS_FD'',
     Plain ''NL80211_ATTR_SCHED_SCAN_DELAY'', Plain ''NL80211_ATTR_REG_INDOOR'',
     Plain ''NL80211_ATTR_MAX_NUM_SCHED_SCAN_PLANS'', Plain ''NL80211_ATTR_MAX_SCAN_PLAN_INTERVAL'',
     Plain ''NL80211_ATTR_MAX_SCAN_PLAN_ITERATIONS'', Plain ''NL80211_ATTR_SCHED_SCAN_PLANS'',
     Plain ''NL80211_ATTR_PBSS'', Plain ''NL80211_ATTR_BSS_SELECT'',
     Plain ''NL80211_ATTR_STA_SUPPORT_P2P_PS'', Plain ''NL80211_ATTR_PAD'',
     Plain ''NL80211_ATTR_IFTYPE_EXT_CAPA'', Plain ''NL80211_ATTR_MU_MIMO_GROUP_DATA'',
     Plain ''NL80211_ATTR_MU_MIMO_FOLLOW_MAC_ADDR'', Plain ''NL80211_ATTR_SCAN_START_TIME_TSF'',
     Plain ''NL80211_ATTR_SCAN_START_TIME_TSF_BSSID'', Plain ''NL80211_ATTR_MEASUREMENT_DURATION'',
     Plain ''NL80211_ATTR_MEASUREMENT_DURATION_MANDATORY'', Plain ''NL80211_ATTR_MESH_PEER_AID'',
     Plain ''NL80211_ATTR_NAN_MASTER_PREF'', Plain ''NL80211_ATTR_BANDS'']"

definition nl80211_attrs_7 :: "enumerator list" where
  "nl80211_attrs_7 =
    [Plain ''NL80211_ATTR_NAN_FUNC'', Plain ''NL80211_ATTR_NAN_MATCH'', Plain ''NL80211_ATTR_FILS_KEK'',
     Plain ''NL80211_ATTR_FILS_NONCES'', Plain ''NL80211_ATTR_MULTICAST_TO_UNICAST_ENABLED'',
     Plain ''NL80211_ATTR_BSSID'', Plain ''NL80211_ATTR_SCHED_SCAN_RELATIVE_RSSI'',
     Plain ''NL80211_ATTR_SCHED_SCAN_RSSI_ADJUST'', Plain ''NL80211_ATTR_TIMEOUT_REASON'',
     Plain ''NL80211_ATTR_FILS_ERP_USERNAME'', Plain ''NL80211_ATTR_FILS_ERP_REALM'',
     Plain ''NL80211_ATTR_FILS_ERP_NEXT_SEQ_NUM'', Plain ''NL80211_ATTR_FILS_ERP_RRK'',
     Plain ''NL80211_ATTR_FILS_CACHE_ID'', Plain ''NL80211_ATTR_PMK'',
     Plain ''NL80211_ATTR_SCHED_SCAN_MULTI'', Plain ''NL80211_ATTR_SCHED_SCAN_MAX_REQS'',
     Plain ''NL80211_ATTR_WANT_1X_4WAY_HS'', Plain ''NL80211_ATTR_PMKR0_NAME'',
     Plain ''NL80211_ATTR_PORT_AUTHORIZED'', Plain ''NL80211_ATTR_EXTERNAL_AUTH_ACTION'',
     Plain ''NL80211_ATTR_EXTERNAL_AUTH_SUPPORT'', Plain ''NL80211_ATTR_NSS'',
     Plain ''NL80211_ATTR_ACK_SIGNAL'', Plain ''NL80211_ATTR_CONTROL_PORT_OVER_NL80211'',
     Plain ''NL80211_ATTR_TXQ_STATS'', Plain ''NL80211_ATTR_TXQ_LIMIT'',
     Plain ''NL80211_ATTR_TXQ_MEMORY_LIMIT'', Plain ''NL80211_ATTR_TXQ_QUANTUM'',
     Plain ''NL80211_ATTR_HE_CAPABILITY'', Plain ''NL80211_ATTR_FTM_RESPONDER'',
     Plain ''NL80211_ATTR_FTM_RESPONDER_STATS'', Plain ''NL80211_ATTR_TIMEOUT'',
     Plain ''NL80211_ATTR_PEER_MEASUREMENTS'', Plain ''NL80211_ATTR_AIRTIME_WEIGHT'',
     Plain ''NL80211_ATTR_STA_TX_POWER_SETTING'', Plain ''NL80211_ATTR_STA_TX_POWER'',
     Plain ''NL80211_ATTR_SAE_PASSWORD'', Plain ''NL80211_ATTR_TWT_RESPONDER'',
     Plain ''NL80211_ATTR_HE_OBSS_PD'']"

definition nl80211_attrs_8 :: "enumerator list" where
  "nl80211_attrs_8 =
    [Plain ''NL80211_ATTR_WIPHY_EDMG_CHANNELS'', Plain ''NL80211_ATTR_WIPHY_EDMG_BW_CONFIG'',
     Plain ''NL80211_ATTR_VLAN_ID'', Plain ''NL80211_ATTR_HE_BSS_COLOR'',
     Plain ''NL80211_ATTR_IFTYPE_AKM_SUITES'', Plain ''NL80211_ATTR_TID_CONFIG'',
     Plain ''NL80211_ATTR_CONTROL_PORT_NO_PREAUTH'', Plain ''NL80211_ATTR_PMK_LIFETIME'',
     Plain ''NL80211_ATTR_PMK_REAUTH_THRESHOLD'', Plain ''NL80211_ATTR_RECEIVE_MULTICAST'',
     Plain ''NL80211_ATTR_WIPHY_FREQ_OFFSET'', Plain ''NL80211_ATTR_CENTER_FREQ1_OFFSET'',
     Plain ''NL80211_ATTR_SCAN_FREQ_KHZ'', Plain ''NL80211_ATTR_HE_6GHZ_CAPABILITY'',
     Plain ''NL80211_ATTR_FILS_DISCOVERY'', Plain ''NL80211_ATTR_UNSOL_BCAST_PROBE_RESP'',
     Plain ''NL80211_ATTR_S1G_CAPABILITY'', Plain ''NL80211_ATTR_S1G_CAPABILITY_MASK'',
     Plain ''NL80211_ATTR_SAE_PWE'', Plain ''NL80211_ATTR_RECONNECT_REQUESTED'',
     Plain ''NL80211_ATTR_SAR_SPEC'', Plain ''NL80211_ATTR_DISABLE_HE'',
     Plain ''NL80211_ATTR_OBSS_COLOR_BITMAP'', Plain ''NL80211_ATTR_COLOR_CHANGE_COUNT'',
     Plain ''NL80211_ATTR_COLOR_CHANGE_COLOR'', Plain ''NL80211_ATTR_COLOR_CHANGE_ELEMS'',
     Plain ''NL80211_ATTR_MBSSID_CONFIG'', Plain ''NL80211_ATTR_MBSSID_ELEMS'',
     Plain ''NL80211_ATTR_RADAR_BACKGROUND'', Plain ''NL80211_ATTR_AP_SETTINGS_FLAGS'',
     Plain ''NL80211_ATTR_EHT_CAPABILITY'', Plain ''__NL80211_ATTR_AFTER_LAST'',
     Equals ''NUM_NL80211_ATTR'' ''__NL80211_ATTR_AFTER_LAST'',
     Before ''NL80211_ATTR_MAX'' ''__NL80211_ATTR_AFTER_LAST'']"

definition nl80211_attrs :: "enumerator list" where
  "nl80211_attrs = nl80211_attrs_1 @ nl80211_attrs_2 @ nl80211_attrs_3 @ nl80211_attrs_4 @ nl80211_attrs_5 @ nl80211_attrs_6 @ nl80211_attrs_7 @ nl80211_attrs_8"

definition nl80211_iftype :: "enumerator list" where
  "nl80211_iftype =
    [Plain ''NL80211_IFTYPE_UNSPECIFIED'', Plain ''NL80211_IFTYPE_ADHOC'',
     Plain ''NL80211_IFTYPE_STATION'', Plain ''NL80211_IFTYPE_AP'', Plain ''NL80211_IFTYPE_AP_VLAN'',
     Plain ''NL80211_IFTYPE_WDS'', Plain ''NL80211_IFTYPE_MONITOR'', Plain ''NL80211_IFTYPE_MESH_POINT'',
     Plain ''NL80211_IFTYPE_P2P_CLIENT'', Plain ''NL80211_IFTYPE_P2P_GO'',
     Plain ''NL80211_IFTYPE_P2P_DEVICE'', Plain ''NL80211_IFTYPE_OCB'', Plain ''NL80211_IFTYPE_NAN'',
     Plain ''NUM_NL80211_IFTYPES'', Before ''NL80211_IFTYPE_MAX'' ''NUM_NL80211_IFTYPES'']"

definition nl80211_rate_info :: "enumerator list" where
  "nl80211_rate_info =
    [Plain ''__NL80211_RATE_INFO_INVALID'', Plain ''NL80211_RATE_INFO_BITRATE'',
     Plain ''NL80211_RATE_INFO_MCS'', Plain ''NL80211_RATE_INFO_40_MHZ_WIDTH'',
     Plain ''NL80211_RATE_INFO_SHORT_GI'', Plain ''NL80211_RATE_INFO_BITRATE32'',
     Plain ''NL80211_RATE_INFO_VHT_MCS'', Plain ''NL80211_RATE_INFO_VHT_NSS'',
     Plain ''NL80211_RATE_INFO_80_MHZ_WIDTH'', Plain ''NL80211_RATE_INFO_80P80_MHZ_WIDTH'',
     Plain ''NL80211_RATE_INFO_160_MHZ_WIDTH'', Plain ''NL80211_RATE_INFO_10_MHZ_WIDTH'',
     Plain ''NL80211_RATE_INFO_5_MHZ_WIDTH'', Plain ''NL80211_RATE_INFO_HE_MCS'',
     Plain ''NL80211_RATE_INFO_HE_NSS'', Plain ''NL80211_RATE_INFO_HE_GI'',
     Plain ''NL80211_RATE_INFO_HE_DCM'', Plain ''NL80211_RATE_INFO_HE_RU_ALLOC'',
     Plain ''NL80211_RATE_INFO_320_MHZ_WIDTH'', Plain ''NL80211_RATE_INFO_EHT_MCS'',
     Plain ''NL80211_RATE_INFO_EHT_NSS'', Plain ''NL80211_RATE_INFO_EHT_GI'',
     Plain ''NL80211_RATE_INFO_EHT_RU_ALLOC'', Plain ''__NL80211_RATE_INFO_AFTER_LAST'',
     Before ''NL80211_RATE_INFO_MAX'' ''__NL80211_RATE_INFO_AFTER_LAST'']"

definition nl80211_sta_info :: "enumerator list" where
  "nl80211_sta_info =
    [Plain ''__NL80211_STA_INFO_INVALID'', Plain ''NL80211_STA_INFO_INACTIVE_TIME'',
     Plain ''NL80211_STA_INFO_RX_BYTES'', Plain ''NL80211_STA_INFO_TX_BYTES'',
     Plain ''NL80211_STA_INFO_LLID'', Plain ''NL80211_STA_INFO_PLID'',
     Plain ''NL80211_STA_INFO_PLINK_STATE'', Plain ''NL80211_STA_INFO_SIGNAL'',
     Plain ''NL80211_STA_INFO_TX_BITRATE'', Plain ''NL80211_STA_INFO_RX_PACKETS'',
     Plain ''NL80211_STA_INFO_TX_PACKETS'', Plain ''NL80211_STA_INFO_TX_RETRIES'',
     Plain ''NL80211_STA_INFO_TX_FAILED'', Plain ''NL80211_STA_INFO_SIGNAL_AVG'',
     Plain ''NL80211_STA_INFO_RX_BITRATE'', Plain ''NL80211_STA_INFO_BSS_PARAM'',
     Plain ''NL80211_STA_INFO_CONNECTED_TIME'', Plain ''NL80211_STA_INFO_STA_FLAGS'',
     Plain ''NL80211_STA_INFO_BEACON_LOSS'', Plain ''NL80211_STA_INFO_T_OFFSET'',
     Plain ''NL80211_STA_INFO_LOCAL_PM'', Plain ''NL80211_STA_INFO_PEER_PM'',
     Plain ''NL80211_STA_INFO_NONPEER_PM'', Plain ''NL80211_STA_INFO_RX_BYTES64'',
     Plain ''NL80211_STA_INFO_TX_BYTES64'', Plain ''NL80211_STA_INFO_CHAIN_SIGNAL'',
     Plain ''NL80211_STA_INFO_CHAIN_SIGNAL_AVG'', Plain ''NL80211_STA_INFO_EXPECTED_THROUGHPUT'',
     Plain ''NL80211_STA_INFO_RX_DROP_MISC'', Plain ''NL80211_STA_INFO_BEACON_RX'',
     Plain ''NL80211_STA_INFO_BEACON_SIGNAL_AVG'', Plain ''NL80211_STA_INFO_TID_STATS'',
     Plain ''NL80211_STA_INFO_RX_DURATION'', Plain ''NL80211_STA_INFO_PAD'',
     Plain ''NL80211_STA_INFO_ACK_SIGNAL'', Plain ''NL80211_STA_INFO_ACK_SIGNAL_AVG'',
     Plain ''NL80211_STA_INFO_RX_MPDUS'', Plain ''NL80211_STA_INFO_FCS_ERROR_COUNT'',
     Plain ''NL80211_STA_INFO_CONNECTED_TO_GATE'', Plain ''NL80211_STA_INFO_TX_DURATION'',
     Plain ''NL80211_STA_INFO_AIRTIME_WEIGHT'', Plain ''NL80211_STA_INFO_AIRTIME_LINK_METRIC'',
     Plain ''NL80211_STA_INFO_ASSOC_AT_BOOTTIME'', Plain ''NL80211_STA_INFO_CONNECTED_TO_AS'',
     Plain ''__NL80211_STA_INFO_AFTER_LAST'',
     Before ''NL80211_STA_INFO_MAX'' ''__NL80211_STA_INFO_AFTER_LAST'']"

definition nl80211_band_iftype_attr :: "enumerator list" where
  "nl80211_band_iftype_attr =
    [Plain ''__NL80211_BAND_IFTYPE_ATTR_INVALID'', Plain ''NL80211_BAND_IFTYPE_ATTR_IFTYPES'',
     Plain ''NL80211_BAND_IFTYPE_ATTR_HE_CAP_MAC'', Plain ''NL80211_BAND_IFTYPE_ATTR_HE_CAP_PHY'',
     Plain ''NL80211_BAND_IFTYPE_ATTR_HE_CAP_MCS_SET'', Plain ''NL80211_BAND_IFTYPE_ATTR_HE_CAP_PPE'',
     Plain ''NL80211_BAND_IFTYPE_ATTR_HE_6GHZ_CAPA'', Plain ''NL80211_BAND_IFTYPE_ATTR_VENDOR_ELEMS'',
     Plain ''NL80211_BAND_IFTYPE_ATTR_EHT_CAP_MAC'', Plain ''NL80211_BAND_IFTYPE_ATTR_EHT_CAP_PHY'',
     Plain ''NL80211_BAND_IFTYPE_ATTR_EHT_CAP_MCS_SET'', Plain ''NL80211_BAND_IFTYPE_ATTR_EHT_CAP_PPE'',
     Plain ''__NL80211_BAND_IFTYPE_ATTR_AFTER_LAST'',
     Before ''NL80211_BAND_IFTYPE_ATTR_MAX'' ''__NL80211_BAND_IFTYPE_ATTR_AFTER_LAST'']"

definition nl80211_band_attr :: "enumerator list" where
  "nl80211_band_attr =
    [Plain ''__NL80211_BAND_ATTR_INVALID'', Plain ''NL80211_BAND_ATTR_FREQS'',
     Plain ''NL80211_BAND_ATTR_RATES'', Plain ''NL80211_BAND_ATTR_HT_MCS_SET'',
     Plain ''NL80211_BAND_ATTR_HT_CAPA'', Plain ''NL80211_BAND_ATTR_HT_AMPDU_FACTOR'',
     Plain ''NL80211_BAND_ATTR_HT_AMPDU_DENSITY'', Plain ''NL80211_BAND_ATTR_VHT_MCS_SET'',
     Plain ''NL80211_BAND_ATTR_VHT_CAPA'', Plain ''NL80211_BAND_ATTR_IFTYPE_DATA'',
     Plain ''NL80211_BAND_ATTR_EDMG_CHANNELS'', Plain ''NL80211_BAND_ATTR_EDMG_BW_CONFIG'',
     Plain ''__NL80211_BAND_ATTR_AFTER_LAST'',
     Before ''NL80211_BAND_ATTR_MAX'' ''__NL80211_BAND_ATTR_AFTER_LAST'']"

definition nl80211_frequency_attr :: "enumerator list" where
  "nl80211_frequency_attr =
    [Plain ''__NL80211_FREQUENCY_ATTR_INVALID'', Plain ''NL80211_FREQUENCY_ATTR_FREQ'',
     Plain ''NL80211_FREQUENCY_ATTR_DISABLED'', Plain ''NL80211_FREQUENCY_ATTR_NO_IR'',
     Plain ''__NL80211_FREQUENCY_ATTR_NO_IBSS'', Plain ''NL80211_FREQUENCY_ATTR_RADAR'',
     Plain ''NL80211_FREQUENCY_ATTR_MAX_TX_POWER'', Plain ''NL80211_FREQUENCY_ATTR_DFS_STATE'',
     Plain ''NL80211_FREQUENCY_ATTR_DFS_TIME'', Plain ''NL80211_FREQUENCY_ATTR_NO_HT40_MINUS'',
     Plain ''NL80211_FREQUENCY_ATTR_NO_HT40_PLUS'', Plain ''NL80211_FREQUENCY_ATTR_NO_80MHZ'',
     Plain ''NL80211_FREQUENCY_ATTR_NO_160MHZ'', Plain ''NL80211_FREQUENCY_ATTR_DFS_CAC_TIME'',
     Plain ''NL80211_FREQUENCY_ATTR_INDOOR_ONLY'', Plain ''NL80211_FREQUENCY_ATTR_IR_CONCURRENT'',
     Plain ''NL80211_FREQUENCY_ATTR_NO_20MHZ'', Plain ''NL80211_FREQUENCY_ATTR_NO_10MHZ'',
     Plain ''NL80211_FREQUENCY_ATTR_WMM'', Plain ''NL80211_FREQUENCY_ATTR_NO_HE'',
     Plain ''NL80211_FREQUENCY_ATTR_OFFSET'', Plain ''NL80211_FREQUENCY_ATTR_1MHZ'',
     Plain ''NL80211_FREQUENCY_ATTR_2MHZ'', Plain ''NL80211_FREQUENCY_ATTR_4MHZ'',
     Plain ''NL80211_FREQUENCY_ATTR_8MHZ'', Plain ''NL80211_FREQUENCY_ATTR_16MHZ'',
     Plain ''NL80211_FREQUENCY_ATTR_NO_320MHZ'', Plain ''NL80211_FREQUENCY_ATTR_NO_EHT'',
     Plain ''__NL80211_FREQUENCY_ATTR_AFTER_LAST'',
     Before ''NL80211_FREQUENCY_ATTR_MAX'' ''__NL80211_FREQUENCY_ATTR_AFTER_LAST'']"

definition nl80211_reg_type :: "enumerator list" where
  "nl80211_reg_type =
    [Plain ''NL80211_REGDOM_TYPE_COUNTRY'', Plain ''NL80211_REGDOM_TYPE_WORLD'',
     Plain ''NL80211_REGDOM_TYPE_CUSTOM_WORLD'', Plain ''NL80211_REGDOM_TYPE_INTERSECTION'']"

definition nl80211_sched_scan_match_attr :: "enumerator list" where
  "nl80211_sched_scan_match_attr =
    [Plain ''__NL80211_SCHED_SCAN_MATCH_ATTR_INVALID'', Plain ''NL80211_SCHED_SCAN_MATCH_ATTR_SSID'',
     Plain ''NL80211_SCHED_SCAN_MATCH_ATTR_RSSI'', Plain ''NL80211_SCHED_SCAN_MATCH_ATTR_RELATIVE_RSSI'',
     Plain ''NL80211_SCHED_SCAN_MATCH_ATTR_RSSI_ADJUST'', Plain ''NL80211_SCHED_SCAN_MATCH_ATTR_BSSID'',
     Plain ''NL80211_SCHED_SCAN_MATCH_PER_BAND_RSSI'',
     Plain ''__NL80211_SCHED_SCAN_MATCH_ATTR_AFTER_LAST'',
     Before ''NL80211_SCHED_SCAN_MATCH_ATTR_MAX'' ''__NL80211_SCHED_SCAN_MATCH_ATTR_AFTER_LAST'']"

definition nl80211_chan_width :: "enumerator list" where
  "nl80211_chan_width =
    [Plain ''NL80211_CHAN_WIDTH_20_NOHT'', Plain ''NL80211_CHAN_WIDTH_20'',
     Plain ''NL80211_CHAN_WIDTH_40'', Plain ''NL80211_CHAN_WIDTH_80'', Plain ''NL80211_CHAN_WIDTH_80P80'',
     Plain ''NL80211_CHAN_WIDTH_160'', Plain ''NL80211_CHAN_WIDTH_5'', Plain ''NL80211_CHAN_WIDTH_10'',
     Plain ''NL80211_CHAN_WIDTH_1'', Plain ''NL80211_CHAN_WIDTH_2'', Plain ''NL80211_CHAN_WIDTH_4'',
     Plain ''NL80211_CHAN_WIDTH_8'', Plain ''NL80211_CHAN_WIDTH_16'', Plain ''NL80211_CHAN_WIDTH_320'']"

definition nl80211_bss :: "enumerator list" where
  "nl80211_bss =
    [Plain ''__NL80211_BSS_INVALID'', Plain ''NL80211_BSS_BSSID'', Plain ''NL80211_BSS_FREQUENCY'',
     Plain ''NL80211_BSS_TSF'', Plain ''NL80211_BSS_BEACON_INTERVAL'', Plain ''NL80211_BSS_CAPABILITY'',
     Plain ''NL80211_BSS_INFORMATION_ELEMENTS'', Plain ''NL80211_BSS_SIGNAL_MBM'',
     Plain ''NL80211_BSS_SIGNAL_UNSPEC'', Plain ''NL80211_BSS_STATUS'', Plain ''NL80211_BSS_SEEN_MS_AGO'',
     Plain ''NL80211_BSS_BEACON_IES'', Plain ''NL80211_BSS_CHAN_WIDTH'', Plain ''NL80211_BSS_BEACON_TSF'',
     Plain ''NL80211_BSS_PRESP_DATA'', Plain ''NL80211_BSS_LAST_SEEN_BOOTTIME'', Plain ''NL80211_BSS_PAD'',
     Plain ''NL80211_BSS_PARENT_TSF'', Plain ''NL80211_BSS_PARENT_BSSID'',
     Plain ''NL80211_BSS_CHAIN_SIGNAL'', Plain ''NL80211_BSS_FREQUENCY_OFFSET'',
     Plain ''__NL80211_BSS_AFTER_LAST'', Before ''NL80211_BSS_MAX'' ''__NL80211_BSS_AFTER_LAST'']"

definition nl80211_bss_status :: "enumerator list" where
  "nl80211_bss_status =
    [Plain ''NL80211_BSS_STATUS_AUTHENTICATED'', Plain ''NL80211_BSS_STATUS_ASSOCIATED'',
     Plain ''NL80211_BSS_STATUS_IBSS_JOINED'']"

definition nl80211_band :: "enumerator list" where
  "nl80211_band =
    [Plain ''NL80211_BAND_2GHZ'', Plain ''NL80211_BAND_5GHZ'', Plain ''NL80211_BAND_60GHZ'',
     Plain ''NL80211_BAND_6GHZ'', Plain ''NL80211_BAND_S1GHZ'', Plain ''NL80211_BAND_LC'',
     Plain ''NUM_NL80211_BANDS'']"

definition nl80211_feature_flags :: "enumerator list" where
  "nl80211_feature_flags =
    [Shifted ''NL80211_FEATURE_SK_TX_STATUS'' 0, Shifted ''NL80211_FEATURE_HT_IBSS'' 1,
     Shifted ''NL80211_FEATURE_INACTIVITY_TIMER'' 2, Shifted ''NL80211_FEATURE_CELL_BASE_REG_HINTS'' 3,
     Shifted ''NL80211_FEATURE_P2P_DEVICE_NEEDS_CHANNEL'' 4, Shifted ''NL80211_FEATURE_SAE'' 5,
     Shifted ''NL80211_FEATURE_LOW_PRIORITY_SCAN'' 6, Shifted ''NL80211_FEATURE_SCAN_FLUSH'' 7,
     Shifted ''NL80211_FEATURE_AP_SCAN'' 8, Shifted ''NL80211_FEATURE_VIF_TXPOWER'' 9,
     Shifted ''NL80211_FEATURE_NEED_OBSS_SCAN'' 10, Shifted ''NL80211_FEATURE_P2P_GO_CTWIN'' 11,
     Shifted ''NL80211_FEATURE_P2P_GO_OPPPS'' 12, Shifted ''NL80211_FEATURE_ADVERTISE_CHAN_LIMITS'' 14,
     Shifted ''NL80211_FEATURE_FULL_AP_CLIENT_STATE'' 15, Shifted ''NL80211_FEATURE_USERSPACE_MPM'' 16,
     Shifted ''NL80211_FEATURE_ACTIVE_MONITOR'' 17,
     Shifted ''NL80211_FEATURE_AP_MODE_CHAN_WIDTH_CHANGE'' 18,
     Shifted ''NL80211_FEATURE_DS_PARAM_SET_IE_IN_PROBES'' 19,
     Shifted ''NL80211_FEATURE_WFA_TPC_IE_IN_PROBES'' 20, Shifted ''NL80211_FEATURE_QUIET'' 21,
     Shifted ''NL80211_FEATURE_TX_POWER_INSERTION'' 22, Shifted ''NL80211_FEATURE_ACKTO_ESTIMATION'' 23,
     Shifted ''NL80211_FEATURE_STATIC_SMPS'' 24, Shifted ''NL80211_FEATURE_DYNAMIC_SMPS'' 25,
     Shifted ''NL80211_FEATURE_SUPPORTS_WMM_ADMISSION'' 26, Shifted ''NL80211_FEATURE_MAC_ON_CREATE'' 27,
     Shifted ''NL80211_FEATURE_TDLS_CHANNEL_SWITCH'' 28,
     Shifted ''NL80211_FEATURE_SCAN_RANDOM_MAC_ADDR'' 29,
     Shifted ''NL80211_FEATURE_SCHED_SCAN_RANDOM_MAC_ADDR'' 30,
     Shifted ''NL80211_FEATURE_ND_RANDOM_MAC_ADDR'' 31]"

definition nl80211_ext_feature_index_1 :: "enumerator list" where
  "nl80211_ext_feature_index_1 =
    [Plain ''NL80211_EXT_FEATURE_VHT_IBSS'', Plain ''NL80211_EXT_FEATURE_RRM'',
     Plain ''NL80211_EXT_FEATURE_MU_MIMO_AIR_SNIFFER'', Plain ''NL80211_EXT_FEATURE_SCAN_START_TIME'',
     Plain ''NL80211_EXT_FEATURE_BSS_PARENT_TSF'', Plain ''NL80211_EXT_FEATURE_SET_SCAN_DWELL'',
     Plain ''NL80211_EXT_FEATURE_BEACON_RATE_LEGACY'', Plain ''NL80211_EXT_FEATURE_BEACON_RATE_HT'',
     Plain ''NL80211_EXT_FEATURE_BEACON_RATE_VHT'', Plain ''NL80211_EXT_FEATURE_FILS_STA'',
     Plain ''NL80211_EXT_FEATURE_MGMT_TX_RANDOM_TA'',
     Plain ''NL80211_EXT_FEATURE_MGMT_TX_RANDOM_TA_CONNECTED'',
     Plain ''NL80211_EXT_FEATURE_SCHED_SCAN_RELATIVE_RSSI'', Plain ''NL80211_EXT_FEATURE_CQM_RSSI_LIST'',
     Plain ''NL80211_EXT_FEATURE_FILS_SK_OFFLOAD'', Plain ''NL80211_EXT_FEATURE_4WAY_HANDSHAKE_STA_PSK'',
     Plain ''NL80211_EXT_FEATURE_4WAY_HANDSHAKE_STA_1X'',
     Plain ''NL80211_EXT_FEATURE_FILS_MAX_CHANNEL_TIME'',
     Plain ''NL80211_EXT_FEATURE_ACCEPT_BCAST_PROBE_RESP'',
     Plain ''NL80211_EXT_FEATURE_OCE_PROBE_REQ_HIGH_TX_RATE'',
     Plain ''NL80211_EXT_FEATURE_OCE_PROBE_REQ_DEFERRAL_SUPPRESSION'',
     Plain ''NL80211_EXT_FEATURE_MFP_OPTIONAL'', Plain ''NL80211_EXT_FEATURE_LOW_SPAN_SCAN'',
     Plain ''NL80211_EXT_FEATURE_LOW_POWER_SCAN'', Plain ''NL80211_EXT_FEATURE_HIGH_ACCURACY_SCAN'',
     Plain ''NL80211_EXT_FEATURE_DFS_OFFLOAD'', Plain ''NL80211_EXT_FEATURE_CONTROL_PORT_OVER_NL80211'',
     Plain ''NL80211_EXT_FEATURE_ACK_SIGNAL_SUPPORT'',
     Equals ''NL80211_EXT_FEATURE_DATA_ACK_SIGNAL_SUPPORT'' ''NL80211_EXT_FEATURE_ACK_SIGNAL_SUPPORT'',
     Plain ''NL80211_EXT_FEATURE_TXQS'', Plain ''NL80211_EXT_FEATURE_SCAN_RANDOM_SN'',
     Plain ''NL80211_EXT_FEATURE_SCAN_MIN_PREQ_CONTENT'']"

definition nl80211_ext_feature_index_2 :: "enumerator list" where
  "nl80211_ext_feature_index_2 =
    [Plain ''NL80211_EXT_FEATURE_CAN_REPLACE_PTK0'', Plain ''NL80211_EXT_FEATURE_ENABLE_FTM_RESPONDER'',
     Plain ''NL80211_EXT_FEATURE_AIRTIME_FAIRNESS'', Plain ''NL80211_EXT_FEATURE_AP_PMKSA_CACHING'',
     Plain ''NL80211_EXT_FEATURE_SCHED_SCAN_BAND_SPECIFIC_RSSI_THOLD'',
     Plain ''NL80211_EXT_FEATURE_EXT_KEY_ID'', Plain ''NL80211_EXT_FEATURE_STA_TX_PWR'',
     Plain ''NL80211_EXT_FEATURE_SAE_OFFLOAD'', Plain ''NL80211_EXT_FEATURE_VLAN_OFFLOAD'',
     Plain ''NL80211_EXT_FEATURE_AQL'', Plain ''NL80211_EXT_FEATURE_BEACON_PROTECTION'',
     Plain ''NL80211_EXT_FEATURE_CONTROL_PORT_NO_PREAUTH'', Plain ''NL80211_EXT_FEATURE_PROTECTED_TWT'',
     Plain ''NL80211_EXT_FEATURE_DEL_IBSS_STA'', Plain ''NL80211_EXT_FEATURE_MULTICAST_REGISTRATIONS'',
     Plain ''NL80211_EXT_FEATURE_BEACON_PROTECTION_CLIENT'', Plain ''NL80211_EXT_FEATURE_SCAN_FREQ_KHZ'',
     Plain ''NL80211_EXT_FEATURE_CONTROL_PORT_OVER_NL80211_TX_STATUS'',
     Plain ''NL80211_EXT_FEATURE_OPERATING_CHANNEL_VALIDATION'',
     Plain ''NL80211_EXT_FEATURE_4WAY_HANDSHAKE_AP_PSK'', Plain ''NL80211_EXT_FEATURE_SAE_OFFLOAD_AP'',
     Plain ''NL80211_EXT_FEATURE_FILS_DISCOVERY'', Plain ''NL80211_EXT_FEATURE_UNSOL_BCAST_PROBE_RESP'',
     Plain ''NL80211_EXT_FEATURE_BEACON_RATE_HE'', Plain ''NL80211_EXT_FEATURE_SECURE_LTF'',
     Plain ''NL80211_EXT_FEATURE_SECURE_RTT'', Plain ''NL80211_EXT_FEATURE_PROT_RANGE_NEGO_AND_MEASURE'',
     Plain ''NL80211_EXT_FEATURE_BSS_COLOR'', Plain ''NL80211_EXT_FEATURE_FILS_CRYPTO_OFFLOAD'',
     Plain ''NL80211_EXT_FEATURE_RADAR_BACKGROUND'', Plain ''NUM_NL80211_EXT_FEATURES'',
     Before ''MAX_NL80211_EXT_FEATURES'' ''NUM_NL80211_EXT_FEATURES'']"

definition nl80211_ext_feature_index :: "enumerator list" where
  "nl80211_ext_feature_index = nl80211_ext_feature_index_1 @ nl80211_ext_feature_index_2"

definition nl80211_scan_flags :: "enumerator list" where
  "nl80211_scan_flags =
    [Shifted ''NL80211_SCAN_FLAG_LOW_PRIORITY'' 0, Shifted ''NL80211_SCAN_FLAG_FLUSH'' 1,
     Shifted ''NL80211_SCAN_FLAG_AP'' 2, Shifted ''NL80211_SCAN_FLAG_RANDOM_ADDR'' 3,
     Shifted ''NL80211_SCAN_FLAG_FILS_MAX_CHANNEL_TIME'' 4,
     Shifted ''NL80211_SCAN_FLAG_ACCEPT_BCAST_PROBE_RESP'' 5,
     Shifted ''NL80211_SCAN_FLAG_OCE_PROBE_REQ_HIGH_TX_RATE'' 6,
     Shifted ''NL80211_SCAN_FLAG_OCE_PROBE_REQ_DEFERRAL_SUPPRESSION'' 7,
     Shifted ''NL80211_SCAN_FLAG_LOW_SPAN'' 8, Shifted ''NL80211_SCAN_FLAG_LOW_POWER'' 9,
     Shifted ''NL80211_SCAN_FLAG_HIGH_ACCURACY'' 10, Shifted ''NL80211_SCAN_FLAG_RANDOM_SN'' 11,
     Shifted ''NL80211_SCAN_FLAG_MIN_PREQ_CONTENT'' 12, Shifted ''NL80211_SCAN_FLAG_FREQ_KHZ'' 13,
     Shifted ''NL80211_SCAN_FLAG_COLOCATED_6GHZ'' 14]"

definition nl80211_dfs_state :: "enumerator list" where
  "nl80211_dfs_state =
    [Plain ''NL80211_DFS_USABLE'', Plain ''NL80211_DFS_UNAVAILABLE'', Plain ''NL80211_DFS_AVAILABLE'']"

definition nl80211_protocol_features :: "enumerator list" where
  "nl80211_protocol_features =
    [Shifted ''NL80211_PROTOCOL_FEATURE_SPLIT_WIPHY_DUMP'' 0]"

definition nl80211_sched_scan_plan :: "enumerator list" where
  "nl80211_sched_scan_plan =
    [Plain ''__NL80211_SCHED_SCAN_PLAN_INVALID'', Plain ''NL80211_SCHED_SCAN_PLAN_INTERVAL'',
     Plain ''NL80211_SCHED_SCAN_PLAN_ITERATIONS'', Plain ''__NL80211_SCHED_SCAN_PLAN_AFTER_LAST'',
     Before ''NL80211_SCHED_SCAN_PLAN_MAX'' ''__NL80211_SCHED_SCAN_PLAN_AFTER_LAST'']"

section \<open>The constants of the model are those of the header\<close>

lemma nl80211_commands_1_agree:
  "piece 0 nl80211_commands_1
    [(''NL80211_CMD_GET_WIPHY'', NL80211_CMD_GET_WIPHY),
     (''NL80211_CMD_NEW_WIPHY'', NL80211_CMD_NEW_WIPHY),
     (''NL80211_CMD_GET_INTERFACE'', NL80211_CMD_GET_INTERFACE),
     (''NL80211_CMD_SET_INTERFACE'', NL80211_CMD_SET_INTERFACE),
     (''NL80211_CMD_NEW_INTERFACE'', NL80211_CMD_NEW_INTERFACE),
     (''NL80211_CMD_GET_STATION'', NL80211_CMD_GET_STATION),
     (''NL80211_CMD_NEW_STATION'', NL80211_CMD_NEW_STATION),
     (''NL80211_CMD_DEL_STATION'', NL80211_CMD_DEL_STATION),
     (''NL80211_CMD_GET_REG'', NL80211_CMD_GET_REG), (''NL80211_CMD_GET_SCAN'', NL80211_CMD_GET_SCAN),
     (''NL80211_CMD_TRIGGER_SCAN'', NL80211_CMD_TRIGGER_SCAN),
     (''NL80211_CMD_NEW_SCAN_RESULTS'', NL80211_CMD_NEW_SCAN_RESULTS),
     (''NL80211_CMD_SCAN_ABORTED'', NL80211_CMD_SCAN_ABORTED),
     (''NL80211_CMD_REG_CHANGE'', NL80211_CMD_REG_CHANGE)] 37"
  by (simp add: piece_def nl80211_commands_1_def)

lemma nl80211_commands_2_agree:
  "piece 37 nl80211_commands_2
    [(''NL80211_CMD_ASSOCIATE'', NL80211_CMD_ASSOCIATE),
     (''NL80211_CMD_DISASSOCIATE'', NL80211_CMD_DISASSOCIATE),
     (''NL80211_CMD_CONNECT'', NL80211_CMD_CONNECT), (''NL80211_CMD_ROAM'', NL80211_CMD_ROAM),
     (''NL80211_CMD_DISCONNECT'', NL80211_CMD_DISCONNECT), (''NL80211_CMD_FRAME'', NL80211_CMD_FRAME),
     (''NL80211_CMD_FRAME_TX_STATUS'', NL80211_CMD_FRAME_TX_STATUS)] 73"
  by (simp add: piece_def nl80211_commands_2_def)

lemma nl80211_commands_3_agree:
  "piece 73 nl80211_commands_3
    [(''NL80211_CMD_START_SCHED_SCAN'', NL80211_CMD_START_SCHED_SCAN),
     (''NL80211_CMD_STOP_SCHED_SCAN'', NL80211_CMD_STOP_SCHED_SCAN),
     (''NL80211_CMD_SCHED_SCAN_RESULTS'', NL80211_CMD_SCHED_SCAN_RESULTS),
     (''NL80211_CMD_SCHED_SCAN_STOPPED'', NL80211_CMD_SCHED_SCAN_STOPPED),
     (''NL80211_CMD_CH_SWITCH_NOTIFY'', NL80211_CMD_CH_SWITCH_NOTIFY),
     (''NL80211_CMD_GET_PROTOCOL_FEATURES'', NL80211_CMD_GET_PROTOCOL_FEATURES)] 112"
  by (simp add: piece_def nl80211_commands_3_def)

lemma nl80211_commands_4_agree:
  "piece 112 nl80211_commands_4
    [(''NL80211_CMD_WIPHY_REG_CHANGE'', NL80211_CMD_WIPHY_REG_CHANGE),
     (''NL80211_CMD_ABORT_SCAN'', NL80211_CMD_ABORT_SCAN)] 148"
  by (simp add: piece_def nl80211_commands_4_def)

lemmas nl80211_commands_agree = gives_piece [OF piece_append [OF nl80211_commands_1_agree piece_append [OF nl80211_commands_2_agree piece_append [OF nl80211_commands_3_agree nl80211_commands_4_agree]]], folded nl80211_commands_def]

lemma nl80211_attrs_1_agree:
  "piece 0 nl80211_attrs_1
    [(''NL80211_ATTR_WIPHY'', NL80211_ATTR_WIPHY), (''NL80211_ATTR_IFINDEX'', NL80211_ATTR_IFINDEX),
     (''NL80211_ATTR_IFNAME'', NL80211_ATTR_IFNAME), (''NL80211_ATTR_IFTYPE'', NL80211_ATTR_IFTYPE),
     (''NL80211_ATTR_MAC'', NL80211_ATTR_MAC), (''NL80211_ATTR_STA_INFO'', NL80211_ATTR_STA_INFO),
     (''NL80211_ATTR_WIPHY_BANDS'', NL80211_ATTR_WIPHY_BANDS),
     (''NL80211_ATTR_REG_ALPHA2'', NL80211_ATTR_REG_ALPHA2),
     (''NL80211_ATTR_WIPHY_FREQ'', NL80211_ATTR_WIPHY_FREQ)] 40"
  by (simp add: piece_def nl80211_attrs_1_def)

lemma nl80211_attrs_2_agree:
  "piece 40 nl80211_attrs_2
    [(''NL80211_ATTR_IE'', NL80211_ATTR_IE),
     (''NL80211_ATTR_MAX_NUM_SCAN_SSIDS'', NL80211_ATTR_MAX_NUM_SCAN_SSIDS),
     (''NL80211_ATTR_SCAN_FREQUENCIES'', NL80211_ATTR_SCAN_FREQUENCIES),
     (''NL80211_ATTR_SCAN_SSIDS'', NL80211_ATTR_SCAN_SSIDS), (''NL80211_ATTR_BSS'', NL80211_ATTR_BSS),
     (''NL80211_ATTR_REG_TYPE'', NL80211_ATTR_REG_TYPE), (''NL80211_ATTR_FRAME'', NL80211_ATTR_FRAME),
     (''NL80211_ATTR_TIMED_OUT'', NL80211_ATTR_TIMED_OUT),
     (''NL80211_ATTR_STATUS_CODE'', NL80211_ATTR_STATUS_CODE)] 80"
  by (simp add: piece_def nl80211_attrs_2_def)

lemma nl80211_attrs_3_agree:
  "piece 80 nl80211_attrs_3
    [(''NL80211_ATTR_COOKIE'', NL80211_ATTR_COOKIE), (''NL80211_ATTR_ACK'', NL80211_ATTR_ACK),
     (''NL80211_ATTR_SCHED_SCAN_INTERVAL'', NL80211_ATTR_SCHED_SCAN_INTERVAL)] 120"
  by (simp add: piece_def nl80211_attrs_3_def)

lemma nl80211_attrs_4_agree:
  "piece 120 nl80211_attrs_4
    [(''NL80211_ATTR_MAX_NUM_SCHED_SCAN_SSIDS'', NL80211_ATTR_MAX_NUM_SCHED_SCAN_SSIDS),
     (''NL80211_ATTR_SCHED_SCAN_MATCH'', NL80211_ATTR_SCHED_SCAN_MATCH),
     (''NL80211_ATTR_MAX_MATCH_SETS'', NL80211_ATTR_MAX_MATCH_SETS),
     (''NL80211_ATTR_FEATURE_FLAGS'', NL80211_ATTR_FEATURE_FLAGS),
     (''NL80211_ATTR_WDEV'', NL80211_ATTR_WDEV), (''NL80211_ATTR_SCAN_FLAGS'', NL80211_ATTR_SCAN_FLAGS),
     (''NL80211_ATTR_CHANNEL_WIDTH'', NL80211_ATTR_CHANNEL_WIDTH)] 160"
  by (simp add: piece_def nl80211_attrs_4_def)

lemma nl80211_attrs_5_agree:
  "piece 160 nl80211_attrs_5
    [(''NL80211_ATTR_PROTOCOL_FEATURES'', NL80211_ATTR_PROTOCOL_FEATURES),
     (''NL80211_ATTR_SPLIT_WIPHY_DUMP'', NL80211_ATTR_SPLIT_WIPHY_DUMP)] 200"
  by (simp add: piece_def nl80211_attrs_5_def)

lemma nl80211_attrs_6_agree:
  "piece 200 nl80211_attrs_6
    [(''NL80211_ATTR_EXT_FEATURES'', NL80211_ATTR_EXT_FEATURES),
     (''NL80211_ATTR_MAX_NUM_SCHED_SCAN_PLANS'', NL80211_ATTR_MAX_NUM_SCHED_SCAN_PLANS),
     (''NL80211_ATTR_MAX_SCAN_PLAN_INTERVAL'', NL80211_ATTR_MAX_SCAN_PLAN_INTERVAL),
     (''NL80211_ATTR_MAX_SCAN_PLAN_ITERATIONS'', NL80211_ATTR_MAX_SCAN_PLAN_ITERATIONS),
     (''NL80211_ATTR_SCHED_SCAN_PLANS'', NL80211_ATTR_SCHED_SCAN_PLANS)] 240"
  by (simp add: piece_def nl80211_attrs_6_def)

lemma nl80211_attrs_7_agree:
  "piece 240 nl80211_attrs_7
    [(''NL80211_ATTR_SCHED_SCAN_RSSI_ADJUST'', NL80211_ATTR_SCHED_SCAN_RSSI_ADJUST)] 280"
  by (simp add: piece_def nl80211_attrs_7_def)

lemma nl80211_attrs_8_agree:
  "piece 280 nl80211_attrs_8
    [] 311"
  by (simp add: piece_def nl80211_attrs_8_def)

lemmas nl80211_attrs_agree = gives_piece [OF piece_append [OF nl80211_attrs_1_agree piece_append [OF nl80211_attrs_2_agree piece_append [OF nl80211_attrs_3_agree piece_append [OF nl80211_attrs_4_agree piece_append [OF nl80211_attrs_5_agree piece_append [OF nl80211_attrs_6_agree piece_append [OF nl80211_attrs_7_agree nl80211_attrs_8_agree]]]]]]], folded nl80211_attrs_def]

lemma nl80211_iftype_agree:
  "gives nl80211_iftype
    [(''NL80211_IFTYPE_UNSPECIFIED'', NL80211_IFTYPE_UNSPECIFIED),
     (''NL80211_IFTYPE_STATION'', NL80211_IFTYPE_STATION)]"
  by (simp add: gives_def nl80211_iftype_def)

lemma nl80211_rate_info_agree:
  "gives nl80211_rate_info
    [(''NL80211_RATE_INFO_BITRATE32'', NL80211_RATE_INFO_BITRATE32)]"
  by (simp add: gives_def nl80211_rate_info_def)

lemma nl80211_sta_info_agree:
  "gives nl80211_sta_info
    [(''NL80211_STA_INFO_SIGNAL'', NL80211_STA_INFO_SIGNAL),
     (''NL80211_STA_INFO_TX_BITRATE'', NL80211_STA_INFO_TX_BITRATE),
     (''NL80211_STA_INFO_TX_PACKETS'', NL80211_STA_INFO_TX_PACKETS),
     (''NL80211_STA_INFO_TX_FAILED'', NL80211_STA_INFO_TX_FAILED),
     (''NL80211_STA_INFO_RX_BITRATE'', NL80211_STA_INFO_RX_BITRATE)]"
  by (simp add: gives_def nl80211_sta_info_def)

lemma nl80211_band_iftype_attr_agree:
  "gives nl80211_band_iftype_attr
    [(''NL80211_BAND_IFTYPE_ATTR_HE_CAP_PHY'', NL80211_BAND_IFTYPE_ATTR_HE_CAP_PHY),
     (''NL80211_BAND_IFTYPE_ATTR_HE_CAP_MCS_SET'', NL80211_BAND_IFTYPE_ATTR_HE_CAP_MCS_SET),
     (''NL80211_BAND_IFTYPE_ATTR_EHT_CAP_PHY'', NL80211_BAND_IFTYPE_ATTR_EHT_CAP_PHY)]"
  by (simp add: gives_def nl80211_band_iftype_attr_def)

lemma nl80211_band_attr_agree:
  "gives nl80211_band_attr
    [(''NL80211_BAND_ATTR_FREQS'', NL80211_BAND_ATTR_FREQS),
     (''NL80211_BAND_ATTR_HT_MCS_SET'', NL80211_BAND_ATTR_HT_MCS_SET),
     (''NL80211_BAND_ATTR_HT_CAPA'', NL80211_BAND_ATTR_HT_CAPA),
     (''NL80211_BAND_ATTR_VHT_MCS_SET'', NL80211_BAND_ATTR_VHT_MCS_SET),
     (''NL80211_BAND_ATTR_VHT_CAPA'', NL80211_BAND_ATTR_VHT_CAPA),
     (''NL80211_BAND_ATTR_IFTYPE_DATA'', NL80211_BAND_ATTR_IFTYPE_DATA)]"
  by (simp add: gives_def nl80211_band_attr_def)

lemma nl80211_frequency_attr_agree:
  "gives nl80211_frequency_attr
    [(''NL80211_FREQUENCY_ATTR_FREQ'', NL80211_FREQUENCY_ATTR_FREQ),
     (''NL80211_FREQUENCY_ATTR_DISABLED'', NL80211_FREQUENCY_ATTR_DISABLED),
     (''NL80211_FREQUENCY_ATTR_NO_IR'', NL80211_FREQUENCY_ATTR_NO_IR),
     (''NL80211_FREQUENCY_ATTR_DFS_STATE'', NL80211_FREQUENCY_ATTR_DFS_STATE)]"
  by (simp add: gives_def nl80211_frequency_attr_def)

lemma nl80211_reg_type_agree:
  "gives nl80211_reg_type
    [(''NL80211_REGDOM_TYPE_COUNTRY'', NL80211_REGDOM_TYPE_COUNTRY),
     (''NL80211_REGDOM_TYPE_WORLD'', NL80211_REGDOM_TYPE_WORLD),
     (''NL80211_REGDOM_TYPE_CUSTOM_WORLD'', NL80211_REGDOM_TYPE_CUSTOM_WORLD),
     (''NL80211_REGDOM_TYPE_INTERSECTION'', NL80211_REGDOM_TYPE_INTERSECTION)]"
  by (simp add: gives_def nl80211_reg_type_def)

lemma nl80211_sched_scan_match_attr_agree:
  "gives nl80211_sched_scan_match_attr
    [(''NL80211_SCHED_SCAN_MATCH_ATTR_SSID'', NL80211_SCHED_SCAN_MATCH_ATTR_SSID),
     (''NL80211_SCHED_SCAN_MATCH_ATTR_RSSI'', NL80211_SCHED_SCAN_MATCH_ATTR_RSSI)]"
  by (simp add: gives_def nl80211_sched_scan_match_attr_def)

lemma nl80211_chan_width_agree:
  "gives nl80211_chan_width
    [(''NL80211_CHAN_WIDTH_20_NOHT'', NL80211_CHAN_WIDTH_20_NOHT),
     (''NL80211_CHAN_WIDTH_20'', NL80211_CHAN_WIDTH_20),
     (''NL80211_CHAN_WIDTH_40'', NL80211_CHAN_WIDTH_40),
     (''NL80211_CHAN_WIDTH_80'', NL80211_CHAN_WIDTH_80),
     (''NL80211_CHAN_WIDTH_80P80'', NL80211_CHAN_WIDTH_80P80),
     (''NL80211_CHAN_WIDTH_160'', NL80211_CHAN_WIDTH_160),
     (''NL80211_CHAN_WIDTH_320'', NL80211_CHAN_WIDTH_320)]"
  by (simp add: gives_def nl80211_chan_width_def)

lemma nl80211_bss_agree:
  "gives nl80211_bss
    [(''NL80211_BSS_BSSID'', NL80211_BSS_BSSID), (''NL80211_BSS_FREQUENCY'', NL80211_BSS_FREQUENCY),
     (''NL80211_BSS_TSF'', NL80211_BSS_TSF), (''NL80211_BSS_CAPABILITY'', NL80211_BSS_CAPABILITY),
     (''NL80211_BSS_INFORMATION_ELEMENTS'', NL80211_BSS_INFORMATION_ELEMENTS),
     (''NL80211_BSS_SIGNAL_MBM'', NL80211_BSS_SIGNAL_MBM), (''NL80211_BSS_STATUS'', NL80211_BSS_STATUS),
     (''NL80211_BSS_BEACON_TSF'', NL80211_BSS_BEACON_TSF),
     (''NL80211_BSS_LAST_SEEN_BOOTTIME'', NL80211_BSS_LAST_SEEN_BOOTTIME),
     (''NL80211_BSS_CHAIN_SIGNAL'', NL80211_BSS_CHAIN_SIGNAL)]"
  by (simp add: gives_def nl80211_bss_def)

lemma nl80211_bss_status_agree:
  "gives nl80211_bss_status
    [(''NL80211_BSS_STATUS_AUTHENTICATED'', NL80211_BSS_STATUS_AUTHENTICATED),
     (''NL80211_BSS_STATUS_ASSOCIATED'', NL80211_BSS_STATUS_ASSOCIATED)]"
  by (simp add: gives_def nl80211_bss_status_def)

lemma nl80211_band_agree:
  "gives nl80211_band
    [(''NL80211_BAND_2GHZ'', NL80211_BAND_2GHZ), (''NL80211_BAND_5GHZ'', NL80211_BAND_5GHZ),
     (''NL80211_BAND_60GHZ'', NL80211_BAND_60GHZ), (''NL80211_BAND_6GHZ'', NL80211_BAND_6GHZ)]"
  by (simp add: gives_def nl80211_band_def)

lemma nl80211_feature_flags_agree:
  "gives nl80211_feature_flags
    [(''NL80211_FEATURE_SCAN_RANDOM_MAC_ADDR'', unat NL80211_FEATURE_SCAN_RANDOM_MAC_ADDR),
     (''NL80211_FEATURE_SCHED_SCAN_RANDOM_MAC_ADDR'', unat NL80211_FEATURE_SCHED_SCAN_RANDOM_MAC_ADDR)]"
  by (simp add: gives_def nl80211_feature_flags_def)

lemma nl80211_ext_feature_index_1_agree:
  "piece 0 nl80211_ext_feature_index_1
    [(''NL80211_EXT_FEATURE_SCHED_SCAN_RELATIVE_RSSI'', NL80211_EXT_FEATURE_SCHED_SCAN_RELATIVE_RSSI),
     (''NL80211_EXT_FEATURE_LOW_SPAN_SCAN'', NL80211_EXT_FEATURE_LOW_SPAN_SCAN),
     (''NL80211_EXT_FEATURE_LOW_POWER_SCAN'', NL80211_EXT_FEATURE_LOW_POWER_SCAN),
     (''NL80211_EXT_FEATURE_HIGH_ACCURACY_SCAN'', NL80211_EXT_FEATURE_HIGH_ACCURACY_SCAN)] 31"
  by (simp add: piece_def nl80211_ext_feature_index_1_def)

lemma nl80211_ext_feature_index_2_agree:
  "piece 31 nl80211_ext_feature_index_2
    [] 61"
  by (simp add: piece_def nl80211_ext_feature_index_2_def)

lemmas nl80211_ext_feature_index_agree = gives_piece [OF piece_append [OF nl80211_ext_feature_index_1_agree nl80211_ext_feature_index_2_agree], folded nl80211_ext_feature_index_def]

lemma nl80211_scan_flags_agree:
  "gives nl80211_scan_flags
    [(''NL80211_SCAN_FLAG_RANDOM_ADDR'', unat NL80211_SCAN_FLAG_RANDOM_ADDR),
     (''NL80211_SCAN_FLAG_LOW_SPAN'', unat NL80211_SCAN_FLAG_LOW_SPAN),
     (''NL80211_SCAN_FLAG_LOW_POWER'', unat NL80211_SCAN_FLAG_LOW_POWER),
     (''NL80211_SCAN_FLAG_HIGH_ACCURACY'', unat NL80211_SCAN_FLAG_HIGH_ACCURACY),
     (''NL80211_SCAN_FLAG_COLOCATED_6GHZ'', unat NL80211_SCAN_FLAG_COLOCATED_6GHZ)]"
  by (simp add: gives_def nl80211_scan_flags_def)

lemma nl80211_dfs_state_agree:
  "gives nl80211_dfs_state
    [(''NL80211_DFS_USABLE'', NL80211_DFS_USABLE), (''NL80211_DFS_AVAILABLE'', NL80211_DFS_AVAILABLE)]"
  by (simp add: gives_def nl80211_dfs_state_def)

lemma nl80211_protocol_features_agree:
  "gives nl80211_protocol_features
    [(''NL80211_PROTOCOL_FEATURE_SPLIT_WIPHY_DUMP'', unat NL80211_PROTOCOL_FEATURE_SPLIT_WIPHY_DUMP)]"
  by (simp add: gives_def nl80211_protocol_features_def)

lemma nl80211_sched_scan_plan_agree:
  "gives nl80211_sched_scan_plan
    [(''NL80211_SCHED_SCAN_PLAN_INTERVAL'', NL80211_SCHED_SCAN_PLAN_INTERVAL),
     (''NL80211_SCHED_SCAN_PLAN_ITERATIONS'', NL80211_SCHED_SCAN_PLAN_ITERATIONS)]"
  by (simp add: gives_def nl80211_sched_scan_plan_def)

end
