(* ===== verification/Spec2Isabelle.thy ===== *)
theory Spec2Isabelle
  imports Netlink_Properties Parcel_Properties Main_Program Client_Properties Registry
    Dump_Properties Wiphy_Queries Scan_Queries Station_Queries Nl80211_Enums
begin

text \<open>
  A model of wificond, the daemon through which Android's framework talks to the nl80211
  interface of the Linux kernel, and the properties that make it correct.

  \<^bold>\<open>The program.\<close> One process with one thread. An event loop (\<open>looper_backed_event_loop.cpp\<close>) waits for
  calls of other processes on the binder driver and for datagrams of the kernel on a netlink socket.
  A call reaches an object: the server (\<open>server.cpp\<close>), a client interface, an access point interface
  or a scanner. Most calls send a request to the kernel and wait for the answer
  (\<open>netlink_utils.cpp\<close>, \<open>scan_utils.cpp\<close>, on top of \<open>netlink_manager.cpp\<close>). While a request waits, and
  when the loop finds a datagram, notifications of the kernel run the handlers that the objects have
  registered with the netlink manager; a handler may send requests itself. Packets and attributes
  (\<open>nl80211_packet.cpp\<close>, \<open>nl80211_attribute.cpp\<close>) are byte vectors that are read and written in place.

  \<^bold>\<open>Conventions.\<close> A C++ function is a function of the same name here (\<open>Client_\<close>, \<open>Ap_\<close>, \<open>Scanner_\<close> or
  \<open>Packet_\<close> tells functions of the same name apart). The state of the process is one record that grows
  by extension with the classes that own its fields: \<open>nlm\<close> (\<open>NetlinkManager\<close>), \<open>nlu\<close> (\<open>NetlinkUtils\<close>),
  \<open>scu\<close> (\<open>ScanUtils\<close>), \<open>ifs\<close> (the heap of interface, scanner and binder objects, tables from identities
  to members) and \<open>srv\<close> (\<open>Server\<close>). A function that may end in undefined behaviour or in a failed
  \<open>CHECK\<close> has a result in \<open>fault + 'a\<close>: reading out of bounds, signed overflow, use of an uninitialised
  value, of a null pointer or of an object that was deleted are values of \<open>fault\<close>, so that their absence
  is a theorem; \<open>No_Return\<close> is a search that never ends. A fault ends what is running and, in the event
  loop, the process. Integers have their width in the source. A \<open>std::map\<close> is a list in key order. Calls to other
  processes and to the interface tool are recorded in \<open>remote_calls\<close>, in their order.

  \<^bold>\<open>What stands for the world.\<close> What the kernel answers to the requests is a script in the state,
  \<open>net_script\<close>: for each request whether it can be sent and what each poll brings, with the time it
  takes. The properties quantify over it. \<open>run\<close>, an argument of every function that may run handlers,
  is the dispatcher of \<open>Server\<close>; it is closed by \<open>dispatch n\<close>, in which handlers nest at most \<open>n\<close> deep,
  and a deeper nesting is the fault \<open>Call_Depth\<close>. Safety is proved for all \<open>n\<close>; the examples need no
  more than three. The memory of objects that a constructor leaves indeterminate is part of
  the state (\<open>fresh_client\<close> and so on), and the properties hold for any contents. \<open>android::Parcel\<close>,
  \<open>android::Looper\<close> and the HIDL library are records of operations, parameters of the definitions that
  call them. Of the looper it is assumed that a message that was sent stays due until it is handed out,
  and that a poll hands one out when one is due (\<open>message_queue\<close>), but neither an order nor whether
  messages that are posted by a callback are handled in the same call of \<open>pollOnce\<close> or a later one.

  \<^bold>\<open>Theories\<close>, in the order in which they build on each other:
  \<^item> \<open>Prelude\<close>, \<open>Ordered_Map\<close>: results, little-endian fields, maps.
  \<^item> \<open>Nl80211_Constants\<close>, \<open>Nl80211_Enums\<close>: the numbers of \<open>nl80211.h\<close> and of the AIDL interfaces; the
    enumerations of the header with the proof that the numbers are theirs.
  \<^item> \<open>Nl80211_Attribute\<close>, \<open>Nl80211_Packet\<close>, \<open>Wire_Properties\<close>: encoding. The locale \<open>attr_codec\<close> states
    what a payload type must satisfy and is interpreted for the seven that the program uses.
  \<^item> \<open>Mlme_Event\<close>, \<open>Netlink_Manager\<close>, \<open>Netlink_Requests\<close>: events, the manager, and what a request
    returns. The locales \<open>handler_relation\<close> and \<open>handler_contract\<close> are what the manager relies on when
    it runs a handler; \<open>Handler_Frames\<close> interprets them on the dispatcher of the whole program.
  \<^item> \<open>Wiphy_Info\<close>, \<open>Netlink_Utils\<close>, \<open>Scan_Utils\<close>, with \<open>Wiphy_Properties\<close> and \<open>Scan_Properties\<close>.
  \<^item> \<open>Interface_State\<close>, \<open>Scanner_Impl\<close>, \<open>Client_Interface\<close>, \<open>Ap_Interface\<close>, \<open>Server\<close>, \<open>Server_Dump\<close>:
    the objects and their methods.
  \<^item> \<open>Object_Invariant\<close>: \<open>objects_ok\<close>, the invariant of all objects and handler tables, and that every
    operation keeps it. \<open>Server_Steps\<close>: requests and datagrams as steps, the reachable states.
    \<open>Object_Safety\<close>: no step reaches an object that is gone (locale \<open>safe_runs\<close>).
  \<^item> \<open>Netlink_Properties\<close>, \<open>Startup_Properties\<close>, \<open>Server_Properties\<close>, \<open>Client_Properties\<close>: what requests,
    the start-up, the creation and removal of interfaces, scans and frames do.
  \<^item> \<open>Wiphy_Queries\<close>: the queries for channels and capabilities from the split dump of the kernel to the
    answer, against a description of a radio by its bands. \<open>Scan_Queries\<close>, \<open>Station_Queries\<close>: the same for
    scan results and for the statistics of the connection.
  \<^item> \<open>Registry\<close>: a specification of the server as a registry of names and callbacks, and the proof that
    the server implements it. \<open>Dump_Properties\<close>: the report.
  \<^item> \<open>Parcelables\<close>, \<open>Parcel_Properties\<close>: the classes that cross process boundaries; the locale
    \<open>parcel_format\<close> is what they need of a parcel, interpreted on a byte format.
  \<^item> \<open>Event_Loop\<close>, \<open>Main_Program\<close>: the loop (locale \<open>message_queue\<close>, interpreted on a queue) and the
    process from \<open>main\<close> to its exit.
  \<^item> \<open>Example_State\<close>: the concrete states at which the properties are applied.

  \<^bold>\<open>What is shown.\<close> Memory safety of the wire format and its limits; that answers belong to their request,
  are collected completely and reassembled; that what is encoded is read back, for attributes,
  packets, scan requests and parcels; that what the kernel reports of networks, radios and stations
  is what the caller is told; that parameters of scans stay within what the
  device announces; that events reach exactly the objects they are for; that the objects are in order in
  every reachable state, whatever clients and the kernel do, and that the server implements the
  registry; that requests and the event loop do return when they should.

  \<^bold>\<open>Loops and fuel.\<close> Loops over buffers are recursive functions with a measure where they end. The three
  that may not end are partial functions whose value \<open>None\<close> is not returning: \<open>GetAttributeLoop\<close>, the
  deliveries of one \<open>pollOnce\<close> (\<open>deliveries\<close>) and the event loop \<open>Poll\<close>. For the first the property on its
  termination says exactly when it ends. For the loop it is shown that it ends after an exit was asked
  for, if the callbacks post finitely many messages, as those of the service do (they post none);
  \<open>self_posting_never_ends\<close> shows that this is needed. The depth of \<open>dispatch\<close> is the only fuel.

  \<^bold>\<open>Not modelled.\<close> Log output; \<open>DebugLog\<close> of parcelables, which only logs; what the service manager does when a service is registered with it,
  beyond its answer; the enumerations of \<open>nl80211.h\<close> that the program takes nothing from. The loop runs
  in one thread: \<open>TriggerExit\<close> in the signal handler happens between two callbacks. Memory exhaustion and exceptions of the standard library are not modelled, nor is the time that
  passes outside of polls.
\<close>

end
